(* ===== verification/Errors.thy ===== *)
theory Errors
  imports Complex_Main
begin

text \<open>
  The domain exceptions of \<open>backend/app/core/errors.py\<close>: one constructor per exception class with
  the arguments that identify the failure, and the machine-readable code and HTTP status the
  handler registered for \<open>RevenueRescueException\<close> answers with.
\<close>

datatype app_error =
    EntityNotFound string string
  | DuplicateEntity string string
  | PolicyViolation string string
  | DatabaseConnection string
  | InvalidStateTransition string string
  | IdempotencyConflict string string
  | MalformedRequest string "string option"
  | Unauthorized string
  | Forbidden string
  | EventValidation string "string option"
  | ConflictingDuplicateEvent string string
  | UnauthorizedEventSource string
  | UnsupportedEventType string

fun error_code :: "app_error \<Rightarrow> string" where
  "error_code (EntityNotFound _ _) = ''RESOURCE_NOT_FOUND''"
| "error_code (DuplicateEntity _ _) = ''DUPLICATE_ENTITY''"
| "error_code (PolicyViolation _ _) = ''POLICY_VIOLATION''"
| "error_code (DatabaseConnection _) = ''DATABASE_UNAVAILABLE''"
| "error_code (InvalidStateTransition _ _) = ''INVALID_STATE_TRANSITION''"
| "error_code (IdempotencyConflict _ _) = ''IDEMPOTENCY_CONFLICT''"
| "error_code (MalformedRequest _ _) = ''MALFORMED_REQUEST''"
| "error_code (Unauthorized _) = ''UNAUTHORIZED''"
| "error_code (Forbidden _) = ''FORBIDDEN''"
| "error_code (EventValidation _ _) = ''EVENT_VALIDATION_FAILED''"
| "error_code (ConflictingDuplicateEvent _ _) = ''CONFLICTING_DUPLICATE_EVENT''"
| "error_code (UnauthorizedEventSource _) = ''UNAUTHORIZED_EVENT_SOURCE''"
| "error_code (UnsupportedEventType _) = ''UNSUPPORTED_EVENT_TYPE''"

fun status_code :: "app_error \<Rightarrow> int" where
  "status_code (EntityNotFound _ _) = 404"
| "status_code (DuplicateEntity _ _) = 409"
| "status_code (PolicyViolation _ _) = 422"
| "status_code (DatabaseConnection _) = 503"
| "status_code (InvalidStateTransition _ _) = 400"
| "status_code (IdempotencyConflict _ _) = 409"
| "status_code (MalformedRequest _ _) = 400"
| "status_code (Unauthorized _) = 401"
| "status_code (Forbidden _) = 403"
| "status_code (EventValidation _ _) = 422"
| "status_code (ConflictingDuplicateEvent _ _) = 409"
| "status_code (UnauthorizedEventSource _) = 401"
| "status_code (UnsupportedEventType _) = 400"

text \<open>A domain exception is a client error, but for the unavailable database.\<close>

lemma status_client_error:
  "400 \<le> status_code e \<and> (status_code e < 500 \<longleftrightarrow> error_code e \<noteq> ''DATABASE_UNAVAILABLE'')"
  by (cases e) simp_all

end
