(* ===== verification/Prelude.thy ===== *)
theory Prelude
  imports Errors
begin

text \<open>
  Shared vocabulary of the development.

  \<^item> \<open>py_error\<close> and \<open>ebind\<close>: a Python exception is a value \<open>Inl e\<close>, a normal return is
    \<open>Inr v\<close>, and \<open>ebind\<close> sequences two fallible computations.
  \<^item> strings: \<open>py_lower\<close>, \<open>py_upper\<close>, \<open>py_strip\<close>, \<open>contains\<close>, \<open>starts_with\<close> and
    \<open>str_of_int\<close> are the \<open>str\<close> operations the source uses, on ASCII text.
  \<^item> date-times: \<open>pydatetime\<close> distinguishes naive from timezone-aware values, because
    comparing the two raises \<open>TypeError\<close> in Python. Values count microseconds.
  \<^item> JSON payloads and the lemma collections \<open>model_simps\<close> (unfolding of small helpers) and
    \<open>err_simps\<close> (the laws of the error monad).
\<close>

named_theorems model_simps \<open>definitions of small helpers that proofs unfold freely\<close>
named_theorems err_simps \<open>laws of the error monad and of fallible comparisons\<close>

section \<open>Errors as values\<close>

datatype py_error =
    ValueError string
  | TypeError
  | KeyError
  | IndexError
  | IntegrityError string
  | AttributeError
  | AppError app_error

fun ebind :: "'e + 'a \<Rightarrow> ('a \<Rightarrow> 'e + 'b) \<Rightarrow> 'e + 'b" where
  "ebind (Inl e) f = Inl e"
| "ebind (Inr x) f = f x"

lemma ebind_eq_Inr [err_simps]: "ebind m f = Inr y \<longleftrightarrow> (\<exists>x. m = Inr x \<and> f x = Inr y)"
  by (cases m) auto

lemma ebind_eq_Inl: "ebind m f = Inl e \<longleftrightarrow> m = Inl e \<or> (\<exists>x. m = Inr x \<and> f x = Inl e)"
  by (cases m) auto

lemma ebind_split:
  "P (ebind m f) \<longleftrightarrow> (\<forall>e. m = Inl e \<longrightarrow> P (Inl e)) \<and> (\<forall>x. m = Inr x \<longrightarrow> P (f x))"
  by (cases m) auto

lemma ebind_Inr_right [simp]: "ebind m Inr = m"
  by (cases m) auto

lemma ebind_assoc: "ebind (ebind m f) g = ebind m (\<lambda>x. ebind (f x) g)"
  by (cases m) auto

text \<open>A list comprehension whose element expression may raise.\<close>

fun map_ok :: "('a \<Rightarrow> 'e + 'b) \<Rightarrow> 'a list \<Rightarrow> 'e + 'b list" where
  "map_ok f [] = Inr []"
| "map_ok f (x # xs) = ebind (f x) (\<lambda>y. ebind (map_ok f xs) (\<lambda>ys. Inr (y # ys)))"

lemma map_ok_Inr: "(\<And>x. x \<in> set xs \<Longrightarrow> f (g x) = Inr x) \<Longrightarrow> map_ok f (map g xs) = Inr xs"
  by (induction xs) auto

lemma map_ok_length: "map_ok f xs = Inr ys \<Longrightarrow> length ys = length xs"
  by (induction xs arbitrary: ys) (auto simp: err_simps)

definition is_ok :: "'e + 'a \<Rightarrow> bool" where
  "is_ok r = (case r of Inl _ \<Rightarrow> False | Inr _ \<Rightarrow> True)"

lemma is_ok_iff [simp]: "is_ok r \<longleftrightarrow> (\<exists>x. r = Inr x)"
  by (auto simp: is_ok_def split: sum.splits)

section \<open>Strings\<close>

type_synonym uuid = string

text \<open>The whitespace that \<open>str.strip()\<close> removes, among ASCII code points.\<close>

definition py_space :: "char \<Rightarrow> bool" where
  "py_space c = (let n = (of_char c :: nat) in (9 \<le> n \<and> n \<le> 13) \<or> (28 \<le> n \<and> n \<le> 32))"

definition py_strip :: "string \<Rightarrow> string" where
  "py_strip s = rev (dropWhile py_space (rev (dropWhile py_space s)))"

definition lower_char :: "char \<Rightarrow> char" where
  "lower_char c = (let n = (of_char c :: nat) in if 65 \<le> n \<and> n \<le> 90 then char_of (n + 32) else c)"

definition upper_char :: "char \<Rightarrow> char" where
  "upper_char c = (let n = (of_char c :: nat) in if 97 \<le> n \<and> n \<le> 122 then char_of (n - 32) else c)"

definition py_lower :: "string \<Rightarrow> string" where
  "py_lower s = map lower_char s"

definition py_upper :: "string \<Rightarrow> string" where
  "py_upper s = map upper_char s"

definition starts_with :: "string \<Rightarrow> string \<Rightarrow> bool" where
  "starts_with p s = (take (length p) s = p)"

text \<open>\<open>contains needle s\<close> is Python's \<open>needle in s\<close>.\<close>

fun contains :: "string \<Rightarrow> string \<Rightarrow> bool" where
  "contains p [] = (p = [])"
| "contains p (c # cs) = (starts_with p (c # cs) \<or> contains p cs)"

lemma contains_append: "contains p (xs @ p @ ys)"
proof (induction xs)
  case Nil
  have "starts_with p (p @ ys)" by (simp add: starts_with_def)
  then show ?case by (cases "p @ ys") auto
next
  case (Cons x xs)
  then show ?case by simp
qed

lemma contains_iff: "contains p s \<longleftrightarrow> (\<exists>xs ys. s = xs @ p @ ys)"
proof
  assume "contains p s"
  then show "\<exists>xs ys. s = xs @ p @ ys"
  proof (induction s)
    case Nil
    then show ?case by simp
  next
    case (Cons c cs)
    show ?case
    proof (cases "starts_with p (c # cs)")
      case True
      then have "c # cs = [] @ p @ drop (length p) (c # cs)"
        unfolding starts_with_def by (metis append_Nil append_take_drop_id)
      then show ?thesis by blast
    next
      case False
      with Cons obtain xs ys where "cs = xs @ p @ ys" by auto
      then have "c # cs = (c # xs) @ p @ ys" by simp
      then show ?thesis by blast
    qed
  qed
qed (auto simp: contains_append)

text \<open>A string option is truthy when it is present and not empty.\<close>

fun truthy :: "string option \<Rightarrow> bool" where
  "truthy None = False"
| "truthy (Some s) = (s \<noteq> [])"

definition or_empty :: "string option \<Rightarrow> string" where
  "or_empty s = (case s of None \<Rightarrow> [] | Some t \<Rightarrow> t)"

text \<open>\<open>(s or '').strip().lower()\<close>, the normalisation of failure codes.\<close>

definition norm_code :: "string option \<Rightarrow> string" where
  "norm_code s = py_lower (py_strip (or_empty s))"

text \<open>\<open>UUID.hex\<close> on the canonical text of a uuid.\<close>

definition uuid_hex :: "uuid \<Rightarrow> string" where
  "uuid_hex u = filter (\<lambda>ch. ch \<noteq> CHR ''-'') u"

subsection \<open>Decimal rendering of integers\<close>

definition digit_char :: "nat \<Rightarrow> char" where
  "digit_char d = char_of (48 + d)"

fun str_of_nat :: "nat \<Rightarrow> string" where
  "str_of_nat n = (if n < 10 then [digit_char n] else str_of_nat (n div 10) @ [digit_char (n mod 10)])"

declare str_of_nat.simps [simp del]

definition str_of_int :: "int \<Rightarrow> string" where
  "str_of_int i = (if i < 0 then CHR ''-'' # str_of_nat (nat (- i)) else str_of_nat (nat i))"

lemma of_char_digit [simp]: "d < 10 \<Longrightarrow> (of_char (digit_char d) :: nat) = 48 + d"
  by (simp add: digit_char_def)

lemma digit_char_inject: "a < 10 \<Longrightarrow> b < 10 \<Longrightarrow> digit_char a = digit_char b \<longleftrightarrow> a = b"
  by (metis add_left_cancel of_char_digit)

lemma str_of_nat_not_Nil [simp]: "str_of_nat n \<noteq> []"
  by (subst str_of_nat.simps) simp

lemma str_of_nat_digits: "c \<in> set (str_of_nat n) \<Longrightarrow> 48 \<le> (of_char c :: nat) \<and> (of_char c :: nat) < 58"
proof (induction n rule: str_of_nat.induct)
  case (1 n)
  show ?case
  proof (cases "n < 10")
    case True
    with "1.prems" show ?thesis by (simp add: str_of_nat.simps [of n])
  next
    case False
    with "1.prems" have "c \<in> set (str_of_nat (n div 10)) \<or> c = digit_char (n mod 10)"
      by (auto simp: str_of_nat.simps [of n])
    with False "1.IH" show ?thesis by auto
  qed
qed

lemma str_of_nat_inject: "str_of_nat m = str_of_nat n \<longleftrightarrow> m = n"
proof
  assume "str_of_nat m = str_of_nat n"
  then show "m = n"
  proof (induction m arbitrary: n rule: str_of_nat.induct)
    case (1 m)
    have len: "\<And>k. 10 \<le> k \<Longrightarrow> 2 \<le> length (str_of_nat k)"
    proof -
      fix k :: nat
      assume "10 \<le> k"
      then have "length (str_of_nat k) = Suc (length (str_of_nat (k div 10)))"
        by (simp add: str_of_nat.simps [of k])
      moreover have "1 \<le> length (str_of_nat (k div 10))"
        by (simp add: Suc_le_eq)
      ultimately show "2 \<le> length (str_of_nat k)" by linarith
    qed
    show ?case
    proof (cases "m < 10")
      case True
      then have one: "length (str_of_nat m) = 1" by (simp add: str_of_nat.simps [of m])
      with "1.prems" len [of n] have "n < 10" by fastforce
      with True "1.prems" show ?thesis
        by (simp add: str_of_nat.simps [of m] str_of_nat.simps [of n] digit_char_inject)
    next
      case False
      with len [of m] "1.prems" have n10: "\<not> n < 10"
        by (auto simp: str_of_nat.simps [of n])
      with False "1.prems" have "str_of_nat (m div 10) = str_of_nat (n div 10)"
        and d: "digit_char (m mod 10) = digit_char (n mod 10)"
        by (simp_all add: str_of_nat.simps [of m] str_of_nat.simps [of n])
      with False "1.IH" have "m div 10 = n div 10" by blast
      moreover from d have "m mod 10 = n mod 10" by (simp add: digit_char_inject)
      ultimately show ?thesis by (metis div_mult_mod_eq)
    qed
  qed
qed simp

lemma minus_not_in_str_of_nat: "CHR ''-'' \<notin> set (str_of_nat n)"
  using str_of_nat_digits [of "CHR ''-''" n] by auto

lemma str_of_int_inject: "str_of_int i = str_of_int j \<longleftrightarrow> i = j"
proof -
  have no: "CHR ''-'' # xs \<noteq> str_of_nat n" for xs n
    using minus_not_in_str_of_nat [of n] by (metis list.set_intros(1))
  show ?thesis
    using no [of "str_of_nat (nat (- i))" "nat j"] no [of "str_of_nat (nat (- j))" "nat i", symmetric]
    by (auto simp: str_of_int_def str_of_nat_inject)
qed

lemma colon_not_in_str_of_int: "CHR '':'' \<notin> set (str_of_int i)"
  using str_of_nat_digits [of "CHR '':''"] by (auto simp: str_of_int_def)

text \<open>Two strings cut at the first separator agree on both sides of it.\<close>

lemma split_at_unique:
  assumes "xs @ c # ys = xs' @ c # ys'" and "c \<notin> set xs" and "c \<notin> set xs'"
  shows "xs = xs' \<and> ys = ys'"
  using assms
proof (induction xs arbitrary: xs')
  case Nil
  then show ?case by (cases xs') auto
next
  case (Cons x xs)
  then show ?case by (cases xs') auto
qed

section \<open>Date-times\<close>

text \<open>
  \<open>Naive w\<close> is a \<open>datetime\<close> without \<open>tzinfo\<close> whose wall-clock reading is \<open>w\<close> microseconds;
  \<open>Aware i\<close> is a timezone-aware one denoting the UTC instant \<open>i\<close>. Comparison and subtraction
  of two aware values depend on the instants only, so the offset itself is not kept.
\<close>

datatype pydatetime = Naive int | Aware int

fun is_aware :: "pydatetime \<Rightarrow> bool" where
  "is_aware (Naive _) = False"
| "is_aware (Aware _) = True"

fun instant :: "pydatetime \<Rightarrow> int" where
  "instant (Naive w) = w"
| "instant (Aware i) = i"

text \<open>\<open>dt.replace(tzinfo=timezone.utc)\<close> where the value is naive, as every guard of the source
  has it, and \<open>dt.astimezone(timezone.utc)\<close> where it is aware (the instant is the same).\<close>

definition as_utc :: "pydatetime \<Rightarrow> pydatetime" where
  "as_utc d = Aware (instant d)"

lemma as_utc_Aware [simp]: "as_utc (Aware i) = Aware i"
  by (simp add: as_utc_def)

lemma is_aware_as_utc [simp]: "is_aware (as_utc d)"
  by (simp add: as_utc_def)

lemma instant_as_utc [simp]: "instant (as_utc d) = instant d"
  by (simp add: as_utc_def)

definition dt_ge :: "pydatetime \<Rightarrow> pydatetime \<Rightarrow> py_error + bool" where
  "dt_ge a b = (if is_aware a = is_aware b then Inr (instant a \<ge> instant b) else Inl TypeError)"

definition dt_sub :: "pydatetime \<Rightarrow> pydatetime \<Rightarrow> py_error + int" where
  "dt_sub a b = (if is_aware a = is_aware b then Inr (instant a - instant b) else Inl TypeError)"

definition add_us :: "pydatetime \<Rightarrow> int \<Rightarrow> pydatetime" where
  "add_us d k = (case d of Naive w \<Rightarrow> Naive (w + k) | Aware i \<Rightarrow> Aware (i + k))"

lemma dt_ge_aware [err_simps]: "is_aware a \<Longrightarrow> is_aware b \<Longrightarrow> dt_ge a b = Inr (instant a \<ge> instant b)"
  by (simp add: dt_ge_def)

lemma dt_sub_aware [err_simps]: "is_aware a \<Longrightarrow> is_aware b \<Longrightarrow> dt_sub a b = Inr (instant a - instant b)"
  by (simp add: dt_sub_def)

text \<open>
  The two-branch normalisation the source repeats before comparing: whichever side is naive
  takes UTC when the other one is aware. The pair it returns is always comparable.
\<close>

definition align_tz :: "pydatetime \<Rightarrow> pydatetime \<Rightarrow> pydatetime \<times> pydatetime" where
  "align_tz t now =
     (if \<not> is_aware t \<and> is_aware now then (as_utc t, now)
      else if is_aware t \<and> \<not> is_aware now then (t, as_utc now)
      else (t, now))"

lemma align_tz_comparable: "align_tz t now = (t', now') \<Longrightarrow> is_aware t' = is_aware now'"
  by (auto simp: align_tz_def split: if_splits)

lemma align_tz_instant [simp]: "instant (fst (align_tz t now)) = instant t"
  "instant (snd (align_tz t now)) = instant now"
  by (auto simp: align_tz_def)

definition us_per_second :: int where "us_per_second = 1000000"
definition us_per_hour :: int where "us_per_hour = 3600 * 1000000"

declare us_per_second_def [model_simps] us_per_hour_def [model_simps]

section \<open>JSON values and SQL helpers\<close>

datatype json =
    JNull
  | JBool bool
  | JInt int
  | JStr string
  | JList "json list"
  | JObj "(string \<times> json) list"

type_synonym payload = "(string \<times> json) list"

definition jopt :: "string option \<Rightarrow> json" where
  "jopt s = (case s of None \<Rightarrow> JNull | Some t \<Rightarrow> JStr t)"

text \<open>The truth value of a JSON value, \<open>d.get(k)\<close>, and \<open>a or b\<close>.\<close>

fun json_truthy :: "json \<Rightarrow> bool" where
  "json_truthy JNull = False"
| "json_truthy (JBool b) = b"
| "json_truthy (JInt i) = (i \<noteq> 0)"
| "json_truthy (JStr s) = (s \<noteq> [])"
| "json_truthy (JList xs) = (xs \<noteq> [])"
| "json_truthy (JObj d) = (d \<noteq> [])"

definition json_get :: "payload \<Rightarrow> string \<Rightarrow> json" where
  "json_get d k = (case map_of d k of None \<Rightarrow> JNull | Some v \<Rightarrow> v)"

definition json_or :: "json \<Rightarrow> json \<Rightarrow> json" where
  "json_or a b = (if json_truthy a then a else b)"

text \<open>
  \<open>str(v)\<close> of a JSON value: a string is itself, anything else its \<open>repr\<close>, where a string is quoted
  with the quote it does not contain and control characters are escaped.
\<close>

definition hex_digit :: "nat \<Rightarrow> char" where
  "hex_digit d = (if d < 10 then char_of (48 + d) else char_of (87 + d))"

definition repr_char :: "char \<Rightarrow> char \<Rightarrow> string" where
  "repr_char q c =
     (let n = (of_char c :: nat)
      in if c = CHR 0x5C then [CHR 0x5C, CHR 0x5C]
         else if c = q then [CHR 0x5C, c]
         else if n = 10 then [CHR 0x5C, CHR ''n'']
         else if n = 13 then [CHR 0x5C, CHR ''r'']
         else if n = 9 then [CHR 0x5C, CHR ''t'']
         else if n < 32 \<or> n = 127
         then [CHR 0x5C, CHR ''x'', hex_digit (n div 16), hex_digit (n mod 16)]
         else [c])"

definition repr_str :: "string \<Rightarrow> string" where
  "repr_str s =
     (let q = (if CHR 0x27 \<in> set s \<and> CHR 0x22 \<notin> set s then CHR 0x22 else CHR 0x27)
      in [q] @ concat (map (repr_char q) s) @ [q])"

fun join_with :: "string \<Rightarrow> string list \<Rightarrow> string" where
  "join_with sep [] = []"
| "join_with sep [x] = x"
| "join_with sep (x # y # zs) = x @ sep @ join_with sep (y # zs)"

fun py_repr :: "json \<Rightarrow> string" where
  "py_repr JNull = ''None''"
| "py_repr (JBool b) = (if b then ''True'' else ''False'')"
| "py_repr (JInt i) = str_of_int i"
| "py_repr (JStr s) = repr_str s"
| "py_repr (JList xs) = ''['' @ join_with '', '' (map py_repr xs) @ '']''"
| "py_repr (JObj d) = ''{'' @ join_with '', '' (map (\<lambda>(k, v). repr_str k @ '': '' @ py_repr v) d) @ ''}''"

definition py_str :: "json \<Rightarrow> string" where
  "py_str v = (case v of JStr s \<Rightarrow> s | _ \<Rightarrow> py_repr v)"

text \<open>
  A Python dict as an association list in insertion order: assigning an existing key keeps its
  place, a new key goes to the end.
\<close>

fun dict_set :: "'k \<Rightarrow> 'v \<Rightarrow> ('k \<times> 'v) list \<Rightarrow> ('k \<times> 'v) list" where
  "dict_set k v [] = [(k, v)]"
| "dict_set k v ((k', v') # d) = (if k = k' then (k, v) # d else (k', v') # dict_set k v d)"

definition dict_update :: "('k \<times> 'v) list \<Rightarrow> ('k \<times> 'v) list \<Rightarrow> ('k \<times> 'v) list" where
  "dict_update d upd = fold (\<lambda>(k, v). dict_set k v) upd d"

lemma map_of_dict_set [simp]: "map_of (dict_set k v d) = (map_of d)(k \<mapsto> v)"
  by (induction d) (auto simp: fun_eq_iff)

lemma dict_update_other: "k \<notin> fst ` set upd \<Longrightarrow> map_of (dict_update d upd) k = map_of d k"
  by (induction upd arbitrary: d) (auto simp: dict_update_def)

lemma keys_dict_set: "fst ` set (dict_set k v d) = insert k (fst ` set d)"
proof -
  have "fst ` set e = dom (map_of e)" for e :: "('a \<times> 'b) list"
    by (simp add: dom_map_of_conv_image_fst)
  then show ?thesis by simp
qed

lemma distinct_dict_set: "distinct (map fst d) \<Longrightarrow> distinct (map fst (dict_set k v d))"
proof (induction d)
  case (Cons p d)
  then show ?case using keys_dict_set [of k v d] by (cases p) (auto simp flip: image_set)
qed simp

text \<open>\<open>select(func.max(col))\<close>: NULL on no rows; the source reads it as \<open>(x or 0) + 1\<close>.\<close>

fun sql_max :: "int list \<Rightarrow> int option" where
  "sql_max [] = None"
| "sql_max (x # xs) = (case sql_max xs of None \<Rightarrow> Some x | Some m \<Rightarrow> Some (max x m))"

definition next_seq :: "int list \<Rightarrow> int" where
  "next_seq xs = (case sql_max xs of None \<Rightarrow> 0 | Some m \<Rightarrow> m) + 1"

lemma sql_max_None [simp]: "sql_max xs = None \<longleftrightarrow> xs = []"
  by (cases xs) (auto split: option.splits)

lemma sql_max_upper: "sql_max xs = Some m \<Longrightarrow> x \<in> set xs \<Longrightarrow> x \<le> m"
proof (induction xs arbitrary: m)
  case (Cons y ys)
  then show ?case
    by (cases "sql_max ys") (auto simp: max_def split: if_splits)
qed simp

lemma sql_max_mem: "sql_max xs = Some m \<Longrightarrow> m \<in> set xs"
proof (induction xs arbitrary: m)
  case (Cons y ys)
  then show ?case
    by (cases "sql_max ys") (auto simp: max_def split: if_splits)
qed simp

lemma next_seq_gt: "x \<in> set xs \<Longrightarrow> x < next_seq xs"
  using sql_max_upper [of xs] by (fastforce simp: next_seq_def split: option.splits)

lemma next_seq_fresh: "next_seq xs \<notin> set xs"
  using next_seq_gt by blast

lemma next_seq_Nil [simp]: "next_seq [] = 1"
  by (simp add: next_seq_def)

lemma find_snoc: "find P xs = None \<Longrightarrow> P x \<Longrightarrow> find P (xs @ [x]) = Some x"
  by (induction xs) (auto split: if_splits)

text \<open>Replacing the row with a given key: an object mutated in the session's identity map.\<close>

definition upd_by :: "('a \<Rightarrow> 'k) \<Rightarrow> 'a \<Rightarrow> 'a list \<Rightarrow> 'a list" where
  "upd_by key x xs = map (\<lambda>y. if key y = key x then x else y) xs"

lemma map_key_upd_by [simp]: "map key (upd_by key x xs) = map key xs"
  by (simp add: upd_by_def)

lemma length_upd_by [simp]: "length (upd_by key x xs) = length xs"
  by (simp add: upd_by_def)

lemma set_upd_by: "y \<in> set (upd_by key x xs) \<Longrightarrow> y = x \<or> (y \<in> set xs \<and> key y \<noteq> key x)"
  by (auto simp: upd_by_def split: if_splits)

lemma find_upd_by_same:
  "find (\<lambda>y. key y = key x) xs \<noteq> None \<Longrightarrow> find (\<lambda>y. key y = key x) (upd_by key x xs) = Some x"
  by (induction xs) (auto simp: upd_by_def)

lemma find_upd_by_other:
  "k \<noteq> key x \<Longrightarrow> find (\<lambda>y. key y = k) (upd_by key x xs) = find (\<lambda>y. key y = k) xs"
  by (induction xs) (auto simp: upd_by_def)

lemma distinct_key_once: "distinct (map k xs) \<Longrightarrow> length (filter (\<lambda>x. k x = v) xs) \<le> 1"
proof (induction xs)
  case (Cons x xs)
  show ?case
  proof (cases "k x = v")
    case True
    with Cons.prems have "\<forall>y \<in> set xs. k y \<noteq> v" by (fastforce simp: image_iff)
    then have "filter (\<lambda>y. k y = v) xs = []" by simp
    with True show ?thesis by simp
  next
    case False
    with Cons show ?thesis by simp
  qed
qed simp

lemma find_append_Some: "find P xs = Some x \<Longrightarrow> find P (xs @ ys) = Some x"
  by (induction xs) (auto split: if_splits)

lemma find_SomeD: "find P xs = Some x \<Longrightarrow> P x \<and> x \<in> set xs"
  by (auto simp: find_Some_iff)

lemma filter_upd_by_unaffected:
  "(\<And>y. y \<in> set xs \<Longrightarrow> key y = key x \<Longrightarrow> \<not> P y) \<Longrightarrow> \<not> P x \<Longrightarrow> filter P (upd_by key x xs) = filter P xs"
  by (induction xs) (auto simp: upd_by_def)

section \<open>Rounding half to even\<close>

text \<open>The quotient \<open>a / b\<close> as the nearest integer, ties to the even one, for a positive \<open>b\<close>.\<close>

definition quotient_half_even :: "int \<Rightarrow> int \<Rightarrow> int" where
  "quotient_half_even a b =
     (let q = a div b; r = a mod b in if 2 * r < b \<or> (2 * r = b \<and> even q) then q else q + 1)"

lemma quotient_half_even_near: "0 < b \<Longrightarrow> 2 * \<bar>b * quotient_half_even a b - a\<bar> \<le> b"
proof -
  assume b: "0 < b"
  have d: "a = b * (a div b) + a mod b" by simp
  have r: "0 \<le> a mod b" "a mod b < b" using b by simp_all
  show ?thesis
  proof (cases "2 * (a mod b) < b \<or> (2 * (a mod b) = b \<and> even (a div b))")
    case True
    then have "quotient_half_even a b = a div b" by (simp add: quotient_half_even_def Let_def)
    then have "b * quotient_half_even a b = b * (a div b)" by simp
    then have "b * quotient_half_even a b - a = - (a mod b)" using d by linarith
    with True r show ?thesis by auto
  next
    case False
    then have "quotient_half_even a b = a div b + 1" by (simp add: quotient_half_even_def Let_def)
    then have "b * quotient_half_even a b = b * (a div b) + b" by (simp add: distrib_left)
    then have "b * quotient_half_even a b - a = b - a mod b" using d by linarith
    with False r show ?thesis by auto
  qed
qed

lemma quotient_half_even_unique:
  assumes "2 * \<bar>a - q * b\<bar> < b"
  shows "quotient_half_even a b = q"
proof -
  have b: "0 < b" using assms by (metis abs_ge_zero le_less_trans mult_nonneg_nonneg zero_le_numeral)
  let ?p = "quotient_half_even a b"
  have "2 * \<bar>b * ?p - a\<bar> \<le> b" by (rule quotient_half_even_near [OF b])
  moreover have "2 * \<bar>x - a\<bar> \<le> b \<Longrightarrow> 2 * \<bar>a - y\<bar> < b \<Longrightarrow> \<bar>x - y\<bar> < b" for x y
    by (auto simp: abs_if split: if_splits)
  ultimately have "\<bar>b * ?p - q * b\<bar> < b" using assms by blast
  then have "\<bar>?p - q\<bar> * b < 1 * b" using b by (simp add: abs_mult right_diff_distrib [symmetric] mult.commute)
  then have "\<bar>?p - q\<bar> < 1" using b by (simp only: mult_less_cancel_right_pos)
  then show ?thesis by simp
qed

text \<open>Sorting commutes with a map that keeps the keys.\<close>

lemma sort_key_map:
  assumes "\<And>x. k (f x) = k' x"
  shows "sort_key k (map f xs) = map f (sort_key k' xs)"
proof (induction xs)
  case (Cons x xs)
  have "insort_key k (f x) (map f ys) = map f (insort_key k' x ys)" for ys
    by (induction ys) (auto simp: assms)
  then show ?case using Cons by simp
qed simp

end
