(* ===== verification/Enums.thy ===== *)
theory Enums
  imports Prelude
begin

text \<open>
  The domain vocabulary of \<open>backend/app/core/enums.py\<close>: one datatype per \<open>StrEnum\<close> class, with
  the member's persisted string as a function \<open><type>_value\<close> and the members in declaration order
  as \<open><type>_members\<close>. \<open>parse_enum\<close> is the constructor call \<open>X("value")\<close>, which raises
  \<open>ValueError\<close> on a string that is no member's value. The locale \<open>str_enum\<close> states what makes such
  a class a faithful encoding; it is interpreted on every enumeration below.
\<close>

section \<open>The contract of a string enumeration\<close>

definition parse_enum :: "'a list \<Rightarrow> ('a \<Rightarrow> string) \<Rightarrow> string \<Rightarrow> py_error + 'a" where
  "parse_enum members value s =
     (case find (\<lambda>m. value m = s) members of
        None \<Rightarrow> Inl (ValueError s)
      | Some m \<Rightarrow> Inr m)"

locale str_enum =
  fixes members :: "'a list"
    and value_of :: "'a \<Rightarrow> string"
  assumes distinct_values: "distinct (map value_of members)"
    and all_members: "x \<in> set members"
begin

lemma value_inject: "value_of x = value_of y \<longleftrightarrow> x = y"
  using distinct_values all_members [of x] all_members [of y]
  by (auto simp: distinct_map inj_on_def)

lemma parse_value: "parse_enum members value_of (value_of x) = Inr x"
proof -
  have "find (\<lambda>m. value_of m = value_of x) members \<noteq> None"
    using all_members [of x] by (auto simp: find_None_iff)
  then obtain m where m: "find (\<lambda>m. value_of m = value_of x) members = Some m" by blast
  then have "value_of m = value_of x" by (auto dest: find_SomeD)
  with m show ?thesis by (simp add: parse_enum_def value_inject)
qed

lemma parse_sound: "parse_enum members value_of s = Inr x \<Longrightarrow> value_of x = s"
  by (auto simp: parse_enum_def dest: find_SomeD split: option.splits)

lemma parse_error: "parse_enum members value_of s = Inl e \<Longrightarrow> e = ValueError s \<and> (\<forall>x. value_of x \<noteq> s)"
  using all_members by (auto simp: parse_enum_def find_None_iff split: option.splits)

end

section \<open>The enumerations\<close>

datatype customer_status =
    Cust_ACTIVE
  | Cust_INACTIVE
  | Cust_RESTRICTED

primrec customer_status_value :: "customer_status \<Rightarrow> string" where
  "customer_status_value Cust_ACTIVE = ''active''"
| "customer_status_value Cust_INACTIVE = ''inactive''"
| "customer_status_value Cust_RESTRICTED = ''restricted''"

definition customer_status_members :: "customer_status list" where
  "customer_status_members = [Cust_ACTIVE, Cust_INACTIVE, Cust_RESTRICTED]"

interpretation customer_status_enum: str_enum customer_status_members customer_status_value
proof unfold_locales
  show "distinct (map customer_status_value customer_status_members)" by (simp add: customer_status_members_def)
  show "x \<in> set customer_status_members" for x by (cases x) (simp_all add: customer_status_members_def)
qed

datatype transaction_status =
    Tx_CREATED
  | Tx_AUTHORIZED
  | Tx_SUCCEEDED
  | Tx_FAILED
  | Tx_PENDING
  | Tx_CANCELLED
  | Tx_REFUNDED
  | Tx_UNKNOWN

primrec transaction_status_value :: "transaction_status \<Rightarrow> string" where
  "transaction_status_value Tx_CREATED = ''created''"
| "transaction_status_value Tx_AUTHORIZED = ''authorized''"
| "transaction_status_value Tx_SUCCEEDED = ''succeeded''"
| "transaction_status_value Tx_FAILED = ''failed''"
| "transaction_status_value Tx_PENDING = ''pending''"
| "transaction_status_value Tx_CANCELLED = ''cancelled''"
| "transaction_status_value Tx_REFUNDED = ''refunded''"
| "transaction_status_value Tx_UNKNOWN = ''unknown''"

definition transaction_status_members :: "transaction_status list" where
  "transaction_status_members = [Tx_CREATED, Tx_AUTHORIZED, Tx_SUCCEEDED, Tx_FAILED, Tx_PENDING, Tx_CANCELLED, Tx_REFUNDED, Tx_UNKNOWN]"

interpretation transaction_status_enum: str_enum transaction_status_members transaction_status_value
proof unfold_locales
  show "distinct (map transaction_status_value transaction_status_members)" by (simp add: transaction_status_members_def)
  show "x \<in> set transaction_status_members" for x by (cases x) (simp_all add: transaction_status_members_def)
qed

datatype case_state =
    Case_DETECTED
  | Case_CONTEXT_READY
  | Case_AWAITING_DECISION
  | Case_ACTION_PENDING
  | Case_VERIFICATION_PENDING
  | Case_RECOVERED
  | Case_RETRY_ELIGIBLE
  | Case_ESCALATED
  | Case_STOPPED
  | Case_CLOSED

primrec case_state_value :: "case_state \<Rightarrow> string" where
  "case_state_value Case_DETECTED = ''detected''"
| "case_state_value Case_CONTEXT_READY = ''context_ready''"
| "case_state_value Case_AWAITING_DECISION = ''awaiting_decision''"
| "case_state_value Case_ACTION_PENDING = ''action_pending''"
| "case_state_value Case_VERIFICATION_PENDING = ''verification_pending''"
| "case_state_value Case_RECOVERED = ''recovered''"
| "case_state_value Case_RETRY_ELIGIBLE = ''retry_eligible''"
| "case_state_value Case_ESCALATED = ''escalated''"
| "case_state_value Case_STOPPED = ''stopped''"
| "case_state_value Case_CLOSED = ''closed''"

definition case_state_members :: "case_state list" where
  "case_state_members = [Case_DETECTED, Case_CONTEXT_READY, Case_AWAITING_DECISION, Case_ACTION_PENDING, Case_VERIFICATION_PENDING, Case_RECOVERED, Case_RETRY_ELIGIBLE, Case_ESCALATED, Case_STOPPED, Case_CLOSED]"

interpretation case_state_enum: str_enum case_state_members case_state_value
proof unfold_locales
  show "distinct (map case_state_value case_state_members)" by (simp add: case_state_members_def)
  show "x \<in> set case_state_members" for x by (cases x) (simp_all add: case_state_members_def)
qed

datatype attempt_status =
    Att_PLANNED
  | Att_STARTED
  | Att_SUCCEEDED
  | Att_FAILED
  | Att_UNCERTAIN
  | Att_CANCELLED

primrec attempt_status_value :: "attempt_status \<Rightarrow> string" where
  "attempt_status_value Att_PLANNED = ''planned''"
| "attempt_status_value Att_STARTED = ''started''"
| "attempt_status_value Att_SUCCEEDED = ''succeeded''"
| "attempt_status_value Att_FAILED = ''failed''"
| "attempt_status_value Att_UNCERTAIN = ''uncertain''"
| "attempt_status_value Att_CANCELLED = ''cancelled''"

definition attempt_status_members :: "attempt_status list" where
  "attempt_status_members = [Att_PLANNED, Att_STARTED, Att_SUCCEEDED, Att_FAILED, Att_UNCERTAIN, Att_CANCELLED]"

interpretation attempt_status_enum: str_enum attempt_status_members attempt_status_value
proof unfold_locales
  show "distinct (map attempt_status_value attempt_status_members)" by (simp add: attempt_status_members_def)
  show "x \<in> set attempt_status_members" for x by (cases x) (simp_all add: attempt_status_members_def)
qed

datatype action_type =
    Act_NONE
  | Act_RETRY_PAYMENT
  | Act_SEND_REMINDER
  | Act_REQUEST_OPERATOR_REVIEW
  | Act_STOP

primrec action_type_value :: "action_type \<Rightarrow> string" where
  "action_type_value Act_NONE = ''none''"
| "action_type_value Act_RETRY_PAYMENT = ''retry_payment''"
| "action_type_value Act_SEND_REMINDER = ''send_reminder''"
| "action_type_value Act_REQUEST_OPERATOR_REVIEW = ''request_operator_review''"
| "action_type_value Act_STOP = ''stop''"

definition action_type_members :: "action_type list" where
  "action_type_members = [Act_NONE, Act_RETRY_PAYMENT, Act_SEND_REMINDER, Act_REQUEST_OPERATOR_REVIEW, Act_STOP]"

interpretation action_type_enum: str_enum action_type_members action_type_value
proof unfold_locales
  show "distinct (map action_type_value action_type_members)" by (simp add: action_type_members_def)
  show "x \<in> set action_type_members" for x by (cases x) (simp_all add: action_type_members_def)
qed

datatype validation_status =
    Val_NOT_VALIDATED
  | Val_VALID
  | Val_INVALID
  | Val_REJECTED_BY_POLICY

primrec validation_status_value :: "validation_status \<Rightarrow> string" where
  "validation_status_value Val_NOT_VALIDATED = ''not_validated''"
| "validation_status_value Val_VALID = ''valid''"
| "validation_status_value Val_INVALID = ''invalid''"
| "validation_status_value Val_REJECTED_BY_POLICY = ''rejected_by_policy''"

definition validation_status_members :: "validation_status list" where
  "validation_status_members = [Val_NOT_VALIDATED, Val_VALID, Val_INVALID, Val_REJECTED_BY_POLICY]"

interpretation validation_status_enum: str_enum validation_status_members validation_status_value
proof unfold_locales
  show "distinct (map validation_status_value validation_status_members)" by (simp add: validation_status_members_def)
  show "x \<in> set validation_status_members" for x by (cases x) (simp_all add: validation_status_members_def)
qed

datatype actor_type =
    Actor_SYSTEM
  | Actor_OPERATOR
  | Actor_AGENT
  | Actor_PROVIDER
  | Actor_USER
  | Actor_TEST

primrec actor_type_value :: "actor_type \<Rightarrow> string" where
  "actor_type_value Actor_SYSTEM = ''system''"
| "actor_type_value Actor_OPERATOR = ''operator''"
| "actor_type_value Actor_AGENT = ''agent''"
| "actor_type_value Actor_PROVIDER = ''provider''"
| "actor_type_value Actor_USER = ''user''"
| "actor_type_value Actor_TEST = ''test''"

definition actor_type_members :: "actor_type list" where
  "actor_type_members = [Actor_SYSTEM, Actor_OPERATOR, Actor_AGENT, Actor_PROVIDER, Actor_USER, Actor_TEST]"

interpretation actor_type_enum: str_enum actor_type_members actor_type_value
proof unfold_locales
  show "distinct (map actor_type_value actor_type_members)" by (simp add: actor_type_members_def)
  show "x \<in> set actor_type_members" for x by (cases x) (simp_all add: actor_type_members_def)
qed

datatype user_role =
    Role_ADMIN
  | Role_OPERATOR
  | Role_AUDITOR
  | Role_INGESTOR

primrec user_role_value :: "user_role \<Rightarrow> string" where
  "user_role_value Role_ADMIN = ''ROLE_ADMIN''"
| "user_role_value Role_OPERATOR = ''ROLE_OPERATOR''"
| "user_role_value Role_AUDITOR = ''ROLE_AUDITOR''"
| "user_role_value Role_INGESTOR = ''ROLE_INGESTOR''"

definition user_role_members :: "user_role list" where
  "user_role_members = [Role_ADMIN, Role_OPERATOR, Role_AUDITOR, Role_INGESTOR]"

interpretation user_role_enum: str_enum user_role_members user_role_value
proof unfold_locales
  show "distinct (map user_role_value user_role_members)" by (simp add: user_role_members_def)
  show "x \<in> set user_role_members" for x by (cases x) (simp_all add: user_role_members_def)
qed

datatype user_status =
    User_ACTIVE
  | User_SUSPENDED
  | User_INACTIVE

primrec user_status_value :: "user_status \<Rightarrow> string" where
  "user_status_value User_ACTIVE = ''active''"
| "user_status_value User_SUSPENDED = ''suspended''"
| "user_status_value User_INACTIVE = ''inactive''"

definition user_status_members :: "user_status list" where
  "user_status_members = [User_ACTIVE, User_SUSPENDED, User_INACTIVE]"

interpretation user_status_enum: str_enum user_status_members user_status_value
proof unfold_locales
  show "distinct (map user_status_value user_status_members)" by (simp add: user_status_members_def)
  show "x \<in> set user_status_members" for x by (cases x) (simp_all add: user_status_members_def)
qed

datatype event_type =
    Evt_PAYMENT_FAILED
  | Evt_PAYMENT_SUCCEEDED
  | Evt_SUBSCRIPTION_PAYMENT_FAILED
  | Evt_CHECKOUT_ABANDONED
  | Evt_INVOICE_OVERDUE

primrec event_type_value :: "event_type \<Rightarrow> string" where
  "event_type_value Evt_PAYMENT_FAILED = ''PAYMENT_FAILED''"
| "event_type_value Evt_PAYMENT_SUCCEEDED = ''PAYMENT_SUCCEEDED''"
| "event_type_value Evt_SUBSCRIPTION_PAYMENT_FAILED = ''SUBSCRIPTION_PAYMENT_FAILED''"
| "event_type_value Evt_CHECKOUT_ABANDONED = ''CHECKOUT_ABANDONED''"
| "event_type_value Evt_INVOICE_OVERDUE = ''INVOICE_OVERDUE''"

definition event_type_members :: "event_type list" where
  "event_type_members = [Evt_PAYMENT_FAILED, Evt_PAYMENT_SUCCEEDED, Evt_SUBSCRIPTION_PAYMENT_FAILED, Evt_CHECKOUT_ABANDONED, Evt_INVOICE_OVERDUE]"

interpretation event_type_enum: str_enum event_type_members event_type_value
proof unfold_locales
  show "distinct (map event_type_value event_type_members)" by (simp add: event_type_members_def)
  show "x \<in> set event_type_members" for x by (cases x) (simp_all add: event_type_members_def)
qed

datatype processing_status =
    Proc_RECEIVED
  | Proc_VALIDATED
  | Proc_ACCEPTED
  | Proc_DUPLICATE
  | Proc_CONFLICT
  | Proc_REJECTED
  | Proc_PROCESSING
  | Proc_PROCESSED
  | Proc_FAILED

primrec processing_status_value :: "processing_status \<Rightarrow> string" where
  "processing_status_value Proc_RECEIVED = ''received''"
| "processing_status_value Proc_VALIDATED = ''validated''"
| "processing_status_value Proc_ACCEPTED = ''accepted''"
| "processing_status_value Proc_DUPLICATE = ''duplicate''"
| "processing_status_value Proc_CONFLICT = ''conflict''"
| "processing_status_value Proc_REJECTED = ''rejected''"
| "processing_status_value Proc_PROCESSING = ''processing''"
| "processing_status_value Proc_PROCESSED = ''processed''"
| "processing_status_value Proc_FAILED = ''failed''"

definition processing_status_members :: "processing_status list" where
  "processing_status_members = [Proc_RECEIVED, Proc_VALIDATED, Proc_ACCEPTED, Proc_DUPLICATE, Proc_CONFLICT, Proc_REJECTED, Proc_PROCESSING, Proc_PROCESSED, Proc_FAILED]"

interpretation processing_status_enum: str_enum processing_status_members processing_status_value
proof unfold_locales
  show "distinct (map processing_status_value processing_status_members)" by (simp add: processing_status_members_def)
  show "x \<in> set processing_status_members" for x by (cases x) (simp_all add: processing_status_members_def)
qed

datatype failure_category =
    Fail_INSUFFICIENT_FUNDS
  | Fail_CARD_EXPIRED
  | Fail_AUTHENTICATION_REQUIRED
  | Fail_DO_NOT_HONOR
  | Fail_GENERIC_DECLINE
  | Fail_PROCESSING_ERROR
  | Fail_FRAUD_SUSPECTED
  | Fail_ABANDONED
  | Fail_OVERDUE
  | Fail_UNKNOWN

primrec failure_category_value :: "failure_category \<Rightarrow> string" where
  "failure_category_value Fail_INSUFFICIENT_FUNDS = ''insufficient_funds''"
| "failure_category_value Fail_CARD_EXPIRED = ''card_expired''"
| "failure_category_value Fail_AUTHENTICATION_REQUIRED = ''authentication_required''"
| "failure_category_value Fail_DO_NOT_HONOR = ''do_not_honor''"
| "failure_category_value Fail_GENERIC_DECLINE = ''generic_decline''"
| "failure_category_value Fail_PROCESSING_ERROR = ''processing_error''"
| "failure_category_value Fail_FRAUD_SUSPECTED = ''fraud_suspected''"
| "failure_category_value Fail_ABANDONED = ''abandoned''"
| "failure_category_value Fail_OVERDUE = ''overdue''"
| "failure_category_value Fail_UNKNOWN = ''unknown''"

definition failure_category_members :: "failure_category list" where
  "failure_category_members = [Fail_INSUFFICIENT_FUNDS, Fail_CARD_EXPIRED, Fail_AUTHENTICATION_REQUIRED, Fail_DO_NOT_HONOR, Fail_GENERIC_DECLINE, Fail_PROCESSING_ERROR, Fail_FRAUD_SUSPECTED, Fail_ABANDONED, Fail_OVERDUE, Fail_UNKNOWN]"

interpretation failure_category_enum: str_enum failure_category_members failure_category_value
proof unfold_locales
  show "distinct (map failure_category_value failure_category_members)" by (simp add: failure_category_members_def)
  show "x \<in> set failure_category_members" for x by (cases x) (simp_all add: failure_category_members_def)
qed

datatype risk_tier =
    Tier_HIGH
  | Tier_MEDIUM
  | Tier_LOW

primrec risk_tier_value :: "risk_tier \<Rightarrow> string" where
  "risk_tier_value Tier_HIGH = ''high''"
| "risk_tier_value Tier_MEDIUM = ''medium''"
| "risk_tier_value Tier_LOW = ''low''"

definition risk_tier_members :: "risk_tier list" where
  "risk_tier_members = [Tier_HIGH, Tier_MEDIUM, Tier_LOW]"

interpretation risk_tier_enum: str_enum risk_tier_members risk_tier_value
proof unfold_locales
  show "distinct (map risk_tier_value risk_tier_members)" by (simp add: risk_tier_members_def)
  show "x \<in> set risk_tier_members" for x by (cases x) (simp_all add: risk_tier_members_def)
qed

datatype consent_type =
    Consent_RECURRING_BILLING
  | Consent_COMMUNICATION_EMAIL
  | Consent_COMMUNICATION_SMS

primrec consent_type_value :: "consent_type \<Rightarrow> string" where
  "consent_type_value Consent_RECURRING_BILLING = ''recurring_billing''"
| "consent_type_value Consent_COMMUNICATION_EMAIL = ''communication_email''"
| "consent_type_value Consent_COMMUNICATION_SMS = ''communication_sms''"

definition consent_type_members :: "consent_type list" where
  "consent_type_members = [Consent_RECURRING_BILLING, Consent_COMMUNICATION_EMAIL, Consent_COMMUNICATION_SMS]"

interpretation consent_type_enum: str_enum consent_type_members consent_type_value
proof unfold_locales
  show "distinct (map consent_type_value consent_type_members)" by (simp add: consent_type_members_def)
  show "x \<in> set consent_type_members" for x by (cases x) (simp_all add: consent_type_members_def)
qed

datatype consent_status =
    CStat_GRANTED
  | CStat_REVOKED
  | CStat_EXPIRED

primrec consent_status_value :: "consent_status \<Rightarrow> string" where
  "consent_status_value CStat_GRANTED = ''granted''"
| "consent_status_value CStat_REVOKED = ''revoked''"
| "consent_status_value CStat_EXPIRED = ''expired''"

definition consent_status_members :: "consent_status list" where
  "consent_status_members = [CStat_GRANTED, CStat_REVOKED, CStat_EXPIRED]"

interpretation consent_status_enum: str_enum consent_status_members consent_status_value
proof unfold_locales
  show "distinct (map consent_status_value consent_status_members)" by (simp add: consent_status_members_def)
  show "x \<in> set consent_status_members" for x by (cases x) (simp_all add: consent_status_members_def)
qed

datatype policy_status =
    Pol_APPROVED
  | Pol_REJECTED
  | Pol_REQUIRES_REVIEW
  | Pol_INSUFFICIENT_INFORMATION

primrec policy_status_value :: "policy_status \<Rightarrow> string" where
  "policy_status_value Pol_APPROVED = ''approved''"
| "policy_status_value Pol_REJECTED = ''rejected''"
| "policy_status_value Pol_REQUIRES_REVIEW = ''requires_review''"
| "policy_status_value Pol_INSUFFICIENT_INFORMATION = ''insufficient_information''"

definition policy_status_members :: "policy_status list" where
  "policy_status_members = [Pol_APPROVED, Pol_REJECTED, Pol_REQUIRES_REVIEW, Pol_INSUFFICIENT_INFORMATION]"

interpretation policy_status_enum: str_enum policy_status_members policy_status_value
proof unfold_locales
  show "distinct (map policy_status_value policy_status_members)" by (simp add: policy_status_members_def)
  show "x \<in> set policy_status_members" for x by (cases x) (simp_all add: policy_status_members_def)
qed

datatype rule_status =
    Rule_PASSED
  | Rule_FAILED
  | Rule_NEEDS_REVIEW
  | Rule_MISSING_INFO

primrec rule_status_value :: "rule_status \<Rightarrow> string" where
  "rule_status_value Rule_PASSED = ''passed''"
| "rule_status_value Rule_FAILED = ''failed''"
| "rule_status_value Rule_NEEDS_REVIEW = ''needs_review''"
| "rule_status_value Rule_MISSING_INFO = ''missing_info''"

definition rule_status_members :: "rule_status list" where
  "rule_status_members = [Rule_PASSED, Rule_FAILED, Rule_NEEDS_REVIEW, Rule_MISSING_INFO]"

interpretation rule_status_enum: str_enum rule_status_members rule_status_value
proof unfold_locales
  show "distinct (map rule_status_value rule_status_members)" by (simp add: rule_status_members_def)
  show "x \<in> set rule_status_members" for x by (cases x) (simp_all add: rule_status_members_def)
qed

datatype workflow_status =
    Wf_CREATED
  | Wf_PENDING
  | Wf_SCHEDULED
  | Wf_RUNNING
  | Wf_WAITING
  | Wf_COMPLETED
  | Wf_FAILED
  | Wf_CANCELLED
  | Wf_EXPIRED
  | Wf_REQUIRES_REVIEW

primrec workflow_status_value :: "workflow_status \<Rightarrow> string" where
  "workflow_status_value Wf_CREATED = ''created''"
| "workflow_status_value Wf_PENDING = ''pending''"
| "workflow_status_value Wf_SCHEDULED = ''scheduled''"
| "workflow_status_value Wf_RUNNING = ''running''"
| "workflow_status_value Wf_WAITING = ''waiting''"
| "workflow_status_value Wf_COMPLETED = ''completed''"
| "workflow_status_value Wf_FAILED = ''failed''"
| "workflow_status_value Wf_CANCELLED = ''cancelled''"
| "workflow_status_value Wf_EXPIRED = ''expired''"
| "workflow_status_value Wf_REQUIRES_REVIEW = ''requires_review''"

definition workflow_status_members :: "workflow_status list" where
  "workflow_status_members = [Wf_CREATED, Wf_PENDING, Wf_SCHEDULED, Wf_RUNNING, Wf_WAITING, Wf_COMPLETED, Wf_FAILED, Wf_CANCELLED, Wf_EXPIRED, Wf_REQUIRES_REVIEW]"

interpretation workflow_status_enum: str_enum workflow_status_members workflow_status_value
proof unfold_locales
  show "distinct (map workflow_status_value workflow_status_members)" by (simp add: workflow_status_members_def)
  show "x \<in> set workflow_status_members" for x by (cases x) (simp_all add: workflow_status_members_def)
qed

datatype step_type =
    Stp_VALIDATE_AUTHORIZATION
  | Stp_WAIT_COOLDOWN
  | Stp_DISPATCH_PAYMENT_RETRY
  | Stp_DISPATCH_COMMUNICATION
  | Stp_CREATE_SUPPORT_TASK
  | Stp_AWAIT_VERIFICATION

primrec step_type_value :: "step_type \<Rightarrow> string" where
  "step_type_value Stp_VALIDATE_AUTHORIZATION = ''validate_authorization''"
| "step_type_value Stp_WAIT_COOLDOWN = ''wait_cooldown''"
| "step_type_value Stp_DISPATCH_PAYMENT_RETRY = ''dispatch_payment_retry''"
| "step_type_value Stp_DISPATCH_COMMUNICATION = ''dispatch_communication''"
| "step_type_value Stp_CREATE_SUPPORT_TASK = ''create_support_task''"
| "step_type_value Stp_AWAIT_VERIFICATION = ''await_verification''"

definition step_type_members :: "step_type list" where
  "step_type_members = [Stp_VALIDATE_AUTHORIZATION, Stp_WAIT_COOLDOWN, Stp_DISPATCH_PAYMENT_RETRY, Stp_DISPATCH_COMMUNICATION, Stp_CREATE_SUPPORT_TASK, Stp_AWAIT_VERIFICATION]"

interpretation step_type_enum: str_enum step_type_members step_type_value
proof unfold_locales
  show "distinct (map step_type_value step_type_members)" by (simp add: step_type_members_def)
  show "x \<in> set step_type_members" for x by (cases x) (simp_all add: step_type_members_def)
qed

datatype step_status =
    Step_PENDING
  | Step_SCHEDULED
  | Step_RUNNING
  | Step_WAITING
  | Step_COMPLETED
  | Step_FAILED
  | Step_CANCELLED
  | Step_SKIPPED

primrec step_status_value :: "step_status \<Rightarrow> string" where
  "step_status_value Step_PENDING = ''pending''"
| "step_status_value Step_SCHEDULED = ''scheduled''"
| "step_status_value Step_RUNNING = ''running''"
| "step_status_value Step_WAITING = ''waiting''"
| "step_status_value Step_COMPLETED = ''completed''"
| "step_status_value Step_FAILED = ''failed''"
| "step_status_value Step_CANCELLED = ''cancelled''"
| "step_status_value Step_SKIPPED = ''skipped''"

definition step_status_members :: "step_status list" where
  "step_status_members = [Step_PENDING, Step_SCHEDULED, Step_RUNNING, Step_WAITING, Step_COMPLETED, Step_FAILED, Step_CANCELLED, Step_SKIPPED]"

interpretation step_status_enum: str_enum step_status_members step_status_value
proof unfold_locales
  show "distinct (map step_status_value step_status_members)" by (simp add: step_status_members_def)
  show "x \<in> set step_status_members" for x by (cases x) (simp_all add: step_status_members_def)
qed

datatype execution_status =
    Exec_SUBMITTED
  | Exec_SUCCEEDED
  | Exec_FAILED
  | Exec_PENDING
  | Exec_UNKNOWN
  | Exec_CANCELLED

primrec execution_status_value :: "execution_status \<Rightarrow> string" where
  "execution_status_value Exec_SUBMITTED = ''submitted''"
| "execution_status_value Exec_SUCCEEDED = ''succeeded''"
| "execution_status_value Exec_FAILED = ''failed''"
| "execution_status_value Exec_PENDING = ''pending''"
| "execution_status_value Exec_UNKNOWN = ''unknown''"
| "execution_status_value Exec_CANCELLED = ''cancelled''"

definition execution_status_members :: "execution_status list" where
  "execution_status_members = [Exec_SUBMITTED, Exec_SUCCEEDED, Exec_FAILED, Exec_PENDING, Exec_UNKNOWN, Exec_CANCELLED]"

interpretation execution_status_enum: str_enum execution_status_members execution_status_value
proof unfold_locales
  show "distinct (map execution_status_value execution_status_members)" by (simp add: execution_status_members_def)
  show "x \<in> set execution_status_members" for x by (cases x) (simp_all add: execution_status_members_def)
qed

datatype reconciliation_status =
    Recon_MATCHED
  | Recon_DISCREPANCY_DETECTED
  | Recon_RESOLVED
  | Recon_ESCALATED

primrec reconciliation_status_value :: "reconciliation_status \<Rightarrow> string" where
  "reconciliation_status_value Recon_MATCHED = ''matched''"
| "reconciliation_status_value Recon_DISCREPANCY_DETECTED = ''discrepancy_detected''"
| "reconciliation_status_value Recon_RESOLVED = ''resolved''"
| "reconciliation_status_value Recon_ESCALATED = ''escalated''"

definition reconciliation_status_members :: "reconciliation_status list" where
  "reconciliation_status_members = [Recon_MATCHED, Recon_DISCREPANCY_DETECTED, Recon_RESOLVED, Recon_ESCALATED]"

interpretation reconciliation_status_enum: str_enum reconciliation_status_members reconciliation_status_value
proof unfold_locales
  show "distinct (map reconciliation_status_value reconciliation_status_members)" by (simp add: reconciliation_status_members_def)
  show "x \<in> set reconciliation_status_members" for x by (cases x) (simp_all add: reconciliation_status_members_def)
qed

end
