(* ===== verification/Domain.thy ===== *)
theory Domain
  imports Enums
begin

text \<open>
  The persisted entities of \<open>backend/app/models/domain.py\<close> as records (one field per column; the
  \<open>created_at\<close>/\<open>updated_at\<close> bookkeeping columns and the ORM relationships are left out), and the
  SQLAlchemy session the services share.

  The session keeps one list of rows per table. \<open>SessionLocal\<close> is created with
  \<open>autoflush=False\<close> (core/database.py), so an added audit event or state transition is not seen by
  the \<open>select(func.max(...))\<close> queries until the next \<open>flush\<close>: these two tables therefore have a
  list of pending rows beside the flushed ones. \<open>flush\<close> checks the unique constraints of the
  schema and raises \<open>IntegrityError\<close> with the constraint's name; \<open>commit\<close> flushes. Primary keys of
  customers, transactions and cases count as unique; check constraints and foreign keys are not
  modelled. A handler that
  raises returns \<open>Inl\<close> and its session is dropped, which is the rollback of \<open>get_db\<close>.
\<close>

section \<open>Entities\<close>

record customer =
  cu_id :: uuid
  cu_provider :: string
  cu_external_id :: string
  cu_email :: "string option"
  cu_display_name :: "string option"
  cu_status :: customer_status
  cu_metadata :: payload

record consent =
  co_id :: uuid
  co_customer_id :: uuid
  co_type :: consent_type
  co_status :: consent_status
  co_merchant_id :: "string option"
  co_granted_at :: "pydatetime option"
  co_revoked_at :: "pydatetime option"
  co_expires_at :: "pydatetime option"
  co_source :: string
  co_evidence_reference :: "string option"
  co_version :: int

record transaction =
  tx_id :: uuid
  tx_customer_id :: uuid
  tx_provider :: string
  tx_external_id :: string
  tx_amount_minor :: int
  tx_currency :: string
  tx_status :: transaction_status
  tx_failure_code :: "string option"
  tx_failure_message :: "string option"
  tx_occurred_at :: pydatetime
  tx_metadata :: payload

record recovery_case =
  rc_id :: uuid
  rc_customer_id :: uuid
  rc_trigger_transaction_id :: uuid
  rc_case_key :: string
  rc_state :: case_state
  rc_priority :: int
  rc_opened_at :: pydatetime
  rc_last_state_changed_at :: pydatetime
  rc_closed_at :: "pydatetime option"
  rc_version :: int
  rc_metadata :: payload

record recovery_attempt =
  at_id :: uuid
  at_case_id :: uuid
  at_sequence_number :: int
  at_status :: attempt_status
  at_action_type :: action_type
  at_started_at :: "pydatetime option"
  at_finished_at :: "pydatetime option"
  at_outcome :: "string option"
  at_provider_reference :: "string option"
  at_idempotency_key :: string
  at_metadata :: payload

record agent_decision =
  ad_id :: uuid
  ad_case_id :: uuid
  ad_attempt_id :: "uuid option"
  ad_decision_version :: int
  ad_action_type :: action_type
  ad_reason_code :: string
  ad_confidence :: "rat option"
  ad_validation_status :: validation_status

text \<open>
  A rule result as the policy engine stores it. The free-text \<open>message\<close> and the diagnostic
  \<open>details\<close> of \<open>RuleCheckResult\<close> are not kept: no code reads them back.
\<close>

record rule_result =
  rr_rule_name :: string
  rr_status :: rule_status
  rr_reason_code :: string

text \<open>One element of \<open>rule_results_json\<close>: the status is stored as its string value.\<close>

record rule_json =
  rj_rule_name :: string
  rj_status :: string
  rj_reason_code :: string

record policy_decision =
  pd_id :: uuid
  pd_case_id :: uuid
  pd_recommendation_id :: uuid
  pd_proposed_action :: action_type
  pd_decision_status :: policy_status
  pd_policy_version :: string
  pd_rule_results :: "rule_json list"
  pd_reasons :: "string list"
  pd_actor_type :: actor_type
  pd_actor_id :: "string option"
  pd_idempotency_key :: "string option"
  pd_case_version :: int
  pd_evaluated_at :: pydatetime
  pd_metadata :: payload

record audit_event =
  ae_case_id :: uuid
  ae_event_type :: string
  ae_from_state :: "case_state option"
  ae_to_state :: "case_state option"
  ae_actor_type :: actor_type
  ae_actor_id :: "string option"
  ae_correlation_id :: string
  ae_event_time :: pydatetime
  ae_payload :: payload
  ae_sequence_number :: int

record case_transition =
  ct_case_id :: uuid
  ct_from_state :: "case_state option"
  ct_to_state :: case_state
  ct_reason_code :: string
  ct_actor_type :: actor_type
  ct_correlation_id :: string
  ct_occurred_at :: pydatetime
  ct_sequence_number :: int
  ct_metadata :: payload

record webhook_event =
  we_id :: uuid
  we_provider :: string
  we_external_event_id :: string
  we_event_type :: string
  we_payload_hash :: string
  we_signature_verified :: bool
  we_processed :: bool
  we_ingestion_status :: string
  we_payload :: payload

record recovery_workflow =
  wf_id :: uuid
  wf_case_id :: uuid
  wf_policy_decision_id :: uuid
  wf_status :: workflow_status
  wf_strategy :: string
  wf_current_step_index :: int
  wf_max_steps :: int
  wf_scheduled_for :: "pydatetime option"
  wf_expires_at :: "pydatetime option"
  wf_metadata :: payload

record workflow_step =
  ws_id :: uuid
  ws_workflow_id :: uuid
  ws_step_index :: int
  ws_step_type :: step_type
  ws_status :: step_status
  ws_idempotency_key :: string
  ws_action_type :: action_type
  ws_payload :: payload
  ws_execution_result :: payload
  ws_executed_at :: "pydatetime option"

record recovery_execution =
  ex_id :: uuid
  ex_step_id :: uuid
  ex_case_id :: uuid
  ex_provider :: string
  ex_external_reference :: "string option"
  ex_status :: execution_status
  ex_amount_minor :: int
  ex_currency :: string
  ex_idempotency_key :: string
  ex_request_payload :: payload
  ex_response_payload :: payload
  ex_error_code :: "string option"
  ex_latency_ms :: "int option"
  ex_executed_at :: pydatetime

section \<open>The session\<close>

record session =
  customers :: "customer list"
  consents :: "consent list"
  transactions :: "transaction list"
  cases :: "recovery_case list"
  attempts :: "recovery_attempt list"
  agent_decisions :: "agent_decision list"
  policy_decisions :: "policy_decision list"
  audit_rows :: "audit_event list"
  audit_pending :: "audit_event list"
  transition_rows :: "case_transition list"
  transition_pending :: "case_transition list"
  workflows :: "recovery_workflow list"
  steps :: "workflow_step list"
  executions :: "recovery_execution list"
  webhooks :: "webhook_event list"

definition empty_session :: session where
  "empty_session =
     \<lparr>customers = [], consents = [], transactions = [], cases = [], attempts = [],
      agent_decisions = [], policy_decisions = [], audit_rows = [], audit_pending = [],
      transition_rows = [], transition_pending = [], workflows = [], steps = [],
      executions = [], webhooks = []\<rparr>"

subsection \<open>Unique constraints and flush\<close>

abbreviation audit_key :: "audit_event \<Rightarrow> uuid \<times> int" where
  "audit_key a \<equiv> (ae_case_id a, ae_sequence_number a)"

abbreviation transition_key :: "case_transition \<Rightarrow> uuid \<times> int" where
  "transition_key t \<equiv> (ct_case_id t, ct_sequence_number t)"

abbreviation attempt_key :: "recovery_attempt \<Rightarrow> uuid \<times> int" where
  "attempt_key a \<equiv> (at_case_id a, at_sequence_number a)"

abbreviation step_key :: "workflow_step \<Rightarrow> uuid \<times> int" where
  "step_key w \<equiv> (ws_workflow_id w, ws_step_index w)"

abbreviation customer_key :: "customer \<Rightarrow> string \<times> string" where
  "customer_key c \<equiv> (cu_provider c, cu_external_id c)"

abbreviation transaction_key :: "transaction \<Rightarrow> string \<times> string" where
  "transaction_key t \<equiv> (tx_provider t, tx_external_id t)"

abbreviation webhook_key :: "webhook_event \<Rightarrow> string \<times> string" where
  "webhook_key w \<equiv> (we_provider w, we_external_event_id w)"

definition audit_unique :: "audit_event list \<Rightarrow> bool" where
  "audit_unique xs = distinct (map audit_key xs)"

definition transition_unique :: "case_transition list \<Rightarrow> bool" where
  "transition_unique xs = distinct (map transition_key xs)"

definition attempt_unique :: "recovery_attempt list \<Rightarrow> bool" where
  "attempt_unique xs = (distinct (map attempt_key xs) \<and> distinct (map at_idempotency_key xs))"

definition step_unique :: "workflow_step list \<Rightarrow> bool" where
  "step_unique xs = (distinct (map step_key xs) \<and> distinct (map ws_idempotency_key xs))"

definition execution_unique :: "recovery_execution list \<Rightarrow> bool" where
  "execution_unique xs = distinct (map ex_idempotency_key xs)"

definition webhook_unique :: "webhook_event list \<Rightarrow> bool" where
  "webhook_unique xs = (distinct (map we_id xs) \<and> distinct (map webhook_key xs))"

definition case_unique :: "recovery_case list \<Rightarrow> bool" where
  "case_unique xs = (distinct (map rc_id xs) \<and> distinct (map rc_case_key xs))"

definition customer_unique :: "customer list \<Rightarrow> bool" where
  "customer_unique xs = (distinct (map cu_id xs) \<and> distinct (map customer_key xs))"

definition transaction_unique :: "transaction list \<Rightarrow> bool" where
  "transaction_unique xs = (distinct (map tx_id xs) \<and> distinct (map transaction_key xs))"

definition violated :: "session \<Rightarrow> string option" where
  "violated s =
     (if \<not> case_unique (cases s) then Some ''uq_recovery_case_key''
      else if \<not> audit_unique (audit_rows s @ audit_pending s) then Some ''uq_audit_case_sequence''
      else if \<not> transition_unique (transition_rows s @ transition_pending s)
        then Some ''uq_transition_case_sequence''
      else if \<not> attempt_unique (attempts s) then Some ''uq_attempt''
      else if \<not> step_unique (steps s) then Some ''uq_step''
      else if \<not> execution_unique (executions s) then Some ''uq_recovery_execution_idempotency''
      else if \<not> webhook_unique (webhooks s) then Some ''uq_provider_event''
      else if \<not> customer_unique (customers s) then Some ''uq_customer_provider_external''
      else if \<not> transaction_unique (transactions s) then Some ''uq_transaction_provider_external''
      else None)"

definition flushed :: "session \<Rightarrow> session" where
  "flushed s = s\<lparr>audit_rows := audit_rows s @ audit_pending s, audit_pending := [],
                transition_rows := transition_rows s @ transition_pending s,
                transition_pending := []\<rparr>"

definition flush :: "session \<Rightarrow> py_error + session" where
  "flush s = (case violated s of Some c \<Rightarrow> Inl (IntegrityError c) | None \<Rightarrow> Inr (flushed s))"

definition commit :: "session \<Rightarrow> py_error + session" where
  "commit s = flush s"

text \<open>The integrity invariant of a flushed session: every constraint holds, nothing is pending.\<close>

definition session_ok :: "session \<Rightarrow> bool" where
  "session_ok s \<longleftrightarrow> violated s = None \<and> audit_pending s = [] \<and> transition_pending s = []"

lemma violated_None_iff:
  "violated s = None \<longleftrightarrow>
     case_unique (cases s) \<and> audit_unique (audit_rows s @ audit_pending s)
     \<and> transition_unique (transition_rows s @ transition_pending s)
     \<and> attempt_unique (attempts s) \<and> step_unique (steps s)
     \<and> execution_unique (executions s) \<and> webhook_unique (webhooks s)
     \<and> customer_unique (customers s) \<and> transaction_unique (transactions s)"
  by (simp add: violated_def)

lemma session_ok_iff:
  "session_ok s \<longleftrightarrow>
     case_unique (cases s) \<and> audit_unique (audit_rows s) \<and> transition_unique (transition_rows s)
     \<and> attempt_unique (attempts s) \<and> step_unique (steps s) \<and> execution_unique (executions s)
     \<and> webhook_unique (webhooks s) \<and> customer_unique (customers s)
     \<and> transaction_unique (transactions s) \<and> audit_pending s = [] \<and> transition_pending s = []"
  by (auto simp: session_ok_def violated_None_iff)

lemma flush_ok: "flush s = Inr t \<longleftrightarrow> violated s = None \<and> t = flushed s"
  by (auto simp: flush_def split: option.splits)

lemma flush_session_ok: "flush s = Inr t \<Longrightarrow> session_ok t"
  by (auto simp: flush_ok flushed_def session_ok_def violated_None_iff)

lemma flush_idle: "session_ok s \<Longrightarrow> flush s = Inr s"
  by (simp add: flush_ok flushed_def session_ok_def)

lemma flush_audit_clash:
  "case_unique (cases s) \<Longrightarrow> \<not> audit_unique (audit_rows s @ audit_pending s) \<Longrightarrow>
     flush s = Inl (IntegrityError ''uq_audit_case_sequence'')"
  by (simp add: flush_def violated_def)

lemma flushed_simps [simp]:
  "customers (flushed s) = customers s" "consents (flushed s) = consents s"
  "transactions (flushed s) = transactions s" "cases (flushed s) = cases s"
  "attempts (flushed s) = attempts s" "agent_decisions (flushed s) = agent_decisions s"
  "policy_decisions (flushed s) = policy_decisions s" "workflows (flushed s) = workflows s"
  "steps (flushed s) = steps s" "executions (flushed s) = executions s"
  "webhooks (flushed s) = webhooks s"
  "audit_rows (flushed s) = audit_rows s @ audit_pending s" "audit_pending (flushed s) = []"
  "transition_rows (flushed s) = transition_rows s @ transition_pending s"
  "transition_pending (flushed s) = []"
  by (simp_all add: flushed_def)

section \<open>Repositories\<close>

text \<open>\<open>find_by_id\<close> and \<open>session.get\<close>: the row with that primary key, if there is one.\<close>

definition find_case :: "session \<Rightarrow> uuid \<Rightarrow> recovery_case option" where
  "find_case s i = find (\<lambda>c. rc_id c = i) (cases s)"

definition find_case_by_key :: "session \<Rightarrow> string \<Rightarrow> recovery_case option" where
  "find_case_by_key s k = find (\<lambda>c. rc_case_key c = k) (cases s)"

definition find_case_by_trigger :: "session \<Rightarrow> uuid \<Rightarrow> recovery_case option" where
  "find_case_by_trigger s i = find (\<lambda>c. rc_trigger_transaction_id c = i) (cases s)"

definition find_transaction :: "session \<Rightarrow> uuid \<Rightarrow> transaction option" where
  "find_transaction s i = find (\<lambda>t. tx_id t = i) (transactions s)"

definition find_customer :: "session \<Rightarrow> uuid \<Rightarrow> customer option" where
  "find_customer s i = find (\<lambda>c. cu_id c = i) (customers s)"

definition find_decision :: "session \<Rightarrow> uuid \<Rightarrow> agent_decision option" where
  "find_decision s i = find (\<lambda>d. ad_id d = i) (agent_decisions s)"

definition find_policy_decision :: "session \<Rightarrow> uuid \<Rightarrow> policy_decision option" where
  "find_policy_decision s i = find (\<lambda>d. pd_id d = i) (policy_decisions s)"

definition find_workflow :: "session \<Rightarrow> uuid \<Rightarrow> recovery_workflow option" where
  "find_workflow s i = find (\<lambda>w. wf_id w = i) (workflows s)"

definition policy_by_idempotency_key :: "session \<Rightarrow> uuid \<Rightarrow> string \<Rightarrow> policy_decision option" where
  "policy_by_idempotency_key s cid k =
     find (\<lambda>d. pd_case_id d = cid \<and> pd_idempotency_key d = Some k) (policy_decisions s)"

definition attempts_of :: "session \<Rightarrow> uuid \<Rightarrow> recovery_attempt list" where
  "attempts_of s cid = sort_key at_sequence_number (filter (\<lambda>a. at_case_id a = cid) (attempts s))"

text \<open>Consent records of a customer, newest grant first.\<close>

definition granted_instant :: "consent \<Rightarrow> int" where
  "granted_instant c = (case co_granted_at c of None \<Rightarrow> 0 | Some d \<Rightarrow> instant d)"

definition consents_of :: "session \<Rightarrow> uuid \<Rightarrow> consent list" where
  "consents_of s cid =
     sort_key (\<lambda>c. - granted_instant c) (filter (\<lambda>c. co_customer_id c = cid) (consents s))"

definition steps_of :: "session \<Rightarrow> uuid \<Rightarrow> workflow_step list" where
  "steps_of s wid = sort_key ws_step_index (filter (\<lambda>w. ws_workflow_id w = wid) (steps s))"

text \<open>Executions of a case, latest first.\<close>

definition executions_of :: "session \<Rightarrow> uuid \<Rightarrow> recovery_execution list" where
  "executions_of s cid =
     sort_key (\<lambda>e. - instant (ex_executed_at e)) (filter (\<lambda>e. ex_case_id e = cid) (executions s))"

definition active_workflow_statuses :: "workflow_status list" where
  "active_workflow_statuses = [Wf_RUNNING, Wf_SCHEDULED, Wf_PENDING, Wf_WAITING]"

definition active_workflow_of :: "session \<Rightarrow> uuid \<Rightarrow> recovery_workflow option" where
  "active_workflow_of s cid =
     find (\<lambda>w. wf_case_id w = cid \<and> wf_status w \<in> set active_workflow_statuses) (workflows s)"

text \<open>Writing back an object of the identity map, and \<open>session.add\<close> for new rows.\<close>

definition put_case :: "recovery_case \<Rightarrow> session \<Rightarrow> session" where
  "put_case c s = s\<lparr>cases := upd_by rc_id c (cases s)\<rparr>"

definition put_transaction :: "transaction \<Rightarrow> session \<Rightarrow> session" where
  "put_transaction t s = s\<lparr>transactions := upd_by tx_id t (transactions s)\<rparr>"

definition put_decision :: "agent_decision \<Rightarrow> session \<Rightarrow> session" where
  "put_decision d s = s\<lparr>agent_decisions := upd_by ad_id d (agent_decisions s)\<rparr>"

definition put_workflow :: "recovery_workflow \<Rightarrow> session \<Rightarrow> session" where
  "put_workflow w s = s\<lparr>workflows := upd_by wf_id w (workflows s)\<rparr>"

definition put_step :: "workflow_step \<Rightarrow> session \<Rightarrow> session" where
  "put_step w s = s\<lparr>steps := upd_by ws_id w (steps s)\<rparr>"

definition put_attempt :: "recovery_attempt \<Rightarrow> session \<Rightarrow> session" where
  "put_attempt a s = s\<lparr>attempts := upd_by at_id a (attempts s)\<rparr>"

definition add_transition :: "case_transition \<Rightarrow> session \<Rightarrow> session" where
  "add_transition t s = s\<lparr>transition_pending := transition_pending s @ [t]\<rparr>"

definition add_audit :: "audit_event \<Rightarrow> session \<Rightarrow> session" where
  "add_audit a s = s\<lparr>audit_pending := audit_pending s @ [a]\<rparr>"

text \<open>
  \<open>AuditEventRepository.record\<close>: the next number is one more than the highest \<^emph>\<open>flushed\<close>
  number of the case. \<open>next_transition_seq\<close> is the same query on the transition history.
\<close>

definition audit_seqs :: "session \<Rightarrow> uuid \<Rightarrow> int list" where
  "audit_seqs s cid = map ae_sequence_number (filter (\<lambda>a. ae_case_id a = cid) (audit_rows s))"

definition next_audit_seq :: "session \<Rightarrow> uuid \<Rightarrow> int" where
  "next_audit_seq s cid = next_seq (audit_seqs s cid)"

definition transition_seqs :: "session \<Rightarrow> uuid \<Rightarrow> int list" where
  "transition_seqs s cid =
     map ct_sequence_number (filter (\<lambda>t. ct_case_id t = cid) (transition_rows s))"

definition next_transition_seq :: "session \<Rightarrow> uuid \<Rightarrow> int" where
  "next_transition_seq s cid = next_seq (transition_seqs s cid)"

definition audit_record ::
  "uuid \<Rightarrow> string \<Rightarrow> actor_type \<Rightarrow> string \<Rightarrow> payload \<Rightarrow> case_state option \<Rightarrow> case_state option
     \<Rightarrow> string option \<Rightarrow> pydatetime \<Rightarrow> session \<Rightarrow> session" where
  "audit_record cid etype actor corr pl from_s to_s actor_id now s =
     add_audit
       \<lparr>ae_case_id = cid, ae_event_type = etype, ae_from_state = from_s, ae_to_state = to_s,
        ae_actor_type = actor, ae_actor_id = actor_id, ae_correlation_id = corr,
        ae_event_time = now, ae_payload = pl, ae_sequence_number = next_audit_seq s cid\<rparr> s"

lemmas session_write_defs =
  put_case_def put_transaction_def put_decision_def put_workflow_def put_step_def put_attempt_def
  add_transition_def add_audit_def audit_record_def

lemmas session_find_defs =
  find_case_def find_transaction_def find_customer_def find_decision_def find_policy_decision_def
  find_workflow_def

lemmas seq_defs =
  next_audit_seq_def audit_seqs_def next_transition_seq_def transition_seqs_def

lemma find_case_id: "find_case s i = Some c \<Longrightarrow> rc_id c = i"
  by (auto simp: find_case_def dest: find_SomeD)

lemma find_decision_id: "find_decision s i = Some d \<Longrightarrow> ad_id d = i"
  by (auto simp: find_decision_def dest: find_SomeD)

lemma find_workflow_id: "find_workflow s i = Some w \<Longrightarrow> wf_id w = i"
  by (auto simp: find_workflow_def dest: find_SomeD)

lemma find_case_put_same:
  "find_case s (rc_id c) \<noteq> None \<Longrightarrow> find_case (put_case c s) (rc_id c) = Some c"
  unfolding find_case_def put_case_def by (simp add: find_upd_by_same)

lemma find_case_put_other:
  "i \<noteq> rc_id c \<Longrightarrow> find_case (put_case c s) i = find_case s i"
  unfolding find_case_def put_case_def by (simp add: find_upd_by_other)

lemma audit_unique_snoc:
  "audit_unique (xs @ [a]) \<longleftrightarrow> audit_unique xs \<and> audit_key a \<notin> audit_key ` set xs"
  by (auto simp: audit_unique_def)

lemma transition_unique_snoc:
  "transition_unique (xs @ [t]) \<longleftrightarrow> transition_unique xs \<and> transition_key t \<notin> transition_key ` set xs"
  by (auto simp: transition_unique_def)

text \<open>Freshness of the two sequence numbers among the flushed rows.\<close>

lemma next_audit_seq_fresh: "(cid, next_audit_seq s cid) \<notin> audit_key ` set (audit_rows s)"
proof
  assume "(cid, next_audit_seq s cid) \<in> audit_key ` set (audit_rows s)"
  then have "next_audit_seq s cid \<in> set (audit_seqs s cid)"
    by (auto simp: audit_seqs_def image_iff)
  then show False by (simp add: next_audit_seq_def next_seq_fresh)
qed

lemma next_transition_seq_fresh:
  "(cid, next_transition_seq s cid) \<notin> transition_key ` set (transition_rows s)"
proof
  assume "(cid, next_transition_seq s cid) \<in> transition_key ` set (transition_rows s)"
  then have "next_transition_seq s cid \<in> set (transition_seqs s cid)"
    by (auto simp: transition_seqs_def image_iff)
  then show False by (simp add: next_transition_seq_def next_seq_fresh)
qed

text \<open>Rewriting one row by its primary key keeps a secondary key unique when the row keeps its own.\<close>

lemma map_upd_by_secondary:
  assumes "distinct (map pk xs)" and "find (\<lambda>y. pk y = pk x) xs = Some x0" and "k x = k x0"
  shows "map k (upd_by pk x xs) = map k xs"
proof -
  from assms(2) have x0: "x0 \<in> set xs" "pk x0 = pk x" by (auto dest: find_SomeD)
  have "y = x0" if "y \<in> set xs" "pk y = pk x" for y
    using that assms(1) x0 by (auto simp: distinct_map inj_on_def)
  with assms(3) show ?thesis by (auto simp: upd_by_def)
qed

lemma case_unique_upd_state:
  "case_unique xs \<Longrightarrow> find (\<lambda>y. rc_id y = rc_id c) xs = Some c0 \<Longrightarrow> rc_case_key c = rc_case_key c0 \<Longrightarrow>
     case_unique (upd_by rc_id c xs)"
  using map_upd_by_secondary [of rc_id xs c c0 rc_case_key] by (simp add: case_unique_def)

lemma transaction_unique_upd:
  "transaction_unique xs \<Longrightarrow> find (\<lambda>y. tx_id y = tx_id t) xs = Some t0 \<Longrightarrow>
     transaction_key t = transaction_key t0 \<Longrightarrow> transaction_unique (upd_by tx_id t xs)"
  using map_upd_by_secondary [of tx_id xs t t0 transaction_key] by (simp add: transaction_unique_def)

section \<open>What a handler's writes keep\<close>

lemma violated_put_case:
  assumes "violated s = None" "find_case s (rc_id c) = Some c0" "rc_case_key c = rc_case_key c0"
  shows "violated (put_case c s) = None"
  using assms case_unique_upd_state [of "cases s" c c0]
  by (simp add: violated_None_iff put_case_def find_case_def)

text \<open>One transition and one audit record per commit, both numbered by the max queries, are safe.\<close>

lemma violated_add_transition:
  assumes "violated s = None" "transition_pending s = []"
    and "ct_sequence_number t = next_transition_seq s (ct_case_id t)"
  shows "violated (add_transition t s) = None"
  using assms next_transition_seq_fresh [of "ct_case_id t" s]
  by (simp add: violated_None_iff add_transition_def transition_unique_snoc)

lemma violated_audit_record:
  assumes "violated s = None" "audit_pending s = []"
  shows "violated (audit_record cid et ac corr pl f t ai now s) = None"
  using assms next_audit_seq_fresh [of cid s]
  by (simp add: violated_None_iff audit_record_def add_audit_def audit_unique_snoc)

lemma commit_ok: "violated s = None \<Longrightarrow> commit s = Inr (flushed s)"
  by (simp add: commit_def flush_ok)

lemma commit_eq_Inr [err_simps]: "commit s = Inr t \<longleftrightarrow> violated s = None \<and> t = flushed s"
  by (simp add: commit_def flush_ok)

lemma session_ok_flushed: "violated s = None \<Longrightarrow> session_ok (flushed s)"
  using flush_session_ok [of s] by (simp add: flush_ok)

lemma find_flushed [simp]:
  "find_case (flushed s) i = find_case s i" "find_decision (flushed s) i = find_decision s i"
  "find_transaction (flushed s) i = find_transaction s i"
  "find_customer (flushed s) i = find_customer s i"
  "find_policy_decision (flushed s) i = find_policy_decision s i"
  "find_workflow (flushed s) i = find_workflow s i"
  "policy_by_idempotency_key (flushed s) i k = policy_by_idempotency_key s i k"
  by (simp_all add: session_find_defs policy_by_idempotency_key_def)

text \<open>The session a handler commits after it rewrote one case and audited it.\<close>

lemma commit_case_audit:
  assumes "session_ok s" and "find_case s (rc_id c) = Some c0" and "rc_case_key c = rc_case_key c0"
  shows "violated (audit_record cid et ac corr pl f to_s ai now (put_case c s)) = None"
  using assms
  by (intro violated_audit_record violated_put_case) (simp_all add: session_ok_def put_case_def)

lemma find_case_audit [simp]:
  "find_case (audit_record cid et ac corr pl f to_s ai now s) i = find_case s i"
  by (simp add: find_case_def session_write_defs)

lemma find_case_add_transition [simp]: "find_case (add_transition t s) i = find_case s i"
  by (simp add: find_case_def session_write_defs)

lemma find_case_mem:
  assumes "session_ok s" and "c \<in> set (cases s)"
  shows "find_case s (rc_id c) = Some c"
proof -
  from assms(2) obtain c0 where c0: "find_case s (rc_id c) = Some c0"
    by (cases "find_case s (rc_id c)") (auto simp: find_case_def find_None_iff)
  then have "c0 \<in> set (cases s)" "rc_id c0 = rc_id c" by (auto simp: find_case_def dest: find_SomeD)
  with assms have "c0 = c" by (auto simp: session_ok_iff case_unique_def distinct_map inj_on_def)
  with c0 show ?thesis by simp
qed

lemma find_case_in: "find_case s i = Some c \<Longrightarrow> c \<in> set (cases s) \<and> rc_id c = i"
  by (auto simp: find_case_def dest: find_SomeD)

lemma find_transaction_id: "find_transaction s i = Some t \<Longrightarrow> tx_id t = i"
  by (auto simp: find_transaction_def dest: find_SomeD)

lemma find_transaction_mem:
  assumes "session_ok s" and "t \<in> set (transactions s)"
  shows "find_transaction s (tx_id t) = Some t"
proof -
  from assms(2) obtain t0 where t0: "find_transaction s (tx_id t) = Some t0"
    by (cases "find_transaction s (tx_id t)") (auto simp: find_transaction_def find_None_iff)
  then have "t0 \<in> set (transactions s)" "tx_id t0 = tx_id t"
    by (auto simp: find_transaction_def dest: find_SomeD)
  with assms have "t0 = t" by (auto simp: session_ok_iff transaction_unique_def distinct_map inj_on_def)
  with t0 show ?thesis by simp
qed

text \<open>Adding rows to a flushed session.\<close>

lemma session_ok_put_case:
  "session_ok s \<Longrightarrow> find_case s (rc_id c) = Some c0 \<Longrightarrow> rc_case_key c = rc_case_key c0 \<Longrightarrow>
     session_ok (put_case c s)"
  using violated_put_case [of s c c0] by (simp add: session_ok_def put_case_def)

lemma put_transaction_simps [simp]:
  "find_case (put_transaction t s) i = find_case s i"
  "audit_seqs (put_transaction t s) i = audit_seqs s i"
  "next_transition_seq (put_transaction t s) i = next_transition_seq s i"
  "cases (put_transaction t s) = cases s"
  by (simp_all add: put_transaction_def find_case_def seq_defs)

lemma session_ok_put_transaction:
  "session_ok s \<Longrightarrow> find_transaction s (tx_id t) = Some t0 \<Longrightarrow> transaction_key t = transaction_key t0 \<Longrightarrow>
     session_ok (put_transaction t s)"
  using transaction_unique_upd [of "transactions s" t t0]
  by (simp add: session_ok_iff put_transaction_def find_transaction_def)

lemma find_transaction_put_same:
  "find_transaction s (tx_id t) \<noteq> None \<Longrightarrow> find_transaction (put_transaction t s) (tx_id t) = Some t"
  unfolding find_transaction_def put_transaction_def by (simp add: find_upd_by_same)

lemma find_transaction_put_other:
  "i \<noteq> tx_id t \<Longrightarrow> find_transaction (put_transaction t s) i = find_transaction s i"
  unfolding find_transaction_def put_transaction_def by (simp add: find_upd_by_other)

lemma find_transaction_put_case [simp]: "find_transaction (put_case c s) i = find_transaction s i"
  by (simp add: put_case_def find_transaction_def)

text \<open>Both logs of a case hold the same numbers 1, ..., n: every audit row is a transition's.\<close>

definition logs_in_step :: "session \<Rightarrow> uuid \<Rightarrow> bool" where
  "logs_in_step s cid \<longleftrightarrow>
     audit_seqs s cid = transition_seqs s cid
     \<and> audit_seqs s cid = map (\<lambda>i. int i + 1) [0..<length (audit_seqs s cid)]"

end
