(* ===== verification/Auth.thy ===== *)
theory Auth
  imports Domain
begin

text \<open>
  Accounts and access: \<open>backend/app/core/security.py\<close> (password checks and token claims),
  \<open>AuthService\<close> (services/auth_service.py) and the request guards of \<open>backend/app/api/deps.py\<close>.

  The user table is a list of rows of its own, since these requests touch nothing else. bcrypt, the
  JWT library and \<open>UUID(text)\<close> are parameters, kept in \<open>auth_env\<close> with the settings and what a
  request draws. \<open>au_decode\<close> answers the claims, or how the library refused the token at that time.
  \<open>int(timestamp())\<close> is read as a
  floor, which it is from 1970 on. A password check that raises \<open>ValueError\<close> or \<open>TypeError\<close> counts as False in \<open>au_check\<close>. The
  paged listing is in Listings; log lines and the answered profile DTOs, which copy the row, are left out.
\<close>

section \<open>Users\<close>

record user =
  us_id :: uuid
  us_email :: string
  us_name :: string
  us_password_hash :: string
  us_role :: user_role
  us_status :: user_status
  us_last_login_at :: "pydatetime option"

type_synonym user_store = "user list"

definition users_ok :: "user_store \<Rightarrow> bool" where
  "users_ok us \<longleftrightarrow> distinct (map us_id us) \<and> distinct (map us_email us)"

definition commit_users :: "user_store \<Rightarrow> py_error + user_store" where
  "commit_users us = (if users_ok us then Inr us else Inl (IntegrityError ''uq_user_email''))"

definition find_user :: "user_store \<Rightarrow> uuid \<Rightarrow> user option" where
  "find_user us i = find (\<lambda>u. us_id u = i) us"

definition find_user_by_email :: "user_store \<Rightarrow> string \<Rightarrow> user option" where
  "find_user_by_email us e = find (\<lambda>u. us_email u = e) us"

definition put_user :: "user \<Rightarrow> user_store \<Rightarrow> user_store" where
  "put_user u us = upd_by us_id u us"

section \<open>Passwords and tokens\<close>

datatype jwt_outcome = Jwt_claims payload | Jwt_expired | Jwt_invalid

record auth_env =
  au_now :: pydatetime
  au_user_id :: uuid
  au_access_jti :: uuid
  au_refresh_jti :: uuid
  au_access_minutes :: int
  au_refresh_days :: int
  au_password_min :: int
  au_hash :: "string \<Rightarrow> py_error + string"
  au_check :: "string \<Rightarrow> string \<Rightarrow> bool"
  au_encode :: "payload \<Rightarrow> string"
  au_decode :: "pydatetime \<Rightarrow> string \<Rightarrow> jwt_outcome"
  au_uuid :: "string \<Rightarrow> uuid option"

definition normalize_email :: "string \<Rightarrow> string" where
  "normalize_email e = py_lower (py_strip e)"

definition hash_password :: "auth_env \<Rightarrow> string \<Rightarrow> py_error + string" where
  "hash_password env pw =
     (if pw = [] then Inl (ValueError ''Password cannot be empty.'') else au_hash env pw)"

definition verify_password :: "auth_env \<Rightarrow> string \<Rightarrow> string \<Rightarrow> bool" where
  "verify_password env pw hashed = (if pw = [] \<or> hashed = [] then False else au_check env pw hashed)"

definition seconds :: "pydatetime \<Rightarrow> int" where
  "seconds d = instant d div us_per_second"

definition access_claims :: "auth_env \<Rightarrow> user \<Rightarrow> payload" where
  "access_claims env u =
     [(''sub'', JStr (us_id u)), (''email'', JStr (us_email u)), (''role'', JStr (user_role_value (us_role u))),
      (''type'', JStr ''access''), (''jti'', JStr (au_access_jti env)), (''iat'', JInt (seconds (au_now env))),
      (''exp'', JInt (seconds (add_us (au_now env) (au_access_minutes env * 60 * us_per_second))))]"

definition refresh_claims :: "auth_env \<Rightarrow> uuid \<Rightarrow> payload" where
  "refresh_claims env i =
     [(''sub'', JStr i), (''type'', JStr ''refresh''), (''jti'', JStr (au_refresh_jti env)),
      (''iat'', JInt (seconds (au_now env))),
      (''exp'', JInt (seconds (add_us (au_now env) (au_refresh_days env * 24 * us_per_hour))))]"

definition create_access_token :: "auth_env \<Rightarrow> user \<Rightarrow> string" where
  "create_access_token env u = au_encode env (access_claims env u)"

definition create_refresh_token :: "auth_env \<Rightarrow> uuid \<Rightarrow> string" where
  "create_refresh_token env i = au_encode env (refresh_claims env i)"

definition unauthorized :: "string \<Rightarrow> py_error" where
  "unauthorized m = AppError (Unauthorized m)"

definition decode_token :: "auth_env \<Rightarrow> string \<Rightarrow> py_error + payload" where
  "decode_token env token =
     (case au_decode env (au_now env) token of
        Jwt_claims p \<Rightarrow> Inr p
      | Jwt_expired \<Rightarrow> Inl (unauthorized ''Authentication token has expired. Please log in again.'')
      | Jwt_invalid \<Rightarrow> Inl (unauthorized ''Authentication token is invalid or malformed.''))"

text \<open>
  The subject of the claims as a uuid; \<open>UUID\<close> of a value that is not text raises \<open>AttributeError\<close>.
\<close>

definition subject_of :: "auth_env \<Rightarrow> payload \<Rightarrow> string \<Rightarrow> string \<Rightarrow> py_error + uuid" where
  "subject_of env claims missing malformed =
     (let sub = json_get claims ''sub''
      in if \<not> json_truthy sub then Inl (unauthorized missing)
         else case sub of
                JStr t \<Rightarrow> (case au_uuid env t of None \<Rightarrow> Inl (unauthorized malformed) | Some i \<Rightarrow> Inr i)
              | _ \<Rightarrow> Inl AttributeError)"

section \<open>The service\<close>

record token_response =
  tr_access_token :: string
  tr_refresh_token :: string
  tr_expires_in :: int
  tr_user :: user

definition token_response_of :: "auth_env \<Rightarrow> user \<Rightarrow> token_response" where
  "token_response_of env u =
     \<lparr>tr_access_token = create_access_token env u, tr_refresh_token = create_refresh_token env (us_id u),
      tr_expires_in = au_access_minutes env * 60, tr_user = u\<rparr>"

definition too_short :: "string \<Rightarrow> auth_env \<Rightarrow> string" where
  "too_short what env = what @ '' must be at least '' @ str_of_int (au_password_min env) @ '' characters.''"

definition register ::
  "auth_env \<Rightarrow> string \<Rightarrow> string \<Rightarrow> string \<Rightarrow> user_role \<Rightarrow> user_store \<Rightarrow> py_error + (user \<times> user_store)" where
  "register env email password name default_role us =
     (let clean = normalize_email email
      in case find_user_by_email us clean of
           Some _ \<Rightarrow> Inl (AppError (DuplicateEntity ''User'' clean))
         | None \<Rightarrow>
             if int (length password) < au_password_min env
             then Inl (AppError (MalformedRequest (too_short ''Password'' env) (Some ''password'')))
             else ebind (hash_password env password) (\<lambda>h.
               (let u = \<lparr>us_id = au_user_id env, us_email = clean, us_name = py_strip name,
                         us_password_hash = h, us_role = default_role, us_status = User_ACTIVE,
                         us_last_login_at = None\<rparr>
                in ebind (commit_users (us @ [u])) (\<lambda>us'. Inr (u, us')))))"

definition login :: "auth_env \<Rightarrow> string \<Rightarrow> string \<Rightarrow> user_store \<Rightarrow> py_error + (token_response \<times> user_store)" where
  "login env email password us =
     (case find_user_by_email us (normalize_email email) of
        None \<Rightarrow> Inl (unauthorized ''Invalid email or password.'')
      | Some u \<Rightarrow>
          if \<not> verify_password env password (us_password_hash u)
          then Inl (unauthorized ''Invalid email or password.'')
          else if us_status u \<noteq> User_ACTIVE
          then Inl (unauthorized ''Account is suspended or deactivated. Contact your administrator.'')
          else (let u' = u\<lparr>us_last_login_at := Some (au_now env)\<rparr>
                in ebind (commit_users (put_user u' us)) (\<lambda>us'. Inr (token_response_of env u', us'))))"

definition refresh_token :: "auth_env \<Rightarrow> string \<Rightarrow> user_store \<Rightarrow> py_error + token_response" where
  "refresh_token env token us =
     ebind (decode_token env token) (\<lambda>claims.
       if json_get claims ''type'' \<noteq> JStr ''refresh''
       then Inl (unauthorized ''Invalid token type. Expected refresh token.'')
       else ebind (subject_of env claims ''Malformed token claims. Subject missing.''
                     ''Malformed token subject identifier.'') (\<lambda>i.
         (case find_user us i of
            None \<Rightarrow> Inl (unauthorized ''User account associated with token is not active.'')
          | Some u \<Rightarrow>
              if us_status u \<noteq> User_ACTIVE
              then Inl (unauthorized ''User account associated with token is not active.'')
              else Inr (token_response_of env u))))"

definition modify_user :: "uuid \<Rightarrow> (user \<Rightarrow> py_error + user) \<Rightarrow> user_store \<Rightarrow> py_error + (user \<times> user_store)" where
  "modify_user i f us =
     (case find_user us i of
        None \<Rightarrow> Inl (AppError (EntityNotFound ''User'' i))
      | Some u \<Rightarrow> ebind (f u) (\<lambda>u'. ebind (commit_users (put_user u' us)) (\<lambda>us'. Inr (u', us'))))"

definition update_profile :: "uuid \<Rightarrow> string \<Rightarrow> user_store \<Rightarrow> py_error + (user \<times> user_store)" where
  "update_profile i name = modify_user i (\<lambda>u. Inr (u\<lparr>us_name := py_strip name\<rparr>))"

definition change_password ::
  "auth_env \<Rightarrow> uuid \<Rightarrow> string \<Rightarrow> string \<Rightarrow> user_store \<Rightarrow> py_error + (user \<times> user_store)" where
  "change_password env i current new =
     modify_user i (\<lambda>u.
       if \<not> verify_password env current (us_password_hash u)
       then Inl (unauthorized ''Current password is incorrect.'')
       else if int (length new) < au_password_min env
       then Inl (AppError (MalformedRequest (too_short ''New password'' env) (Some ''new_password'')))
       else ebind (hash_password env new) (\<lambda>h. Inr (u\<lparr>us_password_hash := h\<rparr>)))"

definition update_user_role :: "uuid \<Rightarrow> user_role \<Rightarrow> user_store \<Rightarrow> py_error + (user \<times> user_store)" where
  "update_user_role i r = modify_user i (\<lambda>u. Inr (u\<lparr>us_role := r\<rparr>))"

definition update_user_status :: "uuid \<Rightarrow> user_status \<Rightarrow> user_store \<Rightarrow> py_error + (user \<times> user_store)" where
  "update_user_status i st = modify_user i (\<lambda>u. Inr (u\<lparr>us_status := st\<rparr>))"

section \<open>The request guards\<close>

definition active_account :: "user_store \<Rightarrow> uuid \<Rightarrow> py_error + user" where
  "active_account us i =
     (case find_user us i of
        None \<Rightarrow> Inl (unauthorized ''Authenticated user account no longer exists.'')
      | Some u \<Rightarrow>
          if us_status u \<noteq> User_ACTIVE
          then Inl (unauthorized (''Account is '' @ user_status_value (us_status u) @ ''. Access denied.''))
          else Inr u)"

definition get_current_user :: "auth_env \<Rightarrow> string option \<Rightarrow> user_store \<Rightarrow> py_error + user" where
  "get_current_user env token us =
     (if \<not> truthy token then Inl (unauthorized ''Authentication credentials missing or invalid.'')
      else ebind (decode_token env (or_empty token)) (\<lambda>claims.
        if json_get claims ''type'' \<noteq> JStr ''access''
        then Inl (unauthorized ''Invalid token type. Expected access token.'')
        else ebind (subject_of env claims ''Invalid token claims: subject identifier missing.''
                      ''Invalid token subject: not a valid UUID.'') (\<lambda>i.
          active_account us i)))"

definition require_roles ::
  "user_role list \<Rightarrow> auth_env \<Rightarrow> string option \<Rightarrow> user_store \<Rightarrow> py_error + user" where
  "require_roles allowed env token us =
     ebind (get_current_user env token us) (\<lambda>u.
       if us_role u \<notin> set allowed
       then Inl (AppError (Forbidden (''Access forbidden: required role in ''
              @ py_repr (JList (map (\<lambda>r. JStr (user_role_value r)) allowed)) @ '', but user possesses '' @ [CHR 0x27]
              @ user_role_value (us_role u) @ [CHR 0x27] @ ''.'')))
       else Inr u)"

definition require_admin :: "auth_env \<Rightarrow> string option \<Rightarrow> user_store \<Rightarrow> py_error + user" where
  "require_admin = require_roles [Role_ADMIN]"

definition require_operator :: "auth_env \<Rightarrow> string option \<Rightarrow> user_store \<Rightarrow> py_error + user" where
  "require_operator = require_roles [Role_ADMIN, Role_OPERATOR]"

definition require_auditor :: "auth_env \<Rightarrow> string option \<Rightarrow> user_store \<Rightarrow> py_error + user" where
  "require_auditor = require_roles [Role_ADMIN, Role_AUDITOR]"

section \<open>What a granted request proves\<close>

lemma find_user_id: "find_user us i = Some u \<Longrightarrow> us_id u = i \<and> u \<in> set us"
  by (auto simp: find_user_def dest: find_SomeD)

lemma find_user_put:
  "find_user us (us_id u) \<noteq> None \<Longrightarrow> find_user (put_user u us) (us_id u) = Some u"
  unfolding find_user_def put_user_def by (simp add: find_upd_by_same)

lemma subject_of_Inr:
  "subject_of env claims m1 m2 = Inr i \<Longrightarrow> \<exists>t. json_get claims ''sub'' = JStr t \<and> au_uuid env t = Some i"
  by (auto simp: subject_of_def Let_def split: if_splits json.splits option.splits)

lemma get_current_user_Inr:
  assumes "get_current_user env token us = Inr u"
  obtains claims t where "au_decode env (au_now env) (or_empty token) = Jwt_claims claims"
    "json_get claims ''type'' = JStr ''access''" "json_get claims ''sub'' = JStr t"
    "au_uuid env t = Some (us_id u)" "find_user us (us_id u) = Some u" "us_status u = User_ACTIVE"
    "\<forall>us'. get_current_user env token us' = active_account us' (us_id u)"
proof -
  obtain claims i where c: "decode_token env (or_empty token) = Inr claims" "truthy token"
    "json_get claims ''type'' = JStr ''access''"
    and i: "subject_of env claims ''Invalid token claims: subject identifier missing.''
              ''Invalid token subject: not a valid UUID.'' = Inr i"
    and u: "find_user us i = Some u" "us_status u = User_ACTIVE"
    using assms by (auto simp: get_current_user_def active_account_def err_simps split: if_splits option.splits)
  have id: "us_id u = i" using find_user_id [OF u(1)] by simp
  from subject_of_Inr [OF i] obtain t where t: "json_get claims ''sub'' = JStr t" "au_uuid env t = Some i" by blast
  from c(1) have d: "au_decode env (au_now env) (or_empty token) = Jwt_claims claims"
    by (simp add: decode_token_def split: jwt_outcome.splits)
  have "\<forall>us'. get_current_user env token us' = active_account us' (us_id u)"
    using c i id by (simp add: get_current_user_def)
  with that d c(3) t u id show thesis by blast
qed

lemma modify_user_Inr:
  assumes "modify_user i f us = Inr (v, us')"
  obtains u where "find_user us i = Some u" "f u = Inr v" "us' = put_user v us"
  using assms by (auto simp: modify_user_def err_simps commit_users_def split: option.splits if_splits)

text \<open>C19: A request passes a role guard only with a token that decodes to access claims
  whose subject is a stored, active user of a permitted role, and that token cannot be used to
  refresh. What counts is the stored account, not the token: as soon as an administrator suspends
  the user, or takes the role away, the token that was good is refused.\<close>

theorem access_is_guarded:
  assumes "require_roles allowed env token us = Inr u"
  shows "(\<exists>claims t. au_decode env (au_now env) (or_empty token) = Jwt_claims claims
        \<and> json_get claims ''type'' = JStr ''access'' \<and> json_get claims ''sub'' = JStr t
        \<and> au_uuid env t = Some (us_id u))
    \<and> u \<in> set us \<and> us_status u = User_ACTIVE \<and> us_role u \<in> set allowed
    \<and> \<not> is_ok (refresh_token env (or_empty token) us2)
    \<and> (\<forall>st v us'. st \<noteq> User_ACTIVE \<longrightarrow> update_user_status (us_id u) st us = Inr (v, us') \<longrightarrow>
          \<not> is_ok (require_roles allowed2 env token us'))
    \<and> (\<forall>r v us'. r \<notin> set allowed \<longrightarrow> update_user_role (us_id u) r us = Inr (v, us') \<longrightarrow>
          \<not> is_ok (require_roles allowed env token us'))"
proof -
  have g: "get_current_user env token us = Inr u" and role: "us_role u \<in> set allowed"
    using assms by (auto simp: require_roles_def err_simps split: if_splits)
  from g obtain claims t where c: "au_decode env (au_now env) (or_empty token) = Jwt_claims claims"
    "json_get claims ''type'' = JStr ''access''" "json_get claims ''sub'' = JStr t"
    "au_uuid env t = Some (us_id u)" and u: "find_user us (us_id u) = Some u" "us_status u = User_ACTIVE"
    and any: "\<forall>us'. get_current_user env token us' = active_account us' (us_id u)"
    using get_current_user_Inr by blast
  have after: "find_user us' (us_id u) = Some v" if "modify_user (us_id u) (\<lambda>u. Inr (f u)) us = Inr (v, us')"
    "us_id (f u) = us_id u" for f v us'
    using that(1)
  proof (rule modify_user_Inr)
    fix u0
    assume "find_user us (us_id u) = Some u0" "Inr (f u0) = Inr v" "us' = put_user v us"
    with u(1) that(2) find_user_put [of us v] show ?thesis by auto
  qed
  have status: "\<not> is_ok (require_roles allowed2 env token us')"
    if "st \<noteq> User_ACTIVE" "update_user_status (us_id u) st us = Inr (v, us')" for st v us'
  proof -
    have m: "modify_user (us_id u) (\<lambda>u. Inr (u\<lparr>us_status := st\<rparr>)) us = Inr (v, us')"
      using that(2) by (simp add: update_user_status_def)
    have "us_status v = st" by (rule modify_user_Inr [OF m]) auto
    with after [OF m] that(1) show ?thesis by (auto simp: require_roles_def any active_account_def)
  qed
  have roles: "\<not> is_ok (require_roles allowed env token us')"
    if "r \<notin> set allowed" "update_user_role (us_id u) r us = Inr (v, us')" for r v us'
  proof -
    have m: "modify_user (us_id u) (\<lambda>u. Inr (u\<lparr>us_role := r\<rparr>)) us = Inr (v, us')"
      using that(2) by (simp add: update_user_role_def)
    have "us_role v = r" by (rule modify_user_Inr [OF m]) auto
    with after [OF m] that(1) show ?thesis by (auto simp: require_roles_def any active_account_def)
  qed
  have "\<not> is_ok (refresh_token env (or_empty token) us2)"
    using c by (simp add: refresh_token_def decode_token_def)
  with c find_user_id [OF u(1)] u(2) role status roles show ?thesis by blast
qed

text \<open>A token issued under one request and presented under another decodes to its claims: what the JWT
  library promises while the token has not expired.\<close>

definition codec_reads :: "auth_env \<Rightarrow> auth_env \<Rightarrow> payload \<Rightarrow> bool" where
  "codec_reads env env' p \<longleftrightarrow>
     au_encode env p \<noteq> [] \<and> au_decode env' (au_now env') (au_encode env p) = Jwt_claims p"

text \<open>The tokens of a login lead back to the user who logged in. While the JWT
  library still decodes them, the access token authenticates that user, by the e-mail given up to
  case and outer blanks, and the refresh token yields new tokens for the user; the refresh token
  itself never authenticates a request.\<close>

theorem issued_tokens_come_back:
  assumes "login env email password us = Inr (resp, us')"
    and "codec_reads env env' (access_claims env (tr_user resp))"
    and "codec_reads env env' (refresh_claims env (us_id (tr_user resp)))"
    and "us_id (tr_user resp) \<noteq> []" and "au_uuid env' (us_id (tr_user resp)) = Some (us_id (tr_user resp))"
  shows "get_current_user env' (Some (tr_access_token resp)) us' = Inr (tr_user resp)
    \<and> us_email (tr_user resp) = normalize_email email
    \<and> verify_password env password (us_password_hash (tr_user resp))
    \<and> refresh_token env' (tr_refresh_token resp) us' = Inr (token_response_of env' (tr_user resp))
    \<and> get_current_user env' (Some (tr_refresh_token resp)) us' =
        Inl (unauthorized ''Invalid token type. Expected access token.'')"
proof -
  obtain u where u: "find_user_by_email us (normalize_email email) = Some u"
    "verify_password env password (us_password_hash u)" "us_status u = User_ACTIVE"
    and us': "us' = put_user (u\<lparr>us_last_login_at := Some (au_now env)\<rparr>) us"
    and resp: "resp = token_response_of env (u\<lparr>us_last_login_at := Some (au_now env)\<rparr>)"
    using assms(1)
    by (auto simp: login_def Let_def err_simps commit_users_def split: option.splits if_splits)
  let ?u = "u\<lparr>us_last_login_at := Some (au_now env)\<rparr>"
  have tu: "tr_user resp = ?u" by (simp add: resp token_response_of_def)
  have "u \<in> set us" "us_email u = normalize_email email"
    using u(1) by (auto simp: find_user_by_email_def dest: find_SomeD)
  then have "find_user us (us_id ?u) \<noteq> None" by (auto simp: find_user_def find_None_iff)
  then have f: "find_user us' (us_id u) = Some ?u" using find_user_put [of us ?u] us' by simp
  have a: "json_get (access_claims env ?u) ''type'' = JStr ''access''"
    "json_get (access_claims env ?u) ''sub'' = JStr (us_id u)"
    "json_get (refresh_claims env (us_id u)) ''type'' = JStr ''refresh''"
    "json_get (refresh_claims env (us_id u)) ''sub'' = JStr (us_id u)"
    by (simp_all add: access_claims_def refresh_claims_def json_get_def)
  have tok: "tr_access_token resp = au_encode env (access_claims env ?u)"
    "tr_refresh_token resp = au_encode env (refresh_claims env (us_id u))"
    by (simp_all add: resp token_response_of_def create_access_token_def create_refresh_token_def)
  have sub: "subject_of env' (access_claims env ?u) m1 m2 = Inr (us_id u)"
    "subject_of env' (refresh_claims env (us_id u)) m1 m2 = Inr (us_id u)" for m1 m2
    using a assms(4,5) by (simp_all add: subject_of_def tu)
  have dec: "decode_token env' (tr_access_token resp) = Inr (access_claims env ?u)"
    "decode_token env' (tr_refresh_token resp) = Inr (refresh_claims env (us_id u))"
    "tr_access_token resp \<noteq> []" "tr_refresh_token resp \<noteq> []"
    using assms(2,3) by (simp_all add: codec_reads_def decode_token_def tok tu)
  show ?thesis
    using u(2,3) f a sub dec \<open>us_email u = normalize_email email\<close>
    by (simp add: get_current_user_def active_account_def refresh_token_def tu or_empty_def)
qed

section \<open>The claims on concrete accounts\<close>

definition demo_user :: user where
  "demo_user = \<lparr>us_id = ''u1'', us_email = ''op@shop.io'', us_name = ''Op'', us_password_hash = ''h:pass-word'',
     us_role = Role_OPERATOR, us_status = User_ACTIVE, us_last_login_at = None\<rparr>"

definition demo_hash :: "string \<Rightarrow> py_error + string" where
  "demo_hash pw = Inr (''h:'' @ pw)"

definition demo_check :: "string \<Rightarrow> string \<Rightarrow> bool" where
  "demo_check pw h \<longleftrightarrow> h = ''h:'' @ pw"

definition demo_encode :: "payload \<Rightarrow> string" where
  "demo_encode p = (if json_get p ''type'' = JStr ''access'' then ''tok-A'' else ''tok-R'')"

definition demo_no_token :: "pydatetime \<Rightarrow> string \<Rightarrow> jwt_outcome" where
  "demo_no_token now t = Jwt_invalid"

definition demo_uuid :: "string \<Rightarrow> uuid option" where
  "demo_uuid t = (if t = ''u1'' then Some t else None)"

definition demo_auth_base :: auth_env where
  "demo_auth_base = \<lparr>au_now = Aware 0, au_user_id = ''u2'', au_access_jti = ''j1'', au_refresh_jti = ''j2'',
     au_access_minutes = 30, au_refresh_days = 7, au_password_min = 8, au_hash = demo_hash,
     au_check = demo_check, au_encode = demo_encode, au_decode = demo_no_token, au_uuid = demo_uuid\<rparr>"

definition demo_decode :: "pydatetime \<Rightarrow> string \<Rightarrow> jwt_outcome" where
  "demo_decode now t =
     (if now \<noteq> Aware 0 then Jwt_expired
      else if t = ''tok-A'' then Jwt_claims (access_claims demo_auth_base demo_user)
      else if t = ''tok-R'' then Jwt_claims (refresh_claims demo_auth_base ''u1'')
      else Jwt_invalid)"

definition demo_auth :: auth_env where
  "demo_auth = demo_auth_base\<lparr>au_decode := demo_decode\<rparr>"

lemma access_is_guarded_witness:
  "us_role demo_user \<in> set [Role_ADMIN, Role_OPERATOR]
   \<and> \<not> is_ok (refresh_token demo_auth ''tok-A'' [demo_user])
   \<and> \<not> is_ok (require_roles [Role_OPERATOR] demo_auth (Some ''tok-A'')
        [demo_user\<lparr>us_status := User_SUSPENDED\<rparr>])"
proof -
  have g: "require_roles [Role_ADMIN, Role_OPERATOR] demo_auth (Some ''tok-A'') [demo_user] = Inr demo_user"
    by code_simp
  have s: "update_user_status (us_id demo_user) User_SUSPENDED [demo_user] =
      Inr (demo_user\<lparr>us_status := User_SUSPENDED\<rparr>, [demo_user\<lparr>us_status := User_SUSPENDED\<rparr>])"
    by code_simp
  have n: "or_empty (Some ''tok-A'') = ''tok-A''" by code_simp
  show ?thesis
    using access_is_guarded [OF g, of "[demo_user]" "[Role_OPERATOR]"] s by (auto simp: n)
qed

lemma issued_tokens_come_back_witness:
  "\<exists>resp us'. login demo_auth '' OP@shop.io'' ''pass-word'' [demo_user] = Inr (resp, us')
     \<and> get_current_user demo_auth (Some (tr_access_token resp)) us' = Inr (tr_user resp)"
proof -
  define u where "u = demo_user\<lparr>us_last_login_at := Some (Aware 0)\<rparr>"
  have l: "login demo_auth '' OP@shop.io'' ''pass-word'' [demo_user] = Inr (token_response_of demo_auth u, [u])"
    unfolding u_def by code_simp
  have t: "tr_user (token_response_of demo_auth u) = u" "us_id u = ''u1''"
    by (simp_all add: token_response_of_def u_def demo_user_def)
  have a: "codec_reads demo_auth demo_auth (access_claims demo_auth u)" unfolding u_def by code_simp
  have r: "codec_reads demo_auth demo_auth (refresh_claims demo_auth ''u1'')" by code_simp
  have i: "au_uuid demo_auth ''u1'' = Some ''u1''" by code_simp
  show ?thesis
    using issued_tokens_come_back [OF l] t a r i by (auto simp: l)
qed

end
