(* ===== verification/Case_Transitions.thy ===== *)
theory Case_Transitions
  imports Domain
begin

text \<open>
  The recovery-case state machine of \<open>backend/app/workflows/vertical_recovery.py\<close>: the transition
  table \<open>_ALLOWED_TRANSITIONS\<close> as a function and as an inductive step relation, and
  \<open>CaseTransitionService.transition\<close>, which moves one case, appends to its history and its audit
  log and flushes.
\<close>

section \<open>The transition table\<close>

fun allowed_transitions :: "case_state \<Rightarrow> case_state list" where
  "allowed_transitions Case_DETECTED = [Case_CONTEXT_READY, Case_ESCALATED, Case_STOPPED]"
| "allowed_transitions Case_CONTEXT_READY = [Case_AWAITING_DECISION, Case_ESCALATED]"
| "allowed_transitions Case_AWAITING_DECISION = [Case_ACTION_PENDING, Case_ESCALATED, Case_STOPPED]"
| "allowed_transitions Case_ACTION_PENDING = [Case_VERIFICATION_PENDING, Case_ESCALATED, Case_STOPPED]"
| "allowed_transitions Case_VERIFICATION_PENDING = [Case_RECOVERED, Case_RETRY_ELIGIBLE, Case_ESCALATED]"
| "allowed_transitions Case_RETRY_ELIGIBLE = [Case_ACTION_PENDING, Case_ESCALATED, Case_STOPPED]"
| "allowed_transitions Case_RECOVERED = [Case_CLOSED]"
| "allowed_transitions Case_ESCALATED = [Case_CLOSED]"
| "allowed_transitions Case_STOPPED = [Case_CLOSED]"
| "allowed_transitions Case_CLOSED = []"

text \<open>Runs of the machine, with the states visited after the start.\<close>

inductive fsm_run :: "case_state \<Rightarrow> case_state list \<Rightarrow> case_state \<Rightarrow> bool" where
  fsm_stay: "fsm_run s [] s"
| fsm_move: "fsm_run s vs t \<Longrightarrow> u \<in> set (allowed_transitions t) \<Longrightarrow> fsm_run s (vs @ [u]) u"

inductive_cases fsm_run_NilE: "fsm_run s [] t"
inductive_cases fsm_run_snocE: "fsm_run s (vs @ [u]) t"

lemma fsm_run_last: "fsm_run s vs t \<Longrightarrow> last (s # vs) = t"
  by (induction rule: fsm_run.induct) auto

text \<open>From CLOSED nothing moves, and an end state moves to CLOSED only.\<close>

lemma fsm_run_closed: "fsm_run s vs t \<Longrightarrow> s = Case_CLOSED \<Longrightarrow> vs = [] \<and> t = Case_CLOSED"
  by (induction rule: fsm_run.induct) auto

lemma fsm_run_end:
  "fsm_run s vs t \<Longrightarrow> s \<in> {Case_RECOVERED, Case_ESCALATED, Case_STOPPED} \<Longrightarrow>
     (vs = [] \<and> t = s) \<or> (vs = [Case_CLOSED] \<and> t = Case_CLOSED)"
  by (induction rule: fsm_run.induct) auto

text \<open>What has been visited before each state, by rule induction over runs from DETECTED.\<close>

definition passed_through :: "case_state \<Rightarrow> case_state list" where
  "passed_through t =
     (case t of
        Case_AWAITING_DECISION \<Rightarrow> [Case_CONTEXT_READY]
      | Case_ACTION_PENDING \<Rightarrow> [Case_CONTEXT_READY, Case_AWAITING_DECISION]
      | Case_VERIFICATION_PENDING \<Rightarrow> [Case_CONTEXT_READY, Case_AWAITING_DECISION, Case_ACTION_PENDING]
      | Case_RETRY_ELIGIBLE \<Rightarrow>
          [Case_CONTEXT_READY, Case_AWAITING_DECISION, Case_ACTION_PENDING, Case_VERIFICATION_PENDING]
      | Case_RECOVERED \<Rightarrow>
          [Case_CONTEXT_READY, Case_AWAITING_DECISION, Case_ACTION_PENDING, Case_VERIFICATION_PENDING]
      | _ \<Rightarrow> [])"

lemma fsm_run_target: "fsm_run s vs t \<Longrightarrow> vs = [] \<and> t = s \<or> t \<in> set vs"
  by (erule fsm_run.cases) auto

lemma fsm_passed_through:
  "fsm_run s vs t \<Longrightarrow> s = Case_DETECTED \<Longrightarrow> set (passed_through t) \<subseteq> set vs"
proof (induction rule: fsm_run.induct)
  case (fsm_stay s)
  then show ?case by (simp add: passed_through_def)
next
  case (fsm_move s vs t u)
  then have "set (passed_through t) \<subseteq> set vs" by simp
  moreover have "t = Case_DETECTED \<or> t \<in> set vs"
    using fsm_run_target [OF fsm_move(1)] fsm_move.prems by auto
  ultimately show ?case
    using fsm_move(2) by (cases t) (auto simp: passed_through_def)
qed

lemma fsm_closed_after_end:
  "fsm_run s vs t \<Longrightarrow> s = Case_DETECTED \<Longrightarrow> t = Case_CLOSED \<Longrightarrow>
     set vs \<inter> {Case_RECOVERED, Case_ESCALATED, Case_STOPPED} \<noteq> {}"
proof (induction rule: fsm_run.induct)
  case (fsm_move s vs t u)
  then have "t \<in> {Case_RECOVERED, Case_ESCALATED, Case_STOPPED}" by (cases t) auto
  moreover have "t \<in> set vs \<or> t = Case_DETECTED"
    using fsm_run_target [OF fsm_move(1)] fsm_move.prems by auto
  ultimately show ?case by auto
qed simp

text \<open>Along the transition table a case opened in DETECTED can only be
  RECOVERED after it went through CONTEXT_READY, AWAITING_DECISION, ACTION_PENDING and
  VERIFICATION_PENDING, so no recovery is recorded without a decision, an action and a
  verification; and it can only be CLOSED after it was recovered, escalated or stopped.\<close>

theorem no_recovery_without_verification:
  assumes "fsm_run Case_DETECTED vs t"
  shows "(t = Case_RECOVERED \<longrightarrow>
            {Case_CONTEXT_READY, Case_AWAITING_DECISION, Case_ACTION_PENDING, Case_VERIFICATION_PENDING}
              \<subseteq> set vs)
         \<and> (t = Case_CLOSED \<longrightarrow> set vs \<inter> {Case_RECOVERED, Case_ESCALATED, Case_STOPPED} \<noteq> {})"
  using fsm_passed_through [OF assms] fsm_closed_after_end [OF assms]
  by (auto simp: passed_through_def)

definition demo_path :: "case_state list" where
  "demo_path =
     [Case_CONTEXT_READY, Case_AWAITING_DECISION, Case_ACTION_PENDING, Case_VERIFICATION_PENDING,
      Case_RECOVERED]"

lemma demo_path_run: "fsm_run Case_DETECTED demo_path Case_RECOVERED"
proof -
  have "fsm_run Case_DETECTED ([] @ [Case_CONTEXT_READY]) Case_CONTEXT_READY"
    by (intro fsm_move [of _ _ Case_DETECTED] fsm_stay) simp
  then have "fsm_run Case_DETECTED ([Case_CONTEXT_READY] @ [Case_AWAITING_DECISION]) Case_AWAITING_DECISION"
    by (intro fsm_move [of _ _ Case_CONTEXT_READY]) simp_all
  then have "fsm_run Case_DETECTED ([Case_CONTEXT_READY, Case_AWAITING_DECISION] @ [Case_ACTION_PENDING])
      Case_ACTION_PENDING"
    by (intro fsm_move [of _ _ Case_AWAITING_DECISION]) simp_all
  then have "fsm_run Case_DETECTED ([Case_CONTEXT_READY, Case_AWAITING_DECISION, Case_ACTION_PENDING]
      @ [Case_VERIFICATION_PENDING]) Case_VERIFICATION_PENDING"
    by (intro fsm_move [of _ _ Case_ACTION_PENDING]) simp_all
  then have "fsm_run Case_DETECTED ([Case_CONTEXT_READY, Case_AWAITING_DECISION, Case_ACTION_PENDING,
      Case_VERIFICATION_PENDING] @ [Case_RECOVERED]) Case_RECOVERED"
    by (intro fsm_move [of _ _ Case_VERIFICATION_PENDING]) simp_all
  then show ?thesis by (simp add: demo_path_def)
qed

lemma no_recovery_without_verification_witness:
  "Case_VERIFICATION_PENDING \<in> set demo_path \<and> fsm_run Case_DETECTED demo_path Case_RECOVERED"
  using no_recovery_without_verification [OF demo_path_run] demo_path_run by simp

section \<open>The transition service\<close>

record transition_result =
  tr_case_id :: uuid
  tr_from_state :: case_state
  tr_to_state :: case_state
  tr_sequence_number :: int
  tr_reason_code :: string
  tr_correlation_id :: string

definition invalid_transition_message :: "case_state \<Rightarrow> case_state \<Rightarrow> string" where
  "invalid_transition_message a b =
     ''invalid recovery transition: '' @ case_state_value a @ '' -> '' @ case_state_value b"

text \<open>The case object after the move, and the two rows it adds.\<close>

definition moved_case :: "recovery_case \<Rightarrow> case_state \<Rightarrow> pydatetime \<Rightarrow> recovery_case" where
  "moved_case c to_state now =
     c\<lparr>rc_state := to_state, rc_version := rc_version c + 1, rc_last_state_changed_at := now,
       rc_closed_at := (if to_state = Case_CLOSED then Some now else rc_closed_at c)\<rparr>"

definition history_row ::
  "recovery_case \<Rightarrow> case_state \<Rightarrow> string \<Rightarrow> actor_type \<Rightarrow> string \<Rightarrow> pydatetime \<Rightarrow> int \<Rightarrow> case_transition"
  where
  "history_row c to_state reason actor corr now sequence =
     \<lparr>ct_case_id = rc_id c, ct_from_state = Some (rc_state c), ct_to_state = to_state,
      ct_reason_code = reason, ct_actor_type = actor, ct_correlation_id = corr, ct_occurred_at = now,
      ct_sequence_number = sequence,
      ct_metadata = [(''version'', JInt (rc_version c + 1))]\<rparr>"

definition history_audit ::
  "recovery_case \<Rightarrow> case_state \<Rightarrow> string \<Rightarrow> actor_type \<Rightarrow> string option \<Rightarrow> string \<Rightarrow> pydatetime \<Rightarrow> int
     \<Rightarrow> audit_event" where
  "history_audit c to_state reason actor actor_id corr now sequence =
     \<lparr>ae_case_id = rc_id c, ae_event_type = ''case.'' @ case_state_value to_state,
      ae_from_state = Some (rc_state c), ae_to_state = Some to_state, ae_actor_type = actor,
      ae_actor_id = actor_id, ae_correlation_id = corr, ae_event_time = now,
      ae_payload = [(''reason_code'', JStr reason), (''version'', JInt (rc_version c + 1))],
      ae_sequence_number = sequence\<rparr>"

text \<open>
  \<open>CaseTransitionService.transition\<close>. \<open>order_by(desc(...)).limit(1)\<close> reads the same number as the
  maximum query. \<open>corr_id\<close> is the fresh \<open>uuid4()\<close> used when no correlation id is given.
\<close>

definition transition_case ::
  "recovery_case \<Rightarrow> case_state \<Rightarrow> string \<Rightarrow> actor_type \<Rightarrow> string option \<Rightarrow> string option
     \<Rightarrow> uuid \<Rightarrow> pydatetime \<Rightarrow> session
     \<Rightarrow> py_error + (transition_result \<times> recovery_case \<times> session)" where
  "transition_case c to_state reason actor actor_id correlation_id corr_id now s =
     (let corr = (if truthy correlation_id then or_empty correlation_id else corr_id)
      in if to_state \<notin> set (allowed_transitions (rc_state c))
           then Inl (ValueError (invalid_transition_message (rc_state c) to_state))
         else
           (let sequence = next_transition_seq s (rc_id c);
                c' = moved_case c to_state now;
                s1 = put_case c' s;
                s2 = add_transition (history_row c to_state reason actor corr now sequence) s1;
                s3 = add_audit (history_audit c to_state reason actor actor_id corr now sequence) s2
            in ebind (flush s3) (\<lambda>t.
                 Inr (\<lparr>tr_case_id = rc_id c, tr_from_state = rc_state c, tr_to_state = to_state,
                       tr_sequence_number = sequence, tr_reason_code = reason,
                       tr_correlation_id = corr\<rparr>, c', t))))"

text \<open>The call as the workflow services make it: only the case and the session are used after it.\<close>

definition move_case ::
  "recovery_case \<Rightarrow> case_state \<Rightarrow> string \<Rightarrow> actor_type \<Rightarrow> string option \<Rightarrow> string option
     \<Rightarrow> uuid \<Rightarrow> pydatetime \<Rightarrow> session \<Rightarrow> py_error + (recovery_case \<times> session)" where
  "move_case c to_state reason actor actor_id correlation_id corr_id now s =
     ebind (transition_case c to_state reason actor actor_id correlation_id corr_id now s)
       (\<lambda>(_, c', t). Inr (c', t))"

lemma moved_case_simps [simp]:
  "rc_id (moved_case c st now) = rc_id c" "rc_state (moved_case c st now) = st"
  "rc_version (moved_case c st now) = rc_version c + 1"
  "rc_case_key (moved_case c st now) = rc_case_key c"
  by (simp_all add: moved_case_def)

subsection \<open>Success, failure and what is written\<close>

definition transition_writes ::
  "recovery_case \<Rightarrow> case_state \<Rightarrow> string \<Rightarrow> actor_type \<Rightarrow> string option \<Rightarrow> string \<Rightarrow> pydatetime
     \<Rightarrow> session \<Rightarrow> session" where
  "transition_writes c to_state reason actor actor_id corr now s =
     add_audit (history_audit c to_state reason actor actor_id corr now (next_transition_seq s (rc_id c)))
       (add_transition (history_row c to_state reason actor corr now (next_transition_seq s (rc_id c)))
         (put_case (moved_case c to_state now) s))"

lemma transition_case_Inr:
  assumes "transition_case c st reason actor aid corr corr_id now s = Inr (r, c', t)"
  obtains k where "st \<in> set (allowed_transitions (rc_state c))" "c' = moved_case c st now"
    "violated (transition_writes c st reason actor aid k now s) = None"
    "t = flushed (transition_writes c st reason actor aid k now s)"
    "tr_sequence_number r = next_transition_seq s (rc_id c)"
  using assms
  by (auto simp: transition_case_def Let_def err_simps flush_ok transition_writes_def split: if_splits)

lemma transition_case_invalid:
  "st \<notin> set (allowed_transitions (rc_state c)) \<Longrightarrow>
     transition_case c st reason actor aid corr corr_id now s =
       Inl (ValueError (invalid_transition_message (rc_state c) st))"
  by (simp add: transition_case_def Let_def)

lemma transition_writes_violated:
  assumes "session_ok s" and "find_case s (rc_id c) = Some c"
  shows "violated (transition_writes c st reason actor aid k now s) =
           (if next_transition_seq s (rc_id c) \<in> set (audit_seqs s (rc_id c))
            then Some ''uq_audit_case_sequence'' else None)"
proof -
  let ?s1 = "put_case (moved_case c st now) s"
  let ?n = "next_transition_seq s (rc_id c)"
  let ?s2 = "add_transition (history_row c st reason actor k now ?n) ?s1"
  have v1: "violated ?s1 = None"
    using assms by (intro violated_put_case [where ?c0.0 = c]) (simp_all add: session_ok_def)
  have v2: "violated ?s2 = None"
    using v1 assms by (intro violated_add_transition) (simp_all add: seq_defs put_case_def history_row_def session_ok_def)
  have mem: "(rc_id c, ?n) \<in> audit_key ` set (audit_rows s) \<longleftrightarrow> ?n \<in> set (audit_seqs s (rc_id c))"
    by (force simp: audit_seqs_def image_iff)
  have w: "transition_writes c st reason actor aid k now s =
      add_audit (history_audit c st reason actor aid k now ?n) ?s2"
    by (simp add: transition_writes_def)
  have rows: "audit_rows ?s2 = audit_rows s" "audit_pending ?s2 = []"
    using assms by (simp_all add: add_transition_def put_case_def session_ok_def)
  have parts: "case_unique (cases ?s2)" "audit_unique (audit_rows s)"
    "transition_unique (transition_rows ?s2 @ transition_pending ?s2)"
    "attempt_unique (attempts ?s2)" "step_unique (steps ?s2)" "execution_unique (executions ?s2)"
    "webhook_unique (webhooks ?s2)" "customer_unique (customers ?s2)"
    "transaction_unique (transactions ?s2)"
    using v2 rows by (simp_all add: violated_None_iff)
  show ?thesis
    unfolding w violated_def using parts rows mem
    by (simp add: add_audit_def audit_unique_snoc history_audit_def)
qed

text \<open>On a database that satisfies its constraints, a transition of a stored case
  raises nothing exactly when the table allows the move and the number it takes from the
  transition history is not already used in the case's audit log; a forbidden move is a
  ValueError, and a used number an IntegrityError on the audit log.\<close>

theorem transition_succeeds_iff:
  assumes "session_ok s" and "find_case s (rc_id c) = Some c"
  shows "(is_ok (transition_case c st reason actor aid corr corr_id now s) \<longleftrightarrow>
            st \<in> set (allowed_transitions (rc_state c))
            \<and> next_transition_seq s (rc_id c) \<notin> set (audit_seqs s (rc_id c)))
         \<and> (st \<notin> set (allowed_transitions (rc_state c)) \<longrightarrow>
              transition_case c st reason actor aid corr corr_id now s =
                Inl (ValueError (invalid_transition_message (rc_state c) st)))
         \<and> (st \<in> set (allowed_transitions (rc_state c))
              \<and> next_transition_seq s (rc_id c) \<in> set (audit_seqs s (rc_id c)) \<longrightarrow>
              transition_case c st reason actor aid corr corr_id now s =
                Inl (IntegrityError ''uq_audit_case_sequence''))"
proof -
  let ?k = "if truthy corr then or_empty corr else corr_id"
  have "transition_case c st reason actor aid corr corr_id now s =
      (if st \<notin> set (allowed_transitions (rc_state c))
       then Inl (ValueError (invalid_transition_message (rc_state c) st))
       else ebind (flush (transition_writes c st reason actor aid ?k now s)) (\<lambda>t.
         Inr (\<lparr>tr_case_id = rc_id c, tr_from_state = rc_state c, tr_to_state = st,
               tr_sequence_number = next_transition_seq s (rc_id c), tr_reason_code = reason,
               tr_correlation_id = ?k\<rparr>, moved_case c st now, t)))"
    unfolding transition_case_def transition_writes_def Let_def by (rule refl)
  then show ?thesis
    using transition_writes_violated [OF assms, of st reason actor aid ?k now]
    by (simp add: flush_def)
qed

text \<open>A case opened through the case service carries audit record 1 before its first transition.\<close>

definition demo_opened :: audit_event where
  "demo_opened =
     \<lparr>ae_case_id = ''case'', ae_event_type = ''CASE_OPENED'', ae_from_state = None,
      ae_to_state = Some Case_DETECTED, ae_actor_type = Actor_SYSTEM, ae_actor_id = None,
      ae_correlation_id = ''k'', ae_event_time = Aware 0, ae_payload = [], ae_sequence_number = 1\<rparr>"

definition demo_row :: recovery_case where
  "demo_row =
     \<lparr>rc_id = ''case'', rc_customer_id = ''cust'', rc_trigger_transaction_id = ''tx'',
      rc_case_key = ''key'', rc_state = Case_DETECTED, rc_priority = 1, rc_opened_at = Aware 0,
      rc_last_state_changed_at = Aware 0, rc_closed_at = None, rc_version = 1, rc_metadata = []\<rparr>"

lemma transition_succeeds_iff_witness:
  "is_ok (transition_case demo_row Case_CONTEXT_READY ''r'' Actor_SYSTEM None None ''u'' (Aware 1)
            (empty_session\<lparr>cases := [demo_row]\<rparr>))
   \<and> transition_case demo_row Case_CONTEXT_READY ''r'' Actor_SYSTEM None None ''u'' (Aware 1)
       (empty_session\<lparr>cases := [demo_row], audit_rows := [demo_opened]\<rparr>)
       = Inl (IntegrityError ''uq_audit_case_sequence'')"
proof -
  let ?a = "empty_session\<lparr>cases := [demo_row]\<rparr>"
  let ?b = "empty_session\<lparr>cases := [demo_row], audit_rows := [demo_opened]\<rparr>"
  have ok: "session_ok ?a" "session_ok ?b" unfolding session_ok_def by code_simp+
  have f: "find_case ?a (rc_id demo_row) = Some demo_row" "find_case ?b (rc_id demo_row) = Some demo_row"
    by (simp_all add: find_case_def)
  have m: "Case_CONTEXT_READY \<in> set (allowed_transitions (rc_state demo_row))"
    by (simp add: demo_row_def)
  have n: "next_transition_seq ?a (rc_id demo_row) \<notin> set (audit_seqs ?a (rc_id demo_row))"
    "next_transition_seq ?b (rc_id demo_row) \<in> set (audit_seqs ?b (rc_id demo_row))"
    by code_simp+
  show ?thesis
    using transition_succeeds_iff [OF ok(1) f(1), of Case_CONTEXT_READY "''r''" Actor_SYSTEM None None
        "''u''" "Aware 1"]
      transition_succeeds_iff [OF ok(2) f(2), of Case_CONTEXT_READY "''r''" Actor_SYSTEM None None
        "''u''" "Aware 1"] m n
    by blast
qed

subsection \<open>The history replays to the current state\<close>

definition history_of :: "session \<Rightarrow> uuid \<Rightarrow> case_transition list" where
  "history_of s cid = filter (\<lambda>t. ct_case_id t = cid) (transition_rows s)"

fun chained :: "case_state \<Rightarrow> case_transition list \<Rightarrow> case_state \<Rightarrow> bool" where
  "chained st [] st' = (st = st')"
| "chained st (t # ts) st' =
     (ct_from_state t = Some st \<and> ct_to_state t \<in> set (allowed_transitions st)
      \<and> chained (ct_to_state t) ts st')"

text \<open>The rows of a case are numbered 1, 2, ... and lead from DETECTED to its current state.\<close>

definition history_ok :: "session \<Rightarrow> recovery_case \<Rightarrow> bool" where
  "history_ok s c \<longleftrightarrow>
     map ct_sequence_number (history_of s (rc_id c)) =
       map (\<lambda>i. int i + 1) [0..<length (history_of s (rc_id c))]
     \<and> chained Case_DETECTED (history_of s (rc_id c)) (rc_state c)"

lemma chained_snoc:
  "chained a (ts @ [t]) b \<longleftrightarrow>
     (\<exists>m. chained a ts m \<and> ct_from_state t = Some m \<and> ct_to_state t \<in> set (allowed_transitions m)
          \<and> b = ct_to_state t)"
  by (induction ts arbitrary: a) auto

lemma chained_run: "chained a ts b \<Longrightarrow> fsm_run a (map ct_to_state ts) b"
proof (induction ts arbitrary: b rule: rev_induct)
  case Nil
  then show ?case by (simp add: fsm_stay)
next
  case (snoc t ts)
  then show ?case by (auto simp: chained_snoc intro: fsm_move)
qed

lemma sql_max_numbered: "0 < n \<Longrightarrow> sql_max (map (\<lambda>i. int i + 1) [0..<n]) = Some (int n)"
proof -
  assume n: "0 < n"
  let ?xs = "map (\<lambda>i. int i + 1) [0..<n]"
  from n obtain m where m: "sql_max ?xs = Some m" by (cases "sql_max ?xs") auto
  have "int n \<in> set ?xs" using n by (auto simp: image_iff intro!: bexI [of _ "n - 1"])
  then have "int n \<le> m" using sql_max_upper [OF m] by blast
  moreover have "m \<in> set ?xs" by (rule sql_max_mem [OF m])
  then have "m \<le> int n" by auto
  ultimately show ?thesis using m by simp
qed

lemma next_seq_numbered: "next_seq (map (\<lambda>i. int i + 1) [0..<n]) = int n + 1"
proof (cases "n = 0")
  case False
  then show ?thesis using sql_max_numbered [of n] by (simp add: next_seq_def)
qed simp

lemma history_after:
  assumes "session_ok s"
  shows "history_of (flushed (transition_writes c st reason actor aid k now s)) (rc_id c) =
           history_of s (rc_id c) @ [history_row c st reason actor k now (next_transition_seq s (rc_id c))]"
  using assms
  by (simp add: history_of_def transition_writes_def add_audit_def add_transition_def put_case_def
      session_ok_def history_row_def)



lemma move_case_Inr:
  "move_case c st reason actor aid corr corr_id now s = Inr (c', t) \<longleftrightarrow>
     (\<exists>r. transition_case c st reason actor aid corr corr_id now s = Inr (r, c', t))"
  by (auto simp: move_case_def err_simps)

lemma move_case_facts:
  assumes "move_case c st reason actor aid corr corr_id now s = Inr (c', t)"
  shows "st \<in> set (allowed_transitions (rc_state c))" "c' = moved_case c st now"
    and "workflows t = workflows s" "steps t = steps s" "executions t = executions s"
    and "attempts t = attempts s" "session_ok t"
  using assms
  by (auto simp: move_case_Inr session_ok_flushed elim!: transition_case_Inr)
    (simp_all add: transition_writes_def add_audit_def add_transition_def put_case_def)

text \<open>When a move returns, and what the stored rows are then.\<close>

lemma move_case_returns:
  assumes "session_ok s" and "find_case s (rc_id c) = Some c"
    and "st \<in> set (allowed_transitions (rc_state c))"
    and "next_transition_seq s (rc_id c) \<notin> set (audit_seqs s (rc_id c))"
  obtains t where "move_case c st reason actor aid corr corr_id now s = Inr (moved_case c st now, t)"
proof -
  let ?k = "if truthy corr then or_empty corr else corr_id"
  have "violated (transition_writes c st reason actor aid ?k now s) = None"
    using transition_writes_violated [OF assms(1,2)] assms(4) by simp
  then have "\<exists>t. flush (transition_writes c st reason actor aid ?k now s) = Inr t"
    by (simp add: flush_def)
  then have "\<exists>t. move_case c st reason actor aid corr corr_id now s = Inr (moved_case c st now, t)"
    using assms(3) by (auto simp: move_case_def transition_case_def Let_def transition_writes_def)
  with that show thesis by blast
qed

lemma move_case_rows:
  assumes "move_case c st reason actor aid corr corr_id now s = Inr (c', t)" and "session_ok s"
  shows "audit_seqs t (rc_id c) = audit_seqs s (rc_id c) @ [next_transition_seq s (rc_id c)]"
    and "transactions t = transactions s" and "cases t = upd_by rc_id c' (cases s)"
    and "customers t = customers s" and "webhooks t = webhooks s" and "consents t = consents s"
    and "agent_decisions t = agent_decisions s" and "policy_decisions t = policy_decisions s"
  using assms
  by (auto simp: move_case_Inr session_ok_def elim!: transition_case_Inr)
    (simp_all add: transition_writes_def add_audit_def add_transition_def put_case_def audit_seqs_def
      history_audit_def)

end
