(* ===== verification/Event_Normalizer.thy ===== *)
theory Event_Normalizer
  imports Enums
begin

text \<open>
  \<open>EventNormalizer\<close> of \<open>backend/app/services/event_normalizer.py\<close>: redaction of sensitive data, the
  two vocabulary maps, and the normalisation of a canonical ingestion request. Floating-point
  numbers do not occur in the JSON values modelled, and text is ASCII.
\<close>

section \<open>Redaction\<close>

definition sensitive_keys :: "string list" where
  "sensitive_keys =
     [''card_number'', ''number'', ''cvv'', ''cvc'', ''security_code'', ''pin'', ''password'', ''secret'',
      ''api_key'', ''token'', ''authorization'', ''cookie'']"

definition is_sensitive_key :: "string \<Rightarrow> bool" where
  "is_sensitive_key k = list_ex (\<lambda>sens. contains sens (py_lower k)) sensitive_keys"

definition is_digit :: "char \<Rightarrow> bool" where
  "is_digit c = (let n = (of_char c :: nat) in 48 \<le> n \<and> n \<le> 57)"

definition word_char :: "char \<Rightarrow> bool" where
  "word_char c =
     (let n = (of_char c :: nat)
      in (48 \<le> n \<and> n \<le> 57) \<or> (65 \<le> n \<and> n \<le> 90) \<or> n = 95 \<or> (97 \<le> n \<and> n \<le> 122))"

text \<open>
  The search \<open>\b(?:\d[ -]*?){13,19}\b\<close>. \<open>pan_rest k w s\<close>: with \<open>k\<close> digits read, the previous character
  a word character iff \<open>w\<close>, some continuation of the match succeeds on \<open>s\<close>.
\<close>

definition boundary :: "bool \<Rightarrow> string \<Rightarrow> bool" where
  "boundary w s = (w \<noteq> (case s of [] \<Rightarrow> False | c # _ \<Rightarrow> word_char c))"

fun pan_rest :: "nat \<Rightarrow> bool \<Rightarrow> string \<Rightarrow> bool" where
  "pan_rest k w [] = (13 \<le> k \<and> k \<le> 19 \<and> boundary w [])"
| "pan_rest k w (c # cs) =
     ((13 \<le> k \<and> k \<le> 19 \<and> boundary w (c # cs))
      \<or> (is_digit c \<and> k < 19 \<and> pan_rest (k + 1) True cs)
      \<or> (c \<in> {CHR '' '', CHR ''-''} \<and> 1 \<le> k \<and> pan_rest k False cs))"

fun pan_search :: "bool \<Rightarrow> string \<Rightarrow> bool" where
  "pan_search w [] = False"
| "pan_search w (c # cs) =
     ((boundary w (c # cs) \<and> pan_rest 0 w (c # cs)) \<or> pan_search (word_char c) cs)"

definition has_pan :: "string \<Rightarrow> bool" where
  "has_pan s = pan_search False s"

definition redacted :: json where
  "redacted = JStr ''[REDACTED]''"

fun sanitize :: "json \<Rightarrow> json" where
  "sanitize (JObj kvs) =
     JObj (map (\<lambda>(k, v). (k, if is_sensitive_key k then redacted else sanitize v)) kvs)"
| "sanitize (JList vs) = JList (map sanitize vs)"
| "sanitize (JStr s) = (if has_pan s then JStr ''[REDACTED_PAN]'' else JStr s)"
| "sanitize JNull = JNull"
| "sanitize (JBool b) = JBool b"
| "sanitize (JInt i) = JInt i"

definition sanitize_payload :: "payload \<Rightarrow> payload" where
  "sanitize_payload d = (case sanitize (JObj d) of JObj e \<Rightarrow> e | _ \<Rightarrow> [])"

text \<open>A clean value: sensitive keys carry the marker only, and no string value shows a card number.\<close>

fun clean :: "json \<Rightarrow> bool" where
  "clean (JObj kvs) = list_all (\<lambda>(k, v). if is_sensitive_key k then v = redacted else clean v) kvs"
| "clean (JList vs) = list_all clean vs"
| "clean (JStr s) = (\<not> has_pan s)"
| "clean _ = True"

lemma markers_clean: "\<not> has_pan ''[REDACTED_PAN]''" "\<not> has_pan ''[REDACTED]''"
  by code_simp+

lemma sanitize_clean: "clean (sanitize j)"
  by (induction j rule: sanitize.induct) (auto simp: list_all_iff markers_clean redacted_def)

lemma sanitize_fixes_clean: "clean j \<Longrightarrow> sanitize j = j"
proof (induction j rule: sanitize.induct)
  case (1 kvs)
  then show ?case by (auto simp: list_all_iff intro!: map_idI)
next
  case (2 vs)
  then show ?case by (auto simp: list_all_iff intro!: map_idI)
qed simp_all



section \<open>Vocabulary\<close>

definition event_type_mapping :: "(string \<times> event_type) list" where
  "event_type_mapping =
     [(''payment_intent.payment_failed'', Evt_PAYMENT_FAILED), (''payment.failed'', Evt_PAYMENT_FAILED),
      (''charge.failed'', Evt_PAYMENT_FAILED), (''payment_failed'', Evt_PAYMENT_FAILED),
      (''PAYMENT_FAILED'', Evt_PAYMENT_FAILED),
      (''payment_intent.succeeded'', Evt_PAYMENT_SUCCEEDED),
      (''payment.captured'', Evt_PAYMENT_SUCCEEDED), (''charge.succeeded'', Evt_PAYMENT_SUCCEEDED),
      (''payment_succeeded'', Evt_PAYMENT_SUCCEEDED), (''PAYMENT_SUCCEEDED'', Evt_PAYMENT_SUCCEEDED),
      (''invoice.payment_failed'', Evt_SUBSCRIPTION_PAYMENT_FAILED),
      (''subscription.payment_failed'', Evt_SUBSCRIPTION_PAYMENT_FAILED),
      (''subscription_payment_failed'', Evt_SUBSCRIPTION_PAYMENT_FAILED),
      (''SUBSCRIPTION_PAYMENT_FAILED'', Evt_SUBSCRIPTION_PAYMENT_FAILED),
      (''checkout.session.expired'', Evt_CHECKOUT_ABANDONED),
      (''checkout_abandoned'', Evt_CHECKOUT_ABANDONED),
      (''CHECKOUT_ABANDONED'', Evt_CHECKOUT_ABANDONED),
      (''invoice.marked_uncollectible'', Evt_INVOICE_OVERDUE),
      (''invoice.overdue'', Evt_INVOICE_OVERDUE), (''invoice_overdue'', Evt_INVOICE_OVERDUE),
      (''INVOICE_OVERDUE'', Evt_INVOICE_OVERDUE)]"

definition dots_to_underscores :: "string \<Rightarrow> string" where
  "dots_to_underscores s = map (\<lambda>c. if c = CHR ''.'' then CHR ''_'' else c) s"

definition normalize_event_type :: "string \<Rightarrow> string" where
  "normalize_event_type raw =
     (case map_of event_type_mapping (py_strip raw) of
        Some e \<Rightarrow> event_type_value e
      | None \<Rightarrow> dots_to_underscores (py_upper raw))"

definition failure_code_mapping :: "(string \<times> failure_category) list" where
  "failure_code_mapping =
     [(''insufficient_funds'', Fail_INSUFFICIENT_FUNDS), (''card_declined'', Fail_GENERIC_DECLINE),
      (''expired_card'', Fail_CARD_EXPIRED), (''card_expired'', Fail_CARD_EXPIRED),
      (''authentication_required'', Fail_AUTHENTICATION_REQUIRED), (''do_not_honor'', Fail_DO_NOT_HONOR),
      (''fraudulent'', Fail_FRAUD_SUSPECTED), (''fraud_suspected'', Fail_FRAUD_SUSPECTED),
      (''processing_error'', Fail_PROCESSING_ERROR), (''abandoned'', Fail_ABANDONED),
      (''overdue'', Fail_OVERDUE)]"

definition normalize_failure_code :: "string option \<Rightarrow> string" where
  "normalize_failure_code raw =
     (if \<not> truthy raw then failure_category_value Fail_UNKNOWN
      else (let cleaned = norm_code raw
            in case map_of failure_code_mapping cleaned of
                 Some f \<Rightarrow> failure_category_value f
               | None \<Rightarrow> cleaned))"

text \<open>Every mapped code is a fixed point, so normalising a normalised code changes nothing.\<close>

lemma mapped_codes_stable:
  "list_all (\<lambda>(_, f). normalize_failure_code (Some (failure_category_value f)) = failure_category_value f)
     failure_code_mapping"
  by code_simp

lemma lower_char_space: "py_space (lower_char c) \<longleftrightarrow> py_space c"
  by (auto simp: py_space_def lower_char_def Let_def)

lemma lower_char_idem: "lower_char (lower_char c) = lower_char c"
  by (auto simp: lower_char_def Let_def)

lemma py_lower_idem [simp]: "py_lower (py_lower s) = py_lower s"
  by (simp add: py_lower_def lower_char_idem)

lemma py_strip_lower: "py_strip (py_lower s) = py_lower (py_strip s)"
  by (simp add: py_strip_def py_lower_def dropWhile_map rev_map comp_def lower_char_space)

lemma py_strip_idem [simp]: "py_strip (py_strip s) = py_strip s"
proof -
  let ?t = "rev (dropWhile py_space (rev (dropWhile py_space s)))"
  have hd: "dropWhile py_space ?t = ?t"
  proof (cases "dropWhile py_space s")
    case Nil
    show ?thesis unfolding Nil by simp
  next
    case (Cons c cs)
    then have c: "\<not> py_space c" by (metis hd_dropWhile list.distinct(1) list.sel(1))
    have "dropWhile py_space (rev cs @ [c]) = dropWhile py_space (rev cs) @ [c]"
      using c by (simp add: dropWhile_append3 dropWhile_append)
    then show ?thesis using Cons c by simp
  qed
  have "dropWhile py_space (rev ?t) = rev ?t" by simp
  with hd show ?thesis by (simp add: py_strip_def)
qed

lemma norm_code_idem: "norm_code (Some (norm_code s)) = norm_code s"
  by (simp add: norm_code_def or_empty_def py_strip_lower)

text \<open>Normalising a failure code is idempotent: the code that is stored
  normalises to itself, whatever spelling the provider sent. The exception the source has is a
  code of white space only, whose stored form is empty and would next read as unknown.\<close>

theorem failure_code_normal_form:
  assumes "normalize_failure_code raw \<noteq> []"
  shows "normalize_failure_code (Some (normalize_failure_code raw)) = normalize_failure_code raw"
proof (cases "truthy raw")
  case False
  have "normalize_failure_code (Some (failure_category_value Fail_UNKNOWN)) = failure_category_value Fail_UNKNOWN"
    by code_simp
  with False show ?thesis by (simp add: normalize_failure_code_def [of raw])
next
  case True
  show ?thesis
  proof (cases "map_of failure_code_mapping (norm_code raw)")
    case None
    with True have n: "normalize_failure_code raw = norm_code raw"
      by (simp add: normalize_failure_code_def Let_def)
    with assms have "truthy (Some (norm_code raw))" by simp
    with None show ?thesis
      unfolding n by (simp add: normalize_failure_code_def [of "Some (norm_code raw)"] norm_code_idem Let_def)
  next
    case (Some f)
    with True have n: "normalize_failure_code raw = failure_category_value f"
      by (simp add: normalize_failure_code_def Let_def)
    from Some have "(norm_code raw, f) \<in> set failure_code_mapping" by (rule map_of_SomeD)
    with mapped_codes_stable show ?thesis unfolding n by (auto simp: list_all_iff)
  qed
qed

lemma failure_code_normal_form_witness:
  "normalize_failure_code (Some '' Expired_Card '') = ''card_expired''
   \<and> normalize_failure_code (Some (normalize_failure_code (Some '' Expired_Card ''))) = ''card_expired''"
proof -
  have n: "normalize_failure_code (Some '' Expired_Card '') = ''card_expired''" by code_simp
  then have "normalize_failure_code (Some '' Expired_Card '') \<noteq> []" by simp
  from failure_code_normal_form [OF this] n show ?thesis by simp
qed

end
