(* ===== verification/Payment_Adapter.thy ===== *)
theory Payment_Adapter
  imports Domain Event_Normalizer
begin

text \<open>
  The payment boundary: the contract of \<open>backend/app/workflows/adapters/base.py\<close> and the Razorpay
  sandbox adapter of \<open>razorpay_adapter.py\<close> (idempotency store, deterministic simulator, live HTTP
  path, status query).

  What one call takes from outside is its environment: the clock, the elapsed milliseconds, two
  fresh uuids, and the gateway's answer to each HTTP request. The gateway is not code of the
  repository, so \<open>en_http\<close> is an arbitrary function of the request; its JSON body is read with the
  types Razorpay documents (string ids and currency, integer amounts), a field of another type
  being read as absent. The free text of \<open>error_message_safe\<close> is not kept.
\<close>

record retry_request =
  pr_case_id :: uuid
  pr_transaction_id :: uuid
  pr_amount_minor :: int
  pr_currency :: string
  pr_customer_reference :: string
  pr_idempotency_key :: string
  pr_customer_email :: "string option"
  pr_customer_contact :: "string option"
  pr_payment_method :: "string option"
  pr_metadata :: payload

record status_query =
  qy_provider_payment_id :: string
  qy_correlation_id :: "string option"

record execution_outcome =
  xr_status :: execution_status
  xr_provider :: string
  xr_payment_id :: "string option"
  xr_order_id :: "string option"
  xr_amount_minor :: int
  xr_currency :: string
  xr_error_code :: "string option"
  xr_raw_response :: payload
  xr_latency_ms :: int
  xr_executed_at :: pydatetime
  xr_is_definitive :: bool

section \<open>The gateway and one call's environment\<close>

datatype http_request =
    HttpPost string payload
  | HttpGet string

text \<open>
  A response carries its status and its body: a JSON object, a body under a JSON content type that
  is not an object (or does not parse), or a body of another content type.
\<close>

datatype http_body = JsonObject payload | BadJson | NotJson

datatype http_reply =
    Response int http_body
  | TimedOut
  | TransportError

record call_env =
  en_now :: pydatetime
  en_elapsed_ms :: int
  en_uuid1 :: uuid
  en_uuid2 :: uuid
  en_http :: "http_request \<Rightarrow> http_reply"

record adapter_config =
  ac_key_id :: "string option"
  ac_base_url :: string
  ac_simulate_scenarios :: bool

type_synonym submissions = "(string \<times> execution_outcome) list"

definition provider_name :: string where
  "provider_name = ''razorpay''"

definition is_test_placeholder_key :: "string option \<Rightarrow> bool" where
  "is_test_placeholder_key key =
     (if \<not> truthy key then True
      else contains ''placeholder'' (py_lower (or_empty key))
           \<or> starts_with ''rzp_test_placeholder'' (or_empty key))"

fun normalize_razorpay_status :: "string \<Rightarrow> execution_status" where
  "normalize_razorpay_status s =
     (if s = ''created'' then Exec_SUBMITTED
      else if s = ''authorized'' then Exec_PENDING
      else if s = ''captured'' then Exec_SUCCEEDED
      else if s = ''failed'' then Exec_FAILED
      else if s = ''refunded'' then Exec_CANCELLED
      else Exec_UNKNOWN)"

definition get_str :: "payload \<Rightarrow> string \<Rightarrow> string option" where
  "get_str d k = (case map_of d k of Some (JStr s) \<Rightarrow> Some s | _ \<Rightarrow> None)"

definition get_int :: "payload \<Rightarrow> string \<Rightarrow> int \<Rightarrow> int" where
  "get_int d k dflt = (case map_of d k of Some (JInt i) \<Rightarrow> i | _ \<Rightarrow> dflt)"

section \<open>Sandbox simulation\<close>

definition scenario_of :: "payload \<Rightarrow> string" where
  "scenario_of m = py_upper (or_empty (get_str m ''sandbox_scenario''))"

definition flag :: "payload \<Rightarrow> string \<Rightarrow> bool" where
  "flag m k = (map_of m k = Some (JBool True))"

definition sim_ids :: "string \<Rightarrow> call_env \<Rightarrow> string \<times> string" where
  "sim_ids prefix env =
     (prefix @ take 10 (uuid_hex (en_uuid1 env)), ''order_sim_'' @ take 10 (uuid_hex (en_uuid2 env)))"

definition simulated_timeout :: "call_env \<Rightarrow> retry_request \<Rightarrow> execution_outcome" where
  "simulated_timeout env r =
     \<lparr>xr_status = Exec_UNKNOWN, xr_provider = provider_name, xr_payment_id = None, xr_order_id = None,
      xr_amount_minor = pr_amount_minor r, xr_currency = pr_currency r,
      xr_error_code = Some ''GATEWAY_TIMEOUT'',
      xr_raw_response = [(''error'', JObj [(''code'', JStr ''GATEWAY_TIMEOUT''),
                                          (''description'', JStr ''Request timed out'')])],
      xr_latency_ms = en_elapsed_ms env + 15, xr_executed_at = en_now env, xr_is_definitive = False\<rparr>"

definition simulated_failure :: "call_env \<Rightarrow> retry_request \<Rightarrow> execution_outcome" where
  "simulated_failure env r =
     (let code = (case get_str (pr_metadata r) ''failure_code'' of
                    None \<Rightarrow> ''BAD_REQUEST_PAYMENT_FAILED'' | Some c \<Rightarrow> c);
          (pay_id, order_id) = sim_ids ''pay_sim_failed_'' env
      in \<lparr>xr_status = Exec_FAILED, xr_provider = provider_name, xr_payment_id = Some pay_id,
          xr_order_id = Some order_id, xr_amount_minor = pr_amount_minor r,
          xr_currency = pr_currency r, xr_error_code = Some code,
          xr_raw_response =
            [(''status'', JStr ''failed''),
             (''error'', JObj [(''code'', JStr code),
                               (''description'', JStr ''Payment failed in sandbox simulation.'')])],
          xr_latency_ms = en_elapsed_ms env + 12, xr_executed_at = en_now env,
          xr_is_definitive = True\<rparr>)"

definition simulated_success :: "call_env \<Rightarrow> retry_request \<Rightarrow> execution_outcome" where
  "simulated_success env r =
     (let (pay_id, order_id) = sim_ids ''pay_sim_succ_'' env
      in \<lparr>xr_status = Exec_SUCCEEDED, xr_provider = provider_name, xr_payment_id = Some pay_id,
          xr_order_id = Some order_id, xr_amount_minor = pr_amount_minor r,
          xr_currency = pr_currency r, xr_error_code = None,
          xr_raw_response =
            [(''id'', JStr pay_id), (''entity'', JStr ''payment''), (''amount'', JInt (pr_amount_minor r)),
             (''currency'', JStr (pr_currency r)), (''status'', JStr ''captured''),
             (''order_id'', JStr order_id),
             (''method'', JStr (if truthy (pr_payment_method r) then or_empty (pr_payment_method r)
                                else ''card''))],
          xr_latency_ms = en_elapsed_ms env + 10, xr_executed_at = en_now env,
          xr_is_definitive = True\<rparr>)"

definition simulated_submission :: "call_env \<Rightarrow> retry_request \<Rightarrow> execution_outcome" where
  "simulated_submission env r =
     (let (pay_id, order_id) = sim_ids ''pay_sim_sub_'' env
      in \<lparr>xr_status = Exec_SUBMITTED, xr_provider = provider_name, xr_payment_id = Some pay_id,
          xr_order_id = Some order_id, xr_amount_minor = pr_amount_minor r,
          xr_currency = pr_currency r, xr_error_code = None,
          xr_raw_response =
            [(''id'', JStr pay_id), (''entity'', JStr ''payment''), (''amount'', JInt (pr_amount_minor r)),
             (''currency'', JStr (pr_currency r)), (''status'', JStr ''created''),
             (''order_id'', JStr order_id)],
          xr_latency_ms = en_elapsed_ms env + 8, xr_executed_at = en_now env,
          xr_is_definitive = True\<rparr>)"

definition simulate_execution :: "call_env \<Rightarrow> retry_request \<Rightarrow> execution_outcome" where
  "simulate_execution env r =
     (let m = pr_metadata r; scenario = scenario_of m
      in if scenario = ''TIMEOUT'' \<or> flag m ''simulate_timeout'' then simulated_timeout env r
         else if scenario = ''FAILED'' \<or> flag m ''simulate_failure'' then simulated_failure env r
         else if scenario = ''SUCCEEDED'' \<or> flag m ''simulate_success'' then simulated_success env r
         else simulated_submission env r)"

section \<open>Live order creation\<close>

definition order_payload :: "retry_request \<Rightarrow> payload" where
  "order_payload r =
     [(''amount'', JInt (pr_amount_minor r)), (''currency'', JStr (py_upper (pr_currency r))),
      (''receipt'', JStr (take 40 (pr_idempotency_key r))),
      (''notes'', JObj [(''case_id'', JStr (pr_case_id r)),
                        (''transaction_id'', JStr (pr_transaction_id r))])]"

definition live_uncertain :: "call_env \<Rightarrow> retry_request \<Rightarrow> string \<Rightarrow> execution_outcome" where
  "live_uncertain env r code =
     \<lparr>xr_status = Exec_UNKNOWN, xr_provider = provider_name, xr_payment_id = None, xr_order_id = None,
      xr_amount_minor = pr_amount_minor r, xr_currency = pr_currency r, xr_error_code = Some code,
      xr_raw_response = [(''error'', JObj [(''code'', JStr code)])],
      xr_latency_ms = en_elapsed_ms env, xr_executed_at = en_now env, xr_is_definitive = False\<rparr>"

definition live_accepted :: "call_env \<Rightarrow> retry_request \<Rightarrow> payload \<Rightarrow> execution_outcome" where
  "live_accepted env r d =
     \<lparr>xr_status = Exec_SUBMITTED, xr_provider = provider_name, xr_payment_id = None,
      xr_order_id = get_str d ''id'', xr_amount_minor = get_int d ''amount'' (pr_amount_minor r),
      xr_currency = (case get_str d ''currency'' of None \<Rightarrow> pr_currency r | Some c \<Rightarrow> c),
      xr_error_code = None, xr_raw_response = sanitize_payload d,
      xr_latency_ms = en_elapsed_ms env, xr_executed_at = en_now env, xr_is_definitive = True\<rparr>"

text \<open>The error member of a rejection: absent is \<open>{}\<close>, and one that is no object makes \<open>.get\<close> raise.\<close>

definition live_rejected :: "call_env \<Rightarrow> retry_request \<Rightarrow> int \<Rightarrow> payload \<Rightarrow> execution_outcome" where
  "live_rejected env r status d =
     (let safe = sanitize_payload d
      in case (case map_of safe ''error'' of None \<Rightarrow> Some [] | Some (JObj e) \<Rightarrow> Some e | _ \<Rightarrow> None) of
           None \<Rightarrow> live_uncertain env r ''NETWORK_ERROR''
         | Some err \<Rightarrow>
             \<lparr>xr_status = Exec_FAILED, xr_provider = provider_name, xr_payment_id = None,
              xr_order_id = None, xr_amount_minor = pr_amount_minor r, xr_currency = pr_currency r,
              xr_error_code = Some (case get_str err ''code'' of
                                      None \<Rightarrow> ''HTTP_'' @ str_of_int status | Some c \<Rightarrow> c),
              xr_raw_response = safe, xr_latency_ms = en_elapsed_ms env,
              xr_executed_at = en_now env, xr_is_definitive = True\<rparr>)"

text \<open>
  A 200 or 201 whose body is no JSON object raises inside the \<open>try\<close> and is caught by the last
  handler. A rejected response without a JSON content type is read as \<open>{}\<close>.
\<close>

definition execute_live ::
  "adapter_config \<Rightarrow> call_env \<Rightarrow> retry_request \<Rightarrow> execution_outcome" where
  "execute_live cfg env r =
     (case en_http env (HttpPost (ac_base_url cfg @ ''/orders'') (order_payload r)) of
        Response status body \<Rightarrow>
          if status \<in> {200, 201} then
            (case body of JsonObject d \<Rightarrow> live_accepted env r d
             | _ \<Rightarrow> live_uncertain env r ''NETWORK_ERROR'')
          else
            (case body of JsonObject d \<Rightarrow> live_rejected env r status d
             | NotJson \<Rightarrow> live_rejected env r status []
             | BadJson \<Rightarrow> live_uncertain env r ''NETWORK_ERROR'')
      | TimedOut \<Rightarrow> live_uncertain env r ''GATEWAY_TIMEOUT''
      | TransportError \<Rightarrow> live_uncertain env r ''NETWORK_ERROR'')"

section \<open>Submitting a retry\<close>

definition submit_retry ::
  "adapter_config \<Rightarrow> call_env \<Rightarrow> retry_request \<Rightarrow> submissions \<Rightarrow> execution_outcome \<times> submissions" where
  "submit_retry cfg env r st =
     (case map_of st (pr_idempotency_key r) of
        Some existing \<Rightarrow> (existing, st)
      | None \<Rightarrow>
          (let res = (if ac_simulate_scenarios cfg \<or> is_test_placeholder_key (ac_key_id cfg)
                      then simulate_execution env r else execute_live cfg env r)
           in (res, dict_set (pr_idempotency_key r) res st)))"

section \<open>Status retrieval\<close>

definition status_outcome ::
  "call_env \<Rightarrow> execution_status \<Rightarrow> string option \<Rightarrow> string option \<Rightarrow> int \<Rightarrow> string \<Rightarrow> string option
     \<Rightarrow> payload \<Rightarrow> int \<Rightarrow> bool \<Rightarrow> execution_outcome" where
  "status_outcome env st pid oid amount cur err raw extra definitive =
     \<lparr>xr_status = st, xr_provider = provider_name, xr_payment_id = pid, xr_order_id = oid,
      xr_amount_minor = amount, xr_currency = cur, xr_error_code = err, xr_raw_response = raw,
      xr_latency_ms = en_elapsed_ms env + extra, xr_executed_at = en_now env,
      xr_is_definitive = definitive\<rparr>"

definition simulate_status :: "call_env \<Rightarrow> status_query \<Rightarrow> submissions \<Rightarrow> execution_outcome" where
  "simulate_status env q st =
     (let pay_id = qy_provider_payment_id q
      in case find (\<lambda>r. xr_payment_id r = Some pay_id) (map snd st) of
           Some r \<Rightarrow> r
         | None \<Rightarrow>
             if contains ''not_found'' (py_lower pay_id) \<or> contains ''invalid'' (py_lower pay_id)
               then status_outcome env Exec_UNKNOWN (Some pay_id) None 0 ''INR''
                      (Some ''BAD_REQUEST_PAYMENT_NOT_FOUND'')
                      [(''error'', JObj [(''code'', JStr ''BAD_REQUEST_ERROR''),
                                         (''description'', JStr ''Payment not found'')])] 5 True
             else
               (let status = (if contains ''succ'' pay_id then Exec_SUCCEEDED
                              else if contains ''fail'' pay_id then Exec_FAILED else Exec_SUBMITTED)
                in status_outcome env status (Some pay_id)
                     (Some (''order_'' @ drop (length pay_id - 8) pay_id)) 250000 ''INR''
                     (if status \<noteq> Exec_FAILED then None else Some ''PAYMENT_FAILED'')
                     [(''id'', JStr pay_id),
                      (''status'', JStr (if status = Exec_SUCCEEDED then ''captured'' else ''created''))]
                     5 True))"

text \<open>The live query catches a timeout only; any other failure of the call is raised.\<close>

definition live_status ::
  "adapter_config \<Rightarrow> call_env \<Rightarrow> status_query \<Rightarrow> py_error + execution_outcome" where
  "live_status cfg env q =
     (case en_http env (HttpGet (ac_base_url cfg @ ''/payments/'' @ qy_provider_payment_id q)) of
        Response status body \<Rightarrow>
          if status = 200 then
            (case body of
               JsonObject d \<Rightarrow>
                 Inr (status_outcome env
                        (normalize_razorpay_status (py_lower (or_empty (get_str d ''status''))))
                        (get_str d ''id'') (get_str d ''order_id'') (get_int d ''amount'' 0)
                        (py_upper (case get_str d ''currency'' of None \<Rightarrow> ''INR'' | Some c \<Rightarrow> c))
                        (get_str d ''error_code'') (sanitize_payload d) 0 True)
             | _ \<Rightarrow> Inl (ValueError ''response body is not a JSON object''))
          else Inr (status_outcome env Exec_UNKNOWN (Some (qy_provider_payment_id q)) None 0 ''INR''
                      (Some (''HTTP_'' @ str_of_int status)) [] 0 True)
      | TimedOut \<Rightarrow> Inr (status_outcome env Exec_UNKNOWN (Some (qy_provider_payment_id q)) None 0 ''INR''
                          (Some ''GATEWAY_TIMEOUT'') [] 0 False)
      | TransportError \<Rightarrow> Inl (ValueError ''requests.ConnectionError''))"

definition retrieve_status ::
  "adapter_config \<Rightarrow> call_env \<Rightarrow> status_query \<Rightarrow> submissions \<Rightarrow> py_error + execution_outcome" where
  "retrieve_status cfg env q st =
     (if ac_simulate_scenarios cfg \<or> is_test_placeholder_key (ac_key_id cfg)
      then Inr (simulate_status env q st) else live_status cfg env q)"

section \<open>The idempotency contract\<close>

text \<open>
  \<open>PaymentExecutionAdapter\<close> demands that a submission be idempotent in its key. As an interface: a
  recorded key is answered from the record, a new one is recorded with its answer, and no other
  key is touched.
\<close>

fun run_calls :: "('e \<Rightarrow> 'r \<Rightarrow> 'st \<Rightarrow> 'res \<times> 'st) \<Rightarrow> ('e \<times> 'r) list \<Rightarrow> 'st \<Rightarrow> 'res list \<times> 'st" where
  "run_calls submit [] st = ([], st)"
| "run_calls submit ((e, r) # calls) st =
     (let (res, st') = submit e r st; (rest, st'') = run_calls submit calls st'
      in (res # rest, st''))"

locale idempotent_gateway =
  fixes submit :: "'e \<Rightarrow> 'r \<Rightarrow> 'st \<Rightarrow> 'res \<times> 'st"
    and key :: "'r \<Rightarrow> 'k"
    and recorded :: "'st \<Rightarrow> 'k \<Rightarrow> 'res option"
  assumes replay: "recorded st (key r) = Some res \<Longrightarrow> submit e r st = (res, st)"
    and records: "submit e r st = (res, st') \<Longrightarrow> recorded st' (key r) = Some res"
    and frame: "submit e r st = (res, st') \<Longrightarrow> k \<noteq> key r \<Longrightarrow> recorded st' k = recorded st k"
begin

lemma recorded_step: "recorded st k = Some x \<Longrightarrow> recorded (snd (submit e r st)) k = Some x"
proof (cases "k = key r")
  case True
  assume "recorded st k = Some x"
  with True show ?thesis using replay [of st r x e] by simp
next
  case False
  assume "recorded st k = Some x"
  with frame [of e r st "fst (submit e r st)" "snd (submit e r st)" k] False show ?thesis by simp
qed

lemma recorded_stable: "recorded st k = Some x \<Longrightarrow> recorded (snd (run_calls submit calls st)) k = Some x"
proof (induction calls arbitrary: st)
  case (Cons c calls)
  obtain e r where c: "c = (e, r)" by fastforce
  obtain res st' where s: "submit e r st = (res, st')" by fastforce
  have "recorded st' k = Some x" using recorded_step [OF Cons.prems, of e r] s by simp
  from Cons.IH [OF this] show ?case using c s by (simp add: Let_def split_beta)
qed simp

lemma length_run_calls: "length (fst (run_calls submit calls st)) = length calls"
  by (induction calls arbitrary: st) (auto simp: Let_def split_beta)

text \<open>A recorded key is answered from the record in every later call.\<close>

lemma answered_from_record:
  assumes "recorded st k = Some x" and "i < length calls" and "key (snd (calls ! i)) = k"
  shows "fst (run_calls submit calls st) ! i = x"
  using assms
proof (induction calls arbitrary: st i)
  case (Cons c calls)
  obtain e r where c: "c = (e, r)" by fastforce
  obtain res st' where s: "submit e r st = (res, st')" by fastforce
  show ?case
  proof (cases i)
    case 0
    with Cons.prems c have "key r = k" by simp
    with Cons.prems(1) s have "res = x" using replay [of st r x e] by simp
    with 0 c s show ?thesis by (simp add: Let_def split_beta)
  next
    case (Suc j)
    have "recorded st' k = Some x" using recorded_step [OF Cons.prems(1), of e r] s by simp
    with Cons.IH [of st' j] Cons.prems Suc c s show ?thesis by (simp add: Let_def split_beta)
  qed
qed simp

theorem same_key_same_answer:
  assumes "i < j" and "j < length calls" and "key (snd (calls ! i)) = key (snd (calls ! j))"
  shows "fst (run_calls submit calls st) ! i = fst (run_calls submit calls st) ! j"
  using assms
proof (induction calls arbitrary: st i j)
  case (Cons c calls)
  obtain e r where c: "c = (e, r)" by fastforce
  obtain res st' where s: "submit e r st = (res, st')" by fastforce
  from Cons.prems obtain j' where j: "j = Suc j'" by (cases j) auto
  show ?case
  proof (cases i)
    case 0
    with Cons.prems c j have "key (snd (calls ! j')) = key r" "j' < length calls" by simp_all
    from answered_from_record [OF records [OF s] this(2,1)] show ?thesis
      using 0 j c s by (simp add: Let_def split_beta)
  next
    case (Suc i')
    with Cons.IH [of i' j' st'] Cons.prems j c s show ?thesis by (simp add: Let_def split_beta)
  qed
qed simp

end

interpretation razorpay: idempotent_gateway "submit_retry cfg" pr_idempotency_key map_of
proof unfold_locales
  show "map_of st (pr_idempotency_key r) = Some res \<Longrightarrow> submit_retry cfg e r st = (res, st)"
    for st r res e
    by (simp add: submit_retry_def)
  show "submit_retry cfg e r st = (res, st') \<Longrightarrow> map_of st' (pr_idempotency_key r) = Some res"
    for e r st res st'
    by (auto simp: submit_retry_def Let_def split: option.splits)
  show "submit_retry cfg e r st = (res, st') \<Longrightarrow> k \<noteq> pr_idempotency_key r \<Longrightarrow> map_of st' k = map_of st k"
    for e r st res st' k
    by (auto simp: submit_retry_def Let_def split: option.splits)
qed


definition demo_env :: call_env where
  "demo_env =
     \<lparr>en_now = Aware 9, en_elapsed_ms = 1, en_uuid1 = ''u1'', en_uuid2 = ''u2'',
      en_http = (\<lambda>_. TransportError)\<rparr>"

definition demo_retry :: retry_request where
  "demo_retry =
     \<lparr>pr_case_id = ''case'', pr_transaction_id = ''tx'', pr_amount_minor = 5000, pr_currency = ''INR'',
      pr_customer_reference = ''c1'', pr_idempotency_key = ''k'', pr_customer_email = None,
      pr_customer_contact = None, pr_payment_method = None, pr_metadata = []\<rparr>"

definition demo_adapter :: adapter_config where
  "demo_adapter = \<lparr>ac_key_id = Some ''rzp_live'', ac_base_url = ''https://api'', ac_simulate_scenarios = False\<rparr>"

definition demo_accepting :: call_env where
  "demo_accepting = demo_env\<lparr>en_http := (\<lambda>_. Response 200 (JsonObject [(''id'', JStr ''order_1'')]))\<rparr>"

definition demo_calls :: "(call_env \<times> retry_request) list" where
  "demo_calls = [(demo_accepting, demo_retry), (demo_env, demo_retry)]"


section \<open>Uncertain outcomes\<close>

text \<open>C28: When the gateway's answer to a live submission is lost (timeout, transport
  failure) or cannot be read, the outcome of a new key is UNKNOWN, not definitive and without a
  payment reference; a definitive outcome of a live call is SUBMITTED or FAILED, never SUCCEEDED,
  so only a later verification can claim the money.\<close>

theorem lost_reply_is_unknown:
  assumes "\<not> ac_simulate_scenarios cfg" and "\<not> is_test_placeholder_key (ac_key_id cfg)"
    and "map_of st (pr_idempotency_key r) = None"
  shows "(xr_is_definitive (fst (submit_retry cfg env r st)) \<longleftrightarrow>
            xr_status (fst (submit_retry cfg env r st)) \<in> {Exec_SUBMITTED, Exec_FAILED})
         \<and> xr_status (fst (submit_retry cfg env r st)) \<in> {Exec_SUBMITTED, Exec_FAILED, Exec_UNKNOWN}
         \<and> (en_http env (HttpPost (ac_base_url cfg @ ''/orders'') (order_payload r))
              \<in> {TimedOut, TransportError, Response 200 BadJson, Response 200 NotJson} \<longrightarrow>
              xr_status (fst (submit_retry cfg env r st)) = Exec_UNKNOWN
              \<and> xr_payment_id (fst (submit_retry cfg env r st)) = None
              \<and> xr_order_id (fst (submit_retry cfg env r st)) = None)"
proof -
  have e: "fst (submit_retry cfg env r st) = execute_live cfg env r"
    using assms by (simp add: submit_retry_def Let_def)
  show ?thesis
    unfolding e
    by (cases "en_http env (HttpPost (ac_base_url cfg @ ''/orders'') (order_payload r))")
      (auto simp: execute_live_def live_uncertain_def live_accepted_def live_rejected_def Let_def
        split: http_body.split option.split)
qed

lemma lost_reply_is_unknown_witness:
  "xr_status (fst (submit_retry demo_adapter demo_env demo_retry [])) = Exec_UNKNOWN"
proof -
  have "\<not> ac_simulate_scenarios demo_adapter" "\<not> is_test_placeholder_key (ac_key_id demo_adapter)"
    by code_simp+
  then show ?thesis
    using lost_reply_is_unknown [of demo_adapter "[]" demo_retry demo_env]
    by (simp add: demo_env_def)
qed

end
