(* ===== verification/Policy_Models.thy ===== *)
theory Policy_Models
  imports Domain
begin

text \<open>
  Policy configuration and value objects: \<open>PolicyConfig\<close> of \<open>backend/app/policy/config.py\<close>
  (limits, currency thresholds, cooldown test) and, of \<open>backend/app/policy/models.py\<close>, the mapping
  to validation statuses, the predicates of \<open>RuleCheckResult\<close> and the two validity tests of
  \<open>CustomerConsentRecord\<close>. Clock readings are arguments: \<open>None\<close> for the optional time stands for
  the default \<open>datetime.now(timezone.utc)\<close>, given as \<open>clock\<close>.
\<close>

section \<open>PolicyConfig\<close>

record policy_config =
  max_retry_attempts :: int
  max_total_attempts :: int
  retry_cooldown_hours :: int
  high_value_threshold_minor :: int
  policy_version :: string
  is_production_approved :: bool
  currency_thresholds_minor :: "(string \<times> int) list"

definition default_policy_config :: policy_config where
  "default_policy_config =
     \<lparr>max_retry_attempts = 3, max_total_attempts = 4, retry_cooldown_hours = 4,
      high_value_threshold_minor = 100000, policy_version = ''policy-v1.0'',
      is_production_approved = False,
      currency_thresholds_minor =
        [(''INR'', 100000), (''USD'', 100000), (''EUR'', 100000), (''GBP'', 100000),
         (''JPY'', 150000), (''AUD'', 100000), (''CAD'', 100000), (''SGD'', 100000)]\<rparr>"

definition get_high_value_threshold :: "policy_config \<Rightarrow> string \<Rightarrow> int" where
  "get_high_value_threshold cfg currency =
     (case map_of (currency_thresholds_minor cfg) (py_strip (py_upper currency)) of
        None \<Rightarrow> high_value_threshold_minor cfg
      | Some t \<Rightarrow> t)"

definition is_high_value :: "policy_config \<Rightarrow> int \<Rightarrow> string \<Rightarrow> bool" where
  "is_high_value cfg amount_minor currency =
     (amount_minor \<ge> get_high_value_threshold cfg currency)"

definition can_retry :: "policy_config \<Rightarrow> int \<Rightarrow> bool" where
  "can_retry cfg prior_retry_count = (prior_retry_count < max_retry_attempts cfg)"

text \<open>\<open>current_time or datetime.now(timezone.utc)\<close>: a \<open>datetime\<close> is always truthy.\<close>

definition or_clock :: "pydatetime option \<Rightarrow> pydatetime \<Rightarrow> pydatetime" where
  "or_clock t clock = (case t of None \<Rightarrow> clock | Some d \<Rightarrow> d)"

definition is_cooldown_elapsed ::
  "policy_config \<Rightarrow> pydatetime \<Rightarrow> pydatetime option \<Rightarrow> pydatetime \<Rightarrow> py_error + bool" where
  "is_cooldown_elapsed cfg last_attempt_at current_time clock =
     (let (l, now) = align_tz last_attempt_at (or_clock current_time clock)
      in ebind (dt_sub now l) (\<lambda>elapsed. Inr (elapsed \<ge> retry_cooldown_hours cfg * us_per_hour)))"

text \<open>The normalisation makes the test total, and it depends on the instants only.\<close>

lemma is_cooldown_elapsed_eq:
  "is_cooldown_elapsed cfg l (Some now) clock =
     Inr (instant now - instant l \<ge> retry_cooldown_hours cfg * us_per_hour)"
  by (auto simp: is_cooldown_elapsed_def or_clock_def align_tz_def dt_sub_def)

lemma high_value_mono:
  "is_high_value cfg a cur \<Longrightarrow> a \<le> b \<Longrightarrow> is_high_value cfg b cur"
  by (simp add: is_high_value_def)

section \<open>Validation status and rule results\<close>

fun map_policy_to_validation_status :: "policy_status \<Rightarrow> validation_status" where
  "map_policy_to_validation_status Pol_APPROVED = Val_VALID"
| "map_policy_to_validation_status Pol_REJECTED = Val_REJECTED_BY_POLICY"
| "map_policy_to_validation_status Pol_REQUIRES_REVIEW = Val_NOT_VALIDATED"
| "map_policy_to_validation_status Pol_INSUFFICIENT_INFORMATION = Val_INVALID"

lemma validation_status_inject:
  "map_policy_to_validation_status a = map_policy_to_validation_status b \<longleftrightarrow> a = b"
  by (cases a; cases b) simp_all

definition mk_result :: "string \<Rightarrow> rule_status \<Rightarrow> string \<Rightarrow> rule_result" where
  "mk_result name status reason =
     \<lparr>rr_rule_name = name, rr_status = status, rr_reason_code = reason\<rparr>"

lemma mk_result_simps [simp]:
  "rr_rule_name (mk_result n s r) = n" "rr_status (mk_result n s r) = s"
  "rr_reason_code (mk_result n s r) = r"
  by (simp_all add: mk_result_def)

lemma mk_result_inject [simp]:
  "mk_result n s r = mk_result n' s' r' \<longleftrightarrow> n = n' \<and> s = s' \<and> r = r'"
  by (auto simp: mk_result_def)

definition is_passed :: "rule_result \<Rightarrow> bool" where
  "is_passed r = (rr_status r = Rule_PASSED)"

definition is_failed :: "rule_result \<Rightarrow> bool" where
  "is_failed r = (rr_status r = Rule_FAILED)"

definition needs_review :: "rule_result \<Rightarrow> bool" where
  "needs_review r = (rr_status r = Rule_NEEDS_REVIEW)"

definition is_missing_info :: "rule_result \<Rightarrow> bool" where
  "is_missing_info r = (rr_status r = Rule_MISSING_INFO)"

lemmas rule_preds = is_passed_def is_failed_def needs_review_def is_missing_info_def

text \<open>\<open>PolicyEvaluationResult\<close> and its two properties.\<close>

record evaluation_result =
  er_decision_status :: policy_status
  er_case_id :: uuid
  er_proposed_action :: action_type
  er_policy_version :: string
  er_rule_results :: "rule_result list"
  er_reasons :: "string list"
  er_recommendation_id :: "uuid option"
  er_evaluated_at :: pydatetime
  er_metadata :: payload

definition result_is_approved :: "evaluation_result \<Rightarrow> bool" where
  "result_is_approved r = (er_decision_status r = Pol_APPROVED)"

definition result_validation_status :: "evaluation_result \<Rightarrow> validation_status" where
  "result_validation_status r = map_policy_to_validation_status (er_decision_status r)"

section \<open>Consent records\<close>

text \<open>
  One time check of \<open>is_valid\<close> and \<open>get_validity_reason\<close>: align the bound with \<open>now\<close>, compare, and
  hand on the possibly normalised \<open>now\<close>, which the source reassigns.
\<close>

definition time_reached ::
  "pydatetime option \<Rightarrow> pydatetime \<Rightarrow> py_error + (bool \<times> pydatetime)" where
  "time_reached bound now =
     (case bound of
        None \<Rightarrow> Inr (False, now)
      | Some t \<Rightarrow>
          (let (t', now') = align_tz t now
           in ebind (dt_ge now' t') (\<lambda>b. Inr (b, now'))))"

definition reached :: "pydatetime option \<Rightarrow> pydatetime \<Rightarrow> bool" where
  "reached bound now = (case bound of None \<Rightarrow> False | Some t \<Rightarrow> instant now \<ge> instant t)"

lemma time_reached_total:
  "\<exists>now'. time_reached bound now = Inr (reached bound now, now') \<and> instant now' = instant now"
  by (cases bound) (auto simp: time_reached_def reached_def align_tz_def dt_ge_def)

lemma reached_instant_cong: "instant a = instant b \<Longrightarrow> reached t a = reached t b"
  by (cases t) (simp_all add: reached_def)

definition consent_is_valid :: "consent \<Rightarrow> pydatetime option \<Rightarrow> pydatetime \<Rightarrow> py_error + bool" where
  "consent_is_valid c at_time clock =
     (if co_status c \<noteq> CStat_GRANTED then Inr False
      else ebind (time_reached (co_revoked_at c) (or_clock at_time clock)) (\<lambda>(revoked, now).
        if revoked then Inr False
        else ebind (time_reached (co_expires_at c) now) (\<lambda>(expired, _).
          Inr (\<not> expired))))"

definition consent_validity_reason ::
  "consent \<Rightarrow> pydatetime option \<Rightarrow> pydatetime \<Rightarrow> py_error + string" where
  "consent_validity_reason c at_time clock =
     ebind (time_reached (co_revoked_at c) (or_clock at_time clock)) (\<lambda>(revoked, now).
       if revoked then Inr ''CONSENT_REVOKED''
       else ebind (time_reached (co_expires_at c) now) (\<lambda>(expired, _).
         if expired then Inr ''CONSENT_EXPIRED''
         else if co_status c \<noteq> CStat_GRANTED
           then Inr (''CONSENT_STATUS_'' @ py_upper (consent_status_value (co_status c)))
         else Inr ''CONSENT_VALID''))"

text \<open>The abstract meaning of both: granted, not yet revoked, not yet expired.\<close>

definition consent_live :: "consent \<Rightarrow> pydatetime \<Rightarrow> bool" where
  "consent_live c now \<longleftrightarrow>
     co_status c = CStat_GRANTED \<and> \<not> reached (co_revoked_at c) now \<and> \<not> reached (co_expires_at c) now"

lemma consent_is_valid_spec:
  "consent_is_valid c at_time clock = Inr (consent_live c (or_clock at_time clock))"
proof -
  let ?now = "or_clock at_time clock"
  obtain n1 where n1: "time_reached (co_revoked_at c) ?now = Inr (reached (co_revoked_at c) ?now, n1)"
    and i1: "instant n1 = instant ?now"
    using time_reached_total by blast
  obtain n2 where n2: "time_reached (co_expires_at c) n1 = Inr (reached (co_expires_at c) n1, n2)"
    using time_reached_total by blast
  from reached_instant_cong [OF i1] have "reached (co_expires_at c) n1 = reached (co_expires_at c) ?now" .
  with n1 n2 show ?thesis by (simp add: consent_is_valid_def consent_live_def)
qed

lemma consent_reason_spec:
  "consent_validity_reason c at_time clock =
     Inr (let now = or_clock at_time clock in
          if reached (co_revoked_at c) now then ''CONSENT_REVOKED''
          else if reached (co_expires_at c) now then ''CONSENT_EXPIRED''
          else if co_status c \<noteq> CStat_GRANTED
            then ''CONSENT_STATUS_'' @ py_upper (consent_status_value (co_status c))
          else ''CONSENT_VALID'')"
proof -
  let ?now = "or_clock at_time clock"
  obtain n1 where n1: "time_reached (co_revoked_at c) ?now = Inr (reached (co_revoked_at c) ?now, n1)"
    and i1: "instant n1 = instant ?now"
    using time_reached_total by blast
  obtain n2 where n2: "time_reached (co_expires_at c) n1 = Inr (reached (co_expires_at c) n1, n2)"
    using time_reached_total by blast
  from reached_instant_cong [OF i1] have "reached (co_expires_at c) n1 = reached (co_expires_at c) ?now" .
  with n1 n2 show ?thesis by (simp add: consent_validity_reason_def Let_def)
qed

lemma status_reason_not_valid: "''CONSENT_STATUS_'' @ xs \<noteq> ''CONSENT_VALID''"
  by simp

text \<open>The two views of a consent record never disagree and never raise, whatever
  mixture of naive and aware timestamps it carries: the reason is CONSENT_VALID exactly when the
  record is valid, which is when it is granted, not yet revoked and not yet expired.\<close>

theorem validity_reason_agrees:
  "consent_is_valid c at_time clock = Inr (consent_live c (or_clock at_time clock))
   \<and> (consent_validity_reason c at_time clock = Inr ''CONSENT_VALID'') =
       consent_live c (or_clock at_time clock)
   \<and> is_ok (consent_validity_reason c at_time clock)"
  using status_reason_not_valid
  by (simp add: consent_is_valid_spec consent_reason_spec Let_def consent_live_def)

end
