(* ===== verification/Scenario.thy ===== *)
theory Scenario
  imports Policy_Models
begin

text \<open>
  One small database the witnesses share: a customer with a live recurring-billing consent, a
  failed payment below the review threshold, an open case on it and an AI recommendation to retry.
  None of it models code; it only shows that the hypotheses of the properties can hold.
\<close>

definition demo_now :: pydatetime where
  "demo_now = Aware 1000000000000"

definition demo_customer :: customer where
  "demo_customer =
     \<lparr>cu_id = ''cust'', cu_provider = ''razorpay'', cu_external_id = ''c1'', cu_email = Some ''a@b.c'',
      cu_display_name = None, cu_status = Cust_ACTIVE, cu_metadata = []\<rparr>"

definition demo_consent :: consent where
  "demo_consent =
     \<lparr>co_id = ''cons'', co_customer_id = ''cust'', co_type = Consent_RECURRING_BILLING,
      co_status = CStat_GRANTED, co_merchant_id = None, co_granted_at = Some (Aware 1),
      co_revoked_at = None, co_expires_at = None, co_source = ''checkout_agreement'',
      co_evidence_reference = None, co_version = 1\<rparr>"

definition demo_tx :: transaction where
  "demo_tx =
     \<lparr>tx_id = ''tx'', tx_customer_id = ''cust'', tx_provider = ''razorpay'', tx_external_id = ''pay_1'',
      tx_amount_minor = 5000, tx_currency = ''INR'', tx_status = Tx_FAILED,
      tx_failure_code = Some ''insufficient_funds'', tx_failure_message = None,
      tx_occurred_at = Aware 5, tx_metadata = []\<rparr>"

definition demo_case :: recovery_case where
  "demo_case =
     \<lparr>rc_id = ''case'', rc_customer_id = ''cust'', rc_trigger_transaction_id = ''tx'',
      rc_case_key = ''key'', rc_state = Case_AWAITING_DECISION, rc_priority = 1,
      rc_opened_at = Aware 6, rc_last_state_changed_at = Aware 6, rc_closed_at = None,
      rc_version = 1, rc_metadata = []\<rparr>"

definition demo_decision :: agent_decision where
  "demo_decision =
     \<lparr>ad_id = ''rec'', ad_case_id = ''case'', ad_attempt_id = None, ad_decision_version = 1,
      ad_action_type = Act_RETRY_PAYMENT, ad_reason_code = ''RETRY'', ad_confidence = Some (9 / 10),
      ad_validation_status = Val_NOT_VALIDATED\<rparr>"

definition demo_session :: session where
  "demo_session = empty_session
     \<lparr>customers := [demo_customer], consents := [demo_consent], transactions := [demo_tx],
      cases := [demo_case], agent_decisions := [demo_decision]\<rparr>"

definition demo_stopped :: session where
  "demo_stopped = demo_session\<lparr>cases := [demo_case\<lparr>rc_state := Case_STOPPED\<rparr>]\<rparr>"

text \<open>The same customer after an approval: the case is ACTION_PENDING and the decision is on record.\<close>

definition demo_pending :: recovery_case where
  "demo_pending = demo_case\<lparr>rc_state := Case_ACTION_PENDING, rc_version := 2\<rparr>"

definition demo_policy :: policy_decision where
  "demo_policy =
     \<lparr>pd_id = ''pd'', pd_case_id = ''case'', pd_recommendation_id = ''rec'',
      pd_proposed_action = Act_RETRY_PAYMENT, pd_decision_status = Pol_APPROVED,
      pd_policy_version = ''v1'', pd_rule_results = [], pd_reasons = [], pd_actor_type = Actor_SYSTEM,
      pd_actor_id = None, pd_idempotency_key = None, pd_case_version = 1, pd_evaluated_at = Aware 7,
      pd_metadata = []\<rparr>"

definition demo_ready :: session where
  "demo_ready = demo_session\<lparr>cases := [demo_pending], policy_decisions := [demo_policy]\<rparr>"

lemmas demo_defs = demo_now_def demo_customer_def demo_consent_def demo_tx_def demo_case_def
  demo_decision_def demo_session_def demo_stopped_def

end
