(* ===== verification/Reconciliation.thy ===== *)
theory Reconciliation
  imports Case_Transitions Payment_Adapter Scenario
begin

text \<open>
  \<open>PaymentReconciliationService\<close> of \<open>backend/app/services/payment_reconciliation_service.py\<close>: one
  case compared with the gateway's answer, its automatic resolution, and the batch over the cases
  awaiting verification.

  What a run takes from outside is \<open>recon_env\<close>: the clock, the adapter's \<open>retrieve_status\<close> (which
  may raise), and how the database compares letters in \<open>LIKE\<close> (the identity on PostgreSQL, lower
  case on SQLite). A reference holds no backslash. \<open>case.audit_events\<close> is loaded lazily when it is
  counted, so its length is the number of flushed rows of the case.
\<close>

section \<open>SQL LIKE\<close>

text \<open>\<open>%\<close> matches any string and \<open>_\<close> any one character.\<close>

function like_match :: "string \<Rightarrow> string \<Rightarrow> bool" where
  "like_match [] s = (s = [])"
| "like_match (p # ps) s =
     (if p = CHR ''%'' then like_match ps s \<or> (case s of [] \<Rightarrow> False | _ # cs \<Rightarrow> like_match (p # ps) cs)
      else (case s of [] \<Rightarrow> False
                    | c # cs \<Rightarrow> (p = CHR ''_'' \<or> p = c) \<and> like_match ps cs))"
  by pat_completeness auto
termination by (relation "measure (\<lambda>(p, s). length p + length s)") auto

lemma like_match_any: "like_match [CHR ''%''] s"
  by (induction s) auto

lemma like_match_percent: "like_match ps ys \<Longrightarrow> like_match (CHR ''%'' # ps) (xs @ ys)"
  by (induction xs) auto

text \<open>The pattern the service builds finds every text that contains the reference.\<close>

lemma like_match_self: "like_match (xs @ [CHR ''%'']) (xs @ ys)"
proof (induction xs)
  case Nil
  show ?case by (simp only: append_Nil like_match_any)
next
  case (Cons x xs)
  then show ?case by simp
qed

section \<open>The report\<close>

record reconciliation_report =
  rp_case_id :: uuid
  rp_transaction_id :: uuid
  rp_internal_status :: transaction_status
  rp_provider_status :: execution_status
  rp_status :: reconciliation_status
  rp_discrepancies :: "string list"
  rp_resolution_action :: "string option"
  rp_reconciled_at :: pydatetime
  rp_details :: payload

record recon_env =
  re_now :: pydatetime
  re_query :: "status_query \<Rightarrow> py_error + execution_outcome"
  re_fold :: "string \<Rightarrow> string"

definition provider_reference :: "recovery_execution list \<Rightarrow> transaction \<Rightarrow> string option" where
  "provider_reference execs t =
     (case execs of
        e # _ \<Rightarrow> if truthy (ex_external_reference e) then ex_external_reference e
                 else if tx_external_id t \<noteq> [] \<and> \<not> starts_with ''tx_'' (tx_external_id t)
                 then Some (tx_external_id t) else None
      | [] \<Rightarrow> if tx_external_id t \<noteq> [] \<and> \<not> starts_with ''tx_'' (tx_external_id t)
              then Some (tx_external_id t) else None)"

definition gateway_status ::
  "recon_env \<Rightarrow> string option \<Rightarrow> string \<Rightarrow> py_error + (execution_status \<times> string list)" where
  "gateway_status env ref corr =
     (case ref of
        None \<Rightarrow> Inr (Exec_UNKNOWN, [''MISSING_PROVIDER_PAYMENT_REFERENCE''])
      | Some r \<Rightarrow> ebind (re_query env \<lparr>qy_provider_payment_id = r, qy_correlation_id = Some corr\<rparr>)
                    (\<lambda>res. Inr (xr_status res, [])))"

definition webhooks_like :: "recon_env \<Rightarrow> session \<Rightarrow> string option \<Rightarrow> webhook_event list" where
  "webhooks_like env s ref =
     filter (\<lambda>w. like_match (re_fold env (''%'' @ or_empty ref @ ''%''))
                   (re_fold env (we_external_event_id w))) (webhooks s)"

definition conflicting_history :: "webhook_event list \<Rightarrow> bool" where
  "conflicting_history ws =
     (1 < length ws
      \<and> ''PAYMENT_SUCCEEDED'' \<in> set (map we_event_type ws)
      \<and> ''PAYMENT_FAILED'' \<in> set (map we_event_type ws))"

definition recon_conflicts :: "recon_env \<Rightarrow> session \<Rightarrow> string option \<Rightarrow> string list" where
  "recon_conflicts env s ref =
     (if conflicting_history (webhooks_like env s ref) then [''CONFLICTING_WEBHOOK_EVENT_HISTORY''] else [])"

section \<open>Resolution\<close>

text \<open>What one of the three discrepancy branches leaves: what it found, what it did, the objects.\<close>

record resolution =
  rs_found :: "string list"
  rs_action :: "string option"
  rs_case :: recovery_case
  rs_tx :: transaction
  rs_session :: session

definition unresolved :: "string list \<Rightarrow> recovery_case \<Rightarrow> transaction \<Rightarrow> session \<Rightarrow> resolution" where
  "unresolved found c t s =
     \<lparr>rs_found = found, rs_action = None, rs_case = c, rs_tx = t, rs_session = s\<rparr>"

definition resolved ::
  "string \<Rightarrow> string \<Rightarrow> transaction \<Rightarrow> recovery_case \<times> session \<Rightarrow> resolution" where
  "resolved found action t cs =
     \<lparr>rs_found = [found], rs_action = Some action, rs_case = fst cs, rs_tx = t, rs_session = snd cs\<rparr>"

text \<open>The provider captured the payment: only a case awaiting verification goes through the service.\<close>

definition settle_success ::
  "pydatetime \<Rightarrow> string option \<Rightarrow> string \<Rightarrow> recovery_case \<Rightarrow> transaction \<Rightarrow> session \<Rightarrow> py_error + resolution"
  where
  "settle_success now actor_id corr c t s =
     (let t' = t\<lparr>tx_status := Tx_SUCCEEDED\<rparr>; s1 = put_transaction t' s;
          c' = c\<lparr>rc_state := Case_RECOVERED, rc_closed_at := Some now\<rparr>
      in ebind (if rc_state c \<in> {Case_RECOVERED, Case_CLOSED} then Inr (c, s1)
                else if rc_state c = Case_VERIFICATION_PENDING
                then move_case c Case_RECOVERED ''reconciled_provider_success'' Actor_SYSTEM actor_id
                       (Some corr) [] now s1
                else Inr (c', put_case c' s1))
           (\<lambda>cs. Inr (resolved ''INTERNAL_UNRESOLVED_PROVIDER_SUCCEEDED'' ''RESOLVED_TO_SUCCEEDED'' t' cs)))"

definition settle_failure ::
  "pydatetime \<Rightarrow> string option \<Rightarrow> string \<Rightarrow> recovery_case \<Rightarrow> transaction \<Rightarrow> session \<Rightarrow> py_error + resolution"
  where
  "settle_failure now actor_id corr c t s =
     (let t' = t\<lparr>tx_status := Tx_FAILED\<rparr>; s1 = put_transaction t' s
      in ebind (if rc_state c = Case_VERIFICATION_PENDING
                then move_case c Case_RETRY_ELIGIBLE ''reconciled_provider_failure'' Actor_SYSTEM actor_id
                       (Some corr) [] now s1
                else Inr (c, s1))
           (\<lambda>cs. Inr (resolved ''INTERNAL_PENDING_PROVIDER_FAILED'' ''RESOLVED_TO_FAILED'' t' cs)))"

definition escalate_unknown ::
  "pydatetime \<Rightarrow> string option \<Rightarrow> string \<Rightarrow> recovery_case \<Rightarrow> transaction \<Rightarrow> session \<Rightarrow> py_error + resolution"
  where
  "escalate_unknown now actor_id corr c t s =
     ebind (move_case c Case_ESCALATED ''reconciliation_outcome_unknown'' Actor_SYSTEM actor_id
              (Some corr) [] now s)
       (\<lambda>cs. Inr (resolved ''PROVIDER_STATUS_UNKNOWN'' ''ESCALATED_FOR_MANUAL_REVIEW'' t cs))"

definition resolve_discrepancy ::
  "pydatetime \<Rightarrow> string option \<Rightarrow> string \<Rightarrow> bool \<Rightarrow> recovery_case \<Rightarrow> transaction \<Rightarrow> execution_status
     \<Rightarrow> session \<Rightarrow> py_error + resolution" where
  "resolve_discrepancy now actor_id corr auto c t provider s =
     (if tx_status t \<in> {Tx_FAILED, Tx_PENDING} \<and> provider = Exec_SUCCEEDED then
        (if auto then settle_success now actor_id corr c t s
         else Inr (unresolved [''INTERNAL_UNRESOLVED_PROVIDER_SUCCEEDED''] c t s))
      else if tx_status t = Tx_PENDING \<and> provider = Exec_FAILED then
        (if auto then settle_failure now actor_id corr c t s
         else Inr (unresolved [''INTERNAL_PENDING_PROVIDER_FAILED''] c t s))
      else if provider = Exec_UNKNOWN then
        (if auto \<and> rc_state c \<notin> {Case_ESCALATED, Case_CLOSED}
         then escalate_unknown now actor_id corr c t s
         else Inr (unresolved [''PROVIDER_STATUS_UNKNOWN''] c t s))
      else Inr (unresolved [] c t s))"

definition classify_reconciliation :: "string list \<Rightarrow> string option \<Rightarrow> reconciliation_status" where
  "classify_reconciliation discrepancies action =
     (if discrepancies = [] then Recon_MATCHED
      else if truthy action \<and> contains ''ESCALATED'' (or_empty action) then Recon_ESCALATED
      else if truthy action then Recon_RESOLVED
      else Recon_DISCREPANCY_DETECTED)"

section \<open>Reconciling one case\<close>

definition recon_audit ::
  "string option \<Rightarrow> string \<Rightarrow> pydatetime \<Rightarrow> recovery_case \<Rightarrow> transaction \<Rightarrow> execution_status
     \<Rightarrow> reconciliation_status \<Rightarrow> string list \<Rightarrow> string option \<Rightarrow> int \<Rightarrow> audit_event" where
  "recon_audit actor_id corr now c t provider status discrepancies action n =
     \<lparr>ae_case_id = rc_id c, ae_event_type = ''PAYMENT_RECONCILED'', ae_from_state = Some (rc_state c),
      ae_to_state = Some (rc_state c), ae_actor_type = Actor_SYSTEM, ae_actor_id = actor_id,
      ae_correlation_id = corr, ae_event_time = now,
      ae_payload =
        [(''reconciliation_status'', JStr (reconciliation_status_value status)),
         (''internal_status'', JStr (transaction_status_value (tx_status t))),
         (''provider_status'', JStr (execution_status_value provider)),
         (''discrepancies'', JList (map JStr discrepancies)),
         (''resolution_action'', jopt action)],
      ae_sequence_number = n\<rparr>"

definition reconcile_loaded ::
  "recon_env \<Rightarrow> string option \<Rightarrow> string \<Rightarrow> bool \<Rightarrow> recovery_case \<Rightarrow> transaction \<Rightarrow> session
     \<Rightarrow> py_error + (reconciliation_report \<times> session)" where
  "reconcile_loaded env actor_id corr auto c t s =
     (let execs = executions_of s (rc_id c); ref = provider_reference execs t; now = re_now env
      in ebind (gateway_status env ref corr) (\<lambda>(provider, missing).
         ebind (resolve_discrepancy now actor_id corr auto c t provider s) (\<lambda>r.
           (let found = missing @ recon_conflicts env s ref @ rs_found r;
                status = classify_reconciliation found (rs_action r);
                n = int (length (audit_seqs (rs_session r) (rc_id c))) + 1
            in ebind (commit (add_audit (recon_audit actor_id corr now (rs_case r) (rs_tx r) provider
                                status found (rs_action r) n) (rs_session r))) (\<lambda>u.
               Inr (\<lparr>rp_case_id = rc_id c, rp_transaction_id = tx_id t,
                     rp_internal_status = tx_status (rs_tx r), rp_provider_status = provider,
                     rp_status = status, rp_discrepancies = found,
                     rp_resolution_action = rs_action r, rp_reconciled_at = now,
                     rp_details = [(''provider_ref'', jopt ref),
                                   (''executions_count'', JInt (int (length execs)))]\<rparr>, u))))))"

definition reconcile_case ::
  "recon_env \<Rightarrow> uuid \<Rightarrow> string option \<Rightarrow> string option \<Rightarrow> bool \<Rightarrow> session
     \<Rightarrow> py_error + (reconciliation_report \<times> session)" where
  "reconcile_case env cid actor_id correlation_id auto s =
     (case find_case s cid of
        None \<Rightarrow> Inl (ValueError (''RecoveryCase not found: '' @ cid))
      | Some c \<Rightarrow>
          (case find_transaction s (rc_trigger_transaction_id c) of
             None \<Rightarrow> Inl (ValueError (''Transaction not found: '' @ rc_trigger_transaction_id c))
           | Some t \<Rightarrow>
               reconcile_loaded env actor_id
                 (if truthy correlation_id then or_empty correlation_id
                  else ''recon_'' @ take 10 (uuid_hex (rc_id c))) auto c t s))"

text \<open>
  The batch commits case by case: when one case raises, the session rolls back to the last commit
  and the reports are lost, so the loop returns the session that stays committed.
\<close>

fun reconcile_each ::
  "recon_env \<Rightarrow> uuid list \<Rightarrow> session \<Rightarrow> (py_error + reconciliation_report list) \<times> session" where
  "reconcile_each env [] s = (Inr [], s)"
| "reconcile_each env (i # is) s =
     (case reconcile_case env i None None True s of
        Inl e \<Rightarrow> (Inl e, s)
      | Inr (rep, t) \<Rightarrow>
          (let (reps, u) = reconcile_each env is t
           in (ebind reps (\<lambda>rs. Inr (rep # rs)), u)))"

definition pending_cases :: "session \<Rightarrow> int \<Rightarrow> recovery_case list" where
  "pending_cases s limit =
     take (nat limit)
       (sort_key (\<lambda>c. instant (rc_last_state_changed_at c))
         (filter (\<lambda>c. rc_state c = Case_VERIFICATION_PENDING) (cases s)))"

definition reconcile_pending_cases ::
  "recon_env \<Rightarrow> int \<Rightarrow> session \<Rightarrow> (py_error + reconciliation_report list) \<times> session" where
  "reconcile_pending_cases env limit s = reconcile_each env (map rc_id (pending_cases s limit)) s"

section \<open>What a resolution keeps\<close>

lemma find_transaction_audit [simp]: "find_transaction (add_audit a s) i = find_transaction s i"
  "find_case (add_audit a s) i = find_case s i"
  by (simp_all add: add_audit_def find_transaction_def find_case_def)

text \<open>The case after a resolution: untouched, moved by the transition service, or set to RECOVERED.\<close>

definition set_recovered :: "pydatetime \<Rightarrow> recovery_case \<Rightarrow> recovery_case" where
  "set_recovered now c = c\<lparr>rc_state := Case_RECOVERED, rc_closed_at := Some now\<rparr>"

lemma resolve_case:
  assumes "resolve_discrepancy now aid corr auto c t provider s = Inr r"
  shows "rs_case r = c
     \<or> (\<exists>st. auto \<and> st \<in> set (allowed_transitions (rc_state c)) \<and> rs_case r = moved_case c st now
            \<and> (st, provider) \<in> {(Case_RECOVERED, Exec_SUCCEEDED), (Case_RETRY_ELIGIBLE, Exec_FAILED),
                              (Case_ESCALATED, Exec_UNKNOWN)})
     \<or> auto \<and> rs_case r = set_recovered now c \<and> provider = Exec_SUCCEEDED
         \<and> rc_state c \<notin> {Case_VERIFICATION_PENDING, Case_RECOVERED, Case_CLOSED}"
  using assms
  by (auto simp: resolve_discrepancy_def settle_success_def settle_failure_def escalate_unknown_def
      unresolved_def resolved_def set_recovered_def Let_def err_simps split: if_splits
      dest: move_case_facts(1,2))

lemma resolve_tx:
  assumes "resolve_discrepancy now aid corr auto c t provider s = Inr r"
  shows "rs_tx r = t
     \<or> auto \<and> provider = Exec_SUCCEEDED \<and> tx_status t \<in> {Tx_FAILED, Tx_PENDING} \<and> rs_tx r = t\<lparr>tx_status := Tx_SUCCEEDED\<rparr>
     \<or> auto \<and> provider = Exec_FAILED \<and> tx_status t = Tx_PENDING \<and> rs_tx r = t\<lparr>tx_status := Tx_FAILED\<rparr>"
  using assms
  by (auto simp: resolve_discrepancy_def settle_success_def settle_failure_def escalate_unknown_def
      unresolved_def resolved_def Let_def err_simps split: if_splits)

lemma resolution_effect:
  assumes "resolve_discrepancy now aid corr auto c t provider s = Inr r"
  shows "rs_action r = None \<and> rs_case r = c \<and> rs_tx r = t \<and> rs_session r = s
     \<or> rs_found r \<noteq> [] \<and> auto \<and> rs_action r \<in> Some ` {''RESOLVED_TO_SUCCEEDED'', ''RESOLVED_TO_FAILED'',
                                                ''ESCALATED_FOR_MANUAL_REVIEW''}"
  using assms
  by (auto simp: resolve_discrepancy_def settle_success_def settle_failure_def escalate_unknown_def
      unresolved_def resolved_def Let_def err_simps split: if_splits)

text \<open>Whatever is resolved, the stored rows follow the objects and the constraints hold.\<close>

definition find_case_is :: "recovery_case \<Rightarrow> session \<Rightarrow> session \<Rightarrow> bool" where
  "find_case_is c s t \<longleftrightarrow> (\<forall>i. find_case t i = (if i = rc_id c then Some c else find_case s i))"

definition find_tx_is :: "transaction \<Rightarrow> session \<Rightarrow> session \<Rightarrow> bool" where
  "find_tx_is x s t \<longleftrightarrow> (\<forall>i. find_transaction t i = (if i = tx_id x then Some x else find_transaction s i))"

definition audit_grown :: "uuid \<Rightarrow> session \<Rightarrow> session \<Rightarrow> bool" where
  "audit_grown cid s t \<longleftrightarrow>
     audit_seqs t cid = audit_seqs s cid
     \<or> audit_seqs t cid = audit_seqs s cid @ [next_transition_seq s cid]"

lemma find_case_is_upd:
  "find_case s (rc_id c) \<noteq> None \<Longrightarrow> cases t = upd_by rc_id c (cases s) \<Longrightarrow> find_case_is c s t"
  unfolding find_case_is_def find_case_def by (auto simp: find_upd_by_same find_upd_by_other)

lemma find_tx_is_upd:
  "find_transaction s (tx_id x) \<noteq> None \<Longrightarrow> transactions t = upd_by tx_id x (transactions s) \<Longrightarrow>
     find_tx_is x s t"
  unfolding find_tx_is_def find_transaction_def by (auto simp: find_upd_by_same find_upd_by_other)

lemma find_is_refl:
  "find_case s (rc_id c) = Some c \<Longrightarrow> find_case_is c s s"
  "find_transaction s (tx_id x) = Some x \<Longrightarrow> find_tx_is x s s"
  by (auto simp: find_case_is_def find_tx_is_def)

lemma move_case_session:
  assumes "move_case c st reason actor aid corr corr_id now s = Inr (c', t)"
    and "session_ok s" and "find_case s (rc_id c) = Some c"
  shows "session_ok t" "find_case_is c' s t" "transactions t = transactions s"
    "audit_grown (rc_id c) s t" "rc_id c' = rc_id c"
proof -
  have id: "rc_id c' = rc_id c" using move_case_facts(2) [OF assms(1)] by simp
  show "rc_id c' = rc_id c" by (rule id)
  show "session_ok t" by (rule move_case_facts(7) [OF assms(1)])
  show "transactions t = transactions s" by (rule move_case_rows(2) [OF assms(1,2)])
  show "audit_grown (rc_id c) s t"
    using move_case_rows(1) [OF assms(1,2)] by (simp add: audit_grown_def)
  show "find_case_is c' s t"
    by (rule find_case_is_upd) (use assms(3) id move_case_rows(3) [OF assms(1,2)] in simp_all)
qed

lemma set_recovered_session:
  assumes "session_ok s" and "find_case s (rc_id c) = Some c"
  shows "session_ok (put_case (set_recovered now c) s)"
    "find_case_is (set_recovered now c) s (put_case (set_recovered now c) s)"
    "audit_grown (rc_id c) s (put_case (set_recovered now c) s)"
    "rc_id (set_recovered now c) = rc_id c"
proof -
  show "rc_id (set_recovered now c) = rc_id c" by (simp add: set_recovered_def)
  show "session_ok (put_case (set_recovered now c) s)"
    by (rule session_ok_put_case [where ?c0.0 = c]) (use assms in \<open>simp_all add: set_recovered_def\<close>)
  show "find_case_is (set_recovered now c) s (put_case (set_recovered now c) s)"
    by (rule find_case_is_upd) (use assms in \<open>simp_all add: set_recovered_def put_case_def\<close>)
  show "audit_grown (rc_id c) s (put_case (set_recovered now c) s)"
    by (simp add: audit_grown_def audit_seqs_def put_case_def)
qed

definition resolution_ok :: "recovery_case \<Rightarrow> transaction \<Rightarrow> session \<Rightarrow> resolution \<Rightarrow> bool" where
  "resolution_ok c t s r \<longleftrightarrow>
     session_ok (rs_session r) \<and> find_case_is (rs_case r) s (rs_session r)
     \<and> find_tx_is (rs_tx r) s (rs_session r) \<and> rc_id (rs_case r) = rc_id c \<and> tx_id (rs_tx r) = tx_id t
     \<and> audit_grown (rc_id c) s (rs_session r)"

text \<open>A resolution whose case step ran on the session with the new transaction status.\<close>

lemma resolved_ok:
  assumes t: "find_transaction s (tx_id t) = Some t" "tx_id t' = tx_id t"
    and u: "session_ok u" "find_case_is c' (put_transaction t' s) u"
      "transactions u = transactions (put_transaction t' s)"
      "audit_grown (rc_id c) (put_transaction t' s) u" "rc_id c' = rc_id c"
  shows "resolution_ok c t s (resolved f a t' (c', u))"
proof -
  have "find_tx_is t' s u"
    by (rule find_tx_is_upd) (use t u(3) in \<open>simp_all add: put_transaction_def\<close>)
  then show ?thesis
    using assms by (simp add: resolution_ok_def resolved_def find_case_is_def audit_grown_def)
qed

lemma settle_success_ok:
  assumes "settle_success now aid corr c t s = Inr r"
    and s: "session_ok s" "find_case s (rc_id c) = Some c" "find_transaction s (tx_id t) = Some t"
  shows "resolution_ok c t s r"
proof -
  let ?t = "t\<lparr>tx_status := Tx_SUCCEEDED\<rparr>"
  let ?s = "put_transaction ?t s"
  have s1: "session_ok ?s" "find_case ?s (rc_id c) = Some c"
    using s session_ok_put_transaction [of s ?t t] by simp_all
  consider "r = resolved ''INTERNAL_UNRESOLVED_PROVIDER_SUCCEEDED'' ''RESOLVED_TO_SUCCEEDED'' ?t (c, ?s)"
    | c' u where "move_case c Case_RECOVERED ''reconciled_provider_success'' Actor_SYSTEM aid (Some corr) [] now ?s = Inr (c', u)"
        "r = resolved ''INTERNAL_UNRESOLVED_PROVIDER_SUCCEEDED'' ''RESOLVED_TO_SUCCEEDED'' ?t (c', u)"
    | "r = resolved ''INTERNAL_UNRESOLVED_PROVIDER_SUCCEEDED'' ''RESOLVED_TO_SUCCEEDED'' ?t
             (set_recovered now c, put_case (set_recovered now c) ?s)"
    using assms(1)
    by (auto simp: settle_success_def Let_def err_simps set_recovered_def split: if_splits)
  then show ?thesis
  proof cases
    case 1
    then show ?thesis using s s1 by (simp add: resolved_ok find_is_refl audit_grown_def)
  next
    case (2 c' u)
    then show ?thesis using s move_case_session [OF 2(1) s1] by (simp add: resolved_ok)
  next
    case 3
    then show ?thesis
      using s set_recovered_session [OF s1, of now]
      by (simp add: resolved_ok put_case_def)
  qed
qed

lemma settle_failure_ok:
  assumes "settle_failure now aid corr c t s = Inr r"
    and s: "session_ok s" "find_case s (rc_id c) = Some c" "find_transaction s (tx_id t) = Some t"
  shows "resolution_ok c t s r"
proof -
  let ?t = "t\<lparr>tx_status := Tx_FAILED\<rparr>"
  let ?s = "put_transaction ?t s"
  have s1: "session_ok ?s" "find_case ?s (rc_id c) = Some c"
    using s session_ok_put_transaction [of s ?t t] by simp_all
  consider "r = resolved ''INTERNAL_PENDING_PROVIDER_FAILED'' ''RESOLVED_TO_FAILED'' ?t (c, ?s)"
    | c' u where "move_case c Case_RETRY_ELIGIBLE ''reconciled_provider_failure'' Actor_SYSTEM aid (Some corr) [] now ?s = Inr (c', u)"
        "r = resolved ''INTERNAL_PENDING_PROVIDER_FAILED'' ''RESOLVED_TO_FAILED'' ?t (c', u)"
    using assms(1) by (auto simp: settle_failure_def Let_def err_simps split: if_splits)
  then show ?thesis
  proof cases
    case 1
    then show ?thesis using s s1 by (simp add: resolved_ok find_is_refl audit_grown_def)
  next
    case (2 c' u)
    then show ?thesis using s move_case_session [OF 2(1) s1] by (simp add: resolved_ok)
  qed
qed

lemma escalate_unknown_ok:
  assumes "escalate_unknown now aid corr c t s = Inr r"
    and s: "session_ok s" "find_case s (rc_id c) = Some c" "find_transaction s (tx_id t) = Some t"
  shows "resolution_ok c t s r"
proof -
  obtain c' u where m: "move_case c Case_ESCALATED ''reconciliation_outcome_unknown'' Actor_SYSTEM aid (Some corr) [] now s = Inr (c', u)"
    and r: "r = resolved ''PROVIDER_STATUS_UNKNOWN'' ''ESCALATED_FOR_MANUAL_REVIEW'' t (c', u)"
    using assms(1) by (auto simp: escalate_unknown_def err_simps)
  have "find_tx_is t s u"
    using find_is_refl(2) [OF s(3)] move_case_session(3) [OF m s(1,2)]
    by (simp add: find_tx_is_def find_transaction_def)
  then show ?thesis
    using r move_case_session [OF m s(1,2)] by (simp add: resolution_ok_def resolved_def)
qed

lemma resolve_session:
  assumes "resolve_discrepancy now aid corr auto c t provider s = Inr r"
    and s: "session_ok s" "find_case s (rc_id c) = Some c" "find_transaction s (tx_id t) = Some t"
  shows "resolution_ok c t s r"
proof -
  have same: "resolution_ok c t s (unresolved f c t s)" for f
    using s by (simp add: resolution_ok_def unresolved_def find_is_refl audit_grown_def)
  show ?thesis
    using assms(1) same settle_success_ok [OF _ s] settle_failure_ok [OF _ s] escalate_unknown_ok [OF _ s]
    by (auto simp: resolve_discrepancy_def split: if_splits)
qed

section \<open>Properties\<close>

lemma reconcile_case_Inr:
  assumes "reconcile_case env cid aid correlation_id auto s = Inr (rep, u)"
  obtains c t k missing r a where
    "find_case s cid = Some c" "find_transaction s (rc_trigger_transaction_id c) = Some t"
    "gateway_status env (provider_reference (executions_of s cid) t) k = Inr (rp_provider_status rep, missing)"
    "resolve_discrepancy (re_now env) aid k auto c t (rp_provider_status rep) s = Inr r"
    "rp_discrepancies rep = missing
       @ recon_conflicts env s (provider_reference (executions_of s cid) t) @ rs_found r"
    "rp_resolution_action rep = rs_action r"
    "rp_status rep = classify_reconciliation (rp_discrepancies rep) (rs_action r)"
    "rp_case_id rep = cid"
    "violated (add_audit a (rs_session r)) = None" "u = flushed (add_audit a (rs_session r))"
    "ae_case_id a = cid"
proof -
  from assms obtain c t where ct: "find_case s cid = Some c"
      "find_transaction s (rc_trigger_transaction_id c) = Some t"
    by (auto simp: reconcile_case_def split: option.splits)
  then have "rc_id c = cid" by (simp add: find_case_id)
  define k where "k = (if truthy correlation_id then or_empty correlation_id
                     else ''recon_'' @ take 10 (uuid_hex (rc_id c)))"
  have "reconcile_loaded env aid k auto c t s = Inr (rep, u)"
    using assms ct by (simp add: reconcile_case_def k_def)
  then obtain provider missing r where
    g: "gateway_status env (provider_reference (executions_of s cid) t) k = Inr (provider, missing)"
    and r: "resolve_discrepancy (re_now env) aid k auto c t provider s = Inr r"
    and rest: "ebind (commit (add_audit (recon_audit aid k (re_now env) (rs_case r) (rs_tx r) provider
          (classify_reconciliation (missing @ recon_conflicts env s (provider_reference (executions_of s cid) t)
             @ rs_found r) (rs_action r))
          (missing @ recon_conflicts env s (provider_reference (executions_of s cid) t) @ rs_found r)
          (rs_action r) (int (length (audit_seqs (rs_session r) cid)) + 1)) (rs_session r))) (\<lambda>u.
        Inr (\<lparr>rp_case_id = cid, rp_transaction_id = tx_id t, rp_internal_status = tx_status (rs_tx r),
              rp_provider_status = provider,
              rp_status = classify_reconciliation (missing @ recon_conflicts env s
                 (provider_reference (executions_of s cid) t) @ rs_found r) (rs_action r),
              rp_discrepancies = missing @ recon_conflicts env s
                 (provider_reference (executions_of s cid) t) @ rs_found r,
              rp_resolution_action = rs_action r, rp_reconciled_at = re_now env,
              rp_details = [(''provider_ref'', jopt (provider_reference (executions_of s cid) t)),
                            (''executions_count'', JInt (int (length (executions_of s cid))))]\<rparr>, u)) = Inr (rep, u)"
    using \<open>rc_id c = cid\<close> by (auto simp: reconcile_loaded_def Let_def err_simps)
  from r \<open>rc_id c = cid\<close> have "rc_id (rs_case r) = cid"
    by (auto dest: resolve_case simp: set_recovered_def)
  with ct g r rest show thesis
    by (auto simp: err_simps recon_audit_def intro!: that)
qed

lemma gateway_status_answer:
  assumes "gateway_status env ref k = Inr (p, m)" and "p \<noteq> Exec_UNKNOWN"
  shows "\<exists>q res. re_query env q = Inr res \<and> xr_status res = p \<and> ref = Some (qy_provider_payment_id q)"
proof -
  from assms obtain r res where "ref = Some r" "xr_status res = p"
    and "re_query env \<lparr>qy_provider_payment_id = r, qy_correlation_id = Some k\<rparr> = Inr res"
    by (auto simp: gateway_status_def err_simps split: option.splits)
  then show ?thesis
    by (intro exI [of _ "\<lparr>qy_provider_payment_id = r, qy_correlation_id = Some k\<rparr>"] exI [of _ res]) simp
qed

lemma resolve_success_pair:
  assumes "resolve_discrepancy now aid corr auto c t provider s = Inr r"
    and "rc_state (rs_case r) = Case_RECOVERED \<and> rc_state c \<noteq> Case_RECOVERED
         \<or> tx_status (rs_tx r) = Tx_SUCCEEDED \<and> tx_status t \<noteq> Tx_SUCCEEDED"
  shows "provider = Exec_SUCCEEDED \<and> tx_status (rs_tx r) = Tx_SUCCEEDED
         \<and> rc_state (rs_case r) \<in> {Case_RECOVERED, Case_CLOSED}"
  using assms
  by (auto simp: resolve_discrepancy_def settle_success_def settle_failure_def escalate_unknown_def
      unresolved_def resolved_def Let_def err_simps split: if_splits dest!: move_case_facts(2))

lemma resolve_status:
  assumes "resolve_discrepancy now aid corr auto c t provider s = Inr r"
    and "rs_case r \<noteq> c \<or> rs_tx r \<noteq> t"
  shows "auto \<and> classify_reconciliation (m @ k @ rs_found r) (rs_action r) \<in> {Recon_RESOLVED, Recon_ESCALATED}"
  using resolution_effect [OF assms(1)] assms(2)
  by (auto simp: classify_reconciliation_def)

lemma find_after_reconcile:
  assumes "resolution_ok c t s r" and "u = flushed (add_audit a (rs_session r))"
  shows "find_case u (rc_id c) = Some (rs_case r)" "find_transaction u (tx_id t) = Some (rs_tx r)"
    "\<And>i. i \<noteq> rc_id c \<Longrightarrow> find_case u i = find_case s i"
    "\<And>i. i \<noteq> tx_id t \<Longrightarrow> find_transaction u i = find_transaction s i"
  using assms by (auto simp: resolution_ok_def find_case_is_def find_tx_is_def)

text \<open>C24: Reconciling a case changes no other case and no other transaction, and
  changes its own only when automatic resolution is on and the report says so. A case becomes
  recovered, or its transaction succeeded, only together and only when the gateway answered, for
  the case's own payment reference, that the payment was captured.\<close>

theorem reconciliation_trusts_gateway:
  assumes "reconcile_case env cid aid corr auto s = Inr (rep, u)" and "session_ok s"
  shows "\<exists>c t c' t'. find_case s cid = Some c
           \<and> find_transaction s (rc_trigger_transaction_id c) = Some t
           \<and> find_case u cid = Some c' \<and> find_transaction u (tx_id t) = Some t' \<and> session_ok u
           \<and> (\<forall>i. i \<noteq> cid \<longrightarrow> find_case u i = find_case s i)
           \<and> (\<forall>i. i \<noteq> tx_id t \<longrightarrow> find_transaction u i = find_transaction s i)
           \<and> (c' \<noteq> c \<or> t' \<noteq> t \<longrightarrow> auto \<and> rp_status rep \<in> {Recon_RESOLVED, Recon_ESCALATED})
           \<and> (rc_state c' = Case_RECOVERED \<and> rc_state c \<noteq> Case_RECOVERED
                \<or> tx_status t' = Tx_SUCCEEDED \<and> tx_status t \<noteq> Tx_SUCCEEDED \<longrightarrow>
                tx_status t' = Tx_SUCCEEDED \<and> rc_state c' \<in> {Case_RECOVERED, Case_CLOSED}
                \<and> (\<exists>q res. re_query env q = Inr res \<and> xr_status res = Exec_SUCCEEDED
                     \<and> provider_reference (executions_of s cid) t = Some (qy_provider_payment_id q)))"
  using assms(1)
proof (cases rule: reconcile_case_Inr)
  case (1 c t k missing r a)
  have ids: "rc_id c = cid" "rc_trigger_transaction_id c = tx_id t"
    using 1(1,2) by (simp_all add: find_case_id find_transaction_id)
  have ok: "resolution_ok c t s r"
    using resolve_session [OF 1(4) assms(2)] 1(1,2) ids by simp
  note after = find_after_reconcile [OF ok 1(10)]
  have status: "rs_case r \<noteq> c \<or> rs_tx r \<noteq> t \<longrightarrow> auto \<and> rp_status rep \<in> {Recon_RESOLVED, Recon_ESCALATED}"
    using resolve_status [OF 1(4)] 1(5,7) by simp
  have money: "rc_state (rs_case r) = Case_RECOVERED \<and> rc_state c \<noteq> Case_RECOVERED
      \<or> tx_status (rs_tx r) = Tx_SUCCEEDED \<and> tx_status t \<noteq> Tx_SUCCEEDED \<longrightarrow>
      tx_status (rs_tx r) = Tx_SUCCEEDED \<and> rc_state (rs_case r) \<in> {Case_RECOVERED, Case_CLOSED}
      \<and> (\<exists>q res. re_query env q = Inr res \<and> xr_status res = Exec_SUCCEEDED
           \<and> provider_reference (executions_of s cid) t = Some (qy_provider_payment_id q))"
    using resolve_success_pair [OF 1(4)] gateway_status_answer [OF 1(3)] by auto
  have "session_ok u" using 1(9,10) by (simp add: session_ok_flushed)
  then show ?thesis using 1(1,2) ids after status money by auto
qed

text \<open>A resolution leaves nothing for a second one under the same gateway status.\<close>

definition settled :: "execution_status \<Rightarrow> recovery_case \<Rightarrow> transaction \<Rightarrow> bool" where
  "settled provider c t \<longleftrightarrow>
     (provider = Exec_SUCCEEDED \<longrightarrow> tx_status t \<notin> {Tx_FAILED, Tx_PENDING})
     \<and> (provider = Exec_FAILED \<longrightarrow> tx_status t \<noteq> Tx_PENDING)
     \<and> (provider = Exec_UNKNOWN \<longrightarrow> rc_state c \<in> {Case_ESCALATED, Case_CLOSED})"

lemma resolve_settles:
  "resolve_discrepancy now aid corr True c t provider s = Inr r \<Longrightarrow> settled provider (rs_case r) (rs_tx r)"
  by (auto simp: resolve_discrepancy_def settle_success_def settle_failure_def escalate_unknown_def
      unresolved_def resolved_def settled_def Let_def err_simps split: if_splits dest!: move_case_facts(2))

lemma settled_resolve:
  assumes "settled provider c t" and "resolve_discrepancy now aid corr True c t provider s = Inr r"
  shows "rs_action r = None \<and> rs_session r = s"
  using assms by (auto simp: resolve_discrepancy_def settled_def unresolved_def split: if_splits)

lemma resolve_keeps_trigger:
  "resolve_discrepancy now aid corr auto c t provider s = Inr r \<Longrightarrow>
     rc_trigger_transaction_id (rs_case r) = rc_trigger_transaction_id c"
  by (auto dest!: resolve_case simp: moved_case_def set_recovered_def)

text \<open>Resolving once is enough: when a case was reconciled with automatic
  resolution and is reconciled again while the gateway reports the same status, the second run
  resolves nothing and leaves every case and transaction as the first one left it.\<close>

theorem reconciliation_converges:
  assumes "reconcile_case env cid aid corr True s = Inr (rep, u)" and "session_ok s"
    and "reconcile_case env2 cid aid2 corr2 True u = Inr (rep2, v)"
    and "rp_provider_status rep2 = rp_provider_status rep"
  shows "rp_resolution_action rep2 = None \<and> cases v = cases u \<and> transactions v = transactions u
         \<and> rp_status rep2 \<in> {Recon_MATCHED, Recon_DISCREPANCY_DETECTED}"
  using assms(1)
proof (cases rule: reconcile_case_Inr)
  case (1 c t k missing r a)
  have ids: "rc_id c = cid" "rc_trigger_transaction_id c = tx_id t"
    using 1(1,2) by (simp_all add: find_case_id find_transaction_id)
  have ok: "resolution_ok c t s r"
    using resolve_session [OF 1(4) assms(2)] 1(1,2) ids by simp
  note after = find_after_reconcile [OF ok 1(10)]
  from assms(3) show ?thesis
  proof (cases rule: reconcile_case_Inr)
    case second: (1 c2 t2 k2 missing2 r2 a2)
    have "c2 = rs_case r" "t2 = rs_tx r"
      using second(1,2) after(1,2) ids resolve_keeps_trigger [OF 1(4)] by simp_all
    with resolve_settles [OF 1(4)] have "settled (rp_provider_status rep2) c2 t2"
      by (simp add: assms(4))
    from settled_resolve [OF this second(4)] have "rs_action r2 = None \<and> rs_session r2 = u" .
    then have "rs_action r2 = None" "rs_session r2 = u" by simp_all
    then show ?thesis
      using second(6,7,10) by (auto simp: add_audit_def classify_reconciliation_def)
  qed
qed

section \<open>When reconciliation raises\<close>

lemma logs_in_step_next:
  assumes "logs_in_step s cid"
  shows "next_transition_seq s cid = int (length (audit_seqs s cid)) + 1"
    and "x \<in> set (audit_seqs s cid) \<Longrightarrow> x \<le> int (length (audit_seqs s cid))"
proof -
  have "audit_seqs s cid = map (\<lambda>i. int i + 1) [0..<length (audit_seqs s cid)]"
    using assms unfolding logs_in_step_def by blast
  then show "next_transition_seq s cid = int (length (audit_seqs s cid)) + 1"
    using assms next_seq_numbered [of "length (audit_seqs s cid)"]
    by (simp add: next_transition_seq_def logs_in_step_def)
  show "x \<le> int (length (audit_seqs s cid))" if "x \<in> set (audit_seqs s cid)"
  proof -
    from that have "x \<in> set (map (\<lambda>i. int i + 1) [0..<length (audit_seqs s cid)])"
      using \<open>audit_seqs s cid = map _ _\<close> by simp
    then show ?thesis by auto
  qed
qed

lemma audit_number_free:
  assumes "logs_in_step s cid" and "audit_grown cid s u"
  shows "int (length (audit_seqs u cid)) + 1 \<notin> set (audit_seqs u cid)"
  using assms(2) logs_in_step_next [OF assms(1)] by (fastforce simp: audit_grown_def)

lemma commit_audit:
  assumes "session_ok s" and "ae_sequence_number a \<notin> set (audit_seqs s (ae_case_id a))"
  shows "commit (add_audit a s) = Inr (flushed (add_audit a s))"
proof -
  have "audit_key a \<notin> audit_key ` set (audit_rows s)"
    using assms(2) by (force simp: audit_seqs_def image_iff)
  then show ?thesis
    using assms(1) by (intro commit_ok) (simp add: session_ok_iff violated_None_iff add_audit_def audit_unique_snoc)
qed

text \<open>The resolution itself raises on one move only: escalating a recovered or stopped case.\<close>

lemma escalation_allowed:
  "st \<notin> {Case_RECOVERED, Case_STOPPED, Case_ESCALATED, Case_CLOSED} \<Longrightarrow>
     Case_ESCALATED \<in> set (allowed_transitions st)"
  by (cases st) auto

lemma move_case_forbidden:
  "st \<notin> set (allowed_transitions (rc_state c)) \<Longrightarrow> \<not> is_ok (move_case c st reason actor aid corr i now s)"
  by (simp add: move_case_def transition_case_invalid)

lemma is_ok_ebind_total: "is_ok (ebind m (\<lambda>x. Inr (f x))) = is_ok m"
  by (cases m) auto

lemma resolve_returns_iff:
  assumes "session_ok s" "find_case s (rc_id c) = Some c" "find_transaction s (tx_id t) = Some t"
    and free: "next_transition_seq s (rc_id c) \<notin> set (audit_seqs s (rc_id c))"
  shows "is_ok (resolve_discrepancy now aid corr auto c t provider s) \<longleftrightarrow>
           \<not> (auto \<and> provider = Exec_UNKNOWN \<and> rc_state c \<in> {Case_RECOVERED, Case_STOPPED})"
proof -
  have move: "is_ok (move_case c st reason Actor_SYSTEM aid (Some corr) [] now (put_transaction (t\<lparr>tx_status := x\<rparr>) s))"
    "is_ok (move_case c st reason Actor_SYSTEM aid (Some corr) [] now s)"
    if "st \<in> set (allowed_transitions (rc_state c))" for st reason x
    using move_case_returns [of "put_transaction (t\<lparr>tx_status := x\<rparr>) s" c st] move_case_returns [of s c st]
      session_ok_put_transaction [of s "t\<lparr>tx_status := x\<rparr>" t] assms that
    by (metis is_ok_iff put_transaction_simps(1,2,3) transaction.select_convs(1,3,4) transaction.update_convs(7)
        transaction.surjective)+
  have success: "is_ok (settle_success now aid corr c t s)"
    using move(1) [of Case_RECOVERED]
    by (simp add: settle_success_def Let_def is_ok_ebind_total del: is_ok_iff) (simp add: is_ok_def)
  have failure: "is_ok (settle_failure now aid corr c t s)"
    using move(1) [of Case_RETRY_ELIGIBLE]
    by (simp add: settle_failure_def Let_def is_ok_ebind_total del: is_ok_iff) (simp add: is_ok_def)
  have escalate: "is_ok (escalate_unknown now aid corr c t s) \<longleftrightarrow> rc_state c \<notin> {Case_RECOVERED, Case_STOPPED}"
    if "rc_state c \<notin> {Case_ESCALATED, Case_CLOSED}"
  proof (cases "rc_state c \<in> {Case_RECOVERED, Case_STOPPED}")
    case True
    then have "Case_ESCALATED \<notin> set (allowed_transitions (rc_state c))" by auto
    from move_case_forbidden [OF this] True show ?thesis
      by (simp add: escalate_unknown_def is_ok_ebind_total del: is_ok_iff)
  next
    case False
    with that move(2) [OF escalation_allowed] show ?thesis
      by (simp add: escalate_unknown_def is_ok_ebind_total del: is_ok_iff)
  qed
  have ok: "is_ok (Inr x)" for x :: resolution by simp
  show ?thesis
    unfolding resolve_discrepancy_def
    using success failure escalate ok by (simp del: is_ok_iff) blast
qed


section \<open>The batch\<close>

text \<open>What verification may do to a waiting case: nothing, or one of the three allowed moves.\<close>

definition verified_step :: "recovery_case \<Rightarrow> recovery_case \<Rightarrow> bool" where
  "verified_step c c' \<longleftrightarrow>
     c' = c \<or> (\<exists>st now. c' = moved_case c st now
                 \<and> st \<in> {Case_RECOVERED, Case_RETRY_ELIGIBLE, Case_ESCALATED})"

lemma reconcile_waiting:
  assumes "reconcile_case env cid aid corr auto s = Inr (rep, u)" and "session_ok s"
    and "find_case s cid = Some c" "rc_state c = Case_VERIFICATION_PENDING"
  shows "session_ok u" "rp_case_id rep = cid" "\<And>i. i \<noteq> cid \<Longrightarrow> find_case u i = find_case s i"
    "\<exists>c'. find_case u cid = Some c' \<and> verified_step c c'"
proof -
  from assms(1) have "session_ok u \<and> rp_case_id rep = cid \<and> (\<forall>i. i \<noteq> cid \<longrightarrow> find_case u i = find_case s i)
      \<and> (\<exists>c'. find_case u cid = Some c' \<and> verified_step c c')"
  proof (cases rule: reconcile_case_Inr)
    case (1 c1 t k missing r a)
    have ids: "c1 = c" "rc_id c = cid" "rc_trigger_transaction_id c = tx_id t"
      using 1(1,2) assms(3) by (simp_all add: find_case_id find_transaction_id)
    have ok: "resolution_ok c t s r"
      using resolve_session [OF 1(4) assms(2)] 1(1,2) ids by simp
    note after = find_after_reconcile [OF ok 1(10)]
    have "verified_step c (rs_case r)"
      using resolve_case [OF 1(4)] ids assms(4) by (auto simp: verified_step_def)
    then show ?thesis
      using after ids 1(8-10) by (simp add: session_ok_flushed)
  qed
  then show "session_ok u" "rp_case_id rep = cid" "\<And>i. i \<noteq> cid \<Longrightarrow> find_case u i = find_case s i"
    "\<exists>c'. find_case u cid = Some c' \<and> verified_step c c'" by blast+
qed

definition waiting :: "session \<Rightarrow> uuid \<Rightarrow> bool" where
  "waiting s i \<longleftrightarrow> (\<exists>c. find_case s i = Some c \<and> rc_state c = Case_VERIFICATION_PENDING)"

definition case_verified :: "session \<Rightarrow> session \<Rightarrow> uuid \<Rightarrow> bool" where
  "case_verified s u i \<longleftrightarrow>
     (\<exists>c c'. find_case s i = Some c \<and> find_case u i = Some c' \<and> verified_step c c')"

lemma reconcile_each_facts:
  "reconcile_each env is s = (r, u) \<Longrightarrow> session_ok s \<Longrightarrow> distinct is \<Longrightarrow> \<forall>i \<in> set is. waiting s i \<Longrightarrow>
     session_ok u \<and> (\<forall>i. i \<notin> set is \<longrightarrow> find_case u i = find_case s i)
     \<and> (\<forall>i \<in> set is. case_verified s u i) \<and> (\<forall>reps. r = Inr reps \<longrightarrow> map rp_case_id reps = is)"
proof (induction env "is" s arbitrary: r u rule: reconcile_each.induct)
  case (1 env s)
  then show ?case by auto
next
  case (2 env i "is" s)
  have same: "case_verified s s j" if "j \<in> set (i # is)" for j
    using 2(5) that by (auto simp: case_verified_def verified_step_def waiting_def)
  show ?case
  proof (cases "reconcile_case env i None None True s")
    case (Inl e)
    with 2(2,3) same show ?thesis by auto
  next
    case (Inr p)
    obtain rep t where p: "p = (rep, t)" by fastforce
    obtain r1 where e: "reconcile_each env is t = (r1, u)" and r: "r = ebind r1 (\<lambda>rs. Inr (rep # rs))"
      using 2(2) Inr p by (auto split: prod.splits)
    obtain c where c: "find_case s i = Some c" "rc_state c = Case_VERIFICATION_PENDING"
      using 2(5) by (auto simp: waiting_def)
    note step = reconcile_waiting [OF Inr [unfolded p] 2(3) c]
    have i: "i \<notin> set is" "distinct is" using 2(4) by simp_all
    have "waiting t j" if "j \<in> set is" for j
    proof -
      from that i have "find_case t j = find_case s j" by (metis step(3))
      with 2(5) that show ?thesis by (simp add: waiting_def)
    qed
    then have wait: "\<forall>j \<in> set is. waiting t j" by blast
    have IH: "session_ok u \<and> (\<forall>j. j \<notin> set is \<longrightarrow> find_case u j = find_case t j)
        \<and> (\<forall>j \<in> set is. case_verified t u j) \<and> (\<forall>reps. r1 = Inr reps \<longrightarrow> map rp_case_id reps = is)"
      using 2(1) [OF Inr p [symmetric] e step(1) i(2) wait] .
    have "case_verified s u j" if "j \<in> set is" for j
      using IH that i step(3) [of j] by (force simp: case_verified_def)
    moreover have "case_verified s u i"
      using IH i c step(4) by (auto simp: case_verified_def)
    ultimately show ?thesis
      using IH step(2,3) i r by (auto simp: err_simps)
  qed
qed

lemma pending_found:
  assumes "session_ok s" and "c \<in> set (pending_cases s limit)"
  shows "waiting s (rc_id c)"
proof -
  have "c \<in> set (cases s)" "rc_state c = Case_VERIFICATION_PENDING"
    using assms(2) by (auto simp: pending_cases_def dest: in_set_takeD)
  with assms(1) show ?thesis by (auto simp: waiting_def find_case_mem)
qed

lemma distinct_pending: "session_ok s \<Longrightarrow> distinct (map rc_id (pending_cases s limit))"
  unfolding pending_cases_def
  by (auto simp: session_ok_iff case_unique_def distinct_map inj_on_def
      dest!: in_set_takeD intro!: distinct_take)

text \<open>The batch touches only cases awaiting verification, at most the limit,
  and each of them either stays or makes one move the table allows from there, with its version
  increased. When it finishes it reports on exactly these cases, oldest first; when a case raises,
  what was committed before it keeps the constraints.\<close>

theorem batch_reconciles_waiting:
  assumes "reconcile_pending_cases env limit s = (r, u)" and "session_ok s"
  shows "session_ok u \<and> length (pending_cases s limit) \<le> nat limit
         \<and> (\<forall>i. i \<notin> rc_id ` set (pending_cases s limit) \<longrightarrow> find_case u i = find_case s i)
         \<and> (\<forall>i \<in> rc_id ` set (pending_cases s limit). waiting s i \<and> case_verified s u i)
         \<and> (\<forall>reps. r = Inr reps \<longrightarrow> map rp_case_id reps = map rc_id (pending_cases s limit))"
  using reconcile_each_facts [OF assms(1) [unfolded reconcile_pending_cases_def] assms(2)
      distinct_pending [OF assms(2)]] pending_found [OF assms(2)]
  by (auto simp: pending_cases_def)

section \<open>Witnesses\<close>

definition demo_gateway :: "execution_status \<Rightarrow> recon_env" where
  "demo_gateway st =
     \<lparr>re_now = demo_now,
      re_query = (\<lambda>q. Inr (status_outcome demo_env st (Some (qy_provider_payment_id q)) None 5000
                             ''INR'' None [] 0 True)),
      re_fold = (\<lambda>s. s)\<rparr>"

text \<open>The shared scenario after a dispatch: the case waits for verification.\<close>

definition demo_waiting :: session where
  "demo_waiting = demo_session\<lparr>cases := [demo_case\<lparr>rc_state := Case_VERIFICATION_PENDING\<rparr>]\<rparr>"

lemma demo_waiting_ok: "session_ok demo_waiting"
  unfolding session_ok_def by code_simp

lemma demo_captured:
  "is_ok (reconcile_case (demo_gateway Exec_SUCCEEDED) ''case'' None None True demo_waiting)"
  by code_simp

lemma reconciliation_trusts_gateway_witness:
  "\<exists>rep u c'. reconcile_case (demo_gateway Exec_SUCCEEDED) ''case'' None None True demo_waiting = Inr (rep, u)
     \<and> find_case u ''case'' = Some c' \<and> session_ok u"
proof -
  obtain rep u where run:
    "reconcile_case (demo_gateway Exec_SUCCEEDED) ''case'' None None True demo_waiting = Inr (rep, u)"
    using demo_captured by auto
  from reconciliation_trusts_gateway [OF run demo_waiting_ok] run show ?thesis by blast
qed

lemma reconciliation_converges_witness:
  "\<exists>rep u rep2 v. reconcile_case (demo_gateway Exec_SUCCEEDED) ''case'' None None True demo_waiting = Inr (rep, u)
     \<and> reconcile_case (demo_gateway Exec_SUCCEEDED) ''case'' None None True u = Inr (rep2, v)
     \<and> rp_resolution_action rep = Some ''RESOLVED_TO_SUCCEEDED'' \<and> rp_resolution_action rep2 = None"
proof -
  let ?run = "reconcile_case (demo_gateway Exec_SUCCEEDED) ''case'' None None True"
  obtain rep u where run: "?run demo_waiting = Inr (rep, u)"
    using demo_captured by auto
  have "is_ok (ebind (?run demo_waiting) (\<lambda>(_, u). ?run u))"
    "(case ?run demo_waiting of Inl _ \<Rightarrow> None | Inr (rep, _) \<Rightarrow> rp_resolution_action rep)
       = Some ''RESOLVED_TO_SUCCEEDED''"
    "(case ebind (?run demo_waiting) (\<lambda>(_, u). ?run u) of
        Inl _ \<Rightarrow> False | Inr (rep, _) \<Rightarrow> rp_provider_status rep = Exec_SUCCEEDED)"
    "(case ?run demo_waiting of Inl _ \<Rightarrow> False | Inr (rep, _) \<Rightarrow> rp_provider_status rep = Exec_SUCCEEDED)"
    by code_simp+
  then obtain rep2 v where "?run u = Inr (rep2, v)" "rp_provider_status rep2 = rp_provider_status rep"
    "rp_resolution_action rep = Some ''RESOLVED_TO_SUCCEEDED''"
    using run by auto
  with reconciliation_converges [OF run demo_waiting_ok] run show ?thesis by blast
qed


lemma batch_reconciles_waiting_witness:
  "\<exists>reps u. reconcile_pending_cases (demo_gateway Exec_SUCCEEDED) 50 demo_waiting = (Inr reps, u)
     \<and> map rp_case_id reps = [''case''] \<and> session_ok u"
proof -
  obtain r u where run: "reconcile_pending_cases (demo_gateway Exec_SUCCEEDED) 50 demo_waiting = (r, u)"
    by fastforce
  have "is_ok (fst (reconcile_pending_cases (demo_gateway Exec_SUCCEEDED) 50 demo_waiting))"
    "map rc_id (pending_cases demo_waiting 50) = [''case'']"
    by code_simp+
  with batch_reconciles_waiting [OF run demo_waiting_ok] run show ?thesis by auto
qed

section \<open>Conflicting receipts\<close>

lemma like_match_contains:
  assumes "contains ref s" and "h = (\<lambda>x. x) \<or> h = py_lower"
  shows "like_match (h (''%'' @ ref @ ''%'')) (h s)"
proof -
  obtain xs ys where s: "s = xs @ ref @ ys" using assms(1) by (auto simp: contains_iff)
  have percent: "lower_char CHR ''%'' = CHR ''%''" by code_simp
  have "like_match (CHR ''%'' # map g ref @ [CHR ''%'']) (map g xs @ map g ref @ map g ys)" for g
    by (rule like_match_percent [OF like_match_self])
  from this [of "\<lambda>x. x"] this [of lower_char] show ?thesis
    using assms(2) s percent by (auto simp: py_lower_def)
qed

text \<open>When the receipt log holds both a success and a failure event whose
  provider ids contain the payment reference of the case, every reconciliation that returns names
  the conflict and never reports the case as matched, on either database.\<close>

theorem conflicting_receipts_reported:
  assumes "reconcile_case env cid aid corr auto s = Inr (rep, u)"
    and "find_case s cid = Some c" and "find_transaction s (rc_trigger_transaction_id c) = Some t"
    and "provider_reference (executions_of s cid) t = Some ref"
    and "re_fold env = (\<lambda>x. x) \<or> re_fold env = py_lower"
    and "w1 \<in> set (webhooks s)" "we_event_type w1 = ''PAYMENT_SUCCEEDED''" "contains ref (we_external_event_id w1)"
    and "w2 \<in> set (webhooks s)" "we_event_type w2 = ''PAYMENT_FAILED''" "contains ref (we_external_event_id w2)"
  shows "''CONFLICTING_WEBHOOK_EVENT_HISTORY'' \<in> set (rp_discrepancies rep)
         \<and> rp_status rep \<noteq> Recon_MATCHED"
  using assms(1)
proof (cases rule: reconcile_case_Inr)
  case (1 c1 t1 k missing r a)
  let ?ws = "webhooks_like env s (Some ref)"
  have mem: "w1 \<in> set ?ws" "w2 \<in> set ?ws"
    using assms(5-) like_match_contains by (auto simp: webhooks_like_def or_empty_def)
  moreover have "w1 \<noteq> w2" using assms(7,10) by auto
  ultimately have "1 < length ?ws" by (cases ?ws rule: remdups_adj.cases) auto
  with mem assms(7,10) have "conflicting_history ?ws" by (force simp: conflicting_history_def)
  then have "recon_conflicts env s (Some ref) = [''CONFLICTING_WEBHOOK_EVENT_HISTORY'']"
    by (simp add: recon_conflicts_def)
  moreover have "c1 = c" "t1 = t" using 1(1,2) assms(2,3) by simp_all
  ultimately show ?thesis using 1(5,7) assms(4) by (simp add: classify_reconciliation_def)
qed

definition demo_receipt :: "string \<Rightarrow> string \<Rightarrow> webhook_event" where
  "demo_receipt i etype =
     \<lparr>we_id = i, we_provider = ''razorpay'', we_external_event_id = i, we_event_type = etype,
      we_payload_hash = ''h'', we_signature_verified = True, we_processed = True,
      we_ingestion_status = ''ACCEPTED'', we_payload = []\<rparr>"

definition demo_conflicting :: session where
  "demo_conflicting = demo_waiting\<lparr>webhooks := [demo_receipt ''evt_pay_1_a'' ''PAYMENT_SUCCEEDED'',
                                                demo_receipt ''evt_pay_1_b'' ''PAYMENT_FAILED'']\<rparr>"

lemma conflicting_receipts_reported_witness:
  "\<exists>rep u. reconcile_case (demo_gateway Exec_FAILED) ''case'' None None True demo_conflicting = Inr (rep, u)
     \<and> rp_status rep \<noteq> Recon_MATCHED"
proof -
  have "is_ok (reconcile_case (demo_gateway Exec_FAILED) ''case'' None None True demo_conflicting)"
    by code_simp
  then obtain rep u where
    run: "reconcile_case (demo_gateway Exec_FAILED) ''case'' None None True demo_conflicting = Inr (rep, u)"
    by auto
  have f: "find_case demo_conflicting ''case'' = Some (demo_case\<lparr>rc_state := Case_VERIFICATION_PENDING\<rparr>)"
    "find_transaction demo_conflicting (rc_trigger_transaction_id (demo_case\<lparr>rc_state := Case_VERIFICATION_PENDING\<rparr>)) = Some demo_tx"
    "provider_reference (executions_of demo_conflicting ''case'') demo_tx = Some ''pay_1''"
    by code_simp+
  have w: "demo_receipt ''evt_pay_1_a'' ''PAYMENT_SUCCEEDED'' \<in> set (webhooks demo_conflicting)"
    "demo_receipt ''evt_pay_1_b'' ''PAYMENT_FAILED'' \<in> set (webhooks demo_conflicting)"
    by (simp_all add: demo_conflicting_def)
  have m: "we_event_type (demo_receipt ''evt_pay_1_a'' ''PAYMENT_SUCCEEDED'') = ''PAYMENT_SUCCEEDED''"
    "we_event_type (demo_receipt ''evt_pay_1_b'' ''PAYMENT_FAILED'') = ''PAYMENT_FAILED''"
    "contains ''pay_1'' (we_external_event_id (demo_receipt ''evt_pay_1_a'' ''PAYMENT_SUCCEEDED''))"
    "contains ''pay_1'' (we_external_event_id (demo_receipt ''evt_pay_1_b'' ''PAYMENT_FAILED''))"
    by code_simp+
  have h: "re_fold (demo_gateway Exec_FAILED) = (\<lambda>x. x) \<or> re_fold (demo_gateway Exec_FAILED) = py_lower"
    by (simp add: demo_gateway_def)
  from conflicting_receipts_reported [OF run f h w(1) m(1,3) w(2) m(2,4)] run show ?thesis by blast
qed

end
