(* ===== verification/Canonical_Event.thy ===== *)
theory Canonical_Event
  imports Domain Event_Normalizer
begin

text \<open>
  From a request to a recorded receipt: the canonical event of \<open>backend/app/schemas/events.py\<close>, its
  normalisation from the ingestion and simulator requests (\<open>services/event_normalizer.py\<close>), the
  validator (\<open>services/event_validator.py\<close>), the fingerprint and deduplication
  (\<open>services/event_deduplicator.py\<close>) and the receipt log (\<open>repositories/webhook_events.py\<close>).

  An event time keeps its UTC offset (microseconds) beside the instant, because the billing period
  is read off the local date. Constructing the canonical DTO checks its field bounds and raises
  pydantic's \<open>ValidationError\<close>, a \<open>ValueError\<close>. The SHA-256 hash of the sorted JSON text is a function
  \<open>digest\<close> of the fingerprint dictionary, and \<open>model_dump\<close> is a function of the event.
\<close>

record canonical_event =
  ev_external_event_id :: string
  ev_event_type :: string
  ev_provider :: string
  ev_occurred_at :: pydatetime
  ev_utc_offset :: int
  ev_customer_reference :: string
  ev_payment_reference :: "string option"
  ev_subscription_reference :: "string option"
  ev_invoice_reference :: "string option"
  ev_checkout_session_id :: "string option"
  ev_amount_minor :: int
  ev_currency :: string
  ev_failure_code :: "string option"
  ev_failure_message :: "string option"
  ev_metadata :: payload

section \<open>Field bounds of the DTO\<close>

definition str_bounds :: "nat \<Rightarrow> nat \<Rightarrow> string \<Rightarrow> bool" where
  "str_bounds lo hi s = (lo \<le> length s \<and> length s \<le> hi)"

definition opt_bound :: "nat \<Rightarrow> string option \<Rightarrow> bool" where
  "opt_bound hi s = (case s of None \<Rightarrow> True | Some t \<Rightarrow> length t \<le> hi)"

definition iso_currency :: "string \<Rightarrow> bool" where
  "iso_currency s = (length s = 3 \<and> list_all (\<lambda>c. let n = (of_char c :: nat) in 65 \<le> n \<and> n \<le> 90) s)"

definition canonical_bounds :: "canonical_event \<Rightarrow> bool" where
  "canonical_bounds e =
     (str_bounds 1 200 (ev_external_event_id e) \<and> str_bounds 1 160 (ev_event_type e)
      \<and> str_bounds 1 64 (ev_provider e) \<and> str_bounds 1 128 (ev_customer_reference e)
      \<and> opt_bound 128 (ev_payment_reference e) \<and> opt_bound 128 (ev_subscription_reference e)
      \<and> opt_bound 128 (ev_invoice_reference e) \<and> opt_bound 128 (ev_checkout_session_id e)
      \<and> 0 \<le> ev_amount_minor e \<and> iso_currency (ev_currency e)
      \<and> opt_bound 100 (ev_failure_code e) \<and> opt_bound 500 (ev_failure_message e))"

definition mk_canonical :: "canonical_event \<Rightarrow> py_error + canonical_event" where
  "mk_canonical e = (if canonical_bounds e then Inr e else Inl (ValueError ''CanonicalEventDTO''))"

section \<open>Normalising requests\<close>

record ingest_request =
  iq_event_id :: "string option"
  iq_event_type :: string
  iq_provider :: string
  iq_occurred_at :: "(pydatetime \<times> int) option"
  iq_customer_reference :: string
  iq_payment_reference :: "string option"
  iq_subscription_reference :: "string option"
  iq_invoice_reference :: "string option"
  iq_checkout_session_id :: "string option"
  iq_amount_minor :: int
  iq_currency :: string
  iq_failure_code :: "string option"
  iq_failure_message :: "string option"
  iq_metadata :: payload

record simulate_request =
  sq_customer_id :: string
  sq_amount_minor :: int
  sq_currency :: string
  sq_failure_code :: string
  sq_failure_message :: string
  sq_metadata :: payload

text \<open>\<open>normalize_timestamp\<close> on the values a request can hold: a date-time, or nothing.\<close>

definition normalize_timestamp :: "(pydatetime \<times> int) option \<Rightarrow> pydatetime \<Rightarrow> pydatetime \<times> int" where
  "normalize_timestamp raw now =
     (case raw of None \<Rightarrow> (now, 0)
      | Some (t, off) \<Rightarrow> if is_aware t then (t, off) else (as_utc t, 0))"

definition strip_ref :: "string option \<Rightarrow> string option" where
  "strip_ref r = (if truthy r then Some (py_strip (or_empty r)) else None)"

definition normalize_canonical_request ::
  "ingest_request \<Rightarrow> uuid \<Rightarrow> pydatetime \<Rightarrow> py_error + canonical_event" where
  "normalize_canonical_request req new_id now =
     mk_canonical
       \<lparr>ev_external_event_id = (if truthy (iq_event_id req) then or_empty (iq_event_id req)
                                else ''evt_ing_'' @ take 12 (uuid_hex new_id)),
        ev_event_type = normalize_event_type (iq_event_type req),
        ev_provider = py_lower (py_strip (iq_provider req)),
        ev_occurred_at = fst (normalize_timestamp (iq_occurred_at req) now),
        ev_utc_offset = snd (normalize_timestamp (iq_occurred_at req) now),
        ev_customer_reference = py_strip (iq_customer_reference req),
        ev_payment_reference = strip_ref (iq_payment_reference req),
        ev_subscription_reference = strip_ref (iq_subscription_reference req),
        ev_invoice_reference = strip_ref (iq_invoice_reference req),
        ev_checkout_session_id = strip_ref (iq_checkout_session_id req),
        ev_amount_minor = iq_amount_minor req,
        ev_currency = py_upper (py_strip (iq_currency req)),
        ev_failure_code = (if truthy (iq_failure_code req)
                           then Some (normalize_failure_code (iq_failure_code req)) else None),
        ev_failure_message = strip_ref (iq_failure_message req),
        ev_metadata = sanitize_payload (iq_metadata req)\<rparr>"

definition normalize_simulator_request ::
  "simulate_request \<Rightarrow> uuid \<Rightarrow> uuid \<Rightarrow> pydatetime \<Rightarrow> py_error + canonical_event" where
  "normalize_simulator_request sim event_uuid payment_uuid now =
     mk_canonical
       \<lparr>ev_external_event_id = ''evt_sim_'' @ take 12 (uuid_hex event_uuid),
        ev_event_type = event_type_value Evt_PAYMENT_FAILED, ev_provider = ''synthetic'',
        ev_occurred_at = now, ev_utc_offset = 0,
        ev_customer_reference = py_strip (sq_customer_id sim),
        ev_payment_reference = Some (''txn_sim_'' @ take 10 (uuid_hex payment_uuid)),
        ev_subscription_reference = None, ev_invoice_reference = None, ev_checkout_session_id = None,
        ev_amount_minor = sq_amount_minor sim, ev_currency = py_upper (py_strip (sq_currency sim)),
        ev_failure_code = Some (normalize_failure_code (Some (sq_failure_code sim))),
        ev_failure_message = Some (py_strip (sq_failure_message sim)),
        ev_metadata = sanitize_payload (sq_metadata sim)\<rparr>"

section \<open>Validation\<close>

definition supported_event_types :: "string list" where
  "supported_event_types = map event_type_value event_type_members"

definition invalid :: "string \<Rightarrow> string \<Rightarrow> py_error + unit" where
  "invalid message field = Inl (AppError (EventValidation message (Some field)))"

definition blank :: "string \<Rightarrow> bool" where
  "blank s = (s = [] \<or> py_strip s = [])"

definition blank_opt :: "string option \<Rightarrow> bool" where
  "blank_opt s = (\<not> truthy s \<or> py_strip (or_empty s) = [])"

definition validate_payment_failed :: "canonical_event \<Rightarrow> py_error + unit" where
  "validate_payment_failed e =
     (if blank_opt (ev_payment_reference e)
        then invalid ''PAYMENT_FAILED requires a payment_reference.'' ''payment_reference''
      else if blank_opt (ev_failure_code e)
        then invalid ''PAYMENT_FAILED requires a failure_code.'' ''failure_code''
      else Inr ())"

definition validate_payment_succeeded :: "canonical_event \<Rightarrow> py_error + unit" where
  "validate_payment_succeeded e =
     (if blank_opt (ev_payment_reference e)
        then invalid ''PAYMENT_SUCCEEDED requires a payment_reference.'' ''payment_reference''
      else Inr ())"

definition validate_subscription_failed :: "canonical_event \<Rightarrow> py_error + unit" where
  "validate_subscription_failed e =
     (if \<not> truthy (ev_subscription_reference e) \<and> \<not> truthy (ev_payment_reference e)
        then invalid ''SUBSCRIPTION_PAYMENT_FAILED requires a subscription_reference or payment_reference.''
               ''subscription_reference''
      else if blank_opt (ev_failure_code e)
        then invalid ''SUBSCRIPTION_PAYMENT_FAILED requires a failure_code.'' ''failure_code''
      else Inr ())"

definition validate_checkout_abandoned :: "canonical_event \<Rightarrow> py_error + unit" where
  "validate_checkout_abandoned e =
     (if \<not> truthy (ev_checkout_session_id e) \<and> \<not> json_truthy (json_get (ev_metadata e) ''checkout_id'')
        then invalid ''CHECKOUT_ABANDONED requires a checkout_session_id.'' ''checkout_session_id''
      else Inr ())"

definition validate_invoice_overdue :: "canonical_event \<Rightarrow> py_error + unit" where
  "validate_invoice_overdue e =
     (if \<not> truthy (ev_invoice_reference e) \<and> \<not> json_truthy (json_get (ev_metadata e) ''invoice_id'')
        then invalid ''INVOICE_OVERDUE requires an invoice_reference.'' ''invoice_reference''
      else Inr ())"

definition validate_specific :: "canonical_event \<Rightarrow> py_error + unit" where
  "validate_specific e =
     (if ev_event_type e = event_type_value Evt_PAYMENT_FAILED then validate_payment_failed e
      else if ev_event_type e = event_type_value Evt_PAYMENT_SUCCEEDED then validate_payment_succeeded e
      else if ev_event_type e = event_type_value Evt_SUBSCRIPTION_PAYMENT_FAILED
        then validate_subscription_failed e
      else if ev_event_type e = event_type_value Evt_CHECKOUT_ABANDONED then validate_checkout_abandoned e
      else if ev_event_type e = event_type_value Evt_INVOICE_OVERDUE then validate_invoice_overdue e
      else Inr ())"

definition clock_skew :: int where
  "clock_skew = 15 * 60 * us_per_second"

definition validate_event :: "canonical_event \<Rightarrow> pydatetime \<Rightarrow> py_error + unit" where
  "validate_event e now =
     (if ev_event_type e \<notin> set supported_event_types
        then Inl (AppError (UnsupportedEventType (ev_event_type e)))
      else if blank (ev_external_event_id e)
        then invalid ''Event external_event_id cannot be empty.'' ''external_event_id''
      else if 200 < length (ev_external_event_id e)
        then invalid ''Event external_event_id exceeds maximum length of 200.'' ''external_event_id''
      else if blank (ev_provider e) then invalid ''Event provider cannot be empty.'' ''provider''
      else if 64 < length (ev_provider e)
        then invalid ''Event provider exceeds maximum length of 64.'' ''provider''
      else if blank (ev_customer_reference e)
        then invalid ''Customer reference cannot be empty.'' ''customer_reference''
      else if 128 < length (ev_customer_reference e)
        then invalid ''Customer reference exceeds maximum length of 128.'' ''customer_reference''
      else if ev_amount_minor e < 0
        then invalid ''Monetary amount_minor must be non-negative.'' ''amount_minor''
      else if length (ev_currency e) \<noteq> 3 \<or> ev_currency e \<noteq> py_upper (ev_currency e)
        then invalid ''Currency must be an exact 3-letter uppercase ISO code.'' ''currency''
      else if instant now + clock_skew < instant (as_utc (ev_occurred_at e))
        then invalid ''Event occurred_at cannot be in the future.'' ''occurred_at''
      else validate_specific e)"

section \<open>Fingerprint and receipts\<close>

definition fingerprint_data :: "canonical_event \<Rightarrow> payload" where
  "fingerprint_data e =
     [(''event_type'', JStr (ev_event_type e)), (''provider'', JStr (py_lower (ev_provider e))),
      (''customer_reference'', JStr (ev_customer_reference e)),
      (''payment_reference'', jopt (ev_payment_reference e)),
      (''subscription_reference'', jopt (ev_subscription_reference e)),
      (''invoice_reference'', jopt (ev_invoice_reference e)),
      (''checkout_session_id'', jopt (ev_checkout_session_id e)),
      (''amount_minor'', JInt (ev_amount_minor e)), (''currency'', JStr (py_upper (ev_currency e))),
      (''failure_code'', jopt (ev_failure_code e)), (''failure_message'', jopt (ev_failure_message e)),
      (''metadata'', JObj (ev_metadata e))]"

definition find_receipt :: "session \<Rightarrow> string \<Rightarrow> string \<Rightarrow> webhook_event option" where
  "find_receipt s prov i =
     find (\<lambda>w. we_provider w = prov \<and> we_external_event_id w = i) (webhooks s)"

record record_result =
  er_event :: webhook_event
  er_accepted :: bool
  er_duplicate :: bool
  er_reason :: string
  er_conflict :: bool

definition seen_before :: "webhook_event \<Rightarrow> string \<Rightarrow> record_result" where
  "seen_before w payload_hash =
     (let conflict = (we_payload_hash w \<noteq> payload_hash)
      in \<lparr>er_event = w, er_accepted = False, er_duplicate = True,
          er_reason = (if conflict then ''event_id_reused_with_different_payload''
                       else ''duplicate_event_suppressed''),
          er_conflict = conflict\<rparr>)"

text \<open>
  \<open>WebhookEventRepository.record\<close>. \<open>rival\<close> is a receipt another worker commits between the lookup and
  the insert, if any. The insert runs in a savepoint: when it violates a constraint the savepoint is
  rolled back and the lookup repeated.
\<close>

definition record_receipt ::
  "webhook_event \<Rightarrow> webhook_event option \<Rightarrow> session \<Rightarrow> py_error + (record_result \<times> session)" where
  "record_receipt w rival s =
     (case find_receipt s (we_provider w) (we_external_event_id w) of
        Some x \<Rightarrow> Inr (seen_before x (we_payload_hash w), s)
      | None \<Rightarrow>
          (let s1 = (case rival of None \<Rightarrow> s | Some r \<Rightarrow> s\<lparr>webhooks := webhooks s @ [r]\<rparr>)
           in case flush (s1\<lparr>webhooks := webhooks s1 @ [w]\<rparr>) of
                Inl e \<Rightarrow>
                  (case find_receipt s1 (we_provider w) (we_external_event_id w) of
                     None \<Rightarrow> Inl e
                   | Some x \<Rightarrow> Inr (seen_before x (we_payload_hash w), s1))
              | Inr t \<Rightarrow>
                  Inr (\<lparr>er_event = w, er_accepted = True, er_duplicate = False, er_reason = ''accepted'',
                        er_conflict = False\<rparr>, t)))"

definition mark_processed :: "webhook_event \<Rightarrow> session \<Rightarrow> py_error + session" where
  "mark_processed w s = flush (s\<lparr>webhooks := upd_by we_id (w\<lparr>we_processed := True\<rparr>) (webhooks s)\<rparr>)"

definition new_receipt ::
  "(payload \<Rightarrow> string) \<Rightarrow> (canonical_event \<Rightarrow> payload) \<Rightarrow> canonical_event \<Rightarrow> bool \<Rightarrow> uuid \<Rightarrow> webhook_event" where
  "new_receipt digest dump e signature_verified rid =
     \<lparr>we_id = rid, we_provider = py_lower (ev_provider e),
      we_external_event_id = ev_external_event_id e, we_event_type = ev_event_type e,
      we_payload_hash = digest (fingerprint_data e), we_signature_verified = signature_verified,
      we_processed = False, we_ingestion_status = ''ACCEPTED'', we_payload = dump e\<rparr>"

text \<open>\<open>EventDeduplicator.evaluate_and_record\<close>: a reused id with another payload is raised.\<close>

definition evaluate_and_record ::
  "(payload \<Rightarrow> string) \<Rightarrow> (canonical_event \<Rightarrow> payload) \<Rightarrow> canonical_event \<Rightarrow> bool \<Rightarrow> uuid
     \<Rightarrow> webhook_event option \<Rightarrow> session \<Rightarrow> py_error + (record_result \<times> session)" where
  "evaluate_and_record digest dump e signature_verified rid rival s =
     ebind (record_receipt (new_receipt digest dump e signature_verified rid) rival s) (\<lambda>(r, t).
       if er_conflict r
       then Inl (AppError (ConflictingDuplicateEvent (ev_external_event_id e) (ev_provider e)))
       else Inr (r, t))"

end
