(* ===== verification/Case_Scoring.thy ===== *)
theory Case_Scoring
  imports Domain
begin

text \<open>
  The two deterministic scores of a case: operational priority
  (\<open>backend/app/services/case_prioritizer.py\<close>, 1 is the most urgent) and revenue risk
  (\<open>backend/app/services/case_risk_classifier.py\<close>). The rationale texts are not kept; the recorded
  factors are. An elapsed time is compared exactly, which is what the source's division by 3600.0
  amounts to at microsecond resolution. Times are taken as UTC, as the source does for naive ones.
\<close>

section \<open>Priority\<close>

record priority_result =
  pr_priority :: int
  pr_factors :: payload

definition base_priority :: int where
  "base_priority = 100"

definition exposure_adjustment :: "int \<Rightarrow> int option" where
  "exposure_adjustment amount =
     (if amount \<ge> 500000 then Some (- 50)
      else if amount \<ge> 100000 then Some (- 25)
      else if amount \<ge> 25000 then Some (- 10)
      else if amount < 5000 then Some 15
      else None)"

definition failure_adjustment :: "string option \<Rightarrow> int option" where
  "failure_adjustment failure_code =
     (let code = norm_code failure_code
      in if code \<in> {''insufficient_funds''} then Some (- 20)
         else if code \<in> {''processing_error'', ''network_error'', ''timeout''} then Some (- 25)
         else if code \<in> {''card_expired'', ''expired_card''} then Some 15
         else if code \<in> {''authentication_required'', ''3d_secure_required''} then Some 10
         else if code \<in> {''fraud_suspected'', ''fraudulent''} then Some 50
         else if code \<in> {''do_not_honor'', ''card_declined''} then Some 10
         else None)"

definition age_adjustment :: "pydatetime option \<Rightarrow> pydatetime \<Rightarrow> int option" where
  "age_adjustment opened_at current_time =
     (case opened_at of
        None \<Rightarrow> None
      | Some t \<Rightarrow>
          (let elapsed = instant (as_utc current_time) - instant (as_utc t)
           in if elapsed \<ge> 48 * us_per_hour then Some (- 20)
              else if elapsed \<ge> 24 * us_per_hour then Some (- 10)
              else None))"

definition adj :: "int option \<Rightarrow> int" where
  "adj a = (case a of None \<Rightarrow> 0 | Some i \<Rightarrow> i)"

definition factor :: "string \<Rightarrow> int option \<Rightarrow> payload" where
  "factor k a = (case a of None \<Rightarrow> [] | Some i \<Rightarrow> [(k, JInt i)])"

definition priority_score :: "int \<Rightarrow> string option \<Rightarrow> pydatetime option \<Rightarrow> pydatetime \<Rightarrow> int" where
  "priority_score amount failure_code opened_at current_time =
     base_priority + adj (exposure_adjustment amount) + adj (failure_adjustment failure_code)
       + adj (age_adjustment opened_at current_time)"

definition calculate_priority ::
  "int \<Rightarrow> string \<Rightarrow> string option \<Rightarrow> string \<Rightarrow> pydatetime option \<Rightarrow> pydatetime \<Rightarrow> priority_result" where
  "calculate_priority amount currency failure_code event_type opened_at current_time =
     (let final = max 1 (min 1000 (priority_score amount failure_code opened_at current_time))
      in \<lparr>pr_priority = final,
          pr_factors =
            [(''base_priority'', JInt base_priority), (''amount_minor'', JInt amount),
             (''currency'', JStr currency), (''failure_code'', jopt failure_code),
             (''event_type'', JStr event_type)]
            @ factor ''exposure_adjustment'' (exposure_adjustment amount)
            @ factor ''failure_adjustment'' (failure_adjustment failure_code)
            @ factor ''age_adjustment'' (age_adjustment opened_at current_time)
            @ [(''final_priority'', JInt final)]\<rparr>)"

lemma exposure_range: "- 50 \<le> adj (exposure_adjustment a)" "adj (exposure_adjustment a) \<le> 15"
  by (simp_all add: exposure_adjustment_def adj_def)

lemma exposure_antimono: "a \<le> b \<Longrightarrow> adj (exposure_adjustment b) \<le> adj (exposure_adjustment a)"
  by (simp add: exposure_adjustment_def adj_def)

lemma failure_range: "- 25 \<le> adj (failure_adjustment c)" "adj (failure_adjustment c) \<le> 50"
  by (simp_all add: failure_adjustment_def adj_def Let_def)

lemma age_range: "- 20 \<le> adj (age_adjustment t now)" "adj (age_adjustment t now) \<le> 0"
  by (simp_all add: age_adjustment_def adj_def Let_def split: option.split)

lemma age_antimono:
  "instant t \<le> instant u \<Longrightarrow> adj (age_adjustment (Some t) now) \<le> adj (age_adjustment (Some u) now)"
  by (simp add: age_adjustment_def adj_def Let_def model_simps)

lemma priority_unclamped:
  "pr_priority (calculate_priority a cur c et t now) = priority_score a c t now"
  "5 \<le> priority_score a c t now" "priority_score a c t now \<le> 165"
  using exposure_range [of a] failure_range [of c] age_range [of t now]
  by (simp_all add: calculate_priority_def Let_def priority_score_def base_priority_def)

text \<open>A priority always lies between 5 and 165, so the clamp to 1..1000 never
  decides; and it orders the queue as intended: a larger amount or an older case, other things
  equal, is never less urgent.\<close>

theorem priority_is_ordered:
  "5 \<le> pr_priority (calculate_priority a cur c et t now)
   \<and> pr_priority (calculate_priority a cur c et t now) \<le> 165
   \<and> (a \<le> b \<longrightarrow> pr_priority (calculate_priority b cur c et t now)
                   \<le> pr_priority (calculate_priority a cur c et t now))
   \<and> (instant u \<le> instant v \<longrightarrow>
        pr_priority (calculate_priority a cur c et (Some u) now)
          \<le> pr_priority (calculate_priority a cur c et (Some v) now))"
  using exposure_antimono [of a b] age_antimono [of u v now]
  by (simp add: priority_unclamped) (simp add: priority_score_def)

lemma priority_is_ordered_witness:
  "pr_priority (calculate_priority 500000 ''INR'' None ''PAYMENT_FAILED'' None (Aware 0)) \<le>
     pr_priority (calculate_priority 4000 ''INR'' None ''PAYMENT_FAILED'' None (Aware 0))
   \<and> pr_priority (calculate_priority 4000 ''INR'' None ''PAYMENT_FAILED'' None (Aware 0)) = 115"
proof
  show "pr_priority (calculate_priority 500000 ''INR'' None ''PAYMENT_FAILED'' None (Aware 0)) \<le>
     pr_priority (calculate_priority 4000 ''INR'' None ''PAYMENT_FAILED'' None (Aware 0))"
    using priority_is_ordered [of 4000 "''INR''" None "''PAYMENT_FAILED''" None "Aware 0" 500000] by simp
  show "pr_priority (calculate_priority 4000 ''INR'' None ''PAYMENT_FAILED'' None (Aware 0)) = 115"
    by code_simp
qed

section \<open>Risk\<close>

record risk_classification =
  rk_tier :: risk_tier
  rk_factors :: payload

definition exposure_score :: "int \<Rightarrow> int \<times> int" where
  "exposure_score amount =
     (if amount \<ge> 500000 then (50, 50) else if amount \<ge> 100000 then (30, 30)
      else if amount \<ge> 25000 then (15, 15) else (0, 5))"

definition event_type_score :: "string \<Rightarrow> int \<times> int" where
  "event_type_score event_type =
     (let e = py_upper (py_strip event_type)
      in if e = ''SUBSCRIPTION_PAYMENT_FAILED'' then (25, 25)
         else if e = ''INVOICE_OVERDUE'' then (20, 20)
         else if e = ''CHECKOUT_ABANDONED'' then (15, 15) else (0, 10))"

definition fraud_codes :: "string list" where
  "fraud_codes = [''fraud_suspected'', ''fraudulent'']"

definition failure_code_score :: "string \<Rightarrow> int \<times> int" where
  "failure_code_score code =
     (if code \<in> set fraud_codes then (35, 35)
      else if code \<in> {''card_expired'', ''expired_card''} then (20, 20)
      else if code \<in> {''do_not_honor'', ''card_declined''} then (15, 15)
      else if code = ''insufficient_funds'' then (10, 10)
      else if code \<in> {''processing_error'', ''network_error'', ''timeout''} then (5, 5)
      else (0, 10))"

text \<open>The tier comes from event metadata: a truthy value that is no string has no \<open>strip\<close>.\<close>

definition customer_tier_score :: "json \<Rightarrow> py_error + int" where
  "customer_tier_score tier =
     (if \<not> json_truthy tier then Inr 0
      else (case tier of
              JStr s \<Rightarrow> Inr (if py_lower (py_strip s) \<in> {''enterprise'', ''vip'', ''tier_1''} then 20 else 0)
            | _ \<Rightarrow> Inl AttributeError))"

definition risk_tier_of :: "int \<Rightarrow> string \<Rightarrow> risk_tier" where
  "risk_tier_of score code =
     (if score \<ge> 50 \<or> code \<in> set fraud_codes then Tier_HIGH
      else if score \<ge> 25 then Tier_MEDIUM else Tier_LOW)"

text \<open>Each component is a pair: what it adds to the score and what it records as its factor.\<close>

definition classify_risk ::
  "int \<Rightarrow> string \<Rightarrow> string option \<Rightarrow> string \<Rightarrow> json \<Rightarrow> py_error + risk_classification" where
  "classify_risk amount currency failure_code event_type tier =
     ebind (customer_tier_score tier) (\<lambda>bonus.
       (let code = norm_code failure_code;
            score = fst (exposure_score amount) + fst (event_type_score event_type)
                      + fst (failure_code_score code) + bonus
        in Inr \<lparr>rk_tier = risk_tier_of score code,
                rk_factors =
                  [(''amount_minor'', JInt amount), (''currency'', JStr currency),
                   (''failure_code'', jopt failure_code), (''event_type'', JStr event_type),
                   (''customer_tier'', tier),
                   (''exposure_score'', JInt (snd (exposure_score amount))),
                   (''event_type_score'', JInt (snd (event_type_score event_type))),
                   (''failure_code_score'', JInt (snd (failure_code_score code)))]
                  @ (if bonus = 0 then [] else [(''customer_tier_score'', JInt bonus)])
                  @ [(''calculated_risk_score'', JInt score)]\<rparr>))"

text \<open>Severity order of the tiers.\<close>

primrec tier_rank :: "risk_tier \<Rightarrow> nat" where
  "tier_rank Tier_LOW = 0"
| "tier_rank Tier_MEDIUM = 1"
| "tier_rank Tier_HIGH = 2"

lemma tier_rank_inject: "tier_rank a = tier_rank b \<longleftrightarrow> a = b"
  by (cases a; cases b) simp_all

instantiation risk_tier :: linorder
begin

definition less_eq_risk_tier :: "risk_tier \<Rightarrow> risk_tier \<Rightarrow> bool" where
  "less_eq_risk_tier a b = (tier_rank a \<le> tier_rank b)"

definition less_risk_tier :: "risk_tier \<Rightarrow> risk_tier \<Rightarrow> bool" where
  "less_risk_tier a b = (tier_rank a < tier_rank b)"

instance
  by standard (auto simp: less_eq_risk_tier_def less_risk_tier_def tier_rank_inject)

end

lemma exposure_score_mono: "a \<le> b \<Longrightarrow> fst (exposure_score a) \<le> fst (exposure_score b)"
  by (simp add: exposure_score_def)

lemma risk_tier_of_mono: "x \<le> y \<Longrightarrow> risk_tier_of x code \<le> risk_tier_of y code"
  by (simp add: risk_tier_of_def less_eq_risk_tier_def)

text \<open>Suspected fraud is always high risk, a larger amount never lowers the tier, an
  amount of 500000 minor units is high risk whatever else, and the classification raises exactly
  when the event's customer tier is a truthy value other than a string.\<close>

theorem risk_tier_is_ordered:
  assumes "classify_risk a cur fc et tier = Inr x" and "classify_risk b cur fc et tier = Inr y"
  shows "(norm_code fc \<in> set fraud_codes \<longrightarrow> rk_tier x = Tier_HIGH)
         \<and> (a \<le> b \<longrightarrow> rk_tier x \<le> rk_tier y) \<and> (500000 \<le> a \<longrightarrow> rk_tier x = Tier_HIGH)
         \<and> (\<forall>other. is_ok (classify_risk a cur fc et other) \<longleftrightarrow>
                      \<not> json_truthy other \<or> (\<exists>s. other = JStr s))"
proof -
  have fraud: "rk_tier x = Tier_HIGH" if "norm_code fc \<in> set fraud_codes"
    using assms(1) that by (auto simp: classify_risk_def err_simps Let_def risk_tier_of_def)
  have mono: "rk_tier x \<le> rk_tier y" if "a \<le> b"
    using assms exposure_score_mono [OF that]
    by (auto simp: classify_risk_def err_simps Let_def intro!: risk_tier_of_mono)
  have bonus: "0 \<le> i" if "customer_tier_score tier = Inr i" for i
    using that by (auto simp: customer_tier_score_def split: if_splits json.splits)
  have nonneg: "0 \<le> fst (event_type_score et)" "0 \<le> fst (failure_code_score c)" for c
    by (simp_all add: event_type_score_def failure_code_score_def Let_def)
  have major: "rk_tier x = Tier_HIGH" if "500000 \<le> a"
  proof -
    have e: "exposure_score a = (50, 50)" using that by (simp add: exposure_score_def)
    obtain i where i: "customer_tier_score tier = Inr i" and
      x: "rk_tier x = risk_tier_of (50 + fst (event_type_score et)
            + fst (failure_code_score (norm_code fc)) + i) (norm_code fc)"
      using assms(1) e by (auto simp: classify_risk_def err_simps Let_def)
    show ?thesis
      unfolding x risk_tier_of_def using bonus [OF i] nonneg(1) nonneg(2) [of "norm_code fc"] by simp
  qed
  have raises: "is_ok (classify_risk a cur fc et other) \<longleftrightarrow> \<not> json_truthy other \<or> (\<exists>s. other = JStr s)"
    for other
    by (cases other) (auto simp: classify_risk_def customer_tier_score_def Let_def)
  from fraud mono major raises show ?thesis by blast
qed

lemma risk_tier_is_ordered_witness:
  "\<exists>x. classify_risk 600000 ''INR'' None ''PAYMENT_FAILED'' JNull = Inr x \<and> rk_tier x = Tier_HIGH"
proof -
  obtain x where x: "classify_risk 600000 ''INR'' None ''PAYMENT_FAILED'' JNull = Inr x"
    by (auto simp: classify_risk_def customer_tier_score_def Let_def)
  from risk_tier_is_ordered [OF x x] x show ?thesis by simp
qed

end
