(* ===== verification/Case_Engine.thy ===== *)
theory Case_Engine
  imports Canonical_Event Case_Scoring Case_Transitions Scenario
begin

text \<open>
  \<open>EventToCaseEngine\<close> of \<open>backend/app/services/event_to_case_engine.py\<close>: a canonical event provisions
  its customer and transaction, is matched to a case by key or trigger transaction, and resolves,
  updates or opens the case.

  What a run draws is one \<open>engine_env\<close>: the clock, the three uuids, and \<open>eg_rival\<close>, the case another
  worker commits between the lookup and the insert of a new case, if any. The rationale texts
  (\<open>priority_reason\<close>, \<open>risk_reason\<close>) and the outcome's message and details are not kept.
\<close>

record engine_env =
  eg_now :: pydatetime
  eg_customer_id :: uuid
  eg_tx_id :: uuid
  eg_case_id :: uuid
  eg_rival :: "recovery_case option"

record case_outcome =
  oc_outcome :: string
  oc_case_id :: "uuid option"
  oc_case_key :: "string option"
  oc_state :: "case_state option"
  oc_priority :: "int option"
  oc_risk_tier :: "risk_tier option"

definition engine_terminal_states :: "case_state list" where
  "engine_terminal_states = [Case_RECOVERED, Case_STOPPED, Case_CLOSED]"

definition creation_events :: "string list" where
  "creation_events = map event_type_value
     [Evt_PAYMENT_FAILED, Evt_SUBSCRIPTION_PAYMENT_FAILED, Evt_CHECKOUT_ABANDONED, Evt_INVOICE_OVERDUE]"

definition resolution_events :: "string list" where
  "resolution_events = map event_type_value [Evt_PAYMENT_SUCCEEDED]"

definition norm_event_type :: "canonical_event \<Rightarrow> string" where
  "norm_event_type e = py_upper (py_strip (ev_event_type e))"

section \<open>The case key\<close>

text \<open>\<open>strftime('%Y%m')\<close> on the local date: the proleptic Gregorian year and month of a day number
  counted from 1970-01-01, for years of four digits.\<close>

definition year_month :: "int \<Rightarrow> int \<times> int" where
  "year_month days =
     (let z = days + 719468; era = z div 146097; doe = z mod 146097;
          yoe = (doe - doe div 1460 + doe div 36524 - doe div 146096) div 365;
          doy = doe - (365 * yoe + yoe div 4 - yoe div 100);
          mp = (5 * doy + 2) div 153;
          m = (if mp < 10 then mp + 3 else mp - 9)
      in (yoe + era * 400 + (if m \<le> 2 then 1 else 0), m))"

definition billing_month :: "canonical_event \<Rightarrow> string" where
  "billing_month e =
     (let (y, m) = year_month ((instant (ev_occurred_at e) + ev_utc_offset e) div (24 * us_per_hour))
      in str_of_int y @ (if m < 10 then ''0'' else []) @ str_of_int m)"

definition derive_case_key :: "canonical_event \<Rightarrow> string" where
  "derive_case_key e =
     (if truthy (ev_subscription_reference e)
        then ''CASE-SUB-'' @ or_empty (ev_subscription_reference e) @ ''-''
             @ (if json_truthy (json_get (ev_metadata e) ''billing_period'')
                then py_str (json_get (ev_metadata e) ''billing_period'') else billing_month e)
      else if truthy (ev_invoice_reference e) then ''CASE-INV-'' @ or_empty (ev_invoice_reference e)
      else if truthy (ev_checkout_session_id e) then ''CASE-CHK-'' @ or_empty (ev_checkout_session_id e)
      else if truthy (ev_payment_reference e)
        then ''CASE-TX-'' @ ev_provider e @ ''-'' @ or_empty (ev_payment_reference e)
      else ''CASE-EVT-'' @ ev_provider e @ ''-'' @ ev_external_event_id e)"

section \<open>Customer and transaction\<close>

definition find_customer_ref :: "session \<Rightarrow> string \<Rightarrow> string \<Rightarrow> customer option" where
  "find_customer_ref s prov ref =
     find (\<lambda>c. cu_provider c = prov \<and> cu_external_id c = ref) (customers s)"

definition find_transaction_ref :: "session \<Rightarrow> string \<Rightarrow> string \<Rightarrow> transaction option" where
  "find_transaction_ref s prov ref =
     find (\<lambda>t. tx_provider t = prov \<and> tx_external_id t = ref) (transactions s)"

definition str_or_none :: "json \<Rightarrow> string option" where
  "str_or_none v = (if json_truthy v then Some (py_str v) else None)"

definition event_customer :: "canonical_event \<Rightarrow> uuid \<Rightarrow> customer" where
  "event_customer e i =
     \<lparr>cu_id = i, cu_provider = ev_provider e, cu_external_id = ev_customer_reference e,
      cu_email = str_or_none (json_or (json_get (ev_metadata e) ''customer_email'')
                                      (json_get (ev_metadata e) ''email'')),
      cu_display_name = str_or_none (json_or (json_get (ev_metadata e) ''customer_name'')
                                             (JStr (''Customer '' @ ev_customer_reference e))),
      cu_status = Cust_ACTIVE, cu_metadata = ev_metadata e\<rparr>"

definition get_or_create_customer ::
  "canonical_event \<Rightarrow> uuid \<Rightarrow> session \<Rightarrow> py_error + (customer \<times> session)" where
  "get_or_create_customer e i s =
     (case find_customer_ref s (ev_provider e) (ev_customer_reference e) of
        Some c \<Rightarrow> Inr (c, s)
      | None \<Rightarrow>
          (let c = event_customer e i
           in ebind (flush (s\<lparr>customers := customers s @ [c]\<rparr>)) (\<lambda>t. Inr (c, t))))"

definition transaction_ref :: "canonical_event \<Rightarrow> string" where
  "transaction_ref e =
     (if truthy (ev_payment_reference e) then or_empty (ev_payment_reference e)
      else if truthy (ev_invoice_reference e) then or_empty (ev_invoice_reference e)
      else if truthy (ev_checkout_session_id e) then or_empty (ev_checkout_session_id e)
      else ''tx_'' @ ev_external_event_id e)"

definition event_transaction :: "canonical_event \<Rightarrow> customer \<Rightarrow> uuid \<Rightarrow> transaction" where
  "event_transaction e c i =
     \<lparr>tx_id = i, tx_customer_id = cu_id c, tx_provider = ev_provider e,
      tx_external_id = transaction_ref e, tx_amount_minor = ev_amount_minor e,
      tx_currency = ev_currency e,
      tx_status = (if norm_event_type e \<in> set resolution_events then Tx_SUCCEEDED else Tx_FAILED),
      tx_failure_code = ev_failure_code e, tx_failure_message = ev_failure_message e,
      tx_occurred_at = ev_occurred_at e, tx_metadata = ev_metadata e\<rparr>"

definition get_or_create_transaction ::
  "canonical_event \<Rightarrow> customer \<Rightarrow> uuid \<Rightarrow> session \<Rightarrow> py_error + (transaction \<times> session)" where
  "get_or_create_transaction e c i s =
     (case find_transaction_ref s (ev_provider e) (transaction_ref e) of
        Some t \<Rightarrow> Inr (t, s)
      | None \<Rightarrow>
          (let t = event_transaction e c i
           in ebind (flush (s\<lparr>transactions := transactions s @ [t]\<rparr>)) (\<lambda>u. Inr (t, u))))"

section \<open>Resolving, updating, opening\<close>

definition ignored :: "recovery_case option \<Rightarrow> case_outcome" where
  "ignored c =
     \<lparr>oc_outcome = ''IGNORED'', oc_case_id = map_option rc_id c, oc_case_key = map_option rc_case_key c,
      oc_state = map_option rc_state c, oc_priority = None, oc_risk_tier = None\<rparr>"

definition recovered_case :: "recovery_case \<Rightarrow> pydatetime \<Rightarrow> recovery_case" where
  "recovered_case c now =
     c\<lparr>rc_state := Case_RECOVERED, rc_last_state_changed_at := now, rc_closed_at := Some now,
       rc_version := rc_version c + 1\<rparr>"

definition recovery_row :: "canonical_event \<Rightarrow> recovery_case \<Rightarrow> string \<Rightarrow> pydatetime \<Rightarrow> int \<Rightarrow> case_transition" where
  "recovery_row e c corr now n =
     \<lparr>ct_case_id = rc_id c, ct_from_state = Some (rc_state c), ct_to_state = Case_RECOVERED,
      ct_reason_code = ''PAYMENT_SUCCEEDED_VERIFIED'', ct_actor_type = Actor_PROVIDER,
      ct_correlation_id = corr, ct_occurred_at = now, ct_sequence_number = n,
      ct_metadata = [(''event_id'', JStr (ev_external_event_id e)), (''provider'', JStr (ev_provider e)),
                     (''amount_minor'', JInt (ev_amount_minor e)), (''currency'', JStr (ev_currency e))]\<rparr>"

definition handle_payment_succeeded ::
  "canonical_event \<Rightarrow> recovery_case option \<Rightarrow> transaction \<Rightarrow> string \<Rightarrow> pydatetime \<Rightarrow> session
     \<Rightarrow> py_error + (case_outcome \<times> session)" where
  "handle_payment_succeeded e existing t corr now s =
     (case existing of
        None \<Rightarrow> Inr (ignored None, s)
      | Some c \<Rightarrow>
          if rc_state c \<in> set engine_terminal_states then Inr (ignored (Some c), s)
          else
            (let s1 = put_transaction (t\<lparr>tx_status := Tx_SUCCEEDED\<rparr>) (put_case (recovered_case c now) s);
                 s2 = add_transition (recovery_row e c corr now (next_transition_seq s (rc_id c))) s1;
                 s3 = audit_record (rc_id c) ''CASE_RECOVERED'' Actor_PROVIDER corr
                        [(''source_event_id'', JStr (ev_external_event_id e)),
                         (''payment_reference'', JStr (tx_external_id t)),
                         (''recovered_amount_minor'', JInt (ev_amount_minor e)),
                         (''currency'', JStr (ev_currency e)),
                         (''from_state'', JStr (case_state_value (rc_state c))),
                         (''to_state'', JStr (case_state_value Case_RECOVERED))]
                        (Some (rc_state c)) (Some Case_RECOVERED)
                        (Some (''provider.'' @ ev_provider e)) now s2
             in ebind (flush s3) (\<lambda>u.
                  Inr (\<lparr>oc_outcome = ''CASE_RESOLVED'', oc_case_id = Some (rc_id c),
                        oc_case_key = Some (rc_case_key c), oc_state = Some Case_RECOVERED,
                        oc_priority = None, oc_risk_tier = None\<rparr>, u))))"

text \<open>\<open>meta.get('failure_count', 1) + 1\<close> on whatever the metadata holds.\<close>

definition next_failure_count :: "payload \<Rightarrow> py_error + int" where
  "next_failure_count meta =
     (case map_of meta ''failure_count'' of
        None \<Rightarrow> Inr 2
      | Some (JInt i) \<Rightarrow> Inr (i + 1)
      | Some (JBool b) \<Rightarrow> Inr (if b then 2 else 1)
      | Some _ \<Rightarrow> Inl TypeError)"

definition updated_case :: "canonical_event \<Rightarrow> recovery_case \<Rightarrow> int \<Rightarrow> pydatetime \<Rightarrow> recovery_case" where
  "updated_case e c count now =
     (let p = calculate_priority (ev_amount_minor e) (ev_currency e) (ev_failure_code e)
                (ev_event_type e) (Some (rc_opened_at c)) now
      in c\<lparr>rc_priority := pr_priority p,
           rc_metadata := dict_update (rc_metadata c)
             [(''failure_count'', JInt count),
              (''latest_failure_event_id'', JStr (ev_external_event_id e)),
              (''latest_failure_code'', jopt (ev_failure_code e)),
              (''latest_failure_message'', jopt (ev_failure_message e)),
              (''priority_factors'', JObj (pr_factors p))],
           rc_last_state_changed_at := now, rc_version := rc_version c + 1\<rparr>)"

definition handle_existing_case_update ::
  "canonical_event \<Rightarrow> recovery_case \<Rightarrow> string \<Rightarrow> pydatetime \<Rightarrow> session
     \<Rightarrow> py_error + (case_outcome \<times> session)" where
  "handle_existing_case_update e c corr now s =
     (if rc_state c \<in> set engine_terminal_states then Inr (ignored (Some c), s)
      else if map_option tx_status (find_transaction s (rc_trigger_transaction_id c)) = Some Tx_SUCCEEDED
        then Inr (ignored (Some c), s)
      else ebind (next_failure_count (rc_metadata c)) (\<lambda>count.
        (let c' = updated_case e c count now;
             s1 = audit_record (rc_id c) ''CASE_UPDATED'' Actor_SYSTEM corr
                    [(''source_event_id'', JStr (ev_external_event_id e)),
                     (''failure_count'', JInt count),
                     (''latest_failure_code'', jopt (ev_failure_code e)),
                     (''updated_priority'', JInt (rc_priority c'))]
                    (Some (rc_state c)) (Some (rc_state c)) (Some ''system.case_engine'') now (put_case c' s)
         in ebind (flush s1) (\<lambda>u.
              Inr (\<lparr>oc_outcome = ''CASE_UPDATED'', oc_case_id = Some (rc_id c),
                    oc_case_key = Some (rc_case_key c), oc_state = Some (rc_state c),
                    oc_priority = Some (rc_priority c'), oc_risk_tier = None\<rparr>, u)))))"

definition event_case ::
  "canonical_event \<Rightarrow> customer \<Rightarrow> transaction \<Rightarrow> string \<Rightarrow> priority_result \<Rightarrow> risk_classification
     \<Rightarrow> uuid \<Rightarrow> pydatetime \<Rightarrow> recovery_case" where
  "event_case e cust t key p r i now =
     \<lparr>rc_id = i, rc_customer_id = cu_id cust, rc_trigger_transaction_id = tx_id t, rc_case_key = key,
      rc_state = Case_DETECTED, rc_priority = pr_priority p, rc_opened_at = now,
      rc_last_state_changed_at = now, rc_closed_at = None, rc_version = 1,
      rc_metadata = dict_update (ev_metadata e)
        [(''source_event_id'', JStr (ev_external_event_id e)), (''provider'', JStr (ev_provider e)),
         (''event_type'', JStr (ev_event_type e)), (''failure_code'', jopt (ev_failure_code e)),
         (''failure_message'', jopt (ev_failure_message e)), (''failure_count'', JInt 1),
         (''risk_tier'', JStr (risk_tier_value (rk_tier r))), (''risk_factors'', JObj (rk_factors r)),
         (''priority_factors'', JObj (pr_factors p)), (''amount_minor'', JInt (ev_amount_minor e)),
         (''currency'', JStr (ev_currency e))]\<rparr>"

text \<open>The rows that open the history and the audit log of a case just inserted.\<close>

definition open_rows ::
  "canonical_event \<Rightarrow> recovery_case \<Rightarrow> risk_classification \<Rightarrow> string \<Rightarrow> pydatetime \<Rightarrow> session \<Rightarrow> session" where
  "open_rows e c r corr now s =
     audit_record (rc_id c) ''CASE_OPENED'' Actor_SYSTEM corr
       [(''source_event_id'', JStr (ev_external_event_id e)), (''event_type'', JStr (ev_event_type e)),
        (''amount_minor'', JInt (ev_amount_minor e)), (''currency'', JStr (ev_currency e)),
        (''case_key'', JStr (rc_case_key c)), (''initial_priority'', JInt (rc_priority c)),
        (''risk_tier'', JStr (risk_tier_value (rk_tier r)))]
       None (Some Case_DETECTED) (Some ''system.case_engine'') now
       (add_transition
         \<lparr>ct_case_id = rc_id c, ct_from_state = None, ct_to_state = Case_DETECTED,
          ct_reason_code = ''AUTOMATIC_EVENT_INGESTION'', ct_actor_type = Actor_SYSTEM,
          ct_correlation_id = corr, ct_occurred_at = now, ct_sequence_number = 1,
          ct_metadata = [(''source_event_id'', JStr (ev_external_event_id e)),
                         (''amount_minor'', JInt (ev_amount_minor e)),
                         (''currency'', JStr (ev_currency e)),
                         (''risk_tier'', JStr (risk_tier_value (rk_tier r)))]\<rparr> s)"

text \<open>The rows another worker has committed by the time of the insert.\<close>

definition with_rival :: "engine_env \<Rightarrow> session \<Rightarrow> session" where
  "with_rival env s =
     (case eg_rival env of None \<Rightarrow> s | Some x \<Rightarrow> s\<lparr>cases := cases s @ [x]\<rparr>)"

definition create_new_case ::
  "engine_env \<Rightarrow> canonical_event \<Rightarrow> customer \<Rightarrow> transaction \<Rightarrow> string \<Rightarrow> string \<Rightarrow> session
     \<Rightarrow> py_error + (case_outcome \<times> session)" where
  "create_new_case env e cust t key corr s =
     (let now = eg_now env;
          p = calculate_priority (ev_amount_minor e) (ev_currency e) (ev_failure_code e)
                (ev_event_type e) (Some now) now
      in ebind (classify_risk (ev_amount_minor e) (ev_currency e) (ev_failure_code e) (ev_event_type e)
                  (json_get (ev_metadata e) ''customer_tier'')) (\<lambda>r.
         (let c = event_case e cust t key p r (eg_case_id env) now;
              s1 = with_rival env s
          in case flush (s1\<lparr>cases := cases s1 @ [c]\<rparr>) of
               Inl err \<Rightarrow>
                 (case find_case_by_key s1 key of
                    Some x \<Rightarrow> handle_existing_case_update e x corr now s1
                  | None \<Rightarrow> Inl err)
             | Inr s2 \<Rightarrow>
                 ebind (flush (open_rows e c r corr now s2)) (\<lambda>u.
                   Inr (\<lparr>oc_outcome = ''CASE_CREATED'', oc_case_id = Some (rc_id c),
                         oc_case_key = Some key, oc_state = Some Case_DETECTED,
                         oc_priority = Some (pr_priority p), oc_risk_tier = Some (rk_tier r)\<rparr>, u)))))"

definition match_case :: "session \<Rightarrow> string \<Rightarrow> uuid \<Rightarrow> recovery_case option" where
  "match_case s key txid =
     (case find_case_by_key s key of Some c \<Rightarrow> Some c | None \<Rightarrow> find_case_by_trigger s txid)"

definition process_event ::
  "engine_env \<Rightarrow> canonical_event \<Rightarrow> string \<Rightarrow> session \<Rightarrow> py_error + (case_outcome \<times> session)" where
  "process_event env e corr s =
     (let creation = norm_event_type e \<in> set creation_events;
          resolution = norm_event_type e \<in> set resolution_events
      in if \<not> creation \<and> \<not> resolution then Inr (ignored None, s)
         else
           ebind (get_or_create_customer e (eg_customer_id env) s) (\<lambda>(cust, s1).
           ebind (get_or_create_transaction e cust (eg_tx_id env) s1) (\<lambda>(t, s2).
             (let key = derive_case_key e; existing = match_case s2 key (tx_id t)
              in if resolution then handle_payment_succeeded e existing t corr (eg_now env) s2
                 else
                   (case existing of
                      Some c \<Rightarrow> handle_existing_case_update e c corr (eg_now env) s2
                    | None \<Rightarrow> create_new_case env e cust t key corr s2)))))"

section \<open>What the provisioning steps keep\<close>

text \<open>The tables a step leaves alone.\<close>

definition same_cases :: "session \<Rightarrow> session \<Rightarrow> bool" where
  "same_cases s t \<longleftrightarrow>
     cases t = cases s \<and> webhooks t = webhooks s \<and> audit_rows t = audit_rows s
     \<and> transition_rows t = transition_rows s"

lemma same_cases_simps:
  assumes "same_cases s t"
  shows "find_case t i = find_case s i" "audit_seqs t i = audit_seqs s i"
    "transition_seqs t i = transition_seqs s i" "webhooks t = webhooks s" "cases t = cases s"
    "logs_in_step t i = logs_in_step s i"
  using assms by (simp_all add: same_cases_def find_case_def audit_seqs_def transition_seqs_def logs_in_step_def)

lemma same_cases_trans: "same_cases s t \<Longrightarrow> same_cases t u \<Longrightarrow> same_cases s u"
  by (simp add: same_cases_def)

lemma customer_facts:
  assumes "get_or_create_customer e i s = Inr (c, t)" and "session_ok s"
  shows "session_ok t" "same_cases s t" "transactions t = transactions s"
  using assms
  by (auto simp: get_or_create_customer_def Let_def err_simps flush_ok same_cases_def session_ok_def
      violated_None_iff split: option.splits)

lemma transaction_facts:
  assumes "get_or_create_transaction e c i s = Inr (x, t)" and "session_ok s"
  shows "session_ok t" "same_cases s t" "x \<in> set (transactions t)"
    "\<And>y. y \<in> set (transactions s) \<Longrightarrow> y \<in> set (transactions t)"
  using assms
  by (auto simp: get_or_create_transaction_def Let_def err_simps flush_ok same_cases_def session_ok_def
      violated_None_iff find_transaction_ref_def split: option.splits dest: find_SomeD)

lemma match_case_in: "match_case s key i = Some c \<Longrightarrow> c \<in> set (cases s)"
  by (auto simp: match_case_def find_case_by_key_def find_case_by_trigger_def split: option.splits
      dest: find_SomeD)

section \<open>What each branch writes\<close>

lemma ignored_simps [simp]: "oc_outcome (ignored c) = ''IGNORED''"
  by (simp add: ignored_def)

lemma recovered_case_simps [simp]:
  "rc_id (recovered_case c now) = rc_id c" "rc_case_key (recovered_case c now) = rc_case_key c"
  "rc_state (recovered_case c now) = Case_RECOVERED" "rc_version (recovered_case c now) = rc_version c + 1"
  by (simp_all add: recovered_case_def)

lemma updated_case_simps [simp]:
  "rc_id (updated_case e c n now) = rc_id c" "rc_case_key (updated_case e c n now) = rc_case_key c"
  "rc_state (updated_case e c n now) = rc_state c" "rc_version (updated_case e c n now) = rc_version c + 1"
  by (simp_all add: updated_case_def Let_def)

lemma audit_record_simps [simp]:
  "cases (audit_record cid et ac corr pl f to_s ai now s) = cases s"
  "transactions (audit_record cid et ac corr pl f to_s ai now s) = transactions s"
  "webhooks (audit_record cid et ac corr pl f to_s ai now s) = webhooks s"
  "transition_rows (audit_record cid et ac corr pl f to_s ai now s) = transition_rows s"
  "transition_pending (audit_record cid et ac corr pl f to_s ai now s) = transition_pending s"
  "audit_rows (audit_record cid et ac corr pl f to_s ai now s) = audit_rows s"
  by (simp_all add: audit_record_def add_audit_def)

lemma add_transition_simps [simp]:
  "cases (add_transition x s) = cases s" "transactions (add_transition x s) = transactions s"
  "webhooks (add_transition x s) = webhooks s" "audit_rows (add_transition x s) = audit_rows s"
  "transition_rows (add_transition x s) = transition_rows s"
  by (simp_all add: add_transition_def)

lemma succeeded_facts:
  assumes "handle_payment_succeeded e existing x corr now s = Inr (out, u)" and "session_ok s"
  shows "(u = s \<and> oc_outcome out = ''IGNORED'')
     \<or> (\<exists>c. existing = Some c \<and> rc_state c \<notin> set engine_terminal_states \<and> session_ok u
          \<and> oc_outcome out = ''CASE_RESOLVED'' \<and> oc_case_id out = Some (rc_id c) \<and> webhooks u = webhooks s
          \<and> cases u = upd_by rc_id (recovered_case c now) (cases s)
          \<and> transactions u = upd_by tx_id (x\<lparr>tx_status := Tx_SUCCEEDED\<rparr>) (transactions s))"
  using assms
  by (auto simp: handle_payment_succeeded_def Let_def err_simps flush_ok put_case_def put_transaction_def
      split: option.splits if_splits intro: session_ok_flushed)

lemma update_facts:
  assumes "handle_existing_case_update e c corr now s = Inr (out, u)" and "session_ok s"
  shows "(u = s \<and> oc_outcome out = ''IGNORED'')
     \<or> (\<exists>n. rc_state c \<notin> set engine_terminal_states \<and> session_ok u
          \<and> oc_outcome out = ''CASE_UPDATED'' \<and> oc_case_id out = Some (rc_id c) \<and> webhooks u = webhooks s
          \<and> cases u = upd_by rc_id (updated_case e c n now) (cases s)
          \<and> transactions u = transactions s
          \<and> audit_seqs u (rc_id c) = audit_seqs s (rc_id c) @ [next_audit_seq s (rc_id c)]
          \<and> transition_rows u = transition_rows s)"
proof (cases "u = s \<and> oc_outcome out = ''IGNORED''")
  case False
  with assms(1) obtain n s1 where act: "rc_state c \<notin> set engine_terminal_states"
    and s1: "s1 = audit_record (rc_id c) ''CASE_UPDATED'' Actor_SYSTEM corr
               [(''source_event_id'', JStr (ev_external_event_id e)), (''failure_count'', JInt n),
                (''latest_failure_code'', jopt (ev_failure_code e)),
                (''updated_priority'', JInt (rc_priority (updated_case e c n now)))]
               (Some (rc_state c)) (Some (rc_state c)) (Some ''system.case_engine'') now
               (put_case (updated_case e c n now) s)"
    and f: "flush s1 = Inr u"
    and out: "oc_outcome out = ''CASE_UPDATED''" "oc_case_id out = Some (rc_id c)"
    by (auto simp: handle_existing_case_update_def Let_def err_simps split: if_splits)
  have "session_ok u" by (rule flush_session_ok [OF f])
  moreover have "u = flushed s1" using f by (simp add: flush_ok)
  ultimately show ?thesis
    using act out assms(2) s1
    by (auto simp: put_case_def audit_seqs_def audit_record_def add_audit_def session_ok_def next_audit_seq_def)
qed simp

lemma with_rival_simps [simp]:
  "webhooks (with_rival env s) = webhooks s" "transactions (with_rival env s) = transactions s"
  "audit_rows (with_rival env s) = audit_rows s" "transition_rows (with_rival env s) = transition_rows s"
  "audit_pending (with_rival env s) = audit_pending s"
  "transition_pending (with_rival env s) = transition_pending s"
  by (simp_all add: with_rival_def split: option.split)

text \<open>The rival's commit kept the constraints, so the case table is still unique.\<close>

definition rival_ok :: "engine_env \<Rightarrow> session \<Rightarrow> bool" where
  "rival_ok env s \<longleftrightarrow> case_unique (cases (with_rival env s))"

lemma session_ok_with_rival: "session_ok s \<Longrightarrow> rival_ok env s \<Longrightarrow> session_ok (with_rival env s)"
  by (auto simp: session_ok_iff rival_ok_def with_rival_def split: option.splits)

lemma rival_ok_same: "same_cases s t \<Longrightarrow> rival_ok env t = rival_ok env s"
  by (simp add: rival_ok_def with_rival_def same_cases_def split: option.split)

lemma create_facts:
  assumes "create_new_case env e cust x key corr s = Inr (out, u)" and "session_ok s"
  shows "(\<exists>c. oc_outcome out = ''CASE_CREATED'' \<and> oc_case_id out = Some (rc_id c) \<and> session_ok u
            \<and> cases u = cases (with_rival env s) @ [c] \<and> rc_state c = Case_DETECTED
            \<and> rc_id c = eg_case_id env \<and> rc_case_key c = key
            \<and> rc_trigger_transaction_id c = tx_id x \<and> webhooks u = webhooks s
            \<and> transactions u = transactions s)
     \<or> (\<exists>c. find_case_by_key (with_rival env s) key = Some c
            \<and> handle_existing_case_update e c corr (eg_now env) (with_rival env s) = Inr (out, u))"
proof -
  let ?p = "calculate_priority (ev_amount_minor e) (ev_currency e) (ev_failure_code e)
              (ev_event_type e) (Some (eg_now env)) (eg_now env)"
  obtain r where r: "classify_risk (ev_amount_minor e) (ev_currency e) (ev_failure_code e)
      (ev_event_type e) (json_get (ev_metadata e) ''customer_tier'') = Inr r"
    using assms(1) by (auto simp: create_new_case_def Let_def err_simps)
  let ?c = "event_case e cust x key ?p r (eg_case_id env) (eg_now env)"
  let ?s1 = "with_rival env s"
  show ?thesis
  proof (cases "flush (?s1\<lparr>cases := cases ?s1 @ [?c]\<rparr>)")
    case (Inl err)
    then show ?thesis
      using assms(1) r by (auto simp: create_new_case_def Let_def split: option.splits)
  next
    case (Inr s2)
    then have f: "flush (open_rows e ?c r corr (eg_now env) s2) = Inr u"
      and out: "oc_outcome out = ''CASE_CREATED''" "oc_case_id out = Some (rc_id ?c)"
      using assms(1) r by (auto simp: create_new_case_def Let_def err_simps)
    have "session_ok u" by (rule flush_session_ok [OF f])
    moreover have "cases u = cases ?s1 @ [?c]" "webhooks u = webhooks s" "transactions u = transactions s"
      using f Inr by (auto simp: flush_ok open_rows_def)
    ultimately show ?thesis using out by (auto simp: event_case_def)
  qed
qed

section \<open>One event\<close>

lemma process_event_cases:
  assumes "process_event env e corr s = Inr (out, u)" and "session_ok s" and "rival_ok env s"
  obtains (skipped) "u = s" "oc_outcome out = ''IGNORED''"
  | (acted) cust s1 x s2 where "session_ok s2" "same_cases s s2" "rival_ok env s2"
      "get_or_create_customer e (eg_customer_id env) s = Inr (cust, s1)"
      "get_or_create_transaction e cust (eg_tx_id env) s1 = Inr (x, s2)" "x \<in> set (transactions s2)"
      "(norm_event_type e \<in> set resolution_events
         \<and> handle_payment_succeeded e (match_case s2 (derive_case_key e) (tx_id x)) x corr (eg_now env) s2
             = Inr (out, u))
       \<or> (norm_event_type e \<in> set creation_events
         \<and> (case match_case s2 (derive_case_key e) (tx_id x) of
              Some c \<Rightarrow> handle_existing_case_update e c corr (eg_now env) s2
            | None \<Rightarrow> create_new_case env e cust x (derive_case_key e) corr s2) = Inr (out, u))"
proof (cases "norm_event_type e \<notin> set creation_events \<and> norm_event_type e \<notin> set resolution_events")
  case True
  then show thesis using assms(1) by (intro skipped) (auto simp: process_event_def)
next
  case False
  obtain cust s1 x s2 where c: "get_or_create_customer e (eg_customer_id env) s = Inr (cust, s1)"
    and t: "get_or_create_transaction e cust (eg_tx_id env) s1 = Inr (x, s2)"
    and rest: "(if norm_event_type e \<in> set resolution_events
         then handle_payment_succeeded e (match_case s2 (derive_case_key e) (tx_id x)) x corr (eg_now env) s2
         else (case match_case s2 (derive_case_key e) (tx_id x) of
                 Some c \<Rightarrow> handle_existing_case_update e c corr (eg_now env) s2
               | None \<Rightarrow> create_new_case env e cust x (derive_case_key e) corr s2)) = Inr (out, u)"
    using assms(1) False by (auto simp: process_event_def Let_def err_simps)
  have same: "same_cases s s2"
    using customer_facts(2) [OF c assms(2)] transaction_facts(2) [OF t customer_facts(1) [OF c assms(2)]]
    by (rule same_cases_trans)
  show thesis
  proof (rule acted [OF _ same _ c t])
    show "session_ok s2" "x \<in> set (transactions s2)"
      using transaction_facts(1,3) [OF t customer_facts(1) [OF c assms(2)]] by simp_all
    show "rival_ok env s2" using rival_ok_same [OF same] assms(3) by simp
  qed (use rest False in \<open>auto split: if_splits\<close>)
qed

section \<open>Properties\<close>

text \<open>What one event may do to a stored case.\<close>

definition event_step :: "string \<Rightarrow> recovery_case \<Rightarrow> recovery_case \<Rightarrow> bool" where
  "event_step etype c c' \<longleftrightarrow>
     c' = c
     \<or> rc_state c \<notin> set engine_terminal_states \<and> rc_version c' = rc_version c + 1
       \<and> (rc_state c' = rc_state c \<and> etype \<in> set creation_events
          \<or> rc_state c' = Case_RECOVERED \<and> etype \<in> set resolution_events)"

definition cases_step :: "string \<Rightarrow> session \<Rightarrow> session \<Rightarrow> bool" where
  "cases_step etype s u \<longleftrightarrow>
     (\<forall>i c. find_case s i = Some c \<longrightarrow> (\<exists>c'. find_case u i = Some c' \<and> event_step etype c c'))"

lemma cases_step_refl: "cases u = cases s \<Longrightarrow> cases_step etype s u"
  by (auto simp: cases_step_def event_step_def find_case_def)

lemma cases_step_append:
  "cases_step etype s t \<Longrightarrow> cases u = cases t @ ys \<Longrightarrow> cases_step etype s u"
  by (fastforce simp: cases_step_def find_case_def intro: find_append_Some)

lemma cases_step_upd:
  assumes "session_ok t" and "c \<in> set (cases t)" and "event_step etype c c'" and "rc_id c' = rc_id c"
    and "cases u = upd_by rc_id c' (cases t)" and "\<And>i x. find_case s i = Some x \<Longrightarrow> find_case t i = Some x"
  shows "cases_step etype s u"
  unfolding cases_step_def
proof (intro allI impI)
  fix i x
  assume "find_case s i = Some x"
  then have x: "find_case t i = Some x" by (rule assms(6))
  have c: "find_case t (rc_id c) = Some c" by (rule find_case_mem [OF assms(1,2)])
  show "\<exists>c'. find_case u i = Some c' \<and> event_step etype x c'"
  proof (cases "i = rc_id c")
    case True
    then have "find_case u i = Some c'"
      using assms(4,5) c find_upd_by_same [of rc_id c' "cases t"] by (simp add: find_case_def)
    with True x c assms(3) show ?thesis by auto
  next
    case False
    then have "find_case u i = Some x"
      using assms(4,5) x find_upd_by_other [of i rc_id c' "cases t"] by (simp add: find_case_def)
    then show ?thesis by (auto simp: event_step_def)
  qed
qed

lemma find_case_with_rival: "find_case s i = Some x \<Longrightarrow> find_case (with_rival env s) i = Some x"
  by (auto simp: find_case_def with_rival_def intro: find_append_Some split: option.split)

lemma update_step:
  assumes "handle_existing_case_update e c corr now t = Inr (out, u)" and "session_ok t"
    and "c \<in> set (cases t)" and "norm_event_type e \<in> set creation_events"
    and s: "\<And>i x. find_case s i = Some x \<Longrightarrow> find_case t i = Some x"
  shows "session_ok u \<and> webhooks u = webhooks t \<and> cases_step (norm_event_type e) s u"
  using update_facts [OF assms(1,2)]
proof (elim disjE exE conjE)
  assume "u = t"
  then show ?thesis using assms(2) s by (force simp: cases_step_def event_step_def)
next
  fix n
  assume act: "rc_state c \<notin> set engine_terminal_states" and "session_ok u" "webhooks u = webhooks t"
    and cu: "cases u = upd_by rc_id (updated_case e c n now) (cases t)"
  have "cases_step (norm_event_type e) s u"
    by (rule cases_step_upd [OF assms(2,3) _ _ cu s]) (use act assms(4) in \<open>auto simp: event_step_def\<close>)
  with \<open>session_ok u\<close> \<open>webhooks u = webhooks t\<close> show ?thesis by simp
qed

lemma process_event_step:
  assumes "process_event env e corr s = Inr (out, u)" and "session_ok s" and "rival_ok env s"
  shows "session_ok u \<and> webhooks u = webhooks s \<and> cases_step (norm_event_type e) s u"
  using assms
proof (cases rule: process_event_cases)
  case skipped
  then show ?thesis using assms(2) by (simp add: cases_step_refl)
next
  case (acted cust s1 x s2)
  note same = same_cases_simps [OF acted(2)]
  let ?m = "match_case s2 (derive_case_key e) (tx_id x)"
  from acted(7) consider
      (ok) "norm_event_type e \<in> set resolution_events"
        "handle_payment_succeeded e ?m x corr (eg_now env) s2 = Inr (out, u)"
    | (old) c where "norm_event_type e \<in> set creation_events" "?m = Some c"
        "handle_existing_case_update e c corr (eg_now env) s2 = Inr (out, u)"
    | (fresh) "norm_event_type e \<in> set creation_events"
        "create_new_case env e cust x (derive_case_key e) corr s2 = Inr (out, u)"
    by (auto split: option.splits)
  then show ?thesis
  proof cases
    case ok
    from succeeded_facts [OF ok(2) acted(1)] show ?thesis
    proof (elim disjE exE conjE)
      assume "u = s2"
      then show ?thesis using acted(1) same by (simp add: cases_step_refl)
    next
      fix c
      assume m: "?m = Some c" and act: "rc_state c \<notin> set engine_terminal_states" and u: "session_ok u"
        "webhooks u = webhooks s2" and cu: "cases u = upd_by rc_id (recovered_case c (eg_now env)) (cases s2)"
      have "cases_step (norm_event_type e) s u"
        by (rule cases_step_upd [OF acted(1) match_case_in [OF m] _ _ cu])
          (use act ok(1) same in \<open>auto simp: event_step_def\<close>)
      with u same show ?thesis by simp
    qed
  next
    case old
    from update_step [OF old(3) acted(1) match_case_in [OF old(2)] old(1), of s] same
    show ?thesis by simp
  next
    case fresh
    from create_facts [OF fresh(2) acted(1)] show ?thesis
    proof (elim disjE exE conjE)
      fix c
      assume cu: "cases u = cases (with_rival env s2) @ [c]" and u: "session_ok u" "webhooks u = webhooks s2"
      have "cases_step (norm_event_type e) s (with_rival env s2)"
        using find_case_with_rival [of s2 _ _ env] same by (auto simp: cases_step_def event_step_def)
      from cases_step_append [OF this cu] u same show ?thesis by simp
    next
      fix c
      assume f: "find_case_by_key (with_rival env s2) (derive_case_key e) = Some c"
        and h: "handle_existing_case_update e c corr (eg_now env) (with_rival env s2) = Inr (out, u)"
      have "c \<in> set (cases (with_rival env s2))"
        using f by (auto simp: find_case_by_key_def dest: find_SomeD)
      from update_step [OF h session_ok_with_rival [OF acted(1,3)] this fresh(1), of s]
      show ?thesis using same find_case_with_rival [of s2 _ _ env] by simp
    qed
  qed
qed

text \<open>C25: Whatever event arrives, and whatever case a rival worker commits in
  between, a run of the engine that returns keeps the constraints (so at most one case per key) and
  keeps every stored case: a recovered, stopped or closed one is left exactly as it was, any other
  keeps its state or, on a payment-succeeded event only, becomes recovered, with its version
  increased by one.\<close>

theorem events_respect_terminal_cases:
  assumes "process_event env e corr s = Inr (out, u)" and "session_ok s" and "rival_ok env s"
    and "find_case s i = Some c"
  shows "\<exists>c'. find_case u i = Some c' \<and> event_step (norm_event_type e) c c' \<and> session_ok u
              \<and> length (filter (\<lambda>x. rc_case_key x = k) (cases u)) \<le> 1"
proof -
  have ok: "session_ok u" and step: "cases_step (norm_event_type e) s u"
    using process_event_step [OF assms(1-3)] by simp_all
  have "length (filter (\<lambda>x. rc_case_key x = k) (cases u)) \<le> 1"
    using ok by (intro distinct_key_once) (simp add: session_ok_iff case_unique_def)
  with ok step assms(4) show ?thesis by (auto simp: cases_step_def)
qed

text \<open>A success event: the case and the transaction it writes.\<close>

text \<open>A run that answers CASE_RESOLVED handled a payment-succeeded event: the case
  it names was active and is now recovered, and the transaction of the event's own reference is
  succeeded. No other transaction changes: when the event's reference is not that of the case's
  trigger transaction, the trigger keeps its failed status although the case is recovered.\<close>

theorem success_event_effect:
  assumes "process_event env e corr s = Inr (out, u)" and "session_ok s" and "rival_ok env s"
    and "oc_outcome out = ''CASE_RESOLVED''"
  shows "norm_event_type e \<in> set resolution_events
         \<and> (\<exists>c c' x. oc_case_id out = Some (rc_id c) \<and> find_case s (rc_id c) = Some c
              \<and> rc_state c \<notin> set engine_terminal_states
              \<and> find_case u (rc_id c) = Some c' \<and> rc_state c' = Case_RECOVERED
              \<and> tx_provider x = ev_provider e \<and> tx_external_id x = transaction_ref e
              \<and> tx_status x = Tx_SUCCEEDED \<and> find_transaction u (tx_id x) = Some x
              \<and> (\<forall>y. find_transaction s (rc_trigger_transaction_id c) = Some y
                     \<and> tx_external_id y \<noteq> transaction_ref e \<longrightarrow>
                     find_transaction u (rc_trigger_transaction_id c) = Some y))"
  using assms(1-3)
proof (cases rule: process_event_cases)
  case skipped
  then show ?thesis using assms(4) by simp
next
  case (acted cust s1 x s2)
  note same = same_cases_simps [OF acted(2)]
  let ?m = "match_case s2 (derive_case_key e) (tx_id x)"
  have upd: "oc_outcome out \<noteq> ''CASE_RESOLVED''"
    if "handle_existing_case_update e c corr (eg_now env) t = Inr (out, u)" "session_ok t" for c t
    using update_facts [OF that] by auto
  have new: "oc_outcome out \<noteq> ''CASE_RESOLVED''"
    if "create_new_case env e cust x (derive_case_key e) corr s2 = Inr (out, u)"
    using create_facts [OF that acted(1)] upd [OF _ session_ok_with_rival [OF acted(1,3)]] by auto
  have res: "norm_event_type e \<in> set resolution_events"
    and h: "handle_payment_succeeded e ?m x corr (eg_now env) s2 = Inr (out, u)"
    using acted(7) assms(4) upd [OF _ acted(1)] new by (auto split: option.splits)
  from succeeded_facts [OF h acted(1)] assms(4) obtain c where m: "?m = Some c"
    and act: "rc_state c \<notin> set engine_terminal_states" and out: "oc_case_id out = Some (rc_id c)"
    and cu: "cases u = upd_by rc_id (recovered_case c (eg_now env)) (cases s2)"
    and tu: "transactions u = upd_by tx_id (x\<lparr>tx_status := Tx_SUCCEEDED\<rparr>) (transactions s2)"
    by auto
  let ?x = "x\<lparr>tx_status := Tx_SUCCEEDED\<rparr>"
  have c: "find_case s2 (rc_id c) = Some c" by (rule find_case_mem [OF acted(1) match_case_in [OF m]])
  have c': "find_case u (rc_id c) = Some (recovered_case c (eg_now env))"
    using c cu find_upd_by_same [of rc_id "recovered_case c (eg_now env)" "cases s2"]
    by (simp add: find_case_def)
  have ref: "tx_provider x = ev_provider e \<and> tx_external_id x = transaction_ref e"
    using acted(5) by (auto simp: get_or_create_transaction_def Let_def err_simps event_transaction_def
        find_transaction_ref_def split: option.splits dest: find_SomeD)
  have x: "find_transaction s2 (tx_id x) = Some x" by (rule find_transaction_mem [OF acted(1,6)])
  have x': "find_transaction u (tx_id ?x) = Some ?x"
    using x tu find_upd_by_same [of tx_id ?x "transactions s2"] by (simp add: find_transaction_def)
  have trigger: "find_transaction u (rc_trigger_transaction_id c) = Some y"
    if "find_transaction s (rc_trigger_transaction_id c) = Some y" "tx_external_id y \<noteq> transaction_ref e" for y
  proof -
    have y: "y \<in> set (transactions s)" "tx_id y = rc_trigger_transaction_id c"
      using that(1) by (auto simp: find_transaction_def dest: find_SomeD)
    have "y \<in> set (transactions s2)"
      using transaction_facts(4) [OF acted(5) customer_facts(1) [OF acted(4) assms(2)]]
        customer_facts(3) [OF acted(4) assms(2)] y(1) by simp
    then have y2: "find_transaction s2 (tx_id y) = Some y" by (rule find_transaction_mem [OF acted(1)])
    with x ref that(2) have "tx_id y \<noteq> tx_id x" by auto
    then show ?thesis
      using y2 y(2) tu find_upd_by_other [of "tx_id y" tx_id ?x "transactions s2"]
      by (simp add: find_transaction_def)
  qed
  show ?thesis
    using res out c c' act ref x' trigger same
    by (intro conjI exI [of _ c] exI [of _ "recovered_case c (eg_now env)"] exI [of _ ?x]) auto
qed

text \<open>A second failure event for a case whose history and audit log
  were numbered in step adds an audit row but no transition, and from then on every move of the
  case that the table allows raises IntegrityError in the transition service, which numbers its
  audit row by the history.\<close>

theorem repeated_failure_blocks_transitions:
  assumes "process_event env e corr s = Inr (out, u)" and "session_ok s" and "eg_rival env = None"
    and "oc_outcome out = ''CASE_UPDATED''" and "oc_case_id out = Some cid" and "logs_in_step s cid"
    and "find_case u cid = Some c" and "st \<in> set (allowed_transitions (rc_state c))"
  shows "transition_case c st reason actor aid k i now u = Inl (IntegrityError ''uq_audit_case_sequence'')"
proof -
  have rival: "rival_ok env s" "\<And>t. with_rival env t = t"
    using assms(2,3) by (simp_all add: rival_ok_def with_rival_def session_ok_iff)
  obtain s2 c0 where s2: "session_ok s2" "same_cases s s2"
    and h: "handle_existing_case_update e c0 corr (eg_now env) s2 = Inr (out, u)"
    using assms(1,2) rival(1)
  proof (cases rule: process_event_cases)
    case skipped
    then show ?thesis using assms(4) by simp
  next
    case (acted cust s1 x s2)
    have "\<not> handle_payment_succeeded e m x corr (eg_now env) s2 = Inr (out, u)" for m
      using succeeded_facts [of e m x corr "eg_now env" s2 out u] acted(1) assms(4) by auto
    then show ?thesis
      using acted create_facts [of env e cust x "derive_case_key e" corr s2 out u] assms(4) rival(2)
      by (auto split: option.splits intro: that)
  qed
  from update_facts [OF h s2(1)] assms(4,5) have ok: "session_ok u" and id: "rc_id c0 = cid"
    and audit: "audit_seqs u cid = audit_seqs s2 cid @ [next_audit_seq s2 cid]"
    and rows: "transition_rows u = transition_rows s2"
    by auto
  have step: "logs_in_step s2 cid" using same_cases_simps(6) [OF s2(2)] assms(6) by simp
  then have n: "next_audit_seq s2 cid = next_transition_seq s2 cid"
    by (simp add: logs_in_step_def next_audit_seq_def next_transition_seq_def)
  have seq: "next_transition_seq u cid = next_transition_seq s2 cid"
    using rows by (simp add: next_transition_seq_def transition_seqs_def)
  have cid: "rc_id c = cid" using assms(7) by (simp add: find_case_id)
  let ?k = "if truthy k then or_empty k else i"
  have "violated (transition_writes c st reason actor aid ?k now u) = Some ''uq_audit_case_sequence''"
    using transition_writes_violated [of u c st reason actor aid ?k now] ok assms(7) cid audit n seq
    by simp
  then show ?thesis
    using assms(8) by (simp add: transition_case_def Let_def transition_writes_def flush_def)
qed

section \<open>Opening a case succeeds\<close>

lemma flush_add_customer:
  assumes "session_ok s" and "find_customer_ref s (cu_provider c) (cu_external_id c) = None"
    and "cu_id c \<notin> cu_id ` set (customers s)"
  shows "flush (s\<lparr>customers := customers s @ [c]\<rparr>) = Inr (s\<lparr>customers := customers s @ [c]\<rparr>)"
  using assms
  by (force simp: flush_ok session_ok_def violated_None_iff flushed_def customer_unique_def
      find_customer_ref_def find_None_iff image_iff)

lemma flush_add_transaction:
  assumes "session_ok s" and "find_transaction_ref s (tx_provider t) (tx_external_id t) = None"
    and "tx_id t \<notin> tx_id ` set (transactions s)"
  shows "flush (s\<lparr>transactions := transactions s @ [t]\<rparr>) = Inr (s\<lparr>transactions := transactions s @ [t]\<rparr>)"
  using assms
  by (force simp: flush_ok session_ok_def violated_None_iff flushed_def transaction_unique_def
      find_transaction_ref_def find_None_iff image_iff)

lemma flush_add_case:
  assumes "session_ok s" and "find_case_by_key s (rc_case_key c) = None"
    and "rc_id c \<notin> rc_id ` set (cases s)"
  shows "flush (s\<lparr>cases := cases s @ [c]\<rparr>) = Inr (s\<lparr>cases := cases s @ [c]\<rparr>)"
  using assms
  by (force simp: flush_ok session_ok_def violated_None_iff flushed_def case_unique_def
      find_case_by_key_def find_None_iff image_iff)

lemma get_customer_returns:
  assumes "session_ok s" and "i \<notin> cu_id ` set (customers s)"
  obtains c t where "get_or_create_customer e i s = Inr (c, t)"
  using assms flush_add_customer [of s "event_customer e i"]
  by (cases "find_customer_ref s (ev_provider e) (ev_customer_reference e)")
    (auto simp: get_or_create_customer_def Let_def event_customer_def)

lemma get_transaction_returns:
  assumes "session_ok s" and "i \<notin> tx_id ` set (transactions s)"
  obtains x t where "get_or_create_transaction e c i s = Inr (x, t)"
  using assms flush_add_transaction [of s "event_transaction e c i"]
  by (cases "find_transaction_ref s (ev_provider e) (transaction_ref e)")
    (auto simp: get_or_create_transaction_def Let_def event_transaction_def)

text \<open>No row of either log belongs to a case id that is still to be drawn.\<close>

definition unused_case_id :: "session \<Rightarrow> uuid \<Rightarrow> bool" where
  "unused_case_id s i \<longleftrightarrow> i \<notin> rc_id ` set (cases s) \<and> audit_seqs s i = [] \<and> transition_seqs s i = []"

lemma open_rows_flush:
  assumes "session_ok s" and "audit_seqs s (rc_id c) = []" and "transition_seqs s (rc_id c) = []"
  obtains u where "flush (open_rows e c r corr now s) = Inr u" "cases u = cases s"
    "audit_seqs u (rc_id c) = [1]" "transition_seqs u (rc_id c) = [1]" "session_ok u"
proof -
  let ?u = "open_rows e c r corr now s"
  have "violated ?u = None"
    unfolding open_rows_def
    by (intro violated_audit_record violated_add_transition)
      (use assms in \<open>simp_all add: session_ok_def next_transition_seq_def add_transition_def\<close>)
  then have f: "flush ?u = Inr (flushed ?u)" by (simp add: flush_ok)
  show thesis
  proof (rule that [OF f])
    show "session_ok (flushed ?u)" by (rule flush_session_ok [OF f])
    show "cases (flushed ?u) = cases s" by (simp add: open_rows_def)
    show "audit_seqs (flushed ?u) (rc_id c) = [1]" "transition_seqs (flushed ?u) (rc_id c) = [1]"
      using assms
      by (simp_all add: open_rows_def audit_record_def add_audit_def add_transition_def audit_seqs_def
          transition_seqs_def session_ok_def next_audit_seq_def)
  qed
qed

lemma create_new_case_returns:
  assumes "session_ok s" and "eg_rival env = None" and "find_case_by_key s key = None"
    and "unused_case_id s (eg_case_id env)"
    and "\<not> json_truthy (json_get (ev_metadata e) ''customer_tier'')
         \<or> (\<exists>v. json_get (ev_metadata e) ''customer_tier'' = JStr v)"
  obtains out u c where "create_new_case env e cust x key corr s = Inr (out, u)"
    "oc_outcome out = ''CASE_CREATED''" "cases u = cases s @ [c]" "rc_id c = eg_case_id env"
    "rc_state c = Case_DETECTED" "rc_case_key c = key" "rc_priority c \<le> 165" "5 \<le> rc_priority c"
    "audit_seqs u (rc_id c) = [1]" "transition_seqs u (rc_id c) = [1]" "session_ok u"
proof -
  let ?p = "calculate_priority (ev_amount_minor e) (ev_currency e) (ev_failure_code e)
              (ev_event_type e) (Some (eg_now env)) (eg_now env)"
  have "\<exists>b. customer_tier_score (json_get (ev_metadata e) ''customer_tier'') = Inr b"
    using assms(5) by (auto simp: customer_tier_score_def)
  then obtain r where r: "classify_risk (ev_amount_minor e) (ev_currency e) (ev_failure_code e)
      (ev_event_type e) (json_get (ev_metadata e) ''customer_tier'') = Inr r"
    by (auto simp: classify_risk_def Let_def)
  let ?c = "event_case e cust x key ?p r (eg_case_id env) (eg_now env)"
  let ?s = "s\<lparr>cases := cases s @ [?c]\<rparr>"
  have c: "rc_id ?c = eg_case_id env" "rc_case_key ?c = key" "rc_state ?c = Case_DETECTED"
    "rc_priority ?c = pr_priority ?p"
    by (simp_all add: event_case_def)
  have f: "flush ?s = Inr ?s"
    by (rule flush_add_case) (use assms c in \<open>simp_all add: unused_case_id_def\<close>)
  have unused: "audit_seqs ?s (rc_id ?c) = []" "transition_seqs ?s (rc_id ?c) = []"
    using assms(4) c(1) by (simp_all add: unused_case_id_def audit_seqs_def transition_seqs_def)
  obtain u where u: "flush (open_rows e ?c r corr (eg_now env) ?s) = Inr u" "cases u = cases ?s"
    "audit_seqs u (rc_id ?c) = [1]" "transition_seqs u (rc_id ?c) = [1]" "session_ok u"
    using open_rows_flush [OF flush_session_ok [OF f] unused] .
  have n: "with_rival env s = s" using assms(2) by (simp add: with_rival_def)
  show thesis
  proof (rule that)
    show "create_new_case env e cust x key corr s =
        Inr (\<lparr>oc_outcome = ''CASE_CREATED'', oc_case_id = Some (rc_id ?c), oc_case_key = Some key,
              oc_state = Some Case_DETECTED, oc_priority = Some (pr_priority ?p),
              oc_risk_tier = Some (rk_tier r)\<rparr>, u)"
      unfolding create_new_case_def Let_def r n ebind.simps f sum.case u(1) by (rule refl)
    show "cases u = cases s @ [?c]" using u(2) by simp
  qed (use c u priority_unclamped in simp_all)
qed


section \<open>Witnesses\<close>

definition demo_event :: canonical_event where
  "demo_event =
     \<lparr>ev_external_event_id = ''evt_1'', ev_event_type = ''PAYMENT_FAILED'', ev_provider = ''razorpay'',
      ev_occurred_at = Aware 5, ev_utc_offset = 0, ev_customer_reference = ''c1'',
      ev_payment_reference = Some ''pay_1'', ev_subscription_reference = None,
      ev_invoice_reference = None, ev_checkout_session_id = None, ev_amount_minor = 5000,
      ev_currency = ''INR'', ev_failure_code = Some ''insufficient_funds'', ev_failure_message = None,
      ev_metadata = []\<rparr>"

definition demo_success :: canonical_event where
  "demo_success = demo_event\<lparr>ev_external_event_id := ''evt_2'', ev_event_type := ''PAYMENT_SUCCEEDED''\<rparr>"

definition demo_engine :: engine_env where
  "demo_engine = \<lparr>eg_now = demo_now, eg_customer_id = ''cust1'', eg_tx_id = ''tx1'',
                  eg_case_id = ''case1'', eg_rival = None\<rparr>"

definition run_event :: "canonical_event \<Rightarrow> session \<Rightarrow> session" where
  "run_event e s = (case process_event demo_engine e ''k'' s of Inl _ \<Rightarrow> s | Inr (_, u) \<Rightarrow> u)"

definition demo_opened_session :: session where
  "demo_opened_session = run_event demo_event empty_session"

lemma empty_session_ok: "session_ok empty_session"
  unfolding session_ok_def by code_simp

lemma demo_rival_ok: "rival_ok demo_engine empty_session" "rival_ok demo_engine demo_opened_session"
  by code_simp+

lemma demo_opened_ok: "session_ok demo_opened_session"
  unfolding session_ok_def by code_simp


lemma events_respect_terminal_cases_witness:
  "\<exists>out u c'. process_event demo_engine demo_success ''k'' demo_opened_session = Inr (out, u)
     \<and> find_case u ''case1'' = Some c' \<and> session_ok u"
proof -
  have "is_ok (process_event demo_engine demo_success ''k'' demo_opened_session)"
    "find_case demo_opened_session ''case1'' \<noteq> None"
    by code_simp+
  then obtain out u c where run: "process_event demo_engine demo_success ''k'' demo_opened_session = Inr (out, u)"
    and c: "find_case demo_opened_session ''case1'' = Some c" by auto
  from events_respect_terminal_cases [OF run demo_opened_ok demo_rival_ok(2) c, of "[]"] run
  show ?thesis by blast
qed

lemma success_event_effect_witness:
  "\<exists>out u c'. process_event demo_engine demo_success ''k'' demo_opened_session = Inr (out, u)
     \<and> oc_outcome out = ''CASE_RESOLVED'' \<and> find_case u ''case1'' = Some c' \<and> rc_state c' = Case_RECOVERED"
proof -
  have "(case process_event demo_engine demo_success ''k'' demo_opened_session of
           Inl _ \<Rightarrow> False | Inr (out, _) \<Rightarrow> oc_outcome out = ''CASE_RESOLVED'' \<and> oc_case_id out = Some ''case1'')"
    by code_simp
  then obtain out u where run: "process_event demo_engine demo_success ''k'' demo_opened_session = Inr (out, u)"
    and out: "oc_outcome out = ''CASE_RESOLVED''" "oc_case_id out = Some ''case1''"
    by (auto split: sum.splits)
  from success_event_effect [OF run demo_opened_ok demo_rival_ok(2) out(1)] out run show ?thesis by auto
qed

lemma repeated_failure_blocks_transitions_witness:
  "\<exists>out u c. process_event demo_engine demo_event ''k'' demo_opened_session = Inr (out, u)
     \<and> find_case u ''case1'' = Some c
     \<and> transition_case c Case_CONTEXT_READY ''r'' Actor_SYSTEM None None ''u'' (Aware 1) u
         = Inl (IntegrityError ''uq_audit_case_sequence'')"
proof -
  have "(case process_event demo_engine demo_event ''k'' demo_opened_session of
           Inl _ \<Rightarrow> False
         | Inr (out, u) \<Rightarrow> oc_outcome out = ''CASE_UPDATED'' \<and> oc_case_id out = Some ''case1''
             \<and> map_option rc_state (find_case u ''case1'') = Some Case_DETECTED)"
    by code_simp
  then obtain out u c where run: "process_event demo_engine demo_event ''k'' demo_opened_session = Inr (out, u)"
    and out: "oc_outcome out = ''CASE_UPDATED''" "oc_case_id out = Some ''case1''"
    and c: "find_case u ''case1'' = Some c" "rc_state c = Case_DETECTED"
    by (auto split: sum.splits)
  have "eg_rival demo_engine = None" by (simp add: demo_engine_def)
  moreover have "logs_in_step demo_opened_session ''case1''" by code_simp
  ultimately show ?thesis
    using repeated_failure_blocks_transitions [OF run demo_opened_ok _ out _ c(1)] c run by simp
qed

end
