(* ===== verification/Event_Ingestion.thy ===== *)
theory Event_Ingestion
  imports Case_Engine
begin

text \<open>
  \<open>EventService\<close> of \<open>backend/app/services/event_service.py\<close>: normalise, validate, deduplicate, hand a
  new event to the case engine, mark its receipt and commit. The canonical, the simulator and the
  raw-webhook entry (Raw_Webhook) share the pipeline \<open>ingest\<close> and differ in the normalisation.

  \<open>ingest_env\<close> holds what a request draws: the engine's environment, the receipt's uuid, a receipt a
  rival worker commits in between, the payload hash and pydantic's \<open>model_dump\<close>.
\<close>

record ingest_env =
  ig_engine :: engine_env
  ig_receipt_id :: uuid
  ig_rival :: "webhook_event option"
  ig_digest :: "payload \<Rightarrow> string"
  ig_dump :: "canonical_event \<Rightarrow> payload"

record ingest_response =
  in_accepted :: bool
  in_duplicate :: bool
  in_event_id :: uuid
  in_external_event_id :: string
  in_event_type :: string
  in_status :: string
  in_reason :: string
  in_correlation_id :: string
  in_occurred_at :: pydatetime
  in_case_id :: "uuid option"
  in_case_key :: "string option"

definition ingest_reply ::
  "canonical_event \<Rightarrow> record_result \<Rightarrow> string \<Rightarrow> string \<Rightarrow> uuid option \<Rightarrow> string option \<Rightarrow> ingest_response" where
  "ingest_reply e r status corr cid key =
     \<lparr>in_accepted = True, in_duplicate = er_duplicate r, in_event_id = we_id (er_event r),
      in_external_event_id = ev_external_event_id e, in_event_type = ev_event_type e,
      in_status = status, in_reason = er_reason r, in_correlation_id = corr,
      in_occurred_at = ev_occurred_at e, in_case_id = cid,
      in_case_key = (if truthy key then key else None)\<rparr>"

definition ingest ::
  "ingest_env \<Rightarrow> canonical_event \<Rightarrow> bool \<Rightarrow> (record_result \<Rightarrow> string) \<Rightarrow> string \<Rightarrow> session
     \<Rightarrow> py_error + (ingest_response \<times> session)" where
  "ingest env e signature_verified status corr s =
     ebind (validate_event e (eg_now (ig_engine env))) (\<lambda>_.
     ebind (evaluate_and_record (ig_digest env) (ig_dump env) e signature_verified (ig_receipt_id env)
              (ig_rival env) s) (\<lambda>(r, s1).
       if er_duplicate r
       then ebind (commit s1) (\<lambda>t. Inr (ingest_reply e r (status r) corr None None, t))
       else ebind (process_event (ig_engine env) e corr s1) (\<lambda>(out, s2).
            ebind (mark_processed (er_event r) s2) (\<lambda>s3.
            ebind (commit s3) (\<lambda>t.
              Inr (ingest_reply e r (status r) corr (oc_case_id out) (oc_case_key out), t))))))"

definition final_status :: "record_result \<Rightarrow> string" where
  "final_status r = (if er_duplicate r then ''DUPLICATE'' else ''ACCEPTED'')"

definition correlation :: "string option \<Rightarrow> uuid \<Rightarrow> string" where
  "correlation given fresh =
     (if truthy given then or_empty given else ''corr_'' @ take 12 (uuid_hex fresh))"

definition ingest_canonical_event ::
  "ingest_env \<Rightarrow> ingest_request \<Rightarrow> uuid \<Rightarrow> uuid \<Rightarrow> bool \<Rightarrow> string option \<Rightarrow> session
     \<Rightarrow> py_error + (ingest_response \<times> session)" where
  "ingest_canonical_event env req event_uuid corr_uuid signature_verified correlation_id s =
     ebind (normalize_canonical_request req event_uuid (eg_now (ig_engine env))) (\<lambda>e.
       ingest env e signature_verified final_status (correlation correlation_id corr_uuid) s)"

definition simulate_failure_event ::
  "ingest_env \<Rightarrow> simulate_request \<Rightarrow> uuid \<Rightarrow> uuid \<Rightarrow> uuid \<Rightarrow> string option \<Rightarrow> session
     \<Rightarrow> py_error + (ingest_response \<times> session)" where
  "simulate_failure_event env req event_uuid payment_uuid corr_uuid correlation_id s =
     ebind (normalize_simulator_request req event_uuid payment_uuid (eg_now (ig_engine env))) (\<lambda>e.
       ingest env e True (\<lambda>_. ''ACCEPTED'') (correlation correlation_id corr_uuid) s)"

text \<open>\<open>parsed\<close> is the uuid the text denotes, when it denotes one.\<close>

definition get_event_by_id :: "string \<Rightarrow> uuid option \<Rightarrow> session \<Rightarrow> py_error + webhook_event" where
  "get_event_by_id raw parsed s =
     (case (case parsed of Some i \<Rightarrow> find (\<lambda>w. we_id w = i) (webhooks s)
                         | None \<Rightarrow> find (\<lambda>w. we_external_event_id w = raw) (webhooks s)) of
        None \<Rightarrow> Inl (AppError (EntityNotFound ''ProviderWebhookEvent'' raw))
      | Some w \<Rightarrow> Inr w)"

section \<open>The receipt log\<close>

definition receipt_rival_ok :: "webhook_event option \<Rightarrow> session \<Rightarrow> bool" where
  "receipt_rival_ok rival s \<longleftrightarrow>
     (case rival of None \<Rightarrow> True | Some r \<Rightarrow> webhook_unique (webhooks s @ [r]))"

lemma seen_before_simps [simp]:
  "er_event (seen_before x h) = x" "er_duplicate (seen_before x h)"
  "er_conflict (seen_before x h) = (we_payload_hash x \<noteq> h)"
  by (simp_all add: seen_before_def Let_def)

lemma record_receipt_facts:
  assumes "record_receipt w rival s = Inr (r, t)" and "session_ok s" and "receipt_rival_ok rival s"
  shows "session_ok t" "cases t = cases s"
    "find_receipt t (we_provider w) (we_external_event_id w) = Some (er_event r)"
    "er_conflict r \<longleftrightarrow> we_payload_hash (er_event r) \<noteq> we_payload_hash w"
proof -
  let ?s1 = "case rival of None \<Rightarrow> s | Some x \<Rightarrow> s\<lparr>webhooks := webhooks s @ [x]\<rparr>"
  have s1: "session_ok ?s1" "cases ?s1 = cases s"
    using assms(2,3) by (auto simp: session_ok_iff receipt_rival_ok_def split: option.split)
  have "session_ok t \<and> cases t = cases s
      \<and> find_receipt t (we_provider w) (we_external_event_id w) = Some (er_event r)
      \<and> (er_conflict r \<longleftrightarrow> we_payload_hash (er_event r) \<noteq> we_payload_hash w)"
  proof (cases "find_receipt s (we_provider w) (we_external_event_id w)")
    case (Some x)
    then show ?thesis using assms(1,2) by (auto simp: record_receipt_def)
  next
    case None
    show ?thesis
    proof (cases "flush (?s1\<lparr>webhooks := webhooks ?s1 @ [w]\<rparr>)")
      case (Inl err)
      then show ?thesis using assms(1) None s1 by (auto simp: record_receipt_def Let_def split: option.splits)
    next
      case (Inr u)
      then have tu: "t = u" "er_event r = w" "\<not> er_conflict r"
        using assms(1) None by (auto simp: record_receipt_def Let_def)
      have u: "session_ok u" by (rule flush_session_ok [OF Inr])
      have ws: "webhooks u = webhooks ?s1 @ [w]" and cu: "cases u = cases s"
        using Inr s1(2) by (auto simp: flush_ok)
      have "distinct (map webhook_key (webhooks u))" using u by (simp add: session_ok_iff webhook_unique_def)
      then have "find_receipt u (we_provider w) (we_external_event_id w) = Some w"
        unfolding find_receipt_def ws by (intro find_snoc) (force simp: ws find_None_iff image_iff)+
      then show ?thesis using tu u cu by simp
    qed
  qed
  then show "session_ok t" "cases t = cases s"
    "find_receipt t (we_provider w) (we_external_event_id w) = Some (er_event r)"
    "er_conflict r \<longleftrightarrow> we_payload_hash (er_event r) \<noteq> we_payload_hash w" by simp_all
qed

lemma record_receipt_new:
  "record_receipt w rival s = Inr (r, t) \<Longrightarrow> \<not> er_duplicate r \<Longrightarrow> er_event r = w"
  by (auto simp: record_receipt_def Let_def split: option.splits sum.splits)

lemma find_map_pres:
  "(\<And>y. y \<in> set xs \<Longrightarrow> P (f y) = P y) \<Longrightarrow> find P (map f xs) = map_option f (find P xs)"
  by (induction xs) auto

lemma mark_processed_facts:
  assumes "mark_processed w s = Inr t" and "session_ok s" and "find_receipt s p i = Some w"
  shows "session_ok t" "find_receipt t p i = Some (w\<lparr>we_processed := True\<rparr>)"
proof -
  show "session_ok t" using assms(1) by (auto simp: mark_processed_def intro: flush_session_ok)
  have w: "w \<in> set (webhooks s)" using assms(3) by (auto simp: find_receipt_def dest: find_SomeD)
  have same: "y = w" if "y \<in> set (webhooks s)" "we_id y = we_id w" for y
    using assms(2) that w by (auto simp: session_ok_iff webhook_unique_def distinct_map inj_on_def)
  have "webhooks t = upd_by we_id (w\<lparr>we_processed := True\<rparr>) (webhooks s)"
    using assms(1) by (auto simp: mark_processed_def flush_ok)
  moreover have "find (\<lambda>y. we_provider y = p \<and> we_external_event_id y = i)
      (upd_by we_id (w\<lparr>we_processed := True\<rparr>) (webhooks s)) =
      map_option (\<lambda>y. if we_id y = we_id w then w\<lparr>we_processed := True\<rparr> else y)
        (find (\<lambda>y. we_provider y = p \<and> we_external_event_id y = i) (webhooks s))"
    unfolding upd_by_def by (subst find_map_pres) (use same in auto)
  ultimately show "find_receipt t p i = Some (w\<lparr>we_processed := True\<rparr>)"
    using assms(3) by (simp add: find_receipt_def)
qed

lemma ingest_receipt:
  assumes "ingest env e sig st corr s = Inr (resp, t)" and "session_ok s"
    and "receipt_rival_ok (ig_rival env) s" and "rival_ok (ig_engine env) s"
  obtains w where "session_ok t"
    "find_receipt t (py_lower (ev_provider e)) (ev_external_event_id e) = Some w"
    "we_payload_hash w = ig_digest env (fingerprint_data e)" "in_event_id resp = we_id w"
    "\<not> in_duplicate resp \<longrightarrow> we_signature_verified w = sig"
    "validate_event e (eg_now (ig_engine env)) = Inr ()"
proof -
  let ?w = "new_receipt (ig_digest env) (ig_dump env) e sig (ig_receipt_id env)"
  have v: "validate_event e (eg_now (ig_engine env)) = Inr ()"
    using assms(1) by (auto simp: ingest_def err_simps)
  obtain r s1 where r: "record_receipt ?w (ig_rival env) s = Inr (r, s1)" and nc: "\<not> er_conflict r"
    and rest: "(if er_duplicate r
       then ebind (commit s1) (\<lambda>t. Inr (ingest_reply e r (st r) corr None None, t))
       else ebind (process_event (ig_engine env) e corr s1) (\<lambda>(out, s2).
            ebind (mark_processed (er_event r) s2) (\<lambda>s3.
            ebind (commit s3) (\<lambda>t.
              Inr (ingest_reply e r (st r) corr (oc_case_id out) (oc_case_key out), t))))) = Inr (resp, t)"
    using assms(1) by (auto simp: ingest_def evaluate_and_record_def err_simps split: if_splits)
  have k: "we_provider ?w = py_lower (ev_provider e)" "we_external_event_id ?w = ev_external_event_id e"
    "we_payload_hash ?w = ig_digest env (fingerprint_data e)"
    by (simp_all add: new_receipt_def)
  note facts = record_receipt_facts [OF r assms(2,3), unfolded k]
  have hash: "we_payload_hash (er_event r) = ig_digest env (fingerprint_data e)"
    using facts(4) nc by simp
  show thesis
  proof (cases "er_duplicate r")
    case True
    then have "t = s1" "in_event_id resp = we_id (er_event r)"
      using rest flush_idle [OF facts(1)] by (auto simp: commit_def ingest_reply_def)
    moreover have "in_duplicate resp" using rest True by (auto simp: err_simps ingest_reply_def)
    ultimately show thesis using facts hash v by (intro that [of "er_event r"]) simp_all
  next
    case False
    then obtain out s2 s3 where p: "process_event (ig_engine env) e corr s1 = Inr (out, s2)"
      and m: "mark_processed (er_event r) s2 = Inr s3" and c: "commit s3 = Inr t"
      and resp: "in_event_id resp = we_id (er_event r)"
      using rest by (auto simp: err_simps ingest_reply_def)
    have "rival_ok (ig_engine env) s1"
      using assms(4) facts(2) by (simp add: rival_ok_def with_rival_def split: option.splits)
    from process_event_step [OF p facts(1) this] have s2: "session_ok s2" "webhooks s2 = webhooks s1"
      by simp_all
    have "find_receipt s2 (py_lower (ev_provider e)) (ev_external_event_id e) = Some (er_event r)"
      using facts(3) s2(2) by (simp add: find_receipt_def)
    note marked = mark_processed_facts [OF m s2(1) this]
    have "t = s3" using c flush_idle [OF marked(1)] by (simp add: commit_def)
    moreover have "we_signature_verified (er_event r) = sig"
      using record_receipt_new [OF r False] by (simp add: new_receipt_def)
    ultimately show thesis
      using marked hash resp v by (intro that [of "er_event r\<lparr>we_processed := True\<rparr>"]) simp_all
  qed
qed

text \<open>C26: Once an event was ingested, its provider and id stand for its payload: the
  same payload sent again is answered as a duplicate of the same receipt, with no case, and leaves
  the database exactly as it is; another payload under the id is refused as a conflict. What a
  rival worker inserted in between does not matter.\<close>

theorem event_id_binds_payload:
  assumes "ingest env e sig st corr s = Inr (resp, t)" and "session_ok s"
    and "receipt_rival_ok (ig_rival env) s" and "rival_ok (ig_engine env) s"
    and "validate_event e2 (eg_now (ig_engine env2)) = Inr ()"
    and "py_lower (ev_provider e2) = py_lower (ev_provider e)"
    and "ev_external_event_id e2 = ev_external_event_id e"
    and "ig_digest env2 = ig_digest env"
  shows "(ig_digest env (fingerprint_data e2) = ig_digest env (fingerprint_data e) \<longrightarrow>
            (\<exists>again. ingest env2 e2 sig2 st2 corr2 t = Inr (again, t) \<and> in_duplicate again
                \<and> in_event_id again = in_event_id resp \<and> in_case_id again = None))
         \<and> (ig_digest env (fingerprint_data e2) \<noteq> ig_digest env (fingerprint_data e) \<longrightarrow>
              ingest env2 e2 sig2 st2 corr2 t =
                Inl (AppError (ConflictingDuplicateEvent (ev_external_event_id e2) (ev_provider e2))))"
proof -
  obtain w where t: "session_ok t"
    and w: "find_receipt t (py_lower (ev_provider e)) (ev_external_event_id e) = Some w"
      "we_payload_hash w = ig_digest env (fingerprint_data e)" "in_event_id resp = we_id w"
    using ingest_receipt [OF assms(1-4)] .
  have "record_receipt (new_receipt (ig_digest env2) (ig_dump env2) e2 sig2 (ig_receipt_id env2))
      (ig_rival env2) t = Inr (seen_before w (ig_digest env (fingerprint_data e2)), t)"
    using w(1) assms(6-8) by (simp add: record_receipt_def new_receipt_def)
  then show ?thesis
    using assms(5) w flush_idle [OF t]
    by (simp add: ingest_def evaluate_and_record_def commit_def ingest_reply_def)
qed

definition demo_digest :: "payload \<Rightarrow> string" where
  "demo_digest d = (if json_get d ''amount_minor'' = JInt 1 then ''h1'' else ''h2'')"

definition demo_ingest :: ingest_env where
  "demo_ingest =
     \<lparr>ig_engine = demo_engine, ig_receipt_id = ''rec1'', ig_rival = None,
      ig_digest = demo_digest, ig_dump = (\<lambda>_. [])\<rparr>"

definition demo_new_receipt :: webhook_event where
  "demo_new_receipt = new_receipt (ig_digest demo_ingest) (ig_dump demo_ingest) demo_event True ''rec1''"

definition demo_received :: session where
  "demo_received = empty_session\<lparr>webhooks := [demo_new_receipt]\<rparr>"

lemma demo_received_ok: "session_ok demo_received" "rival_ok demo_engine demo_received"
  unfolding session_ok_def by code_simp+

lemma demo_record_receipt:
  "record_receipt demo_new_receipt None empty_session =
     Inr (\<lparr>er_event = demo_new_receipt, er_accepted = True, er_duplicate = False,
           er_reason = ''accepted'', er_conflict = False\<rparr>, demo_received)"
  using flush_idle [OF demo_received_ok(1)]
  by (simp add: record_receipt_def find_receipt_def empty_session_def demo_received_def)

lemma demo_ingest_ok: "is_ok (ingest demo_ingest demo_event True final_status ''k'' empty_session)"
proof -
  have "is_ok (process_event demo_engine demo_event ''k'' demo_received)" by code_simp
  then obtain out s2 where p: "process_event demo_engine demo_event ''k'' demo_received = Inr (out, s2)"
    by auto
  from process_event_step [OF p demo_received_ok]
  have s2: "session_ok s2" "webhooks s2 = [demo_new_receipt]" by (simp_all add: demo_received_def)
  then have s3: "session_ok (s2\<lparr>webhooks := [demo_new_receipt\<lparr>we_processed := True\<rparr>]\<rparr>)"
    by (simp add: session_ok_iff webhook_unique_def)
  have "validate_event demo_event demo_now = Inr ()" by code_simp
  then show ?thesis
    using demo_record_receipt p s2(2) flush_idle [OF s3]
    by (simp add: ingest_def evaluate_and_record_def demo_ingest_def demo_engine_def demo_new_receipt_def
        mark_processed_def commit_def upd_by_def)
qed

lemma event_id_binds_payload_witness:
  "\<exists>resp t again. ingest demo_ingest demo_event True final_status ''k'' empty_session = Inr (resp, t)
     \<and> ingest demo_ingest demo_event True final_status ''k'' t = Inr (again, t) \<and> in_duplicate again
     \<and> ingest demo_ingest (demo_event\<lparr>ev_amount_minor := 1\<rparr>) True final_status ''k'' t =
         Inl (AppError (ConflictingDuplicateEvent ''evt_1'' ''razorpay''))"
proof -
  have "is_ok (ingest demo_ingest demo_event True final_status ''k'' empty_session)"
    by (rule demo_ingest_ok)
  then obtain resp t where run: "ingest demo_ingest demo_event True final_status ''k'' empty_session = Inr (resp, t)"
    by auto
  have rivals: "receipt_rival_ok (ig_rival demo_ingest) empty_session"
    "rival_ok (ig_engine demo_ingest) empty_session"
    by code_simp+
  have v: "validate_event demo_event (eg_now (ig_engine demo_ingest)) = Inr ()"
    "validate_event (demo_event\<lparr>ev_amount_minor := 1\<rparr>) (eg_now (ig_engine demo_ingest)) = Inr ()"
    by code_simp+
  have d: "ig_digest demo_ingest (fingerprint_data (demo_event\<lparr>ev_amount_minor := 1\<rparr>))
      \<noteq> ig_digest demo_ingest (fingerprint_data demo_event)"
    by code_simp
  from event_id_binds_payload [OF run empty_session_ok rivals v(1) refl refl refl]
  obtain again where a: "ingest demo_ingest demo_event True final_status ''k'' t = Inr (again, t)"
    "in_duplicate again" by blast
  have "ingest demo_ingest (demo_event\<lparr>ev_amount_minor := 1\<rparr>) True final_status ''k'' t =
      Inl (AppError (ConflictingDuplicateEvent ''evt_1'' ''razorpay''))"
    using event_id_binds_payload [OF run empty_session_ok rivals v(2) _ _ refl] d
    by (simp add: demo_event_def)
  with run a show ?thesis by blast
qed

end
