(* ===== verification/Receipt_Log.thy ===== *)
theory Receipt_Log
  imports Canonical_Event
begin

text \<open>
  The interface both receipt logs of the program keep, and its interpretation on the database table
  behind \<open>WebhookEventRepository.record\<close> (\<open>record_receipt\<close>, without a rival worker). The in-process
  ledger of \<open>Outcome_Verification\<close> is the other one.
\<close>

section \<open>The promise of a receipt log\<close>

text \<open>
  \<open>submit i pl s\<close> answers the reason and the new log, or \<open>None\<close> when it raised; \<open>lookup\<close> is the hash
  recorded for an id. \<open>submits\<close> is a sequence of submissions, with the reasons answered.
\<close>

fun submits ::
  "(string \<Rightarrow> string \<Rightarrow> 's \<Rightarrow> (string \<times> 's) option) \<Rightarrow> (string \<times> string) list \<Rightarrow> 's
     \<Rightarrow> (string list \<times> 's) option" where
  "submits submit [] s = Some ([], s)"
| "submits submit ((i, h) # rest) s =
     Option.bind (submit i h s) (\<lambda>(r, t). map_option (\<lambda>(rs, u). (r # rs, u)) (submits submit rest t))"

locale receipt_log =
  fixes inv :: "'s \<Rightarrow> bool"
    and lookup :: "'s \<Rightarrow> string \<Rightarrow> string option"
    and digest :: "string \<Rightarrow> string"
    and submit :: "string \<Rightarrow> string \<Rightarrow> 's \<Rightarrow> (string \<times> 's) option"
  assumes submit_new: "inv s \<Longrightarrow> lookup s i = None \<Longrightarrow> submit i pl s = Some (r, t) \<Longrightarrow>
      r = ''accepted'' \<and> inv t \<and> lookup t i = Some (digest pl) \<and> (\<forall>j. j \<noteq> i \<longrightarrow> lookup t j = lookup s j)"
    and submit_known: "inv s \<Longrightarrow> lookup s i = Some h' \<Longrightarrow>
      submit i pl s = Some (if h' \<noteq> digest pl then ''event_id_reused_with_different_payload''
                           else ''duplicate_event_suppressed'', s)"
begin

lemma submit_keeps:
  assumes "inv s" and "submit i h s = Some (r, t)"
  shows "inv t"
proof (cases "lookup s i")
  case None
  with assms submit_new show ?thesis by blast
next
  case (Some h')
  with submit_known [OF assms(1) Some, of h] assms show ?thesis by simp
qed

text \<open>The first payload of an id stays, and later ones are answered by comparison with it.\<close>

lemma recorded_stays:
  "inv s \<Longrightarrow> submits submit xs s = Some (rs, u) \<Longrightarrow> lookup s i = Some h \<Longrightarrow>
     lookup u i = Some h \<and> (\<forall>k < length xs. fst (xs ! k) = i \<longrightarrow> rs ! k \<noteq> ''accepted'')"
proof (induction xs arbitrary: s rs)
  case (Cons x xs)
  obtain j g where x: "x = (j, g)" by (cases x)
  with Cons.prems obtain r t rs' where st: "submit j g s = Some (r, t)" "submits submit xs t = Some (rs', u)"
    and rs: "rs = r # rs'"
    by (auto simp: bind_eq_Some_conv)
  have t: "lookup t i = Some h \<and> (j = i \<longrightarrow> r \<noteq> ''accepted'')"
  proof (cases "lookup s j")
    case None
    with submit_new [OF Cons.prems(1) None st(1)] Cons.prems(3) show ?thesis by (cases "j = i") simp_all
  next
    case (Some g')
    with submit_known [OF Cons.prems(1) Some, of g] st(1) Cons.prems(3) show ?thesis
      by (cases "g' = digest g") auto
  qed
  from Cons.IH [OF submit_keeps [OF Cons.prems(1) st(1)] st(2)] t
  have "lookup u i = Some h" "\<forall>k < length xs. fst (xs ! k) = i \<longrightarrow> rs' ! k \<noteq> ''accepted''" by auto
  with t x rs show ?case by (auto simp: nth_Cons split: nat.split)
qed simp

lemma first_wins:
  assumes "inv s" and "submits submit ((i, h) # xs) s = Some (rs, u)" and "lookup s i = None"
  shows "rs ! 0 = ''accepted'' \<and> lookup u i = Some (digest h)
    \<and> (\<forall>k < length xs. fst (xs ! k) = i \<longrightarrow> rs ! Suc k \<noteq> ''accepted'')"
proof -
  obtain r t rs' where st: "submit i h s = Some (r, t)" "submits submit xs t = Some (rs', u)" and rs: "rs = r # rs'"
    using assms(2) by (auto simp: bind_eq_Some_conv)
  have "r = ''accepted''" "lookup t i = Some (digest h)" using submit_new [OF assms(1,3) st(1)] by simp_all
  with recorded_stays [OF submit_keeps [OF assms(1) st(1)] st(2)] rs show ?thesis by auto
qed

end

text \<open>Two logs with the same digest and the same contents answer alike.\<close>

locale receipt_logs =
  a: receipt_log inv_a look_a digest submit_a + b: receipt_log inv_b look_b digest submit_b
  for inv_a :: "'s \<Rightarrow> bool" and look_a digest submit_a
    and inv_b :: "'t \<Rightarrow> bool" and look_b submit_b
begin

lemma same_answer:
  assumes "inv_a s" "inv_b s'" "\<forall>i. look_a s i = look_b s' i"
    and "submit_a i pl s = Some (r, t)" "submit_b i pl s' = Some (r', t')"
  shows "r = r' \<and> (\<forall>i. look_a t i = look_b t' i)"
proof (cases "look_a s i")
  case None
  with assms(3) have "look_b s' i = None" by simp
  with a.submit_new [OF assms(1) None assms(4)] b.submit_new [OF assms(2) _ assms(5)] assms(3)
  show ?thesis by metis
next
  case (Some h)
  with assms(3) have "look_b s' i = Some h" by simp
  from a.submit_known [OF assms(1) Some, of pl] b.submit_known [OF assms(2) this, of pl] assms(3-5)
  show ?thesis by auto
qed

lemma same_answers:
  assumes "inv_a s" "inv_b s'" "\<forall>i. look_a s i = look_b s' i"
    and "submits submit_a xs s = Some (rs, u)" "submits submit_b xs s' = Some (rs', u')"
  shows "rs = rs' \<and> (\<forall>i. look_a u i = look_b u' i) \<and> inv_b u'"
  using assms
proof (induction xs arbitrary: s s' rs rs')
  case (Cons x xs)
  obtain i pl where x: "x = (i, pl)" by (cases x)
  with Cons.prems obtain r t qs r' t' qs' where
    st: "submit_a i pl s = Some (r, t)" "submits submit_a xs t = Some (qs, u)" "rs = r # qs"
    "submit_b i pl s' = Some (r', t')" "submits submit_b xs t' = Some (qs', u')" "rs' = r' # qs'"
    by (auto simp: bind_eq_Some_conv)
  have "r = r' \<and> (\<forall>i. look_a t i = look_b t' i)"
    by (rule same_answer [OF Cons.prems(1-3) st(1,4)])
  with Cons.IH [OF a.submit_keeps [OF Cons.prems(1) st(1)] b.submit_keeps [OF Cons.prems(2) st(4)] _ st(2,5)]
    st(3,6) show ?case by simp
qed simp

end

section \<open>The receipt table\<close>

text \<open>
  \<open>record\<close> for one provider: \<open>w\<close> carries the fields that do not matter here, \<open>fresh\<close> draws the uuid
  and \<open>sha\<close> is the payload hash.
\<close>

definition receipt_hash :: "string \<Rightarrow> session \<Rightarrow> string \<Rightarrow> string option" where
  "receipt_hash p s i = map_option we_payload_hash (find_receipt s p i)"

definition record_submit ::
  "(string \<Rightarrow> string) \<Rightarrow> webhook_event \<Rightarrow> string \<Rightarrow> (session \<Rightarrow> uuid) \<Rightarrow> string \<Rightarrow> string \<Rightarrow> session
     \<Rightarrow> (string \<times> session) option" where
  "record_submit sha w p fresh i pl s =
     (case record_receipt
             (w\<lparr>we_id := fresh s, we_provider := p, we_external_event_id := i, we_payload_hash := sha pl\<rparr>)
             None s of
        Inl _ \<Rightarrow> None
      | Inr (r, t) \<Rightarrow> Some (er_reason r, t))"

interpretation receipts: receipt_log session_ok "receipt_hash p" sha "record_submit sha w p fresh" for sha w p fresh
proof
  fix s i pl r t
  let ?w = "w\<lparr>we_id := fresh s, we_provider := p, we_external_event_id := i, we_payload_hash := sha pl\<rparr>"
  assume s: "session_ok s" and new: "receipt_hash p s i = None"
    and st: "record_submit sha w p fresh i pl s = Some (r, t)"
  have none: "find_receipt s p i = None" using new by (simp add: receipt_hash_def)
  then have f: "flush (s\<lparr>webhooks := webhooks s @ [?w]\<rparr>) = Inr t" and r: "r = ''accepted''"
    using st by (auto simp: record_submit_def record_receipt_def Let_def split: sum.splits)
  have ws: "webhooks t = webhooks s @ [?w]" using f by (auto simp: flush_ok)
  have "find_receipt t p i = Some ?w"
    using none unfolding find_receipt_def ws by (intro find_snoc) simp_all
  moreover have "find_receipt t p j = find_receipt s p j" if "j \<noteq> i" for j
  proof -
    have "find P (xs @ [y]) = find P xs" if "\<not> P y" for P and xs :: "webhook_event list" and y
      using that by (induction xs) auto
    then show ?thesis using \<open>j \<noteq> i\<close> unfolding find_receipt_def ws by simp
  qed
  ultimately show "r = ''accepted'' \<and> session_ok t \<and> receipt_hash p t i = Some (sha pl)
      \<and> (\<forall>j. j \<noteq> i \<longrightarrow> receipt_hash p t j = receipt_hash p s j)"
    using r flush_session_ok [OF f] by (simp add: receipt_hash_def)
next
  fix s i pl h
  assume "session_ok s" "receipt_hash p s i = Some h"
  then obtain x where "find_receipt s p i = Some x" "we_payload_hash x = h"
    by (auto simp: receipt_hash_def)
  then show "record_submit sha w p fresh i pl s =
      Some (if h \<noteq> sha pl then ''event_id_reused_with_different_payload'' else ''duplicate_event_suppressed'', s)"
    by (simp add: record_submit_def record_receipt_def seen_before_def Let_def)
qed

end
