(* ===== verification/Outcome_Verification.thy ===== *)
theory Outcome_Verification
  imports Receipt_Log
begin

text \<open>
  The verification primitives of \<open>backend/app/services/verification.py\<close>: the signature check, the
  in-process ledger \<open>WebhookEventLedger\<close> and \<open>RecoveryAttributor\<close>.

  The keyed hash, the payload hash and \<open>json.loads\<close> are parameters: \<open>hmac\<close>, \<open>sha\<close> and \<open>loads\<close>,
  which answers \<open>None\<close> where the parser raises \<open>ValueError\<close>. Bodies are byte strings. The ledger is a
  dict from event ids to payload hashes; its lock makes each \<open>accept\<close> one step.

  The ledger keeps the promise \<open>receipt_log\<close> that the database table keeps, and answers as it does.
\<close>

section \<open>Signatures\<close>

definition remove_prefix :: "string \<Rightarrow> string \<Rightarrow> string" where
  "remove_prefix p s = (if starts_with p s then drop (length p) s else s)"

definition verify_signature ::
  "(string \<Rightarrow> string \<Rightarrow> string) \<Rightarrow> string \<Rightarrow> string \<Rightarrow> string \<Rightarrow> bool" where
  "verify_signature hmac raw_body signature secret =
     (if raw_body = [] \<or> signature = [] \<or> secret = [] then False
      else py_strip (remove_prefix ''v1='' signature) = hmac secret raw_body)"

section \<open>The ledger\<close>

record webhook_receipt =
  wh_event_id :: string
  wh_event_type :: string
  wh_payload_hash :: string
  wh_accepted :: bool
  wh_duplicate :: bool
  wh_reason :: string

type_synonym ledger = "(string \<times> string) list"

text \<open>\<open>str(json.loads(payload).get("event", "unknown"))\<close>: a value that is no object has no \<open>get\<close>.\<close>

definition payload_event_type :: "json option \<Rightarrow> py_error + string" where
  "payload_event_type parsed =
     (case parsed of
        None \<Rightarrow> Inr ''unknown''
      | Some (JObj d) \<Rightarrow> Inr (case map_of d ''event'' of None \<Rightarrow> ''unknown'' | Some v \<Rightarrow> py_str v)
      | Some _ \<Rightarrow> Inl AttributeError)"

text \<open>The ledger mutates before the payload is parsed, so the new ledger is returned beside the answer.\<close>

definition accept ::
  "(string \<Rightarrow> string) \<Rightarrow> (string \<Rightarrow> json option) \<Rightarrow> string \<Rightarrow> string \<Rightarrow> ledger
     \<Rightarrow> (py_error + webhook_receipt) \<times> ledger" where
  "accept sha loads event_id payload seen =
     (case map_of seen event_id of
        Some previous \<Rightarrow>
          (Inr \<lparr>wh_event_id = event_id, wh_event_type = ''unknown'', wh_payload_hash = sha payload,
                wh_accepted = False, wh_duplicate = True,
                wh_reason = (if previous \<noteq> sha payload then ''event_id_reused_with_different_payload''
                             else ''duplicate_event_suppressed'')\<rparr>, seen)
      | None \<Rightarrow>
          (ebind (payload_event_type (loads payload)) (\<lambda>event_type.
             Inr \<lparr>wh_event_id = event_id, wh_event_type = event_type, wh_payload_hash = sha payload,
                  wh_accepted = True, wh_duplicate = False, wh_reason = ''accepted''\<rparr>),
           dict_set event_id (sha payload) seen))"

section \<open>Attribution\<close>

record recovery_claim =
  cl_intervention_id :: string
  cl_failed_transaction :: string
  cl_successful_transaction :: string
  cl_provider_event_id :: string
  cl_amount_minor :: int
  cl_successful_amount :: int
  cl_currency :: string
  cl_successful_currency :: string
  cl_failed_at :: pydatetime
  cl_verified_at :: pydatetime
  cl_signature_valid :: bool
  cl_intervention_at :: "pydatetime option"
  cl_window_hours :: int

record recovery_evidence =
  rv_intervention_id :: string
  rv_provider_event_id :: string
  rv_failed_transaction :: string
  rv_successful_transaction :: string
  rv_amount_minor :: int
  rv_currency :: string
  rv_verified_at :: pydatetime
  rv_window_hours :: int
  rv_attributable :: bool
  rv_reason :: string

text \<open>A chained comparison stops at the first false link; comparing naive with aware raises.\<close>

definition within_window :: "recovery_claim \<Rightarrow> py_error + bool" where
  "within_window cl =
     (let start = (case cl_intervention_at cl of None \<Rightarrow> cl_failed_at cl | Some d \<Rightarrow> d)
      in ebind (dt_ge (cl_verified_at cl) start) (\<lambda>after.
           if \<not> after then Inr False
           else dt_ge (add_us start (cl_window_hours cl * us_per_hour)) (cl_verified_at cl)))"

definition attribution_checks :: "recovery_claim \<Rightarrow> bool \<Rightarrow> (bool \<times> string) list" where
  "attribution_checks cl inside =
     [(cl_signature_valid cl, ''provider_signature_invalid''),
      (cl_amount_minor cl = cl_successful_amount cl, ''amount_mismatch''),
      (cl_currency cl = cl_successful_currency cl, ''currency_mismatch''),
      (inside, ''outside_attribution_window''),
      (cl_failed_transaction cl \<noteq> cl_successful_transaction cl, ''same_transaction_not_recovery'')]"

definition attribute :: "recovery_claim \<Rightarrow> py_error + recovery_evidence" where
  "attribute cl =
     ebind (within_window cl) (\<lambda>inside.
       (let failed = map_option snd (find (\<lambda>(passed, _). \<not> passed) (attribution_checks cl inside))
        in Inr \<lparr>rv_intervention_id = cl_intervention_id cl, rv_provider_event_id = cl_provider_event_id cl,
                rv_failed_transaction = cl_failed_transaction cl,
                rv_successful_transaction = cl_successful_transaction cl,
                rv_amount_minor = cl_successful_amount cl, rv_currency = cl_successful_currency cl,
                rv_verified_at = cl_verified_at cl, rv_window_hours = cl_window_hours cl,
                rv_attributable = (failed = None),
                rv_reason = (case failed of None \<Rightarrow> ''verified_intervention_link'' | Some why \<Rightarrow> why)\<rparr>))"

section \<open>The ledger as a receipt log\<close>

definition ledger_submit ::
  "(string \<Rightarrow> string) \<Rightarrow> (string \<Rightarrow> json option) \<Rightarrow> string \<Rightarrow> string \<Rightarrow> ledger \<Rightarrow> (string \<times> ledger) option" where
  "ledger_submit sha loads event_id payload seen =
     (case accept sha loads event_id payload seen of
        (Inl _, _) \<Rightarrow> None
      | (Inr r, seen') \<Rightarrow> Some (wh_reason r, seen'))"

interpretation ledger: receipt_log "\<lambda>_. True" map_of sha "ledger_submit sha loads" for sha loads
proof
  fix seen :: ledger and i pl r t
  assume "map_of seen i = None" "ledger_submit sha loads i pl seen = Some (r, t)"
  then show "r = ''accepted'' \<and> True \<and> map_of t i = Some (sha pl) \<and> (\<forall>j. j \<noteq> i \<longrightarrow> map_of t j = map_of seen j)"
    by (auto simp: ledger_submit_def accept_def err_simps split: sum.splits)
next
  fix seen :: ledger and i pl h
  assume "map_of seen i = Some h"
  then show "ledger_submit sha loads i pl seen =
      Some (if h \<noteq> sha pl then ''event_id_reused_with_different_payload'' else ''duplicate_event_suppressed'', seen)"
    by (simp add: ledger_submit_def accept_def)
qed

interpretation both: receipt_logs "\<lambda>_. True" map_of sha "ledger_submit sha loads"
    session_ok "receipt_hash p" "record_submit sha w p fresh" for sha loads w p fresh
  ..


definition demo_template :: webhook_event where
  "demo_template =
     \<lparr>we_id = [], we_provider = [], we_external_event_id = [], we_event_type = ''payment.failed'',
      we_payload_hash = [], we_signature_verified = True, we_processed = False,
      we_ingestion_status = ''ACCEPTED'', we_payload = []\<rparr>"


section \<open>Attribution is exact\<close>

text \<open>A recovery is attributed exactly when the provider's signature was valid, the
  amount and the currency of the two payments agree, they are different transactions, and the
  verification fell into the window that starts at the intervention, or at the failure when there
  was none. The reason names the first check that failed, and the evidence carries the amount of
  the successful payment.\<close>

theorem attribution_exact:
  assumes "attribute cl = Inr ev"
  shows "(rv_attributable ev \<longleftrightarrow>
      cl_signature_valid cl \<and> cl_amount_minor cl = cl_successful_amount cl
      \<and> cl_currency cl = cl_successful_currency cl
      \<and> cl_failed_transaction cl \<noteq> cl_successful_transaction cl
      \<and> (let start = (case cl_intervention_at cl of None \<Rightarrow> cl_failed_at cl | Some d \<Rightarrow> d)
         in instant start \<le> instant (cl_verified_at cl)
            \<and> instant (cl_verified_at cl) \<le> instant start + cl_window_hours cl * us_per_hour))
    \<and> (rv_attributable ev \<longleftrightarrow> rv_reason ev = ''verified_intervention_link'')
    \<and> (rv_reason ev = ''provider_signature_invalid'' \<longleftrightarrow> \<not> cl_signature_valid cl)
    \<and> rv_amount_minor ev = cl_successful_amount cl"
proof -
  let ?start = "case cl_intervention_at cl of None \<Rightarrow> cl_failed_at cl | Some d \<Rightarrow> d"
  obtain inside where w: "within_window cl = Inr inside"
    and ev: "rv_attributable ev \<longleftrightarrow> find (\<lambda>(passed, _). \<not> passed) (attribution_checks cl inside) = None"
      "rv_reason ev = (case map_option snd (find (\<lambda>(passed, _). \<not> passed) (attribution_checks cl inside)) of
         None \<Rightarrow> ''verified_intervention_link'' | Some why \<Rightarrow> why)"
      "rv_amount_minor ev = cl_successful_amount cl"
    using assms by (auto simp: attribute_def err_simps Let_def)
  have add: "instant (add_us d k) = instant d + k" "is_aware (add_us d k) = is_aware d" for d k
    by (cases d; simp add: add_us_def)+
  have "inside \<longleftrightarrow> instant ?start \<le> instant (cl_verified_at cl)
      \<and> instant (cl_verified_at cl) \<le> instant ?start + cl_window_hours cl * us_per_hour"
    using w by (auto simp: within_window_def Let_def err_simps dt_ge_def add split: if_splits)
  with ev show ?thesis by (auto simp: attribution_checks_def Let_def)
qed

definition demo_claim :: recovery_claim where
  "demo_claim =
     \<lparr>cl_intervention_id = ''i'', cl_failed_transaction = ''tx1'', cl_successful_transaction = ''tx2'',
      cl_provider_event_id = ''e'', cl_amount_minor = 5000, cl_successful_amount = 5000,
      cl_currency = ''INR'', cl_successful_currency = ''INR'', cl_failed_at = Aware 0,
      cl_verified_at = Aware 1000, cl_signature_valid = True, cl_intervention_at = None,
      cl_window_hours = 72\<rparr>"

lemma attribution_exact_witness:
  "\<exists>ev. attribute demo_claim = Inr ev \<and> rv_attributable ev"
proof -
  have "is_ok (attribute demo_claim)" by code_simp
  then obtain ev where "attribute demo_claim = Inr ev" by auto
  with attribution_exact [OF this] show ?thesis by (simp add: demo_claim_def model_simps)
qed

end
