(* ===== verification/Raw_Webhook.thy ===== *)
theory Raw_Webhook
  imports Event_Ingestion Outcome_Verification
begin

text \<open>
  Gateway webhooks: \<open>normalize_raw_provider_webhook\<close> (\<open>backend/app/services/event_normalizer.py\<close>),
  \<open>EventService.ingest_raw_webhook\<close> (services/event_service.py) and the two webhook handlers of
  \<open>api/routes/events.py\<close> with their signature checks.

  A webhook body is a JSON value without floating-point numbers. Parameters of \<open>webhook_env\<close>: the JSON
  parser (\<open>None\<close> when it raises), \<open>datetime.fromisoformat\<close> (with the UTC offset it read; \<open>None\<close> when it
  raises), the HMAC-SHA256 hex digest and the configured secrets. A Unix time outside the years 1 to
  9999 raises \<open>ValueError\<close>, \<open>OverflowError\<close> or \<open>OSError\<close> by its size; all three are \<open>ValueError\<close> here.
\<close>

section \<open>Reading JSON values the way the code does\<close>

text \<open>\<open>d.get(k, default)\<close>: a key that holds null yields null, not the default.\<close>

definition json_get_or :: "payload \<Rightarrow> string \<Rightarrow> json \<Rightarrow> json" where
  "json_get_or d k v = (case map_of d k of None \<Rightarrow> v | Some x \<Rightarrow> x)"

definition as_dict :: "json \<Rightarrow> py_error + payload" where
  "as_dict v = (case v of JObj d \<Rightarrow> Inr d | _ \<Rightarrow> Inl AttributeError)"

text \<open>\<open>k in v\<close> followed by \<open>v[k]\<close> when it holds.\<close>

definition member_of :: "string \<Rightarrow> json \<Rightarrow> py_error + json option" where
  "member_of k v =
     (case v of
        JObj d \<Rightarrow> Inr (map_of d k)
      | JStr s \<Rightarrow> if contains k s then Inl TypeError else Inr None
      | JList xs \<Rightarrow> if JStr k \<in> set xs then Inl TypeError else Inr None
      | _ \<Rightarrow> Inl TypeError)"

text \<open>\<open>int(text)\<close>: C white space, a sign, digits with single underscores between them, at most 4300.\<close>

definition c_space :: "char \<Rightarrow> bool" where
  "c_space c = (let n = (of_char c :: nat) in (9 \<le> n \<and> n \<le> 13) \<or> n = 32)"

fun dec_digits :: "bool \<Rightarrow> string \<Rightarrow> nat list option" where
  "dec_digits after_digit [] = (if after_digit then Some [] else None)"
| "dec_digits after_digit (c # cs) =
     (if is_digit c then map_option ((#) (of_char c - 48)) (dec_digits True cs)
      else if c = CHR ''_'' \<and> after_digit then dec_digits False cs
      else None)"

definition digits_value :: "nat list \<Rightarrow> nat" where
  "digits_value ds = foldl (\<lambda>a d. 10 * a + d) 0 ds"

definition parse_nat :: "string \<Rightarrow> nat option" where
  "parse_nat s =
     (case dec_digits False s of
        None \<Rightarrow> None
      | Some ds \<Rightarrow> if 4300 < length ds then None else Some (digits_value ds))"

definition parse_int :: "string \<Rightarrow> int option" where
  "parse_int s =
     (case rev (dropWhile c_space (rev (dropWhile c_space s))) of
        [] \<Rightarrow> None
      | c # cs \<Rightarrow>
          if c = CHR ''-'' then map_option (\<lambda>n. - int n) (parse_nat cs)
          else if c = CHR ''+'' then map_option int (parse_nat cs)
          else map_option int (parse_nat (c # cs)))"

definition int_of_json :: "json \<Rightarrow> py_error + int" where
  "int_of_json v =
     (case v of
        JInt i \<Rightarrow> Inr i
      | JBool b \<Rightarrow> Inr (if b then 1 else 0)
      | JStr s \<Rightarrow> (case parse_int s of None \<Rightarrow> Inl (ValueError ''invalid literal for int()'') | Some i \<Rightarrow> Inr i)
      | _ \<Rightarrow> Inl TypeError)"

text \<open>A pydantic \<open>str\<close> and \<open>str | None\<close> field, and the argument of \<open>normalize_failure_code\<close>.\<close>

definition dto_error :: py_error where
  "dto_error = ValueError ''CanonicalEventDTO''"

definition str_field :: "json \<Rightarrow> py_error + string" where
  "str_field v = (case v of JStr s \<Rightarrow> Inr s | _ \<Rightarrow> Inl dto_error)"

definition opt_str_field :: "json \<Rightarrow> py_error + string option" where
  "opt_str_field v = (case v of JStr s \<Rightarrow> Inr (Some s) | JNull \<Rightarrow> Inr None | _ \<Rightarrow> Inl dto_error)"

definition dict_field :: "json \<Rightarrow> py_error + payload" where
  "dict_field v = (case v of JObj d \<Rightarrow> Inr d | _ \<Rightarrow> Inl dto_error)"

definition failure_code_of :: "json \<Rightarrow> py_error + string" where
  "failure_code_of v =
     (if \<not> json_truthy v then Inr (normalize_failure_code None)
      else case v of JStr s \<Rightarrow> Inr (normalize_failure_code (Some s)) | _ \<Rightarrow> Inl AttributeError)"

definition event_type_of :: "json \<Rightarrow> py_error + string" where
  "event_type_of v = (case v of JStr s \<Rightarrow> Inr (normalize_event_type s) | _ \<Rightarrow> Inl AttributeError)"

definition text_or_none :: "json \<Rightarrow> string option" where
  "text_or_none v = (let t = py_str (json_or v (JStr [])) in if t = [] then None else Some t)"

section \<open>Timestamps\<close>

text \<open>
  \<open>datetime.fromtimestamp(raw / 1000.0)\<close> of a number of milliseconds: the division rounds to the
  nearest double (53 significant bits, ties to even) and the conversion rounds that double to whole
  microseconds. \<open>double_shift\<close> is the number of bits the double keeps behind the point.
\<close>

fun bit_len :: "nat \<Rightarrow> nat" where
  "bit_len n = (if n < 2 then 0 else Suc (bit_len (n div 2)))"

declare bit_len.simps [simp del]

definition double_shift :: "int \<Rightarrow> nat" where
  "double_shift ms = 52 - bit_len (nat (ms div 1000))"

definition us_of_ms :: "int \<Rightarrow> int" where
  "us_of_ms ms =
     quotient_half_even (quotient_half_even (ms * 2 ^ double_shift ms) 1000 * us_per_second) (2 ^ double_shift ms)"

definition min_epoch_us :: int where "min_epoch_us = - 62135596800 * us_per_second"
definition max_epoch_us :: int where "max_epoch_us = 253402300800 * us_per_second"

definition from_epoch :: "int \<Rightarrow> py_error + pydatetime \<times> int" where
  "from_epoch raw =
     (let us = (if raw > 100000000000 then us_of_ms raw else raw * us_per_second)
      in if us < min_epoch_us \<or> max_epoch_us \<le> us then Inl (ValueError ''year is out of range'')
         else Inr (Aware us, 0))"

definition replace_zulu :: "string \<Rightarrow> string" where
  "replace_zulu s = concat (map (\<lambda>c. if c = CHR ''Z'' then ''+00:00'' else [c]) s)"

definition json_timestamp ::
  "(string \<Rightarrow> (pydatetime \<times> int) option) \<Rightarrow> pydatetime \<Rightarrow> json \<Rightarrow> py_error + pydatetime \<times> int" where
  "json_timestamp from_iso now v =
     (case v of
        JInt i \<Rightarrow> from_epoch i
      | JBool b \<Rightarrow> from_epoch (if b then 1 else 0)
      | JStr s \<Rightarrow> Inr (normalize_timestamp (from_iso (replace_zulu s)) now)
      | _ \<Rightarrow> Inr (now, 0))"

section \<open>Normalising a gateway body\<close>

record webhook_env =
  wn_ingest :: ingest_env
  wn_from_iso :: "string \<Rightarrow> (pydatetime \<times> int) option"
  wn_parse_json :: "string \<Rightarrow> json option"
  wn_hmac_hex :: "string \<Rightarrow> string \<Rightarrow> string"
  wn_secrets :: "string option list"
  wn_payment_secrets :: "string option list"
  wn_event_uuid :: uuid
  wn_correlation_uuid :: uuid

definition wn_now :: "webhook_env \<Rightarrow> pydatetime" where
  "wn_now env = eg_now (ig_engine (wn_ingest env))"

text \<open>What the three formats are read into, before the canonical DTO is built.\<close>

record raw_fields =
  rf_id :: json
  rf_type :: json
  rf_time :: "pydatetime \<times> int"
  rf_customer :: string
  rf_payment :: "string option"
  rf_amount :: int
  rf_currency :: string
  rf_code :: string
  rf_message :: json
  rf_metadata :: json

definition generated_id :: "string \<Rightarrow> webhook_env \<Rightarrow> json" where
  "generated_id prefix env = JStr (prefix @ take 12 (uuid_hex (wn_event_uuid env)))"

definition first_of :: "payload \<Rightarrow> string list \<Rightarrow> json \<Rightarrow> json" where
  "first_of d ks final = foldr (\<lambda>k v. json_or (json_get d k) v) ks final"

definition upper_text :: "json \<Rightarrow> string" where
  "upper_text v = py_upper (py_str v)"

definition stripe_fields :: "webhook_env \<Rightarrow> payload \<Rightarrow> json \<Rightarrow> string option \<Rightarrow> py_error + raw_fields" where
  "stripe_fields env raw obj header =
     ebind (json_timestamp (wn_from_iso env) (wn_now env) (json_get raw ''created'')) (\<lambda>time.
     ebind (as_dict obj) (\<lambda>ob.
     ebind (int_of_json (json_get_or ob ''amount'' (JInt 0))) (\<lambda>amount.
     ebind (as_dict (json_or (json_get ob ''last_payment_error'') (JObj []))) (\<lambda>last_error.
     ebind (failure_code_of (json_or (json_get last_error ''code'') (json_get ob ''failure_code''))) (\<lambda>code.
       Inr \<lparr>rf_id = json_or (json_get raw ''id'') (json_or (jopt header) (generated_id ''evt_str_'' env)),
            rf_type = json_get_or raw ''type'' (JStr ''payment_intent.payment_failed''), rf_time = time,
            rf_customer = py_str (first_of ob [''customer'', ''customer_id''] (JStr ''cust_unknown'')),
            rf_payment = Some (py_str (first_of ob [''id''] (JStr ''txn_unknown''))),
            rf_amount = amount, rf_currency = upper_text (json_get_or ob ''currency'' (JStr ''USD'')),
            rf_code = code,
            rf_message = json_or (json_get last_error ''message'') (json_get ob ''failure_message''),
            rf_metadata = JObj [(''gateway_status'', json_get ob ''status''),
                                (''livemode'', json_get raw ''livemode'')]\<rparr>)))))"

definition razorpay_fields :: "webhook_env \<Rightarrow> payload \<Rightarrow> json \<Rightarrow> string option \<Rightarrow> py_error + raw_fields" where
  "razorpay_fields env raw payment header =
     ebind (as_dict payment) (\<lambda>pay.
     ebind (json_timestamp (wn_from_iso env) (wn_now env) (json_get raw ''created_at'')) (\<lambda>time.
     ebind (as_dict (json_get_or pay ''entity'' (JObj []))) (\<lambda>ent.
     ebind (int_of_json (json_get_or ent ''amount'' (JInt 0))) (\<lambda>amount.
     ebind (failure_code_of (json_get ent ''error_code'')) (\<lambda>code.
       Inr \<lparr>rf_id = json_or (jopt header) (json_or (json_get raw ''id'') (generated_id ''evt_rzp_'' env)),
            rf_type = json_get_or raw ''event'' (JStr ''payment.failed''), rf_time = time,
            rf_customer = py_str (first_of ent [''contact'', ''email''] (JStr ''cust_unknown'')),
            rf_payment = Some (py_str (first_of ent [''id''] (JStr ''pay_unknown''))),
            rf_amount = amount, rf_currency = upper_text (json_get_or ent ''currency'' (JStr ''INR'')),
            rf_code = code, rf_message = json_get ent ''error_description'',
            rf_metadata = JObj [(''method'', json_get ent ''method'')]\<rparr>)))))"

definition generic_fields :: "webhook_env \<Rightarrow> payload \<Rightarrow> string option \<Rightarrow> py_error + raw_fields" where
  "generic_fields env raw header =
     ebind (json_timestamp (wn_from_iso env) (wn_now env)
              (json_or (json_get raw ''occurred_at'') (json_get raw ''created''))) (\<lambda>time.
     ebind (int_of_json (first_of raw [''amount_minor'', ''amount''] (JInt 0))) (\<lambda>amount.
     ebind (failure_code_of (json_get raw ''failure_code'')) (\<lambda>code.
       Inr \<lparr>rf_id = json_or (jopt header) (first_of raw [''id'', ''event_id''] (generated_id ''evt_gen_'' env)),
            rf_type = first_of raw [''event_type'', ''type''] (JStr ''PAYMENT_FAILED''), rf_time = time,
            rf_customer = py_str (first_of raw [''customer_reference'', ''customer_id'', ''customer'']
                                    (JStr ''cust_unknown'')),
            rf_payment = text_or_none (first_of raw [''payment_reference'', ''transaction_id'', ''payment_id'']
                                    (JStr [])),
            rf_amount = amount, rf_currency = upper_text (json_get_or raw ''currency'' (JStr ''USD'')),
            rf_code = code,
            rf_message = json_or (json_get raw ''failure_message'') (json_get raw ''message''),
            rf_metadata = json_or (json_get raw ''metadata'') (JObj [])\<rparr>)))"

definition raw_fields_of :: "webhook_env \<Rightarrow> payload \<Rightarrow> string option \<Rightarrow> py_error + raw_fields" where
  "raw_fields_of env raw header =
     ebind (case map_of raw ''data'' of None \<Rightarrow> Inr None | Some v \<Rightarrow> member_of ''object'' v) (\<lambda>obj.
       (case obj of
          Some ob \<Rightarrow> stripe_fields env raw ob header
        | None \<Rightarrow>
            ebind (case map_of raw ''payload'' of None \<Rightarrow> Inr None | Some v \<Rightarrow> member_of ''payment'' v) (\<lambda>payment.
              (case payment of
                 Some pay \<Rightarrow> razorpay_fields env raw pay header
               | None \<Rightarrow> generic_fields env raw header))))"

definition normalize_raw_provider_webhook ::
  "webhook_env \<Rightarrow> payload \<Rightarrow> string \<Rightarrow> string option \<Rightarrow> py_error + canonical_event" where
  "normalize_raw_provider_webhook env raw provider header =
     ebind (raw_fields_of env raw header) (\<lambda>f.
     ebind (event_type_of (rf_type f)) (\<lambda>etype.
     ebind (str_field (rf_id f)) (\<lambda>ext_id.
     ebind (opt_str_field (rf_message f)) (\<lambda>message.
     ebind (dict_field (sanitize (rf_metadata f))) (\<lambda>metadata.
       mk_canonical
         \<lparr>ev_external_event_id = ext_id, ev_event_type = etype, ev_provider = py_lower (py_strip provider),
          ev_occurred_at = fst (rf_time f), ev_utc_offset = snd (rf_time f),
          ev_customer_reference = rf_customer f, ev_payment_reference = rf_payment f,
          ev_subscription_reference = text_or_none (json_get raw ''subscription_id''),
          ev_invoice_reference = text_or_none (json_get raw ''invoice_id''),
          ev_checkout_session_id = text_or_none (json_get raw ''checkout_session_id''),
          ev_amount_minor = rf_amount f, ev_currency = rf_currency f, ev_failure_code = Some (rf_code f),
          ev_failure_message = message, ev_metadata = metadata\<rparr>)))))"

definition ingest_raw_webhook ::
  "webhook_env \<Rightarrow> payload \<Rightarrow> string \<Rightarrow> string option \<Rightarrow> bool \<Rightarrow> string option \<Rightarrow> session
     \<Rightarrow> py_error + (ingest_response \<times> session)" where
  "ingest_raw_webhook env raw provider header signature_verified correlation_id s =
     ebind (normalize_raw_provider_webhook env raw provider header) (\<lambda>e.
       ingest (wn_ingest env) e signature_verified final_status
         (correlation correlation_id (wn_correlation_uuid env)) s)"

section \<open>The webhook handlers\<close>

definition strip_scheme :: "string \<Rightarrow> string" where
  "strip_scheme sig = (if starts_with ''sha256='' sig then drop 7 sig else sig)"

definition verify_webhook_hmac :: "webhook_env \<Rightarrow> string \<Rightarrow> string option \<Rightarrow> string \<Rightarrow> bool" where
  "verify_webhook_hmac env body header secret =
     (if secret = [] then True
      else if \<not> truthy header then False
      else py_lower (wn_hmac_hex env secret body) = py_lower (strip_scheme (py_strip (or_empty header))))"

fun first_truthy :: "string option list \<Rightarrow> string option" where
  "first_truthy [] = None"
| "first_truthy (x # xs) = (if truthy x then x else first_truthy xs)"

record webhook_request =
  wq_body :: string
  wq_signatures :: "string option list"
  wq_event_ids :: "string option list"
  wq_user_agent :: string
  wq_correlation_id :: "string option"

definition parse_body :: "webhook_env \<Rightarrow> string \<Rightarrow> py_error + payload" where
  "parse_body env body =
     (case wn_parse_json env body of
        Some (JObj d) \<Rightarrow> Inr d
      | _ \<Rightarrow> Inl (AppError (MalformedRequest ''Invalid JSON payload'' None)))"

definition provider_hint :: "string \<Rightarrow> payload \<Rightarrow> string" where
  "provider_hint user_agent d =
     (if contains ''razorpay'' (py_lower user_agent) \<or> map_of d ''payload'' \<noteq> None then ''razorpay''
      else if contains ''synthetic'' (py_str (json_get_or d ''provider'' (JStr []))) then ''synthetic''
      else ''stripe'')"

definition ingest_provider_webhook ::
  "webhook_env \<Rightarrow> webhook_request \<Rightarrow> session \<Rightarrow> py_error + (ingest_response \<times> session)" where
  "ingest_provider_webhook env rq s =
     (if wq_body rq = [] then Inl (AppError (MalformedRequest ''Webhook request body cannot be empty.'' None))
      else if \<not> verify_webhook_hmac env (wq_body rq) (first_truthy (wq_signatures rq))
                (or_empty (first_truthy (wn_secrets env)))
      then Inl (AppError (UnauthorizedEventSource ''Webhook signature verification failed.''))
      else ebind (parse_body env (wq_body rq)) (\<lambda>d.
        ingest_raw_webhook env d (provider_hint (wq_user_agent rq) d) (first_truthy (wq_event_ids rq)) True
          (wq_correlation_id rq) s))"

definition ingest_razorpay_webhook ::
  "webhook_env \<Rightarrow> webhook_request \<Rightarrow> session \<Rightarrow> py_error + (ingest_response \<times> session)" where
  "ingest_razorpay_webhook env rq s =
     (let secret = or_empty (first_truthy (wn_payment_secrets env));
          sig = first_truthy (wq_signatures rq)
      in if wq_body rq = []
         then Inl (AppError (MalformedRequest ''Razorpay webhook body cannot be empty.'' None))
         else if secret \<noteq> [] \<and> (\<not> truthy sig \<or> \<not> verify_signature (wn_hmac_hex env) (wq_body rq) (or_empty sig) secret)
         then Inl (AppError (UnauthorizedEventSource ''Razorpay webhook signature verification failed.''))
         else ebind (parse_body env (wq_body rq)) (\<lambda>d.
           ingest_raw_webhook env d ''razorpay'' (first_truthy (wq_event_ids rq)) True (wq_correlation_id rq) s))"

section \<open>Milliseconds survive the division\<close>

lemma bit_len_le: "n < 2 ^ Suc k \<Longrightarrow> bit_len n \<le> k"
proof (induction n arbitrary: k rule: bit_len.induct)
  case (1 n)
  show ?case
  proof (cases "n < 2")
    case True
    then show ?thesis by (simp add: bit_len.simps [of n])
  next
    case False
    then obtain j where "k = Suc j" using "1.prems" by (cases k) auto
    then have "bit_len (n div 2) \<le> j" using "1.IH" [of j] False "1.prems" by simp
    then show ?thesis using False \<open>k = Suc j\<close> by (simp add: bit_len.simps [of n])
  qed
qed

text \<open>
  A time in milliseconds is read without any rounding error until the year 2242, although the code
  goes through a floating-point division.
\<close>

lemma milliseconds_exact:
  assumes "0 \<le> ms" and "ms < 8589934592 * 1000"
  shows "us_of_ms ms = ms * 1000"
proof -
  let ?k = "double_shift ms"
  have "nat (ms div 1000) < 2 ^ Suc 32" using assms by simp
  then have "20 \<le> ?k" using bit_len_le [of "nat (ms div 1000)" 32] by (simp add: double_shift_def)
  then have k: "(2::int) ^ 20 \<le> 2 ^ ?k" by (intro power_increasing) simp_all
  let ?m = "quotient_half_even (ms * 2 ^ ?k) 1000"
  have "2 * \<bar>1000 * ?m - ms * 2 ^ ?k\<bar> \<le> 1000" by (rule quotient_half_even_near) simp
  then have "2 * \<bar>1000 * (1000 * ?m - ms * 2 ^ ?k)\<bar> \<le> 1000000" by simp
  moreover have "?m * us_per_second - ms * 1000 * 2 ^ ?k = 1000 * (1000 * ?m - ms * 2 ^ ?k)"
    by (simp add: us_per_second_def)
  ultimately have "2 * \<bar>?m * us_per_second - ms * 1000 * 2 ^ ?k\<bar> \<le> 1000000" by (simp only:)
  also have "\<dots> < (2::int) ^ ?k" using k by simp
  finally have "2 * \<bar>?m * us_per_second - ms * 1000 * 2 ^ ?k\<bar> < 2 ^ ?k" .
  then show ?thesis unfolding us_of_ms_def by (rule quotient_half_even_unique)
qed

section \<open>What an accepted webhook proves\<close>

lemma sanitize_dict: "dict_field (sanitize v) = Inr d \<Longrightarrow> clean (JObj d)"
  using sanitize_clean [of v] by (auto simp: dict_field_def simp del: clean.simps split: json.splits)

lemma raw_normal_form:
  assumes "normalize_raw_provider_webhook env raw p h = Inr e"
  shows "canonical_bounds e" "clean (JObj (ev_metadata e))" "ev_provider e = py_lower (py_strip p)"
  using assms
  by (auto simp: normalize_raw_provider_webhook_def err_simps mk_canonical_def sanitize_dict split: if_splits
      simp del: clean.simps)

lemma first_truthy_Some: "first_truthy xs = Some x \<Longrightarrow> x \<noteq> []"
  by (induction xs) (auto split: if_splits)

lemma first_truthy_truthy: "truthy (first_truthy xs) \<longleftrightarrow> (\<exists>x. first_truthy xs = Some x)"
  using first_truthy_Some [of xs] by (cases "first_truthy xs") auto

text \<open>C18: While a signing secret is configured, an answered gateway
  webhook was signed: the HMAC of its body under that secret is the signature sent, up to case and
  scheme prefix. What is stored under its event id is the receipt of a canonical event within its
  field bounds, of a supported type and with sanitised metadata.\<close>

theorem accepted_webhook_is_signed:
  assumes "ingest_provider_webhook env rq s = Inr (resp, t)" and "session_ok s"
    and "receipt_rival_ok (ig_rival (wn_ingest env)) s" and "rival_ok (ig_engine (wn_ingest env)) s"
    and "first_truthy (wn_secrets env) = Some secret"
  shows "(\<exists>sig. first_truthy (wq_signatures rq) = Some sig
            \<and> py_lower (wn_hmac_hex env secret (wq_body rq)) = py_lower (strip_scheme (py_strip sig)))
    \<and> (\<exists>e w. canonical_bounds e \<and> ev_event_type e \<in> set supported_event_types \<and> clean (JObj (ev_metadata e))
        \<and> find_receipt t (py_lower (ev_provider e)) (ev_external_event_id e) = Some w
        \<and> we_payload_hash w = ig_digest (wn_ingest env) (fingerprint_data e) \<and> in_event_id resp = we_id w)"
proof -
  obtain d e corr where v: "verify_webhook_hmac env (wq_body rq) (first_truthy (wq_signatures rq))
        (or_empty (first_truthy (wn_secrets env)))"
    and e: "normalize_raw_provider_webhook env d (provider_hint (wq_user_agent rq) d)
        (first_truthy (wq_event_ids rq)) = Inr e"
    and run: "ingest (wn_ingest env) e True final_status corr s = Inr (resp, t)"
    using assms(1)
    by (auto simp: ingest_provider_webhook_def ingest_raw_webhook_def err_simps split: if_splits)
  obtain w where w: "find_receipt t (py_lower (ev_provider e)) (ev_external_event_id e) = Some w"
    "we_payload_hash w = ig_digest (wn_ingest env) (fingerprint_data e)" "in_event_id resp = we_id w"
    and ve: "validate_event e (eg_now (ig_engine (wn_ingest env))) = Inr ()"
    using ingest_receipt [OF run assms(2-4)] by blast
  have "ev_event_type e \<in> set supported_event_types"
    using ve by (auto simp: validate_event_def split: if_splits)
  moreover have "\<exists>sig. first_truthy (wq_signatures rq) = Some sig
            \<and> py_lower (wn_hmac_hex env secret (wq_body rq)) = py_lower (strip_scheme (py_strip sig))"
    using v assms(5) first_truthy_Some [OF assms(5)]
    by (auto simp: verify_webhook_hmac_def or_empty_def first_truthy_truthy split: if_splits)
  ultimately show ?thesis using w raw_normal_form [OF e] by blast
qed

text \<open>C40: With no secret configured the signature is not looked at,
  by either handler: any signature, or none, gives the same result, and a new event is stored as
  signature-verified all the same.\<close>

theorem unsigned_webhook_counts_as_verified:
  assumes "ingest_provider_webhook env rq s = Inr (resp, t)" and "session_ok s"
    and "receipt_rival_ok (ig_rival (wn_ingest env)) s" and "rival_ok (ig_engine (wn_ingest env)) s"
    and "first_truthy (wn_secrets env) = None" and "first_truthy (wn_payment_secrets env) = None"
    and "\<not> in_duplicate resp"
  shows "ingest_provider_webhook env (rq\<lparr>wq_signatures := sigs\<rparr>) s = Inr (resp, t)
    \<and> ingest_razorpay_webhook env (rq\<lparr>wq_signatures := sigs\<rparr>) s = ingest_razorpay_webhook env rq s
    \<and> (\<exists>w \<in> set (webhooks t). we_id w = in_event_id resp \<and> we_signature_verified w)"
proof -
  obtain e corr where run: "ingest (wn_ingest env) e True final_status corr s = Inr (resp, t)"
    using assms(1)
    by (auto simp: ingest_provider_webhook_def ingest_raw_webhook_def err_simps split: if_splits)
  obtain w where "find_receipt t (py_lower (ev_provider e)) (ev_external_event_id e) = Some w"
    "in_event_id resp = we_id w" "we_signature_verified w"
    using ingest_receipt [OF run assms(2-4)] assms(7) by metis
  moreover from this(1) have "w \<in> set (webhooks t)" by (auto simp: find_receipt_def dest: find_SomeD)
  ultimately show ?thesis
    using assms(1,5,6)
    by (auto simp: ingest_provider_webhook_def ingest_razorpay_webhook_def verify_webhook_hmac_def or_empty_def)
qed

section \<open>The claims on a concrete webhook\<close>

definition demo_body :: payload where
  "demo_body = [(''id'', JStr ''evt_1''), (''event_type'', JStr ''payment.failed''), (''occurred_at'', JStr ''1970Z''),
     (''customer_id'', JStr ''c1''), (''payment_id'', JStr ''pay_1''), (''amount'', JStr '' 5_000''),
     (''currency'', JStr ''inr''), (''failure_code'', JStr ''Insufficient_Funds '')]"

definition demo_from_iso :: "string \<Rightarrow> (pydatetime \<times> int) option" where
  "demo_from_iso t = (if t = ''1970+00:00'' then Some (Aware 5, 0) else None)"

definition demo_parse :: "string \<Rightarrow> json option" where
  "demo_parse t = (if t = ''body'' then Some (JObj demo_body) else None)"

definition demo_hmac :: "string \<Rightarrow> string \<Rightarrow> string" where
  "demo_hmac secret body = ''ab'' @ secret"

definition demo_webhook_env :: "string option \<Rightarrow> webhook_env" where
  "demo_webhook_env secret =
     \<lparr>wn_ingest = demo_ingest, wn_from_iso = demo_from_iso, wn_parse_json = demo_parse, wn_hmac_hex = demo_hmac,
      wn_secrets = [secret, None], wn_payment_secrets = [None], wn_event_uuid = ''e'', wn_correlation_uuid = ''f''\<rparr>"

definition demo_webhook :: "string option \<Rightarrow> webhook_request" where
  "demo_webhook sig =
     \<lparr>wq_body = ''body'', wq_signatures = [None, sig], wq_event_ids = [None], wq_user_agent = ''Razorpay/1'',
      wq_correlation_id = Some ''k''\<rparr>"

lemma demo_webhook_event:
  "normalize_raw_provider_webhook (demo_webhook_env (Some ''s'')) demo_body ''razorpay'' None = Inr demo_event"
  "normalize_raw_provider_webhook (demo_webhook_env None) demo_body ''razorpay'' None = Inr demo_event"
  by code_simp+

lemma demo_webhook_runs:
  "ingest_provider_webhook (demo_webhook_env (Some ''s'')) (demo_webhook (Some '' sha256=ABs'')) empty_session
     = ingest demo_ingest demo_event True final_status ''k'' empty_session"
  "ingest_provider_webhook (demo_webhook_env None) (demo_webhook None) empty_session
     = ingest demo_ingest demo_event True final_status ''k'' empty_session"
proof -
  have v: "verify_webhook_hmac (demo_webhook_env (Some ''s'')) ''body'' (first_truthy [None, Some '' sha256=ABs''])
      (or_empty (first_truthy [Some ''s'', None]))"
    by code_simp
  have h: "provider_hint ''Razorpay/1'' demo_body = ''razorpay''" by code_simp
  show "ingest_provider_webhook (demo_webhook_env (Some ''s'')) (demo_webhook (Some '' sha256=ABs'')) empty_session
     = ingest demo_ingest demo_event True final_status ''k'' empty_session"
    using v h demo_webhook_event(1)
    by (simp add: ingest_provider_webhook_def demo_webhook_def parse_body_def ingest_raw_webhook_def
        demo_webhook_env_def demo_parse_def correlation_def or_empty_def)
  show "ingest_provider_webhook (demo_webhook_env None) (demo_webhook None) empty_session
     = ingest demo_ingest demo_event True final_status ''k'' empty_session"
    using h demo_webhook_event(2)
    by (simp add: ingest_provider_webhook_def demo_webhook_def parse_body_def ingest_raw_webhook_def
        verify_webhook_hmac_def demo_webhook_env_def demo_parse_def correlation_def or_empty_def)
qed

lemma demo_webhook_rivals:
  "receipt_rival_ok (ig_rival (wn_ingest (demo_webhook_env x))) empty_session"
  "rival_ok (ig_engine (wn_ingest (demo_webhook_env x))) empty_session"
proof -
  have i: "wn_ingest (demo_webhook_env x) = demo_ingest" by (simp add: demo_webhook_env_def)
  show "receipt_rival_ok (ig_rival (wn_ingest (demo_webhook_env x))) empty_session"
    "rival_ok (ig_engine (wn_ingest (demo_webhook_env x))) empty_session"
    unfolding i by code_simp+
qed

lemma accepted_webhook_is_signed_witness:
  "\<exists>resp t. ingest_provider_webhook (demo_webhook_env (Some ''s'')) (demo_webhook (Some '' sha256=ABs''))
        empty_session = Inr (resp, t)
     \<and> py_lower (demo_hmac ''s'' ''body'') = py_lower (strip_scheme (py_strip '' sha256=ABs''))"
proof -
  obtain resp t where run: "ingest_provider_webhook (demo_webhook_env (Some ''s''))
      (demo_webhook (Some '' sha256=ABs'')) empty_session = Inr (resp, t)"
    using demo_ingest_ok demo_webhook_runs(1) by auto
  have s: "first_truthy (wn_secrets (demo_webhook_env (Some ''s''))) = Some ''s''"
    by (simp add: demo_webhook_env_def)
  show ?thesis
    using accepted_webhook_is_signed [OF run empty_session_ok demo_webhook_rivals s] run
    by (auto simp: demo_webhook_def demo_webhook_env_def)
qed

lemma unsigned_webhook_counts_as_verified_witness:
  "\<exists>resp t. ingest_provider_webhook (demo_webhook_env None)
        ((demo_webhook None)\<lparr>wq_signatures := [Some ''forged'']\<rparr>) empty_session = Inr (resp, t)
     \<and> (\<exists>w \<in> set (webhooks t). we_signature_verified w)"
proof -
  obtain resp t where i: "ingest demo_ingest demo_event True final_status ''k'' empty_session = Inr (resp, t)"
    using demo_ingest_ok by auto
  note run = i [folded demo_webhook_runs(2)]
  have s: "first_truthy (wn_secrets (demo_webhook_env None)) = None"
    "first_truthy (wn_payment_secrets (demo_webhook_env None)) = None"
    by (simp_all add: demo_webhook_env_def)
  have "validate_event demo_event demo_now = Inr ()" by code_simp
  then have "\<not> in_duplicate resp"
    using i demo_record_receipt
    by (auto simp: ingest_def evaluate_and_record_def demo_ingest_def demo_engine_def demo_new_receipt_def
        ingest_reply_def err_simps)
  from unsigned_webhook_counts_as_verified [OF run empty_session_ok demo_webhook_rivals s this,
      of "[Some ''forged'']"]
  show ?thesis by blast
qed

end
