(* ===== verification/Risk_Detection.thy ===== *)
theory Risk_Detection
  imports Domain
begin

text \<open>
  \<open>RevenueRiskDetector\<close> and \<open>RiskCaseService\<close> of \<open>backend/app/services/risk_detection.py\<close>: stored
  transactions are classified by their status and age, and each risk opens at most one case.

  \<open>as_of or utc_now()\<close> is an option with the clock beside it. The uuid of a new case is an argument.
\<close>

section \<open>Vocabulary\<close>

datatype risk_reason =
    Risk_PAYMENT_FAILED
  | Risk_PAYMENT_PENDING_TOO_LONG
  | Risk_PAYMENT_STATUS_UNKNOWN
  | Risk_TRANSACTION_ALREADY_SUCCEEDED
  | Risk_TRANSACTION_NOT_AT_RISK
  | Risk_MISSING_CUSTOMER_CONTEXT

primrec risk_reason_value :: "risk_reason \<Rightarrow> string" where
  "risk_reason_value Risk_PAYMENT_FAILED = ''payment_failed''"
| "risk_reason_value Risk_PAYMENT_PENDING_TOO_LONG = ''payment_pending_too_long''"
| "risk_reason_value Risk_PAYMENT_STATUS_UNKNOWN = ''payment_status_unknown''"
| "risk_reason_value Risk_TRANSACTION_ALREADY_SUCCEEDED = ''transaction_already_succeeded''"
| "risk_reason_value Risk_TRANSACTION_NOT_AT_RISK = ''transaction_not_at_risk''"
| "risk_reason_value Risk_MISSING_CUSTOMER_CONTEXT = ''missing_customer_context''"

datatype risk_severity = Severity_HIGH | Severity_MEDIUM | Severity_LOW | Severity_NONE

primrec risk_severity_value :: "risk_severity \<Rightarrow> string" where
  "risk_severity_value Severity_HIGH = ''high''"
| "risk_severity_value Severity_MEDIUM = ''medium''"
| "risk_severity_value Severity_LOW = ''low''"
| "risk_severity_value Severity_NONE = ''none''"

record detector_config =
  dc_pending_stale_after :: int
  dc_rule_version :: string

definition default_detector_config :: detector_config where
  "default_detector_config = \<lparr>dc_pending_stale_after = 24 * us_per_hour, dc_rule_version = ''phase3.v1''\<rparr>"

record detection =
  rd_transaction_id :: uuid
  rd_is_at_risk :: bool
  rd_severity :: risk_severity
  rd_reason_codes :: "risk_reason list"
  rd_detected_at :: pydatetime
  rd_rule_version :: string
  rd_recommended_case_state :: "case_state option"

section \<open>The detector\<close>

definition is_stale :: "detector_config \<Rightarrow> pydatetime \<Rightarrow> pydatetime \<Rightarrow> bool" where
  "is_stale cfg occurred_at as_of =
     (instant (as_utc occurred_at) \<le> instant as_of - dc_pending_stale_after cfg)"

definition risk_reasons :: "risk_reason list" where
  "risk_reasons = [Risk_PAYMENT_FAILED, Risk_PAYMENT_PENDING_TOO_LONG, Risk_PAYMENT_STATUS_UNKNOWN]"

definition status_reasons ::
  "detector_config \<Rightarrow> transaction \<Rightarrow> pydatetime \<Rightarrow> risk_reason list \<times> risk_severity" where
  "status_reasons cfg t seen =
     (case tx_status t of
        Tx_FAILED \<Rightarrow> ([Risk_PAYMENT_FAILED], Severity_HIGH)
      | Tx_PENDING \<Rightarrow>
          if is_stale cfg (tx_occurred_at t) seen
          then ([Risk_PAYMENT_PENDING_TOO_LONG], Severity_MEDIUM) else ([], Severity_NONE)
      | Tx_UNKNOWN \<Rightarrow> ([Risk_PAYMENT_STATUS_UNKNOWN], Severity_MEDIUM)
      | Tx_SUCCEEDED \<Rightarrow> ([Risk_TRANSACTION_ALREADY_SUCCEEDED], Severity_NONE)
      | _ \<Rightarrow> ([Risk_TRANSACTION_NOT_AT_RISK], Severity_NONE))"

definition evaluated_at :: "pydatetime option \<Rightarrow> pydatetime \<Rightarrow> pydatetime" where
  "evaluated_at as_of now = as_utc (case as_of of Some d \<Rightarrow> d | None \<Rightarrow> now)"

definition detect ::
  "detector_config \<Rightarrow> transaction \<Rightarrow> customer option \<Rightarrow> pydatetime option \<Rightarrow> pydatetime \<Rightarrow> detection" where
  "detect cfg t customer as_of now =
     (let (reasons, severity) = status_reasons cfg t (evaluated_at as_of now);
          reasons' = (if reasons \<noteq> [] \<and> hd reasons \<in> set risk_reasons \<and> customer = None
                      then reasons @ [Risk_MISSING_CUSTOMER_CONTEXT] else reasons);
          at_risk = list_ex (\<lambda>r. r \<in> set risk_reasons) reasons'
      in \<lparr>rd_transaction_id = tx_id t, rd_is_at_risk = at_risk, rd_severity = severity,
          rd_reason_codes = reasons', rd_detected_at = evaluated_at as_of now, rd_rule_version = dc_rule_version cfg,
          rd_recommended_case_state = (if at_risk then Some Case_DETECTED else None)\<rparr>)"

definition detect_many ::
  "detector_config \<Rightarrow> transaction list \<Rightarrow> (uuid \<times> customer) list \<Rightarrow> pydatetime option \<Rightarrow> pydatetime
     \<Rightarrow> detection list" where
  "detect_many cfg ts customers_by_id as_of now =
     map (\<lambda>t. detect cfg t (map_of customers_by_id (tx_customer_id t)) as_of now) ts"

section \<open>Opening a case\<close>

definition risk_case_key :: "transaction \<Rightarrow> string" where
  "risk_case_key t = tx_provider t @ '':transaction:'' @ tx_external_id t @ '':revenue-risk''"

definition severity_priority :: "risk_severity \<Rightarrow> int" where
  "severity_priority sev =
     (case sev of Severity_HIGH \<Rightarrow> 100 | Severity_MEDIUM \<Rightarrow> 70 | Severity_LOW \<Rightarrow> 40 | Severity_NONE \<Rightarrow> 0)"

definition risk_case :: "uuid \<Rightarrow> transaction \<Rightarrow> detection \<Rightarrow> recovery_case" where
  "risk_case cid t r =
     \<lparr>rc_id = cid, rc_customer_id = tx_customer_id t, rc_trigger_transaction_id = tx_id t,
      rc_case_key = risk_case_key t, rc_state = Case_DETECTED,
      rc_priority = severity_priority (rd_severity r), rc_opened_at = rd_detected_at r,
      rc_last_state_changed_at = rd_detected_at r, rc_closed_at = None, rc_version = 1,
      rc_metadata =
        [(''detector_rule_version'', JStr (rd_rule_version r)),
         (''risk_severity'', JStr (risk_severity_value (rd_severity r))),
         (''reason_codes'', JList (map (\<lambda>x. JStr (risk_reason_value x)) (rd_reason_codes r))),
         (''source'', JStr ''deterministic_phase3_detector'')]\<rparr>"

definition detect_and_create_case ::
  "detector_config \<Rightarrow> uuid \<Rightarrow> transaction \<Rightarrow> pydatetime option \<Rightarrow> pydatetime \<Rightarrow> session
     \<Rightarrow> py_error + (detection \<times> recovery_case option \<times> bool \<times> session)" where
  "detect_and_create_case cfg cid t as_of now s =
     (let r = detect cfg t (find_customer s (tx_customer_id t)) as_of now
      in if \<not> rd_is_at_risk r then Inr (r, None, False, s)
         else case find_case_by_key s (risk_case_key t) of
                Some c \<Rightarrow> Inr (r, Some c, False, s)
              | None \<Rightarrow>
                  (let c = risk_case cid t r
                   in ebind (flush (s\<lparr>cases := cases s @ [c]\<rparr>)) (\<lambda>u. Inr (r, Some c, True, u))))"

section \<open>One case per risk\<close>

text \<open>Which transactions are at risk at an instant, in the words of the rules.\<close>

definition at_risk :: "detector_config \<Rightarrow> transaction \<Rightarrow> int \<Rightarrow> bool" where
  "at_risk cfg t now_us \<longleftrightarrow>
     tx_status t \<in> {Tx_FAILED, Tx_UNKNOWN}
     \<or> tx_status t = Tx_PENDING \<and> instant (tx_occurred_at t) + dc_pending_stale_after cfg \<le> now_us"

lemma detect_at_risk:
  "rd_is_at_risk (detect cfg t cu as_of now) \<longleftrightarrow>
     at_risk cfg t (instant (evaluated_at as_of now))"
  by (cases "tx_status t")
    (auto simp: detect_def status_reasons_def is_stale_def risk_reasons_def at_risk_def Let_def evaluated_at_def
      split: option.split)

lemma at_risk_stays: "at_risk cfg t n \<Longrightarrow> n \<le> m \<Longrightarrow> at_risk cfg t m"
  by (auto simp: at_risk_def)

text \<open>The batch is the detector on each transaction, in order.\<close>

lemma detect_many_nth:
  "i < length ts \<Longrightarrow> detect_many cfg ts cs as_of now ! i =
     detect cfg (ts ! i) (map_of cs (tx_customer_id (ts ! i))) as_of now"
  by (simp add: detect_many_def)

text \<open>On a consistent database, looking at a transaction that is at risk always
  returns its one case: the stored one, with nothing written, or else a new one in DETECTED,
  committed to the session. However often the transaction is looked at later, that case is returned
  and nothing is written. A transaction that is not at risk writes nothing and has no case.\<close>

theorem risk_opens_one_case:
  assumes "session_ok s" and "find_case s cid = None"
  shows "(\<not> at_risk cfg t (instant (evaluated_at as_of now)) \<longrightarrow>
            (\<exists>r. detect_and_create_case cfg cid t as_of now s = Inr (r, None, False, s)))
    \<and> (at_risk cfg t (instant (evaluated_at as_of now)) \<longrightarrow>
        (\<exists>r c created u. detect_and_create_case cfg cid t as_of now s = Inr (r, Some c, created, u)
          \<and> session_ok u \<and> rc_case_key c = risk_case_key t \<and> c \<in> set (cases u)
          \<and> (created \<longleftrightarrow> find_case_by_key s (risk_case_key t) = None)
          \<and> (created \<longrightarrow> c = risk_case cid t r \<and> u = s\<lparr>cases := cases s @ [c]\<rparr>) \<and> (\<not> created \<longrightarrow> u = s)
          \<and> (\<forall>cid2 later. instant (evaluated_at as_of now) \<le> instant later \<longrightarrow>
               (\<exists>r2. detect_and_create_case cfg cid2 t (Some later) now2 u = Inr (r2, Some c, False, u)))))"
proof -
  let ?r = "detect cfg t (find_customer s (tx_customer_id t)) as_of now"
  have quiet: "detect_and_create_case cfg cid t as_of now s = Inr (?r, None, False, s)"
    if "\<not> at_risk cfg t (instant (evaluated_at as_of now))"
    using that by (simp add: detect_and_create_case_def detect_at_risk Let_def)
  have again: "\<exists>r2. detect_and_create_case cfg cid2 t (Some later) now2 u = Inr (r2, Some c, False, u)"
    if "at_risk cfg t (instant (evaluated_at as_of now))" "find_case_by_key u (risk_case_key t) = Some c" "instant (evaluated_at as_of now) \<le> instant later"
    for u c cid2 later
    using that at_risk_stays by (auto simp: detect_and_create_case_def detect_at_risk Let_def evaluated_at_def)
  have known: ?thesis if risk: "at_risk cfg t (instant (evaluated_at as_of now))" and c: "find_case_by_key s (risk_case_key t) = Some c" for c
  proof -
    have "detect_and_create_case cfg cid t as_of now s = Inr (?r, Some c, False, s)"
      using risk c by (simp add: detect_and_create_case_def detect_at_risk Let_def)
    moreover have "rc_case_key c = risk_case_key t" "c \<in> set (cases s)"
      using c by (auto simp: find_case_by_key_def dest: find_SomeD)
    ultimately show ?thesis using risk c assms(1) again [OF risk c] by auto
  qed
  have fresh: ?thesis if risk: "at_risk cfg t (instant (evaluated_at as_of now))" and n: "find_case_by_key s (risk_case_key t) = None"
  proof -
    let ?c = "risk_case cid t ?r"
    let ?u = "s\<lparr>cases := cases s @ [?c]\<rparr>"
    have key: "rc_case_key ?c = risk_case_key t" by (simp add: risk_case_def)
    have u: "session_ok ?u"
      using assms(1,2) n
      by (auto simp: session_ok_iff case_unique_def find_case_def find_case_by_key_def find_None_iff risk_case_def)
    have "detect_and_create_case cfg cid t as_of now s = Inr (?r, Some ?c, True, ?u)"
      using risk n flush_idle [OF u] by (simp add: detect_and_create_case_def detect_at_risk Let_def)
    moreover have f: "find_case_by_key ?u (risk_case_key t) = Some ?c"
      using n unfolding find_case_by_key_def by (simp add: find_snoc key find_None_iff)
    ultimately show ?thesis using risk n u key again [OF risk f] by auto
  qed
  show ?thesis using quiet known fresh by (cases "find_case_by_key s (risk_case_key t)") auto
qed

definition demo_stuck :: transaction where
  "demo_stuck = \<lparr>tx_id = ''tx1'', tx_customer_id = ''cust1'', tx_provider = ''razorpay'', tx_external_id = ''pay_1'',
     tx_amount_minor = 5000, tx_currency = ''INR'', tx_status = Tx_PENDING, tx_failure_code = None,
     tx_failure_message = None, tx_occurred_at = Naive 0, tx_metadata = []\<rparr>"

lemma risk_opens_one_case_witness:
  "(\<exists>r. detect_and_create_case default_detector_config ''k1'' demo_stuck None (Aware (24 * us_per_hour - 1))
        empty_session = Inr (r, None, False, empty_session))
   \<and> (\<exists>r c u. detect_and_create_case default_detector_config ''k1'' demo_stuck None (Aware (24 * us_per_hour))
        empty_session = Inr (r, Some c, True, u)
      \<and> (\<exists>r2. detect_and_create_case default_detector_config ''k2'' demo_stuck (Some (Aware (25 * us_per_hour)))
            (Aware 0) u = Inr (r2, Some c, False, u)))"
proof -
  have e: "session_ok empty_session" "find_case empty_session ''k1'' = None"
    unfolding session_ok_def by code_simp+
  have early: "\<not> at_risk default_detector_config demo_stuck (instant (evaluated_at None (Aware (24 * us_per_hour - 1))))"
    and due: "at_risk default_detector_config demo_stuck (instant (evaluated_at None (Aware (24 * us_per_hour))))"
    and n: "find_case_by_key empty_session (risk_case_key demo_stuck) = None"
    and later: "instant (evaluated_at None (Aware (24 * us_per_hour))) \<le> instant (Aware (25 * us_per_hour))"
    by code_simp+
  note before = risk_opens_one_case [OF e, of default_detector_config demo_stuck None "Aware (24 * us_per_hour - 1)"]
  note on_time = risk_opens_one_case [OF e, of default_detector_config demo_stuck None "Aware (24 * us_per_hour)" "Aware 0"]
  from on_time due obtain r c created u
    where run: "detect_and_create_case default_detector_config ''k1'' demo_stuck None (Aware (24 * us_per_hour))
        empty_session = Inr (r, Some c, created, u)"
      and "created" and again: "\<exists>r2. detect_and_create_case default_detector_config ''k2'' demo_stuck
        (Some (Aware (25 * us_per_hour))) (Aware 0) u = Inr (r2, Some c, False, u)"
    using n later by blast
  then show ?thesis using before early by auto
qed

end
