(* ===== verification/Record_Services.thy ===== *)
theory Record_Services
  imports Case_Engine
begin

text \<open>
  The services over single tables: \<open>CustomerService\<close> (\<open>backend/app/services/customer_service.py\<close>),
  \<open>TransactionService\<close> (services/transaction_service.py) and \<open>AuditService\<close> (services/audit_service.py)
  with their mappers.

  A request DTO arrives validated. The answered DTO copies the row, so it is the row here. The paged
  listings are in Listings.
\<close>

section \<open>Customers\<close>

record customer_create =
  cc_provider :: string
  cc_external_id :: string
  cc_email :: "string option"
  cc_display_name :: "string option"
  cc_status :: customer_status
  cc_metadata :: payload

record customer_update =
  cx_display_name :: "string option"
  cx_email :: "string option"
  cx_status :: "customer_status option"
  cx_metadata :: "payload option"

definition customer_of :: "uuid \<Rightarrow> customer_create \<Rightarrow> customer" where
  "customer_of i d =
     \<lparr>cu_id = i, cu_provider = cc_provider d, cu_external_id = cc_external_id d, cu_email = cc_email d,
      cu_display_name = cc_display_name d, cu_status = cc_status d, cu_metadata = cc_metadata d\<rparr>"

definition create_customer :: "uuid \<Rightarrow> customer_create \<Rightarrow> session \<Rightarrow> py_error + (customer \<times> session)" where
  "create_customer i d s =
     (case find_customer_ref s (cc_provider d) (cc_external_id d) of
        Some _ \<Rightarrow> Inl (AppError (DuplicateEntity ''Customer'' (cc_provider d @ '':'' @ cc_external_id d)))
      | None \<Rightarrow>
          (let c = customer_of i d
           in ebind (commit (s\<lparr>customers := customers s @ [c]\<rparr>)) (\<lambda>u. Inr (c, u))))"

definition get_customer :: "session \<Rightarrow> uuid \<Rightarrow> py_error + customer" where
  "get_customer s i =
     (case find_customer s i of None \<Rightarrow> Inl (AppError (EntityNotFound ''Customer'' i)) | Some c \<Rightarrow> Inr c)"

definition customer_by_external_id :: "session \<Rightarrow> string \<Rightarrow> string \<Rightarrow> py_error + customer" where
  "customer_by_external_id s prov ref =
     (case find_customer_ref s prov ref of
        None \<Rightarrow> Inl (AppError (EntityNotFound ''Customer'' (prov @ '':'' @ ref)))
      | Some c \<Rightarrow> Inr c)"

text \<open>An update sets the fields that are given and merges the metadata key by key.\<close>

definition updated_customer :: "customer_update \<Rightarrow> customer \<Rightarrow> customer" where
  "updated_customer d c =
     c\<lparr>cu_display_name := (case cx_display_name d of None \<Rightarrow> cu_display_name c | Some n \<Rightarrow> Some n),
       cu_email := (case cx_email d of None \<Rightarrow> cu_email c | Some m \<Rightarrow> Some m),
       cu_status := (case cx_status d of None \<Rightarrow> cu_status c | Some st \<Rightarrow> st),
       cu_metadata := (case cx_metadata d of None \<Rightarrow> cu_metadata c | Some m \<Rightarrow> dict_update (cu_metadata c) m)\<rparr>"

definition update_customer :: "uuid \<Rightarrow> customer_update \<Rightarrow> session \<Rightarrow> py_error + (customer \<times> session)" where
  "update_customer i d s =
     (case find_customer s i of
        None \<Rightarrow> Inl (AppError (EntityNotFound ''Customer'' i))
      | Some c \<Rightarrow>
          (let c' = updated_customer d c
           in ebind (commit (s\<lparr>customers := upd_by cu_id c' (customers s)\<rparr>)) (\<lambda>u. Inr (c', u))))"

section \<open>Transactions\<close>

record transaction_create =
  tc_customer_id :: uuid
  tc_provider :: string
  tc_external_id :: string
  tc_amount_minor :: int
  tc_currency :: string
  tc_status :: transaction_status
  tc_failure_code :: "string option"
  tc_failure_message :: "string option"
  tc_occurred_at :: "pydatetime option"
  tc_metadata :: payload

definition transaction_of :: "uuid \<Rightarrow> pydatetime \<Rightarrow> transaction_create \<Rightarrow> transaction" where
  "transaction_of i now d =
     \<lparr>tx_id = i, tx_customer_id = tc_customer_id d, tx_provider = tc_provider d,
      tx_external_id = tc_external_id d, tx_amount_minor = tc_amount_minor d, tx_currency = tc_currency d,
      tx_status = tc_status d, tx_failure_code = tc_failure_code d,
      tx_failure_message = tc_failure_message d,
      tx_occurred_at = (case tc_occurred_at d of None \<Rightarrow> now | Some t \<Rightarrow> t), tx_metadata = tc_metadata d\<rparr>"

definition record_transaction ::
  "uuid \<Rightarrow> pydatetime \<Rightarrow> transaction_create \<Rightarrow> session \<Rightarrow> py_error + (transaction \<times> session)" where
  "record_transaction i now d s =
     (case find_customer s (tc_customer_id d) of
        None \<Rightarrow> Inl (AppError (EntityNotFound ''Customer'' (tc_customer_id d)))
      | Some _ \<Rightarrow>
          (case find_transaction_ref s (tc_provider d) (tc_external_id d) of
             Some _ \<Rightarrow> Inl (AppError (DuplicateEntity ''Transaction'' (tc_provider d @ '':'' @ tc_external_id d)))
           | None \<Rightarrow>
               (let t = transaction_of i now d
                in ebind (commit (s\<lparr>transactions := transactions s @ [t]\<rparr>)) (\<lambda>u. Inr (t, u)))))"

definition get_transaction :: "session \<Rightarrow> uuid \<Rightarrow> py_error + transaction" where
  "get_transaction s i =
     (case find_transaction s i of
        None \<Rightarrow> Inl (AppError (EntityNotFound ''Transaction'' i)) | Some t \<Rightarrow> Inr t)"

definition transaction_by_external_id :: "session \<Rightarrow> string \<Rightarrow> string \<Rightarrow> py_error + transaction" where
  "transaction_by_external_id s prov ref =
     (case find_transaction_ref s prov ref of
        None \<Rightarrow> Inl (AppError (EntityNotFound ''Transaction'' (prov @ '':'' @ ref)))
      | Some t \<Rightarrow> Inr t)"

section \<open>The audit trail\<close>

record audit_create =
  ac_case_id :: uuid
  ac_event_type :: string
  ac_actor_type :: actor_type
  ac_correlation_id :: string
  ac_actor_id :: "string option"
  ac_payload :: payload
  ac_from_state :: "case_state option"
  ac_to_state :: "case_state option"

definition audit_of :: "pydatetime \<Rightarrow> int \<Rightarrow> audit_create \<Rightarrow> audit_event" where
  "audit_of now n d =
     \<lparr>ae_case_id = ac_case_id d, ae_event_type = ac_event_type d, ae_from_state = ac_from_state d,
      ae_to_state = ac_to_state d, ae_actor_type = ac_actor_type d, ae_actor_id = ac_actor_id d,
      ae_correlation_id = ac_correlation_id d, ae_event_time = now, ae_payload = ac_payload d,
      ae_sequence_number = n\<rparr>"

definition record_event :: "pydatetime \<Rightarrow> audit_create \<Rightarrow> session \<Rightarrow> py_error + (audit_event \<times> session)" where
  "record_event now d s =
     (case find_case s (ac_case_id d) of
        None \<Rightarrow> Inl (AppError (EntityNotFound ''RecoveryCase'' (ac_case_id d)))
      | Some _ \<Rightarrow>
          (let a = audit_of now (next_audit_seq s (ac_case_id d)) d
           in ebind (commit (add_audit a s)) (\<lambda>u. Inr (a, u))))"

definition audit_trail_of :: "session \<Rightarrow> uuid \<Rightarrow> audit_event list" where
  "audit_trail_of s cid =
     sort_key ae_sequence_number (filter (\<lambda>a. ae_case_id a = cid) (audit_rows s))"

definition get_audit_trail_for_case :: "session \<Rightarrow> uuid \<Rightarrow> py_error + audit_event list" where
  "get_audit_trail_for_case s cid =
     (case find_case s cid of
        None \<Rightarrow> Inl (AppError (EntityNotFound ''RecoveryCase'' cid)) | Some _ \<Rightarrow> Inr (audit_trail_of s cid))"

definition get_events_by_correlation_id :: "session \<Rightarrow> string \<Rightarrow> audit_event list" where
  "get_events_by_correlation_id s corr =
     sort_key (\<lambda>a. instant (ae_event_time a)) (filter (\<lambda>a. ae_correlation_id a = corr) (audit_rows s))"

section \<open>What the services promise\<close>

lemma insort_key_snoc: "k x \<le> k z \<Longrightarrow> insort_key k x (ys @ [z]) = insort_key k x ys @ [z]"
  by (induction ys) auto

lemma sort_key_snoc: "\<forall>y \<in> set xs. k y \<le> k z \<Longrightarrow> sort_key k (xs @ [z]) = sort_key k xs @ [z]"
  by (induction xs) (auto simp: insort_key_snoc)

text \<open>On a consistent database an audit record of a stored case is always
  accepted and extends the case's trail by exactly that record, at its end; every record that was in
  the trail keeps its place, and the trails of the other cases are untouched.\<close>

theorem audit_trail_is_append_only:
  assumes "session_ok s" and "find_case s (ac_case_id d) \<noteq> None"
  shows "\<exists>a u trail. record_event now d s = Inr (a, u) \<and> session_ok u
    \<and> get_audit_trail_for_case s (ac_case_id d) = Inr trail
    \<and> get_audit_trail_for_case u (ac_case_id d) = Inr (trail @ [a])
    \<and> (\<forall>x \<in> set trail. ae_sequence_number x < ae_sequence_number a)
    \<and> (\<forall>cid. cid \<noteq> ac_case_id d \<longrightarrow> get_audit_trail_for_case u cid = get_audit_trail_for_case s cid)"
proof -
  let ?cid = "ac_case_id d"
  let ?a = "audit_of now (next_audit_seq s ?cid) d"
  have pend: "audit_pending s = []" "transition_pending s = []" and v: "violated s = None"
    using assms(1) by (simp_all add: session_ok_def)
  have "?cid = ae_case_id ?a" "ae_sequence_number ?a = next_audit_seq s ?cid" by (simp_all add: audit_of_def)
  then have v': "violated (add_audit ?a s) = None"
    using v pend next_audit_seq_fresh [of ?cid s]
    by (simp add: violated_None_iff add_audit_def audit_unique_snoc)
  let ?u = "flushed (add_audit ?a s)"
  have run: "record_event now d s = Inr (?a, ?u)"
    using assms(2) v' by (auto simp: record_event_def commit_ok Let_def)
  have rows: "audit_rows ?u = audit_rows s @ [?a]" using pend by (simp add: add_audit_def)
  have cases: "find_case (add_audit ?a s) i = find_case s i" for i by (simp add: find_case_def add_audit_def)
  have above: "ae_sequence_number x < ae_sequence_number ?a" if "x \<in> set (audit_trail_of s ?cid)" for x
    using that next_seq_gt [of "ae_sequence_number x" "audit_seqs s ?cid"]
    by (auto simp: audit_trail_of_def audit_of_def next_audit_seq_def audit_seqs_def)
  have own: "audit_trail_of ?u ?cid = audit_trail_of s ?cid @ [?a]"
    using above unfolding audit_trail_of_def rows
    by (subst filter_append, simp add: audit_of_def, subst sort_key_snoc) (auto intro: less_imp_le)
  have other: "audit_trail_of ?u cid = audit_trail_of s cid" if "cid \<noteq> ?cid" for cid
    using that unfolding audit_trail_of_def rows by (simp add: audit_of_def)
  show ?thesis
    using run session_ok_flushed [OF v'] assms(2) own other above
    by (auto simp: get_audit_trail_for_case_def cases split: option.splits)
qed

text \<open>
  A customer that is registered and a transaction recorded for it are found again under both of
  their keys, and neither can be registered a second time.
\<close>

theorem registered_records_come_back:
  assumes "session_ok s" and "i \<notin> cu_id ` set (customers s)" and "j \<notin> tx_id ` set (transactions s)"
    and "find_customer_ref s (cc_provider cd) (cc_external_id cd) = None"
    and "find_transaction_ref s (tc_provider td) (tc_external_id td) = None" and "tc_customer_id td = i"
  shows "\<exists>c t u v. create_customer i cd s = Inr (c, u) \<and> record_transaction j now td u = Inr (t, v) \<and> session_ok v
    \<and> get_customer v i = Inr c \<and> customer_by_external_id v (cc_provider cd) (cc_external_id cd) = Inr c
    \<and> get_transaction v j = Inr t \<and> transaction_by_external_id v (tc_provider td) (tc_external_id td) = Inr t
    \<and> tx_amount_minor t = tc_amount_minor td \<and> tx_customer_id t = cu_id c
    \<and> \<not> is_ok (create_customer i2 cd v) \<and> \<not> is_ok (record_transaction j2 now2 td v)"
proof -
  let ?c = "customer_of i cd" and ?t = "transaction_of j now td"
  let ?u = "s\<lparr>customers := customers s @ [?c]\<rparr>"
  let ?v = "?u\<lparr>transactions := transactions ?u @ [?t]\<rparr>"
  have c: "cu_id ?c = i" "cu_provider ?c = cc_provider cd" "cu_external_id ?c = cc_external_id cd"
    and t: "tx_id ?t = j" "tx_provider ?t = tc_provider td" "tx_external_id ?t = tc_external_id td"
      "tx_amount_minor ?t = tc_amount_minor td" "tx_customer_id ?t = i"
    using assms(6) by (simp_all add: customer_of_def transaction_of_def)
  have fu: "flush ?u = Inr ?u" using assms(1,2,4) by (intro flush_add_customer) (simp_all add: c)
  then have u: "session_ok ?u" by (rule flush_session_ok)
  have fv: "flush ?v = Inr ?v"
    using u assms(3,5) by (intro flush_add_transaction) (simp_all add: t find_transaction_ref_def)
  then have v: "session_ok ?v" by (rule flush_session_ok)
  have "find (\<lambda>x. cu_id x = i) (customers s) = None" "find (\<lambda>x. tx_id x = j) (transactions s) = None"
    using assms(2,3) by (auto simp: find_None_iff)
  then have found: "find_customer ?u i = Some ?c" "find_customer ?v i = Some ?c" "find_transaction ?v j = Some ?t"
    by (simp_all add: find_customer_def find_transaction_def find_snoc c t)
  have refs: "find_customer_ref ?v (cc_provider cd) (cc_external_id cd) = Some ?c"
    "find_transaction_ref ?v (tc_provider td) (tc_external_id td) = Some ?t"
    using assms(4,5) by (simp_all add: find_customer_ref_def find_transaction_ref_def find_snoc c t)
  have "create_customer i cd s = Inr (?c, ?u)"
    using assms(4) fu by (simp add: create_customer_def commit_def Let_def)
  moreover have "record_transaction j now td ?u = Inr (?t, ?v)"
    using assms(5,6) found(1) fv by (simp add: record_transaction_def commit_def find_transaction_ref_def Let_def)
  ultimately show ?thesis
    using v found refs c t assms(6)
    by (simp add: get_customer_def get_transaction_def customer_by_external_id_def
        transaction_by_external_id_def create_customer_def record_transaction_def)
qed

text \<open>
  An update that gives no field changes nothing; no update touches the keys or a metadata key it
  does not name.
\<close>

lemma updated_customer_keeps:
  "cu_id (updated_customer d c) = cu_id c" "customer_key (updated_customer d c) = customer_key c"
  "cx_metadata d = Some m \<Longrightarrow> k \<notin> fst ` set m \<Longrightarrow>
     map_of (cu_metadata (updated_customer d c)) k = map_of (cu_metadata c) k"
  by (simp_all add: updated_customer_def dict_update_other)

lemma updated_customer_nothing:
  "updated_customer \<lparr>cx_display_name = None, cx_email = None, cx_status = None, cx_metadata = None\<rparr> c = c"
  by (simp add: updated_customer_def)

section \<open>On a concrete database\<close>

definition demo_audit_create :: audit_create where
  "demo_audit_create =
     \<lparr>ac_case_id = ''case1'', ac_event_type = ''NOTE'', ac_actor_type = Actor_SYSTEM, ac_correlation_id = ''k'',
      ac_actor_id = None, ac_payload = [], ac_from_state = None, ac_to_state = None\<rparr>"

lemma audit_trail_is_append_only_witness:
  "\<exists>a u trail. record_event demo_now demo_audit_create demo_opened_session = Inr (a, u)
     \<and> get_audit_trail_for_case u ''case1'' = Inr (trail @ [a])"
proof -
  have f: "find_case demo_opened_session (ac_case_id demo_audit_create) \<noteq> None" by code_simp
  have c: "ac_case_id demo_audit_create = ''case1''" by (simp add: demo_audit_create_def)
  show ?thesis
    using audit_trail_is_append_only [OF demo_opened_ok f, of demo_now] unfolding c by blast
qed

definition demo_customer_create :: customer_create where
  "demo_customer_create =
     \<lparr>cc_provider = ''stripe'', cc_external_id = ''c9'', cc_email = None, cc_display_name = None,
      cc_status = Cust_ACTIVE, cc_metadata = []\<rparr>"

definition demo_transaction_create :: transaction_create where
  "demo_transaction_create =
     \<lparr>tc_customer_id = ''u9'', tc_provider = ''stripe'', tc_external_id = ''pay_9'', tc_amount_minor = 700,
      tc_currency = ''EUR'', tc_status = Tx_FAILED, tc_failure_code = None, tc_failure_message = None,
      tc_occurred_at = None, tc_metadata = []\<rparr>"

lemma registered_records_come_back_witness:
  "\<exists>c t u v. create_customer ''u9'' demo_customer_create empty_session = Inr (c, u)
     \<and> record_transaction ''t9'' demo_now demo_transaction_create u = Inr (t, v) \<and> get_transaction v ''t9'' = Inr t"
proof -
  have "''u9'' \<notin> cu_id ` set (customers empty_session)" "''t9'' \<notin> tx_id ` set (transactions empty_session)"
    "find_customer_ref empty_session (cc_provider demo_customer_create) (cc_external_id demo_customer_create) = None"
    "find_transaction_ref empty_session (tc_provider demo_transaction_create)
       (tc_external_id demo_transaction_create) = None"
    "tc_customer_id demo_transaction_create = ''u9''"
    by code_simp+
  from registered_records_come_back [OF empty_session_ok this, of demo_now] show ?thesis by blast
qed

end
