(* ===== verification/Safety_Policy.thy ===== *)
theory Safety_Policy
  imports Domain
begin

text \<open>
  The deterministic safety policy of \<open>backend/app/policy/safety.py\<close>, the gate the vertical
  workflow asks before it drafts an action: \<open>SafetyPolicy.evaluate\<close>, its configuration and the
  retry counter.
\<close>

datatype policy_outcome = Out_ALLOW | Out_REJECT | Out_STOP | Out_ESCALATE

datatype policy_reason =
    Rsn_ALLOWED
  | Rsn_CASE_TERMINAL
  | Rsn_TRANSACTION_ALREADY_SUCCEEDED
  | Rsn_RETRY_LIMIT_REACHED
  | Rsn_DUPLICATE_ATTEMPT
  | Rsn_ACTION_NOT_PERMITTED
  | Rsn_UNCERTAIN_OUTCOME_REQUIRES_VERIFICATION
  | Rsn_MISSING_IDEMPOTENCY_KEY
  | Rsn_CASE_STATE_NOT_ACTIONABLE

primrec policy_outcome_value :: "policy_outcome \<Rightarrow> string" where
  "policy_outcome_value Out_ALLOW = ''allow''"
| "policy_outcome_value Out_REJECT = ''reject''"
| "policy_outcome_value Out_STOP = ''stop''"
| "policy_outcome_value Out_ESCALATE = ''escalate''"

primrec policy_reason_value :: "policy_reason \<Rightarrow> string" where
  "policy_reason_value Rsn_ALLOWED = ''allowed''"
| "policy_reason_value Rsn_CASE_TERMINAL = ''case_terminal''"
| "policy_reason_value Rsn_TRANSACTION_ALREADY_SUCCEEDED = ''transaction_already_succeeded''"
| "policy_reason_value Rsn_RETRY_LIMIT_REACHED = ''retry_limit_reached''"
| "policy_reason_value Rsn_DUPLICATE_ATTEMPT = ''duplicate_attempt''"
| "policy_reason_value Rsn_ACTION_NOT_PERMITTED = ''action_not_permitted''"
| "policy_reason_value Rsn_UNCERTAIN_OUTCOME_REQUIRES_VERIFICATION =
     ''uncertain_outcome_requires_verification''"
| "policy_reason_value Rsn_MISSING_IDEMPOTENCY_KEY = ''missing_idempotency_key''"
| "policy_reason_value Rsn_CASE_STATE_NOT_ACTIONABLE = ''case_state_not_actionable''"

record safety_config =
  sc_max_retry_attempts :: int
  sc_allowed_actions :: "action_type list"
  sc_policy_version :: string

definition default_safety_config :: safety_config where
  "default_safety_config =
     \<lparr>sc_max_retry_attempts = 2,
      sc_allowed_actions =
        [Act_RETRY_PAYMENT, Act_SEND_REMINDER, Act_REQUEST_OPERATOR_REVIEW, Act_STOP],
      sc_policy_version = ''phase6.v1''\<rparr>"

record policy_context =
  px_case_state :: case_state
  px_transaction_status :: transaction_status
  px_action :: action_type
  px_retry_attempt_count :: int
  px_prior_idempotency_keys :: "string list"
  px_idempotency_key :: "string option"
  px_has_uncertain_attempt :: bool

record safety_decision =
  sf_outcome :: policy_outcome
  sf_reason :: policy_reason
  sf_policy_version :: string
  sf_retry_allowed :: bool
  sf_should_stop :: bool
  sf_should_escalate :: bool

definition safety_terminal_states :: "case_state list" where
  "safety_terminal_states = [Case_RECOVERED, Case_STOPPED, Case_CLOSED]"

definition safety_actionable_states :: "case_state list" where
  "safety_actionable_states = [Case_AWAITING_DECISION, Case_RETRY_ELIGIBLE]"

definition safety_reject :: "safety_config \<Rightarrow> policy_reason \<Rightarrow> safety_decision" where
  "safety_reject cfg reason =
     \<lparr>sf_outcome = Out_REJECT, sf_reason = reason, sf_policy_version = sc_policy_version cfg,
      sf_retry_allowed = False, sf_should_stop = False, sf_should_escalate = False\<rparr>"

definition safety_stop :: "safety_config \<Rightarrow> policy_reason \<Rightarrow> safety_decision" where
  "safety_stop cfg reason =
     \<lparr>sf_outcome = Out_STOP, sf_reason = reason, sf_policy_version = sc_policy_version cfg,
      sf_retry_allowed = False, sf_should_stop = True, sf_should_escalate = False\<rparr>"

definition safety_escalate :: "safety_config \<Rightarrow> policy_reason \<Rightarrow> safety_decision" where
  "safety_escalate cfg reason =
     \<lparr>sf_outcome = Out_ESCALATE, sf_reason = reason, sf_policy_version = sc_policy_version cfg,
      sf_retry_allowed = False, sf_should_stop = False, sf_should_escalate = True\<rparr>"

definition safety_evaluate :: "safety_config \<Rightarrow> policy_context \<Rightarrow> safety_decision" where
  "safety_evaluate cfg x =
     (if px_case_state x \<in> set safety_terminal_states
        then safety_stop cfg Rsn_CASE_TERMINAL
      else if px_transaction_status x = Tx_SUCCEEDED
        then safety_stop cfg Rsn_TRANSACTION_ALREADY_SUCCEEDED
      else if px_action x \<notin> set (sc_allowed_actions cfg)
        then safety_reject cfg Rsn_ACTION_NOT_PERMITTED
      else if px_action x = Act_RETRY_PAYMENT \<and> px_case_state x \<notin> set safety_actionable_states
        then safety_reject cfg Rsn_CASE_STATE_NOT_ACTIONABLE
      else if px_action x = Act_RETRY_PAYMENT \<and> px_retry_attempt_count x \<ge> sc_max_retry_attempts cfg
        then safety_escalate cfg Rsn_RETRY_LIMIT_REACHED
      else if px_action x = Act_RETRY_PAYMENT \<and> px_has_uncertain_attempt x
        then safety_escalate cfg Rsn_UNCERTAIN_OUTCOME_REQUIRES_VERIFICATION
      else if px_action x = Act_RETRY_PAYMENT \<and> \<not> truthy (px_idempotency_key x)
        then safety_reject cfg Rsn_MISSING_IDEMPOTENCY_KEY
      else if truthy (px_idempotency_key x)
              \<and> or_empty (px_idempotency_key x) \<in> set (px_prior_idempotency_keys x)
        then safety_reject cfg Rsn_DUPLICATE_ATTEMPT
      else \<lparr>sf_outcome = Out_ALLOW, sf_reason = Rsn_ALLOWED, sf_policy_version = sc_policy_version cfg,
            sf_retry_allowed = (px_action x = Act_RETRY_PAYMENT), sf_should_stop = False,
            sf_should_escalate = False\<rparr>)"

definition count_retry_attempts :: "attempt_status list \<Rightarrow> int" where
  "count_retry_attempts sts = sum_list (map (\<lambda>st. if st \<noteq> Att_CANCELLED then 1 else 0) sts)"

lemmas safety_outcomes = safety_reject_def safety_stop_def safety_escalate_def

text \<open>The two flags repeat the outcome, and a retry is allowed only by an ALLOW.\<close>

lemma safety_flags:
  "sf_should_stop (safety_evaluate cfg x) \<longleftrightarrow> sf_outcome (safety_evaluate cfg x) = Out_STOP"
  "sf_should_escalate (safety_evaluate cfg x) \<longleftrightarrow> sf_outcome (safety_evaluate cfg x) = Out_ESCALATE"
  "sf_retry_allowed (safety_evaluate cfg x) \<longleftrightarrow>
     sf_outcome (safety_evaluate cfg x) = Out_ALLOW \<and> px_action x = Act_RETRY_PAYMENT"
  by (simp_all add: safety_evaluate_def safety_outcomes)

lemma safety_allow_iff:
  "sf_outcome (safety_evaluate cfg x) = Out_ALLOW \<longleftrightarrow>
     px_case_state x \<notin> set safety_terminal_states \<and> px_transaction_status x \<noteq> Tx_SUCCEEDED
     \<and> px_action x \<in> set (sc_allowed_actions cfg)
     \<and> (px_action x = Act_RETRY_PAYMENT \<longrightarrow>
          px_case_state x \<in> set safety_actionable_states
          \<and> px_retry_attempt_count x < sc_max_retry_attempts cfg
          \<and> \<not> px_has_uncertain_attempt x \<and> truthy (px_idempotency_key x))
     \<and> (truthy (px_idempotency_key x) \<longrightarrow>
          or_empty (px_idempotency_key x) \<notin> set (px_prior_idempotency_keys x))"
  by (simp add: safety_evaluate_def safety_outcomes not_le)

text \<open>The safety policy allows an action exactly when the case is not terminal, the
  transaction has not succeeded, the action is on the allow-list, its idempotency key was not used
  before, and, for a payment retry, the case is actionable, the retry budget is not spent, no
  attempt is uncertain and there is an idempotency key. Its retry flag is set only on such an
  answer for a retry, so a spent budget or an uncertain attempt never yields a retry.\<close>

theorem safety_allows_exactly:
  "(sf_outcome (safety_evaluate cfg x) = Out_ALLOW \<longleftrightarrow>
     px_case_state x \<notin> set safety_terminal_states \<and> px_transaction_status x \<noteq> Tx_SUCCEEDED
     \<and> px_action x \<in> set (sc_allowed_actions cfg)
     \<and> (px_action x = Act_RETRY_PAYMENT \<longrightarrow>
          px_case_state x \<in> set safety_actionable_states
          \<and> px_retry_attempt_count x < sc_max_retry_attempts cfg
          \<and> \<not> px_has_uncertain_attempt x \<and> truthy (px_idempotency_key x))
     \<and> (truthy (px_idempotency_key x) \<longrightarrow>
          or_empty (px_idempotency_key x) \<notin> set (px_prior_idempotency_keys x)))
   \<and> (sf_retry_allowed (safety_evaluate cfg x) \<longleftrightarrow>
         sf_outcome (safety_evaluate cfg x) = Out_ALLOW \<and> px_action x = Act_RETRY_PAYMENT)"
  using safety_allow_iff safety_flags(3) by blast

definition demo_context :: policy_context where
  "demo_context =
     \<lparr>px_case_state = Case_AWAITING_DECISION, px_transaction_status = Tx_FAILED,
      px_action = Act_RETRY_PAYMENT, px_retry_attempt_count = 1, px_prior_idempotency_keys = [''a''],
      px_idempotency_key = Some ''b'', px_has_uncertain_attempt = False\<rparr>"

lemma safety_allows_exactly_witness:
  "sf_retry_allowed (safety_evaluate default_safety_config demo_context)"
proof -
  have "px_case_state demo_context \<in> set safety_actionable_states"
    "px_case_state demo_context \<notin> set safety_terminal_states"
    "px_action demo_context \<in> set (sc_allowed_actions default_safety_config)"
    "px_retry_attempt_count demo_context < sc_max_retry_attempts default_safety_config"
    "truthy (px_idempotency_key demo_context)"
    "or_empty (px_idempotency_key demo_context) \<notin> set (px_prior_idempotency_keys demo_context)"
    by code_simp+
  then show ?thesis
    using safety_allows_exactly [of default_safety_config demo_context]
    by (simp add: demo_context_def)
qed

lemma count_retry_attempts_alt:
  "count_retry_attempts sts = int (length (filter (\<lambda>st. st \<noteq> Att_CANCELLED) sts))"
  by (induction sts) (simp_all add: count_retry_attempts_def)

end
