(* ===== verification/Resilience.thy ===== *)
theory Resilience
  imports Prelude
begin

text \<open>
  The resilience boundary: \<open>ResiliencePolicy\<close> of \<open>backend/app/resilience/recovery.py\<close>, which turns a
  failure into a disposition with a bounded backoff, and \<open>ResilientExecutor\<close> of
  \<open>backend/app/resilience/executor.py\<close>, which runs one operation and classifies how it ended.

  What the operation does within its timeout is an argument, \<open>call_end\<close>. On the Python versions that
  have \<open>StrEnum\<close>, \<open>concurrent.futures.TimeoutError\<close> is the builtin \<open>TimeoutError\<close>, so the first
  handler catches both. The safe messages and the creation of resume envelopes, which only copies
  its arguments, are data without logic; the envelope is kept as a record.
\<close>

datatype failure_kind =
    Kind_TIMEOUT
  | Kind_TRANSIENT_API
  | Kind_PERMANENT_API
  | Kind_INVALID_AGENT_OUTPUT
  | Kind_UNCERTAIN_OUTCOME
  | Kind_DUPLICATE_REQUEST
  | Kind_UNKNOWN

datatype disposition = Disp_RETRY | Disp_VERIFY | Disp_ESCALATE | Disp_STOP

record retry_schedule =
  rs_attempt_number :: int
  rs_next_attempt_at :: pydatetime
  rs_delay_seconds :: int
  rs_max_attempts :: int

record failure_classification =
  fc_kind :: failure_kind
  fc_disposition :: disposition
  fc_retryable :: bool
  fc_schedule :: "retry_schedule option"

record resilience_policy =
  rp_max_attempts :: int
  rp_base_delay :: int
  rp_max_delay :: int

definition mk_resilience_policy :: "int \<Rightarrow> int \<Rightarrow> int \<Rightarrow> py_error + resilience_policy" where
  "mk_resilience_policy max_attempts base_delay max_delay =
     (if max_attempts < 1 then Inl (ValueError ''max_attempts must be positive'')
      else Inr \<lparr>rp_max_attempts = max_attempts, rp_base_delay = base_delay, rp_max_delay = max_delay\<rparr>)"

definition default_resilience_policy :: resilience_policy where
  "default_resilience_policy = \<lparr>rp_max_attempts = 2, rp_base_delay = 30, rp_max_delay = 3600\<rparr>"

definition final_classification :: "failure_kind \<Rightarrow> disposition \<Rightarrow> failure_classification" where
  "final_classification kind disp =
     \<lparr>fc_kind = kind, fc_disposition = disp, fc_retryable = False, fc_schedule = None\<rparr>"

definition backoff_delay :: "resilience_policy \<Rightarrow> int \<Rightarrow> int" where
  "backoff_delay p attempt = min (rp_base_delay p * 2 ^ nat (max (attempt - 1) 0)) (rp_max_delay p)"

definition classify :: "resilience_policy \<Rightarrow> failure_kind \<Rightarrow> int \<Rightarrow> pydatetime \<Rightarrow> failure_classification" where
  "classify p kind attempt now =
     (if kind = Kind_UNCERTAIN_OUTCOME then final_classification kind Disp_VERIFY
      else if kind = Kind_INVALID_AGENT_OUTPUT then final_classification kind Disp_ESCALATE
      else if kind = Kind_PERMANENT_API then final_classification kind Disp_ESCALATE
      else if kind = Kind_DUPLICATE_REQUEST then final_classification kind Disp_STOP
      else if attempt \<ge> rp_max_attempts p then final_classification kind Disp_ESCALATE
      else if kind \<in> {Kind_TIMEOUT, Kind_TRANSIENT_API, Kind_UNKNOWN}
      then \<lparr>fc_kind = kind, fc_disposition = Disp_RETRY, fc_retryable = True,
            fc_schedule = Some
              \<lparr>rs_attempt_number = attempt + 1,
               rs_next_attempt_at = add_us (as_utc now) (backoff_delay p attempt * us_per_second),
               rs_delay_seconds = backoff_delay p attempt, rs_max_attempts = rp_max_attempts p\<rparr>\<rparr>
      else final_classification kind Disp_ESCALATE)"

record resume_envelope =
  re_envelope_id :: uuid
  re_case_id :: uuid
  re_attempt_id :: "uuid option"
  re_phase :: string
  re_idempotency_key :: string
  re_correlation_id :: string
  re_created_at :: pydatetime
  re_payload :: "(string \<times> string) list"

section \<open>The executor\<close>

datatype raised = Raised_timeout | Raised_connection | Raised_value | Raised_other

datatype 'a call_end = Returned 'a | Raised raised | Timed_out

record 'a execution_result =
  xr_value :: "'a option"
  xr_classification :: "failure_classification option"

definition succeeded :: "'a execution_result \<Rightarrow> bool" where
  "succeeded r = (xr_classification r = None)"

fun kind_of_raised :: "raised \<Rightarrow> failure_kind" where
  "kind_of_raised Raised_timeout = Kind_TIMEOUT"
| "kind_of_raised Raised_connection = Kind_TRANSIENT_API"
| "kind_of_raised Raised_value = Kind_PERMANENT_API"
| "kind_of_raised Raised_other = Kind_UNKNOWN"

definition classified :: "resilience_policy \<Rightarrow> failure_kind \<Rightarrow> int \<Rightarrow> pydatetime \<Rightarrow> 'a execution_result" where
  "classified p kind attempt now =
     \<lparr>xr_value = None, xr_classification = Some (classify p kind attempt now)\<rparr>"

definition execute :: "resilience_policy \<Rightarrow> 'a call_end \<Rightarrow> int \<Rightarrow> pydatetime \<Rightarrow> 'a execution_result" where
  "execute p ending attempt now =
     (case ending of
        Returned v \<Rightarrow> \<lparr>xr_value = Some v, xr_classification = None\<rparr>
      | Timed_out \<Rightarrow> classified p Kind_TIMEOUT attempt now
      | Raised e \<Rightarrow> classified p (kind_of_raised e) attempt now)"

definition uncertain :: "resilience_policy \<Rightarrow> int \<Rightarrow> pydatetime \<Rightarrow> 'a execution_result" where
  "uncertain p attempt now = classified p Kind_UNCERTAIN_OUTCOME attempt now"

section \<open>Bounds of the schedule\<close>

lemma classify_retry_iff:
  "fc_retryable (classify p kind attempt now) \<longleftrightarrow>
     kind \<in> {Kind_TIMEOUT, Kind_TRANSIENT_API, Kind_UNKNOWN} \<and> attempt < rp_max_attempts p"
  by (cases kind) (simp_all add: classify_def final_classification_def not_le)

lemma classify_schedule:
  "fc_schedule (classify p kind attempt now) =
     (if fc_retryable (classify p kind attempt now)
      then Some \<lparr>rs_attempt_number = attempt + 1,
                 rs_next_attempt_at = add_us (as_utc now) (backoff_delay p attempt * us_per_second),
                 rs_delay_seconds = backoff_delay p attempt, rs_max_attempts = rp_max_attempts p\<rparr>
      else None)"
  by (cases kind) (simp_all add: classify_def final_classification_def)

lemma classify_disposition:
  "fc_disposition (classify p kind attempt now) = Disp_RETRY \<longleftrightarrow> fc_retryable (classify p kind attempt now)"
  by (cases kind) (simp_all add: classify_def final_classification_def)

lemma backoff_mono: "0 \<le> rp_base_delay p \<Longrightarrow> a \<le> b \<Longrightarrow> backoff_delay p a \<le> backoff_delay p b"
  unfolding backoff_delay_def
  by (intro min.mono mult_left_mono power_increasing nat_mono) simp_all

text \<open>Following the schedules: the number of calls made when every call fails transiently.\<close>

function attempts_made :: "resilience_policy \<Rightarrow> int \<Rightarrow> pydatetime \<Rightarrow> nat" where
  "attempts_made p attempt now =
     (case fc_schedule (classify p Kind_TRANSIENT_API attempt now) of
        None \<Rightarrow> 1
      | Some sch \<Rightarrow> Suc (attempts_made p (rs_attempt_number sch) (rs_next_attempt_at sch)))"
  by pat_completeness auto
termination
  by (relation "measure (\<lambda>(p, attempt, now). nat (rp_max_attempts p - attempt))")
    (auto simp: classify_schedule classify_retry_iff split: if_splits)

declare attempts_made.simps [simp del]

lemma attempts_made_eq: "attempts_made p attempt now = Suc (nat (rp_max_attempts p - attempt))"
proof (induction p attempt now rule: attempts_made.induct)
  case (1 p attempt now)
  show ?case
  proof (cases "attempt < rp_max_attempts p")
    case True
    then have "fc_retryable (classify p Kind_TRANSIENT_API attempt now)" by (simp add: classify_retry_iff)
    with 1 True show ?thesis
      by (simp add: attempts_made.simps [of p attempt now] classify_schedule Suc_nat_eq_nat_zadd1)
  next
    case False
    then have "\<not> fc_retryable (classify p Kind_TRANSIENT_API attempt now)" by (simp add: classify_retry_iff)
    with False show ?thesis by (simp add: attempts_made.simps [of p attempt now] classify_schedule)
  qed
qed

text \<open>C36: A failed call is rescheduled only after a timeout, a transient or an unknown
  error and below the attempt limit; never after an uncertain outcome, a rejection, an invalid agent
  answer or a duplicate. A schedule names the next attempt, within the limit, and a delay between
  the base delay and the maximum that never shrinks from attempt to attempt; following the schedules
  from the first attempt makes exactly as many calls as the limit says.\<close>

theorem retries_are_bounded:
  assumes "mk_resilience_policy n base mx = Inr p" and "0 \<le> base" and "base \<le> mx"
  shows "(fc_schedule (classify p kind attempt now) \<noteq> None \<longleftrightarrow>
            kind \<in> {Kind_TIMEOUT, Kind_TRANSIENT_API, Kind_UNKNOWN} \<and> attempt < n)
    \<and> (\<forall>sch. fc_schedule (classify p kind attempt now) = Some sch \<longrightarrow>
          rs_attempt_number sch = attempt + 1 \<and> rs_attempt_number sch \<le> n
          \<and> base \<le> rs_delay_seconds sch \<and> rs_delay_seconds sch \<le> mx
          \<and> rs_next_attempt_at sch = add_us (as_utc now) (rs_delay_seconds sch * us_per_second)
          \<and> rs_delay_seconds sch \<le> backoff_delay p (attempt + 1))
    \<and> attempts_made p 1 now = nat n"
proof -
  have p: "rp_max_attempts p = n" "rp_base_delay p = base" "rp_max_delay p = mx" "1 \<le> n"
    using assms(1) by (auto simp: mk_resilience_policy_def split: if_splits)
  have "base * 1 \<le> base * 2 ^ nat (max (attempt - 1) 0)"
    using assms(2) by (intro mult_left_mono) simp_all
  then have "base \<le> backoff_delay p attempt" using assms(3) p by (simp add: backoff_delay_def)
  moreover have "backoff_delay p attempt \<le> mx" using p by (simp add: backoff_delay_def)
  moreover have "backoff_delay p attempt \<le> backoff_delay p (attempt + 1)"
    using assms(2) p by (intro backoff_mono) simp_all
  moreover have "attempts_made p 1 now = nat n"
    using p by (simp add: attempts_made_eq Suc_nat_eq_nat_zadd1)
  ultimately show ?thesis
    using p by (auto simp: classify_schedule classify_retry_iff)
qed

lemma retries_are_bounded_witness:
  "attempts_made default_resilience_policy 1 (Aware 0) = 2
     \<and> fc_schedule (classify default_resilience_policy Kind_TIMEOUT 1 (Aware 0)) \<noteq> None"
  using retries_are_bounded [of 2 30 3600 default_resilience_policy Kind_TIMEOUT 1 "Aware 0"]
  by (simp add: mk_resilience_policy_def default_resilience_policy_def)

end
