(* ===== verification/Evaluation.thy ===== *)
theory Evaluation
  imports Safety_Policy Resilience
begin

text \<open>
  The offline benchmark: scenarios and the batch engine (\<open>backend/app/evaluation/simulator.py\<close>), its
  metrics (evaluation/metrics.py) and the counterfactual baselines (evaluation/baselines.py).

  A rate is a \<open>Decimal\<close> of four places, kept as a number of ten-thousandths: the exact quotient
  rounded half to even, which the 28 digits of the intermediate quotient reproduce for denominators
  below \<open>10 ^ 23\<close>. The baselines divide in floating point; that rate is the parameter \<open>float_rate\<close>.
  The namespaced uuid of a scenario is not modelled; the report is in Evaluation_Report.
\<close>

section \<open>Scenarios\<close>

datatype scenario_outcome = Sc_RECOVERABLE | Sc_PERMANENT_FAILURE | Sc_UNCERTAIN | Sc_ALREADY_SUCCEEDED

primrec scenario_outcome_value :: "scenario_outcome \<Rightarrow> string" where
  "scenario_outcome_value Sc_RECOVERABLE = ''recoverable''"
| "scenario_outcome_value Sc_PERMANENT_FAILURE = ''permanent_failure''"
| "scenario_outcome_value Sc_UNCERTAIN = ''uncertain''"
| "scenario_outcome_value Sc_ALREADY_SUCCEEDED = ''already_succeeded''"

datatype simulated_result = Sim_SUCCEEDED | Sim_FAILED | Sim_TIMEOUT | Sim_UNKNOWN

record evaluation_scenario =
  es_id :: string
  es_amount_minor :: int
  es_currency :: string
  es_outcome :: scenario_outcome
  es_proposed_action :: action_type
  es_prior_attempt_count :: int
  es_provider_result :: simulated_result
  es_expected_action :: action_type
  es_has_uncertain_attempt :: bool
  es_duplicate_idempotency :: bool

text \<open>\<open>f"{i:04d}"\<close>.\<close>

definition pad_left :: "nat \<Rightarrow> string \<Rightarrow> string" where
  "pad_left n t = replicate (n - length t) (CHR ''0'') @ t"

definition four_digits :: "int \<Rightarrow> string" where
  "four_digits i =
     (if i < 0 then CHR ''-'' # pad_left 3 (str_of_nat (nat (- i))) else pad_left 4 (str_of_nat (nat i)))"

definition scenario_templates ::
  "(scenario_outcome \<times> action_type \<times> simulated_result \<times> action_type) list" where
  "scenario_templates =
     [(Sc_RECOVERABLE, Act_RETRY_PAYMENT, Sim_SUCCEEDED, Act_RETRY_PAYMENT),
      (Sc_RECOVERABLE, Act_REQUEST_OPERATOR_REVIEW, Sim_SUCCEEDED, Act_RETRY_PAYMENT),
      (Sc_PERMANENT_FAILURE, Act_RETRY_PAYMENT, Sim_FAILED, Act_REQUEST_OPERATOR_REVIEW),
      (Sc_UNCERTAIN, Act_RETRY_PAYMENT, Sim_UNKNOWN, Act_REQUEST_OPERATOR_REVIEW),
      (Sc_ALREADY_SUCCEEDED, Act_RETRY_PAYMENT, Sim_SUCCEEDED, Act_STOP)]"

definition build_scenario :: "int \<Rightarrow> nat \<Rightarrow> evaluation_scenario" where
  "build_scenario seed index =
     (let (outcome, proposed, provider_result, expected) =
            scenario_templates ! nat ((int index + seed) mod int (length scenario_templates))
      in \<lparr>es_id = ''eval-'' @ four_digits seed @ ''-'' @ four_digits (int index),
          es_amount_minor = 1000 + (int index * 137 + seed * 17) mod 9000, es_currency = ''INR'',
          es_outcome = outcome, es_proposed_action = proposed, es_prior_attempt_count = 0,
          es_provider_result = provider_result, es_expected_action = expected,
          es_has_uncertain_attempt = False, es_duplicate_idempotency = (index mod 11 = 0)\<rparr>)"

definition build_scenarios :: "int \<Rightarrow> int \<Rightarrow> py_error + evaluation_scenario list" where
  "build_scenarios seed count =
     (if count < 1 then Inl (ValueError ''count must be positive'')
      else Inr (map (build_scenario seed) [0..<nat count]))"

section \<open>The batch engine\<close>

record simulation_result =
  sr_id :: string
  sr_amount_minor :: int
  sr_currency :: string
  sr_outcome :: scenario_outcome
  sr_proposed_action :: action_type
  sr_expected_action :: action_type
  sr_policy_decision :: safety_decision
  sr_provider_result :: "simulated_result option"
  sr_recovered :: bool
  sr_failure_kind :: "failure_kind option"
  sr_disposition :: "disposition option"
  sr_was_action_correct :: bool
  sr_was_safe :: bool

definition scenario_context :: "evaluation_scenario \<Rightarrow> policy_context" where
  "scenario_context sc =
     (let key = es_id sc @ '':attempt:1''
      in \<lparr>px_case_state = Case_RETRY_ELIGIBLE, px_transaction_status = Tx_FAILED,
          px_action = es_proposed_action sc, px_retry_attempt_count = es_prior_attempt_count sc,
          px_prior_idempotency_keys = (if es_duplicate_idempotency sc then [key] else []),
          px_idempotency_key = Some key, px_has_uncertain_attempt = es_has_uncertain_attempt sc\<rparr>)"

text \<open>What the provider's answer is classified as: whether it recovered, and the failure, with its attempt.\<close>

definition simulated_answer :: "evaluation_scenario \<Rightarrow> bool \<times> (failure_kind \<times> int) option" where
  "simulated_answer sc =
     (if es_provider_result sc = Sim_SUCCEEDED \<and> es_outcome sc = Sc_RECOVERABLE then (True, None)
      else if es_provider_result sc = Sim_TIMEOUT then (False, Some (Kind_TIMEOUT, 1))
      else if es_provider_result sc = Sim_FAILED then (False, Some (Kind_PERMANENT_API, 2))
      else if es_provider_result sc = Sim_UNKNOWN then (False, Some (Kind_UNCERTAIN_OUTCOME, 1))
      else (False, None))"

definition refused_disposition :: "policy_outcome \<Rightarrow> disposition option" where
  "refused_disposition outc =
     (if outc = Out_STOP then Some Disp_STOP
      else if outc = Out_ESCALATE then Some Disp_ESCALATE
      else if outc = Out_REJECT then Some Disp_STOP else None)"

definition run_one ::
  "safety_config \<Rightarrow> resilience_policy \<Rightarrow> pydatetime \<Rightarrow> evaluation_scenario \<Rightarrow> simulation_result" where
  "run_one cfg rp now sc =
     (let dec = safety_evaluate cfg (scenario_context sc);
          allowed = (sf_outcome dec = Out_ALLOW);
          (recovered, failure) = (if allowed then simulated_answer sc else (False, None))
      in \<lparr>sr_id = es_id sc, sr_amount_minor = es_amount_minor sc, sr_currency = es_currency sc,
          sr_outcome = es_outcome sc, sr_proposed_action = es_proposed_action sc,
          sr_expected_action = es_expected_action sc, sr_policy_decision = dec,
          sr_provider_result = (if allowed then Some (es_provider_result sc) else None),
          sr_recovered = recovered, sr_failure_kind = map_option fst failure,
          sr_disposition =
            (if allowed then map_option (\<lambda>(kind, attempt). fc_disposition (classify rp kind attempt now)) failure
             else refused_disposition (sf_outcome dec)),
          sr_was_action_correct = (es_proposed_action sc = es_expected_action sc),
          sr_was_safe = (policy_outcome_value (sf_outcome dec) \<in> {''allow'', ''stop'', ''escalate'', ''reject''})\<rparr>)"

definition run_batch ::
  "safety_config \<Rightarrow> resilience_policy \<Rightarrow> pydatetime \<Rightarrow> evaluation_scenario list \<Rightarrow> simulation_result list" where
  "run_batch cfg rp now scs = map (run_one cfg rp now) scs"

section \<open>Metrics\<close>

definition rate :: "int \<Rightarrow> int \<Rightarrow> int" where
  "rate numerator denominator =
     (if denominator = 0 then 0 else quotient_half_even (numerator * 10000) denominator)"

record evaluation_metrics =
  em_scenario_count :: int
  em_at_risk_count :: int
  em_recovered_count :: int
  em_total_at_risk_revenue_minor :: int
  em_recovered_revenue_minor :: int
  em_revenue_recovery_rate :: int
  em_case_recovery_rate :: int
  em_action_accuracy :: int
  em_safety_rate :: int
  em_failure_count :: int
  em_escalation_count :: int
  em_verification_count :: int
  em_stopped_count :: int
  em_rejected_count :: int
  em_outcome_counts :: "(string \<times> int) list"

definition count_if :: "('a \<Rightarrow> bool) \<Rightarrow> 'a list \<Rightarrow> int" where
  "count_if p xs = int (length (filter p xs))"

definition count_outcome :: "string \<Rightarrow> (string \<times> int) list \<Rightarrow> (string \<times> int) list" where
  "count_outcome k d = dict_set k ((case map_of d k of None \<Rightarrow> 0 | Some n \<Rightarrow> n) + 1) d"

definition outcome_counts :: "simulation_result list \<Rightarrow> (string \<times> int) list" where
  "outcome_counts rows = fold (\<lambda>r. count_outcome (scenario_outcome_value (sr_outcome r))) rows []"

definition calculate_metrics :: "simulation_result list \<Rightarrow> evaluation_metrics" where
  "calculate_metrics rows =
     (let at_risk = filter (\<lambda>r. sr_outcome r \<noteq> Sc_ALREADY_SUCCEEDED) rows;
          recovered = filter sr_recovered at_risk;
          total_revenue = sum_list (map sr_amount_minor at_risk);
          recovered_revenue = sum_list (map sr_amount_minor recovered)
      in \<lparr>em_scenario_count = int (length rows), em_at_risk_count = int (length at_risk),
          em_recovered_count = int (length recovered), em_total_at_risk_revenue_minor = total_revenue,
          em_recovered_revenue_minor = recovered_revenue,
          em_revenue_recovery_rate = rate recovered_revenue total_revenue,
          em_case_recovery_rate = rate (int (length recovered)) (int (length at_risk)),
          em_action_accuracy = rate (count_if sr_was_action_correct rows) (int (length rows)),
          em_safety_rate = rate (count_if sr_was_safe rows) (int (length rows)),
          em_failure_count = count_if (\<lambda>r. sr_failure_kind r \<noteq> None) rows,
          em_escalation_count = count_if (\<lambda>r. sr_disposition r = Some Disp_ESCALATE) rows,
          em_verification_count = count_if (\<lambda>r. sr_disposition r = Some Disp_VERIFY) rows,
          em_stopped_count = count_if (\<lambda>r. sr_disposition r = Some Disp_STOP) rows,
          em_rejected_count = count_if (\<lambda>r. sf_outcome (sr_policy_decision r) = Out_REJECT) rows,
          em_outcome_counts = outcome_counts rows\<rparr>)"

section \<open>Baselines\<close>

record baseline_metric =
  bm_strategy :: string
  bm_scenario_count :: int
  bm_recovered_count :: int
  bm_recovered_revenue_minor :: int
  bm_recovery_rate :: rat

definition would_recover :: "evaluation_scenario \<Rightarrow> action_type \<Rightarrow> bool" where
  "would_recover sc a = (es_outcome sc = Sc_RECOVERABLE \<and> es_expected_action sc = a)"

definition baseline_strategies :: "(string \<times> (evaluation_scenario \<Rightarrow> action_type)) list" where
  "baseline_strategies =
     [(''do_nothing'', \<lambda>_. Act_STOP), (''always_retry'', \<lambda>_. Act_RETRY_PAYMENT),
      (''rule_based'', \<lambda>sc. if es_prior_attempt_count sc \<noteq> 0 then Act_SEND_REMINDER else Act_RETRY_PAYMENT),
      (''oracle_upper_bound'', es_expected_action)]"

definition baseline_of ::
  "(int \<Rightarrow> int \<Rightarrow> rat) \<Rightarrow> evaluation_scenario list \<Rightarrow> string \<times> (evaluation_scenario \<Rightarrow> action_type)
     \<Rightarrow> baseline_metric" where
  "baseline_of float_rate rows nsel =
     (let at_risk = filter (\<lambda>sc. es_outcome sc \<noteq> Sc_ALREADY_SUCCEEDED) rows;
          recovered = filter (\<lambda>sc. would_recover sc (snd nsel sc)) at_risk
      in \<lparr>bm_strategy = fst nsel, bm_scenario_count = int (length rows),
          bm_recovered_count = int (length recovered),
          bm_recovered_revenue_minor = sum_list (map es_amount_minor recovered),
          bm_recovery_rate =
            (if at_risk \<noteq> [] then float_rate (int (length recovered)) (int (length at_risk)) else 0)\<rparr>)"

definition compare_baselines :: "(int \<Rightarrow> int \<Rightarrow> rat) \<Rightarrow> evaluation_scenario list \<Rightarrow> baseline_metric list" where
  "compare_baselines float_rate rows = map (baseline_of float_rate rows) baseline_strategies"

section \<open>What the figures can say\<close>

lemma rate_full: "0 < d \<Longrightarrow> rate d d = 10000"
  by (simp add: rate_def mult.commute quotient_half_even_unique)

lemma rate_range:
  assumes "0 \<le> n" and "n \<le> d"
  shows "0 \<le> rate n d" "rate n d \<le> 10000"
proof -
  have "0 \<le> rate n d \<and> rate n d \<le> 10000"
  proof (cases "d = 0")
    case False
    with assms have d: "0 < d" by simp
    let ?q = "quotient_half_even (n * 10000) d"
    have near: "2 * \<bar>d * ?q - n * 10000\<bar> \<le> d" by (rule quotient_half_even_near [OF d])
    have "2 * \<bar>x - y\<bar> \<le> d \<Longrightarrow> 0 \<le> y \<Longrightarrow> y \<le> d * 10000 \<Longrightarrow> d * (- 1) < x \<and> x < d * 10001" for x y
      using d by (auto simp: abs_if split: if_splits)
    moreover have "0 \<le> n * 10000" "n * 10000 \<le> d * 10000" using assms by simp_all
    ultimately have "d * (- 1) < d * ?q \<and> d * ?q < d * 10001" using near by blast
    then have "- 1 < ?q" "?q < 10001" unfolding mult_less_cancel_left_pos [OF d] by simp_all
    with False show ?thesis by (simp add: rate_def)
  qed (simp add: rate_def)
  then show "0 \<le> rate n d" "rate n d \<le> 10000" by simp_all
qed

lemma sum_filter_mono:
  fixes f :: "'a \<Rightarrow> int"
  assumes "\<forall>x \<in> set xs. P x \<longrightarrow> Q x" and "\<forall>x \<in> set xs. 0 \<le> f x"
  shows "sum_list (map f (filter P xs)) \<le> sum_list (map f (filter Q xs))"
  using assms by (induction xs) (auto simp: add_increasing)

lemma length_filter_mono: "\<forall>x \<in> set xs. P x \<longrightarrow> Q x \<Longrightarrow> length (filter P xs) \<le> length (filter Q xs)"
  by (induction xs) auto

lemma sum_count_outcome: "sum_list (map snd (count_outcome k d)) = sum_list (map snd d) + 1"
proof (induction d)
  case Nil
  show ?case by (simp add: count_outcome_def)
next
  case (Cons e d)
  then show ?case by (cases e) (auto simp: count_outcome_def)
qed

lemma sum_outcome_counts: "sum_list (map snd (outcome_counts rows)) = int (length rows)"
proof -
  have "sum_list (map snd (fold (\<lambda>r. count_outcome (scenario_outcome_value (sr_outcome r))) rows d)) =
      sum_list (map snd d) + int (length rows)" for d
    by (induction rows arbitrary: d) (simp_all add: sum_count_outcome)
  from this [of "[]"] show ?thesis by (simp add: outcome_counts_def)
qed

text \<open>A scenario recovers when the policy allows it, the provider answers success and the ground
  truth is recoverable; that the action was a payment is not asked.\<close>

lemma run_one_recovered:
  "sr_recovered (run_one cfg rp now sc) \<longleftrightarrow>
     sf_outcome (safety_evaluate cfg (scenario_context sc)) = Out_ALLOW
     \<and> es_provider_result sc = Sim_SUCCEEDED \<and> es_outcome sc = Sc_RECOVERABLE"
  by (simp add: run_one_def simulated_answer_def Let_def)

lemma run_one_copies [simp]:
  "sr_outcome (run_one cfg rp now sc) = es_outcome sc" "sr_amount_minor (run_one cfg rp now sc) = es_amount_minor sc"
  by (simp_all add: run_one_def Let_def split: prod.split)

lemma run_one_safe: "sr_was_safe (run_one cfg rp now sc)"
  by (cases "sf_outcome (safety_evaluate cfg (scenario_context sc))") (simp_all add: run_one_def Let_def split: prod.split)

definition oracle_metric :: "(int \<Rightarrow> int \<Rightarrow> rat) \<Rightarrow> evaluation_scenario list \<Rightarrow> baseline_metric" where
  "oracle_metric float_rate scs = baseline_of float_rate scs (''oracle_upper_bound'', es_expected_action)"

lemma oracle_recovers:
  "bm_recovered_count (oracle_metric fr scs) = int (length (filter (\<lambda>sc. es_outcome sc = Sc_RECOVERABLE) scs))"
  "bm_recovered_revenue_minor (oracle_metric fr scs) =
     sum_list (map es_amount_minor (filter (\<lambda>sc. es_outcome sc = Sc_RECOVERABLE) scs))"
proof -
  have "filter (\<lambda>sc. would_recover sc (es_expected_action sc)) (filter (\<lambda>sc. es_outcome sc \<noteq> Sc_ALREADY_SUCCEEDED) scs)
      = filter (\<lambda>sc. es_outcome sc = Sc_RECOVERABLE) scs"
    by (induction scs) (auto simp: would_recover_def)
  then show "bm_recovered_count (oracle_metric fr scs) = int (length (filter (\<lambda>sc. es_outcome sc = Sc_RECOVERABLE) scs))"
    "bm_recovered_revenue_minor (oracle_metric fr scs) =
       sum_list (map es_amount_minor (filter (\<lambda>sc. es_outcome sc = Sc_RECOVERABLE) scs))"
    by (simp_all add: oracle_metric_def baseline_of_def Let_def)
qed

lemma batch_at_risk:
  "filter p (run_batch cfg rp now scs) = map (run_one cfg rp now) (filter (\<lambda>sc. p (run_one cfg rp now sc)) scs)"
  by (simp add: run_batch_def filter_map comp_def)

lemma batch_recovered:
  "em_recovered_count (calculate_metrics (run_batch cfg rp now scs)) =
     int (length (filter (\<lambda>sc. sr_recovered (run_one cfg rp now sc)) scs))"
  "em_recovered_revenue_minor (calculate_metrics (run_batch cfg rp now scs)) =
     sum_list (map es_amount_minor (filter (\<lambda>sc. sr_recovered (run_one cfg rp now sc)) scs))"
proof -
  have f: "filter (\<lambda>sc. es_outcome sc \<noteq> Sc_ALREADY_SUCCEEDED \<and> sr_recovered (run_one cfg rp now sc)) scs
      = filter (\<lambda>sc. sr_recovered (run_one cfg rp now sc)) scs"
    by (intro filter_cong) (auto simp: run_one_recovered)
  show "em_recovered_count (calculate_metrics (run_batch cfg rp now scs)) =
      int (length (filter (\<lambda>sc. sr_recovered (run_one cfg rp now sc)) scs))"
    "em_recovered_revenue_minor (calculate_metrics (run_batch cfg rp now scs)) =
      sum_list (map es_amount_minor (filter (\<lambda>sc. sr_recovered (run_one cfg rp now sc)) scs))"
    by (simp_all add: calculate_metrics_def Let_def batch_at_risk filter_map comp_def f)
qed

lemma batch_total:
  "em_at_risk_count (calculate_metrics (run_batch cfg rp now scs)) =
     int (length (filter (\<lambda>sc. es_outcome sc \<noteq> Sc_ALREADY_SUCCEEDED) scs))"
  "em_total_at_risk_revenue_minor (calculate_metrics (run_batch cfg rp now scs)) =
     sum_list (map es_amount_minor (filter (\<lambda>sc. es_outcome sc \<noteq> Sc_ALREADY_SUCCEEDED) scs))"
  by (simp_all add: calculate_metrics_def Let_def batch_at_risk comp_def)

text \<open>On any batch of scenarios with non-negative amounts the simulated recovery, in cases and
  in revenue, and every baseline stay within the oracle's, the rates lie between 0 and 1, and the
  outcome counts add up to the batch. The safety rate says nothing: it is 1 for every batch, whatever
  the policy answered.\<close>

theorem evaluation_is_bounded:
  assumes "scs \<noteq> []" and "\<forall>sc \<in> set scs. 0 \<le> es_amount_minor sc"
    and "m = calculate_metrics (run_batch cfg rp now scs)"
  shows "em_recovered_count m \<le> bm_recovered_count (oracle_metric fr scs)
    \<and> em_recovered_revenue_minor m \<le> bm_recovered_revenue_minor (oracle_metric fr scs)
    \<and> (\<forall>b \<in> set (compare_baselines fr scs). bm_recovered_count b \<le> bm_recovered_count (oracle_metric fr scs)
          \<and> bm_recovered_revenue_minor b \<le> bm_recovered_revenue_minor (oracle_metric fr scs))
    \<and> em_case_recovery_rate m \<in> {0..10000} \<and> em_revenue_recovery_rate m \<in> {0..10000}
    \<and> sum_list (map snd (em_outcome_counts m)) = int (length scs)
    \<and> em_safety_rate m = 10000"
proof -
  have nonneg: "0 \<le> sum_list (map es_amount_minor (filter P scs))" for P
    using assms(2) by (intro sum_list_nonneg) auto
  have rec: "em_recovered_count m \<le> bm_recovered_count (oracle_metric fr scs)"
    "em_recovered_revenue_minor m \<le> bm_recovered_revenue_minor (oracle_metric fr scs)"
    "em_recovered_count m \<le> em_at_risk_count m"
    "em_recovered_revenue_minor m \<le> em_total_at_risk_revenue_minor m"
    using assms(2) unfolding assms(3) batch_recovered batch_total oracle_recovers
    by (auto intro!: sum_filter_mono length_filter_mono simp: run_one_recovered)
  have base: "bm_recovered_count (baseline_of fr scs ns) \<le> bm_recovered_count (oracle_metric fr scs)
      \<and> bm_recovered_revenue_minor (baseline_of fr scs ns) \<le> bm_recovered_revenue_minor (oracle_metric fr scs)" for ns
    using assms(2) unfolding oracle_recovers
    by (auto intro!: sum_filter_mono length_filter_mono simp: baseline_of_def Let_def would_recover_def)
  have rates: "em_case_recovery_rate m = rate (em_recovered_count m) (em_at_risk_count m)"
    "em_revenue_recovery_rate m = rate (em_recovered_revenue_minor m) (em_total_at_risk_revenue_minor m)"
    "em_outcome_counts m = outcome_counts (run_batch cfg rp now scs)"
    "em_safety_rate m = rate (count_if sr_was_safe (run_batch cfg rp now scs)) (int (length scs))"
    unfolding assms(3) by (simp_all add: calculate_metrics_def Let_def run_batch_def)
  have pos: "0 \<le> em_recovered_count m" "0 \<le> em_recovered_revenue_minor m"
    using nonneg unfolding assms(3) batch_recovered by simp_all
  have "count_if sr_was_safe (run_batch cfg rp now scs) = int (length scs)"
    by (simp add: count_if_def run_batch_def filter_map comp_def run_one_safe)
  then have "em_safety_rate m = 10000" using assms(1) rates(4) by (simp add: rate_full)
  moreover have "em_case_recovery_rate m \<in> {0..10000}" "em_revenue_recovery_rate m \<in> {0..10000}"
    unfolding rates using rate_range pos rec(3,4) by simp_all
  moreover have "sum_list (map snd (em_outcome_counts m)) = int (length scs)"
    unfolding rates sum_outcome_counts by (simp add: run_batch_def)
  ultimately show ?thesis using rec base by (simp add: compare_baselines_def)
qed

text \<open>
  In the generated batch an operator review counts as a recovered payment: the second scenario of
  seed 0 proposes one, and its amount is booked as recovered.
\<close>

lemma review_counts_as_recovered:
  "es_proposed_action (build_scenario 0 1) = Act_REQUEST_OPERATOR_REVIEW
   \<and> sr_recovered (run_one default_safety_config default_resilience_policy (Aware 0) (build_scenario 0 1))"
  by code_simp

lemma evaluation_is_bounded_witness:
  "em_safety_rate (calculate_metrics (run_batch (default_safety_config\<lparr>sc_allowed_actions := []\<rparr>)
     default_resilience_policy (Aware 0) [build_scenario 0 0, build_scenario 0 1])) = 10000"
proof -
  have "\<forall>sc \<in> set [build_scenario 0 0, build_scenario 0 1]. 0 \<le> es_amount_minor sc" by code_simp
  from evaluation_is_bounded [OF _ this refl, of "default_safety_config\<lparr>sc_allowed_actions := []\<rparr>"
      default_resilience_policy "Aware 0" "\<lambda>_ _. 0"]
  show ?thesis by simp
qed

end
