(* ===== verification/Legacy_Intelligence.thy ===== *)
theory Legacy_Intelligence
  imports Prelude
begin

text \<open>
  The baseline decision preview of \<open>backend/app/services/intelligence/legacy.py\<close>, which the preview
  routes still call: keyword classification, the risk score, the ranking by expected value and the
  recommendation.

  Probabilities and confidences are \<open>Decimal\<close> values of four places, kept as ten-thousandths. The
  logistic formula is floating point and is the parameter \<open>predict\<close> of an action, the failure and the
  risk score; \<open>RecoveryProbabilityModel\<close> clamps its answer to 0.01 .. 0.99. Sentences of explanation are
  left out. Products stay exact for amounts below \<open>10 ^ 24\<close> minor units.
\<close>

section \<open>Failures\<close>

datatype legacy_action = Leg_retry_payment | Leg_send_reminder | Leg_request_operator_review | Leg_stop

primrec legacy_action_value :: "legacy_action \<Rightarrow> string" where
  "legacy_action_value Leg_retry_payment = ''retry_payment''"
| "legacy_action_value Leg_send_reminder = ''send_reminder''"
| "legacy_action_value Leg_request_operator_review = ''request_operator_review''"
| "legacy_action_value Leg_stop = ''stop''"

definition legacy_actions :: "legacy_action list" where
  "legacy_actions = [Leg_retry_payment, Leg_send_reminder, Leg_request_operator_review, Leg_stop]"

record legacy_failure =
  lf_category :: string
  lf_retryable :: bool
  lf_confidence :: int

definition legacy_failure_rules :: "(string list \<times> string \<times> bool) list" where
  "legacy_failure_rules =
     [([''insufficient'', ''funds'', ''balance''], ''insufficient_funds'', True),
      ([''timeout'', ''timed_out'', ''network''], ''provider_timeout'', True),
      ([''authentication'', ''3ds'', ''auth''], ''authentication_required'', True),
      ([''expired'', ''card_expired''], ''expired_card'', False),
      ([''fraud'', ''blocked'', ''risk''], ''risk_blocked'', False),
      ([''decline'', ''do_not_honor'', ''bank''], ''bank_decline'', True)]"

definition classify_failure :: "string option \<Rightarrow> string option \<Rightarrow> legacy_failure" where
  "classify_failure code message =
     (let text = py_lower (or_empty code @ '' '' @ or_empty message)
      in case find (\<lambda>(needles, _). list_ex (\<lambda>n. contains n text) needles) legacy_failure_rules of
           Some (_, category, retryable) \<Rightarrow>
             \<lparr>lf_category = category, lf_retryable = retryable, lf_confidence = 9000\<rparr>
         | None \<Rightarrow> \<lparr>lf_category = ''unknown_failure'', lf_retryable = False, lf_confidence = 5500\<rparr>)"

section \<open>Risk\<close>

datatype legacy_band = Band_low | Band_medium | Band_high

record legacy_risk =
  lr_score :: int
  lr_band :: legacy_band
  lr_reasons :: "string list"
  lr_action_limit :: string

definition legacy_signals :: "legacy_failure \<Rightarrow> int \<Rightarrow> int \<Rightarrow> bool \<Rightarrow> bool \<Rightarrow> (string \<times> int) list" where
  "legacy_signals f amount_minor prior_attempts unusual_velocity customer_restricted =
     map snd (filter fst
       [(lf_category f = ''risk_blocked'', (''provider_risk_signal'', 60)),
        (prior_attempts \<ge> 3, (''repeated_attempts'', 25)),
        (unusual_velocity, (''unusual_retry_velocity'', 25)),
        (customer_restricted, (''customer_restricted'', 30)),
        (amount_minor \<ge> 100000, (''high_value_transaction'', 15))])"

definition assess_legacy :: "legacy_failure \<Rightarrow> int \<Rightarrow> int \<Rightarrow> bool \<Rightarrow> bool \<Rightarrow> legacy_risk" where
  "assess_legacy f amount_minor prior_attempts unusual_velocity customer_restricted =
     (let signals = legacy_signals f amount_minor prior_attempts unusual_velocity customer_restricted;
          score = min (sum_list (map snd signals)) 100;
          band = (if score \<ge> 71 then Band_high else if score \<ge> 31 then Band_medium else Band_low)
      in \<lparr>lr_score = score, lr_band = band,
          lr_reasons = (if signals = [] then [''no_elevated_risk_signal''] else map fst signals),
          lr_action_limit = (case band of Band_high \<Rightarrow> ''block'' | Band_medium \<Rightarrow> ''human_approval''
                                        | Band_low \<Rightarrow> ''automatic'')\<rparr>)"

section \<open>Expected value\<close>

record action_estimate =
  le_action :: legacy_action
  le_probability :: int
  le_amount_minor :: int
  le_recovery_value_minor :: int
  le_cost_minor :: int
  le_expected_value_minor :: int

primrec legacy_cost :: "legacy_action \<Rightarrow> int" where
  "legacy_cost Leg_retry_payment = 2"
| "legacy_cost Leg_send_reminder = 15"
| "legacy_cost Leg_request_operator_review = 250"
| "legacy_cost Leg_stop = 0"

text \<open>\<open>ROUND_HALF_UP\<close> of \<open>Decimal\<close>: to the nearest, ties away from zero.\<close>

definition quotient_half_up :: "int \<Rightarrow> int \<Rightarrow> int" where
  "quotient_half_up a b = (if 0 \<le> a then (2 * a + b) div (2 * b) else - ((2 * (- a) + b) div (2 * b)))"

definition clamp_probability :: "int \<Rightarrow> int" where
  "clamp_probability p = max 100 (min 9900 p)"

definition estimate_action ::
  "(legacy_action \<Rightarrow> int) \<Rightarrow> int \<Rightarrow> legacy_action \<Rightarrow> action_estimate" where
  "estimate_action predict amount_minor a =
     (let p = clamp_probability (predict a);
          v = quotient_half_up (amount_minor * p) 10000
      in \<lparr>le_action = a, le_probability = p, le_amount_minor = amount_minor, le_recovery_value_minor = v,
          le_cost_minor = legacy_cost a, le_expected_value_minor = v - legacy_cost a\<rparr>)"

definition rank_actions :: "(legacy_action \<Rightarrow> int) \<Rightarrow> int \<Rightarrow> action_estimate list" where
  "rank_actions predict amount_minor =
     sort_key (\<lambda>r. - le_expected_value_minor r) (map (estimate_action predict amount_minor) legacy_actions)"

section \<open>The recommendation\<close>

record decision_analysis =
  da_classification :: legacy_failure
  da_risk :: legacy_risk
  da_estimates :: "action_estimate list"
  da_recommended_action :: legacy_action
  da_confidence :: int

definition legacy_permits :: "legacy_failure \<Rightarrow> legacy_risk \<Rightarrow> action_estimate \<Rightarrow> bool" where
  "legacy_permits f r row \<longleftrightarrow>
     \<not> (lr_band r = Band_high \<and> le_action row \<notin> {Leg_request_operator_review, Leg_stop})
     \<and> \<not> (le_action row = Leg_retry_payment \<and> \<not> lf_retryable f)"

definition legacy_winner :: "legacy_failure \<Rightarrow> legacy_risk \<Rightarrow> action_estimate list \<Rightarrow> action_estimate option" where
  "legacy_winner f r rows =
     (case filter (legacy_permits f r) rows of w # _ \<Rightarrow> Some w | [] \<Rightarrow> find (\<lambda>row. le_action row = Leg_stop) rows)"

definition analyze_recovery ::
  "(legacy_failure \<Rightarrow> int \<Rightarrow> legacy_action \<Rightarrow> int) \<Rightarrow> int \<Rightarrow> string option \<Rightarrow> string option \<Rightarrow> int \<Rightarrow> bool
     \<Rightarrow> bool \<Rightarrow> decision_analysis option" where
  "analyze_recovery predict amount_minor code message prior_attempts unusual_velocity customer_restricted =
     (let f = classify_failure code message;
          r = assess_legacy f amount_minor prior_attempts unusual_velocity customer_restricted;
          rows = rank_actions (predict f (lr_score r)) amount_minor
      in map_option (\<lambda>w.
           \<lparr>da_classification = f, da_risk = r, da_estimates = rows, da_recommended_action = le_action w,
            da_confidence = min (lf_confidence f) (max (le_probability w) 5000)\<rparr>) (legacy_winner f r rows))"

definition compare_strategies :: "decision_analysis list \<Rightarrow> (legacy_action \<times> int \<times> int) list" where
  "compare_strategies analyses =
     (let rows = concat (map da_estimates analyses)
      in map (\<lambda>a. (a, sum_list (map le_expected_value_minor (filter (\<lambda>r. le_action r = a) rows)),
                   int (length (filter (\<lambda>r. le_action r = a) rows)))) legacy_actions)"

section \<open>What a preview recommends\<close>

lemma ranked_actions: "le_action ` set (rank_actions predict amount) = set legacy_actions"
  by (auto simp: rank_actions_def estimate_action_def Let_def legacy_actions_def)

lemma filter_hd_sorted:
  assumes "sorted (map k xs)" and "filter P xs = w # ws" and "x \<in> set xs" and "P x"
  shows "k w \<le> (k x :: int)"
proof -
  have "sorted (map k (w # ws))" using sorted_filter [OF assms(1), of P] assms(2) by simp
  moreover have "x \<in> set (w # ws)" using assms by (metis (mono_tags, lifting) mem_Collect_eq set_filter)
  ultimately show ?thesis by auto
qed

text \<open>
  The preview always recommends, and what it recommends has the greatest expected value among the
  actions its rules permit: no payment retry after a failure that is not retryable, and nothing but
  a review or a stop when the risk is high. Its confidence lies between 0.5 and that of the
  classification.
\<close>

theorem preview_recommends_best:
  "\<exists>a w. analyze_recovery predict amount code message prior unusual restricted = Some a
    \<and> w \<in> set (da_estimates a) \<and> le_action w = da_recommended_action a
    \<and> legacy_permits (da_classification a) (da_risk a) w
    \<and> (\<forall>x \<in> set (da_estimates a). legacy_permits (da_classification a) (da_risk a) x \<longrightarrow>
          le_expected_value_minor x \<le> le_expected_value_minor w)
    \<and> 5000 \<le> da_confidence a \<and> da_confidence a \<le> lf_confidence (da_classification a)"
proof -
  define f where "f = classify_failure code message"
  define r where "r = assess_legacy f amount prior unusual restricted"
  define rows where "rows = rank_actions (predict f (lr_score r)) amount"
  have "Leg_stop \<in> le_action ` set rows" unfolding rows_def ranked_actions by (simp add: legacy_actions_def)
  then obtain x where x: "x \<in> set rows" "le_action x = Leg_stop" by auto
  then have "legacy_permits f r x" by (simp add: legacy_permits_def)
  with x(1) have "filter (legacy_permits f r) rows \<noteq> []" by (auto simp: filter_empty_conv)
  then obtain w ws where w: "filter (legacy_permits f r) rows = w # ws" by (cases "filter (legacy_permits f r) rows") auto
  then have "w \<in> set (filter (legacy_permits f r) rows)" by simp
  then have wp: "w \<in> set rows" "legacy_permits f r w" by simp_all
  have sorted: "sorted (map (\<lambda>r. - le_expected_value_minor r) rows)" by (simp add: rows_def rank_actions_def)
  have best: "le_expected_value_minor y \<le> le_expected_value_minor w" if "y \<in> set rows" "legacy_permits f r y" for y
    using filter_hd_sorted [OF sorted w that] by simp
  have conf: "5000 \<le> lf_confidence f"
    by (simp add: f_def classify_failure_def Let_def split: option.splits)
  have "analyze_recovery predict amount code message prior unusual restricted =
      Some \<lparr>da_classification = f, da_risk = r, da_estimates = rows, da_recommended_action = le_action w,
            da_confidence = min (lf_confidence f) (max (le_probability w) 5000)\<rparr>"
    by (simp add: analyze_recovery_def Let_def f_def [symmetric] r_def [symmetric] rows_def [symmetric]
        legacy_winner_def w)
  with wp best conf show ?thesis by (intro exI [of _ w] exI conjI) auto
qed

text \<open>A fraud signal alone is only a medium risk, and leaves a reminder to the customer permitted.\<close>

lemma fraud_alone_is_medium:
  "lr_band (assess_legacy (classify_failure (Some ''fraud'') None) 5000 0 False False) = Band_medium"
  by code_simp

end
