(* ===== verification/Workflow_Creation.thy ===== *)
theory Workflow_Creation
  imports Scenario
begin

text \<open>
  \<open>WorkflowCreationService\<close> of \<open>backend/app/workflows/creation_service.py\<close>: turning an approved
  policy decision into a workflow with its bounded list of steps.
\<close>

section \<open>The steps of an action\<close>

definition mk_step ::
  "uuid \<Rightarrow> uuid \<Rightarrow> int \<Rightarrow> step_type \<Rightarrow> string \<Rightarrow> action_type \<Rightarrow> payload \<Rightarrow> workflow_step" where
  "mk_step sid wid idx stype suffix action pl =
     \<lparr>ws_id = sid, ws_workflow_id = wid, ws_step_index = idx, ws_step_type = stype,
      ws_status = Step_PENDING,
      ws_idempotency_key = ''step:'' @ wid @ '':'' @ str_of_int idx @ '':'' @ suffix,
      ws_action_type = action, ws_payload = pl, ws_execution_result = [], ws_executed_at = None\<rparr>"

text \<open>\<open>ids\<close> gives the \<open>uuid4()\<close> drawn for each step index.\<close>

definition build_steps :: "(int \<Rightarrow> uuid) \<Rightarrow> uuid \<Rightarrow> action_type \<Rightarrow> int \<Rightarrow> workflow_step list" where
  "build_steps ids wid action cooldown_hours =
     (case action of
        Act_RETRY_PAYMENT \<Rightarrow>
          [mk_step (ids 1) wid 1 Stp_VALIDATE_AUTHORIZATION ''validate'' action
             [(''check'', JStr ''consent_and_retry_limits'')],
           mk_step (ids 2) wid 2 Stp_WAIT_COOLDOWN ''cooldown'' action
             [(''cooldown_hours'', JInt cooldown_hours)],
           mk_step (ids 3) wid 3 Stp_DISPATCH_PAYMENT_RETRY ''dispatch'' action
             [(''adapter'', JStr ''razorpay_sandbox'')],
           mk_step (ids 4) wid 4 Stp_AWAIT_VERIFICATION ''await_verify'' action
             [(''verification_window_hours'', JInt 72)]]
      | Act_SEND_REMINDER \<Rightarrow>
          [mk_step (ids 1) wid 1 Stp_VALIDATE_AUTHORIZATION ''validate_comm'' action
             [(''check'', JStr ''communication_consent'')],
           mk_step (ids 2) wid 2 Stp_DISPATCH_COMMUNICATION ''dispatch_comm'' action
             [(''channel'', JStr ''email'')]]
      | Act_REQUEST_OPERATOR_REVIEW \<Rightarrow>
          [mk_step (ids 1) wid 1 Stp_CREATE_SUPPORT_TASK ''support_task'' action
             [(''target_queue'', JStr ''human_operator_review'')]]
      | _ \<Rightarrow> [])"

section \<open>Creating the workflow\<close>

definition new_workflow ::
  "policy_decision \<Rightarrow> uuid \<Rightarrow> uuid \<Rightarrow> pydatetime \<Rightarrow> int \<Rightarrow> recovery_workflow" where
  "new_workflow d cid wid now max_workflow_hours =
     \<lparr>wf_id = wid, wf_case_id = cid, wf_policy_decision_id = pd_id d, wf_status = Wf_PENDING,
      wf_strategy = py_upper (action_type_value (pd_proposed_action d)),
      wf_current_step_index = 0, wf_max_steps = 10, wf_scheduled_for = Some now,
      wf_expires_at = Some (add_us now (max_workflow_hours * us_per_hour)),
      wf_metadata = [(''policy_version'', JStr (pd_policy_version d)),
                     (''proposed_action'', JStr (action_type_value (pd_proposed_action d)))]\<rparr>"

definition create_workflow ::
  "uuid \<Rightarrow> int \<Rightarrow> int \<Rightarrow> uuid \<Rightarrow> (int \<Rightarrow> uuid) \<Rightarrow> pydatetime \<Rightarrow> session
     \<Rightarrow> py_error + (recovery_workflow \<times> session)" where
  "create_workflow decision_id cooldown_hours max_workflow_hours wid ids now s =
     (case find_policy_decision s decision_id of
        None \<Rightarrow> Inl (ValueError (''PolicyDecision not found: '' @ decision_id))
      | Some d \<Rightarrow>
          if pd_decision_status d \<noteq> Pol_APPROVED
            then Inl (ValueError (''Cannot create workflow from non-approved decision: status=''
                   @ policy_status_value (pd_decision_status d)))
          else
            (case find_case s (pd_case_id d) of
               None \<Rightarrow> Inl (ValueError (''RecoveryCase not found: '' @ pd_case_id d))
             | Some c \<Rightarrow>
                 if rc_state c \<noteq> Case_ACTION_PENDING
                   then Inl (ValueError (''Cannot create workflow for case in non-actionable state: state=''
                          @ case_state_value (rc_state c)))
                 else
                   (case active_workflow_of s (rc_id c) of
                      Some w \<Rightarrow> Inl (ValueError (''Active workflow already exists for case '' @ rc_id c
                                  @ '': workflow_id='' @ wf_id w))
                    | None \<Rightarrow>
                        (let w = new_workflow d (rc_id c) wid now max_workflow_hours
                         in ebind (flush (s\<lparr>workflows := workflows s @ [w]\<rparr>)) (\<lambda>s1.
                            ebind (flush (s1\<lparr>steps := steps s1
                                     @ build_steps ids wid (pd_proposed_action d) cooldown_hours\<rparr>)) (\<lambda>s2.
                              Inr (w, s2)))))))"

section \<open>Lemmas\<close>

lemma mk_step_simps [simp]:
  "ws_id (mk_step sid wid idx st sfx a pl) = sid" "ws_workflow_id (mk_step sid wid idx st sfx a pl) = wid"
  "ws_step_index (mk_step sid wid idx st sfx a pl) = idx"
  "ws_step_type (mk_step sid wid idx st sfx a pl) = st"
  "ws_status (mk_step sid wid idx st sfx a pl) = Step_PENDING"
  "ws_action_type (mk_step sid wid idx st sfx a pl) = a"
  "ws_idempotency_key (mk_step sid wid idx st sfx a pl) =
     ''step:'' @ wid @ '':'' @ str_of_int idx @ '':'' @ sfx"
  by (simp_all add: mk_step_def)

lemma build_steps_workflow: "w \<in> set (build_steps ids wid a h) \<Longrightarrow> ws_workflow_id w = wid"
  by (cases a) (auto simp: build_steps_def)

lemma build_steps_indices:
  "map ws_step_index (build_steps ids wid a h) =
     map (\<lambda>i. int i + 1) [0..<length (build_steps ids wid a h)]"
  by (cases a) (simp_all add: build_steps_def upt_rec)

lemma build_steps_bounded: "length (build_steps ids wid a h) \<le> 4"
  by (cases a) (simp_all add: build_steps_def)

lemma build_steps_pending: "w \<in> set (build_steps ids wid a h) \<Longrightarrow> ws_status w = Step_PENDING"
  by (cases a) (auto simp: build_steps_def)

lemma build_steps_key:
  "w \<in> set (build_steps ids wid a h) \<Longrightarrow>
     \<exists>rest. ws_idempotency_key w = ''step:'' @ wid @ '':'' @ str_of_int (ws_step_index w) @ CHR '':'' # rest"
  by (cases a) (auto simp: build_steps_def)

text \<open>Idempotency keys of workflows whose ids carry no colon tell workflow and index apart.\<close>

lemma step_key_inject:
  assumes "''step:'' @ a @ '':'' @ str_of_int i @ CHR '':'' # r = ''step:'' @ b @ '':'' @ str_of_int j @ CHR '':'' # q"
    and "CHR '':'' \<notin> set a" "CHR '':'' \<notin> set b"
  shows "a = b \<and> i = j"
proof -
  from assms(1) have "a @ CHR '':'' # (str_of_int i @ CHR '':'' # r) = b @ CHR '':'' # (str_of_int j @ CHR '':'' # q)"
    by simp
  then have "a = b \<and> str_of_int i @ CHR '':'' # r = str_of_int j @ CHR '':'' # q"
    using assms(2,3) by (rule split_at_unique)
  moreover from this have "str_of_int i = str_of_int j"
    using split_at_unique [of "str_of_int i" "CHR '':''" r "str_of_int j" q] colon_not_in_str_of_int
    by blast
  ultimately show ?thesis by (simp add: str_of_int_inject)
qed

lemma build_steps_distinct:
  assumes "CHR '':'' \<notin> set wid"
  shows "distinct (map ws_idempotency_key (build_steps ids wid a h))"
    and "distinct (map step_key (build_steps ids wid a h))"
proof -
  have i: "distinct (map ws_step_index (build_steps ids wid a h))"
    unfolding build_steps_indices by (simp add: distinct_map inj_on_def)
  have "inj_on ws_idempotency_key (set (build_steps ids wid a h))"
  proof (rule inj_onI)
    fix x y
    assume x: "x \<in> set (build_steps ids wid a h)" and y: "y \<in> set (build_steps ids wid a h)"
      and k: "ws_idempotency_key x = ws_idempotency_key y"
    from build_steps_key [OF x] build_steps_key [OF y] k assms have "ws_step_index x = ws_step_index y"
      by (metis step_key_inject)
    with i x y show "x = y" by (auto simp: distinct_map inj_on_def)
  qed
  with i show "distinct (map ws_idempotency_key (build_steps ids wid a h))"
    by (auto simp: distinct_map)
  from i show "distinct (map step_key (build_steps ids wid a h))"
    by (auto simp: distinct_map inj_on_def)
qed

text \<open>Every dispatch is preceded by a validation of the same workflow.\<close>

lemma build_steps_validated:
  assumes "w \<in> set (build_steps ids wid a h)"
    and "ws_step_type w \<in> {Stp_DISPATCH_PAYMENT_RETRY, Stp_DISPATCH_COMMUNICATION}"
  shows "\<exists>v \<in> set (build_steps ids wid a h). ws_step_type v = Stp_VALIDATE_AUTHORIZATION
           \<and> ws_step_index v < ws_step_index w"
  using assms by (cases a) (auto simp: build_steps_def)

lemma create_workflow_Inr:
  assumes "create_workflow did cool hours wid ids now s = Inr (w, t)"
  obtains d c where "find_policy_decision s did = Some d" "pd_decision_status d = Pol_APPROVED"
    "find_case s (pd_case_id d) = Some c" "rc_state c = Case_ACTION_PENDING"
    "active_workflow_of s (rc_id c) = None" "w = new_workflow d (rc_id c) wid now hours"
    "workflows t = workflows s @ [w]"
    "steps t = steps s @ build_steps ids wid (pd_proposed_action d) cool"
    "session_ok t" "cases t = cases s" "policy_decisions t = policy_decisions s"
proof (cases "find_policy_decision s did")
  case None
  with assms show thesis by (simp add: create_workflow_def)
next
  case d: (Some d)
  with assms have app: "pd_decision_status d = Pol_APPROVED"
    unfolding create_workflow_def by (simp split: if_split_asm)
  with assms d obtain c where c: "find_case s (pd_case_id d) = Some c"
    unfolding create_workflow_def by (simp split: option.split_asm)
  with assms d app have st: "rc_state c = Case_ACTION_PENDING"
    unfolding create_workflow_def by (simp split: if_split_asm)
  with assms d app c have none: "active_workflow_of s (rc_id c) = None"
    unfolding create_workflow_def by (simp split: option.split_asm)
  define w' where "w' = new_workflow d (rc_id c) wid now hours"
  from assms d app c st none obtain s1 where
    s1: "flush (s\<lparr>workflows := workflows s @ [w']\<rparr>) = Inr s1"
    and t: "flush (s1\<lparr>steps := steps s1 @ build_steps ids wid (pd_proposed_action d) cool\<rparr>) = Inr t"
    and w: "w = w'"
    by (auto simp: create_workflow_def Let_def err_simps simp flip: w'_def)
  from s1 have k: "workflows s1 = workflows s @ [w']" "steps s1 = steps s" "cases s1 = cases s"
    "policy_decisions s1 = policy_decisions s"
    by (simp_all add: flush_ok)
  from t have "session_ok t" by (rule flush_session_ok)
  moreover from t k have "workflows t = workflows s @ [w']" "cases t = cases s"
    "steps t = steps s @ build_steps ids wid (pd_proposed_action d) cool"
    "policy_decisions t = policy_decisions s"
    by (simp_all add: flush_ok)
  ultimately show thesis using that d app c st none w by (simp add: w'_def)
qed

text \<open>The step ids of earlier workflows, as this service wrote them.\<close>

definition step_keys_wellformed :: "session \<Rightarrow> bool" where
  "step_keys_wellformed s \<longleftrightarrow>
     (\<forall>w \<in> set (steps s). CHR '':'' \<notin> set (ws_workflow_id w)
        \<and> (\<exists>rest. ws_idempotency_key w =
               ''step:'' @ ws_workflow_id w @ '':'' @ str_of_int (ws_step_index w) @ CHR '':'' # rest))"

lemma step_unique_append:
  assumes "step_unique (steps s)" "step_keys_wellformed s" "CHR '':'' \<notin> set wid"
    and "wid \<notin> ws_workflow_id ` set (steps s)"
  shows "step_unique (steps s @ build_steps ids wid a h)"
proof -
  have "ws_idempotency_key x \<noteq> ws_idempotency_key y"
    if x: "x \<in> set (steps s)" and y: "y \<in> set (build_steps ids wid a h)" for x y
  proof
    assume k: "ws_idempotency_key x = ws_idempotency_key y"
    from x assms(2) obtain r where "CHR '':'' \<notin> set (ws_workflow_id x)"
      "ws_idempotency_key x = ''step:'' @ ws_workflow_id x @ '':'' @ str_of_int (ws_step_index x) @ CHR '':'' # r"
      by (auto simp: step_keys_wellformed_def)
    with build_steps_key [OF y] k assms(3) have "ws_workflow_id x = wid"
      by (metis step_key_inject)
    with x assms(4) show False by blast
  qed
  moreover have "step_key x \<noteq> step_key y"
    if "x \<in> set (steps s)" "y \<in> set (build_steps ids wid a h)" for x y
  proof -
    have "ws_workflow_id y = wid" using that(2) by (rule build_steps_workflow)
    moreover have "ws_workflow_id x \<noteq> wid" using that(1) assms(4) by blast
    ultimately show ?thesis by simp
  qed
  ultimately show ?thesis
    using assms(1) build_steps_distinct [OF assms(3)]
    by (auto simp: step_unique_def)
qed

lemma step_keys_wellformed_append:
  "step_keys_wellformed s \<Longrightarrow> CHR '':'' \<notin> set wid \<Longrightarrow> steps t = steps s @ build_steps ids wid a h \<Longrightarrow>
     step_keys_wellformed t"
  using build_steps_key [of _ ids wid a h] build_steps_workflow [of _ ids wid a h]
  by (auto simp: step_keys_wellformed_def)

lemma active_after_create:
  assumes "workflows t = workflows s @ [new_workflow d cid wid now hours]"
    and "active_workflow_of s cid = None"
  shows "active_workflow_of t cid = Some (new_workflow d cid wid now hours)"
  using assms
  by (simp add: active_workflow_of_def find_snoc new_workflow_def active_workflow_statuses_def)

text \<open>C16: A workflow is created only from a stored decision that was approved, for
  a case in ACTION_PENDING without an active workflow. It starts pending with at most four pending
  steps numbered from 1, each dispatch step comes after a validation step, no case is changed, and
  from then on creating another workflow for the case, from any decision, raises ValueError as
  long as the case stays unchanged.\<close>

theorem workflow_only_from_approval:
  assumes "create_workflow did cool hours wid ids now s = Inr (w, t)"
    and "wid \<notin> ws_workflow_id ` set (steps s)"
  shows "(\<exists>d c. find_policy_decision s did = Some d \<and> pd_decision_status d = Pol_APPROVED
            \<and> find_case s (pd_case_id d) = Some c \<and> rc_state c = Case_ACTION_PENDING
            \<and> active_workflow_of s (rc_id c) = None \<and> wf_case_id w = rc_id c)
         \<and> wf_status w = Wf_PENDING \<and> cases t = cases s
         \<and> length (steps_of t wid) \<le> 4
         \<and> map ws_step_index (steps_of t wid) = map (\<lambda>i. int i + 1) [0..<length (steps_of t wid)]
         \<and> (\<forall>x \<in> set (steps_of t wid). ws_status x = Step_PENDING
              \<and> (ws_step_type x \<in> {Stp_DISPATCH_PAYMENT_RETRY, Stp_DISPATCH_COMMUNICATION} \<longrightarrow>
                   (\<exists>v \<in> set (steps_of t wid). ws_step_type v = Stp_VALIDATE_AUTHORIZATION
                      \<and> ws_step_index v < ws_step_index x)))
         \<and> (\<forall>did' d' cool' hours' wid' ids' now'. find_policy_decision t did' = Some d'
              \<and> pd_case_id d' = wf_case_id w \<longrightarrow>
              (\<exists>m. create_workflow did' cool' hours' wid' ids' now' t = Inl (ValueError m)))"
  using assms(1)
proof (cases rule: create_workflow_Inr)
  case (1 d c)
  let ?b = "build_steps ids wid (pd_proposed_action d) cool"
  have "filter (\<lambda>x. ws_workflow_id x = wid) (steps s) = []"
    using assms(2) by (auto simp: filter_empty_conv)
  moreover have "filter (\<lambda>x. ws_workflow_id x = wid) ?b = ?b"
    by (simp add: filter_id_conv build_steps_workflow)
  moreover have "sorted (map ws_step_index ?b)"
    unfolding build_steps_indices by (simp add: sorted_iff_nth_mono)
  ultimately have st: "steps_of t wid = ?b"
    using 1(8) by (simp add: steps_of_def sort_key_id_if_sorted)
  have again: "\<exists>m. create_workflow did' cool' hours' wid' ids' now' t = Inl (ValueError m)"
    if "find_policy_decision t did' = Some d'" "pd_case_id d' = wf_case_id w"
    for did' d' cool' hours' wid' ids' now'
  proof -
    have id: "rc_id c = pd_case_id d" using 1(3) by (rule find_case_id)
    have wf: "wf_case_id w = rc_id c" using 1(6) by (simp add: new_workflow_def)
    have f: "find_case t (pd_case_id d') = Some c"
      using 1(3,10) that(2) wf id by (simp add: find_case_def)
    have "active_workflow_of t (rc_id c) = Some w"
      using active_after_create [of t s d "rc_id c" wid now hours] 1(5-7) by simp
    then show ?thesis using that(1) f by (simp add: create_workflow_def)
  qed
  show ?thesis
    unfolding st
    using 1 again build_steps_validated [of _ ids wid "pd_proposed_action d" cool]
    by (intro conjI ballI impI allI)
      (blast | simp add: new_workflow_def build_steps_bounded build_steps_indices build_steps_pending)+
qed

text \<open>On a database that satisfies its constraints and whose steps carry the
  keys this service writes, an approved decision on an ACTION_PENDING case without an active
  workflow always yields its workflow: with a fresh workflow id the new idempotency keys and step
  indices collide with no stored one, and the keys keep their form.\<close>

theorem workflow_creation_succeeds:
  assumes "session_ok s" "step_keys_wellformed s"
    and "find_policy_decision s did = Some d" "pd_decision_status d = Pol_APPROVED"
    and "find_case s (pd_case_id d) = Some c" "rc_state c = Case_ACTION_PENDING"
    and "active_workflow_of s (rc_id c) = None"
    and "CHR '':'' \<notin> set wid" "wid \<notin> ws_workflow_id ` set (steps s)"
  shows "\<exists>w t. create_workflow did cool hours wid ids now s = Inr (w, t) \<and> wf_case_id w = rc_id c
           \<and> session_ok t \<and> step_keys_wellformed t
           \<and> steps t = steps s @ build_steps ids wid (pd_proposed_action d) cool"
proof -
  define w where "w = new_workflow d (rc_id c) wid now hours"
  define s1 where "s1 = s\<lparr>workflows := workflows s @ [w]\<rparr>"
  define s2 where "s2 = s1\<lparr>steps := steps s1 @ build_steps ids wid (pd_proposed_action d) cool\<rparr>"
  have ok1: "session_ok s1" using assms(1) by (auto simp: session_ok_def violated_None_iff s1_def)
  have "step_unique (steps s @ build_steps ids wid (pd_proposed_action d) cool)"
    using assms(1,2,8,9) by (intro step_unique_append) (simp_all add: session_ok_def violated_None_iff)
  with ok1 have ok2: "session_ok s2"
    by (auto simp: session_ok_def violated_None_iff s2_def s1_def)
  have st: "steps s2 = steps s @ build_steps ids wid (pd_proposed_action d) cool"
    by (simp add: s2_def s1_def)
  have "create_workflow did cool hours wid ids now s = Inr (w, s2)"
    using assms(3-7) flush_idle [OF ok1] flush_idle [OF ok2]
    by (simp add: create_workflow_def Let_def flip: w_def s1_def s2_def)
  moreover have "step_keys_wellformed s2"
    by (rule step_keys_wellformed_append [OF assms(2,8) st])
  ultimately show ?thesis using ok2 st by (auto simp: w_def new_workflow_def)
qed

lemma demo_ready_facts:
  "session_ok demo_ready" "step_keys_wellformed demo_ready"
  "find_policy_decision demo_ready ''pd'' = Some demo_policy"
  "find_case demo_ready (pd_case_id demo_policy) = Some demo_pending"
  "rc_state demo_pending = Case_ACTION_PENDING" "pd_decision_status demo_policy = Pol_APPROVED"
  "active_workflow_of demo_ready (rc_id demo_pending) = None" "steps demo_ready = []"
proof -
  show "session_ok demo_ready" unfolding session_ok_def by code_simp
  show "step_keys_wellformed demo_ready"
    by (simp add: step_keys_wellformed_def demo_ready_def demo_session_def empty_session_def)
  show "find_policy_decision demo_ready ''pd'' = Some demo_policy"
    "find_case demo_ready (pd_case_id demo_policy) = Some demo_pending"
    "rc_state demo_pending = Case_ACTION_PENDING" "pd_decision_status demo_policy = Pol_APPROVED"
    "active_workflow_of demo_ready (rc_id demo_pending) = None" "steps demo_ready = []"
    by code_simp+
qed

lemma workflow_creation_succeeds_witness:
  "\<exists>w t. create_workflow ''pd'' 4 72 ''wf'' (\<lambda>i. ''st'' @ str_of_int i) demo_now demo_ready = Inr (w, t)
     \<and> length (steps t) = 4"
proof -
  have "length (build_steps (\<lambda>i. ''st'' @ str_of_int i) ''wf'' (pd_proposed_action demo_policy) 4) = 4"
    by code_simp
  with workflow_creation_succeeds [OF demo_ready_facts(1,2,3,6,4,5,7), of "''wf''" 4 72
      "\<lambda>i. ''st'' @ str_of_int i" demo_now] demo_ready_facts(8)
  show ?thesis by fastforce
qed

lemma workflow_only_from_approval_witness:
  "\<exists>w t. create_workflow ''pd'' 4 72 ''wf'' (\<lambda>i. ''st'' @ str_of_int i) demo_now demo_ready = Inr (w, t)
     \<and> wf_status w = Wf_PENDING \<and> length (steps_of t ''wf'') \<le> 4"
proof -
  let ?run = "create_workflow ''pd'' 4 72 ''wf'' (\<lambda>i. ''st'' @ str_of_int i) demo_now demo_ready"
  have "is_ok ?run" by code_simp
  then obtain w t where run: "?run = Inr (w, t)" by auto
  have "''wf'' \<notin> ws_workflow_id ` set (steps demo_ready)" by (simp add: demo_ready_facts)
  from workflow_only_from_approval [OF run this] run show ?thesis by blast
qed

end
