(* ===== verification/Revalidation.thy ===== *)
theory Revalidation
  imports Scenario
begin

text \<open>
  \<open>WorkflowRevalidationService.revalidate_for_execution\<close> of
  \<open>backend/app/workflows/revalidation_service.py\<close>, the fail-closed gate in front of every dispatch.

  \<open>session.scalar(select(...))\<close> without an order answers the first matching row; here that is the
  first in table order. \<open>case.attempts\<close> is a lazily loaded collection, read when the step starts,
  so its length is the number of attempt rows of the case in the session. Comparing a naive
  expiry with the aware clock raises \<open>TypeError\<close>.
\<close>

record revalidation_result =
  rv_allowed :: bool
  rv_reason_code :: string

definition denied :: "string \<Rightarrow> revalidation_result" where
  "denied reason = \<lparr>rv_allowed = False, rv_reason_code = reason\<rparr>"

definition granted_consent :: "session \<Rightarrow> uuid \<Rightarrow> consent_type list \<Rightarrow> consent option" where
  "granted_consent s customer_id types =
     find (\<lambda>k. co_customer_id k = customer_id \<and> co_type k \<in> set types \<and> co_status k = CStat_GRANTED)
       (consents s)"

definition unknown_execution :: "session \<Rightarrow> uuid \<Rightarrow> recovery_execution option" where
  "unknown_execution s cid =
     find (\<lambda>e. ex_case_id e = cid \<and> ex_status e = Exec_UNKNOWN) (executions s)"

definition validation_passed :: revalidation_result where
  "validation_passed = \<lparr>rv_allowed = True, rv_reason_code = ''VALIDATION_PASSED''\<rparr>"

definition check_recurring_consent :: "consent option \<Rightarrow> pydatetime \<Rightarrow> py_error + revalidation_result" where
  "check_recurring_consent k now =
     (case k of
        None \<Rightarrow> Inr (denied ''MISSING_RECURRING_CONSENT'')
      | Some c \<Rightarrow>
          ebind (case co_expires_at c of None \<Rightarrow> Inr False
                 | Some t \<Rightarrow> ebind (dt_ge t now) (\<lambda>ge. Inr (\<not> ge))) (\<lambda>expired.
            if expired then Inr (denied ''CONSENT_EXPIRED'')
            else if co_revoked_at c \<noteq> None then Inr (denied ''CONSENT_REVOKED'')
            else Inr validation_passed))"

definition default_max_retries :: int where
  "default_max_retries = 4"

definition revalidate ::
  "uuid \<Rightarrow> action_type \<Rightarrow> int \<Rightarrow> pydatetime \<Rightarrow> session \<Rightarrow> py_error + revalidation_result" where
  "revalidate cid action max_retry now s =
     (case find_case s cid of
        None \<Rightarrow> Inr (denied ''CASE_NOT_FOUND'')
      | Some c \<Rightarrow>
          if rc_state c \<noteq> Case_ACTION_PENDING then Inr (denied ''CASE_NOT_ACTION_PENDING'')
          else if (case find_transaction s (rc_trigger_transaction_id c) of
                     None \<Rightarrow> False | Some t \<Rightarrow> tx_status t = Tx_SUCCEEDED)
            then Inr (denied ''PAYMENT_ALREADY_SUCCEEDED'')
          else if unknown_execution s (rc_id c) \<noteq> None
            then Inr (denied ''UNRESOLVED_UNKNOWN_OUTCOME'')
          else if action = Act_RETRY_PAYMENT then
            (if int (length (attempts_of s (rc_id c))) \<ge> max_retry
               then Inr (denied ''RETRY_LIMIT_EXCEEDED'')
             else check_recurring_consent
                    (granted_consent s (rc_customer_id c) [Consent_RECURRING_BILLING]) now)
          else if action = Act_SEND_REMINDER then
            (if granted_consent s (rc_customer_id c)
                  [Consent_COMMUNICATION_EMAIL, Consent_COMMUNICATION_SMS] = None
               then Inr (denied ''MISSING_COMMUNICATION_CONSENT'')
             else Inr validation_passed)
          else Inr validation_passed)"

lemma denied_simps [simp]: "rv_allowed (denied r) = False" "rv_reason_code (denied r) = r"
  by (simp_all add: denied_def)

lemma validation_passed_simps [simp]:
  "rv_allowed validation_passed" "rv_reason_code validation_passed = ''VALIDATION_PASSED''"
  by (simp_all add: validation_passed_def)

text \<open>What the gate certifies, independently of the action.\<close>

definition may_dispatch :: "session \<Rightarrow> uuid \<Rightarrow> bool" where
  "may_dispatch s cid \<longleftrightarrow>
     (\<exists>c. find_case s cid = Some c \<and> rc_state c = Case_ACTION_PENDING
        \<and> (\<forall>t. find_transaction s (rc_trigger_transaction_id c) = Some t \<longrightarrow> tx_status t \<noteq> Tx_SUCCEEDED)
        \<and> (\<forall>e \<in> set (executions s). ex_case_id e = cid \<longrightarrow> ex_status e \<noteq> Exec_UNKNOWN))"

definition recurring_consent_live :: "session \<Rightarrow> uuid \<Rightarrow> pydatetime \<Rightarrow> bool" where
  "recurring_consent_live s customer_id now \<longleftrightarrow>
     (\<exists>k \<in> set (consents s). co_customer_id k = customer_id \<and> co_type k = Consent_RECURRING_BILLING
        \<and> co_status k = CStat_GRANTED \<and> co_revoked_at k = None
        \<and> (\<forall>t. co_expires_at k = Some t \<longrightarrow> instant now \<le> instant t))"

lemma unknown_execution_None:
  "unknown_execution s cid = None \<longleftrightarrow>
     (\<forall>e \<in> set (executions s). ex_case_id e = cid \<longrightarrow> ex_status e \<noteq> Exec_UNKNOWN)"
  by (auto simp: unknown_execution_def find_None_iff)

lemma granted_consent_Some:
  "granted_consent s cid types = Some k \<Longrightarrow>
     k \<in> set (consents s) \<and> co_customer_id k = cid \<and> co_type k \<in> set types \<and> co_status k = CStat_GRANTED"
  by (auto simp: granted_consent_def dest: find_SomeD)

lemma check_recurring_consent_allowed:
  assumes "check_recurring_consent k now = Inr r" and "rv_allowed r"
  obtains c where "k = Some c" "co_revoked_at c = None"
    "\<forall>t. co_expires_at c = Some t \<longrightarrow> instant now \<le> instant t"
proof (cases k)
  case None
  with assms show thesis by (auto simp: check_recurring_consent_def)
next
  case (Some c)
  show thesis
    by (rule that [of c])
      (use assms Some in \<open>auto simp: check_recurring_consent_def err_simps dt_ge_def
        split: option.splits if_splits\<close>)
qed

lemma revalidate_allowed_may_dispatch:
  assumes "revalidate cid action m now s = Inr r" and "rv_allowed r"
  shows "may_dispatch s cid"
proof -
  from assms obtain c where c: "find_case s cid = Some c"
    by (auto simp: revalidate_def split: option.splits)
  have id: "rc_id c = cid" by (rule find_case_id [OF c])
  from assms c have "rc_state c = Case_ACTION_PENDING"
    by (auto simp: revalidate_def split: if_splits)
  moreover from assms c
  have "\<forall>t. find_transaction s (rc_trigger_transaction_id c) = Some t \<longrightarrow> tx_status t \<noteq> Tx_SUCCEEDED"
    by (auto simp: revalidate_def split: if_splits)
  moreover from assms c have "unknown_execution s cid = None"
    unfolding revalidate_def by (auto simp: id split: if_splits)
  ultimately show ?thesis
    using c by (auto simp: may_dispatch_def unknown_execution_None)
qed

lemma revalidate_retry_allowed:
  assumes "revalidate cid Act_RETRY_PAYMENT m now s = Inr r" and "rv_allowed r"
  obtains c where "find_case s cid = Some c" "int (length (attempts_of s cid)) < m"
    "recurring_consent_live s (rc_customer_id c) now"
proof -
  from revalidate_allowed_may_dispatch [OF assms] obtain c where
    c: "find_case s cid = Some c" "rc_state c = Case_ACTION_PENDING"
      "\<forall>t. find_transaction s (rc_trigger_transaction_id c) = Some t \<longrightarrow> tx_status t \<noteq> Tx_SUCCEEDED"
      "unknown_execution s cid = None"
    by (auto simp: may_dispatch_def unknown_execution_None)
  have id: "rc_id c = cid" by (rule find_case_id [OF c(1)])
  have tx: "\<not> (case find_transaction s (rc_trigger_transaction_id c) of
                     None \<Rightarrow> False | Some t \<Rightarrow> tx_status t = Tx_SUCCEEDED)"
    using c(3) by (auto split: option.split)
  from assms c(1,2,4) tx have n: "int (length (attempts_of s cid)) < m"
    unfolding revalidate_def by (auto simp: id split: if_splits)
  with assms c(1,2,4) tx have "check_recurring_consent
      (granted_consent s (rc_customer_id c) [Consent_RECURRING_BILLING]) now = Inr r"
    unfolding revalidate_def by (simp add: id)
  then obtain k where "granted_consent s (rc_customer_id c) [Consent_RECURRING_BILLING] = Some k"
    "co_revoked_at k = None" "\<forall>t. co_expires_at k = Some t \<longrightarrow> instant now \<le> instant t"
    using assms(2) by (rule check_recurring_consent_allowed)
  then have "recurring_consent_live s (rc_customer_id c) now"
    using granted_consent_Some by (fastforce simp: recurring_consent_live_def)
  with c(1) n show thesis by (rule that)
qed

text \<open>C4: The gate in front of a payment retry opens only when the case is in
  ACTION_PENDING, its transaction has not succeeded, no earlier execution of the case has an
  unknown outcome, fewer attempts than the limit exist, and the customer has a recurring-billing
  consent that is granted, not revoked and not past its expiry.\<close>

theorem revalidation_is_fail_closed:
  assumes "revalidate cid Act_RETRY_PAYMENT m now s = Inr r" and "rv_allowed r"
  shows "may_dispatch s cid \<and> int (length (attempts_of s cid)) < m
         \<and> (\<exists>c. find_case s cid = Some c \<and> recurring_consent_live s (rc_customer_id c) now)"
  using revalidate_allowed_may_dispatch [OF assms] revalidate_retry_allowed [OF assms] by metis

lemma revalidation_is_fail_closed_witness:
  "\<exists>r. revalidate ''case'' Act_RETRY_PAYMENT default_max_retries demo_now demo_ready = Inr r
     \<and> rv_allowed r \<and> may_dispatch demo_ready ''case''"
proof -
  have "case revalidate ''case'' Act_RETRY_PAYMENT default_max_retries demo_now demo_ready of
      Inl _ \<Rightarrow> False | Inr r \<Rightarrow> rv_allowed r"
    by code_simp
  then obtain r where
    "revalidate ''case'' Act_RETRY_PAYMENT default_max_retries demo_now demo_ready = Inr r" "rv_allowed r"
    by (auto split: sum.splits)
  with revalidation_is_fail_closed [OF this] show ?thesis by blast
qed

text \<open>An unknown outcome keeps the gate shut for every action.\<close>

lemma unknown_outcome_blocks:
  assumes "e \<in> set (executions s)" "ex_case_id e = cid" "ex_status e = Exec_UNKNOWN"
    and "revalidate cid action m now s = Inr r"
  shows "\<not> rv_allowed r"
proof
  assume "rv_allowed r"
  from revalidate_allowed_may_dispatch [OF assms(4) this] assms(1-3) show False
    by (auto simp: may_dispatch_def)
qed

end
