(* ===== verification/Workflow_Execution.thy ===== *)
theory Workflow_Execution
  imports Workflow_Creation Revalidation Case_Transitions Payment_Adapter
begin

text \<open>
  \<open>WorkflowExecutionService\<close> of \<open>backend/app/workflows/execution_service.py\<close>: one step of a workflow,
  the gated payment dispatch with its five outcomes, and the bounded loop over the steps.

  The session and the adapter are two states: an exception drops the session (the rollback of
  \<open>get_db\<close>) but not what the adapter has already done, so a handler returns a pair of a fallible
  session result and the adapter's state. What a step draws from outside (clock, two uuids, and
  the adapter call made with its own environment) is one \<open>step_env\<close>.
\<close>

record 'g step_env =
  se_now :: pydatetime
  se_attempt_id :: uuid
  se_execution_id :: uuid
  se_submit :: "retry_request \<Rightarrow> 'g \<Rightarrow> execution_outcome \<times> 'g"

definition find_step :: "session \<Rightarrow> uuid \<Rightarrow> workflow_step option" where
  "find_step s i = find (\<lambda>w. ws_id w = i) (steps s)"

section \<open>The step executors\<close>

definition fail_step :: "workflow_step \<Rightarrow> recovery_workflow \<Rightarrow> session \<Rightarrow> session" where
  "fail_step st w s =
     put_step (st\<lparr>ws_status := Step_FAILED\<rparr>) (put_workflow (w\<lparr>wf_status := Wf_FAILED\<rparr>) s)"

definition execute_validate ::
  "recovery_workflow \<Rightarrow> workflow_step \<Rightarrow> recovery_case \<Rightarrow> string \<Rightarrow> pydatetime \<Rightarrow> session
     \<Rightarrow> py_error + session" where
  "execute_validate w st c corr now s =
     ebind (revalidate (rc_id c) (ws_action_type st) default_max_retries now s) (\<lambda>rv.
       if \<not> rv_allowed rv then
         (let s1 = fail_step (st\<lparr>ws_executed_at := Some now,
                       ws_execution_result := [(''allowed'', JBool False),
                                               (''reason_code'', JStr (rv_reason_code rv))]\<rparr>) w s;
              target = (if contains ''UNKNOWN'' (rv_reason_code rv) then Case_ESCALATED
                        else Case_STOPPED)
          in ebind (move_case c target (py_lower (rv_reason_code rv)) Actor_SYSTEM None (Some corr) [] now s1)
               (\<lambda>(_, t). Inr t))
       else Inr (put_step (st\<lparr>ws_status := Step_COMPLETED, ws_executed_at := Some now,
                    ws_execution_result := [(''allowed'', JBool True),
                                            (''reason_code'', JStr (rv_reason_code rv))]\<rparr>) s))"

definition execute_wait_cooldown :: "workflow_step \<Rightarrow> pydatetime \<Rightarrow> session \<Rightarrow> session" where
  "execute_wait_cooldown st now s =
     put_step (st\<lparr>ws_status := Step_COMPLETED, ws_executed_at := Some now,
                 ws_execution_result := [(''cooldown_satisfied'', JBool True)]\<rparr>) s"

definition execute_await_verification ::
  "recovery_workflow \<Rightarrow> workflow_step \<Rightarrow> session \<Rightarrow> session" where
  "execute_await_verification w st s =
     put_step (st\<lparr>ws_status := Step_WAITING,
                 ws_execution_result := [(''status'', JStr ''waiting_for_webhook_or_reconciliation'')]\<rparr>)
       (put_workflow (w\<lparr>wf_status := Wf_WAITING\<rparr>) s)"

definition execute_generic :: "workflow_step \<Rightarrow> pydatetime \<Rightarrow> session \<Rightarrow> session" where
  "execute_generic st now s =
     put_step (st\<lparr>ws_status := Step_COMPLETED, ws_executed_at := Some now,
                 ws_execution_result := [(''result'', JStr ''generic_step_completed'')]\<rparr>) s"

section \<open>The payment dispatch\<close>

definition new_attempt ::
  "recovery_workflow \<Rightarrow> workflow_step \<Rightarrow> recovery_case \<Rightarrow> nat \<Rightarrow> uuid \<Rightarrow> pydatetime \<Rightarrow> recovery_attempt"
  where
  "new_attempt w st c n aid now =
     \<lparr>at_id = aid, at_case_id = rc_id c, at_sequence_number = int n + 1, at_status = Att_STARTED,
      at_action_type = Act_RETRY_PAYMENT, at_started_at = Some now, at_finished_at = None,
      at_outcome = None, at_provider_reference = None,
      at_idempotency_key = rc_id c @ '':retry:'' @ str_of_int (int n + 1),
      at_metadata = [(''workflow_id'', JStr (wf_id w)), (''step_id'', JStr (ws_id st))]\<rparr>"

definition build_request ::
  "workflow_step \<Rightarrow> recovery_case \<Rightarrow> transaction \<Rightarrow> customer \<Rightarrow> payload option \<Rightarrow> retry_request" where
  "build_request st c tx cust override =
     \<lparr>pr_case_id = rc_id c, pr_transaction_id = tx_id tx, pr_amount_minor = tx_amount_minor tx,
      pr_currency = tx_currency tx, pr_customer_reference = cu_external_id cust,
      pr_idempotency_key = ws_idempotency_key st, pr_customer_email = cu_email cust,
      pr_customer_contact = None, pr_payment_method = get_str (tx_metadata tx) ''method'',
      pr_metadata = dict_update (ws_payload st) (case override of None \<Rightarrow> [] | Some m \<Rightarrow> m)\<rparr>"

definition outcome_reference :: "execution_outcome \<Rightarrow> string option" where
  "outcome_reference res = (if truthy (xr_payment_id res) then xr_payment_id res else xr_order_id res)"

definition new_execution ::
  "workflow_step \<Rightarrow> recovery_case \<Rightarrow> retry_request \<Rightarrow> execution_outcome \<Rightarrow> uuid \<Rightarrow> recovery_execution"
  where
  "new_execution st c req res eid =
     \<lparr>ex_id = eid, ex_step_id = ws_id st, ex_case_id = rc_id c, ex_provider = xr_provider res,
      ex_external_reference = outcome_reference res, ex_status = xr_status res,
      ex_amount_minor = xr_amount_minor res, ex_currency = xr_currency res,
      ex_idempotency_key = ws_idempotency_key st,
      ex_request_payload = [(''amount_minor'', JInt (pr_amount_minor req)),
                            (''currency'', JStr (pr_currency req)),
                            (''customer'', JStr (pr_customer_reference req))],
      ex_response_payload = xr_raw_response res, ex_error_code = xr_error_code res,
      ex_latency_ms = Some (xr_latency_ms res), ex_executed_at = xr_executed_at res\<rparr>"

definition executed_step :: "workflow_step \<Rightarrow> execution_outcome \<Rightarrow> workflow_step" where
  "executed_step st res =
     st\<lparr>ws_executed_at := Some (xr_executed_at res),
        ws_execution_result :=
          [(''status'', JStr (execution_status_value (xr_status res))),
           (''external_reference'', jopt (outcome_reference res)),
           (''latency_ms'', JInt (xr_latency_ms res)), (''error_code'', jopt (xr_error_code res))]\<rparr>"

text \<open>
  Step 7. \<open>n\<close> is the length of \<open>case.attempts\<close> as it was loaded before the attempt was added: the new
  row is created by its \<open>case_id\<close>, so the loaded collection does not contain it. PENDING and
  CANCELLED match no branch.
\<close>

definition apply_outcome ::
  "recovery_workflow \<Rightarrow> workflow_step \<Rightarrow> recovery_case \<Rightarrow> recovery_attempt \<Rightarrow> execution_outcome \<Rightarrow> nat
     \<Rightarrow> string \<Rightarrow> pydatetime \<Rightarrow> session \<Rightarrow> py_error + session" where
  "apply_outcome w st c a res n corr now s =
     (let ref = outcome_reference res;
          move = (\<lambda>target reason t.
            ebind (move_case c target reason Actor_SYSTEM None (Some corr) [] now t) (\<lambda>(_, u). Inr u))
      in case xr_status res of
           Exec_SUBMITTED \<Rightarrow>
             move Case_VERIFICATION_PENDING ''payment_retry_submitted_to_provider''
               (put_attempt (a\<lparr>at_status := Att_STARTED, at_provider_reference := ref\<rparr>)
                 (put_step (st\<lparr>ws_status := Step_COMPLETED\<rparr>) s))
         | Exec_SUCCEEDED \<Rightarrow>
             move Case_VERIFICATION_PENDING ''gateway_reported_payment_captured''
               (put_attempt (a\<lparr>at_status := Att_SUCCEEDED,
                               at_outcome := Some ''gateway_confirmed_success'',
                               at_provider_reference := ref\<rparr>)
                 (put_step (st\<lparr>ws_status := Step_COMPLETED\<rparr>) s))
         | Exec_UNKNOWN \<Rightarrow>
             move Case_ESCALATED ''provider_timeout_unknown_outcome''
               (put_workflow (w\<lparr>wf_status := Wf_REQUIRES_REVIEW\<rparr>)
                 (put_attempt (a\<lparr>at_status := Att_UNCERTAIN,
                                 at_outcome := Some ''unknown_outcome_awaiting_reconciliation''\<rparr>)
                   (put_step (st\<lparr>ws_status := Step_FAILED\<rparr>) s)))
         | Exec_FAILED \<Rightarrow>
             (let t = put_workflow (w\<lparr>wf_status := Wf_FAILED\<rparr>)
                        (put_attempt (a\<lparr>at_status := Att_FAILED,
                                        at_outcome := Some (if truthy (xr_error_code res)
                                                            then or_empty (xr_error_code res)
                                                            else ''payment_failed'')\<rparr>)
                          (put_step (st\<lparr>ws_status := Step_FAILED\<rparr>) s))
              in if 4 \<le> n then move Case_STOPPED ''retry_limit_exhausted'' t else Inr t)
         | _ \<Rightarrow> Inr (put_step st s))"

text \<open>From the recorded attempt on: the adapter is called, then everything may still raise.\<close>

definition submit_and_record ::
  "'g step_env \<Rightarrow> recovery_workflow \<Rightarrow> workflow_step \<Rightarrow> recovery_case \<Rightarrow> transaction \<Rightarrow> customer
     \<Rightarrow> payload option \<Rightarrow> nat \<Rightarrow> string \<Rightarrow> session \<Rightarrow> 'g \<Rightarrow> (py_error + session) \<times> 'g" where
  "submit_and_record env w st c tx cust override n corr s g =
     (let a = new_attempt w st c n (se_attempt_id env) (se_now env)
      in case flush (s\<lparr>attempts := attempts s @ [a]\<rparr>) of
           Inl e \<Rightarrow> (Inl e, g)
         | Inr s1 \<Rightarrow>
             (let req = build_request st c tx cust override;
                  (res, g') = se_submit env req g
              in (ebind (flush (s1\<lparr>executions := executions s1
                                   @ [new_execution st c req res (se_execution_id env)]\<rparr>)) (\<lambda>s2.
                    apply_outcome w (executed_step st res) c a res n corr (se_now env) s2), g')))"

definition execute_dispatch ::
  "'g step_env \<Rightarrow> recovery_workflow \<Rightarrow> workflow_step \<Rightarrow> recovery_case \<Rightarrow> payload option \<Rightarrow> string
     \<Rightarrow> session \<Rightarrow> 'g \<Rightarrow> (py_error + session) \<times> 'g" where
  "execute_dispatch env w st c override corr s g =
     (case revalidate (rc_id c) Act_RETRY_PAYMENT default_max_retries (se_now env) s of
        Inl e \<Rightarrow> (Inl e, g)
      | Inr rv \<Rightarrow>
          if \<not> rv_allowed rv
            then (Inr (fail_step (st\<lparr>ws_executed_at := Some (se_now env)\<rparr>) w s), g)
          else
            (case (find_transaction s (rc_trigger_transaction_id c), find_customer s (rc_customer_id c)) of
               (Some tx, Some cust) \<Rightarrow>
                 submit_and_record env w st c tx cust override
                   (length (attempts_of s (rc_id c))) corr s g
             | _ \<Rightarrow> (Inr (fail_step st w s), g)))"

section \<open>One step\<close>

definition runnable_statuses :: "step_status list" where
  "runnable_statuses = [Step_PENDING, Step_SCHEDULED]"

definition pending_steps :: "session \<Rightarrow> uuid \<Rightarrow> workflow_step list" where
  "pending_steps s wid = filter (\<lambda>x. ws_status x \<in> set runnable_statuses) (steps_of s wid)"

definition closed_workflow_statuses :: "workflow_status list" where
  "closed_workflow_statuses = [Wf_COMPLETED, Wf_FAILED, Wf_CANCELLED]"

definition run_step ::
  "'g step_env \<Rightarrow> recovery_workflow \<Rightarrow> workflow_step \<Rightarrow> recovery_case \<Rightarrow> payload option \<Rightarrow> string
     \<Rightarrow> session \<Rightarrow> 'g \<Rightarrow> (py_error + session) \<times> 'g" where
  "run_step env w st c override corr s g =
     (case ws_step_type st of
        Stp_VALIDATE_AUTHORIZATION \<Rightarrow> (execute_validate w st c corr (se_now env) s, g)
      | Stp_WAIT_COOLDOWN \<Rightarrow> (Inr (execute_wait_cooldown st (se_now env) s), g)
      | Stp_DISPATCH_PAYMENT_RETRY \<Rightarrow> execute_dispatch env w st c override corr s g
      | Stp_AWAIT_VERIFICATION \<Rightarrow> (Inr (execute_await_verification w st s), g)
      | _ \<Rightarrow> (Inr (execute_generic st (se_now env) s), g))"

definition step_correlation :: "string option \<Rightarrow> workflow_step \<Rightarrow> string" where
  "step_correlation correlation_id st =
     (if truthy correlation_id then or_empty correlation_id
      else ''wf_step_'' @ take 10 (uuid_hex (ws_id st)))"

text \<open>The answer is the step executed, or the last step when none was left to run.\<close>

definition execute_next_step ::
  "'g step_env \<Rightarrow> uuid \<Rightarrow> string option \<Rightarrow> payload option \<Rightarrow> session \<Rightarrow> 'g
     \<Rightarrow> (py_error + (workflow_step option \<times> session)) \<times> 'g" where
  "execute_next_step env wid correlation_id override s g =
     (case find_workflow s wid of
        None \<Rightarrow> (Inl (ValueError (''Workflow not found: '' @ wid)), g)
      | Some w \<Rightarrow>
          if wf_status w \<in> set closed_workflow_statuses
            then (Inl (ValueError (''Cannot execute step in terminal workflow: status=''
                    @ workflow_status_value (wf_status w))), g)
          else
            (case find_case s (wf_case_id w) of
               None \<Rightarrow> (Inl (ValueError (''Associated RecoveryCase not found: '' @ wf_case_id w)), g)
             | Some c \<Rightarrow>
                 (case pending_steps s wid of
                    [] \<Rightarrow>
                      (ebind (flush (put_workflow (w\<lparr>wf_status := Wf_COMPLETED\<rparr>) s)) (\<lambda>t.
                         Inr (if steps_of s wid = [] then None else Some (last (steps_of s wid)), t)), g)
                  | st # _ \<Rightarrow>
                      (let w' = w\<lparr>wf_status := Wf_RUNNING\<rparr>; st' = st\<lparr>ws_status := Step_RUNNING\<rparr>
                       in case flush (put_step st' (put_workflow w' s)) of
                            Inl e \<Rightarrow> (Inl e, g)
                          | Inr s1 \<Rightarrow>
                              (let (r, g') = run_step env w' st' c override
                                               (step_correlation correlation_id st) s1 g
                               in (ebind r (\<lambda>s2. ebind (flush s2) (\<lambda>t.
                                     Inr (find_step t (ws_id st), t))), g'))))))"

section \<open>The loop\<close>

definition stop_statuses :: "workflow_status list" where
  "stop_statuses = [Wf_COMPLETED, Wf_FAILED, Wf_CANCELLED, Wf_WAITING, Wf_REQUIRES_REVIEW]"

text \<open>The body of the \<open>while\<close>, \<open>k\<close> iterations at most; iteration \<open>i\<close> runs in \<open>envs i\<close>.\<close>

fun step_loop ::
  "nat \<Rightarrow> nat \<Rightarrow> (nat \<Rightarrow> 'g step_env) \<Rightarrow> uuid \<Rightarrow> string option \<Rightarrow> payload option \<Rightarrow> session \<Rightarrow> 'g
     \<Rightarrow> (py_error + session) \<times> 'g" where
  "step_loop 0 i envs wid corr override s g = (Inr s, g)"
| "step_loop (Suc k) i envs wid corr override s g =
     (case find_workflow s wid of
        None \<Rightarrow> (Inr s, g)
      | Some w \<Rightarrow>
          if wf_status w \<in> set stop_statuses then (Inr s, g)
          else if pending_steps s wid = []
            then (Inr (put_workflow (w\<lparr>wf_status := Wf_COMPLETED\<rparr>) s), g)
          else
            (case execute_next_step (envs i) wid corr override s g of
               (Inl e, g') \<Rightarrow> (Inl e, g')
             | (Inr (st, t), g') \<Rightarrow>
                 (case st of
                    None \<Rightarrow> (Inl AttributeError, g')
                  | Some x \<Rightarrow>
                      if ws_status x \<in> {Step_WAITING, Step_FAILED} then (Inr t, g')
                      else step_loop k (Suc i) envs wid corr override t g')))"

definition execute_all_available_steps ::
  "(nat \<Rightarrow> 'g step_env) \<Rightarrow> uuid \<Rightarrow> string option \<Rightarrow> payload option \<Rightarrow> session \<Rightarrow> 'g
     \<Rightarrow> (py_error + session) \<times> 'g" where
  "execute_all_available_steps envs wid corr override s g =
     (case find_workflow s wid of
        None \<Rightarrow> (Inl (ValueError (''Workflow not found: '' @ wid)), g)
      | Some w \<Rightarrow>
          (let (r, g') = step_loop (length (steps_of s wid) + 2) 0 envs wid corr override s g
           in (ebind r flush, g')))"

section \<open>The gate\<close>

lemma dispatch_gated:
  assumes "execute_dispatch env w st c override corr s g = (r, g')" and "g' \<noteq> g"
  obtains rv where "revalidate (rc_id c) Act_RETRY_PAYMENT default_max_retries (se_now env) s = Inr rv"
    "rv_allowed rv"
proof (cases "revalidate (rc_id c) Act_RETRY_PAYMENT default_max_retries (se_now env) s")
  case (Inl e)
  with assms show thesis by (simp add: execute_dispatch_def)
next
  case (Inr rv)
  show thesis
  proof (cases "rv_allowed rv")
    case True
    with Inr that show thesis by blast
  next
    case False
    with Inr assms show thesis by (simp add: execute_dispatch_def)
  qed
qed

lemma run_step_adapter:
  assumes "run_step env w st c override corr s g = (r, g')" and "g' \<noteq> g"
  shows "ws_step_type st = Stp_DISPATCH_PAYMENT_RETRY
         \<and> execute_dispatch env w st c override corr s g = (r, g')"
  using assms by (cases "ws_step_type st") (simp_all add: run_step_def)

text \<open>The session a step starts in differs from the stored one in two statuses only.\<close>

lemma may_dispatch_cong:
  "cases t = cases s \<Longrightarrow> transactions t = transactions s \<Longrightarrow> executions t = executions s \<Longrightarrow>
     may_dispatch t cid = may_dispatch s cid"
  by (simp add: may_dispatch_def find_case_def find_transaction_def)

lemma started_keeps:
  assumes "flush (put_step st (put_workflow w s)) = Inr s1"
  shows "cases s1 = cases s" "transactions s1 = transactions s" "executions s1 = executions s"
    "attempts s1 = attempts s" "consents s1 = consents s" "customers s1 = customers s"
    "steps s1 = upd_by ws_id st (steps s)" "workflows s1 = upd_by wf_id w (workflows s)" "session_ok s1"
  using assms flush_session_ok [OF assms]
  by (simp_all add: flush_ok put_step_def put_workflow_def)

lemma step_reaches_adapter:
  assumes "execute_next_step env wid correlation_id override s g = (r, g')" and "g' \<noteq> g"
  shows "\<exists>w c st rest. find_workflow s wid = Some w \<and> wf_status w \<notin> set closed_workflow_statuses
           \<and> find_case s (wf_case_id w) = Some c
           \<and> pending_steps s wid = st # rest \<and> ws_step_type st = Stp_DISPATCH_PAYMENT_RETRY
           \<and> may_dispatch s (wf_case_id w)
           \<and> length (attempts_of s (wf_case_id w)) < 4
           \<and> recurring_consent_live s (rc_customer_id c) (se_now env)"
proof -
  obtain w where w: "find_workflow s wid = Some w"
    using assms by (cases "find_workflow s wid") (simp_all add: execute_next_step_def)
  have open_wf: "wf_status w \<notin> set closed_workflow_statuses"
    using assms w by (auto simp: execute_next_step_def split: if_splits)
  obtain c where c: "find_case s (wf_case_id w) = Some c"
    using assms w open_wf
    by (cases "find_case s (wf_case_id w)") (simp_all add: execute_next_step_def)
  obtain st rest where st: "pending_steps s wid = st # rest"
    using assms w open_wf c
    by (cases "pending_steps s wid") (simp_all add: execute_next_step_def)
  define w' where "w' = w\<lparr>wf_status := Wf_RUNNING\<rparr>"
  define st' where "st' = st\<lparr>ws_status := Step_RUNNING\<rparr>"
  obtain s1 where s1: "flush (put_step st' (put_workflow w' s)) = Inr s1"
    using assms w open_wf c st
    by (cases "flush (put_step st' (put_workflow w' s))")
      (simp_all add: execute_next_step_def Let_def flip: w'_def st'_def)
  obtain r2 g2 where rs: "run_step env w' st' c override (step_correlation correlation_id st) s1 g = (r2, g2)"
    by fastforce
  have "g2 = g'"
    using assms(1) w open_wf c st s1 rs
    by (simp add: execute_next_step_def Let_def flip: w'_def st'_def)
  with rs assms(2) have disp: "ws_step_type st' = Stp_DISPATCH_PAYMENT_RETRY"
    "execute_dispatch env w' st' c override (step_correlation correlation_id st) s1 g = (r2, g')"
    using run_step_adapter by metis+
  from dispatch_gated [OF disp(2) assms(2)] obtain rv where
    rv: "revalidate (rc_id c) Act_RETRY_PAYMENT default_max_retries (se_now env) s1 = Inr rv" "rv_allowed rv"
    by blast
  have id: "rc_id c = wf_case_id w" by (rule find_case_id [OF c])
  note k = started_keeps [OF s1]
  have "may_dispatch s (wf_case_id w)"
    using revalidate_allowed_may_dispatch [OF rv] k(1-3) may_dispatch_cong [of s1 s] by (simp add: id)
  moreover obtain c1 where "find_case s1 (rc_id c) = Some c1"
    "int (length (attempts_of s1 (rc_id c))) < default_max_retries"
    "recurring_consent_live s1 (rc_customer_id c1) (se_now env)"
    using revalidate_retry_allowed [OF rv] by blast
  then have "length (attempts_of s (wf_case_id w)) < 4"
    "recurring_consent_live s (rc_customer_id c) (se_now env)"
    using k c id
    by (simp_all add: find_case_def attempts_of_def default_max_retries_def recurring_consent_live_def)
  ultimately show ?thesis
    using w open_wf c st disp(1) by (auto simp: st'_def)
qed

text \<open>C1: Executing the next step of a workflow reaches the payment adapter only
  for a dispatch step, and only when, at that moment, the case is in ACTION_PENDING with no
  succeeded transaction and no unknown earlier outcome, fewer than four attempts exist and the
  customer's recurring-billing consent is live. In every other situation, raised errors included,
  the adapter's state is untouched.\<close>

theorem payment_only_through_the_gate:
  assumes "execute_next_step env wid correlation_id override s g = (r, g')" and "g' \<noteq> g"
  shows "\<exists>w c st rest. find_workflow s wid = Some w \<and> wf_status w \<notin> set closed_workflow_statuses
           \<and> find_case s (wf_case_id w) = Some c
           \<and> pending_steps s wid = st # rest \<and> ws_step_type st = Stp_DISPATCH_PAYMENT_RETRY
           \<and> may_dispatch s (wf_case_id w)
           \<and> length (attempts_of s (wf_case_id w)) < 4
           \<and> recurring_consent_live s (rc_customer_id c) (se_now env)"
  by (rule step_reaches_adapter [OF assms])

section \<open>The outcomes of a dispatch\<close>

lemma move_case_find:
  assumes "move_case c st reason actor aid corr corr_id now s = Inr (c', t)"
    and "find_case s (rc_id c) \<noteq> None"
  shows "find_case t (rc_id c) = Some (moved_case c st now)"
proof -
  from assms(1) obtain r where "transition_case c st reason actor aid corr corr_id now s = Inr (r, c', t)"
    by (auto simp: move_case_Inr)
  then show ?thesis
  proof (cases rule: transition_case_Inr)
    case (1 k)
    with find_case_put_same [of s "moved_case c st now"] assms(2) show ?thesis
      by (simp add: transition_writes_def add_audit_def add_transition_def find_case_def)
  qed
qed

lemma submit_and_record_Inr:
  assumes "submit_and_record env w st c tx cust override n corr s g = (Inr t, g')"
  obtains res s2 where "se_submit env (build_request st c tx cust override) g = (res, g')"
    "attempts s2 = attempts s @ [new_attempt w st c n (se_attempt_id env) (se_now env)]"
    "executions s2 = executions s
       @ [new_execution st c (build_request st c tx cust override) res (se_execution_id env)]"
    "cases s2 = cases s" "workflows s2 = workflows s" "steps s2 = steps s" "session_ok s2"
    "apply_outcome w (executed_step st res) c (new_attempt w st c n (se_attempt_id env) (se_now env)) res n
       corr (se_now env) s2 = Inr t"
proof -
  define a where "a = new_attempt w st c n (se_attempt_id env) (se_now env)"
  define req where "req = build_request st c tx cust override"
  obtain s1 where s1: "flush (s\<lparr>attempts := attempts s @ [a]\<rparr>) = Inr s1"
    using assms by (cases "flush (s\<lparr>attempts := attempts s @ [a]\<rparr>)")
      (simp_all add: submit_and_record_def Let_def flip: a_def)
  obtain res g2 where res: "se_submit env req g = (res, g2)" by fastforce
  define e where "e = new_execution st c req res (se_execution_id env)"
  have "ebind (flush (s1\<lparr>executions := executions s1 @ [e]\<rparr>)) (\<lambda>s2.
      apply_outcome w (executed_step st res) c a res n corr (se_now env) s2) = Inr t" "g2 = g'"
    using assms s1 res
    by (simp_all add: submit_and_record_def Let_def flip: a_def req_def e_def)
  then obtain s2 where s2: "flush (s1\<lparr>executions := executions s1 @ [e]\<rparr>) = Inr s2"
    "apply_outcome w (executed_step st res) c a res n corr (se_now env) s2 = Inr t"
    by (auto simp: err_simps)
  have "attempts s2 = attempts s @ [a]" "executions s2 = executions s @ [e]" "cases s2 = cases s"
    "workflows s2 = workflows s" "steps s2 = steps s"
    using s1 s2(1) by (simp_all add: flush_ok)
  with s2 flush_session_ok [OF s2(1)] res \<open>g2 = g'\<close> show thesis
    by (intro that [of res s2]) (simp_all add: a_def req_def e_def)
qed

text \<open>Where the case is after each outcome.\<close>

definition state_after_outcome :: "execution_status \<Rightarrow> case_state" where
  "state_after_outcome st =
     (case st of
        Exec_SUBMITTED \<Rightarrow> Case_VERIFICATION_PENDING
      | Exec_SUCCEEDED \<Rightarrow> Case_VERIFICATION_PENDING
      | Exec_UNKNOWN \<Rightarrow> Case_ESCALATED
      | _ \<Rightarrow> Case_ACTION_PENDING)"

lemma find_case_puts [simp]:
  "find_case (put_step x s) i = find_case s i" "find_case (put_workflow y s) i = find_case s i"
  "find_case (put_attempt z s) i = find_case s i"
  by (simp_all add: find_case_def session_write_defs)

lemma put_frame:
  "executions (put_step x s) = executions s" "executions (put_workflow y s) = executions s"
  "executions (put_attempt z s) = executions s" "attempts (put_step x s) = attempts s"
  "attempts (put_workflow y s) = attempts s" "length (attempts (put_attempt z s)) = length (attempts s)"
  "workflows (put_step x s) = workflows s" "workflows (put_attempt z s) = workflows s"
  "steps (put_workflow y s) = steps s" "steps (put_attempt z s) = steps s"
  "workflows (put_workflow y s) = upd_by wf_id y (workflows s)"
  "steps (put_step x s) = upd_by ws_id x (steps s)"
  by (simp_all add: session_write_defs)

lemma apply_outcome_case:
  assumes "apply_outcome w st c a res n corr now s = Inr t"
    and "find_case s (rc_id c) = Some c" and "rc_state c = Case_ACTION_PENDING" and "n < 4"
  shows "\<exists>c'. find_case t (rc_id c) = Some c' \<and> rc_state c' = state_after_outcome (xr_status res)"
    and "executions t = executions s"
    and "length (attempts t) = length (attempts s)"
proof -
  have m: "(\<exists>c'. find_case u (rc_id c) = Some c' \<and> rc_state c' = target) \<and> executions u = executions v
      \<and> attempts u = attempts v"
    if "move_case c target reason Actor_SYSTEM None (Some corr) [] now v = Inr (c2, u)"
      and "find_case v (rc_id c) = Some c" for target reason v c2 u
    using move_case_find [OF that(1)] move_case_facts [OF that(1)] that(2) by simp
  have "(\<exists>c'. find_case t (rc_id c) = Some c' \<and> rc_state c' = state_after_outcome (xr_status res))
      \<and> executions t = executions s \<and> length (attempts t) = length (attempts s)"
  proof (cases "xr_status res")
    case Exec_SUBMITTED
    with assms(1) obtain c2 where "move_case c Case_VERIFICATION_PENDING
        ''payment_retry_submitted_to_provider'' Actor_SYSTEM None (Some corr) [] now
        (put_attempt (a\<lparr>at_status := Att_STARTED, at_provider_reference := outcome_reference res\<rparr>)
          (put_step (st\<lparr>ws_status := Step_COMPLETED\<rparr>) s)) = Inr (c2, t)"
      by (auto simp: apply_outcome_def Let_def err_simps)
    from m [OF this] show ?thesis
      using assms(2) Exec_SUBMITTED by (simp add: state_after_outcome_def put_frame)
  next
    case Exec_SUCCEEDED
    with assms(1) obtain c2 where "move_case c Case_VERIFICATION_PENDING
        ''gateway_reported_payment_captured'' Actor_SYSTEM None (Some corr) [] now
        (put_attempt (a\<lparr>at_status := Att_SUCCEEDED, at_outcome := Some ''gateway_confirmed_success'',
                        at_provider_reference := outcome_reference res\<rparr>)
          (put_step (st\<lparr>ws_status := Step_COMPLETED\<rparr>) s)) = Inr (c2, t)"
      by (auto simp: apply_outcome_def Let_def err_simps)
    from m [OF this] show ?thesis
      using assms(2) Exec_SUCCEEDED by (simp add: state_after_outcome_def put_frame)
  next
    case Exec_UNKNOWN
    with assms(1) obtain c2 where "move_case c Case_ESCALATED
        ''provider_timeout_unknown_outcome'' Actor_SYSTEM None (Some corr) [] now
        (put_workflow (w\<lparr>wf_status := Wf_REQUIRES_REVIEW\<rparr>)
          (put_attempt (a\<lparr>at_status := Att_UNCERTAIN,
                          at_outcome := Some ''unknown_outcome_awaiting_reconciliation''\<rparr>)
            (put_step (st\<lparr>ws_status := Step_FAILED\<rparr>) s))) = Inr (c2, t)"
      by (auto simp: apply_outcome_def Let_def err_simps)
    from m [OF this] show ?thesis
      using assms(2) Exec_UNKNOWN
      by (simp add: state_after_outcome_def put_frame)
  qed (use assms in \<open>auto simp: apply_outcome_def Let_def state_after_outcome_def put_frame\<close>)
  then show "\<exists>c'. find_case t (rc_id c) = Some c' \<and> rc_state c' = state_after_outcome (xr_status res)"
    "executions t = executions s" "length (attempts t) = length (attempts s)"
    by blast+
qed


definition demo_step_env :: "submissions step_env" where
  "demo_step_env =
     \<lparr>se_now = demo_now, se_attempt_id = ''at'', se_execution_id = ''ex'',
      se_submit = submit_retry demo_adapter demo_env\<rparr>"

definition demo_workflow :: recovery_workflow where
  "demo_workflow = (new_workflow demo_policy ''case'' ''wf'' demo_now 72)\<lparr>wf_status := Wf_RUNNING\<rparr>"

definition demo_dispatch_step :: workflow_step where
  "demo_dispatch_step =
     mk_step ''s3'' ''wf'' 3 Stp_DISPATCH_PAYMENT_RETRY ''dispatch'' Act_RETRY_PAYMENT []"

definition demo_dispatch :: "(py_error + session) \<times> submissions" where
  "demo_dispatch =
     execute_dispatch demo_step_env demo_workflow demo_dispatch_step demo_pending None ''corr'' demo_ready []"


section \<open>The loop needs no more than its bound\<close>

lemma length_filter_upd_by:
  assumes "\<not> P x"
  shows "length (filter P (upd_by key x xs)) \<le> length (filter P xs)"
    and "y \<in> set xs \<Longrightarrow> key y = key x \<Longrightarrow> P y \<Longrightarrow>
           length (filter P (upd_by key x xs)) < length (filter P xs)"
proof -
  show le: "length (filter P (upd_by key x xs)) \<le> length (filter P xs)" for xs
    using assms by (induction xs) (auto simp: upd_by_def)
  show "y \<in> set xs \<Longrightarrow> key y = key x \<Longrightarrow> P y \<Longrightarrow>
           length (filter P (upd_by key x xs)) < length (filter P xs)"
  proof (induction xs)
    case (Cons z xs)
    have "upd_by key x (z # xs) = (if key z = key x then x else z) # upd_by key x xs"
      by (simp add: upd_by_def)
    with Cons assms le [of xs] show ?case by (cases "y = z") auto
  qed simp
qed

definition pending_count :: "session \<Rightarrow> uuid \<Rightarrow> nat" where
  "pending_count s wid =
     length (filter (\<lambda>x. ws_workflow_id x = wid \<and> ws_status x \<in> set runnable_statuses) (steps s))"

lemma pending_count_alt: "length (pending_steps s wid) = pending_count s wid"
  by (simp add: pending_steps_def steps_of_def filter_sort pending_count_def conj_commute)

lemma move_keeps_steps: "move_case c st reason actor aid corr corr_id now s = Inr (c', t) \<Longrightarrow> steps t = steps s"
  by (rule move_case_facts(4))

lemma apply_outcome_steps:
  assumes "apply_outcome w st c a res n corr now s = Inr t" and "ws_status st = Step_RUNNING"
  shows "\<exists>x. ws_id x = ws_id st \<and> ws_status x \<notin> set runnable_statuses \<and> steps t = upd_by ws_id x (steps s)"
proof -
  have "steps t = upd_by ws_id (st\<lparr>ws_status := Step_COMPLETED\<rparr>) (steps s)
      \<or> steps t = upd_by ws_id (st\<lparr>ws_status := Step_FAILED\<rparr>) (steps s)
      \<or> steps t = upd_by ws_id st (steps s)"
    using assms(1)
    by (cases "xr_status res")
      (auto simp: apply_outcome_def Let_def err_simps put_frame dest!: move_keeps_steps split: if_splits)
  moreover have "ws_status st' \<notin> set runnable_statuses"
    if "st' \<in> {st\<lparr>ws_status := Step_COMPLETED\<rparr>, st\<lparr>ws_status := Step_FAILED\<rparr>, st}" for st'
    using that assms(2) by (auto simp: runnable_statuses_def)
  ultimately show ?thesis
    by (metis insertCI workflow_step.select_convs(1) workflow_step.surjective workflow_step.update_convs(5))
qed

lemma put_step_done:
  "ws_id x = ws_id st \<Longrightarrow> ws_status x \<notin> set runnable_statuses \<Longrightarrow> steps t = steps (put_step x s) \<Longrightarrow>
     \<exists>x. ws_id x = ws_id st \<and> ws_status x \<notin> set runnable_statuses \<and> steps t = upd_by ws_id x (steps s)"
  by (auto simp: put_frame)

lemma run_step_steps:
  assumes "run_step env w st c override corr s g = (Inr t, g')" and "ws_status st = Step_RUNNING"
  shows "\<exists>x. ws_id x = ws_id st \<and> ws_status x \<notin> set runnable_statuses \<and> steps t = upd_by ws_id x (steps s)"
proof (cases "ws_step_type st")
  case Stp_VALIDATE_AUTHORIZATION
  with assms have "execute_validate w st c corr (se_now env) s = Inr t" by (simp add: run_step_def)
  then obtain rv where rv: "revalidate (rc_id c) (ws_action_type st) default_max_retries (se_now env) s = Inr rv"
    by (auto simp: execute_validate_def err_simps)
  show ?thesis
  proof (cases "rv_allowed rv")
    case True
    with \<open>execute_validate w st c corr (se_now env) s = Inr t\<close> rv show ?thesis
      by (intro exI [of _ "st\<lparr>ws_status := Step_COMPLETED, ws_executed_at := Some (se_now env),
            ws_execution_result := [(''allowed'', JBool True), (''reason_code'', JStr (rv_reason_code rv))]\<rparr>"])
        (auto simp: execute_validate_def put_frame runnable_statuses_def)
  next
    case False
    with \<open>execute_validate w st c corr (se_now env) s = Inr t\<close> rv show ?thesis
      by (intro exI [of _ "st\<lparr>ws_executed_at := Some (se_now env),
            ws_execution_result := [(''allowed'', JBool False), (''reason_code'', JStr (rv_reason_code rv))],
            ws_status := Step_FAILED\<rparr>"])
        (auto simp: execute_validate_def Let_def err_simps fail_step_def put_frame runnable_statuses_def
          dest!: move_keeps_steps)
  qed
next
  case Stp_DISPATCH_PAYMENT_RETRY
  with assms have d: "execute_dispatch env w st c override corr s g = (Inr t, g')"
    by (simp add: run_step_def)
  then obtain rv where rv: "revalidate (rc_id c) Act_RETRY_PAYMENT default_max_retries (se_now env) s = Inr rv"
    by (auto simp: execute_dispatch_def split: sum.splits)
  show ?thesis
  proof (cases "rv_allowed rv \<and> find_transaction s (rc_trigger_transaction_id c) \<noteq> None
      \<and> find_customer s (rc_customer_id c) \<noteq> None")
    case True
    then obtain tx cust where "submit_and_record env w st c tx cust override
        (length (attempts_of s (rc_id c))) corr s g = (Inr t, g')"
      using d rv by (auto simp: execute_dispatch_def)
    then show ?thesis
    proof (cases rule: submit_and_record_Inr)
      case (1 res s2)
      from apply_outcome_steps [OF 1(8)] assms(2) 1(6) show ?thesis by (auto simp: executed_step_def)
    qed
  next
    case False
    then have "t = fail_step (st\<lparr>ws_executed_at := Some (se_now env)\<rparr>) w s \<or> t = fail_step st w s"
      using d rv by (auto simp: execute_dispatch_def split: if_splits option.splits)
    then have "\<exists>st'. ws_id st' = ws_id st \<and> t = fail_step st' w s"
    proof
      assume "t = fail_step (st\<lparr>ws_executed_at := Some (se_now env)\<rparr>) w s"
      moreover have "ws_id (st\<lparr>ws_executed_at := Some (se_now env)\<rparr>) = ws_id st" by simp
      ultimately show ?thesis by blast
    qed blast
    then obtain st' where "ws_id st' = ws_id st" "t = fail_step st' w s" by blast
    then show ?thesis
      by (intro exI [of _ "st'\<lparr>ws_status := Step_FAILED\<rparr>"])
        (auto simp: fail_step_def put_frame runnable_statuses_def)
  qed
next
  case Stp_WAIT_COOLDOWN
  with assms show ?thesis
    by (intro put_step_done [where t = t and s = s and x = "st\<lparr>ws_status := Step_COMPLETED,
            ws_executed_at := Some (se_now env),
            ws_execution_result := [(''cooldown_satisfied'', JBool True)]\<rparr>"])
      (simp_all add: run_step_def execute_wait_cooldown_def runnable_statuses_def)
next
  case Stp_AWAIT_VERIFICATION
  with assms show ?thesis
    by (intro put_step_done [where t = t and s = s and x = "st\<lparr>ws_status := Step_WAITING,
            ws_execution_result := [(''status'', JStr ''waiting_for_webhook_or_reconciliation'')]\<rparr>"])
      (auto simp: run_step_def execute_await_verification_def runnable_statuses_def put_frame)
next
  case Stp_DISPATCH_COMMUNICATION
  with assms show ?thesis
    by (intro put_step_done [where t = t and s = s and x = "st\<lparr>ws_status := Step_COMPLETED,
            ws_executed_at := Some (se_now env),
            ws_execution_result := [(''result'', JStr ''generic_step_completed'')]\<rparr>"])
      (simp_all add: run_step_def execute_generic_def runnable_statuses_def)
next
  case Stp_CREATE_SUPPORT_TASK
  with assms show ?thesis
    by (intro put_step_done [where t = t and s = s and x = "st\<lparr>ws_status := Step_COMPLETED,
            ws_executed_at := Some (se_now env),
            ws_execution_result := [(''result'', JStr ''generic_step_completed'')]\<rparr>"])
      (simp_all add: run_step_def execute_generic_def runnable_statuses_def)
qed

lemma next_step_decreases:
  assumes "execute_next_step env wid corr override s g = (Inr (r, t), g')" and "pending_steps s wid \<noteq> []"
  shows "length (pending_steps t wid) < length (pending_steps s wid)"
proof -
  obtain st rest where st: "pending_steps s wid = st # rest" using assms(2) by (cases "pending_steps s wid") auto
  obtain w where w: "find_workflow s wid = Some w"
    using assms by (cases "find_workflow s wid") (simp_all add: execute_next_step_def)
  have op: "wf_status w \<notin> set closed_workflow_statuses"
    using assms w by (auto simp: execute_next_step_def split: if_splits)
  obtain c where c: "find_case s (wf_case_id w) = Some c"
    using assms w op by (cases "find_case s (wf_case_id w)") (simp_all add: execute_next_step_def)
  define w' where "w' = w\<lparr>wf_status := Wf_RUNNING\<rparr>"
  define st' where "st' = st\<lparr>ws_status := Step_RUNNING\<rparr>"
  obtain s1 where s1: "flush (put_step st' (put_workflow w' s)) = Inr s1"
    using assms w op c st by (cases "flush (put_step st' (put_workflow w' s))")
      (simp_all add: execute_next_step_def Let_def flip: w'_def st'_def)
  obtain r2 g2 where rs: "run_step env w' st' c override (step_correlation corr st) s1 g = (r2, g2)"
    by fastforce
  from assms(1) w op c st s1 rs obtain s2 where "r2 = Inr s2" and t: "flush s2 = Inr t"
    by (auto simp: execute_next_step_def Let_def err_simps simp flip: w'_def st'_def)
  with rs have "run_step env w' st' c override (step_correlation corr st) s1 g = (Inr s2, g2)" by simp
  from run_step_steps [OF this] obtain x where x: "ws_id x = ws_id st'"
    "ws_status x \<notin> set runnable_statuses" "steps s2 = upd_by ws_id x (steps s1)"
    by (auto simp: st'_def)
  let ?P = "\<lambda>y. ws_workflow_id y = wid \<and> ws_status y \<in> set runnable_statuses"
  have "st \<in> set (pending_steps s wid)" using st by simp
  then have mem: "st \<in> set (steps s)" "?P st" by (auto simp: pending_steps_def steps_of_def)
  have "length (filter ?P (steps t)) \<le> length (filter ?P (steps s1))"
    using t x(2,3) length_filter_upd_by(1) [of ?P x ws_id "steps s1"] by (simp add: flush_ok)
  also have "length (filter ?P (steps s1)) < length (filter ?P (steps s))"
    using length_filter_upd_by(2) [of ?P st' st "steps s" ws_id] mem started_keeps(7) [OF s1]
    by (simp add: st'_def runnable_statuses_def)
  finally show ?thesis unfolding pending_count_alt by (simp add: pending_count_def)
qed

lemma step_loop_more:
  "length (pending_steps s wid) < k \<Longrightarrow>
     step_loop (k + m) i envs wid corr override s g = step_loop k i envs wid corr override s g"
proof (induction k arbitrary: i s g)
  case (Suc k)
  show ?case
  proof (cases "find_workflow s wid")
    case None
    then show ?thesis by simp
  next
    case (Some w)
    show ?thesis
    proof (cases "wf_status w \<in> set stop_statuses \<or> pending_steps s wid = []")
      case True
      with Some show ?thesis by auto
    next
      case False
      obtain r g' where n: "execute_next_step (envs i) wid corr override s g = (r, g')" by fastforce
      have "step_loop (k + m) (Suc i) envs wid corr override t g' =
          step_loop k (Suc i) envs wid corr override t g'" if "r = Inr (y, t)" for y t
      proof (rule Suc.IH)
        have "length (pending_steps t wid) < length (pending_steps s wid)"
          using next_step_decreases [of "envs i" wid corr override s g y t g'] n that False by simp
        with Suc.prems show "length (pending_steps t wid) < k" by simp
      qed
      with Some False n show ?thesis by (auto split: sum.split prod.split option.split)
    qed
  qed
qed simp

text \<open>C27: The loop's iteration limit (number of steps plus two) is never what ends
  it: every iteration that goes on has taken one step out of the pending ones, so allowing any
  number of further iterations gives the same answer and the same adapter calls.\<close>

theorem loop_bound_is_never_reached:
  "step_loop (length (steps_of s wid) + 2 + m) i envs wid corr override s g =
     step_loop (length (steps_of s wid) + 2) i envs wid corr override s g"
proof (rule step_loop_more)
  have "length (pending_steps s wid) \<le> length (steps_of s wid)"
    by (simp add: pending_steps_def)
  then show "length (pending_steps s wid) < length (steps_of s wid) + 2" by simp
qed

definition demo_running :: session where
  "demo_running = demo_ready\<lparr>workflows := [demo_workflow], steps := [demo_dispatch_step]\<rparr>"

lemma payment_only_through_the_gate_witness:
  "snd (execute_next_step demo_step_env ''wf'' None None demo_running []) \<noteq> []
   \<and> may_dispatch demo_running (wf_case_id demo_workflow)"
proof -
  have n: "snd (execute_next_step demo_step_env ''wf'' None None demo_running []) \<noteq> []"
    by code_simp
  obtain r g' where run: "execute_next_step demo_step_env ''wf'' None None demo_running [] = (r, g')"
    by fastforce
  have w: "find_workflow demo_running ''wf'' = Some demo_workflow" by code_simp
  from payment_only_through_the_gate [OF run] n run w show ?thesis by auto
qed

end
