(* ===== verification/Strategy_Catalog.thy ===== *)
theory Strategy_Catalog
  imports Domain
begin

text \<open>
  The approved recovery strategies of \<open>backend/app/services/intelligence/strategy_catalog.py\<close>:
  the enumeration, the registry \<open>CATALOG\<close> with every specification field, and the two mappings
  between strategies and action types.
\<close>

datatype recovery_strategy =
    RETRY_LATER
  | UPDATE_PAYMENT_METHOD
  | CUSTOMER_REMINDER
  | SUPPORT_ESCALATION
  | MANUAL_REVIEW
  | NO_ACTION

primrec recovery_strategy_value :: "recovery_strategy \<Rightarrow> string" where
  "recovery_strategy_value RETRY_LATER = ''RETRY_LATER''"
| "recovery_strategy_value UPDATE_PAYMENT_METHOD = ''UPDATE_PAYMENT_METHOD''"
| "recovery_strategy_value CUSTOMER_REMINDER = ''CUSTOMER_REMINDER''"
| "recovery_strategy_value SUPPORT_ESCALATION = ''SUPPORT_ESCALATION''"
| "recovery_strategy_value MANUAL_REVIEW = ''MANUAL_REVIEW''"
| "recovery_strategy_value NO_ACTION = ''NO_ACTION''"

definition recovery_strategy_members :: "recovery_strategy list" where
  "recovery_strategy_members =
     [RETRY_LATER, UPDATE_PAYMENT_METHOD, CUSTOMER_REMINDER, SUPPORT_ESCALATION, MANUAL_REVIEW, NO_ACTION]"

interpretation recovery_strategy_enum: str_enum recovery_strategy_members recovery_strategy_value
proof unfold_locales
  show "distinct (map recovery_strategy_value recovery_strategy_members)"
    by (simp add: recovery_strategy_members_def)
  show "x \<in> set recovery_strategy_members" for x
    by (cases x) (simp_all add: recovery_strategy_members_def)
qed

record strategy_definition =
  sd_strategy :: recovery_strategy
  sd_action_type :: action_type
  sd_title :: string
  sd_description :: string
  sd_categories :: "string list"
  sd_preconditions :: "string list"
  sd_cost_minor :: int
  sd_requires_policy :: bool

primrec catalog :: "recovery_strategy \<Rightarrow> strategy_definition" where
  "catalog RETRY_LATER =
     \<lparr>sd_strategy = RETRY_LATER, sd_action_type = Act_RETRY_PAYMENT,
      sd_title = ''Schedule Automated Payment Retry'',
      sd_description = ''Re-attempt charging the payment instrument after a cooling period.'',
      sd_categories = [''insufficient_funds'', ''processing_error'', ''provider_timeout'', ''network_error''],
      sd_preconditions = [''failure_is_retryable'', ''prior_attempts_less_than_max'', ''risk_band_not_high''],
      sd_cost_minor = 2, sd_requires_policy = True\<rparr>"
| "catalog UPDATE_PAYMENT_METHOD =
     \<lparr>sd_strategy = UPDATE_PAYMENT_METHOD, sd_action_type = Act_SEND_REMINDER,
      sd_title = ''Request Payment Method Update'',
      sd_description = ''Notify customer to update an expired or permanently declined card.'',
      sd_categories = [''card_expired'', ''expired_card'', ''invalid_payment_details'', ''do_not_honor''],
      sd_preconditions = [''customer_contact_info_available'', ''case_not_terminal''],
      sd_cost_minor = 15, sd_requires_policy = True\<rparr>"
| "catalog CUSTOMER_REMINDER =
     \<lparr>sd_strategy = CUSTOMER_REMINDER, sd_action_type = Act_SEND_REMINDER,
      sd_title = ''Send Gentle Payment Reminder'',
      sd_description = ''Prompt customer regarding an abandoned checkout or overdue invoice.'',
      sd_categories = [''abandoned_checkout'', ''overdue_invoice'', ''authentication_required''],
      sd_preconditions = [''customer_contact_info_available'', ''case_not_terminal''],
      sd_cost_minor = 15, sd_requires_policy = True\<rparr>"
| "catalog SUPPORT_ESCALATION =
     \<lparr>sd_strategy = SUPPORT_ESCALATION, sd_action_type = Act_REQUEST_OPERATOR_REVIEW,
      sd_title = ''Escalate to High-Value Concierge Support'',
      sd_description = ''Route high-value account or critical failure to customer success team.'',
      sd_categories = [''high_value_failure'', ''consecutive_declines'', ''vip_customer_failure''],
      sd_preconditions = [''case_not_terminal'', ''exposure_exceeds_threshold''],
      sd_cost_minor = 250, sd_requires_policy = True\<rparr>"
| "catalog MANUAL_REVIEW =
     \<lparr>sd_strategy = MANUAL_REVIEW, sd_action_type = Act_REQUEST_OPERATOR_REVIEW,
      sd_title = ''Flag for Compliance and Risk Review'',
      sd_description = ''Escalate suspected fraud or uncertain decline code for human review.'',
      sd_categories = [''fraud_suspected'', ''risk_blocked'', ''unknown_failure''],
      sd_preconditions = [''case_not_terminal''],
      sd_cost_minor = 250, sd_requires_policy = True\<rparr>"
| "catalog NO_ACTION =
     \<lparr>sd_strategy = NO_ACTION, sd_action_type = Act_STOP,
      sd_title = ''Halt Recovery Workflow'',
      sd_description = ''Do not pursue recovery; case is terminal, restricted, or unrecoverable.'',
      sd_categories = [''case_already_resolved'', ''customer_restricted'', ''policy_blocked''],
      sd_preconditions = [],
      sd_cost_minor = 0, sd_requires_policy = False\<rparr>"

text \<open>\<open>all_strategies\<close> lists the registry in insertion order.\<close>

definition all_strategies :: "strategy_definition list" where
  "all_strategies = map catalog recovery_strategy_members"

definition map_to_action :: "recovery_strategy \<Rightarrow> action_type" where
  "map_to_action s = sd_action_type (catalog s)"

fun map_to_strategy :: "action_type \<Rightarrow> recovery_strategy" where
  "map_to_strategy Act_RETRY_PAYMENT = RETRY_LATER"
| "map_to_strategy Act_SEND_REMINDER = UPDATE_PAYMENT_METHOD"
| "map_to_strategy Act_REQUEST_OPERATOR_REVIEW = MANUAL_REVIEW"
| "map_to_strategy Act_STOP = NO_ACTION"
| "map_to_strategy Act_NONE = NO_ACTION"

lemma catalog_key [simp]: "sd_strategy (catalog s) = s"
  by (cases s) simp_all

lemma map_to_action_of_strategy: "a \<noteq> Act_NONE \<Longrightarrow> map_to_action (map_to_strategy a) = a"
  by (cases a) (simp_all add: map_to_action_def)

lemma catalog_cost_nonneg: "0 \<le> sd_cost_minor (catalog s)"
  by (cases s) simp_all

lemma only_retry_is_payment: "map_to_action s = Act_RETRY_PAYMENT \<longleftrightarrow> s = RETRY_LATER"
  by (cases s) (simp_all add: map_to_action_def)

end
