(* ===== verification/Evaluators.thy ===== *)
theory Evaluators
  imports Policy_Models Strategy_Catalog
begin

text \<open>
  The five rule evaluators of \<open>backend/app/policy/evaluators\<close>. Each returns one \<open>rule_result\<close>; the
  branches are in the order of the source's checks. Consent and retry limit may raise
  \<open>TypeError\<close> when naive and aware timestamps meet in a sort or a maximum, so they return
  \<open>py_error + rule_result\<close>.
\<close>

section \<open>Eligibility\<close>

definition eligibility_rule :: string where
  "eligibility_rule = ''case_eligibility_evaluation''"

definition terminal_states :: "case_state list" where
  "terminal_states = [Case_RECOVERED, Case_CLOSED, Case_STOPPED]"

definition actionable_states :: "case_state list" where
  "actionable_states = [Case_AWAITING_DECISION, Case_RETRY_ELIGIBLE, Case_DETECTED]"

definition active_workflow_states :: "case_state list" where
  "active_workflow_states = [Case_ACTION_PENDING, Case_VERIFICATION_PENDING]"

definition evaluate_eligibility ::
  "recovery_case option \<Rightarrow> agent_decision option \<Rightarrow> uuid option \<Rightarrow> uuid option \<Rightarrow> rule_result" where
  "evaluate_eligibility c_opt r_opt customer_id expected_tx =
     (case c_opt of
        None \<Rightarrow> mk_result eligibility_rule Rule_MISSING_INFO ''CASE_NOT_FOUND''
      | Some c \<Rightarrow>
     (case r_opt of
        None \<Rightarrow> mk_result eligibility_rule Rule_MISSING_INFO ''RECOMMENDATION_MISSING''
      | Some r \<Rightarrow>
          if customer_id \<noteq> None \<and> customer_id \<noteq> Some (rc_customer_id c)
            then mk_result eligibility_rule Rule_FAILED ''CUSTOMER_MISMATCH''
          else if expected_tx \<noteq> None \<and> expected_tx \<noteq> Some (rc_trigger_transaction_id c)
            then mk_result eligibility_rule Rule_FAILED ''TRANSACTION_MISMATCH''
          else if ad_case_id r \<noteq> rc_id c
            then mk_result eligibility_rule Rule_FAILED ''RECOMMENDATION_MISMATCH''
          else if ad_validation_status r \<in> {Val_INVALID, Val_REJECTED_BY_POLICY}
            then mk_result eligibility_rule Rule_FAILED ''RECOMMENDATION_STALE''
          else if ad_decision_version r < rc_version c - 2
            then mk_result eligibility_rule Rule_FAILED ''RECOMMENDATION_STALE''
          else if rc_state c = Case_RECOVERED
            then mk_result eligibility_rule Rule_FAILED ''CASE_ALREADY_RECOVERED''
          else if rc_state c = Case_CLOSED
            then mk_result eligibility_rule Rule_FAILED ''CASE_CLOSED''
          else if rc_state c = Case_STOPPED
            then mk_result eligibility_rule Rule_FAILED ''CASE_CANCELLED''
          else if rc_state c \<in> set active_workflow_states
            then mk_result eligibility_rule Rule_FAILED ''WORKFLOW_ALREADY_ACTIVE''
          else if rc_state c \<notin> set actionable_states
            then mk_result eligibility_rule Rule_FAILED ''CASE_NOT_ACTIONABLE''
          else mk_result eligibility_rule Rule_PASSED ''ELIGIBILITY_PASSED''))"

text \<open>What a pass certifies, in both directions.\<close>

lemma eligibility_passed_iff:
  "is_passed (evaluate_eligibility (Some c) (Some r) cid tid) \<longleftrightarrow>
     (cid = None \<or> cid = Some (rc_customer_id c))
     \<and> (tid = None \<or> tid = Some (rc_trigger_transaction_id c))
     \<and> ad_case_id r = rc_id c
     \<and> ad_validation_status r \<in> {Val_NOT_VALIDATED, Val_VALID}
     \<and> rc_version c - 2 \<le> ad_decision_version r
     \<and> rc_state c \<in> set actionable_states"
proof -
  have v: "ad_validation_status r \<in> {Val_NOT_VALIDATED, Val_VALID} \<longleftrightarrow>
      ad_validation_status r \<notin> {Val_INVALID, Val_REJECTED_BY_POLICY}"
    by (cases "ad_validation_status r") simp_all
  have a: "rc_state c \<in> set actionable_states \<Longrightarrow>
      rc_state c \<noteq> Case_RECOVERED \<and> rc_state c \<noteq> Case_CLOSED \<and> rc_state c \<noteq> Case_STOPPED
      \<and> rc_state c \<notin> set active_workflow_states"
    by (auto simp: actionable_states_def active_workflow_states_def)
  show ?thesis
    unfolding v
    by (simp add: evaluate_eligibility_def is_passed_def) (use a in fastforce)
qed

lemma eligibility_missing_iff:
  "is_missing_info (evaluate_eligibility c r cid tid) \<longleftrightarrow> c = None \<or> r = None"
  by (auto simp: evaluate_eligibility_def is_missing_info_def split: option.splits)

lemma eligibility_not_review: "\<not> needs_review (evaluate_eligibility c r cid tid)"
  by (auto simp: evaluate_eligibility_def needs_review_def split: option.splits)

section \<open>Consent\<close>

definition consent_rule :: string where
  "consent_rule = ''customer_consent_validation''"

definition determine_required_consent ::
  "action_type \<Rightarrow> string option \<Rightarrow> consent_type option" where
  "determine_required_consent action channel =
     (if action = Act_RETRY_PAYMENT then Some Consent_RECURRING_BILLING
      else if action = Act_SEND_REMINDER then
        (let ch = py_lower (py_strip (if truthy channel then or_empty channel else ''email''))
         in if ch = ''sms'' then Some Consent_COMMUNICATION_SMS else Some Consent_COMMUNICATION_EMAIL)
      else None)"

text \<open>\<open>datetime.min.replace(tzinfo=timezone.utc)\<close>: 0001-01-01T00:00:00Z.\<close>

definition datetime_min :: pydatetime where
  "datetime_min = Aware (- 62135596800000000)"

definition grant_key :: "consent \<Rightarrow> pydatetime" where
  "grant_key c = (case co_granted_at c of None \<Rightarrow> datetime_min | Some d \<Rightarrow> d)"

text \<open>
  A comparison sort (or a maximum) of at least two date-times compares a naive with an aware
  value whenever both kinds occur, and that raises. Otherwise \<open>sorted(..., reverse=True)\<close> is the
  stable descending sort.
\<close>

definition comparable :: "pydatetime list \<Rightarrow> bool" where
  "comparable ds = (list_all is_aware ds \<or> list_all (\<lambda>d. \<not> is_aware d) ds)"

definition sort_newest_first :: "consent list \<Rightarrow> py_error + consent list" where
  "sort_newest_first cs =
     (if comparable (map grant_key cs) then Inr (sort_key (\<lambda>c. - instant (grant_key c)) cs)
      else Inl TypeError)"

text \<open>
  The body of the candidate loop. Every path returns, so only the first candidate is judged.
  \<open>_ensure_utc\<close> is \<open>as_utc\<close>.
\<close>

definition judge_consent :: "consent \<Rightarrow> pydatetime \<Rightarrow> rule_result" where
  "judge_consent c now =
     (case co_granted_at c of
        None \<Rightarrow> mk_result consent_rule Rule_FAILED ''CONSENT_INVALID''
      | Some granted \<Rightarrow>
          if (co_status c = CStat_REVOKED \<or> co_revoked_at c \<noteq> None)
             \<and> instant (as_utc now) \<ge>
                 instant (as_utc (case co_revoked_at c of None \<Rightarrow> granted | Some t \<Rightarrow> t))
            then mk_result consent_rule Rule_FAILED ''CONSENT_REVOKED''
          else if (co_status c = CStat_EXPIRED \<or> co_expires_at c \<noteq> None)
             \<and> (case co_expires_at c of None \<Rightarrow> False
                 | Some t \<Rightarrow> instant (as_utc now) \<ge> instant (as_utc t))
            then mk_result consent_rule Rule_FAILED ''CONSENT_EXPIRED''
          else if co_status c \<noteq> CStat_GRANTED
            then mk_result consent_rule Rule_FAILED
                   (''CONSENT_STATUS_'' @ py_upper (consent_status_value (co_status c)))
          else mk_result consent_rule Rule_PASSED ''CONSENT_VALID'')"

text \<open>
  The merchant comes from the customer's free-form metadata, so it is any JSON value; a consent
  bound to a merchant name equals it only when the value is that string.
\<close>

definition merchant_scope :: "json option \<Rightarrow> consent list \<Rightarrow> consent list" where
  "merchant_scope merchant_id typed =
     (case merchant_id of
        None \<Rightarrow> typed
      | Some m \<Rightarrow> filter (\<lambda>c. co_merchant_id c = None \<or> map_option JStr (co_merchant_id c) = Some m) typed)"

definition judge_candidates :: "consent list \<Rightarrow> pydatetime \<Rightarrow> rule_result" where
  "judge_candidates sorted_candidates now =
     (case sorted_candidates of
        [] \<Rightarrow> mk_result consent_rule Rule_FAILED ''CONSENT_MISSING''
      | c # _ \<Rightarrow> judge_consent c now)"

definition typed_consents :: "uuid \<Rightarrow> consent_type \<Rightarrow> consent list \<Rightarrow> consent list" where
  "typed_consents customer_id required cs =
     filter (\<lambda>c. co_type c = required) (filter (\<lambda>c. co_customer_id c = customer_id) cs)"

definition evaluate_consent ::
  "action_type \<Rightarrow> uuid \<Rightarrow> consent list \<Rightarrow> json option \<Rightarrow> string option
     \<Rightarrow> pydatetime option \<Rightarrow> pydatetime \<Rightarrow> py_error + rule_result" where
  "evaluate_consent action customer_id cs merchant_id channel evaluation_time clock =
     (let now = or_clock evaluation_time clock
      in case determine_required_consent action channel of
        None \<Rightarrow> Inr (mk_result consent_rule Rule_PASSED ''NO_CONSENT_REQUIRED'')
      | Some required \<Rightarrow>
          (let typed = typed_consents customer_id required cs;
               candidates = merchant_scope merchant_id typed
           in if filter (\<lambda>c. co_customer_id c = customer_id) cs = [] \<and> cs \<noteq> []
                then Inr (mk_result consent_rule Rule_FAILED ''CONSENT_CUSTOMER_MISMATCH'')
              else if typed = []
                then Inr (mk_result consent_rule Rule_FAILED ''CONSENT_MISSING'')
              else if merchant_id \<noteq> None \<and> candidates = []
                then Inr (mk_result consent_rule Rule_FAILED ''CONSENT_MERCHANT_MISMATCH'')
              else ebind (sort_newest_first candidates) (\<lambda>sorted_candidates.
                Inr (judge_candidates sorted_candidates now))))"

text \<open>The outcomes of the consent rule: nothing required, a refusal, or one judged record.\<close>

lemma evaluate_consent_outcome:
  assumes "evaluate_consent action cid cs mid ch et clock = Inr r"
  obtains (none) "determine_required_consent action ch = None"
      "r = mk_result consent_rule Rule_PASSED ''NO_CONSENT_REQUIRED''"
    | (refused) reason where "r = mk_result consent_rule Rule_FAILED reason"
    | (judged) required c ds where "determine_required_consent action ch = Some required"
      "sort_newest_first (merchant_scope mid (typed_consents cid required cs)) = Inr (c # ds)"
      "r = judge_consent c (or_clock et clock)"
proof (cases "determine_required_consent action ch")
  case None
  with assms show thesis by (intro none) (simp_all add: evaluate_consent_def Let_def)
next
  case (Some required)
  let ?typed = "typed_consents cid required cs"
  let ?sorted = "sort_newest_first (merchant_scope mid ?typed)"
  show thesis
  proof (cases "(filter (\<lambda>c. co_customer_id c = cid) cs = [] \<and> cs \<noteq> []) \<or> ?typed = []
      \<or> (mid \<noteq> None \<and> merchant_scope mid ?typed = [])")
    case True
    then have "evaluate_consent action cid cs mid ch et clock \<in>
        {Inr (mk_result consent_rule Rule_FAILED ''CONSENT_CUSTOMER_MISMATCH''),
         Inr (mk_result consent_rule Rule_FAILED ''CONSENT_MISSING''),
         Inr (mk_result consent_rule Rule_FAILED ''CONSENT_MERCHANT_MISMATCH'')}"
      unfolding evaluate_consent_def Let_def Some option.case insert_iff
      by (simp only: split: if_split) blast
    with assms have "\<exists>reason. r = mk_result consent_rule Rule_FAILED reason"
      by (elim insertE emptyE) (metis sum.inject(2))+
    then show thesis using refused by blast
  next
    case False
    then have "evaluate_consent action cid cs mid ch et clock =
        ebind ?sorted (\<lambda>ds. Inr (judge_candidates ds (or_clock et clock)))"
      unfolding evaluate_consent_def Let_def Some option.case by presburger
    with assms obtain ds where ds: "?sorted = Inr ds"
      and r: "r = judge_candidates ds (or_clock et clock)"
      by (auto simp only: ebind_eq_Inr sum.inject)
    show thesis
    proof (cases ds)
      case Nil
      with r show thesis by (intro refused) (simp add: judge_candidates_def)
    next
      case (Cons c ds')
      with r have "r = judge_consent c (or_clock et clock)" by (simp add: judge_candidates_def)
      with Some ds Cons show thesis using judged by blast
    qed
  qed
qed

lemma judge_consent_passed:
  "is_passed (judge_consent c now) \<longleftrightarrow> co_granted_at c \<noteq> None \<and> consent_live c now"
proof (cases "co_granted_at c")
  case None
  then show ?thesis by (simp add: judge_consent_def is_passed_def)
next
  case (Some g)
  then show ?thesis
    by (cases "co_revoked_at c"; cases "co_expires_at c")
      (auto simp: judge_consent_def is_passed_def consent_live_def reached_def)
qed

lemma judge_consent_failed: "is_failed (judge_consent c now) \<longleftrightarrow> \<not> is_passed (judge_consent c now)"
  by (auto simp: judge_consent_def rule_preds split: option.splits)

lemma required_consent_iff:
  "determine_required_consent action ch \<noteq> None \<longleftrightarrow> action \<in> {Act_RETRY_PAYMENT, Act_SEND_REMINDER}"
  by (cases action) (auto simp: determine_required_consent_def Let_def)

lemma sort_newest_first_set: "sort_newest_first cs = Inr ds \<Longrightarrow> set ds = set cs"
  by (auto simp: sort_newest_first_def split: if_splits)

text \<open>Fail-closed: a pass for a customer-facing action exhibits a live consent of the right kind.\<close>

lemma candidate_mem:
  assumes "c \<in> set (merchant_scope mid (typed_consents cid required cs))"
  shows "c \<in> set cs \<and> co_customer_id c = cid \<and> co_type c = required
           \<and> (\<forall>m. mid = Some m \<longrightarrow> map_option JStr (co_merchant_id c) \<in> {None, Some m})"
  using assms by (cases mid) (auto simp: merchant_scope_def typed_consents_def)

lemma consent_passed_witness:
  assumes ev: "evaluate_consent action cid cs mid ch et clock = Inr r" and pass: "is_passed r"
    and req: "determine_required_consent action ch = Some required"
  shows "\<exists>c \<in> set cs. co_customer_id c = cid \<and> co_type c = required
           \<and> consent_live c (or_clock et clock)
           \<and> (\<forall>m. mid = Some m \<longrightarrow> map_option JStr (co_merchant_id c) \<in> {None, Some m})"
  using ev
proof (cases rule: evaluate_consent_outcome)
  case none
  with req show ?thesis by simp
next
  case (refused reason)
  with pass show ?thesis by (simp add: is_passed_def)
next
  case (judged required' c ds)
  with req have "c \<in> set (merchant_scope mid (typed_consents cid required cs))"
    using sort_newest_first_set by fastforce
  moreover from judged pass have "consent_live c (or_clock et clock)"
    by (simp add: judge_consent_passed)
  ultimately show ?thesis using candidate_mem [of c mid cid required cs] by blast
qed

lemma consent_never_review_or_missing:
  assumes "evaluate_consent action cid cs mid ch et clock = Inr r"
  shows "\<not> needs_review r \<and> \<not> is_missing_info r"
  using assms
proof (cases rule: evaluate_consent_outcome)
  case (judged required c ds)
  then show ?thesis
    using judge_consent_failed [of c "or_clock et clock"]
    by (cases "rr_status r") (simp_all add: rule_preds)
qed (simp_all add: rule_preds)

section \<open>Retry limit\<close>

definition retry_rule :: string where
  "retry_rule = ''retry_limit_evaluation''"

definition non_retryable_categories :: "string list" where
  "non_retryable_categories =
     [''fraud_suspected'', ''stolen_card'', ''lost_card'', ''account_closed'', ''pickup_card'',
      ''restricted_card'']"

definition consumed_retries :: "recovery_attempt list \<Rightarrow> recovery_attempt list" where
  "consumed_retries atts =
     filter (\<lambda>a. at_action_type a = Act_RETRY_PAYMENT \<and> at_status a \<noteq> Att_CANCELLED) atts"

definition attempt_time :: "recovery_attempt \<Rightarrow> pydatetime option" where
  "attempt_time a = (case at_finished_at a of Some t \<Rightarrow> Some t | None \<Rightarrow> at_started_at a)"

definition attempt_time_key :: "recovery_attempt \<Rightarrow> pydatetime" where
  "attempt_time_key a = (case attempt_time a of Some t \<Rightarrow> t | None \<Rightarrow> datetime_min)"

text \<open>\<open>max(xs, key=...)\<close>: the first element whose key no later one exceeds.\<close>

fun max_by_key :: "recovery_attempt \<Rightarrow> recovery_attempt list \<Rightarrow> recovery_attempt" where
  "max_by_key best [] = best"
| "max_by_key best (a # as) =
     max_by_key (if instant (attempt_time_key a) > instant (attempt_time_key best) then a else best) as"

definition latest_attempt :: "recovery_attempt list \<Rightarrow> py_error + recovery_attempt" where
  "latest_attempt atts =
     (case atts of
        [] \<Rightarrow> Inl (ValueError ''max() arg is an empty sequence'')
      | a # as \<Rightarrow> if comparable (map attempt_time_key atts) then Inr (max_by_key a as)
                  else Inl TypeError)"

definition cooldown_check ::
  "policy_config \<Rightarrow> recovery_attempt list \<Rightarrow> pydatetime \<Rightarrow> py_error + bool" where
  "cooldown_check cfg consumed now =
     (if consumed = [] then Inr True
      else ebind (latest_attempt consumed) (\<lambda>latest.
        case attempt_time latest of
          None \<Rightarrow> Inr True
        | Some t \<Rightarrow> is_cooldown_elapsed cfg t (Some now) now))"

definition evaluate_retry_limit ::
  "action_type \<Rightarrow> recovery_attempt list \<Rightarrow> policy_config \<Rightarrow> pydatetime option \<Rightarrow> pydatetime
     \<Rightarrow> string option \<Rightarrow> string option \<Rightarrow> py_error + rule_result" where
  "evaluate_retry_limit action atts cfg current_time clock key failure_category =
     (if action \<noteq> Act_RETRY_PAYMENT
        then Inr (mk_result retry_rule Rule_PASSED ''NOT_A_RETRY_ACTION'')
      else
        (let now = or_clock current_time clock;
             consumed = consumed_retries atts
         in if failure_category \<noteq> None \<and> norm_code failure_category \<in> set non_retryable_categories
              then Inr (mk_result retry_rule Rule_FAILED ''RETRY_NOT_SUPPORTED'')
            else if truthy key \<and> list_ex (\<lambda>a. Some (at_idempotency_key a) = key) atts
              then Inr (mk_result retry_rule Rule_FAILED ''DUPLICATE_RETRY_REQUEST'')
            else if list_ex (\<lambda>a. at_status a = Att_SUCCEEDED) atts
              then Inr (mk_result retry_rule Rule_FAILED ''PREVIOUS_ATTEMPT_SUCCEEDED'')
            else if list_ex (\<lambda>a. at_status a = Att_STARTED) atts
              then Inr (mk_result retry_rule Rule_FAILED ''RETRY_ALREADY_IN_PROGRESS'')
            else if list_ex (\<lambda>a. at_status a = Att_UNCERTAIN) atts
              then Inr (mk_result retry_rule Rule_NEEDS_REVIEW ''PREVIOUS_OUTCOME_UNKNOWN'')
            else if \<not> can_retry cfg (int (length consumed))
              then Inr (mk_result retry_rule Rule_FAILED ''RETRY_LIMIT_EXCEEDED'')
            else ebind (cooldown_check cfg consumed now) (\<lambda>elapsed.
              if elapsed then Inr (mk_result retry_rule Rule_PASSED ''RETRY_LIMIT_OK'')
              else Inr (mk_result retry_rule Rule_FAILED ''RETRY_COOLDOWN_ACTIVE''))))"

lemma max_by_key_mem: "max_by_key a as \<in> set (a # as)"
  by (induction as arbitrary: a) auto

lemma max_by_key_upper:
  "x \<in> set (a # as) \<Longrightarrow> instant (attempt_time_key x) \<le> instant (attempt_time_key (max_by_key a as))"
proof (induction as arbitrary: a x)
  case (Cons b bs)
  let ?m = "if instant (attempt_time_key b) > instant (attempt_time_key a) then b else a"
  have m: "instant (attempt_time_key ?m) \<le> instant (attempt_time_key (max_by_key ?m bs))"
    by (rule Cons.IH) simp
  have rest: "instant (attempt_time_key y) \<le> instant (attempt_time_key (max_by_key ?m bs))"
    if "y \<in> set bs" for y
    by (rule Cons.IH) (simp add: that)
  from Cons.prems consider "x = a" | "x = b" | "x \<in> set bs" by auto
  then show ?case
    by cases (use m rest in \<open>auto split: if_splits\<close>)
qed simp

text \<open>A positive cooldown test covers every dated retry, because the latest one was tested.\<close>

lemma cooldown_check_all:
  assumes "cooldown_check cfg consumed now = Inr True" and "a \<in> set consumed"
    and "attempt_time a = Some t" and "instant t > instant datetime_min"
  shows "instant now - instant t \<ge> retry_cooldown_hours cfg * us_per_hour"
proof -
  from assms(1,2) obtain b bs where c: "consumed = b # bs" by (cases consumed) auto
  let ?l = "max_by_key b bs"
  have up: "instant t \<le> instant (attempt_time_key ?l)"
    using max_by_key_upper [of a b bs] assms(2,3) c by (simp add: attempt_time_key_def)
  then obtain lt where lt: "attempt_time ?l = Some lt"
    using assms(4) by (cases "attempt_time ?l") (auto simp: attempt_time_key_def)
  with assms(1) c have "instant now - instant lt \<ge> retry_cooldown_hours cfg * us_per_hour"
    by (auto simp: cooldown_check_def latest_attempt_def is_cooldown_elapsed_eq split: if_splits)
  with up lt show ?thesis by (simp add: attempt_time_key_def)
qed

lemma retry_passed_iff:
  assumes "evaluate_retry_limit Act_RETRY_PAYMENT atts cfg ct clock key fc = Inr r"
  shows "is_passed r \<longleftrightarrow>
     (fc = None \<or> norm_code fc \<notin> set non_retryable_categories)
     \<and> (truthy key \<longrightarrow> (\<forall>a \<in> set atts. Some (at_idempotency_key a) \<noteq> key))
     \<and> (\<forall>a \<in> set atts. at_status a \<notin> {Att_SUCCEEDED, Att_STARTED, Att_UNCERTAIN})
     \<and> int (length (consumed_retries atts)) < max_retry_attempts cfg
     \<and> cooldown_check cfg (consumed_retries atts) (or_clock ct clock) = Inr True"
  using assms
  by (auto simp: evaluate_retry_limit_def Let_def is_passed_def can_retry_def list_ex_iff
      err_simps split: if_splits)

lemma retry_result_kinds:
  "evaluate_retry_limit action atts cfg ct clock key fc = Inr r \<Longrightarrow> \<not> is_missing_info r"
  by (auto simp: evaluate_retry_limit_def Let_def is_missing_info_def err_simps split: if_splits)

section \<open>Escalation\<close>

definition escalation_rule :: string where
  "escalation_rule = ''escalation_policy_evaluation''"

definition fraud_categories :: "string list" where
  "fraud_categories =
     [''fraud_suspected'', ''stolen_card'', ''lost_card'', ''pickup_card'', ''restricted_card'',
      ''security_violation'']"

definition default_min_confidence :: rat where
  "default_min_confidence = 60 / 100"

definition evaluate_escalation ::
  "int \<Rightarrow> string \<Rightarrow> policy_config \<Rightarrow> rat option \<Rightarrow> string option \<Rightarrow> bool \<Rightarrow> bool \<Rightarrow> bool \<Rightarrow> bool \<Rightarrow> rat
     \<Rightarrow> rule_result" where
  "evaluate_escalation amount_minor currency cfg ai_confidence failure_category
      prior_retries_exhausted fraud_suspected has_conflicting_events has_uncertain_outcome
      min_confidence =
     (let norm_cat = norm_code failure_category
      in if fraud_suspected \<or> norm_cat \<in> set fraud_categories
           then mk_result escalation_rule Rule_NEEDS_REVIEW ''FRAUD_RESTRICTION''
         else if is_high_value cfg amount_minor currency
           then mk_result escalation_rule Rule_NEEDS_REVIEW ''HIGH_VALUE_REVIEW_REQUIRED''
         else if prior_retries_exhausted
           then mk_result escalation_rule Rule_NEEDS_REVIEW ''RETRY_EXHAUSTED''
         else if has_conflicting_events
           then mk_result escalation_rule Rule_NEEDS_REVIEW ''PAYMENT_EVENT_CONFLICT''
         else if has_uncertain_outcome
           then mk_result escalation_rule Rule_NEEDS_REVIEW ''PAYMENT_OUTCOME_UNCERTAIN''
         else if norm_cat = [] \<or> norm_cat \<in> {''unknown'', ''unknown_failure''}
           then mk_result escalation_rule Rule_NEEDS_REVIEW ''UNKNOWN_FAILURE_CATEGORY''
         else (case ai_confidence of
             None \<Rightarrow> mk_result escalation_rule Rule_MISSING_INFO ''AI_CONFIDENCE_MISSING''
           | Some conf \<Rightarrow>
               if conf < min_confidence
                 then mk_result escalation_rule Rule_NEEDS_REVIEW ''LOW_AI_CONFIDENCE''
               else mk_result escalation_rule Rule_PASSED ''NO_ESCALATION_REQUIRED''))"

lemma escalation_passed_iff:
  "is_passed (evaluate_escalation amt cur cfg conf fc ex fr cf un mc) \<longleftrightarrow>
     \<not> fr \<and> norm_code fc \<notin> set fraud_categories \<and> amt < get_high_value_threshold cfg cur
     \<and> \<not> ex \<and> \<not> cf \<and> \<not> un \<and> norm_code fc \<notin> {[], ''unknown'', ''unknown_failure''}
     \<and> (\<exists>p. conf = Some p \<and> mc \<le> p)"
  by (auto simp: evaluate_escalation_def Let_def is_passed_def is_high_value_def not_le not_less
      split: option.splits)

lemma escalation_never_fails: "\<not> is_failed (evaluate_escalation amt cur cfg conf fc ex fr cf un mc)"
  by (auto simp: evaluate_escalation_def Let_def is_failed_def split: option.splits)

section \<open>Strategy\<close>

definition strategy_rule :: string where
  "strategy_rule = ''strategy_policy_validation''"

text \<open>The argument is a \<open>RecoveryStrategy\<close> member or any other string (an \<open>ActionType\<close> is one).\<close>

datatype strategy_input = StrategyMember recovery_strategy | StrategyText string

definition resolve_strategy :: "strategy_input \<Rightarrow> recovery_strategy option" where
  "resolve_strategy inp =
     (case inp of
        StrategyMember s \<Rightarrow> Some s
      | StrategyText t \<Rightarrow>
          (case parse_enum recovery_strategy_members recovery_strategy_value (py_upper (py_strip t)) of
             Inr s \<Rightarrow> Some s
           | Inl _ \<Rightarrow>
               (case parse_enum action_type_members action_type_value (py_lower (py_strip t)) of
                  Inr a \<Rightarrow> Some (map_to_strategy a)
                | Inl _ \<Rightarrow> None)))"

definition evaluate_strategy ::
  "strategy_input \<Rightarrow> string option \<Rightarrow> case_state \<Rightarrow> bool \<Rightarrow> bool \<Rightarrow> rule_result" where
  "evaluate_strategy inp failure_category state has_contact_info is_retryable =
     (case resolve_strategy inp of
        None \<Rightarrow> mk_result strategy_rule Rule_FAILED ''STRATEGY_UNSUPPORTED''
      | Some s \<Rightarrow>
          (let norm_cat = norm_code failure_category
           in if state \<in> set terminal_states \<and> s \<noteq> NO_ACTION
                then mk_result strategy_rule Rule_FAILED ''STRATEGY_CASE_STATE_MISMATCH''
              else if s = NO_ACTION \<or> s = MANUAL_REVIEW
                then mk_result strategy_rule Rule_PASSED ''STRATEGY_VALID''
              else if s \<in> {UPDATE_PAYMENT_METHOD, CUSTOMER_REMINDER} \<and> \<not> has_contact_info
                then mk_result strategy_rule Rule_FAILED ''STRATEGY_PREREQUISITE_MISSING''
              else if s = RETRY_LATER \<and> norm_cat \<noteq> [] \<and> norm_cat \<notin> set (sd_categories (catalog RETRY_LATER))
                      \<and> \<not> is_retryable
                then mk_result strategy_rule Rule_FAILED ''STRATEGY_FAILURE_MISMATCH''
              else if s = UPDATE_PAYMENT_METHOD \<and> norm_cat \<in> {''provider_timeout'', ''network_error''}
                then mk_result strategy_rule Rule_FAILED ''STRATEGY_FAILURE_MISMATCH''
              else mk_result strategy_rule Rule_PASSED ''STRATEGY_VALID''))"

text \<open>An \<open>ActionType\<close> passed as the strategy always resolves, through \<open>map_to_strategy\<close>.\<close>

lemma resolve_action_members:
  "list_all (\<lambda>a. resolve_strategy (StrategyText (action_type_value a)) = Some (map_to_strategy a))
     action_type_members"
  by code_simp

lemma resolve_action:
  "resolve_strategy (StrategyText (action_type_value a)) = Some (map_to_strategy a)"
  using resolve_action_members action_type_enum.all_members [of a] by (auto simp: list_all_iff)

lemma strategy_pass_or_fail:
  "is_failed (evaluate_strategy inp fc st ct rt) \<longleftrightarrow> \<not> is_passed (evaluate_strategy inp fc st ct rt)"
  by (auto simp: evaluate_strategy_def Let_def rule_preds split: option.splits)

lemma strategy_not_review_or_missing:
  "\<not> needs_review (evaluate_strategy inp fc st ct rt) \<and> \<not> is_missing_info (evaluate_strategy inp fc st ct rt)"
  by (auto simp: evaluate_strategy_def Let_def rule_preds split: option.splits)

section \<open>The properties of the rules\<close>

text \<open>For a payment retry or a reminder the consent rule passes only on a
  stored consent of the customer, of the kind the action needs and open to the merchant, that is
  granted, not revoked and not expired at the evaluation time; any other answer of it is a plain
  failure, never a request for review.\<close>

theorem consent_rule_needs_live_consent:
  assumes "evaluate_consent action cid cs mid ch et clock = Inr r"
    and "action \<in> {Act_RETRY_PAYMENT, Act_SEND_REMINDER}"
  shows "(is_passed r \<longrightarrow>
            (\<exists>k \<in> set cs. co_customer_id k = cid
               \<and> Some (co_type k) = determine_required_consent action ch
               \<and> consent_live k (or_clock et clock)
               \<and> (\<forall>m. mid = Some m \<longrightarrow> map_option JStr (co_merchant_id k) \<in> {None, Some m})))
         \<and> (is_passed r \<or> is_failed r)"
proof -
  obtain required where req: "determine_required_consent action ch = Some required"
    using assms(2) required_consent_iff [of action ch] by auto
  have "is_passed r \<or> is_failed r"
    using consent_never_review_or_missing [OF assms(1)] by (cases "rr_status r") (simp_all add: rule_preds)
  with consent_passed_witness [OF assms(1) _ req] req show ?thesis by auto
qed

definition demo_live_consent :: consent where
  "demo_live_consent =
     \<lparr>co_id = ''k'', co_customer_id = ''cust'', co_type = Consent_RECURRING_BILLING,
      co_status = CStat_GRANTED, co_merchant_id = None, co_granted_at = Some (Aware 1),
      co_revoked_at = None, co_expires_at = Some (Aware 100), co_source = ''web'',
      co_evidence_reference = None, co_version = 1\<rparr>"

lemma consent_rule_needs_live_consent_witness:
  "\<exists>r. evaluate_consent Act_RETRY_PAYMENT ''cust'' [demo_live_consent] None None None (Aware 50) = Inr r
     \<and> is_passed r \<and> consent_live demo_live_consent (Aware 50)"
proof -
  have "case evaluate_consent Act_RETRY_PAYMENT ''cust'' [demo_live_consent] None None None (Aware 50) of
      Inl _ \<Rightarrow> False | Inr r \<Rightarrow> is_passed r"
    by code_simp
  then obtain r where run: "evaluate_consent Act_RETRY_PAYMENT ''cust'' [demo_live_consent] None None None
      (Aware 50) = Inr r" "is_passed r"
    by (auto split: sum.splits)
  with consent_rule_needs_live_consent [OF run(1)] show ?thesis by (auto simp: or_clock_def)
qed

text \<open>The retry rule passes a payment retry exactly when the failure category may be
  retried, the idempotency key is unused, no attempt succeeded, is in flight or is uncertain, the
  retries already consumed (cancelled ones aside) are below the limit, and the cooldown test
  holds; and then the cooldown has elapsed since every dated consumed retry, not just the last.\<close>

theorem retry_rule_exact:
  assumes "evaluate_retry_limit Act_RETRY_PAYMENT atts cfg ct clock key fc = Inr r"
  shows "(is_passed r \<longleftrightarrow>
            (fc = None \<or> norm_code fc \<notin> set non_retryable_categories)
            \<and> (truthy key \<longrightarrow> (\<forall>a \<in> set atts. Some (at_idempotency_key a) \<noteq> key))
            \<and> (\<forall>a \<in> set atts. at_status a \<notin> {Att_SUCCEEDED, Att_STARTED, Att_UNCERTAIN})
            \<and> int (length (consumed_retries atts)) < max_retry_attempts cfg
            \<and> cooldown_check cfg (consumed_retries atts) (or_clock ct clock) = Inr True)
         \<and> (is_passed r \<longrightarrow>
              (\<forall>a \<in> set (consumed_retries atts). \<forall>t. attempt_time a = Some t
                 \<and> instant datetime_min < instant t \<longrightarrow>
                 retry_cooldown_hours cfg * us_per_hour \<le> instant (or_clock ct clock) - instant t))"
  using retry_passed_iff [OF assms] cooldown_check_all [of cfg "consumed_retries atts" "or_clock ct clock"]
  by blast

lemma retry_rule_exact_witness:
  "\<exists>r. evaluate_retry_limit Act_RETRY_PAYMENT [] default_policy_config None (Aware 50) None
         (Some ''insufficient_funds'') = Inr r \<and> is_passed r"
proof -
  have "is_ok (evaluate_retry_limit Act_RETRY_PAYMENT [] default_policy_config None (Aware 50) None
         (Some ''insufficient_funds''))"
    by code_simp
  then obtain r where run: "evaluate_retry_limit Act_RETRY_PAYMENT [] default_policy_config None (Aware 50)
      None (Some ''insufficient_funds'') = Inr r"
    by auto
  have "norm_code (Some ''insufficient_funds'') \<notin> set non_retryable_categories"
    "int (length (consumed_retries [])) < max_retry_attempts default_policy_config"
    "cooldown_check default_policy_config (consumed_retries []) (or_clock None (Aware 50)) = Inr True"
    by code_simp+
  with retry_rule_exact [OF run] run show ?thesis by auto
qed

end
