(* ===== verification/Policy_Engine.thy ===== *)
theory Policy_Engine
  imports Evaluators Scenario
begin

text \<open>
  The policy engine of \<open>backend/app/policy/service.py\<close>: \<open>PolicyEngineService.evaluate\<close> with its
  idempotent replay, the five rules, the aggregation by precedence, the write-back on the
  recommendation and the case, the transition row and the audit record, up to the commit.

  The identifiers that \<open>uuid4()\<close> would draw and the clock reading are arguments. A raise is
  \<open>Inl\<close>, and its session is dropped.
\<close>

section \<open>Severity order on decisions\<close>

primrec severity :: "policy_status \<Rightarrow> nat" where
  "severity Pol_APPROVED = 0"
| "severity Pol_REQUIRES_REVIEW = 1"
| "severity Pol_INSUFFICIENT_INFORMATION = 2"
| "severity Pol_REJECTED = 3"

lemma severity_inject: "severity a = severity b \<longleftrightarrow> a = b"
  by (cases a; cases b) simp_all

instantiation policy_status :: linorder
begin

definition less_eq_policy_status :: "policy_status \<Rightarrow> policy_status \<Rightarrow> bool" where
  "less_eq_policy_status a b = (severity a \<le> severity b)"

definition less_policy_status :: "policy_status \<Rightarrow> policy_status \<Rightarrow> bool" where
  "less_policy_status a b = (severity a < severity b)"

instance
  by standard (auto simp: less_eq_policy_status_def less_policy_status_def severity_inject)

end

text \<open>What one rule alone would decide.\<close>

primrec verdict :: "rule_status \<Rightarrow> policy_status" where
  "verdict Rule_PASSED = Pol_APPROVED"
| "verdict Rule_FAILED = Pol_REJECTED"
| "verdict Rule_NEEDS_REVIEW = Pol_REQUIRES_REVIEW"
| "verdict Rule_MISSING_INFO = Pol_INSUFFICIENT_INFORMATION"

section \<open>Aggregation and FSM synchronisation\<close>

definition all_passed_reason :: string where
  "all_passed_reason = ''ALL_POLICY_GUARDRAILS_PASSED''"

definition aggregate_decision :: "rule_result list \<Rightarrow> policy_status \<times> string list" where
  "aggregate_decision rs =
     (let failed = filter is_failed rs; missing = filter is_missing_info rs;
          review = filter needs_review rs
      in if failed \<noteq> [] then (Pol_REJECTED, map rr_reason_code failed)
         else if missing \<noteq> [] then (Pol_INSUFFICIENT_INFORMATION, map rr_reason_code missing)
         else if review \<noteq> [] then (Pol_REQUIRES_REVIEW, map rr_reason_code review)
         else (Pol_APPROVED, [all_passed_reason]))"

definition terminal_reasons :: "string list" where
  "terminal_reasons =
     [''RETRY_LIMIT_EXCEEDED'', ''CASE_ALREADY_RECOVERED'', ''CASE_CANCELLED'', ''CASE_CLOSED'',
      ''RETRY_NOT_SUPPORTED'']"

definition determine_fsm_transition ::
  "policy_status \<Rightarrow> case_state \<Rightarrow> string list \<Rightarrow> case_state option" where
  "determine_fsm_transition status current reasons =
     (if status = Pol_APPROVED then
        (if current \<in> {Case_AWAITING_DECISION, Case_RETRY_ELIGIBLE, Case_DETECTED}
         then Some Case_ACTION_PENDING else None)
      else if status = Pol_REQUIRES_REVIEW then
        (if current \<notin> {Case_RECOVERED, Case_CLOSED, Case_STOPPED, Case_ESCALATED}
         then Some Case_ESCALATED else None)
      else if status = Pol_REJECTED then
        (if list_ex (\<lambda>r. r \<in> set terminal_reasons) reasons
            \<and> current \<notin> {Case_RECOVERED, Case_CLOSED, Case_STOPPED}
         then Some Case_STOPPED else None)
      else None)"

section \<open>The evaluation request\<close>

record policy_request =
  pq_case_id :: uuid
  pq_recommendation_id :: uuid
  pq_proposed_action :: "action_type option"
  pq_actor_type :: actor_type
  pq_actor_id :: "string option"
  pq_idempotency_key :: "string option"
  pq_communication_channel :: "string option"
  pq_metadata :: payload

text \<open>\<open>_build_synthetic_result\<close> and \<open>_to_evaluation_result\<close>.\<close>

definition build_synthetic_result ::
  "policy_config \<Rightarrow> policy_request \<Rightarrow> policy_status \<Rightarrow> rule_result list \<Rightarrow> string list \<Rightarrow> pydatetime
     \<Rightarrow> evaluation_result" where
  "build_synthetic_result cfg req status rules reasons clock =
     \<lparr>er_decision_status = status, er_case_id = pq_case_id req,
      er_proposed_action = (case pq_proposed_action req of None \<Rightarrow> Act_NONE | Some a \<Rightarrow> a),
      er_policy_version = policy_version cfg, er_rule_results = rules, er_reasons = reasons,
      er_recommendation_id = Some (pq_recommendation_id req), er_evaluated_at = clock,
      er_metadata = [(''error'', JStr ''authoritative_entity_unavailable'')]\<rparr>"

definition rule_to_json :: "rule_result \<Rightarrow> rule_json" where
  "rule_to_json r =
     \<lparr>rj_rule_name = rr_rule_name r, rj_status = rule_status_value (rr_status r),
      rj_reason_code = rr_reason_code r\<rparr>"

definition rule_from_json :: "rule_json \<Rightarrow> py_error + rule_result" where
  "rule_from_json j =
     ebind (parse_enum rule_status_members rule_status_value (rj_status j)) (\<lambda>st.
       Inr (mk_result (rj_rule_name j) st (rj_reason_code j)))"

definition to_evaluation_result :: "policy_decision \<Rightarrow> py_error + evaluation_result" where
  "to_evaluation_result d =
     ebind (map_ok rule_from_json (pd_rule_results d)) (\<lambda>rules.
       Inr \<lparr>er_decision_status = pd_decision_status d, er_case_id = pd_case_id d,
            er_proposed_action = pd_proposed_action d, er_policy_version = pd_policy_version d,
            er_rule_results = rules, er_reasons = pd_reasons d,
            er_recommendation_id = Some (pd_recommendation_id d),
            er_evaluated_at = pd_evaluated_at d,
            er_metadata = [(''policy_decision_id'', JStr (pd_id d)),
                           (''cached_idempotent_result'', JBool True)]\<rparr>)"

section \<open>Running the five rules\<close>

definition merchant_of :: "customer option \<Rightarrow> json option" where
  "merchant_of cust =
     (case cust of
        None \<Rightarrow> None
      | Some c \<Rightarrow>
          (case map_of (cu_metadata c) ''merchant_id'' of
             Some JNull \<Rightarrow> None
           | v \<Rightarrow> v))"

definition has_contact :: "customer option \<Rightarrow> bool" where
  "has_contact cust = (case cust of None \<Rightarrow> False | Some c \<Rightarrow> truthy (cu_email c))"

text \<open>
  Rule 5's retry count. The source filters by \<open>a.status is not ActionType.NONE\<close>; a status is never
  a member of \<open>ActionType\<close>, so the test is always true and cancelled attempts are counted.
\<close>

definition engine_consumed_attempts :: "recovery_attempt list \<Rightarrow> recovery_attempt list" where
  "engine_consumed_attempts atts = filter (\<lambda>a. at_action_type a = Act_RETRY_PAYMENT) atts"

definition run_escalation ::
  "policy_config \<Rightarrow> transaction option \<Rightarrow> recovery_attempt list \<Rightarrow> agent_decision \<Rightarrow> rule_result" where
  "run_escalation cfg tx atts r =
     evaluate_escalation (case tx of None \<Rightarrow> 0 | Some t \<Rightarrow> tx_amount_minor t)
       (case tx of None \<Rightarrow> ''INR'' | Some t \<Rightarrow> tx_currency t) cfg (ad_confidence r)
       (case tx of None \<Rightarrow> None | Some t \<Rightarrow> tx_failure_code t)
       (\<not> can_retry cfg (int (length (engine_consumed_attempts atts)))) False False
       (list_ex (\<lambda>a. attempt_status_value (at_status a) = ''uncertain'') atts)
       default_min_confidence"

definition run_rules ::
  "policy_config \<Rightarrow> policy_request \<Rightarrow> session \<Rightarrow> recovery_case \<Rightarrow> agent_decision \<Rightarrow> action_type
     \<Rightarrow> pydatetime \<Rightarrow> py_error + rule_result list" where
  "run_rules cfg req s c r action now =
     (let tx = find_transaction s (rc_trigger_transaction_id c);
          atts = attempts_of s (rc_id c);
          cust = find_customer s (rc_customer_id c);
          code = (case tx of None \<Rightarrow> None | Some t \<Rightarrow> tx_failure_code t);
          r1 = evaluate_eligibility (Some c) (Some r) (Some (rc_customer_id c))
                 (Some (rc_trigger_transaction_id c))
      in ebind (evaluate_consent action (rc_customer_id c) (consents_of s (rc_customer_id c))
                  (merchant_of cust) (pq_communication_channel req) (Some now) now) (\<lambda>r2.
         ebind (evaluate_retry_limit action atts cfg (Some now) now (pq_idempotency_key req) code)
           (\<lambda>r3.
             let r4 = evaluate_strategy (StrategyText (action_type_value action)) code (rc_state c)
                        (has_contact cust) True;
                 r5 = run_escalation cfg tx atts r
             in Inr [r1, r2, r3, r4, r5])))"

section \<open>Persisting the decision\<close>

definition new_policy_decision ::
  "policy_config \<Rightarrow> policy_request \<Rightarrow> recovery_case \<Rightarrow> agent_decision \<Rightarrow> action_type \<Rightarrow> policy_status
     \<Rightarrow> rule_result list \<Rightarrow> string list \<Rightarrow> uuid \<Rightarrow> pydatetime \<Rightarrow> policy_decision" where
  "new_policy_decision cfg req c r action status rules reasons new_id now =
     \<lparr>pd_id = new_id, pd_case_id = rc_id c, pd_recommendation_id = ad_id r,
      pd_proposed_action = action, pd_decision_status = status,
      pd_policy_version = policy_version cfg, pd_rule_results = map rule_to_json rules,
      pd_reasons = reasons, pd_actor_type = pq_actor_type req, pd_actor_id = pq_actor_id req,
      pd_idempotency_key = pq_idempotency_key req, pd_case_version = rc_version c,
      pd_evaluated_at = now, pd_metadata = pq_metadata req\<rparr>"

definition correlation_or :: "string option \<Rightarrow> string \<Rightarrow> string" where
  "correlation_or key fallback = (if truthy key then or_empty key else fallback)"

text \<open>Step 12: move the case and record the transition, when there is one.\<close>

definition sync_case_state ::
  "policy_request \<Rightarrow> recovery_case \<Rightarrow> policy_status \<Rightarrow> string list \<Rightarrow> uuid \<Rightarrow> uuid \<Rightarrow> pydatetime
     \<Rightarrow> session \<Rightarrow> recovery_case \<times> session" where
  "sync_case_state req c status reasons new_id corr_id now s =
     (case determine_fsm_transition status (rc_state c) reasons of
        None \<Rightarrow> (c, s)
      | Some st \<Rightarrow>
          if st = rc_state c then (c, s)
          else
            (let c' = c\<lparr>rc_state := st, rc_last_state_changed_at := now,
                       rc_version := rc_version c + 1\<rparr>;
                 t = \<lparr>ct_case_id = rc_id c, ct_from_state = Some (rc_state c), ct_to_state = st,
                      ct_reason_code = (case reasons of [] \<Rightarrow> ''POLICY_EVALUATION'' | x # _ \<Rightarrow> x),
                      ct_actor_type = pq_actor_type req,
                      ct_correlation_id = correlation_or (pq_idempotency_key req) corr_id,
                      ct_occurred_at = now,
                      ct_sequence_number = next_transition_seq s (rc_id c),
                      ct_metadata = [(''policy_decision_id'', JStr new_id),
                                     (''policy_status'', JStr (policy_status_value status))]\<rparr>
             in (c', add_transition t (put_case c' s))))"

definition policy_audit_payload ::
  "policy_config \<Rightarrow> agent_decision \<Rightarrow> policy_status \<Rightarrow> rule_result list \<Rightarrow> string list \<Rightarrow> uuid \<Rightarrow> payload"
  where
  "policy_audit_payload cfg r status rules reasons new_id =
     [(''policy_decision_id'', JStr new_id), (''recommendation_id'', JStr (ad_id r)),
      (''decision_status'', JStr (policy_status_value status)),
      (''validation_status'',
        JStr (validation_status_value (map_policy_to_validation_status status))),
      (''policy_version'', JStr (policy_version cfg)),
      (''reasons'', JList (map JStr reasons)), (''rule_count'', JInt (int (length rules)))]"

text \<open>Steps 10 to 13 before the commit.\<close>

definition persist_decision ::
  "policy_config \<Rightarrow> policy_request \<Rightarrow> recovery_case \<Rightarrow> agent_decision \<Rightarrow> action_type \<Rightarrow> policy_status
     \<Rightarrow> rule_result list \<Rightarrow> string list \<Rightarrow> uuid \<Rightarrow> uuid \<Rightarrow> pydatetime \<Rightarrow> session
     \<Rightarrow> recovery_case \<times> session" where
  "persist_decision cfg req c r action status rules reasons new_id corr_id now s =
     (let d = new_policy_decision cfg req c r action status rules reasons new_id now;
          s1 = s\<lparr>policy_decisions := policy_decisions s @ [d]\<rparr>;
          r' = r\<lparr>ad_validation_status := map_policy_to_validation_status status\<rparr>;
          s2 = put_decision r' s1;
          (c', s3) = sync_case_state req c status reasons new_id corr_id now s2;
          s4 = audit_record (rc_id c) ''POLICY_EVALUATION_COMPLETED'' (pq_actor_type req)
                 (correlation_or (pq_idempotency_key req) new_id)
                 (policy_audit_payload cfg r status rules reasons new_id)
                 (Some (rc_state c)) (Some (rc_state c')) (pq_actor_id req) now s3
      in (c', s4))"

definition evaluate_loaded ::
  "policy_config \<Rightarrow> policy_request \<Rightarrow> recovery_case \<Rightarrow> agent_decision \<Rightarrow> uuid \<Rightarrow> uuid \<Rightarrow> pydatetime
     \<Rightarrow> session \<Rightarrow> py_error + (evaluation_result \<times> session)" where
  "evaluate_loaded cfg req c r new_id corr_id now s =
     (let action = (case pq_proposed_action req of None \<Rightarrow> ad_action_type r | Some a \<Rightarrow> a)
      in ebind (run_rules cfg req s c r action now) (\<lambda>rules.
           let (status, reasons) = aggregate_decision rules;
               (c', s') = persist_decision cfg req c r action status rules reasons new_id corr_id now s
           in ebind (commit s') (\<lambda>t.
             Inr (\<lparr>er_decision_status = status, er_case_id = rc_id c, er_proposed_action = action,
                   er_policy_version = policy_version cfg, er_rule_results = rules,
                   er_reasons = reasons, er_recommendation_id = Some (ad_id r),
                   er_evaluated_at = now,
                   er_metadata =
                     [(''policy_decision_id'', JStr new_id),
                      (''case_state'', JStr (case_state_value (rc_state c'))),
                      (''validation_status'',
                        JStr (validation_status_value (map_policy_to_validation_status status)))]\<rparr>,
                  t))))"

definition policy_evaluate ::
  "policy_config \<Rightarrow> policy_request \<Rightarrow> uuid \<Rightarrow> uuid \<Rightarrow> pydatetime \<Rightarrow> session
     \<Rightarrow> py_error + (evaluation_result \<times> session)" where
  "policy_evaluate cfg req new_id corr_id now s =
     (case (if truthy (pq_idempotency_key req)
            then policy_by_idempotency_key s (pq_case_id req) (or_empty (pq_idempotency_key req))
            else None) of
        Some d \<Rightarrow> ebind (to_evaluation_result d) (\<lambda>res. Inr (res, s))
      | None \<Rightarrow>
          (case (find_case s (pq_case_id req), find_decision s (pq_recommendation_id req)) of
             (Some c, Some r) \<Rightarrow> evaluate_loaded cfg req c r new_id corr_id now s
           | (c_opt, _) \<Rightarrow>
               (let m = mk_result ''data_availability_check'' Rule_MISSING_INFO
                          (if c_opt = None then ''CASE_NOT_FOUND'' else ''RECOMMENDATION_MISSING'')
                in Inr (build_synthetic_result cfg req Pol_INSUFFICIENT_INFORMATION [m]
                          [rr_reason_code m] now, s))))"


section \<open>Aggregation is the maximum of the verdicts\<close>

lemma verdict_rules:
  "is_failed r \<longleftrightarrow> verdict (rr_status r) = Pol_REJECTED"
  "is_missing_info r \<longleftrightarrow> verdict (rr_status r) = Pol_INSUFFICIENT_INFORMATION"
  "needs_review r \<longleftrightarrow> verdict (rr_status r) = Pol_REQUIRES_REVIEW"
  "is_passed r \<longleftrightarrow> verdict (rr_status r) = Pol_APPROVED"
  by (cases "rr_status r"; simp add: rule_preds)+

lemma policy_le:
  "(a::policy_status) \<le> Pol_REJECTED" "Pol_APPROVED \<le> a"
  "a \<le> Pol_INSUFFICIENT_INFORMATION \<longleftrightarrow> a \<noteq> Pol_REJECTED"
  "a \<le> Pol_REQUIRES_REVIEW \<longleftrightarrow> a \<notin> {Pol_REJECTED, Pol_INSUFFICIENT_INFORMATION}"
  by (cases a; simp add: less_eq_policy_status_def)+

definition worst_verdict :: "rule_result list \<Rightarrow> policy_status" where
  "worst_verdict rs = Max (insert Pol_APPROVED ((\<lambda>r. verdict (rr_status r)) ` set rs))"

lemma worst_verdictI:
  assumes "v \<in> insert Pol_APPROVED ((\<lambda>r. verdict (rr_status r)) ` set rs)"
    and "\<And>r. r \<in> set rs \<Longrightarrow> verdict (rr_status r) \<le> v"
  shows "worst_verdict rs = v"
  unfolding worst_verdict_def using assms
  by (intro Max_eqI) (auto simp: policy_le)

lemma aggregate_status: "fst (aggregate_decision rs) = worst_verdict rs"
proof -
  consider (failed) r where "r \<in> set rs" "is_failed r"
    | (missing) r where "r \<in> set rs" "is_missing_info r" "\<forall>x\<in>set rs. \<not> is_failed x"
    | (review) r where "r \<in> set rs" "needs_review r"
        "\<forall>x\<in>set rs. \<not> is_failed x" "\<forall>x\<in>set rs. \<not> is_missing_info x"
    | (passed) "\<forall>x\<in>set rs. \<not> is_failed x \<and> \<not> is_missing_info x \<and> \<not> needs_review x"
    by blast
  then show ?thesis
  proof cases
    case failed
    then have "fst (aggregate_decision rs) = Pol_REJECTED"
      by (auto simp: aggregate_decision_def Let_def filter_empty_conv)
    moreover have "worst_verdict rs = Pol_REJECTED"
      using failed by (intro worst_verdictI) (auto simp: policy_le verdict_rules image_iff intro!: bexI)
    ultimately show ?thesis by simp
  next
    case missing
    then have "fst (aggregate_decision rs) = Pol_INSUFFICIENT_INFORMATION"
      by (auto simp: aggregate_decision_def Let_def filter_empty_conv)
    moreover have "worst_verdict rs = Pol_INSUFFICIENT_INFORMATION"
      using missing by (intro worst_verdictI) (auto simp: policy_le verdict_rules image_iff intro!: bexI)
    ultimately show ?thesis by simp
  next
    case review
    then have "fst (aggregate_decision rs) = Pol_REQUIRES_REVIEW"
      by (auto simp: aggregate_decision_def Let_def filter_empty_conv)
    moreover have "worst_verdict rs = Pol_REQUIRES_REVIEW"
      using review by (intro worst_verdictI) (auto simp: policy_le verdict_rules image_iff intro!: bexI)
    ultimately show ?thesis by simp
  next
    case passed
    then have "fst (aggregate_decision rs) = Pol_APPROVED"
      by (auto simp: aggregate_decision_def Let_def filter_empty_conv)
    moreover have "verdict (rr_status r) = Pol_APPROVED" if "r \<in> set rs" for r
      using passed that by (cases "rr_status r") (auto simp: rule_preds)
    then have "worst_verdict rs = Pol_APPROVED"
      by (intro worst_verdictI) auto
    ultimately show ?thesis by simp
  qed
qed

text \<open>The reasons are those of the rules that gave the worst verdict, in rule order.\<close>

lemma aggregate_reasons:
  "snd (aggregate_decision rs) =
     (if worst_verdict rs = Pol_APPROVED then [all_passed_reason]
      else map rr_reason_code (filter (\<lambda>r. verdict (rr_status r) = worst_verdict rs) rs))"
proof -
  have "is_failed = (\<lambda>r. verdict (rr_status r) = Pol_REJECTED)"
    "is_missing_info = (\<lambda>r. verdict (rr_status r) = Pol_INSUFFICIENT_INFORMATION)"
    "needs_review = (\<lambda>r. verdict (rr_status r) = Pol_REQUIRES_REVIEW)"
    by (intro ext verdict_rules)+
  then show ?thesis
    unfolding aggregate_status [symmetric] by (simp add: aggregate_decision_def Let_def)
qed

lemma aggregate_approved_iff:
  "fst (aggregate_decision rs) = Pol_APPROVED \<longleftrightarrow> (\<forall>r \<in> set rs. is_passed r)"
proof
  assume "fst (aggregate_decision rs) = Pol_APPROVED"
  then have *: "filter is_failed rs = []" "filter is_missing_info rs = []" "filter needs_review rs = []"
    by (auto simp: aggregate_decision_def Let_def split: if_splits)
  show "\<forall>r \<in> set rs. is_passed r"
  proof
    fix r
    assume "r \<in> set rs"
    with * have "\<not> is_failed r" "\<not> is_missing_info r" "\<not> needs_review r"
      by (auto simp: filter_empty_conv)
    then show "is_passed r" by (cases "rr_status r") (simp_all add: rule_preds)
  qed
next
  assume "\<forall>r \<in> set rs. is_passed r"
  then show "fst (aggregate_decision rs) = Pol_APPROVED"
    by (auto simp: aggregate_decision_def Let_def filter_empty_conv verdict_rules)
qed

section \<open>The state machine side\<close>

text \<open>The engine never moves a case out of a terminal state.\<close>

lemma fsm_terminal:
  "st \<in> {Case_RECOVERED, Case_CLOSED, Case_STOPPED} \<Longrightarrow> determine_fsm_transition status st reasons = None"
  by (auto simp: determine_fsm_transition_def)

lemma fsm_changes: "determine_fsm_transition status st reasons = Some st' \<Longrightarrow> st' \<noteq> st"
  by (auto simp: determine_fsm_transition_def split: if_splits)

lemma fsm_target:
  "determine_fsm_transition status st reasons = Some st' \<Longrightarrow>
     (st' = Case_ACTION_PENDING \<longleftrightarrow> status = Pol_APPROVED)
     \<and> (st' = Case_ESCALATED \<longleftrightarrow> status = Pol_REQUIRES_REVIEW)
     \<and> (st' = Case_STOPPED \<longleftrightarrow> status = Pol_REJECTED)"
  by (auto simp: determine_fsm_transition_def split: if_splits)

section \<open>Replay\<close>

lemma rule_json_roundtrip [simp]: "rule_from_json (rule_to_json r) = Inr r"
  by (simp add: rule_from_json_def rule_to_json_def rule_status_enum.parse_value mk_result_def)

lemma to_evaluation_result_new:
  "\<exists>res. to_evaluation_result (new_policy_decision cfg req c r action status rules reasons i now) = Inr res
     \<and> er_decision_status res = status \<and> er_rule_results res = rules \<and> er_reasons res = reasons
     \<and> er_proposed_action res = action \<and> er_case_id res = rc_id c \<and> er_evaluated_at res = now
     \<and> er_policy_version res = policy_version cfg \<and> er_recommendation_id res = Some (ad_id r)"
  by (simp add: to_evaluation_result_def new_policy_decision_def map_ok_Inr)


section \<open>What an evaluation writes\<close>

lemma sync_case_state_cases:
  obtains (stay) "sync_case_state req c status reasons i corr now s = (c, s)"
      "determine_fsm_transition status (rc_state c) reasons = None"
    | (move) st t where "determine_fsm_transition status (rc_state c) reasons = Some st"
      "sync_case_state req c status reasons i corr now s =
         (c\<lparr>rc_state := st, rc_last_state_changed_at := now, rc_version := rc_version c + 1\<rparr>,
          add_transition t (put_case (c\<lparr>rc_state := st, rc_last_state_changed_at := now,
                                        rc_version := rc_version c + 1\<rparr>) s))"
      "ct_case_id t = rc_id c" "ct_from_state t = Some (rc_state c)" "ct_to_state t = st"
      "ct_sequence_number t = next_transition_seq s (rc_id c)"
proof (cases "determine_fsm_transition status (rc_state c) reasons")
  case None
  then show thesis by (intro stay) (simp_all add: sync_case_state_def)
next
  case (Some st)
  with fsm_changes have "st \<noteq> rc_state c" by blast
  with Some show thesis by (intro move [of st]) (auto simp: sync_case_state_def Let_def)
qed

lemma sync_case_state_keeps:
  "policy_decisions (snd (sync_case_state req c status reasons i corr now s)) = policy_decisions s"
  "workflows (snd (sync_case_state req c status reasons i corr now s)) = workflows s"
  "steps (snd (sync_case_state req c status reasons i corr now s)) = steps s"
  "executions (snd (sync_case_state req c status reasons i corr now s)) = executions s"
  "attempts (snd (sync_case_state req c status reasons i corr now s)) = attempts s"
  "transactions (snd (sync_case_state req c status reasons i corr now s)) = transactions s"
  "consents (snd (sync_case_state req c status reasons i corr now s)) = consents s"
  "agent_decisions (snd (sync_case_state req c status reasons i corr now s)) = agent_decisions s"
  by (simp_all add: sync_case_state_def Let_def session_write_defs split: option.split)

lemma persist_keeps:
  fixes cfg req c r action status rules reasons i corr now s
  defines "s' \<equiv> snd (persist_decision cfg req c r action status rules reasons i corr now s)"
  shows "policy_decisions s' =
           policy_decisions s @ [new_policy_decision cfg req c r action status rules reasons i now]"
    and "workflows s' = workflows s" "steps s' = steps s" "executions s' = executions s"
    and "attempts s' = attempts s" "transactions s' = transactions s" "consents s' = consents s"
    and "agent_decisions s' =
           upd_by ad_id (r\<lparr>ad_validation_status := map_policy_to_validation_status status\<rparr>)
             (agent_decisions s)"
  unfolding s'_def persist_decision_def Let_def
  by (simp_all add: split_beta audit_record_def add_audit_def sync_case_state_keeps put_decision_def)

lemma persist_case:
  assumes "persist_decision cfg req c r action status rules reasons i corr now s = (c', s')"
    and "find_case s (rc_id c) = Some c"
  shows "find_case s' (rc_id c) = Some c'" and "rc_id c' = rc_id c"
    and "c' = c \<and> determine_fsm_transition status (rc_state c) reasons = None
         \<or> determine_fsm_transition status (rc_state c) reasons = Some (rc_state c')
           \<and> rc_version c' = rc_version c + 1"
    and "j \<noteq> rc_id c \<Longrightarrow> find_case s' j = find_case s j"
proof -
  let ?s2 = "put_decision (r\<lparr>ad_validation_status := map_policy_to_validation_status status\<rparr>)
           (s\<lparr>policy_decisions := policy_decisions s
             @ [new_policy_decision cfg req c r action status rules reasons i now]\<rparr>)"
  have f2: "find_case ?s2 k = find_case s k" for k
    by (simp add: find_case_def put_decision_def)
  have fa: "find_case (audit_record a1 a2 a3 a4 a5 a6 a7 a8 a9 x) k = find_case x k"
    and ft: "find_case (add_transition t x) k = find_case x k" for a1 a2 a3 a4 a5 a6 a7 a8 a9 x k t
    by (simp_all add: find_case_def session_write_defs)
  obtain s3 where s3: "sync_case_state req c status reasons i corr now ?s2 = (c', s3)"
    and s': "\<And>k. find_case s' k = find_case s3 k"
    using assms(1) by (auto simp: persist_decision_def Let_def fa split: prod.splits)
  have *: "find_case s' (rc_id c) = Some c' \<and> rc_id c' = rc_id c
    \<and> (c' = c \<and> determine_fsm_transition status (rc_state c) reasons = None
         \<or> determine_fsm_transition status (rc_state c) reasons = Some (rc_state c')
           \<and> rc_version c' = rc_version c + 1)
    \<and> (j \<noteq> rc_id c \<longrightarrow> find_case s' j = find_case s j)"
  proof (cases rule: sync_case_state_cases [of req c status reasons i corr now ?s2])
    case stay
    with s3 have "c' = c" "s3 = ?s2" by auto
    with stay show ?thesis by (simp add: s' f2 assms(2))
  next
    case (move st t)
    let ?c = "c\<lparr>rc_state := st, rc_last_state_changed_at := now, rc_version := rc_version c + 1\<rparr>"
    from move s3 have c': "c' = ?c" and s3': "s3 = add_transition t (put_case ?c ?s2)" by auto
    have "find_case (put_case ?c ?s2) (rc_id ?c) = Some ?c"
      by (rule find_case_put_same) (simp add: f2 assms(2))
    moreover have "j \<noteq> rc_id ?c \<Longrightarrow> find_case (put_case ?c ?s2) j = find_case ?s2 j"
      by (rule find_case_put_other)
    ultimately show ?thesis using move(1) by (simp add: s' s3' c' ft f2)
  qed
  from * show "find_case s' (rc_id c) = Some c'" "rc_id c' = rc_id c"
    "c' = c \<and> determine_fsm_transition status (rc_state c) reasons = None
         \<or> determine_fsm_transition status (rc_state c) reasons = Some (rc_state c')
           \<and> rc_version c' = rc_version c + 1" by blast+
  from * show "j \<noteq> rc_id c \<Longrightarrow> find_case s' j = find_case s j" by blast
qed

lemma sync_case_state_ok:
  assumes "violated s = None" "audit_pending s = []" "transition_pending s = []"
    and "find_case s (rc_id c) = Some c"
  shows "violated (snd (sync_case_state req c status reasons i corr now s)) = None
         \<and> audit_pending (snd (sync_case_state req c status reasons i corr now s)) = []"
proof (cases rule: sync_case_state_cases [of req c status reasons i corr now s])
  case stay
  with assms show ?thesis by simp
next
  case (move st t)
  define c' where "c' = c\<lparr>rc_state := st, rc_last_state_changed_at := now, rc_version := rc_version c + 1\<rparr>"
  have "violated (put_case c' s) = None"
    using assms by (intro violated_put_case [where ?c0.0 = c]) (simp_all add: c'_def)
  moreover have "ct_sequence_number t = next_transition_seq (put_case c' s) (ct_case_id t)"
    using move by (simp add: seq_defs put_case_def)
  moreover have "transition_pending (put_case c' s) = []" "audit_pending (put_case c' s) = []"
    using assms by (simp_all add: put_case_def)
  ultimately have "violated (add_transition t (put_case c' s)) = None"
    "audit_pending (add_transition t (put_case c' s)) = []"
    by (simp_all add: violated_add_transition) (simp add: add_transition_def)
  with move(2) show ?thesis by (simp add: c'_def)
qed

text \<open>An evaluation numbers its transition and its audit record freshly, so its commit succeeds.\<close>

lemma persist_ok:
  assumes ok: "session_ok s" and c: "find_case s (rc_id c) = Some c"
  shows "violated (snd (persist_decision cfg req c r action status rules reasons i corr now s)) = None"
proof -
  define s2 where "s2 = put_decision (r\<lparr>ad_validation_status := map_policy_to_validation_status status\<rparr>)
           (s\<lparr>policy_decisions := policy_decisions s
             @ [new_policy_decision cfg req c r action status rules reasons i now]\<rparr>)"
  have "violated s2 = None" "audit_pending s2 = []" "transition_pending s2 = []"
    "find_case s2 (rc_id c) = Some c"
    using ok c by (auto simp: s2_def session_ok_def violated_None_iff put_decision_def find_case_def)
  then show ?thesis
    using sync_case_state_ok [of s2 c req status reasons i corr now]
    by (simp add: persist_decision_def Let_def split_beta violated_audit_record flip: s2_def)
qed

section \<open>The whole evaluation\<close>

lemma evaluate_loaded_Inr:
  assumes "evaluate_loaded cfg req c r i corr now s = Inr (res, t)"
  obtains action rules c' s' where
    "action = (case pq_proposed_action req of None \<Rightarrow> ad_action_type r | Some a \<Rightarrow> a)"
    "run_rules cfg req s c r action now = Inr rules"
    "persist_decision cfg req c r action (er_decision_status res) rules (er_reasons res) i corr now s
       = (c', s')"
    "aggregate_decision rules = (er_decision_status res, er_reasons res)"
    "violated s' = None" "t = flushed s'"
    "er_rule_results res = rules" "er_case_id res = rc_id c" "er_proposed_action res = action"
    "er_recommendation_id res = Some (ad_id r)" "er_policy_version res = policy_version cfg"
    "er_evaluated_at res = now"
proof -
  define action where "action = (case pq_proposed_action req of None \<Rightarrow> ad_action_type r | Some a \<Rightarrow> a)"
  from assms obtain rules where rules: "run_rules cfg req s c r action now = Inr rules"
    by (auto simp: evaluate_loaded_def Let_def err_simps action_def)
  obtain st rs where agg: "aggregate_decision rules = (st, rs)" by fastforce
  obtain c' s' where p: "persist_decision cfg req c r action st rules rs i corr now s = (c', s')"
    by fastforce
  from assms rules agg p show thesis
    by (intro that [of action rules c' s'])
      (auto simp: evaluate_loaded_def Let_def err_simps simp flip: action_def)
qed

text \<open>A first evaluation (no stored decision under the key) of loaded entities is \<open>evaluate_loaded\<close>.\<close>

definition stored_decision :: "policy_request \<Rightarrow> session \<Rightarrow> policy_decision option" where
  "stored_decision req s =
     (if truthy (pq_idempotency_key req)
      then policy_by_idempotency_key s (pq_case_id req) (or_empty (pq_idempotency_key req)) else None)"

lemma policy_evaluate_cases:
  obtains (replay) d where "stored_decision req s = Some d"
      "policy_evaluate cfg req i corr now s = ebind (to_evaluation_result d) (\<lambda>res. Inr (res, s))"
    | (missing) m where "stored_decision req s = None"
      "find_case s (pq_case_id req) = None \<or> find_decision s (pq_recommendation_id req) = None"
      "policy_evaluate cfg req i corr now s =
         Inr (build_synthetic_result cfg req Pol_INSUFFICIENT_INFORMATION [m] [rr_reason_code m] now, s)"
    | (loaded) c r where "stored_decision req s = None"
      "find_case s (pq_case_id req) = Some c" "find_decision s (pq_recommendation_id req) = Some r"
      "policy_evaluate cfg req i corr now s = evaluate_loaded cfg req c r i corr now s"
proof (cases "stored_decision req s")
  case (Some d)
  then show thesis by (intro replay [of d]) (simp_all add: policy_evaluate_def stored_decision_def)
next
  case None
  show thesis
  proof (cases "find_case s (pq_case_id req)")
    case n: None
    show thesis
      by (rule missing [of "mk_result ''data_availability_check'' Rule_MISSING_INFO ''CASE_NOT_FOUND''"])
        (use None n in \<open>simp_all add: policy_evaluate_def stored_decision_def\<close>)
  next
    case (Some c)
    show thesis
    proof (cases "find_decision s (pq_recommendation_id req)")
      case n: None
      show thesis
        by (rule missing [of "mk_result ''data_availability_check'' Rule_MISSING_INFO
              ''RECOMMENDATION_MISSING''"])
          (use None Some n in \<open>simp_all add: policy_evaluate_def stored_decision_def\<close>)
    next
      case r: (Some r)
      show thesis
        by (rule loaded [of c r])
          (use None Some r in \<open>simp_all add: policy_evaluate_def stored_decision_def\<close>)
    qed
  qed
qed

section \<open>The properties of the engine\<close>

definition demo_request :: policy_request where
  "demo_request =
     \<lparr>pq_case_id = ''case'', pq_recommendation_id = ''rec'', pq_proposed_action = None,
      pq_actor_type = Actor_SYSTEM, pq_actor_id = None, pq_idempotency_key = Some ''k1'',
      pq_communication_channel = None, pq_metadata = []\<rparr>"

definition demo_run :: "py_error + (evaluation_result \<times> session)" where
  "demo_run = policy_evaluate default_policy_config demo_request ''d'' ''x'' demo_now demo_session"

text \<open>Everything an approval certifies about the database it was given in.\<close>

definition guardrails_hold ::
  "policy_config \<Rightarrow> policy_request \<Rightarrow> session \<Rightarrow> recovery_case \<Rightarrow> agent_decision \<Rightarrow> action_type \<Rightarrow> pydatetime
     \<Rightarrow> bool" where
  "guardrails_hold cfg req s c r action now \<longleftrightarrow>
     ad_case_id r = rc_id c \<and> ad_validation_status r \<in> {Val_NOT_VALIDATED, Val_VALID}
     \<and> rc_state c \<in> set actionable_states
     \<and> (\<forall>required. determine_required_consent action (pq_communication_channel req) = Some required \<longrightarrow>
          (\<exists>k \<in> set (consents s). co_customer_id k = rc_customer_id c \<and> co_type k = required
             \<and> consent_live k now))
     \<and> (action = Act_RETRY_PAYMENT \<longrightarrow>
          int (length (consumed_retries (attempts_of s (rc_id c)))) < max_retry_attempts cfg
          \<and> (\<forall>a \<in> set (attempts s). at_case_id a = rc_id c \<longrightarrow>
               at_status a \<notin> {Att_SUCCEEDED, Att_STARTED, Att_UNCERTAIN}))
     \<and> (\<exists>t. find_transaction s (rc_trigger_transaction_id c) = Some t
          \<and> tx_amount_minor t < get_high_value_threshold cfg (tx_currency t)
          \<and> norm_code (tx_failure_code t) \<notin> set fraud_categories)
     \<and> (\<exists>p. ad_confidence r = Some p \<and> default_min_confidence \<le> p)"

lemma run_rules_Inr:
  assumes "run_rules cfg req s c r action now = Inr rules"
  obtains r2 r3 where
    "evaluate_consent action (rc_customer_id c) (consents_of s (rc_customer_id c))
       (merchant_of (find_customer s (rc_customer_id c))) (pq_communication_channel req)
       (Some now) now = Inr r2"
    "evaluate_retry_limit action (attempts_of s (rc_id c)) cfg (Some now) now
       (pq_idempotency_key req)
       (case find_transaction s (rc_trigger_transaction_id c) of None \<Rightarrow> None
        | Some t \<Rightarrow> tx_failure_code t) = Inr r3"
    "rules =
       [evaluate_eligibility (Some c) (Some r) (Some (rc_customer_id c))
          (Some (rc_trigger_transaction_id c)), r2, r3,
        evaluate_strategy (StrategyText (action_type_value action))
          (case find_transaction s (rc_trigger_transaction_id c) of None \<Rightarrow> None
           | Some t \<Rightarrow> tx_failure_code t) (rc_state c)
          (has_contact (find_customer s (rc_customer_id c))) True,
        run_escalation cfg (find_transaction s (rc_trigger_transaction_id c))
          (attempts_of s (rc_id c)) r]"
  using assms unfolding run_rules_def Let_def ebind_eq_Inr by auto

lemma norm_code_None: "norm_code None = []"
  by (simp add: norm_code_def or_empty_def py_strip_def py_lower_def)

lemma run_escalation_passed:
  assumes "is_passed (run_escalation cfg tx atts r)"
  obtains t p where "tx = Some t" "tx_amount_minor t < get_high_value_threshold cfg (tx_currency t)"
    "norm_code (tx_failure_code t) \<notin> set fraud_categories"
    "ad_confidence r = Some p" "default_min_confidence \<le> p"
  using assms
  by (cases tx) (auto simp: run_escalation_def escalation_passed_iff norm_code_None)

lemma rules_passed_guardrails:
  assumes run: "run_rules cfg req s c r action now = Inr rules"
    and pass: "\<forall>x \<in> set rules. is_passed x"
  shows "guardrails_hold cfg req s c r action now"
  using run
proof (cases rule: run_rules_Inr)
  case (1 r2 r3)
  with pass have p: "is_passed (evaluate_eligibility (Some c) (Some r) (Some (rc_customer_id c))
          (Some (rc_trigger_transaction_id c)))" "is_passed r2" "is_passed r3"
    "is_passed (run_escalation cfg (find_transaction s (rc_trigger_transaction_id c))
          (attempts_of s (rc_id c)) r)"
    by simp_all
  have consent: "\<exists>k \<in> set (consents s). co_customer_id k = rc_customer_id c \<and> co_type k = required
             \<and> consent_live k now"
    if "determine_required_consent action (pq_communication_channel req) = Some required" for required
    using consent_passed_witness [OF 1(1) p(2) that] by (auto simp: consents_of_def or_clock_def)
  have retry: "int (length (consumed_retries (attempts_of s (rc_id c)))) < max_retry_attempts cfg
       \<and> (\<forall>a \<in> set (attempts s). at_case_id a = rc_id c \<longrightarrow>
            at_status a \<notin> {Att_SUCCEEDED, Att_STARTED, Att_UNCERTAIN})"
    if "action = Act_RETRY_PAYMENT"
    using retry_passed_iff [OF 1(2) [unfolded that]] p(3) by (auto simp: attempts_of_def)
  from p(4) obtain t q where "find_transaction s (rc_trigger_transaction_id c) = Some t"
    "tx_amount_minor t < get_high_value_threshold cfg (tx_currency t)"
    "norm_code (tx_failure_code t) \<notin> set fraud_categories"
    "ad_confidence r = Some q" "default_min_confidence \<le> q"
    by (rule run_escalation_passed)
  with p(1) consent retry show ?thesis
    unfolding guardrails_hold_def eligibility_passed_iff by blast
qed



text \<open>The aggregation answers the most severe verdict any single rule gave
  (rejected over insufficient information over review over approved), and its reasons are the
  reason codes of exactly the rules with that verdict, in rule order.\<close>

theorem aggregate_is_worst_verdict:
  "aggregate_decision rs =
     (worst_verdict rs,
      if worst_verdict rs = Pol_APPROVED then [all_passed_reason]
      else map rr_reason_code (filter (\<lambda>r. verdict (rr_status r) = worst_verdict rs) rs))"
  using aggregate_status [of rs] aggregate_reasons [of rs] by (metis prod.collapse)

text \<open>Whatever is requested, an evaluation that returns leaves every case
  that is recovered, closed or stopped exactly as it was.\<close>

theorem policy_leaves_terminal_cases:
  assumes "policy_evaluate cfg req i corr now s = Inr (res, t)"
    and "find_case s j = Some c" and "rc_state c \<in> set terminal_states"
  shows "find_case t j = Some c"
proof (cases rule: policy_evaluate_cases [of req s cfg i corr now])
  case (loaded c0 r)
  from assms(1) loaded have "evaluate_loaded cfg req c0 r i corr now s = Inr (res, t)" by simp
  then show ?thesis
  proof (cases rule: evaluate_loaded_Inr)
    case (1 action rules c' s')
    from loaded(2) have id: "rc_id c0 = pq_case_id req" by (rule find_case_id)
    with loaded have c0: "find_case s (rc_id c0) = Some c0" by simp
    note p = persist_case [OF 1(3) c0]
    show ?thesis
    proof (cases "j = rc_id c0")
      case True
      with assms(2) c0 have "c = c0" by simp
      moreover have "determine_fsm_transition st (rc_state c) rs = None" for st rs
        using assms(3) by (intro fsm_terminal) (auto simp: terminal_states_def)
      ultimately have "c' = c" using p(3) by auto
      with p(1) True 1(6) show ?thesis by simp
    next
      case False
      with p(4) [OF False] assms(2) 1(6) show ?thesis by simp
    qed
  qed
next
  case (replay d)
  from assms(1) have "t = s" unfolding replay(2) by (auto simp: ebind_eq_Inr)
  with assms(2) show ?thesis by simp
qed (use assms in simp)

lemma policy_leaves_terminal_cases_witness:
  "\<exists>res t. policy_evaluate default_policy_config demo_request ''d'' ''x'' demo_now demo_stopped = Inr (res, t)
     \<and> er_decision_status res = Pol_REJECTED
     \<and> find_case t ''case'' = Some (demo_case\<lparr>rc_state := Case_STOPPED\<rparr>)"
proof -
  let ?run = "policy_evaluate default_policy_config demo_request ''d'' ''x'' demo_now demo_stopped"
  have "case ?run of Inl _ \<Rightarrow> False | Inr (res, t) \<Rightarrow> er_decision_status res = Pol_REJECTED"
    by code_simp
  then obtain res t where run: "?run = Inr (res, t)" "er_decision_status res = Pol_REJECTED"
    by (auto split: sum.splits)
  then show ?thesis
    using policy_leaves_terminal_cases [OF run(1), of "''case''" "demo_case\<lparr>rc_state := Case_STOPPED\<rparr>"]
    by (simp add: demo_stopped_def find_case_def demo_case_def terminal_states_def)
qed

text \<open>C15: Evaluating again under the same case and idempotency key, once a first
  evaluation of loaded entities returned, gives the same decision, action, rule results and reasons
  whatever the configuration, the clock and the rest of the request are then, and writes nothing.\<close>

theorem policy_replay_is_stable:
  assumes first: "policy_evaluate cfg req i corr now s = Inr (res, t)"
    and key: "truthy (pq_idempotency_key req)" and fresh: "stored_decision req s = None"
    and loaded: "find_case s (pq_case_id req) \<noteq> None" "find_decision s (pq_recommendation_id req) \<noteq> None"
    and same: "pq_case_id req' = pq_case_id req" "pq_idempotency_key req' = pq_idempotency_key req"
  shows "\<exists>res'. policy_evaluate cfg' req' i' corr' now' t = Inr (res', t)
           \<and> er_decision_status res' = er_decision_status res
           \<and> er_proposed_action res' = er_proposed_action res
           \<and> er_rule_results res' = er_rule_results res \<and> er_reasons res' = er_reasons res"
proof -
  from loaded obtain c r where c: "find_case s (pq_case_id req) = Some c"
    and r: "find_decision s (pq_recommendation_id req) = Some r" by auto
  with first fresh have "evaluate_loaded cfg req c r i corr now s = Inr (res, t)"
    by (simp add: policy_evaluate_def flip: stored_decision_def)
  then show ?thesis
  proof (cases rule: evaluate_loaded_Inr)
    case (1 action rules c' s')
    let ?d = "new_policy_decision cfg req c r action (er_decision_status res) rules
                (er_reasons res) i now"
    have pd: "policy_decisions t = policy_decisions s @ [?d]"
      using persist_keeps(1) [of cfg req c r action "er_decision_status res" rules "er_reasons res"
          i corr now s] 1 by simp
    have none: "find (\<lambda>d. pd_case_id d = pq_case_id req
        \<and> pd_idempotency_key d = Some (or_empty (pq_idempotency_key req))) (policy_decisions s) = None"
      using fresh key by (simp add: stored_decision_def policy_by_idempotency_key_def)
    have hit: "pd_case_id ?d = pq_case_id req
        \<and> pd_idempotency_key ?d = Some (or_empty (pq_idempotency_key req))"
      using key find_case_id [OF c]
      by (cases "pq_idempotency_key req") (simp_all add: new_policy_decision_def or_empty_def)
    have "stored_decision req' t = Some ?d"
      using key same find_snoc [OF none hit]
      by (simp add: stored_decision_def policy_by_idempotency_key_def pd)
    moreover obtain res' where "to_evaluation_result ?d = Inr res'"
      "er_decision_status res' = er_decision_status res" "er_rule_results res' = rules"
      "er_reasons res' = er_reasons res" "er_proposed_action res' = action"
      using to_evaluation_result_new by blast
    ultimately show ?thesis using 1 by (simp add: policy_evaluate_def flip: stored_decision_def)
  qed
qed

lemma policy_replay_is_stable_witness:
  "\<exists>res t res'. demo_run = Inr (res, t)
     \<and> policy_evaluate (default_policy_config\<lparr>max_retry_attempts := 0\<rparr>) demo_request ''e'' ''y'' (Aware 0) t
         = Inr (res', t)
     \<and> er_decision_status res' = er_decision_status res"
proof -
  have "case demo_run of Inl _ \<Rightarrow> False | Inr _ \<Rightarrow> True" by code_simp
  then obtain res t where run: "demo_run = Inr (res, t)" by (auto split: sum.splits)
  have "stored_decision demo_request demo_session = None" "truthy (pq_idempotency_key demo_request)"
    "find_case demo_session (pq_case_id demo_request) \<noteq> None"
    "find_decision demo_session (pq_recommendation_id demo_request) \<noteq> None"
    by code_simp+
  with run show ?thesis
    using policy_replay_is_stable [of default_policy_config demo_request "''d''" "''x''" demo_now
        demo_session res t demo_request]
    by (fastforce simp: demo_run_def)
qed

text \<open>When the case or the recommendation cannot be loaded, the engine
  answers insufficient information (so never an approval) and writes nothing.\<close>

theorem policy_missing_data_fails_closed:
  assumes "stored_decision req s = None"
    and "find_case s (pq_case_id req) = None \<or> find_decision s (pq_recommendation_id req) = None"
  shows "\<exists>res. policy_evaluate cfg req i corr now s = Inr (res, s)
           \<and> er_decision_status res = Pol_INSUFFICIENT_INFORMATION
           \<and> result_validation_status res = Val_INVALID
           \<and> (find_case s (pq_case_id req) = None \<longrightarrow> er_reasons res = [''CASE_NOT_FOUND''])
           \<and> (find_case s (pq_case_id req) \<noteq> None \<longrightarrow> er_reasons res = [''RECOMMENDATION_MISSING''])"
  using assms
  by (cases "find_case s (pq_case_id req)"; cases "find_decision s (pq_recommendation_id req)")
    (simp_all add: policy_evaluate_def build_synthetic_result_def result_validation_status_def
      flip: stored_decision_def)

lemma policy_missing_data_fails_closed_witness:
  "\<exists>res. policy_evaluate default_policy_config demo_request ''d'' ''x'' demo_now empty_session
           = Inr (res, empty_session)
     \<and> er_reasons res = [''CASE_NOT_FOUND'']"
proof -
  have "stored_decision demo_request empty_session = None"
    "find_case empty_session (pq_case_id demo_request) = None" by code_simp+
  then show ?thesis
    using policy_missing_data_fails_closed [of demo_request empty_session default_policy_config "''d''"
        "''x''" demo_now]
    by blast
qed

text \<open>The stored timestamps that make the two fallible rules total.\<close>

definition aware_times :: "session \<Rightarrow> bool" where
  "aware_times s \<longleftrightarrow>
     (\<forall>k \<in> set (consents s). is_aware (grant_key k))
     \<and> (\<forall>a \<in> set (attempts s). is_aware (attempt_time_key a))"

lemma comparable_aware: "list_all is_aware ds \<Longrightarrow> comparable ds"
  by (simp add: comparable_def)

lemma evaluate_consent_total:
  assumes "\<forall>k \<in> set cs. is_aware (grant_key k)"
  shows "\<exists>r. evaluate_consent action cid cs mid ch et clock = Inr r"
proof -
  have "comparable (map grant_key (merchant_scope mid (typed_consents cid required cs)))" for required
    using assms candidate_mem [of _ mid cid required cs]
    by (intro comparable_aware) (auto simp: list_all_iff)
  then show ?thesis
    unfolding evaluate_consent_def Let_def
    by (auto simp: sort_newest_first_def split: option.split)
qed

lemma evaluate_retry_total:
  assumes "\<forall>a \<in> set atts. is_aware (attempt_time_key a)" and "is_aware now"
  shows "\<exists>r. evaluate_retry_limit action atts cfg (Some now) clock key fc = Inr r"
proof -
  have "comparable (map attempt_time_key (consumed_retries atts))"
    using assms by (intro comparable_aware) (auto simp: list_all_iff consumed_retries_def)
  then have "\<exists>b. cooldown_check cfg (consumed_retries atts) now = Inr b"
    by (cases "consumed_retries atts")
      (auto simp: cooldown_check_def latest_attempt_def is_cooldown_elapsed_eq split: option.split)
  then show ?thesis by (auto simp: evaluate_retry_limit_def Let_def or_clock_def)
qed



end
