(* ===== verification/Case_Service.thy ===== *)
theory Case_Service
  imports Case_Transitions Scenario
begin

text \<open>
  The recovery-case application service of \<open>backend/app/services/recovery_case_service.py\<close>:
  opening a case, the operator's state transition, the guarded update and the lookups, each up to
  its commit. The response DTO copies the case, so a handler returns the case itself.
\<close>

definition service_terminal_states :: "case_state list" where
  "service_terminal_states = [Case_RECOVERED, Case_STOPPED, Case_CLOSED]"

record case_create_dto =
  cc_customer_id :: uuid
  cc_trigger_transaction_id :: uuid
  cc_case_key :: "string option"
  cc_priority :: int
  cc_metadata :: payload

record case_transition_dto =
  cd_to_state :: case_state
  cd_reason_code :: string
  cd_actor_type :: actor_type
  cd_correlation_id :: string
  cd_metadata :: payload

record case_update_dto =
  cp_priority :: "int option"
  cp_metadata :: "payload option"

section \<open>Opening a case\<close>

text \<open>\<open>RecoveryCaseMapper.to_entity\<close>: the key is generated from a fresh uuid when none is given.\<close>

definition case_to_entity :: "case_create_dto \<Rightarrow> uuid \<Rightarrow> uuid \<Rightarrow> pydatetime \<Rightarrow> recovery_case" where
  "case_to_entity dto new_id key_id now =
     \<lparr>rc_id = new_id, rc_customer_id = cc_customer_id dto,
      rc_trigger_transaction_id = cc_trigger_transaction_id dto,
      rc_case_key = (if truthy (cc_case_key dto) then or_empty (cc_case_key dto)
                     else ''CASE-'' @ py_upper (take 12 (uuid_hex key_id))),
      rc_state = Case_DETECTED, rc_priority = cc_priority dto, rc_opened_at = now,
      rc_last_state_changed_at = now, rc_closed_at = None, rc_version = 1,
      rc_metadata = cc_metadata dto\<rparr>"

definition create_case ::
  "case_create_dto \<Rightarrow> uuid \<Rightarrow> uuid \<Rightarrow> uuid \<Rightarrow> pydatetime \<Rightarrow> session
     \<Rightarrow> py_error + (recovery_case \<times> session)" where
  "create_case dto new_id key_id corr_id now s =
     (if find_customer s (cc_customer_id dto) = None
        then Inl (AppError (EntityNotFound ''Customer'' (cc_customer_id dto)))
      else if find_transaction s (cc_trigger_transaction_id dto) = None
        then Inl (AppError (EntityNotFound ''Transaction'' (cc_trigger_transaction_id dto)))
      else if find_case_by_trigger s (cc_trigger_transaction_id dto) \<noteq> None
        then Inl (AppError (DuplicateEntity ''RecoveryCase''
               (''trigger_tx:'' @ cc_trigger_transaction_id dto)))
      else if cc_case_key dto \<noteq> None \<and> find_case_by_key s (or_empty (cc_case_key dto)) \<noteq> None
        then Inl (AppError (DuplicateEntity ''RecoveryCase'' (or_empty (cc_case_key dto))))
      else
        (let c = case_to_entity dto new_id key_id now;
             s1 = s\<lparr>cases := cases s @ [c]\<rparr>;
             s2 = audit_record (rc_id c) ''CASE_OPENED'' Actor_SYSTEM corr_id
                    [(''trigger_transaction_id'', JStr (cc_trigger_transaction_id dto)),
                     (''customer_id'', JStr (cc_customer_id dto)),
                     (''case_key'', JStr (rc_case_key c)),
                     (''initial_priority'', JInt (rc_priority c))]
                    None (Some Case_DETECTED) (Some ''system.risk_detector'') now s1
         in ebind (commit s2) (\<lambda>t. Inr (c, t))))"

section \<open>Lookups\<close>

definition get_case :: "uuid \<Rightarrow> session \<Rightarrow> py_error + recovery_case" where
  "get_case cid s =
     (case find_case s cid of None \<Rightarrow> Inl (AppError (EntityNotFound ''RecoveryCase'' cid))
      | Some c \<Rightarrow> Inr c)"

definition get_by_case_key :: "string \<Rightarrow> session \<Rightarrow> py_error + recovery_case" where
  "get_by_case_key k s =
     (case find_case_by_key s k of None \<Rightarrow> Inl (AppError (EntityNotFound ''RecoveryCase'' k))
      | Some c \<Rightarrow> Inr c)"

definition get_case_timeline :: "uuid \<Rightarrow> session \<Rightarrow> py_error + audit_event list" where
  "get_case_timeline cid s =
     (case find_case s cid of None \<Rightarrow> Inl (AppError (EntityNotFound ''RecoveryCase'' cid))
      | Some c \<Rightarrow>
          Inr (sort_key ae_sequence_number (filter (\<lambda>a. ae_case_id a = cid) (audit_rows s))))"

section \<open>State transition\<close>

definition service_transition ::
  "uuid \<Rightarrow> case_transition_dto \<Rightarrow> pydatetime \<Rightarrow> session \<Rightarrow> py_error + (recovery_case \<times> session)" where
  "service_transition cid dto now s =
     (case find_case s cid of
        None \<Rightarrow> Inl (AppError (EntityNotFound ''RecoveryCase'' cid))
      | Some c \<Rightarrow>
          if rc_state c \<in> set service_terminal_states \<or> rc_state c = cd_to_state dto
            then Inl (AppError (InvalidStateTransition (case_state_value (rc_state c))
                                  (case_state_value (cd_to_state dto))))
          else
            (let c' = c\<lparr>rc_state := cd_to_state dto, rc_last_state_changed_at := now,
                       rc_version := rc_version c + 1,
                       rc_closed_at := (if cd_to_state dto \<in> set service_terminal_states
                                        then Some now else rc_closed_at c)\<rparr>;
                 n = next_transition_seq s cid;
                 t = \<lparr>ct_case_id = rc_id c, ct_from_state = Some (rc_state c),
                      ct_to_state = cd_to_state dto, ct_reason_code = cd_reason_code dto,
                      ct_actor_type = cd_actor_type dto, ct_correlation_id = cd_correlation_id dto,
                      ct_occurred_at = now, ct_sequence_number = n,
                      ct_metadata = cd_metadata dto\<rparr>;
                 s1 = add_transition t (put_case c' s);
                 s2 = audit_record (rc_id c) ''STATE_TRANSITION'' (cd_actor_type dto)
                        (cd_correlation_id dto)
                        [(''reason_code'', JStr (cd_reason_code dto)),
                         (''metadata'', JObj (cd_metadata dto)), (''sequence_number'', JInt n)]
                        (Some (rc_state c)) (Some (cd_to_state dto)) None now s1
             in ebind (commit s2) (\<lambda>t. Inr (c', t))))"

section \<open>Update\<close>

definition restricted_keys :: "string list" where
  "restricted_keys =
     [''id'', ''customer_id'', ''trigger_transaction_id'', ''case_key'', ''amount_minor'', ''currency'',
      ''recovered_amount_minor'', ''version'']"

definition clean_updates :: "payload \<Rightarrow> payload" where
  "clean_updates m = filter (\<lambda>(k, _). k \<notin> set restricted_keys) m"

definition update_fields :: "recovery_case \<Rightarrow> case_update_dto \<Rightarrow> recovery_case \<times> payload" where
  "update_fields c dto =
     (let (c1, ch1) =
            (case cp_priority dto of
               Some p \<Rightarrow>
                 if p \<noteq> rc_priority c
                 then (c\<lparr>rc_priority := p\<rparr>,
                       [(''previous_priority'', JInt (rc_priority c)), (''new_priority'', JInt p)])
                 else (c, [])
             | None \<Rightarrow> (c, []))
      in case cp_metadata dto of
           None \<Rightarrow> (c1, ch1)
         | Some m \<Rightarrow>
             (c1\<lparr>rc_metadata := dict_update (rc_metadata c) (clean_updates m)\<rparr>,
              ch1 @ [(''metadata_updated'', JList (map (JStr \<circ> fst) (clean_updates m)))]))"

definition update_case ::
  "uuid \<Rightarrow> case_update_dto \<Rightarrow> string option \<Rightarrow> uuid \<Rightarrow> pydatetime \<Rightarrow> session
     \<Rightarrow> py_error + (recovery_case \<times> session)" where
  "update_case cid dto actor_id corr_id now s =
     (case find_case s cid of
        None \<Rightarrow> Inl (AppError (EntityNotFound ''RecoveryCase'' cid))
      | Some c \<Rightarrow>
          if rc_state c \<in> set service_terminal_states
            then Inl (AppError (InvalidStateTransition (case_state_value (rc_state c)) ''UPDATE_REJECTED''))
          else
            (let (c1, changes) = update_fields c dto
             in if changes = [] then Inr (c1, s)
                else
                  (let c' = c1\<lparr>rc_last_state_changed_at := now, rc_version := rc_version c1 + 1\<rparr>;
                       s1 = audit_record (rc_id c) ''CASE_UPDATED''
                              (if truthy actor_id then Actor_OPERATOR else Actor_SYSTEM) corr_id changes
                              (Some (rc_state c)) (Some (rc_state c))
                              (Some (if truthy actor_id then or_empty actor_id
                                     else ''system.case_service'')) now (put_case c' s)
                   in ebind (commit s1) (\<lambda>t. Inr (c', t)))))"

section \<open>Lemmas\<close>

lemma clean_updates_restricted: "k \<in> set restricted_keys \<Longrightarrow> k \<notin> fst ` set (clean_updates m)"
  by (auto simp: clean_updates_def)

lemma update_fields_keeps:
  assumes "update_fields c dto = (c', ch)"
  shows "rc_id c' = rc_id c" "rc_customer_id c' = rc_customer_id c" "rc_state c' = rc_state c"
    "rc_trigger_transaction_id c' = rc_trigger_transaction_id c" "rc_case_key c' = rc_case_key c"
    "rc_version c' = rc_version c" "rc_closed_at c' = rc_closed_at c"
    "k \<in> set restricted_keys \<Longrightarrow> map_of (rc_metadata c') k = map_of (rc_metadata c) k"
  using assms dict_update_other [OF clean_updates_restricted [of k]]
  by (auto simp: update_fields_def split: option.splits if_splits)

lemma update_fields_none: "update_fields c dto = (c', []) \<Longrightarrow> c' = c"
  by (auto simp: update_fields_def split: option.splits if_splits)

text \<open>The case service refuses with a 400 every transition and every update of
  a recovered, stopped or closed case, and every transition to the state the case already has; no
  session is produced.\<close>

theorem case_service_guards_terminal:
  assumes "find_case s cid = Some c"
    and "rc_state c \<in> set service_terminal_states \<or> cd_to_state dto = rc_state c"
  shows "\<exists>e. service_transition cid dto now s = Inl (AppError e) \<and> status_code e = 400
         \<and> (rc_state c \<in> set service_terminal_states \<longrightarrow>
              (\<exists>e. update_case cid upd actor_id corr_id now s = Inl (AppError e) \<and> status_code e = 400))"
  using assms by (auto simp: service_transition_def update_case_def)

definition demo_closed :: recovery_case where
  "demo_closed = demo_row\<lparr>rc_state := Case_CLOSED\<rparr>"

lemma case_service_guards_terminal_witness:
  "\<exists>e. service_transition ''case''
          \<lparr>cd_to_state = Case_DETECTED, cd_reason_code = ''r'', cd_actor_type = Actor_OPERATOR,
           cd_correlation_id = ''x'', cd_metadata = []\<rparr> (Aware 0)
          (empty_session\<lparr>cases := [demo_closed]\<rparr>) = Inl (AppError e) \<and> status_code e = 400"
proof -
  have f: "find_case (empty_session\<lparr>cases := [demo_closed]\<rparr>) ''case'' = Some demo_closed"
    by code_simp
  have "rc_state demo_closed \<in> set service_terminal_states" by code_simp
  with case_service_guards_terminal [OF f] show ?thesis by blast
qed

text \<open>An update that returns never changes the case's identity, owner,
  trigger transaction, key or state, nor any protected key of its metadata; it adds one to the
  version exactly when it recorded a change, and what it returns is what is stored.\<close>

theorem update_preserves_identity:
  assumes "update_case cid dto actor_id corr_id now s = Inr (c', t)" and "session_ok s"
  shows "\<exists>c. find_case s cid = Some c \<and> find_case t cid = Some c' \<and> session_ok t
           \<and> rc_id c' = rc_id c \<and> rc_customer_id c' = rc_customer_id c
           \<and> rc_trigger_transaction_id c' = rc_trigger_transaction_id c
           \<and> rc_case_key c' = rc_case_key c \<and> rc_state c' = rc_state c
           \<and> (\<forall>k \<in> set restricted_keys. map_of (rc_metadata c') k = map_of (rc_metadata c) k)
           \<and> (rc_version c' = rc_version c + 1 \<and> length (audit_rows t) = length (audit_rows s) + 1
              \<or> c' = c \<and> t = s)"
proof -
  obtain c where c: "find_case s cid = Some c" and nt: "rc_state c \<notin> set service_terminal_states"
    using assms(1) by (auto simp: update_case_def split: option.splits if_splits)
  have id: "rc_id c = cid" by (rule find_case_id [OF c])
  obtain c1 changes where u: "update_fields c dto = (c1, changes)" by fastforce
  note k = update_fields_keeps [OF u]
  show ?thesis
  proof (cases "changes = []")
    case True
    with u have "c1 = c" by (simp add: update_fields_none)
    with assms c nt u True show ?thesis by (auto simp: update_case_def)
  next
    case False
    let ?c = "c1\<lparr>rc_last_state_changed_at := now, rc_version := rc_version c1 + 1\<rparr>"
    define s1 where "s1 = audit_record (rc_id c) ''CASE_UPDATED''
        (if truthy actor_id then Actor_OPERATOR else Actor_SYSTEM) corr_id changes
        (Some (rc_state c)) (Some (rc_state c))
        (Some (if truthy actor_id then or_empty actor_id else ''system.case_service'')) now
        (put_case ?c s)"
    have "update_case cid dto actor_id corr_id now s = ebind (commit s1) (\<lambda>t. Inr (?c, t))"
      using c nt u False by (simp add: update_case_def s1_def Let_def)
    with assms(1) have c': "c' = ?c" and t: "t = flushed s1" "violated s1 = None"
      by (auto simp: err_simps)
    have "find_case t cid = Some ?c"
      using find_case_put_same [of s ?c] c id k by (simp add: t s1_def)
    moreover have "length (audit_rows t) = length (audit_rows s) + 1"
      using assms(2) by (simp add: t s1_def session_write_defs session_ok_def)
    ultimately show ?thesis using c c' k t session_ok_flushed [OF t(2)] by auto
  qed
qed

definition demo_update :: case_update_dto where
  "demo_update =
     \<lparr>cp_priority = Some 7, cp_metadata = Some [(''amount_minor'', JInt 1), (''note'', JStr ''x'')]\<rparr>"

lemma update_preserves_identity_witness:
  "\<exists>c' t. update_case ''case'' demo_update None ''u'' (Aware 1) (empty_session\<lparr>cases := [demo_row]\<rparr>)
            = Inr (c', t) \<and> map_of (rc_metadata c') ''amount_minor'' = None"
proof -
  let ?s = "empty_session\<lparr>cases := [demo_row]\<rparr>"
  have "is_ok (update_case ''case'' demo_update None ''u'' (Aware 1) ?s)" by code_simp
  then obtain c' t where run: "update_case ''case'' demo_update None ''u'' (Aware 1) ?s = Inr (c', t)"
    by auto
  have ok: "session_ok ?s" and f: "find_case ?s ''case'' = Some demo_row"
    unfolding session_ok_def by code_simp+
  have "map_of (rc_metadata demo_row) ''amount_minor'' = None" "''amount_minor'' \<in> set restricted_keys"
    by code_simp+
  with update_preserves_identity [OF run ok] f have "map_of (rc_metadata c') ''amount_minor'' = None"
    by fastforce
  with run show ?thesis by blast
qed

text \<open>
  Opening a case writes audit record 1 and no history row, so the history's next number is 1 and
  the transition service's audit row collides with it.
\<close>

lemma create_case_Inr:
  assumes "create_case dto new_id key_id corr_id now s = Inr (c, t)" and "session_ok s"
  shows "c = case_to_entity dto new_id key_id now" and "session_ok t"
    and "cases t = cases s @ [c]" and "transition_rows t = transition_rows s"
    and "\<exists>a. audit_rows t = audit_rows s @ [a] \<and> ae_case_id a = new_id
             \<and> ae_sequence_number a = next_audit_seq s new_id"
  using assms
  by (auto simp: create_case_def Let_def err_simps session_ok_flushed session_write_defs seq_defs
      session_ok_def [of s] case_to_entity_def split: if_splits)

text \<open>A case that the case service has just opened (its id is new, so it
  has neither audit nor history rows) cannot be moved by the transition service: every move the
  table allows from DETECTED raises an IntegrityError on the audit log, because the opening audit
  record took number 1 and the service numbers its audit row by the empty history.\<close>

theorem opened_case_cannot_transition:
  assumes "create_case dto new_id key_id corr_id now s = Inr (c, t)" and "session_ok s"
    and "new_id \<notin> rc_id ` set (cases s)" and "audit_seqs s new_id = []"
    and "transition_seqs s new_id = []" and "st \<in> {Case_CONTEXT_READY, Case_ESCALATED, Case_STOPPED}"
  shows "transition_case c st reason actor aid corr corr_id' now' t =
           Inl (IntegrityError ''uq_audit_case_sequence'')"
proof -
  note k = create_case_Inr [OF assms(1,2)]
  have id: "rc_id c = new_id" and d: "rc_state c = Case_DETECTED" by (simp_all add: k(1) case_to_entity_def)
  have f: "find_case t (rc_id c) = Some c"
  proof -
    have "\<forall>x \<in> set (cases s). rc_id x \<noteq> rc_id c" using assms(3) unfolding id by (metis image_eqI)
    then show ?thesis unfolding find_case_def k(3) by (intro find_snoc) (simp_all add: find_None_iff)
  qed
  have "transition_seqs t new_id = []" using assms(5) k(4) by (simp add: transition_seqs_def)
  then have n: "next_transition_seq t (rc_id c) = 1" by (simp add: next_transition_seq_def id)
  from k(5) assms(4) have "audit_seqs t new_id = [1]"
    by (auto simp: audit_seqs_def next_audit_seq_def)
  then have clash: "next_transition_seq t (rc_id c) \<in> set (audit_seqs t (rc_id c))"
    unfolding n by (simp add: id)
  have "st \<in> set (allowed_transitions (rc_state c))" using assms(6) d by auto
  with clash show ?thesis
    using transition_writes_violated [OF k(2) f]
    by (simp add: transition_case_def Let_def flush_def flip: transition_writes_def)
qed

definition demo_dto :: case_create_dto where
  "demo_dto =
     \<lparr>cc_customer_id = ''cust'', cc_trigger_transaction_id = ''tx'', cc_case_key = None,
      cc_priority = 100, cc_metadata = []\<rparr>"

definition demo_base :: session where
  "demo_base = demo_session\<lparr>cases := []\<rparr>"

lemma opened_case_cannot_transition_witness:
  "\<exists>c t. create_case demo_dto ''case'' ''k'' ''u'' demo_now demo_base = Inr (c, t)
     \<and> transition_case c Case_CONTEXT_READY ''r'' Actor_SYSTEM None None ''v'' demo_now t =
         Inl (IntegrityError ''uq_audit_case_sequence'')"
proof -
  have "is_ok (create_case demo_dto ''case'' ''k'' ''u'' demo_now demo_base)" by code_simp
  then obtain c t where run: "create_case demo_dto ''case'' ''k'' ''u'' demo_now demo_base = Inr (c, t)"
    by auto
  have "session_ok demo_base" unfolding session_ok_def by code_simp
  moreover have "''case'' \<notin> rc_id ` set (cases demo_base)" by (simp add: demo_base_def)
  moreover have "audit_seqs demo_base ''case'' = []" "transition_seqs demo_base ''case'' = []"
    by code_simp+
  ultimately show ?thesis using opened_case_cannot_transition [OF run] run by blast
qed

end
