(* ===== verification/Intelligence.thy ===== *)
theory Intelligence
  imports Strategy_Catalog
begin

text \<open>
  The deterministic decision pipeline of \<open>backend/app/services/intelligence\<close>: \<open>FailureAnalyzer\<close>
  (failure_analyzer.py), \<open>RiskAssessor\<close> (risk_assessor.py), the estimator interface
  \<open>RecoveryEstimatorAdapter\<close> (model_adapter.py) with \<open>LogisticRecoveryEstimator\<close>
  (probability_estimator.py), and \<open>StrategySelector\<close> (strategy_selector.py).

  A \<open>Decimal\<close> is a rational number; the amounts are small enough for the 28 digits of the decimal
  context (below 10^24 minor units). The success rate of a customer is a float, hence a rational.
  The estimator adds float coefficients and takes the logistic function of the sum: that rounding
  arithmetic is a parameter, \<open>sigmoid4\<close>, which receives the summands as pairs of coefficient and
  factor and answers the rounded probability in ten-thousandths. What the source does with the
  answer, the clamping, is the model's. The reasons of a risk or a candidate are kept as data; the
  sentences printed from them are not.
\<close>

section \<open>Failure analysis\<close>

record failure_analysis =
  fa_category :: string
  fa_retryable :: bool
  fa_confidence :: rat
  fa_evidence :: "string list"
  fa_raw_code :: "string option"

record failure_rule =
  fr_keywords :: "string list"
  fr_category :: string
  fr_retryable :: bool
  fr_confidence :: rat

definition failure_rules :: "failure_rule list" where
  "failure_rules =
     [\<lparr>fr_keywords = [''insufficient_funds'', ''insufficient'', ''balance'', ''not_enough_funds''],
       fr_category = ''insufficient_funds'', fr_retryable = True, fr_confidence = 95/100\<rparr>,
      \<lparr>fr_keywords = [''expired'', ''card_expired'', ''card_has_expired''],
       fr_category = ''expired_card'', fr_retryable = False, fr_confidence = 95/100\<rparr>,
      \<lparr>fr_keywords = [''authentication_required'', ''3ds'', ''3d_secure'', ''auth_required'', ''challenge_required''],
       fr_category = ''authentication_required'', fr_retryable = True, fr_confidence = 90/100\<rparr>,
      \<lparr>fr_keywords = [''fraud'', ''fraudulent'', ''risk_blocked'', ''stolen_card'', ''lost_card''],
       fr_category = ''fraud_suspected'', fr_retryable = False, fr_confidence = 98/100\<rparr>,
      \<lparr>fr_keywords = [''timeout'', ''timed_out'', ''network'', ''gateway_error'', ''processing_error''],
       fr_category = ''provider_timeout'', fr_retryable = True, fr_confidence = 85/100\<rparr>,
      \<lparr>fr_keywords = [''do_not_honor'', ''card_declined'', ''generic_decline'', ''issuer_declined''],
       fr_category = ''bank_decline'', fr_retryable = True, fr_confidence = 85/100\<rparr>,
      \<lparr>fr_keywords = [''invalid_number'', ''invalid_cvc'', ''invalid_expiry'', ''invalid_account''],
       fr_category = ''invalid_payment_details'', fr_retryable = False, fr_confidence = 95/100\<rparr>]"

text \<open>\<open>(x or "").strip()\<close> in lower or upper case.\<close>

definition clean_lower :: "string option \<Rightarrow> string" where
  "clean_lower x = py_lower (py_strip (or_empty x))"

definition clean_upper :: "string option \<Rightarrow> string" where
  "clean_upper x = py_upper (py_strip (or_empty x))"

definition matching_rule :: "string \<Rightarrow> failure_rule option" where
  "matching_rule text = find (\<lambda>r. \<exists>kw \<in> set (fr_keywords r). contains kw text) failure_rules"

text \<open>
  \<open>analyze\<close>; the caller's \<open>failure_code\<close> or \<open>code\<close> is the first argument, its \<open>failure_message\<close> or
  \<open>message\<close> the second.
\<close>

definition analyze :: "string option \<Rightarrow> string option \<Rightarrow> string option \<Rightarrow> failure_analysis" where
  "analyze code message event_type =
     (let event = clean_upper event_type;
          combined = clean_lower code @ '' '' @ clean_lower message;
          evidence = (if truthy code then [''Gateway failure code: '' @ or_empty code] else [])
            @ (if truthy message then [''Gateway message: '' @ or_empty message] else [])
      in if event = ''CHECKOUT_ABANDONED''
         then \<lparr>fa_category = ''abandoned_checkout'', fa_retryable = False, fa_confidence = 95/100,
               fa_evidence = [''Source event type: CHECKOUT_ABANDONED''], fa_raw_code = code\<rparr>
         else if event = ''INVOICE_OVERDUE''
         then \<lparr>fa_category = ''overdue_invoice'', fa_retryable = False, fa_confidence = 95/100,
               fa_evidence = [''Source event type: INVOICE_OVERDUE''], fa_raw_code = code\<rparr>
         else case matching_rule combined of
                Some r \<Rightarrow>
                  \<lparr>fa_category = fr_category r, fa_retryable = fr_retryable r,
                   fa_confidence = fr_confidence r, fa_evidence = evidence, fa_raw_code = code\<rparr>
              | None \<Rightarrow>
                  \<lparr>fa_category = ''unknown_failure'', fa_retryable = False, fa_confidence = 1/2,
                   fa_evidence = evidence @ [''No recognized diagnostic code provided by gateway.''],
                   fa_raw_code = code\<rparr>)"

section \<open>Risk assessment\<close>

datatype risk_signal =
    Fraud_signal
  | Repeated_attempts int
  | Elevated_attempts int
  | Unusual_velocity
  | Customer_restricted
  | Major_exposure int
  | High_value int
  | Subscriber_churn
  | No_signal

datatype risk_band = Band_high | Band_medium | Band_low

primrec risk_band_value :: "risk_band \<Rightarrow> string" where
  "risk_band_value Band_high = ''high''"
| "risk_band_value Band_medium = ''medium''"
| "risk_band_value Band_low = ''low''"

datatype action_limit = Limit_block | Limit_human_approval | Limit_automatic

record risk_assessment =
  ra_score :: int
  ra_band :: risk_band
  ra_reasons :: "risk_signal list"
  ra_action_limit :: action_limit

text \<open>Each numbered signal of \<open>assess\<close> with the points it adds.\<close>

definition risk_signals :: "string \<Rightarrow> int \<Rightarrow> int \<Rightarrow> bool \<Rightarrow> bool \<Rightarrow> bool \<Rightarrow> (int \<times> risk_signal) list" where
  "risk_signals category amount prior velocity restricted subscription =
     (if category \<in> {''fraud_suspected'', ''risk_blocked''} then [(60, Fraud_signal)] else [])
     @ (if prior \<ge> 4 then [(35, Repeated_attempts prior)]
        else if prior \<ge> 2 then [(20, Elevated_attempts prior)] else [])
     @ (if velocity then [(25, Unusual_velocity)] else [])
     @ (if restricted then [(35, Customer_restricted)] else [])
     @ (if amount \<ge> 500000 then [(20, Major_exposure amount)]
        else if amount \<ge> 100000 then [(10, High_value amount)] else [])
     @ (if subscription \<and> category = ''expired_card'' then [(15, Subscriber_churn)] else [])"

definition band_of :: "int \<Rightarrow> risk_band \<times> action_limit" where
  "band_of score =
     (if score \<ge> 70 then (Band_high, Limit_block)
      else if score \<ge> 30 then (Band_medium, Limit_human_approval)
      else (Band_low, Limit_automatic))"

definition assess :: "string \<Rightarrow> int \<Rightarrow> int \<Rightarrow> bool \<Rightarrow> bool \<Rightarrow> bool \<Rightarrow> risk_assessment" where
  "assess category amount prior velocity restricted subscription =
     (let sigs = risk_signals category amount prior velocity restricted subscription;
          score = min (sum_list (map fst sigs)) 100
      in \<lparr>ra_score = score, ra_band = fst (band_of score),
          ra_reasons = (if sigs = [] then [No_signal] else map snd sigs),
          ra_action_limit = snd (band_of score)\<rparr>)"

section \<open>The estimator\<close>

record estimator_query =
  eq_action :: action_type
  eq_category :: string
  eq_retryable :: bool
  eq_amount :: int
  eq_prior :: int
  eq_success_rate :: rat
  eq_alternate :: bool
  eq_risk_score :: int

text \<open>The summands of \<open>z\<close> in the order they are added.\<close>

definition logistic_terms :: "estimator_query \<Rightarrow> (rat \<times> rat) list" where
  "logistic_terms q =
     [(- 65/100, 1)]
     @ (if eq_prior q \<le> 1 then [(42/100, 1)] else [(- 25/100, of_int (min (eq_prior q) 4))])
     @ [(55/100, max 0 (min 1 (eq_success_rate q)) - 1/2)]
     @ (if eq_action q = Act_SEND_REMINDER \<and> eq_alternate q then [(25/100, 1)] else [])
     @ (if eq_action q = Act_RETRY_PAYMENT \<and> eq_retryable q then [(45/100, 1)] else [])
     @ (if eq_action q = Act_REQUEST_OPERATOR_REVIEW then [(10/100, 1)] else [])
     @ (if eq_action q = Act_STOP then [(- 45/100, 1)] else [])
     @ (if eq_risk_score q \<ge> 70 then [(- 120/100, 1)] else [])"

definition estimate_recovery_probability :: "((rat \<times> rat) list \<Rightarrow> int) \<Rightarrow> estimator_query \<Rightarrow> rat" where
  "estimate_recovery_probability sigmoid4 q =
     of_int (max 100 (min 9900 (sigmoid4 (logistic_terms q)))) / 10000"

section \<open>Strategy selection\<close>

text \<open>\<open>quantize\<close> to an integer with ROUND_HALF_UP, and to four digits in the default rounding.\<close>

definition round_half_up :: "rat \<Rightarrow> int" where
  "round_half_up x = (if x \<ge> 0 then \<lfloor>x + 1/2\<rfloor> else - \<lfloor>- x + 1/2\<rfloor>)"

definition round_half_even :: "rat \<Rightarrow> int" where
  "round_half_even x =
     (let n = \<lfloor>x\<rfloor>; d = x - of_int n
      in if d < 1/2 then n else if d > 1/2 then n + 1 else if even n then n else n + 1)"

definition quantize4 :: "rat \<Rightarrow> rat" where
  "quantize4 x = of_int (round_half_even (x * 10000)) / 10000"

datatype candidate_note =
    Not_retryable
  | High_risk_blocks_retry
  | Retry_quota_exceeded
  | Card_update_not_required
  | Flagged_for_review
  | Probability_note rat
  | Cost_note int
  | Terminal_note

record candidate =
  cd_strategy :: recovery_strategy
  cd_action :: action_type
  cd_probability :: rat
  cd_recovery_value :: int
  cd_cost :: int
  cd_expected_value :: int
  cd_permitted :: bool
  cd_reasons :: "candidate_note list"

record selection =
  sl_strategy :: recovery_strategy
  sl_action :: action_type
  sl_confidence :: rat
  sl_expected_value :: int
  sl_candidates :: "candidate list"

text \<open>
  The precondition block of the loop: what forbids the strategy, and what is only remarked. The
  remarks of the other strategies leave it permitted.
\<close>

definition retry_objections :: "failure_analysis \<Rightarrow> risk_assessment \<Rightarrow> int \<Rightarrow> candidate_note list" where
  "retry_objections f r prior =
     (if fa_retryable f then [] else [Not_retryable])
     @ (if ra_band r = Band_high then [High_risk_blocks_retry] else [])
     @ (if prior \<ge> 4 then [Retry_quota_exceeded] else [])"

definition remarks :: "recovery_strategy \<Rightarrow> failure_analysis \<Rightarrow> risk_assessment \<Rightarrow> candidate_note list" where
  "remarks st f r =
     (if st = UPDATE_PAYMENT_METHOD
         \<and> fa_category f \<notin> {''expired_card'', ''invalid_payment_details'', ''bank_decline''}
      then [Card_update_not_required]
      else if st = MANUAL_REVIEW
         \<and> (ra_band r = Band_high \<or> fa_category f \<in> {''fraud_suspected'', ''unknown_failure''})
      then [Flagged_for_review]
      else [])"

definition candidate_of ::
  "(estimator_query \<Rightarrow> rat) \<Rightarrow> int \<Rightarrow> failure_analysis \<Rightarrow> risk_assessment \<Rightarrow> int \<Rightarrow> rat \<Rightarrow> bool
     \<Rightarrow> strategy_definition \<Rightarrow> candidate" where
  "candidate_of estimate amount f r prior rate alternate spec =
     (let prob = estimate
            \<lparr>eq_action = sd_action_type spec, eq_category = fa_category f, eq_retryable = fa_retryable f,
             eq_amount = amount, eq_prior = prior, eq_success_rate = rate, eq_alternate = alternate,
             eq_risk_score = ra_score r\<rparr>;
          objections = (if sd_strategy spec = RETRY_LATER then retry_objections f r prior else []);
          value = round_half_up (of_int amount * prob);
          cost = sd_cost_minor spec
      in \<lparr>cd_strategy = sd_strategy spec, cd_action = sd_action_type spec, cd_probability = prob,
          cd_recovery_value = value, cd_cost = cost, cd_expected_value = value - cost,
          cd_permitted = (objections = []),
          cd_reasons = objections @ remarks (sd_strategy spec) f r @ [Probability_note prob, Cost_note cost]\<rparr>)"

definition no_action_candidate :: candidate where
  "no_action_candidate =
     \<lparr>cd_strategy = NO_ACTION, cd_action = Act_STOP, cd_probability = 0, cd_recovery_value = 0,
      cd_cost = 0, cd_expected_value = 0, cd_permitted = True, cd_reasons = [Terminal_note]\<rparr>"

text \<open>The permitted candidates, narrowed to the safe ones under a high risk when there are any.\<close>

definition shortlist :: "risk_assessment \<Rightarrow> candidate list \<Rightarrow> candidate list" where
  "shortlist r cs =
     (let permitted = filter cd_permitted cs;
          safe = filter (\<lambda>c. cd_strategy c \<in> {MANUAL_REVIEW, NO_ACTION}) permitted
      in if ra_band r = Band_high \<and> safe \<noteq> [] then safe else permitted)"

text \<open>
  \<open>sort(reverse=True)\<close> is stable: of equal values the earlier one stays first. \<open>next\<close> without a
  match raises \<open>StopIteration\<close>; NO_ACTION is always a candidate.
\<close>

definition pick :: "risk_assessment \<Rightarrow> candidate list \<Rightarrow> candidate option" where
  "pick r cs =
     (case sort_key (\<lambda>c. - cd_expected_value c) (shortlist r cs) of
        c # _ \<Rightarrow> Some c
      | [] \<Rightarrow> find (\<lambda>c. cd_strategy c = NO_ACTION) cs)"

definition select_strategy ::
  "(estimator_query \<Rightarrow> rat) \<Rightarrow> int \<Rightarrow> failure_analysis option \<Rightarrow> risk_assessment option \<Rightarrow> int \<Rightarrow> rat
     \<Rightarrow> bool \<Rightarrow> bool \<Rightarrow> py_error + selection" where
  "select_strategy estimate amount failure risk prior rate alternate terminal =
     (case (failure, risk) of
        (None, _) \<Rightarrow> Inl (ValueError ''FailureAnalysisResult is required'')
      | (Some _, None) \<Rightarrow> Inl (ValueError ''RiskAssessmentResult is required'')
      | (Some f, Some r) \<Rightarrow>
          if terminal
          then Inr \<lparr>sl_strategy = NO_ACTION, sl_action = Act_STOP, sl_confidence = 1,
                    sl_expected_value = 0, sl_candidates = [no_action_candidate]\<rparr>
          else
            (let cs = map (candidate_of estimate amount f r prior rate alternate) all_strategies
             in case pick r cs of
                  None \<Rightarrow> Inl (ValueError ''StopIteration'')
                | Some w \<Rightarrow>
                    Inr \<lparr>sl_strategy = cd_strategy w, sl_action = cd_action w,
                         sl_confidence = quantize4 (min (fa_confidence f) (max (cd_probability w) (1/2))),
                         sl_expected_value = cd_expected_value w, sl_candidates = cs\<rparr>))"

section \<open>The estimator interface\<close>

text \<open>What \<open>RecoveryEstimatorAdapter\<close> promises of every estimate, and what the selection gains by it.\<close>

locale recovery_estimator =
  fixes estimate :: "estimator_query \<Rightarrow> rat"
  assumes estimate_lower: "1/100 \<le> estimate q"
    and estimate_upper: "estimate q \<le> 99/100"
begin

lemma estimate_pos: "0 < estimate q"
  using estimate_lower [of q] by simp

lemma value_bounds:
  assumes "0 \<le> amount"
  shows "0 \<le> cd_recovery_value (candidate_of estimate amount f r prior rate alternate spec)"
    "cd_recovery_value (candidate_of estimate amount f r prior rate alternate spec) \<le> amount"
proof -
  let ?p = "cd_probability (candidate_of estimate amount f r prior rate alternate spec)"
  have p: "0 \<le> ?p" "?p \<le> 1"
    using estimate_lower estimate_upper
    by (auto simp: candidate_of_def Let_def intro: order_trans [of _ "1/100"] order_trans [of _ "99/100"])
  have v: "cd_recovery_value (candidate_of estimate amount f r prior rate alternate spec)
      = \<lfloor>of_int amount * ?p + 1/2\<rfloor>"
    using assms p by (simp add: candidate_of_def Let_def round_half_up_def)
  have "0 \<le> of_int amount * ?p" using assms p(1) by simp
  then have "0 \<le> of_int amount * ?p + 1/2" by linarith
  then show "0 \<le> cd_recovery_value (candidate_of estimate amount f r prior rate alternate spec)"
    using v by simp
  have "of_int amount * ?p \<le> of_int amount" using assms p by (intro mult_left_le) simp_all
  then have "of_int amount * ?p + 1/2 < of_int amount + 1" by linarith
  then show "cd_recovery_value (candidate_of estimate amount f r prior rate alternate spec) \<le> amount"
    using v by (simp add: floor_le_iff)
qed

end

text \<open>The clamp of the logistic estimator keeps the promise, whatever the floats answer.\<close>

interpretation logistic: recovery_estimator "estimate_recovery_probability sigmoid4" for sigmoid4
proof
  fix q
  show "1/100 \<le> estimate_recovery_probability sigmoid4 q"
    "estimate_recovery_probability sigmoid4 q \<le> 99/100"
    by (simp_all add: estimate_recovery_probability_def field_simps)
qed

section \<open>What is selected\<close>

definition eligible :: "risk_assessment \<Rightarrow> candidate \<Rightarrow> bool" where
  "eligible r c \<longleftrightarrow>
     cd_permitted c \<and> (ra_band r = Band_high \<longrightarrow> cd_strategy c \<in> {MANUAL_REVIEW, NO_ACTION})"

lemma candidate_of_simps [simp]:
  "cd_strategy (candidate_of est amount f r prior rate alternate spec) = sd_strategy spec"
  "cd_action (candidate_of est amount f r prior rate alternate spec) = sd_action_type spec"
  "cd_cost (candidate_of est amount f r prior rate alternate spec) = sd_cost_minor spec"
  "cd_permitted (candidate_of est amount f r prior rate alternate spec) \<longleftrightarrow>
     (sd_strategy spec = RETRY_LATER \<longrightarrow> fa_retryable f \<and> ra_band r \<noteq> Band_high \<and> prior < 4)"
  "cd_expected_value (candidate_of est amount f r prior rate alternate spec) =
     cd_recovery_value (candidate_of est amount f r prior rate alternate spec) - sd_cost_minor spec"
  by (auto simp: candidate_of_def Let_def retry_objections_def)

lemma shortlist_eligible:
  assumes "c \<in> set cs" and "cd_strategy c = NO_ACTION" and "cd_permitted c"
  shows "shortlist r cs = filter (eligible r) cs"
proof (cases "ra_band r = Band_high")
  case True
  have "c \<in> set (filter (\<lambda>c. cd_strategy c \<in> {MANUAL_REVIEW, NO_ACTION}) (filter cd_permitted cs))"
    using assms by simp
  then have "filter (\<lambda>c. cd_strategy c \<in> {MANUAL_REVIEW, NO_ACTION}) (filter cd_permitted cs) \<noteq> []"
    by (metis length_pos_if_in_set less_numeral_extra(3) list.size(3))
  with True show ?thesis
    by (simp add: shortlist_def Let_def eligible_def [abs_def] conj_commute)
next
  case False
  then show ?thesis by (simp add: shortlist_def Let_def eligible_def [abs_def])
qed

text \<open>The head of a stable descending sort is the first element of greatest value.\<close>

lemma hd_stable_sort:
  assumes "xs \<noteq> []"
  obtains ys zs where "xs = ys @ hd (sort_key k xs) # zs" "\<forall>y \<in> set ys. k (hd (sort_key k xs)) < k y"
    "\<forall>z \<in> set zs. k (hd (sort_key k xs)) \<le> k z"
proof -
  have "\<exists>ys zs. xs = ys @ hd (sort_key k xs) # zs \<and> (\<forall>y \<in> set ys. k (hd (sort_key k xs)) < k y)
      \<and> (\<forall>z \<in> set zs. k (hd (sort_key k xs)) \<le> k z)"
    using assms
  proof (induction xs)
    case (Cons x xs)
    show ?case
    proof (cases "sort_key k xs")
      case Nil
      then have "xs = []" by (metis length_0_conv length_sort)
      then show ?thesis by (intro exI [of _ "[]"]) simp
    next
      case (Cons m ms)
      then have "xs \<noteq> []" by auto
      with Cons.IH obtain ys zs where split: "xs = ys @ m # zs" "\<forall>y \<in> set ys. k m < k y"
        "\<forall>z \<in> set zs. k m \<le> k z" using Cons by auto
      show ?thesis
      proof (cases "k x \<le> k m")
        case True
        then have "hd (sort_key k (x # xs)) = x" using Cons by simp
        moreover have "\<forall>z \<in> set xs. k x \<le> k z" using True split by fastforce
        ultimately show ?thesis by (intro exI [of _ "[]"] exI [of _ xs]) simp
      next
        case False
        then have "hd (sort_key k (x # xs)) = m" using Cons by simp
        then show ?thesis using False split
          by (intro exI [of _ "x # ys"] exI [of _ zs]) simp
      qed
    qed
  qed simp
  then show thesis using that by blast
qed

lemma filter_split_at:
  "filter P xs = as @ w # bs \<Longrightarrow> \<exists>ys zs. xs = ys @ w # zs \<and> filter P ys = as \<and> P w"
proof (induction xs arbitrary: as)
  case (Cons x xs)
  show ?case
  proof (cases "P x \<and> as = []")
    case True
    then have "x = w" using Cons.prems by simp
    with True show ?thesis by (intro exI [of _ "[]"] exI [of _ xs]) simp
  next
    case False
    then have "filter P xs = (if P x then tl as else as) @ w # bs"
      using Cons.prems by (cases as) (auto split: if_splits)
    from Cons.IH [OF this] obtain ys zs where
      "xs = ys @ w # zs" "filter P ys = (if P x then tl as else as)" "P w" by blast
    then show ?thesis using False Cons.prems
      by (intro exI [of _ "x # ys"] exI [of _ zs]) (cases as; auto)
  qed
qed simp

lemma pick_best:
  assumes "c0 \<in> set cs" and "cd_strategy c0 = NO_ACTION" and "cd_permitted c0"
  obtains w ys zs where "pick r cs = Some w" "cs = ys @ w # zs" "eligible r w"
    "\<forall>c \<in> set ys. eligible r c \<longrightarrow> cd_expected_value c < cd_expected_value w"
    "\<forall>c \<in> set cs. eligible r c \<longrightarrow> cd_expected_value c \<le> cd_expected_value w"
proof -
  let ?k = "\<lambda>c. - cd_expected_value c"
  let ?xs = "filter (eligible r) cs"
  let ?w = "hd (sort_key ?k ?xs)"
  note sl = shortlist_eligible [OF assms]
  have "eligible r c0" using assms by (simp add: eligible_def)
  then have ne: "?xs \<noteq> []" using assms(1) by (auto simp: filter_empty_conv)
  from hd_stable_sort [OF ne, of ?k] obtain as bs where
    split: "?xs = as @ ?w # bs" and as: "\<forall>y \<in> set as. ?k ?w < ?k y" and bs: "\<forall>z \<in> set bs. ?k ?w \<le> ?k z" .
  from split obtain ys zs where cs: "cs = ys @ ?w # zs" "filter (eligible r) ys = as" "eligible r ?w"
    using filter_split_at [OF split] by blast
  have "sort_key ?k ?xs \<noteq> []" using ne by (metis length_0_conv length_sort)
  then have "pick r cs = Some ?w" by (cases "sort_key ?k ?xs") (simp_all add: pick_def sl)
  moreover have "\<forall>c \<in> set ys. eligible r c \<longrightarrow> cd_expected_value c < cd_expected_value ?w"
    using as cs(2) by auto
  moreover have "\<forall>c \<in> set cs. eligible r c \<longrightarrow> cd_expected_value c \<le> cd_expected_value ?w"
  proof (intro ballI impI)
    fix c
    assume "c \<in> set cs" "eligible r c"
    then have "c \<in> set ?xs" by simp
    then have "c \<in> set (as @ ?w # bs)" using arg_cong [OF split, of set] by blast
    then show "cd_expected_value c \<le> cd_expected_value ?w" using as bs by auto
  qed
  ultimately show thesis using cs(1,3) that by blast
qed

lemma no_action_listed: "catalog NO_ACTION \<in> set all_strategies"
  unfolding all_strategies_def set_map by (rule imageI) (simp add: recovery_strategy_members_def)

lemma only_retry_pays:
  assumes "spec \<in> set all_strategies" and "sd_action_type spec = Act_RETRY_PAYMENT"
  shows "sd_strategy spec = RETRY_LATER"
proof -
  from assms(1) obtain s where "spec = catalog s" unfolding all_strategies_def set_map by blast
  with assms(2) only_retry_is_payment [of s] show ?thesis
    unfolding map_to_action_def by (simp only: catalog_key)
qed

text \<open>C31: With the logistic estimator, whatever its floating-point core answers,
  an open case always gets a strategy. It is the candidate of greatest expected value among those
  the guardrails leave (under a high risk only the manual review and no action), the earliest in the
  catalogue when several are equal, and it never expects to lose money. A payment retry is selected
  only for a retryable failure, below the high risk band and below four attempts.\<close>

theorem selector_picks_best:
  assumes "0 \<le> amount"
  shows "\<exists>sel ys w zs.
    select_strategy (estimate_recovery_probability sg) amount (Some f) (Some r) prior rate alt False = Inr sel
    \<and> sl_candidates sel
        = map (candidate_of (estimate_recovery_probability sg) amount f r prior rate alt) all_strategies
    \<and> sl_candidates sel = ys @ w # zs \<and> eligible r w
    \<and> sl_strategy sel = cd_strategy w \<and> sl_action sel = cd_action w
    \<and> sl_expected_value sel = cd_expected_value w \<and> 0 \<le> cd_expected_value w
    \<and> (\<forall>c \<in> set (sl_candidates sel). eligible r c \<longrightarrow> cd_expected_value c \<le> cd_expected_value w)
    \<and> (\<forall>c \<in> set ys. eligible r c \<longrightarrow> cd_expected_value c < cd_expected_value w)
    \<and> (sl_action sel = Act_RETRY_PAYMENT \<longrightarrow> fa_retryable f \<and> ra_band r \<noteq> Band_high \<and> prior < 4)"
proof -
  let ?c = "candidate_of (estimate_recovery_probability sg) amount f r prior rate alt"
  let ?cs = "map ?c all_strategies"
  have c0: "?c (catalog NO_ACTION) \<in> set ?cs" using no_action_listed by simp
  have c0': "cd_strategy (?c (catalog NO_ACTION)) = NO_ACTION" "cd_permitted (?c (catalog NO_ACTION))" by simp_all
  from pick_best [OF c0 c0', of r] obtain w ys zs where w: "pick r ?cs = Some w" "?cs = ys @ w # zs" "eligible r w"
    "\<forall>c \<in> set ys. eligible r c \<longrightarrow> cd_expected_value c < cd_expected_value w"
    "\<forall>c \<in> set ?cs. eligible r c \<longrightarrow> cd_expected_value c \<le> cd_expected_value w" .
  have "eligible r (?c (catalog NO_ACTION))" by (simp add: eligible_def)
  with w(5) c0 have "cd_expected_value (?c (catalog NO_ACTION)) \<le> cd_expected_value w" by blast
  then have pos: "0 \<le> cd_expected_value w"
    using logistic.value_bounds(1) [OF assms, of sg f r prior rate alt "catalog NO_ACTION"] by simp
  have "w \<in> set ?cs" unfolding w(2) by simp
  then obtain spec where spec: "spec \<in> set all_strategies" "w = ?c spec" by auto
  have "cd_action w = Act_RETRY_PAYMENT \<longrightarrow> fa_retryable f \<and> ra_band r \<noteq> Band_high \<and> prior < 4"
    using w(3) spec only_retry_pays [of spec] by (simp add: eligible_def)
  with w pos show ?thesis
    by (intro exI [of _ "\<lparr>sl_strategy = cd_strategy w, sl_action = cd_action w,
          sl_confidence = quantize4 (min (fa_confidence f) (max (cd_probability w) (1/2))),
          sl_expected_value = cd_expected_value w, sl_candidates = ?cs\<rparr>"] exI [of _ ys] exI [of _ w] exI [of _ zs])
      (simp add: select_strategy_def)
qed

definition demo_sigmoid :: "(rat \<times> rat) list \<Rightarrow> int" where
  "demo_sigmoid ts = \<lfloor>(sum_list (map (\<lambda>(c, x). c * x) ts) + 1) * 5000\<rfloor>"

definition demo_failure :: failure_analysis where
  "demo_failure = analyze (Some ''insufficient_funds'') None None"

definition demo_risk :: risk_assessment where
  "demo_risk = assess (fa_category demo_failure) 49900 1 False False False"

lemma selector_picks_best_witness:
  "\<exists>sel. select_strategy (estimate_recovery_probability demo_sigmoid) 49900 (Some demo_failure)
      (Some demo_risk) 1 (1/2) True False = Inr sel
    \<and> 0 \<le> sl_expected_value sel \<and> sl_candidates sel \<noteq> []"
  using selector_picks_best [of 49900 demo_sigmoid demo_failure demo_risk 1 "1/2" True] by fastforce

section \<open>How the risk score moves\<close>

lemma sum_risk_signals:
  "sum_list (map fst (risk_signals category amount prior velocity restricted subscription)) =
     (if category \<in> {''fraud_suspected'', ''risk_blocked''} then 60 else 0)
     + (if prior \<ge> 4 then 35 else if prior \<ge> 2 then 20 else 0)
     + (if velocity then 25 else 0) + (if restricted then 35 else 0)
     + (if amount \<ge> 500000 then 20 else if amount \<ge> 100000 then 10 else 0)
     + (if subscription \<and> category = ''expired_card'' then 15 else 0)"
  by (simp add: risk_signals_def)

text \<open>The risk score is between 0 and 100 and moves only upwards: a larger amount,
  more attempts, a restricted customer or an unusual velocity never lower it, nor do they take a
  case out of the high band. A fraud signal alone is at most the medium band; it is in the high
  band as soon as there are two attempts, a restricted customer, an unusual velocity or an
  exposure of a thousand units.\<close>

theorem risk_score_is_ordered:
  assumes "amount \<le> amount'" and "prior \<le> prior'" and "velocity \<longrightarrow> velocity'"
    and "restricted \<longrightarrow> restricted'"
  shows "0 \<le> ra_score (assess category amount prior velocity restricted subscription)
    \<and> ra_score (assess category amount prior velocity restricted subscription) \<le>
        ra_score (assess category amount' prior' velocity' restricted' subscription)
    \<and> ra_score (assess category amount' prior' velocity' restricted' subscription) \<le> 100
    \<and> (ra_band (assess category amount prior velocity restricted subscription) = Band_high \<longrightarrow>
         ra_band (assess category amount' prior' velocity' restricted' subscription) = Band_high)
    \<and> (ra_band (assess ''fraud_suspected'' amount prior velocity restricted subscription) = Band_high \<longleftrightarrow>
         prior \<ge> 2 \<or> velocity \<or> restricted \<or> amount \<ge> 100000)"
proof -
  let ?s = "sum_list (map fst (risk_signals category amount prior velocity restricted subscription))"
  let ?t = "sum_list (map fst (risk_signals category amount' prior' velocity' restricted' subscription))"
  have le: "?s \<le> ?t" "0 \<le> ?s"
    unfolding sum_risk_signals using assms by auto
  have score: "ra_score (assess c a p v x y) = min (sum_list (map fst (risk_signals c a p v x y))) 100"
    "ra_band (assess c a p v x y) = Band_high \<longleftrightarrow> 70 \<le> sum_list (map fst (risk_signals c a p v x y))"
    for c a p v x y
    by (auto simp: assess_def Let_def band_of_def)
  have "70 \<le> sum_list (map fst (risk_signals ''fraud_suspected'' amount prior velocity restricted subscription))
      \<longleftrightarrow> prior \<ge> 2 \<or> velocity \<or> restricted \<or> amount \<ge> 100000"
    unfolding sum_risk_signals by auto
  with le score show ?thesis by auto
qed

lemma risk_score_is_ordered_witness:
  "ra_band (assess ''fraud_suspected'' 100 0 False True False) = Band_high
     \<and> 0 \<le> ra_score (assess ''fraud_suspected'' 100 0 False True False)"
  using risk_score_is_ordered [of 100 100 0 0 False False True True "''fraud_suspected''" False] by simp

end
