(* ===== verification/Orchestrator.thy ===== *)
theory Orchestrator
  imports Intelligence Scenario
begin

text \<open>
  \<open>IntelligenceOrchestrator\<close> of \<open>backend/app/services/intelligence/orchestrator.py\<close>: it collects the
  facts of a case, runs analysis, assessment and selection, stores the recommendation as an agent
  decision that no policy has validated yet, audits it and commits; the preview runs the same
  pipeline without the database.

  \<open>rec_env\<close> holds what a request draws and the collaborators the constructor is given: the clock,
  the new decision's uuid, the estimator with its version text, and \<open>float(...)\<close> on a stored JSON
  value. The explanation texts, and the response hash are not modelled, so the audit payload has no
  text fields. Reading recommendations back is in Recommendation_Store.
\<close>

record rec_env =
  re_now :: pydatetime
  re_decision_id :: uuid
  re_estimate :: "estimator_query \<Rightarrow> rat"
  re_model_version :: string
  re_float :: "json \<Rightarrow> py_error + rat"

record recommendation =
  rm_id :: uuid
  rm_case_id :: uuid
  rm_decision_version :: int
  rm_strategy :: recovery_strategy
  rm_action_type :: action_type
  rm_category :: string
  rm_band :: risk_band
  rm_score :: int
  rm_probability :: rat
  rm_confidence :: rat
  rm_expected_value :: int
  rm_model_version :: string
  rm_validation :: validation_status
  rm_generated_at :: pydatetime
  rm_candidates :: "candidate list"

record preview_request =
  pq_amount_minor :: int
  pq_currency :: string
  pq_failure_code :: "string option"
  pq_failure_message :: "string option"
  pq_prior_attempts :: int
  pq_success_rate :: rat
  pq_alternate_method :: bool
  pq_unusual_velocity :: bool
  pq_customer_restricted :: bool

section \<open>The facts of a case\<close>

definition recommend_terminal_states :: "case_state list" where
  "recommend_terminal_states = [Case_RECOVERED, Case_STOPPED, Case_CLOSED]"

definition is_subscription :: "recovery_case \<Rightarrow> transaction option \<Rightarrow> bool" where
  "is_subscription c t \<longleftrightarrow>
     json_truthy (json_get (rc_metadata c) ''is_subscription'')
     \<or> (case t of None \<Rightarrow> False | Some x \<Rightarrow> json_truthy (json_get (tx_metadata x) ''is_subscription''))"

definition success_rate :: "rec_env \<Rightarrow> customer option \<Rightarrow> py_error + rat" where
  "success_rate env cust =
     (case cust of
        None \<Rightarrow> Inr (1/2)
      | Some cu \<Rightarrow>
          (case map_of (cu_metadata cu) ''success_rate'' of
             None \<Rightarrow> Inr (1/2)
           | Some v \<Rightarrow> re_float env v))"

definition has_alternate_method :: "customer option \<Rightarrow> bool" where
  "has_alternate_method cust =
     (case cust of
        None \<Rightarrow> True
      | Some cu \<Rightarrow>
          (case map_of (cu_metadata cu) ''has_alternate_method'' of
             None \<Rightarrow> True
           | Some v \<Rightarrow> json_truthy v))"

definition customer_restricted :: "customer option \<Rightarrow> bool" where
  "customer_restricted cust = (case cust of None \<Rightarrow> False | Some cu \<Rightarrow> cu_status cu \<noteq> Cust_ACTIVE)"

text \<open>\<open>find_latest_by_case\<close>: the first row in descending order of the version.\<close>

definition find_latest_decision :: "session \<Rightarrow> uuid \<Rightarrow> agent_decision option" where
  "find_latest_decision s cid =
     (case sort_key (\<lambda>d. - ad_decision_version d) (filter (\<lambda>d. ad_case_id d = cid) (agent_decisions s)) of
        [] \<Rightarrow> None
      | d # _ \<Rightarrow> Some d)"

definition next_decision_version :: "session \<Rightarrow> uuid \<Rightarrow> int" where
  "next_decision_version s cid =
     (case find_latest_decision s cid of None \<Rightarrow> 1 | Some d \<Rightarrow> ad_decision_version d + 1)"

section \<open>The pipeline\<close>

record pipeline =
  pl_failure :: failure_analysis
  pl_risk :: risk_assessment
  pl_selection :: selection
  pl_winner :: candidate

definition winner_estimate :: "selection \<Rightarrow> candidate" where
  "winner_estimate sel =
     (case find (\<lambda>c. cd_strategy c = sl_strategy sel) (sl_candidates sel) of
        Some c \<Rightarrow> c
      | None \<Rightarrow> hd (sl_candidates sel))"

definition run_pipeline ::
  "(estimator_query \<Rightarrow> rat) \<Rightarrow> int \<Rightarrow> string option \<Rightarrow> string option \<Rightarrow> int \<Rightarrow> bool \<Rightarrow> bool \<Rightarrow> bool
     \<Rightarrow> bool \<Rightarrow> rat \<Rightarrow> bool \<Rightarrow> py_error + pipeline" where
  "run_pipeline estimate amount code message prior subscription velocity restricted terminal rate alternate =
     (let f = analyze code message None;
          r = assess (fa_category f) amount prior velocity restricted subscription
      in ebind (select_strategy estimate amount (Some f) (Some r) prior rate alternate terminal) (\<lambda>sel.
           Inr \<lparr>pl_failure = f, pl_risk = r, pl_selection = sel, pl_winner = winner_estimate sel\<rparr>))"

definition recommendation_of ::
  "pipeline \<Rightarrow> uuid \<Rightarrow> uuid \<Rightarrow> int \<Rightarrow> string \<Rightarrow> pydatetime \<Rightarrow> recommendation" where
  "recommendation_of p rid cid version model now =
     \<lparr>rm_id = rid, rm_case_id = cid, rm_decision_version = version,
      rm_strategy = sl_strategy (pl_selection p), rm_action_type = sl_action (pl_selection p),
      rm_category = fa_category (pl_failure p), rm_band = ra_band (pl_risk p),
      rm_score = ra_score (pl_risk p), rm_probability = cd_probability (pl_winner p),
      rm_confidence = sl_confidence (pl_selection p),
      rm_expected_value = cd_expected_value (pl_winner p), rm_model_version = model,
      rm_validation = Val_NOT_VALIDATED, rm_generated_at = now,
      rm_candidates = sl_candidates (pl_selection p)\<rparr>"

text \<open>\<open>str\<close> of a decimal with four digits, and the audited payload.\<close>

definition decimal4 :: "rat \<Rightarrow> string" where
  "decimal4 x =
     (let n = round_half_even (x * 10000); frac = str_of_int (n mod 10000)
      in str_of_int (n div 10000) @ ''.'' @ replicate (4 - length frac) (CHR ''0'') @ frac)"

definition candidate_json :: "candidate \<Rightarrow> json" where
  "candidate_json c =
     JObj [(''strategy'', JStr (recovery_strategy_value (cd_strategy c))),
           (''action_type'', JStr (action_type_value (cd_action c))),
           (''probability'', JStr (decimal4 (cd_probability c))),
           (''recovery_value_minor'', JInt (cd_recovery_value c)),
           (''cost_minor'', JInt (cd_cost c)),
           (''expected_value_minor'', JInt (cd_expected_value c)),
           (''permitted'', JBool (cd_permitted c))]"

definition recommendation_payload :: "recommendation \<Rightarrow> payload" where
  "recommendation_payload r =
     [(''recommendation_id'', JStr (rm_id r)), (''decision_version'', JInt (rm_decision_version r)),
      (''recommended_strategy'', JStr (recovery_strategy_value (rm_strategy r))),
      (''action_type'', JStr (action_type_value (rm_action_type r))),
      (''failure_category'', JStr (rm_category r)), (''risk_band'', JStr (risk_band_value (rm_band r))),
      (''risk_score'', JInt (rm_score r)), (''recovery_probability'', JStr (decimal4 (rm_probability r))),
      (''confidence'', JStr (decimal4 (rm_confidence r))),
      (''expected_value_minor'', JInt (rm_expected_value r)), (''model_version'', JStr (rm_model_version r)),
      (''validation_status'', JStr (validation_status_value (rm_validation r))),
      (''candidate_strategies'', JList (map candidate_json (rm_candidates r)))]"

definition recommended_decision :: "recommendation \<Rightarrow> agent_decision" where
  "recommended_decision r =
     \<lparr>ad_id = rm_id r, ad_case_id = rm_case_id r, ad_attempt_id = None,
      ad_decision_version = rm_decision_version r, ad_action_type = rm_action_type r,
      ad_reason_code = rm_category r @ '':'' @ py_lower (recovery_strategy_value (rm_strategy r)),
      ad_confidence = Some (rm_confidence r), ad_validation_status = Val_NOT_VALIDATED\<rparr>"

section \<open>The requests\<close>

text \<open>Step 7: a detected case moves on, with a history row and a second audit row.\<close>

definition awaiting_case :: "recovery_case \<Rightarrow> pydatetime \<Rightarrow> recovery_case" where
  "awaiting_case c now =
     c\<lparr>rc_state := Case_AWAITING_DECISION, rc_last_state_changed_at := now, rc_version := rc_version c + 1\<rparr>"

definition advance_detected :: "recovery_case \<Rightarrow> recommendation \<Rightarrow> session \<Rightarrow> recovery_case \<times> session" where
  "advance_detected c r s =
     (if rc_state c = Case_DETECTED
      then (let c' = awaiting_case c (rm_generated_at r);
                n = next_transition_seq s (rc_id c);
                s1 = add_transition
                       \<lparr>ct_case_id = rc_id c, ct_from_state = Some Case_DETECTED,
                        ct_to_state = Case_AWAITING_DECISION, ct_reason_code = ''AI_RECOMMENDATION_FORMULATED'',
                        ct_actor_type = Actor_SYSTEM, ct_correlation_id = rm_id r,
                        ct_occurred_at = rm_generated_at r, ct_sequence_number = n,
                        ct_metadata = [(''decision_id'', JStr (rm_id r)),
                                       (''version'', JInt (rm_decision_version r))]\<rparr> (put_case c' s)
            in (c', audit_record (rc_id c) ''STATE_TRANSITION'' Actor_SYSTEM (rm_id r)
                      [(''reason_code'', JStr ''AI_RECOMMENDATION_FORMULATED''),
                       (''from_state'', JStr (case_state_value Case_DETECTED)),
                       (''to_state'', JStr (case_state_value Case_AWAITING_DECISION)),
                       (''sequence_number'', JInt n)]
                      (Some Case_DETECTED) (Some Case_AWAITING_DECISION) (Some ''system_intelligence'')
                      (rm_generated_at r) s1))
      else (c, s))"

definition recommendation_writes ::
  "recovery_case \<Rightarrow> recommendation \<Rightarrow> string option \<Rightarrow> session \<Rightarrow> session" where
  "recommendation_writes c r user s =
     (let payload = recommendation_payload r;
          s1 = s\<lparr>agent_decisions := agent_decisions s @ [recommended_decision r]\<rparr>;
          s2 = audit_record (rc_id c) ''RECOMMENDATION_GENERATED'' Actor_SYSTEM (rm_id r) payload
                 (Some (rc_state c)) (Some (rc_state c))
                 (Some (if truthy user then or_empty user else ''system_intelligence''))
                 (rm_generated_at r) s1;
          (c', s3) = advance_detected c r s2
      in put_case
           (c'\<lparr>rc_metadata := dict_set ''latest_recommendation'' (JObj payload) (rc_metadata c')\<rparr>) s3)"

definition store_recommendation ::
  "recovery_case \<Rightarrow> recommendation \<Rightarrow> string option \<Rightarrow> session \<Rightarrow> py_error + session" where
  "store_recommendation c r user s = commit (recommendation_writes c r user s)"

definition generate_recommendation ::
  "rec_env \<Rightarrow> uuid \<Rightarrow> string option \<Rightarrow> session \<Rightarrow> py_error + (recommendation \<times> session)" where
  "generate_recommendation env cid user s =
     (case find_case s cid of
        None \<Rightarrow> Inl (AppError (EntityNotFound ''RecoveryCase'' cid))
      | Some c \<Rightarrow>
          (let t = find_transaction s (rc_trigger_transaction_id c);
               cust = find_customer s (rc_customer_id c)
           in ebind (success_rate env cust) (\<lambda>rate.
              ebind (run_pipeline (re_estimate env)
                       (case t of None \<Rightarrow> 0 | Some x \<Rightarrow> tx_amount_minor x)
                       (Option.bind t tx_failure_code) (Option.bind t tx_failure_message)
                       (int (length (attempts_of s (rc_id c)))) (is_subscription c t)
                       (json_truthy (json_get (rc_metadata c) ''unusual_velocity''))
                       (customer_restricted cust) (rc_state c \<in> set recommend_terminal_states)
                       rate (has_alternate_method cust)) (\<lambda>p.
              (let r = recommendation_of p (re_decision_id env) (rc_id c)
                         (next_decision_version s (rc_id c)) (re_model_version env) (re_now env)
               in ebind (store_recommendation c r user s) (\<lambda>u. Inr (r, u)))))))"

definition preview_recommendation ::
  "rec_env \<Rightarrow> uuid \<Rightarrow> preview_request \<Rightarrow> py_error + recommendation" where
  "preview_recommendation env fresh_case req =
     ebind (run_pipeline (re_estimate env) (pq_amount_minor req) (pq_failure_code req)
              (pq_failure_message req) (pq_prior_attempts req) False (pq_unusual_velocity req)
              (pq_customer_restricted req) False (pq_success_rate req) (pq_alternate_method req)) (\<lambda>p.
       Inr (recommendation_of p (re_decision_id env) fresh_case 1 (re_model_version env) (re_now env)))"

section \<open>What the pipeline answers\<close>

lemma select_strategy_returns:
  "\<exists>sel. select_strategy estimate amount (Some f) (Some r) prior rate alternate terminal = Inr sel
     \<and> (terminal \<longrightarrow> sl_action sel = Act_STOP)
     \<and> (sl_action sel = Act_RETRY_PAYMENT \<longrightarrow> fa_retryable f \<and> ra_band r \<noteq> Band_high \<and> prior < 4)"
proof (cases terminal)
  case True
  then show ?thesis by (simp add: select_strategy_def)
next
  case False
  let ?cs = "map (candidate_of estimate amount f r prior rate alternate) all_strategies"
  let ?c0 = "candidate_of estimate amount f r prior rate alternate (catalog NO_ACTION)"
  have c0: "?c0 \<in> set ?cs" "cd_strategy ?c0 = NO_ACTION" "cd_permitted ?c0"
    using no_action_listed by simp_all
  obtain w ys zs where w: "pick r ?cs = Some w" "?cs = ys @ w # zs" "eligible r w"
    by (rule pick_best [OF c0, of r])
  have "w \<in> set ?cs" unfolding w(2) by simp
  then obtain spec where "spec \<in> set all_strategies" "w = candidate_of estimate amount f r prior rate alternate spec"
    by auto
  with w(3) only_retry_pays [of spec]
  have "cd_action w = Act_RETRY_PAYMENT \<longrightarrow> fa_retryable f \<and> ra_band r \<noteq> Band_high \<and> prior < 4"
    by (simp add: eligible_def)
  with False w(1) show ?thesis by (simp add: select_strategy_def)
qed

lemma run_pipeline_returns:
  "\<exists>p. run_pipeline estimate amount code message prior subscription velocity restricted terminal rate alternate = Inr p
     \<and> (terminal \<longrightarrow> sl_action (pl_selection p) = Act_STOP)
     \<and> (sl_action (pl_selection p) = Act_RETRY_PAYMENT \<longrightarrow>
          fa_retryable (pl_failure p) \<and> ra_band (pl_risk p) \<noteq> Band_high \<and> prior < 4)"
proof -
  let ?f = "analyze code message None"
  let ?r = "assess (fa_category ?f) amount prior velocity restricted subscription"
  from select_strategy_returns [of estimate amount ?f ?r prior rate alternate terminal]
  show ?thesis by (auto simp: run_pipeline_def Let_def)
qed

lemma recommendation_of_simps [simp]:
  "rm_id (recommendation_of p rid cid v m now) = rid"
  "rm_case_id (recommendation_of p rid cid v m now) = cid"
  "rm_decision_version (recommendation_of p rid cid v m now) = v"
  "rm_action_type (recommendation_of p rid cid v m now) = sl_action (pl_selection p)"
  "rm_band (recommendation_of p rid cid v m now) = ra_band (pl_risk p)"
  "rm_generated_at (recommendation_of p rid cid v m now) = now"
  by (simp_all add: recommendation_of_def)

lemma next_decision_version_gt:
  assumes "d \<in> set (agent_decisions s)" and "ad_case_id d = cid"
  shows "ad_decision_version d < next_decision_version s cid"
proof -
  let ?k = "\<lambda>d. - ad_decision_version d"
  let ?xs = "filter (\<lambda>d. ad_case_id d = cid) (agent_decisions s)"
  have d: "d \<in> set (sort_key ?k ?xs)" using assms by simp
  then obtain m ms where m: "sort_key ?k ?xs = m # ms" by (cases "sort_key ?k ?xs") auto
  have "sorted (map ?k (m # ms))" using sorted_sort_key [of ?k ?xs] unfolding m .
  then have "\<forall>y \<in> set (m # ms). ad_decision_version y \<le> ad_decision_version m" by auto
  with d m show ?thesis by (auto simp: next_decision_version_def find_latest_decision_def)
qed

section \<open>Storing it\<close>

definition recommendation_audit :: "recovery_case \<Rightarrow> recommendation \<Rightarrow> string option \<Rightarrow> session \<Rightarrow> session" where
  "recommendation_audit c r user s =
     audit_record (rc_id c) ''RECOMMENDATION_GENERATED'' Actor_SYSTEM (rm_id r) (recommendation_payload r)
       (Some (rc_state c)) (Some (rc_state c))
       (Some (if truthy user then or_empty user else ''system_intelligence'')) (rm_generated_at r)
       (s\<lparr>agent_decisions := agent_decisions s @ [recommended_decision r]\<rparr>)"

abbreviation noted_case :: "recovery_case \<Rightarrow> recommendation \<Rightarrow> recovery_case" where
  "noted_case c r \<equiv>
     c\<lparr>rc_metadata := dict_set ''latest_recommendation'' (JObj (recommendation_payload r)) (rc_metadata c)\<rparr>"

lemma store_open_case:
  assumes "session_ok s" and "find_case s (rc_id c) = Some c" and "rc_state c \<noteq> Case_DETECTED"
  shows "store_recommendation c r user s = Inr (flushed (put_case (noted_case c r) (recommendation_audit c r user s)))"
proof -
  let ?s2 = "recommendation_audit c r user s"
  have s1: "violated (s\<lparr>agent_decisions := agent_decisions s @ [recommended_decision r]\<rparr>) = None"
    using assms(1) by (simp add: session_ok_iff violated_None_iff)
  have f: "find_case ?s2 (rc_id c) = Some c"
    using assms(2) by (simp add: recommendation_audit_def) (simp add: find_case_def)
  have "violated ?s2 = None"
    unfolding recommendation_audit_def using s1 assms(1)
    by (intro violated_audit_record) (simp_all add: session_ok_def)
  then have "violated (put_case (noted_case c r) ?s2) = None"
    using violated_put_case [of ?s2 "noted_case c r" c] f by simp
  with assms(3) show ?thesis
    by (simp add: store_recommendation_def recommendation_writes_def advance_detected_def
        recommendation_audit_def Let_def commit_ok)
qed

text \<open>Both audit rows of a detected case take the number the flushed log suggests.\<close>

lemma store_detected_case:
  assumes "session_ok s" and "find_case s (rc_id c) = Some c" and "rc_state c = Case_DETECTED"
  shows "store_recommendation c r user s = Inl (IntegrityError ''uq_audit_case_sequence'')"
proof -
  let ?c' = "awaiting_case c (rm_generated_at r)"
  have c': "rc_id ?c' = rc_id c" "rc_case_key ?c' = rc_case_key c" by (simp_all add: awaiting_case_def)
  have u1: "case_unique (upd_by rc_id ?c' (cases s))"
    using assms(1,2) c' by (intro case_unique_upd_state [of _ _ c]) (simp_all add: session_ok_iff find_case_def)
  have f1: "find (\<lambda>y. rc_id y = rc_id c) (upd_by rc_id ?c' (cases s)) = Some ?c'"
    using find_upd_by_same [of rc_id ?c' "cases s"] assms(2) c' by (simp add: find_case_def)
  have u2: "case_unique (upd_by rc_id (noted_case ?c' r) (upd_by rc_id ?c' (cases s)))"
    using u1 f1 c' by (intro case_unique_upd_state [of "upd_by rc_id ?c' (cases s)" _ ?c']) simp_all
  have w: "case_unique (cases (recommendation_writes c r user s))"
    "\<exists>a b. audit_pending (recommendation_writes c r user s) = audit_pending s @ [a, b] \<and> audit_key a = audit_key b"
    using assms(3) u2
    by (simp_all add: recommendation_writes_def advance_detected_def Let_def session_write_defs seq_defs)
  from w(2) have "\<not> audit_unique (audit_rows (recommendation_writes c r user s)
      @ audit_pending (recommendation_writes c r user s))"
    by (auto simp: audit_unique_def)
  with w(1) show ?thesis by (simp add: store_recommendation_def commit_def flush_audit_clash)
qed


text \<open>Everything but the decisions, the audit log and the cases.\<close>

definition same_operations :: "session \<Rightarrow> session \<Rightarrow> bool" where
  "same_operations s t \<longleftrightarrow>
     transactions t = transactions s \<and> attempts t = attempts s \<and> workflows t = workflows s
     \<and> steps t = steps s \<and> executions t = executions s \<and> policy_decisions t = policy_decisions s
     \<and> transition_rows t = transition_rows s \<and> customers t = customers s \<and> consents t = consents s
     \<and> webhooks t = webhooks s"

lemma store_open_effect:
  assumes "store_recommendation c r user s = Inr t" and "session_ok s" and "find_case s (rc_id c) = Some c"
  shows "rc_state c \<noteq> Case_DETECTED" "same_operations s t" "session_ok t"
    "agent_decisions t = agent_decisions s @ [recommended_decision r]"
    "cases t = upd_by rc_id (noted_case c r) (cases s)"
    "\<exists>a. audit_rows t = audit_rows s @ [a] \<and> ae_case_id a = rc_id c
       \<and> ae_payload a = recommendation_payload r \<and> ae_to_state a = Some (rc_state c)"
proof -
  show open_case: "rc_state c \<noteq> Case_DETECTED" using assms store_detected_case by fastforce
  have t: "t = flushed (put_case (noted_case c r) (recommendation_audit c r user s))"
    using store_open_case [OF assms(2,3) open_case] assms(1) by simp
  show "session_ok t"
    using assms(1) by (auto simp: store_recommendation_def commit_def intro: flush_session_ok)
  have idle: "audit_pending s = []" "transition_pending s = []" using assms(2) by (simp_all add: session_ok_def)
  show "same_operations s t"
    "agent_decisions t = agent_decisions s @ [recommended_decision r]"
    "cases t = upd_by rc_id (noted_case c r) (cases s)"
    "\<exists>a. audit_rows t = audit_rows s @ [a] \<and> ae_case_id a = rc_id c
       \<and> ae_payload a = recommendation_payload r \<and> ae_to_state a = Some (rc_state c)"
    using idle by (simp_all add: t same_operations_def recommendation_audit_def session_write_defs)
qed

lemma generate_recommendation_Inr:
  assumes "generate_recommendation env cid user s = Inr (r, t)" and "find_case s cid = Some c"
  obtains p where "store_recommendation c r user s = Inr t"
    "r = recommendation_of p (re_decision_id env) cid (next_decision_version s cid) (re_model_version env) (re_now env)"
    "rc_state c \<in> set recommend_terminal_states \<longrightarrow> sl_action (pl_selection p) = Act_STOP"
    "sl_action (pl_selection p) = Act_RETRY_PAYMENT \<longrightarrow>
       ra_band (pl_risk p) \<noteq> Band_high \<and> length (attempts_of s cid) < 4"
proof -
  have id: "rc_id c = cid" by (rule find_case_id [OF assms(2)])
  let ?t = "find_transaction s (rc_trigger_transaction_id c)"
  let ?cu = "find_customer s (rc_customer_id c)"
  obtain rate p where p: "run_pipeline (re_estimate env) (case ?t of None \<Rightarrow> 0 | Some x \<Rightarrow> tx_amount_minor x)
      (Option.bind ?t tx_failure_code) (Option.bind ?t tx_failure_message)
      (int (length (attempts_of s cid))) (is_subscription c ?t)
      (json_truthy (json_get (rc_metadata c) ''unusual_velocity''))
      (customer_restricted ?cu) (rc_state c \<in> set recommend_terminal_states)
      rate (has_alternate_method ?cu) = Inr p"
    and r: "r = recommendation_of p (re_decision_id env) cid (next_decision_version s cid)
        (re_model_version env) (re_now env)"
    and st: "store_recommendation c r user s = Inr t"
    using assms id by (auto simp: generate_recommendation_def Let_def err_simps)
  show thesis
  proof (rule that [OF st r])
    show "rc_state c \<in> set recommend_terminal_states \<longrightarrow> sl_action (pl_selection p) = Act_STOP"
      "sl_action (pl_selection p) = Act_RETRY_PAYMENT \<longrightarrow>
         ra_band (pl_risk p) \<noteq> Band_high \<and> length (attempts_of s cid) < 4"
      using run_pipeline_returns [of "re_estimate env" "case ?t of None \<Rightarrow> 0 | Some x \<Rightarrow> tx_amount_minor x"
          "Option.bind ?t tx_failure_code" "Option.bind ?t tx_failure_message"
          "int (length (attempts_of s cid))" "is_subscription c ?t"
          "json_truthy (json_get (rc_metadata c) ''unusual_velocity'')" "customer_restricted ?cu"
          "rc_state c \<in> set recommend_terminal_states" rate "has_alternate_method ?cu"]
      unfolding p by auto
  qed
qed

text \<open>C30: A recommendation only advises. Generating one adds one decision,
  not validated and with a version above every earlier decision of the case, and one audit row; of
  the case it changes nothing but the metadata, and it leaves every other case, payment, attempt,
  workflow and policy decision alone. A resolved case is advised to stop, and a payment retry is
  advised only below the high risk band and below four attempts.\<close>

theorem recommendation_only_advises:
  assumes "generate_recommendation env cid user s = Inr (r, t)" and "session_ok s"
    and "find_case s cid = Some c"
  shows "session_ok t \<and> same_operations s t
    \<and> (\<exists>m. find_case t cid = Some (c\<lparr>rc_metadata := m\<rparr>))
    \<and> (\<forall>i. i \<noteq> cid \<longrightarrow> find_case t i = find_case s i)
    \<and> (\<exists>d. agent_decisions t = agent_decisions s @ [d] \<and> ad_case_id d = cid
         \<and> ad_validation_status d = Val_NOT_VALIDATED \<and> ad_action_type d = rm_action_type r
         \<and> (\<forall>e \<in> set (agent_decisions s). ad_case_id e = cid \<longrightarrow> ad_decision_version e < ad_decision_version d))
    \<and> (\<exists>a. audit_rows t = audit_rows s @ [a] \<and> ae_case_id a = cid)
    \<and> (rc_state c \<in> set recommend_terminal_states \<longrightarrow> rm_action_type r = Act_STOP)
    \<and> (rm_action_type r = Act_RETRY_PAYMENT \<longrightarrow> rm_band r \<noteq> Band_high \<and> length (attempts_of s cid) < 4)"
proof -
  have id: "rc_id c = cid" by (rule find_case_id [OF assms(3)])
  then have c: "find_case s (rc_id c) = Some c" using assms(3) by simp
  obtain p where st: "store_recommendation c r user s = Inr t"
    and r: "r = recommendation_of p (re_decision_id env) cid (next_decision_version s cid)
        (re_model_version env) (re_now env)"
    and safe: "rc_state c \<in> set recommend_terminal_states \<longrightarrow> sl_action (pl_selection p) = Act_STOP"
      "sl_action (pl_selection p) = Act_RETRY_PAYMENT \<longrightarrow>
         ra_band (pl_risk p) \<noteq> Band_high \<and> length (attempts_of s cid) < 4"
    by (rule generate_recommendation_Inr [OF assms(1,3)])
  note eff = store_open_effect [OF st assms(2) c]
  have "find_case t cid = Some (noted_case c r)"
    using find_upd_by_same [of rc_id "noted_case c r" "cases s"] c id by (simp add: find_case_def eff(5))
  moreover have "i \<noteq> cid \<longrightarrow> find_case t i = find_case s i" for i
    using id by (simp add: find_case_def eff(5) find_upd_by_other)
  moreover have "\<forall>e \<in> set (agent_decisions s). ad_case_id e = cid \<longrightarrow>
      ad_decision_version e < ad_decision_version (recommended_decision r)"
    using next_decision_version_gt [of _ s cid] by (simp add: recommended_decision_def r)
  ultimately show ?thesis using eff id safe
    by (auto simp: recommended_decision_def r)
qed

section \<open>Witnesses\<close>

definition demo_rec_env :: rec_env where
  "demo_rec_env = \<lparr>re_now = demo_now, re_decision_id = ''rec2'',
     re_estimate = estimate_recovery_probability demo_sigmoid,
     re_model_version = ''deterministic-logistic-v1'', re_float = (\<lambda>_. Inl TypeError)\<rparr>"

lemma demo_recommend_facts:
  "session_ok demo_session" "find_case demo_session ''case'' = Some demo_case"
  "success_rate demo_rec_env (find_customer demo_session (rc_customer_id demo_case)) = Inr (1/2)"
  unfolding session_ok_def by code_simp+


lemma demo_recommendation_returns:
  "is_ok (generate_recommendation demo_rec_env ''case'' None demo_session)"
proof -
  obtain p where "run_pipeline (re_estimate demo_rec_env) 5000 (Some ''insufficient_funds'') None 0 False False
      False False (1/2) True = Inr p"
    using run_pipeline_returns by blast
  then show ?thesis
    using store_open_case [OF demo_recommend_facts(1), of demo_case]
      demo_recommend_facts(2,3)
    by (simp add: generate_recommendation_def Let_def demo_defs empty_session_def find_transaction_def
        find_customer_def attempts_of_def is_subscription_def json_get_def customer_restricted_def
        recommend_terminal_states_def has_alternate_method_def)
qed

lemma recommendation_only_advises_witness:
  "\<exists>r t m. generate_recommendation demo_rec_env ''case'' None demo_session = Inr (r, t)
     \<and> find_case t ''case'' = Some (demo_case\<lparr>rc_metadata := m\<rparr>) \<and> same_operations demo_session t"
proof -
  obtain r t where run: "generate_recommendation demo_rec_env ''case'' None demo_session = Inr (r, t)"
    using demo_recommendation_returns by auto
  from recommendation_only_advises [OF this demo_recommend_facts(1,2)] run show ?thesis by blast
qed

end
