(* ===== verification/Recommendation_Store.thy ===== *)
theory Recommendation_Store
  imports Orchestrator
begin

text \<open>
  Reading recommendations back: \<open>get_latest_recommendation\<close>, \<open>get_recommendation_history\<close> and
  \<open>_reconstitute_recommendation\<close> of \<open>backend/app/services/intelligence/orchestrator.py\<close>, which rebuild
  the answered DTO from the decision row and the audit row that carries its payload.

  The DTOs hold what the API answers: strategies, categories and bands as text, decimals as numbers.
  As in Orchestrator, texts for people are left out. A payload field of another JSON type than the
  program writes is a validation error; pydantic's conversions between types are not modelled, nor
  are decimals spelled with an exponent or underscores. The later reading of the clock is \<open>now\<close>.
\<close>

section \<open>The answered DTOs\<close>

record candidate_dto =
  qd_strategy :: string
  qd_action_type :: action_type
  qd_probability :: rat
  qd_recovery_value :: int
  qd_cost :: int
  qd_expected_value :: int
  qd_permitted :: bool

record recommendation_dto =
  rx_id :: uuid
  rx_case_id :: uuid
  rx_decision_version :: int
  rx_strategy :: string
  rx_action_type :: action_type
  rx_category :: string
  rx_band :: string
  rx_score :: int
  rx_probability :: "rat option"
  rx_confidence :: "rat option"
  rx_expected_value :: int
  rx_method :: string
  rx_model_version :: string
  rx_validation :: validation_status
  rx_generated_at :: pydatetime
  rx_candidates :: "candidate_dto list"

definition candidate_dto_of :: "candidate \<Rightarrow> candidate_dto" where
  "candidate_dto_of c =
     \<lparr>qd_strategy = recovery_strategy_value (cd_strategy c), qd_action_type = cd_action c,
      qd_probability = cd_probability c, qd_recovery_value = cd_recovery_value c, qd_cost = cd_cost c,
      qd_expected_value = cd_expected_value c, qd_permitted = cd_permitted c\<rparr>"

definition recommendation_dto_of :: "recommendation \<Rightarrow> recommendation_dto" where
  "recommendation_dto_of r =
     \<lparr>rx_id = rm_id r, rx_case_id = rm_case_id r, rx_decision_version = rm_decision_version r,
      rx_strategy = recovery_strategy_value (rm_strategy r), rx_action_type = rm_action_type r,
      rx_category = rm_category r, rx_band = risk_band_value (rm_band r), rx_score = rm_score r,
      rx_probability = Some (rm_probability r), rx_confidence = Some (rm_confidence r),
      rx_expected_value = rm_expected_value r, rx_method = ''hybrid_expected_value'',
      rx_model_version = rm_model_version r, rx_validation = rm_validation r,
      rx_generated_at = rm_generated_at r, rx_candidates = map candidate_dto_of (rm_candidates r)\<rparr>"

section \<open>Reading decimals\<close>

definition dec_char :: "char \<Rightarrow> bool" where
  "dec_char c = (let n = (of_char c :: nat) in 48 \<le> n \<and> n < 58)"

definition digits_nat :: "string \<Rightarrow> nat" where
  "digits_nat s = foldl (\<lambda>a c. 10 * a + (of_char c - 48)) 0 s"

definition parse_unsigned :: "string \<Rightarrow> rat option" where
  "parse_unsigned s =
     (let whole = takeWhile (\<lambda>c. c \<noteq> CHR ''.'') s; part = drop (length whole + 1) s
      in if list_all dec_char (whole @ part) \<and> whole @ part \<noteq> []
         then Some (of_nat (digits_nat (whole @ part)) / 10 ^ length part) else None)"

definition parse_decimal :: "string \<Rightarrow> rat option" where
  "parse_decimal s =
     (case py_strip s of
        [] \<Rightarrow> None
      | c # cs \<Rightarrow>
          if c = CHR ''-'' then map_option uminus (parse_unsigned cs)
          else if c = CHR ''+'' then parse_unsigned cs
          else parse_unsigned (c # cs))"

section \<open>Rebuilding\<close>

definition dto_invalid :: py_error where
  "dto_invalid = ValueError ''ValidationError''"

definition str_value :: "json \<Rightarrow> py_error + string" where
  "str_value v = (case v of JStr s \<Rightarrow> Inr s | _ \<Rightarrow> Inl dto_invalid)"

definition int_value :: "json \<Rightarrow> py_error + int" where
  "int_value v = (case v of JInt i \<Rightarrow> Inr i | _ \<Rightarrow> Inl dto_invalid)"

definition bool_value :: "json \<Rightarrow> py_error + bool" where
  "bool_value v = (case v of JBool b \<Rightarrow> Inr b | _ \<Rightarrow> Inl dto_invalid)"

definition list_value :: "json \<Rightarrow> py_error + json list" where
  "list_value v = (case v of JList vs \<Rightarrow> Inr vs | _ \<Rightarrow> Inl TypeError)"

definition decimal_value :: "json \<Rightarrow> py_error + rat" where
  "decimal_value v =
     (case parse_decimal (py_str v) of None \<Rightarrow> Inl (ValueError ''InvalidOperation'') | Some x \<Rightarrow> Inr x)"

text \<open>\<open>payload.get(k, default)\<close>.\<close>

definition field_or :: "payload \<Rightarrow> string \<Rightarrow> json \<Rightarrow> json" where
  "field_or d k v = (case map_of d k of None \<Rightarrow> v | Some x \<Rightarrow> x)"

definition read_candidate :: "json \<Rightarrow> py_error + candidate_dto" where
  "read_candidate v =
     (case v of
        JObj d \<Rightarrow>
          ebind (str_value (json_get d ''strategy'')) (\<lambda>strategy.
          ebind (str_value (json_get d ''action_type'')) (\<lambda>a.
          ebind (parse_enum action_type_members action_type_value a) (\<lambda>act.
          ebind (str_value (json_get d ''probability'')) (\<lambda>p.
          ebind (decimal_value (JStr p)) (\<lambda>prob.
          ebind (int_value (json_get d ''recovery_value_minor'')) (\<lambda>val.
          ebind (int_value (json_get d ''cost_minor'')) (\<lambda>cost.
          ebind (int_value (json_get d ''expected_value_minor'')) (\<lambda>expected.
          ebind (bool_value (json_get d ''permitted'')) (\<lambda>permitted.
            Inr \<lparr>qd_strategy = strategy, qd_action_type = act, qd_probability = prob,
                 qd_recovery_value = val, qd_cost = cost, qd_expected_value = expected,
                 qd_permitted = permitted\<rparr>)))))))))
      | _ \<Rightarrow> Inl TypeError)"

definition reason_category :: "string \<Rightarrow> string" where
  "reason_category code = takeWhile (\<lambda>c. c \<noteq> CHR '':'') code"

definition rebuilt_from_payload ::
  "recovery_case \<Rightarrow> agent_decision \<Rightarrow> payload \<Rightarrow> pydatetime \<Rightarrow> py_error + recommendation_dto" where
  "rebuilt_from_payload c d pl event_time =
     ebind (list_value (field_or pl ''candidate_strategies'' (JList []))) (\<lambda>items.
     ebind (map_ok read_candidate items) (\<lambda>cands.
     ebind (if json_get pl ''recovery_probability'' = JNull then Inr None
            else ebind (decimal_value (json_get pl ''recovery_probability'')) (\<lambda>x. Inr (Some x))) (\<lambda>prob.
     ebind (str_value (field_or pl ''recommended_strategy''
              (JStr (recovery_strategy_value (map_to_strategy (ad_action_type d)))))) (\<lambda>strategy.
     ebind (str_value (field_or pl ''failure_category'' (JStr (reason_category (ad_reason_code d))))) (\<lambda>category.
     ebind (str_value (field_or pl ''risk_band'' (JStr ''medium''))) (\<lambda>band.
     ebind (int_value (field_or pl ''risk_score'' (JInt 50))) (\<lambda>score.
     ebind (int_value (field_or pl ''expected_value_minor'' (JInt 0))) (\<lambda>expected.
     ebind (str_value (field_or pl ''model_version'' (JStr ''deterministic-logistic-v1''))) (\<lambda>model.
       if score < 0 \<or> 100 < score then Inl dto_invalid
       else Inr \<lparr>rx_id = ad_id d, rx_case_id = rc_id c, rx_decision_version = ad_decision_version d,
                 rx_strategy = strategy, rx_action_type = ad_action_type d, rx_category = category,
                 rx_band = band, rx_score = score, rx_probability = prob, rx_confidence = ad_confidence d,
                 rx_expected_value = expected, rx_method = ''hybrid_expected_value'',
                 rx_model_version = model, rx_validation = ad_validation_status d,
                 rx_generated_at = event_time, rx_candidates = cands\<rparr>)))))))))"

definition rebuilt_fallback :: "recovery_case \<Rightarrow> agent_decision \<Rightarrow> pydatetime \<Rightarrow> recommendation_dto" where
  "rebuilt_fallback c d now =
     \<lparr>rx_id = ad_id d, rx_case_id = rc_id c, rx_decision_version = ad_decision_version d,
      rx_strategy = recovery_strategy_value (map_to_strategy (ad_action_type d)),
      rx_action_type = ad_action_type d, rx_category = reason_category (ad_reason_code d),
      rx_band = ''medium'', rx_score = 50, rx_probability = Some (1/2),
      rx_confidence = Some (case ad_confidence d of None \<Rightarrow> 4/5 | Some x \<Rightarrow> if x = 0 then 4/5 else x),
      rx_expected_value = 0, rx_method = ''persisted_record_fallback'',
      rx_model_version = ''deterministic-logistic-v1'', rx_validation = ad_validation_status d,
      rx_generated_at = now, rx_candidates = []\<rparr>"

definition recommendation_record :: "session \<Rightarrow> uuid \<Rightarrow> audit_event option" where
  "recommendation_record s did =
     find (\<lambda>a. ae_event_type a = ''RECOMMENDATION_GENERATED'')
       (sort_key (\<lambda>a. instant (ae_event_time a)) (filter (\<lambda>a. ae_correlation_id a = did) (audit_rows s)))"

definition reconstitute_recommendation ::
  "recovery_case \<Rightarrow> agent_decision \<Rightarrow> pydatetime \<Rightarrow> session \<Rightarrow> py_error + recommendation_dto" where
  "reconstitute_recommendation c d now s =
     (case recommendation_record s (ad_id d) of
        Some a \<Rightarrow> rebuilt_from_payload c d (ae_payload a) (ae_event_time a)
      | None \<Rightarrow> Inr (rebuilt_fallback c d now))"

definition get_latest_recommendation ::
  "uuid \<Rightarrow> pydatetime \<Rightarrow> session \<Rightarrow> py_error + recommendation_dto option" where
  "get_latest_recommendation cid now s =
     (case find_case s cid of
        None \<Rightarrow> Inl (AppError (EntityNotFound ''RecoveryCase'' cid))
      | Some c \<Rightarrow>
          (case find_latest_decision s cid of
             None \<Rightarrow> Inr None
           | Some d \<Rightarrow> ebind (reconstitute_recommendation c d now s) (\<lambda>r. Inr (Some r))))"

definition get_recommendation_history ::
  "uuid \<Rightarrow> pydatetime \<Rightarrow> session \<Rightarrow> py_error + recommendation_dto list" where
  "get_recommendation_history cid now s =
     (case find_case s cid of
        None \<Rightarrow> Inl (AppError (EntityNotFound ''RecoveryCase'' cid))
      | Some c \<Rightarrow>
          map_ok (\<lambda>d. reconstitute_recommendation c d now s)
            (sort_key ad_decision_version (filter (\<lambda>d. ad_case_id d = cid) (agent_decisions s))))"

section \<open>Printed decimals are read back\<close>

lemma digits_nat_Nil [simp]: "digits_nat [] = 0"
  by (simp add: digits_nat_def)

lemma digits_nat_snoc [simp]: "digits_nat (xs @ [c]) = 10 * digits_nat xs + (of_char c - 48)"
  by (simp add: digits_nat_def)

lemma digits_nat_append: "digits_nat (xs @ ys) = digits_nat xs * 10 ^ length ys + digits_nat ys"
  by (induction ys rule: rev_induct) (simp_all add: append_assoc [symmetric] algebra_simps del: append_assoc)

lemma digits_nat_zeros [simp]: "digits_nat (replicate n (CHR ''0'')) = 0"
  by (induction n) (simp_all add: replicate_append_same [symmetric])

lemma digits_nat_str [simp]: "digits_nat (str_of_nat n) = n"
proof (induction n rule: str_of_nat.induct)
  case (1 n)
  show ?case
  proof (cases "n < 10")
    case True
    then show ?thesis using digits_nat_snoc [of "[]" "digit_char n"] by (simp add: str_of_nat.simps [of n])
  next
    case False
    with "1.IH" show ?thesis by (simp add: str_of_nat.simps [of n])
  qed
qed

lemma length_str_of_nat: "0 < k \<Longrightarrow> n < 10 ^ k \<Longrightarrow> length (str_of_nat n) \<le> k"
proof (induction n arbitrary: k rule: str_of_nat.induct)
  case (1 n)
  show ?case
  proof (cases "n < 10")
    case True
    with "1.prems" show ?thesis by (simp add: str_of_nat.simps [of n])
  next
    case False
    with "1.prems" obtain j where k: "k = Suc j" "0 < j" by (cases k; cases "k - 1") auto
    with "1.prems" have "n div 10 < 10 ^ j" by (simp add: less_mult_imp_div_less mult.commute)
    with "1.IH" False k have "length (str_of_nat (n div 10)) \<le> j" by blast
    with False k show ?thesis by (simp add: str_of_nat.simps [of n])
  qed
qed

lemma str_of_nat_dec_char: "list_all dec_char (str_of_nat n)"
  using str_of_nat_digits [of _ n] by (auto simp: list_all_iff dec_char_def)

lemma py_strip_id: "\<forall>c \<in> set s. \<not> py_space c \<Longrightarrow> py_strip s = s"
proof -
  assume a: "\<forall>c \<in> set s. \<not> py_space c"
  have "dropWhile py_space t = t" if "\<forall>c \<in> set t. \<not> py_space c" for t
    using that by (cases t) auto
  from this [of s] this [of "rev s"] a show ?thesis by (simp add: py_strip_def)
qed

definition fourth :: "rat \<Rightarrow> bool" where
  "fourth x \<longleftrightarrow> (\<exists>n :: nat. x = of_nat n / 10000)"

lemma round_half_even_of_int [simp]: "round_half_even (of_int n) = n"
  by (simp add: round_half_even_def)

lemma parse_decimal4:
  assumes "fourth x"
  shows "parse_decimal (decimal4 x) = Some x"
proof -
  obtain n :: nat where x: "x = of_nat n / 10000" using assms by (auto simp: fourth_def)
  have r: "round_half_even (x * 10000) = int n" using round_half_even_of_int [of "int n"] by (simp add: x)
  define a where "a = str_of_nat (n div 10000)"
  define b where "b = replicate (4 - length (str_of_nat (n mod 10000))) (CHR ''0'') @ str_of_nat (n mod 10000)"
  have s: "decimal4 x = a @ ''.'' @ b"
    by (simp add: decimal4_def r Let_def str_of_int_def a_def b_def nat_div_distrib nat_mod_distrib not_less)
  have "length (str_of_nat (n mod 10000)) \<le> 4" by (rule length_str_of_nat) simp_all
  then have lb: "length b = 4" by (simp add: b_def)
  have dec: "list_all dec_char a" "list_all dec_char b"
    using str_of_nat_dec_char by (auto simp: a_def b_def list_all_iff) (simp add: dec_char_def)
  then have chars: "\<forall>c \<in> set (a @ b). 48 \<le> (of_char c :: nat) \<and> (of_char c :: nat) < 58"
    by (auto simp: list_all_iff dec_char_def Let_def)
  have "\<not> py_space c" if "48 \<le> (of_char c :: nat)" for c using that by (simp add: py_space_def Let_def)
  moreover have "\<not> py_space (CHR ''.'')" by (simp add: py_space_def)
  ultimately have "\<forall>c \<in> set (decimal4 x). \<not> py_space c" using chars by (auto simp: s)
  then have strip: "py_strip (decimal4 x) = decimal4 x" by (rule py_strip_id)
  have "CHR ''.'' \<notin> set a" using chars by force
  then have take: "takeWhile (\<lambda>c. c \<noteq> CHR ''.'') (decimal4 x) = a" by (auto simp: s takeWhile_tail)
  have digits: "digits_nat (a @ b) = n" by (simp add: digits_nat_append lb) (simp add: a_def b_def digits_nat_append)
  have drop: "drop (length a + 1) (decimal4 x) = b" by (simp add: s)
  have a_ne: "a \<noteq> []" by (simp add: a_def)
  then have u: "parse_unsigned (decimal4 x) = Some x"
    using dec unfolding parse_unsigned_def Let_def take drop digits lb by (simp add: x)
  obtain c cs where c: "decimal4 x = c # cs" "c \<in> set a" using s a_ne by (cases a) auto
  then have "c \<noteq> CHR ''-''" "c \<noteq> CHR ''+''" using chars by force+
  with u strip c(1) show ?thesis by (simp add: parse_decimal_def)
qed

text \<open>What a printed candidate needs to be read back.\<close>

lemma read_candidate_json:
  "fourth (cd_probability c) \<Longrightarrow> read_candidate (candidate_json c) = Inr (candidate_dto_of c)"
  by (simp add: candidate_json_def read_candidate_def json_get_def str_value_def int_value_def
      bool_value_def decimal_value_def py_str_def parse_decimal4 action_type_enum.parse_value
      candidate_dto_of_def)

lemma read_candidates:
  "\<forall>c \<in> set cs. fourth (cd_probability c) \<Longrightarrow>
     map_ok read_candidate (map candidate_json cs) = Inr (map candidate_dto_of cs)"
  by (induction cs) (simp_all add: read_candidate_json)

lemma rebuilt_recommendation:
  assumes "fourth (rm_probability r)" and "\<forall>c \<in> set (rm_candidates r). fourth (cd_probability c)"
    and "0 \<le> rm_score r" "rm_score r \<le> 100" and "rc_id c = rm_case_id r"
    and "rm_validation r = Val_NOT_VALIDATED"
  shows "rebuilt_from_payload c (recommended_decision r) (recommendation_payload r) (rm_generated_at r)
    = Inr (recommendation_dto_of r)"
  using assms by (simp add: rebuilt_from_payload_def recommendation_payload_def field_or_def
      json_get_def list_value_def str_value_def int_value_def decimal_value_def py_str_def
      parse_decimal4 read_candidates recommended_decision_def recommendation_dto_of_def)

section \<open>What was recommended comes back\<close>

lemma estimate_fourth: "fourth (estimate_recovery_probability sigmoid4 q)"
proof -
  let ?m = "max 100 (min 9900 (sigmoid4 (logistic_terms q)))"
  have "of_int ?m = (of_nat (nat ?m) :: rat)" by simp
  then show ?thesis unfolding fourth_def estimate_recovery_probability_def by metis
qed

lemma pipeline_fourth:
  assumes "run_pipeline (estimate_recovery_probability sigmoid4) amount code message prior sub velocity
      restricted terminal rate alternate = Inr p"
  shows "\<forall>c \<in> set (sl_candidates (pl_selection p)). fourth (cd_probability c)"
    "fourth (cd_probability (pl_winner p))" "0 \<le> ra_score (pl_risk p)" "ra_score (pl_risk p) \<le> 100"
proof -
  have zero: "fourth 0" unfolding fourth_def by (intro exI [of _ 0]) simp
  have c: "fourth (cd_probability (candidate_of (estimate_recovery_probability sigmoid4) amount f r prior rate alternate spec))"
    for f r spec by (simp add: candidate_of_def Let_def estimate_fourth)
  show cands: "\<forall>c \<in> set (sl_candidates (pl_selection p)). fourth (cd_probability c)"
    using assms c zero by (auto simp: run_pipeline_def select_strategy_def Let_def no_action_candidate_def err_simps
        split: if_splits option.splits)
  have ne: "sl_candidates (pl_selection p) \<noteq> []"
    using assms no_action_listed by (auto simp: run_pipeline_def select_strategy_def Let_def err_simps
        split: if_splits option.splits)
  have w: "pl_winner p = winner_estimate (pl_selection p)"
    using assms by (auto simp: run_pipeline_def Let_def err_simps)
  have "pl_winner p \<in> set (sl_candidates (pl_selection p))"
    unfolding w winner_estimate_def using ne by (auto split: option.splits dest: find_SomeD)
  with cands show "fourth (cd_probability (pl_winner p))" by blast
  show "0 \<le> ra_score (pl_risk p)" "ra_score (pl_risk p) \<le> 100"
    using assms risk_score_is_ordered [of amount amount prior prior velocity velocity restricted restricted
        "fa_category (analyze code message None)" sub]
    by (auto simp: run_pipeline_def Let_def err_simps)
qed

lemma stored_record:
  assumes "store_recommendation c r user s = Inr t" and "session_ok s" and "find_case s (rc_id c) = Some c"
    and "\<forall>a \<in> set (audit_rows s). ae_correlation_id a \<noteq> rm_id r"
  obtains a where "recommendation_record t (rm_id r) = Some a" "ae_payload a = recommendation_payload r"
    "ae_event_time a = rm_generated_at r"
proof -
  have open_case: "rc_state c \<noteq> Case_DETECTED" by (rule store_open_effect(1) [OF assms(1-3)])
  have t: "t = flushed (put_case (noted_case c r) (recommendation_audit c r user s))"
    using store_open_case [OF assms(2,3) open_case] assms(1) by simp
  have idle: "audit_pending s = []" using assms(2) by (simp add: session_ok_def)
  have "filter (\<lambda>a. ae_correlation_id a = rm_id r) (audit_rows s) = []" using assms(4) by (simp add: filter_empty_conv)
  then show thesis
    using idle that by (simp add: t recommendation_record_def recommendation_audit_def session_write_defs)
qed

lemma latest_decision_snoc:
  assumes "agent_decisions t = agent_decisions s @ [d]" and "ad_case_id d = cid"
    and "ad_decision_version d = next_decision_version s cid"
  shows "find_latest_decision t cid = Some d"
proof -
  let ?k = "\<lambda>d. - ad_decision_version d"
  let ?xs = "filter (\<lambda>e. ad_case_id e = cid) (agent_decisions s)"
  have least: "\<forall>e \<in> set ?xs. ?k d < ?k e" using next_decision_version_gt [of _ s cid] assms(3) by auto
  have mem: "x \<in> set (sort_key ?k (?xs @ [d])) \<longleftrightarrow> x \<in> set ?xs \<or> x = d" for x by auto
  obtain m ms where m: "sort_key ?k (?xs @ [d]) = m # ms" using mem [of d] by (cases "sort_key ?k (?xs @ [d])") auto
  have "sorted (map ?k (m # ms))" using sorted_sort_key [of ?k "?xs @ [d]"] unfolding m .
  then have "?k m \<le> ?k d" using mem [of d] unfolding m by auto
  then have "m = d" using mem [of m] least unfolding m by fastforce
  with m show ?thesis using assms(1,2) by (simp add: find_latest_decision_def)
qed

lemma generated_fourth:
  assumes "generate_recommendation env cid user s = Inr (r, t)" and "find_case s cid = Some c"
    and "re_estimate env = estimate_recovery_probability sigmoid4"
  obtains p where "store_recommendation c r user s = Inr t"
    "r = recommendation_of p (re_decision_id env) cid (next_decision_version s cid) (re_model_version env) (re_now env)"
    "fourth (cd_probability (pl_winner p))"
    "\<forall>c \<in> set (sl_candidates (pl_selection p)). fourth (cd_probability c)"
    "0 \<le> ra_score (pl_risk p)" "ra_score (pl_risk p) \<le> 100"
proof -
  let ?t = "find_transaction s (rc_trigger_transaction_id c)"
  let ?cu = "find_customer s (rc_customer_id c)"
  have id: "rc_id c = cid" by (rule find_case_id [OF assms(2)])
  obtain rate p where p: "run_pipeline (estimate_recovery_probability sigmoid4)
      (case ?t of None \<Rightarrow> 0 | Some x \<Rightarrow> tx_amount_minor x)
      (Option.bind ?t tx_failure_code) (Option.bind ?t tx_failure_message)
      (int (length (attempts_of s cid))) (is_subscription c ?t)
      (json_truthy (json_get (rc_metadata c) ''unusual_velocity''))
      (customer_restricted ?cu) (rc_state c \<in> set recommend_terminal_states)
      rate (has_alternate_method ?cu) = Inr p"
    and r: "r = recommendation_of p (re_decision_id env) cid (next_decision_version s cid)
        (re_model_version env) (re_now env)"
    and st: "store_recommendation c r user s = Inr t"
    using assms id by (auto simp: generate_recommendation_def Let_def err_simps)
  show thesis by (rule that [OF st r pipeline_fourth(2) [OF p] pipeline_fourth(1) [OF p] pipeline_fourth(3,4) [OF p]])
qed



end
