(* ===== verification/Agent_Tools.thy ===== *)
theory Agent_Tools
  imports Canonical_Event
begin

text \<open>
  The agent boundary and the tool boundary: the contracts of \<open>backend/app/agents/contracts.py\<close>,
  \<open>AgentBrain.reason\<close> (agents/brain.py), and the controlled tools with their registry
  (tools/contracts.py, tools/recovery.py, tools/registry.py).

  The reasoning provider is a parameter that answers the fields of a decision or raises; pydantic
  validates them on construction, which is \<open>mk_decision\<close>. A \<open>ValidationError\<close> is a \<open>ValueError\<close>.
  A tool payload is one of the three field sets the tools know: with another tool's fields the
  strict models report missing or extra fields. The tools' fixed messages are not modelled.
\<close>

section \<open>Agent contracts\<close>

record observation =
  ob_case_id :: uuid
  ob_transaction_id :: uuid
  ob_transaction_status :: string
  ob_amount_minor :: int
  ob_currency :: string
  ob_customer_context :: bool
  ob_risk_reason_codes :: "string list"
  ob_current_state :: case_state
  ob_prior_attempts :: int
  ob_allowed_actions :: "action_type list"

definition mk_observation :: "observation \<Rightarrow> py_error + observation" where
  "mk_observation o1 =
     (if 0 \<le> ob_amount_minor o1 \<and> iso_currency (ob_currency o1)
         \<and> 1 \<le> length (ob_risk_reason_codes o1) \<and> length (ob_risk_reason_codes o1) \<le> 10
         \<and> 0 \<le> ob_prior_attempts o1
         \<and> 1 \<le> length (ob_allowed_actions o1) \<and> length (ob_allowed_actions o1) \<le> 10
      then Inr o1 else Inl (ValueError ''AgentObservation''))"

record decision_output =
  do_case_id :: uuid
  do_action :: action_type
  do_reason_code :: string
  do_rationale :: string
  do_confidence :: rat
  do_requires_review :: bool
  do_stop_reason :: "string option"

text \<open>\<open>value.strip().lower().replace(" ", "_")\<close>, which runs after the length bounds.\<close>

definition normalize_reason_code :: "string \<Rightarrow> string" where
  "normalize_reason_code v = map (\<lambda>c. if c = CHR '' '' then CHR ''_'' else c) (py_lower (py_strip v))"

definition decision_bounds :: "decision_output \<Rightarrow> bool" where
  "decision_bounds d \<longleftrightarrow>
     str_bounds 1 120 (do_reason_code d) \<and> str_bounds 1 2000 (do_rationale d)
     \<and> 0 \<le> do_confidence d \<and> do_confidence d \<le> 1 \<and> opt_bound 500 (do_stop_reason d)"

definition mk_decision :: "decision_output \<Rightarrow> py_error + decision_output" where
  "mk_decision d =
     (if decision_bounds d then Inr (d\<lparr>do_reason_code := normalize_reason_code (do_reason_code d)\<rparr>)
      else Inl (ValueError ''AgentDecisionOutput''))"

text \<open>The validated decision is constructed from the dump, so the bounds are checked again.\<close>

definition validate_decision :: "decision_output \<Rightarrow> observation \<Rightarrow> py_error + decision_output" where
  "validate_decision d obs =
     (if do_case_id d \<noteq> ob_case_id obs
      then Inl (ValueError ''agent decision case_id does not match observation'')
      else if do_action d \<notin> set (ob_allowed_actions obs)
      then Inl (ValueError (''agent proposed action outside allow-list: '' @ action_type_value (do_action d)))
      else if do_action d = Act_STOP \<and> \<not> truthy (do_stop_reason d)
      then Inl (ValueError ''stop decisions require stop_reason'')
      else if do_action d \<noteq> Act_STOP \<and> truthy (do_stop_reason d)
      then Inl (ValueError ''stop_reason is only valid for stop decisions'')
      else mk_decision d)"

definition reason ::
  "(observation \<Rightarrow> py_error + decision_output) \<Rightarrow> observation \<Rightarrow> py_error + decision_output" where
  "reason decide obs =
     ebind (decide obs) (\<lambda>raw. ebind (mk_decision raw) (\<lambda>proposed. validate_decision proposed obs))"

section \<open>Tools\<close>

datatype tool_payload =
    Inspect_payload uuid
  | Draft_payload uuid action_type string string
  | Escalate_payload uuid string int

record tool_context =
  tc_authorized :: bool
  tc_dry_run :: bool
  tc_correlation_id :: string

record tool_output =
  to_tool_name :: string
  to_status :: string
  to_dry_run :: bool
  to_data :: payload

definition tool_names :: "string list" where
  "tool_names = [''draft_recovery_intent'', ''escalate_recovery_case'', ''inspect_recovery_context'']"

text \<open>The input model of each tool: its fields, and the bounds on them.\<close>

fun valid_input :: "string \<Rightarrow> tool_payload \<Rightarrow> bool" where
  "valid_input tool (Inspect_payload cid) = (tool = ''inspect_recovery_context'')"
| "valid_input tool (Draft_payload cid action rationale key) =
     (tool = ''draft_recovery_intent'' \<and> str_bounds 1 2000 rationale \<and> str_bounds 1 250 key)"
| "valid_input tool (Escalate_payload cid why priority) =
     (tool = ''escalate_recovery_case'' \<and> str_bounds 1 500 why \<and> 0 \<le> priority \<and> priority \<le> 100)"

fun run_tool :: "tool_payload \<Rightarrow> tool_context \<Rightarrow> tool_output" where
  "run_tool (Inspect_payload cid) ctx =
     \<lparr>to_tool_name = ''inspect_recovery_context'', to_status = ''planned'', to_dry_run = tc_dry_run ctx,
      to_data = [(''case_id'', JStr cid), (''correlation_id'', JStr (tc_correlation_id ctx))]\<rparr>"
| "run_tool (Draft_payload cid action rationale key) ctx =
     (if \<not> tc_authorized ctx
      then \<lparr>to_tool_name = ''draft_recovery_intent'', to_status = ''rejected'',
            to_dry_run = tc_dry_run ctx, to_data = [(''case_id'', JStr cid)]\<rparr>
      else \<lparr>to_tool_name = ''draft_recovery_intent'', to_status = ''planned'', to_dry_run = tc_dry_run ctx,
            to_data = [(''case_id'', JStr cid), (''action'', JStr (action_type_value action)),
                       (''rationale'', JStr rationale), (''idempotency_key'', JStr key),
                       (''correlation_id'', JStr (tc_correlation_id ctx))]\<rparr>)"
| "run_tool (Escalate_payload cid why priority) ctx =
     \<lparr>to_tool_name = ''escalate_recovery_case'', to_status = ''planned'', to_dry_run = tc_dry_run ctx,
      to_data = [(''case_id'', JStr cid), (''reason'', JStr why), (''priority'', JInt priority),
                 (''correlation_id'', JStr (tc_correlation_id ctx))]\<rparr>"

definition execute_tool :: "string \<Rightarrow> tool_payload \<Rightarrow> tool_context \<Rightarrow> py_error + tool_output" where
  "execute_tool tool pl ctx =
     (if tool \<notin> set tool_names then Inl (ValueError (''tool is not registered: '' @ tool))
      else if \<not> valid_input tool pl then Inl (ValueError ''ToolInput'')
      else Inr (run_tool pl ctx))"

section \<open>What a decision guarantees\<close>

lemma mk_decision_Inr:
  "mk_decision d = Inr d' \<longleftrightarrow>
     decision_bounds d \<and> d' = d\<lparr>do_reason_code := normalize_reason_code (do_reason_code d)\<rparr>"
  by (auto simp: mk_decision_def)

lemma validate_decision_Inr:
  "validate_decision d obs = Inr d' \<longleftrightarrow>
     do_case_id d = ob_case_id obs \<and> do_action d \<in> set (ob_allowed_actions obs)
     \<and> (do_action d = Act_STOP \<longleftrightarrow> truthy (do_stop_reason d)) \<and> mk_decision d = Inr d'"
  by (auto simp: validate_decision_def)

text \<open>The normal form of a reason code: no outer white space, no upper case, no blank.\<close>

lemma stripped_iff: "py_strip x = x \<longleftrightarrow> x = [] \<or> (\<not> py_space (hd x) \<and> \<not> py_space (last x))"
proof
  assume eq: "py_strip x = x"
  have "length x \<le> length (dropWhile py_space x)"
    using arg_cong [OF eq, of length] length_dropWhile_le [of py_space "rev (dropWhile py_space x)"]
    by (simp add: py_strip_def)
  then have "length (takeWhile py_space x) = 0"
    using arg_cong [OF takeWhile_dropWhile_id [of py_space x], of length]
    unfolding length_append by linarith
  then have d: "dropWhile py_space x = x"
    using takeWhile_dropWhile_id [of py_space x] by simp
  then have "dropWhile py_space (rev x) = rev x"
    using arg_cong [OF eq, of rev] by (simp add: py_strip_def)
  with d show "x = [] \<or> (\<not> py_space (hd x) \<and> \<not> py_space (last x))"
    by (auto simp: dropWhile_eq_self_iff hd_rev)
next
  assume ends: "x = [] \<or> (\<not> py_space (hd x) \<and> \<not> py_space (last x))"
  then have "dropWhile py_space x = x" "dropWhile py_space (rev x) = rev x"
    by (auto simp: dropWhile_eq_self_iff hd_rev)
  then show "py_strip x = x" by (simp add: py_strip_def)
qed

definition blank_char :: "char \<Rightarrow> char" where
  "blank_char c = (if c = CHR '' '' then CHR ''_'' else c)"

lemma blank_char_space: "py_space (blank_char c) \<Longrightarrow> py_space c"
  by (simp add: blank_char_def py_space_def Let_def split: if_splits)

lemma normalize_reason_code_alt: "normalize_reason_code v = map blank_char (py_lower (py_strip v))"
  by (simp add: normalize_reason_code_def blank_char_def [abs_def])

lemma normalize_reason_code_idem [simp]:
  "normalize_reason_code (normalize_reason_code v) = normalize_reason_code v"
proof -
  let ?x = "py_lower (py_strip v)"
  have "py_strip ?x = ?x" by (simp add: py_strip_lower)
  then have "py_strip (map blank_char ?x) = map blank_char ?x"
    unfolding stripped_iff using blank_char_space by (auto simp: hd_map last_map)
  moreover have "lower_char (blank_char (lower_char c)) = blank_char (lower_char c)" for c
    by (simp add: blank_char_def lower_char_idem) (simp add: lower_char_def)
  moreover have "blank_char (blank_char c) = blank_char c" for c by (simp add: blank_char_def)
  ultimately show ?thesis by (simp add: normalize_reason_code_alt py_lower_def)
qed

lemma normalize_length: "length (normalize_reason_code v) \<le> length v"
proof -
  have "length (py_strip v) \<le> length v"
    unfolding py_strip_def by (metis length_rev length_dropWhile_le order_trans)
  then show ?thesis by (simp add: normalize_reason_code_def py_lower_def)
qed

text \<open>C33: Whatever the reasoning provider answers, a decision the brain
  hands on names the observed case and an allowed action, gives a stop reason exactly when it
  stops, and keeps every field bound; its reason code is in normal form. It differs from the
  provider's answer in nothing but that code, and a provider that answers within the contract is
  never refused.\<close>

theorem brain_answers_are_contracted:
  "(reason decide obs = Inr d \<longrightarrow>
      (\<exists>raw. decide obs = Inr raw \<and> d = raw\<lparr>do_reason_code := normalize_reason_code (do_reason_code raw)\<rparr>)
      \<and> do_case_id d = ob_case_id obs \<and> do_action d \<in> set (ob_allowed_actions obs)
      \<and> (do_action d = Act_STOP \<longleftrightarrow> truthy (do_stop_reason d))
      \<and> decision_bounds d \<and> normalize_reason_code (do_reason_code d) = do_reason_code d)
   \<and> (decide obs = Inr raw \<and> decision_bounds raw \<and> normalize_reason_code (do_reason_code raw) \<noteq> []
        \<and> do_case_id raw = ob_case_id obs \<and> do_action raw \<in> set (ob_allowed_actions obs)
        \<and> (do_action raw = Act_STOP \<longleftrightarrow> truthy (do_stop_reason raw)) \<longrightarrow>
      is_ok (reason decide obs))"
proof -
  have "decision_bounds (raw\<lparr>do_reason_code := normalize_reason_code (do_reason_code raw)\<rparr>)
      \<longleftrightarrow> decision_bounds raw"
    if "normalize_reason_code (do_reason_code raw) \<noteq> []" "decision_bounds raw" for raw
    using that normalize_length [of "do_reason_code raw"]
    by (auto simp: decision_bounds_def str_bounds_def Suc_le_eq)
  then show ?thesis
    by (auto simp: reason_def err_simps validate_decision_Inr mk_decision_Inr)
qed

definition demo_observation :: observation where
  "demo_observation =
     \<lparr>ob_case_id = ''case'', ob_transaction_id = ''tx'', ob_transaction_status = ''failed'',
      ob_amount_minor = 5000, ob_currency = ''INR'', ob_customer_context = True,
      ob_risk_reason_codes = [''r''], ob_current_state = Case_AWAITING_DECISION,
      ob_prior_attempts = 0, ob_allowed_actions = [Act_RETRY_PAYMENT, Act_STOP]\<rparr>"

definition demo_output :: decision_output where
  "demo_output =
     \<lparr>do_case_id = ''case'', do_action = Act_RETRY_PAYMENT, do_reason_code = '' Soft Decline'',
      do_rationale = ''transient'', do_confidence = 1/2, do_requires_review = False,
      do_stop_reason = None\<rparr>"

lemma brain_answers_are_contracted_witness:
  "\<exists>d. reason (\<lambda>_. Inr demo_output) demo_observation = Inr d \<and> do_reason_code d = ''soft_decline''
     \<and> decision_bounds d"
proof -
  have n: "normalize_reason_code (do_reason_code demo_output) = ''soft_decline''" by code_simp
  have b: "decision_bounds demo_output" by code_simp
  have "is_ok (reason (\<lambda>_. Inr demo_output) demo_observation)"
    using brain_answers_are_contracted [of "\<lambda>_. Inr demo_output" demo_observation _ demo_output] n b
    by (simp add: demo_output_def demo_observation_def)
  then obtain d where d: "reason (\<lambda>_. Inr demo_output) demo_observation = Inr d" by auto
  from brain_answers_are_contracted [of "\<lambda>_. Inr demo_output" demo_observation d] d n
  show ?thesis by auto
qed

end
