(* ===== verification/Vertical_Workflow.thy ===== *)
theory Vertical_Workflow
  imports Agent_Tools Case_Transitions Safety_Policy Case_Scoring
begin

text \<open>
  \<open>VerticalRecoveryWorkflow.run\<close> of \<open>backend/app/workflows/vertical_recovery.py\<close>: it walks one case
  from its context to a decision of the bounded agent, asks the safety policy, and either ends the
  case or records a planned attempt, executes a dry-run tool and leaves the case waiting for its
  verification.

  \<open>run_env\<close> holds the constructor's collaborators (the reasoning provider and the policy
  configuration) and what a run draws: one clock reading, the uuids of the decision and the attempt
  and the fallback correlation id of the transition service. The collections of a case
  (\<open>case.attempts\<close>, \<open>case.decisions\<close>, \<open>case.audit_events\<close>) are loaded when first read and not
  refreshed by rows added through the session.
\<close>

record run_env =
  rv_now :: pydatetime
  rv_decision_id :: uuid
  rv_attempt_id :: uuid
  rv_correlation :: uuid
  rv_decide :: "observation \<Rightarrow> py_error + decision_output"
  rv_policy :: safety_config

record workflow_result =
  wr_case_id :: uuid
  wr_decision :: decision_output
  wr_policy :: safety_decision
  wr_tool_status :: string
  wr_final_state :: case_state
  wr_audit_event_count :: int

definition move ::
  "run_env \<Rightarrow> recovery_case \<Rightarrow> case_state \<Rightarrow> string \<Rightarrow> string \<Rightarrow> session
     \<Rightarrow> py_error + (recovery_case \<times> session)" where
  "move env c to_state code corr s =
     move_case c to_state code Actor_SYSTEM None (Some corr) (rv_correlation env) (rv_now env) s"

definition observation_of ::
  "run_env \<Rightarrow> recovery_case \<Rightarrow> transaction \<Rightarrow> customer option \<Rightarrow> string list \<Rightarrow> int \<Rightarrow> observation" where
  "observation_of env c t cust codes prior =
     \<lparr>ob_case_id = rc_id c, ob_transaction_id = tx_id t,
      ob_transaction_status = transaction_status_value (tx_status t), ob_amount_minor = tx_amount_minor t,
      ob_currency = tx_currency t, ob_customer_context = (cust \<noteq> None), ob_risk_reason_codes = codes,
      ob_current_state = rc_state c, ob_prior_attempts = prior,
      ob_allowed_actions = sc_allowed_actions (rv_policy env)\<rparr>"

definition case_decisions :: "session \<Rightarrow> uuid \<Rightarrow> agent_decision list" where
  "case_decisions s cid = filter (\<lambda>d. ad_case_id d = cid) (agent_decisions s)"

definition agent_record :: "run_env \<Rightarrow> recovery_case \<Rightarrow> decision_output \<Rightarrow> session \<Rightarrow> agent_decision" where
  "agent_record env c d s =
     \<lparr>ad_id = rv_decision_id env, ad_case_id = rc_id c, ad_attempt_id = None,
      ad_decision_version = int (length (case_decisions s (rc_id c))) + 1,
      ad_action_type = do_action d, ad_reason_code = do_reason_code d,
      ad_confidence = Some (do_confidence d), ad_validation_status = Val_VALID\<rparr>"

definition workflow_key :: "recovery_case \<Rightarrow> int \<Rightarrow> string" where
  "workflow_key c n = rc_id c @ '':workflow:'' @ str_of_int n"

definition policy_context_of :: "recovery_case \<Rightarrow> transaction \<Rightarrow> decision_output \<Rightarrow> int \<Rightarrow> policy_context" where
  "policy_context_of c t d prior =
     \<lparr>px_case_state = rc_state c, px_transaction_status = tx_status t, px_action = do_action d,
      px_retry_attempt_count = prior, px_prior_idempotency_keys = [],
      px_idempotency_key = Some (workflow_key c (prior + 1)), px_has_uncertain_attempt = False\<rparr>"

definition planned_attempt ::
  "run_env \<Rightarrow> recovery_case \<Rightarrow> decision_output \<Rightarrow> int \<Rightarrow> string \<Rightarrow> recovery_attempt" where
  "planned_attempt env c d n corr =
     \<lparr>at_id = rv_attempt_id env, at_case_id = rc_id c, at_sequence_number = n, at_status = Att_PLANNED,
      at_action_type = do_action d, at_started_at = Some (rv_now env), at_finished_at = None,
      at_outcome = None, at_provider_reference = None, at_idempotency_key = workflow_key c n,
      at_metadata = [(''dry_run'', JBool True), (''correlation_id'', JStr corr)]\<rparr>"

definition tool_request :: "recovery_case \<Rightarrow> decision_output \<Rightarrow> int \<Rightarrow> string \<times> tool_payload" where
  "tool_request c d n =
     (if do_requires_review d
      then (''escalate_recovery_case'', Escalate_payload (rc_id c) (do_rationale d) (rc_priority c))
      else (''draft_recovery_intent'', Draft_payload (rc_id c) (do_action d) (do_rationale d) (workflow_key c n)))"

definition audit_count :: "session \<Rightarrow> uuid \<Rightarrow> int" where
  "audit_count s cid = int (length (filter (\<lambda>a. ae_case_id a = cid) (audit_rows s)))"

definition workflow_reply ::
  "recovery_case \<Rightarrow> decision_output \<Rightarrow> safety_decision \<Rightarrow> string \<Rightarrow> session \<Rightarrow> workflow_result" where
  "workflow_reply c d pol status s =
     \<lparr>wr_case_id = rc_id c, wr_decision = d, wr_policy = pol, wr_tool_status = status,
      wr_final_state = rc_state c, wr_audit_event_count = audit_count s (rc_id c)\<rparr>"

text \<open>The end of a run whose action the policy does not allow.\<close>

definition end_case ::
  "run_env \<Rightarrow> recovery_case \<Rightarrow> decision_output \<Rightarrow> safety_decision \<Rightarrow> string \<Rightarrow> session
     \<Rightarrow> py_error + (workflow_result \<times> session)" where
  "end_case env c d pol corr s =
     ebind (move env c (if sf_should_escalate pol then Case_ESCALATED else Case_STOPPED)
              (policy_reason_value (sf_reason pol)) corr s) (\<lambda>(c', t).
       Inr (workflow_reply c' d pol ''not_executed'' t, t))"

text \<open>The end of an allowed one: attempt, tool, verification.\<close>

definition act_on_case ::
  "run_env \<Rightarrow> recovery_case \<Rightarrow> agent_decision \<Rightarrow> decision_output \<Rightarrow> safety_decision \<Rightarrow> int \<Rightarrow> string \<Rightarrow> session
     \<Rightarrow> py_error + (workflow_result \<times> session)" where
  "act_on_case env c rec d pol n corr s =
     ebind (move env c Case_ACTION_PENDING ''policy_allowed'' corr s) (\<lambda>(c1, s1).
     ebind (flush (s1\<lparr>attempts := attempts s1 @ [planned_attempt env c1 d n corr]\<rparr>)) (\<lambda>s2.
     ebind (flush (put_decision (rec\<lparr>ad_attempt_id := Some (rv_attempt_id env)\<rparr>) s2)) (\<lambda>s3.
     ebind (execute_tool (fst (tool_request c1 d n)) (snd (tool_request c1 d n))
              \<lparr>tc_authorized = True, tc_dry_run = True, tc_correlation_id = corr\<rparr>) (\<lambda>out.
     ebind (move env c1 Case_VERIFICATION_PENDING ''action_requires_provider_verification'' corr s3)
       (\<lambda>(c2, s4). Inr (workflow_reply c2 d pol (to_status out) s4, s4))))))"

definition run ::
  "run_env \<Rightarrow> recovery_case \<Rightarrow> transaction \<Rightarrow> customer option \<Rightarrow> string list \<Rightarrow> string \<Rightarrow> session
     \<Rightarrow> py_error + (workflow_result \<times> session)" where
  "run env c t cust codes corr s =
     ebind (move env c Case_CONTEXT_READY ''context_collected'' corr s) (\<lambda>(c1, s1).
     ebind (move env c1 Case_AWAITING_DECISION ''awaiting_bounded_agent'' corr s1) (\<lambda>(c2, s2).
     (let prior = int (length (attempts_of s2 (rc_id c2)))
      in ebind (mk_observation (observation_of env c2 t cust codes prior)) (\<lambda>obs.
         ebind (reason (rv_decide env) obs) (\<lambda>d.
         (let rec = agent_record env c2 d s2;
              pol = safety_evaluate (rv_policy env) (policy_context_of c2 t d prior)
          in ebind (flush (s2\<lparr>agent_decisions := agent_decisions s2 @ [rec]\<rparr>)) (\<lambda>s3.
               if sf_should_escalate pol \<or> sf_should_stop pol \<or> sf_outcome pol = Out_REJECT
               then end_case env c2 d pol corr s3
               else act_on_case env c2 rec d pol (prior + 1) corr s3)))))))"

section \<open>The run as a path of the life cycle\<close>

text \<open>
  The abstract view of a stretch of the run: the case went from \<open>c\<close> to \<open>c'\<close> through the states
  \<open>path\<close>, with one history row per move, and nothing else of the operational data changed.
\<close>

definition follows :: "session \<Rightarrow> session \<Rightarrow> recovery_case \<Rightarrow> recovery_case \<Rightarrow> case_state list \<Rightarrow> bool" where
  "follows s t c c' path \<longleftrightarrow>
     session_ok t \<and> find_case t (rc_id c) = Some c' \<and> rc_id c' = rc_id c
     \<and> rc_version c' = rc_version c + int (length path)
     \<and> (\<exists>rows. history_of t (rc_id c) = history_of s (rc_id c) @ rows \<and> map ct_to_state rows = path
          \<and> chained (rc_state c) rows (rc_state c'))
     \<and> (\<forall>i. i \<noteq> rc_id c \<longrightarrow> find_case t i = find_case s i)
     \<and> transactions t = transactions s \<and> executions t = executions s \<and> workflows t = workflows s"

lemma chained_append: "chained a (xs @ ys) b \<longleftrightarrow> (\<exists>m. chained a xs m \<and> chained m ys b)"
  by (induction xs arbitrary: a) auto

lemma follows_trans:
  assumes "follows s t c c' p" and "follows t u c' c'' q"
  shows "follows s u c c'' (p @ q)"
proof -
  from assms(1) obtain rows where r: "history_of t (rc_id c) = history_of s (rc_id c) @ rows"
    "map ct_to_state rows = p" "chained (rc_state c) rows (rc_state c')" by (auto simp: follows_def)
  from assms(1) have id: "rc_id c' = rc_id c" by (simp add: follows_def)
  from assms(2) obtain rows' where r': "history_of u (rc_id c') = history_of t (rc_id c') @ rows'"
    "map ct_to_state rows' = q" "chained (rc_state c') rows' (rc_state c'')" by (auto simp: follows_def)
  have "history_of u (rc_id c) = history_of s (rc_id c) @ (rows @ rows')" using r(1) r'(1) id by simp
  moreover have "map ct_to_state (rows @ rows') = p @ q" using r(2) r'(2) by simp
  moreover have "chained (rc_state c) (rows @ rows') (rc_state c'')"
    using r(3) r'(3) by (auto simp: chained_append)
  ultimately show ?thesis using assms id unfolding follows_def by auto
qed

lemma follows_still:
  assumes "session_ok t" and "find_case s (rc_id c) = Some c" and "cases t = cases s"
    and "transition_rows t = transition_rows s" and "transactions t = transactions s"
    and "executions t = executions s" and "workflows t = workflows s"
  shows "follows s t c c []"
  using assms by (simp add: follows_def history_of_def find_case_def)

lemma follows_move:
  assumes "move env c st code corr s = Inr (c', t)" and "session_ok s" and "find_case s (rc_id c) = Some c"
  shows "follows s t c c' [st]" "rc_state c' = st" "st \<in> set (allowed_transitions (rc_state c))"
    "attempts t = attempts s" "agent_decisions t = agent_decisions s" "c' = moved_case c st (rv_now env)"
proof -
  have m: "move_case c st code Actor_SYSTEM None (Some corr) (rv_correlation env) (rv_now env) s = Inr (c', t)"
    using assms(1) by (simp add: move_def)
  note facts = move_case_facts [OF m] and rows = move_case_rows [OF m assms(2)]
  show st: "rc_state c' = st" "st \<in> set (allowed_transitions (rc_state c))"
    "attempts t = attempts s" "agent_decisions t = agent_decisions s" "c' = moved_case c st (rv_now env)"
    using facts rows by simp_all
  from m obtain k where "t = flushed (transition_writes c st code Actor_SYSTEM None k (rv_now env) s)"
    by (auto simp: move_case_Inr elim!: transition_case_Inr)
  then have "history_of t (rc_id c) = history_of s (rc_id c)
      @ [history_row c st code Actor_SYSTEM k (rv_now env) (next_transition_seq s (rc_id c))]"
    using history_after [OF assms(2)] by simp
  moreover have "find_case t (rc_id c) = Some c'" "\<forall>i. i \<noteq> rc_id c \<longrightarrow> find_case t i = find_case s i"
    using rows(3) assms(3) find_upd_by_same [of rc_id c' "cases s"] facts(2)
    by (simp_all add: find_case_def find_upd_by_other)
  ultimately show "follows s t c c' [st]"
    using facts rows st by (auto simp: follows_def history_row_def)
qed

lemma safety_stops_iff:
  "sf_should_escalate (safety_evaluate cfg x) \<or> sf_should_stop (safety_evaluate cfg x)
     \<or> sf_outcome (safety_evaluate cfg x) = Out_REJECT \<longleftrightarrow> sf_outcome (safety_evaluate cfg x) \<noteq> Out_ALLOW"
  unfolding safety_flags by (cases "sf_outcome (safety_evaluate cfg x)") simp_all

lemma end_case_follows:
  assumes "end_case env c d pol corr s = Inr (res, t)" and "session_ok s" and "find_case s (rc_id c) = Some c"
  obtains c' where "follows s t c c' [wr_final_state res]" "rc_state c' = wr_final_state res"
    "wr_final_state res \<in> {Case_ESCALATED, Case_STOPPED}" "wr_policy res = pol" "attempts t = attempts s"
    "wr_decision res = d"
proof -
  let ?st = "if sf_should_escalate pol then Case_ESCALATED else Case_STOPPED"
  obtain c' where m: "move env c ?st (policy_reason_value (sf_reason pol)) corr s = Inr (c', t)"
    and res: "res = workflow_reply c' d pol ''not_executed'' t"
    using assms(1) by (auto simp: end_case_def err_simps)
  note f = follows_move [OF m assms(2,3)]
  have "wr_final_state res = ?st" using f(2) by (simp add: res workflow_reply_def)
  with f res show thesis by (intro that [of c']) (simp_all add: workflow_reply_def)
qed

lemma act_on_case_follows:
  assumes "act_on_case env c rec d pol n corr s = Inr (res, t)" and "session_ok s"
    and "find_case s (rc_id c) = Some c"
  obtains c' where "follows s t c c' [Case_ACTION_PENDING, Case_VERIFICATION_PENDING]"
    "wr_final_state res = Case_VERIFICATION_PENDING" "rc_state c' = wr_final_state res" "wr_policy res = pol"
    "attempts t = attempts s @ [planned_attempt env c d n corr]" "wr_decision res = d"
    "do_requires_review d \<longrightarrow> rc_priority c \<le> 100 \<and> length (do_rationale d) \<le> 500"
proof -
  let ?ctx = "\<lparr>tc_authorized = True, tc_dry_run = True, tc_correlation_id = corr\<rparr>"
  obtain c1 s1 s2 s3 out c2 where m1: "move env c Case_ACTION_PENDING ''policy_allowed'' corr s = Inr (c1, s1)"
    and f1: "flush (s1\<lparr>attempts := attempts s1 @ [planned_attempt env c1 d n corr]\<rparr>) = Inr s2"
    and f2: "flush (put_decision (rec\<lparr>ad_attempt_id := Some (rv_attempt_id env)\<rparr>) s2) = Inr s3"
    and tool: "execute_tool (fst (tool_request c1 d n)) (snd (tool_request c1 d n)) ?ctx = Inr out"
    and m2: "move env c1 Case_VERIFICATION_PENDING ''action_requires_provider_verification'' corr s3 = Inr (c2, t)"
    and res: "res = workflow_reply c2 d pol (to_status out) t"
    using assms(1) by (auto simp: act_on_case_def err_simps)
  note a = follows_move [OF m1 assms(2,3)]
  have id: "rc_id c1 = rc_id c" and fc1: "find_case s1 (rc_id c1) = Some c1" and ok1: "session_ok s1"
    using a(1) by (auto simp: follows_def)
  have s3: "session_ok s3" "follows s1 s3 c1 c1 []"
    using f1 f2 ok1 fc1 flush_session_ok [OF f2]
    by (auto simp: flush_ok put_decision_def session_ok_def intro!: follows_still)
  have att: "attempts s3 = attempts s1 @ [planned_attempt env c1 d n corr]"
    using f1 f2 by (auto simp: flush_ok put_decision_def)
  have fc3: "find_case s3 (rc_id c1) = Some c1" using s3(2) by (simp add: follows_def)
  note b = follows_move [OF m2 s3(1) fc3]
  have p: "planned_attempt env c1 d n corr = planned_attempt env c d n corr" "rc_priority c1 = rc_priority c"
    using a(6) by (simp_all add: planned_attempt_def workflow_key_def moved_case_def)
  have "do_requires_review d \<longrightarrow> rc_priority c \<le> 100 \<and> length (do_rationale d) \<le> 500"
    using tool p(2) by (auto simp: execute_tool_def tool_request_def str_bounds_def split: if_splits)
  moreover have "follows s t c c2 [Case_ACTION_PENDING, Case_VERIFICATION_PENDING]"
    using follows_trans [OF a(1) follows_trans [OF s3(2) b(1)]] by simp
  ultimately show thesis
    using b(2,4) att p a(4) by (intro that [of c2]) (simp_all add: res workflow_reply_def)
qed

text \<open>The common part of every returning run, up to the recorded decision.\<close>

lemma run_Inr:
  assumes "run env c t cust codes corr s = Inr (res, u)" and "session_ok s" and "find_case s (rc_id c) = Some c"
  obtains c2 s3 obs d rec prior where "follows s s3 c c2 [Case_CONTEXT_READY, Case_AWAITING_DECISION]"
    "session_ok s3" "find_case s3 (rc_id c2) = Some c2" "attempts s3 = attempts s"
    "rc_state c2 = Case_AWAITING_DECISION" "rc_priority c2 = rc_priority c" "rc_state c = Case_DETECTED"
    "prior = int (length (attempts_of s (rc_id c)))"
    "reason (rv_decide env) obs = Inr d" "ob_allowed_actions obs = sc_allowed_actions (rv_policy env)"
    "(if sf_outcome (safety_evaluate (rv_policy env) (policy_context_of c2 t d prior)) = Out_ALLOW
      then act_on_case env c2 rec d (safety_evaluate (rv_policy env) (policy_context_of c2 t d prior))
             (prior + 1) corr s3
      else end_case env c2 d (safety_evaluate (rv_policy env) (policy_context_of c2 t d prior)) corr s3)
     = Inr (res, u)"
proof -
  obtain c1 s1 c2 s2 where m1: "move env c Case_CONTEXT_READY ''context_collected'' corr s = Inr (c1, s1)"
    and m2: "move env c1 Case_AWAITING_DECISION ''awaiting_bounded_agent'' corr s1 = Inr (c2, s2)"
    using assms(1) by (auto simp: run_def err_simps)
  note a = follows_move [OF m1 assms(2,3)]
  have ok1: "session_ok s1" "find_case s1 (rc_id c1) = Some c1" using a(1) by (auto simp: follows_def)
  note b = follows_move [OF m2 ok1]
  have ok2: "session_ok s2" "find_case s2 (rc_id c2) = Some c2" "rc_id c2 = rc_id c"
    using a(1) b(1) by (auto simp: follows_def)
  let ?prior = "int (length (attempts_of s2 (rc_id c2)))"
  have prior: "?prior = int (length (attempts_of s (rc_id c)))"
    using a(4) b(4) ok2(3) by (simp add: attempts_of_def)
  obtain obs d where obs: "mk_observation (observation_of env c2 t cust codes ?prior) = Inr obs"
    and d: "reason (rv_decide env) obs = Inr d"
    using assms(1) m1 m2 by (auto simp: run_def Let_def err_simps)
  let ?rec = "agent_record env c2 d s2"
  let ?pol = "safety_evaluate (rv_policy env) (policy_context_of c2 t d ?prior)"
  obtain s3 where f: "flush (s2\<lparr>agent_decisions := agent_decisions s2 @ [?rec]\<rparr>) = Inr s3"
    and rest: "(if sf_should_escalate ?pol \<or> sf_should_stop ?pol \<or> sf_outcome ?pol = Out_REJECT
       then end_case env c2 d ?pol corr s3 else act_on_case env c2 ?rec d ?pol (?prior + 1) corr s3) = Inr (res, u)"
    using assms(1) m1 m2 obs d by (auto simp: run_def Let_def err_simps)
  have f3: "follows s2 s3 c2 c2 []" "session_ok s3" "attempts s3 = attempts s2"
    using f ok2 flush_session_ok [OF f] by (auto simp: flush_ok session_ok_def intro!: follows_still)
  have "follows s s3 c c2 [Case_CONTEXT_READY, Case_AWAITING_DECISION]"
    using follows_trans [OF a(1) follows_trans [OF b(1) f3(1)]] by simp
  moreover have "find_case s3 (rc_id c2) = Some c2" using f3(1) by (simp add: follows_def)
  moreover have "rc_state c = Case_DETECTED" using a(3) by (cases "rc_state c") auto
  moreover have "ob_allowed_actions obs = sc_allowed_actions (rv_policy env)"
    using obs by (auto simp: mk_observation_def observation_of_def split: if_splits)
  moreover have "rc_priority c2 = rc_priority c" using a(6) b(6) by (simp add: moved_case_def)
  moreover have "(if sf_outcome ?pol = Out_ALLOW then act_on_case env c2 ?rec d ?pol (?prior + 1) corr s3
      else end_case env c2 d ?pol corr s3) = Inr (res, u)"
    using rest unfolding safety_stops_iff by (auto split: if_splits)
  ultimately show thesis
    using that [of s3 c2 "?prior" obs d ?rec] f3(2,3) a(4) b(2,4) d prior by simp
qed

text \<open>What a run may do to its case: the path it takes, and the attempt an allowed one records.\<close>

definition run_outcome ::
  "session \<Rightarrow> session \<Rightarrow> recovery_case \<Rightarrow> workflow_result \<Rightarrow> case_state list \<Rightarrow> bool" where
  "run_outcome s u c res path \<longleftrightarrow>
     (if sf_outcome (wr_policy res) = Out_ALLOW
      then path = [Case_CONTEXT_READY, Case_AWAITING_DECISION, Case_ACTION_PENDING, Case_VERIFICATION_PENDING]
           \<and> (\<exists>a. attempts u = attempts s @ [a] \<and> at_status a = Att_PLANNED \<and> at_case_id a = rc_id c
                \<and> at_action_type a = do_action (wr_decision res))
      else path \<in> {[Case_CONTEXT_READY, Case_AWAITING_DECISION, Case_ESCALATED],
             [Case_CONTEXT_READY, Case_AWAITING_DECISION, Case_STOPPED]}
           \<and> attempts u = attempts s)"

lemma run_path:
  assumes "run env c t cust codes corr s = Inr (res, u)" and "session_ok s" and "find_case s (rc_id c) = Some c"
  obtains c' path where "follows s u c c' path" "rc_state c' = wr_final_state res" "run_outcome s u c res path"
    "rc_state c = Case_DETECTED"
    "sf_outcome (wr_policy res) = Out_ALLOW \<and> do_requires_review (wr_decision res) \<Longrightarrow>
       rc_priority c \<le> 100 \<and> length (do_rationale (wr_decision res)) \<le> 500"
proof -
  obtain c2 s3 obs d rec prior where run: "follows s s3 c c2 [Case_CONTEXT_READY, Case_AWAITING_DECISION]"
    "session_ok s3" "find_case s3 (rc_id c2) = Some c2" "attempts s3 = attempts s" "rc_state c = Case_DETECTED"
    "rc_priority c2 = rc_priority c"
    and rest: "(if sf_outcome (safety_evaluate (rv_policy env) (policy_context_of c2 t d prior)) = Out_ALLOW
      then act_on_case env c2 rec d (safety_evaluate (rv_policy env) (policy_context_of c2 t d prior))
             (prior + 1) corr s3
      else end_case env c2 d (safety_evaluate (rv_policy env) (policy_context_of c2 t d prior)) corr s3)
     = Inr (res, u)"
    by (rule run_Inr [OF assms])
  let ?pol = "safety_evaluate (rv_policy env) (policy_context_of c2 t d prior)"
  have id: "rc_id c2 = rc_id c" using run(1) by (simp add: follows_def)
  show thesis
  proof (cases "sf_outcome ?pol = Out_ALLOW")
    case True
    with rest have act: "act_on_case env c2 rec d ?pol (prior + 1) corr s3 = Inr (res, u)" by simp
    from act_on_case_follows [OF act run(2,3)] obtain c' where
      a: "follows s3 u c2 c' [Case_ACTION_PENDING, Case_VERIFICATION_PENDING]" "rc_state c' = wr_final_state res"
        "wr_policy res = ?pol" "attempts u = attempts s3 @ [planned_attempt env c2 d (prior + 1) corr]"
        "wr_decision res = d" "do_requires_review d \<longrightarrow> rc_priority c2 \<le> 100 \<and> length (do_rationale d) \<le> 500"
      by blast
    show thesis
      using True follows_trans [OF run(1) a(1)] run(4-6) a(2-6) id
      by (intro that [of c' "[Case_CONTEXT_READY, Case_AWAITING_DECISION, Case_ACTION_PENDING,
            Case_VERIFICATION_PENDING]"]) (simp_all add: run_outcome_def planned_attempt_def)
  next
    case False
    with rest have e: "end_case env c2 d ?pol corr s3 = Inr (res, u)" by simp
    from end_case_follows [OF e run(2,3)] obtain c' where
      a: "follows s3 u c2 c' [wr_final_state res]" "rc_state c' = wr_final_state res"
        "wr_final_state res \<in> {Case_ESCALATED, Case_STOPPED}" "wr_policy res = ?pol" "attempts u = attempts s3"
      by blast
    show thesis
      using False follows_trans [OF run(1) a(1)] run(4,5) a(2-5)
      by (intro that [of c' "[Case_CONTEXT_READY, Case_AWAITING_DECISION, wr_final_state res]"])
        (auto simp: run_outcome_def)
  qed
qed

text \<open>C29: A run of the vertical workflow that returns is a path of the life cycle: it
  starts in DETECTED and its history rows are chained, allowed moves, one version each, through
  CONTEXT_READY and AWAITING_DECISION. The case then waits for verification if and only if the safety
  policy allowed the agent's action, with one planned attempt recorded, and is otherwise stopped or
  escalated with none; it is never recovered by the run. No transaction, execution, workflow or
  other case changes.\<close>

theorem run_refines_lifecycle:
  assumes "run env c t cust codes corr s = Inr (res, u)" and "session_ok s"
    and "find_case s (rc_id c) = Some c"
  shows "\<exists>c' rows. session_ok u \<and> find_case u (rc_id c) = Some c' \<and> rc_state c' = wr_final_state res
    \<and> history_of u (rc_id c) = history_of s (rc_id c) @ rows
    \<and> chained Case_DETECTED rows (wr_final_state res)
    \<and> fsm_run Case_DETECTED (map ct_to_state rows) (wr_final_state res)
    \<and> rc_version c' = rc_version c + int (length rows)
    \<and> run_outcome s u c res (map ct_to_state rows)
    \<and> transactions u = transactions s \<and> executions u = executions s \<and> workflows u = workflows s
    \<and> (\<forall>i. i \<noteq> rc_id c \<longrightarrow> find_case u i = find_case s i)"
proof -
  obtain c' path where f: "follows s u c c' path" "rc_state c' = wr_final_state res" "run_outcome s u c res path"
    "rc_state c = Case_DETECTED"
    using run_path [OF assms] by blast
  from f(1) obtain rows where rows: "history_of u (rc_id c) = history_of s (rc_id c) @ rows"
    "map ct_to_state rows = path" "chained (rc_state c) rows (rc_state c')" by (auto simp: follows_def)
  have "length rows = length path" using arg_cong [OF rows(2), of length] by simp
  moreover have "fsm_run (rc_state c) (map ct_to_state rows) (wr_final_state res)"
    using chained_run [OF rows(3)] f(2) by simp
  ultimately show ?thesis
    using f rows unfolding follows_def
    by (intro exI [of _ c'] exI [of _ rows]) simp
qed

text \<open>When the safety policy lets an action through that the agent
  wants reviewed by a human, the run can only return for a case of priority at most 100 and a
  rationale of at most 500 characters: the escalation tool refuses anything else and the whole run
  is lost. A fraud case of a small amount is scored above 100 the day it is opened.\<close>

theorem unurgent_review_cannot_escalate:
  assumes "run env c t cust codes corr s = Inr (res, u)" and "session_ok s"
    and "find_case s (rc_id c) = Some c"
    and "sf_outcome (wr_policy res) = Out_ALLOW" and "do_requires_review (wr_decision res)"
  shows "rc_priority c \<le> 100 \<and> length (do_rationale (wr_decision res)) \<le> 500
    \<and> (\<forall>amount cur ev opened now. amount < 25000 \<longrightarrow>
          rc_priority c < pr_priority (calculate_priority amount cur (Some ''fraud_suspected'') ev opened now))"
proof -
  have p: "rc_priority c \<le> 100" "length (do_rationale (wr_decision res)) \<le> 500"
    using run_path [OF assms(1-3)] assms(4,5) by blast+
  have f: "failure_adjustment (Some ''fraud_suspected'') = Some 50" by code_simp
  have score: "130 \<le> priority_score amount (Some ''fraud_suspected'') opened now" if "amount < 25000" for amount opened now
    using that
    by (simp add: priority_score_def f adj_def base_priority_def exposure_adjustment_def age_adjustment_def
        Let_def split: option.split)
  have "100 < pr_priority (calculate_priority amount cur (Some ''fraud_suspected'') ev opened now)"
    if "amount < 25000" for amount cur ev opened now
    using score [OF that, of opened now] by (simp add: calculate_priority_def Let_def)
  with p show ?thesis by (meson le_less_trans)
qed

section \<open>Witnesses\<close>

definition demo_run_env :: run_env where
  "demo_run_env =
     \<lparr>rv_now = Aware 5, rv_decision_id = ''d'', rv_attempt_id = ''a'', rv_correlation = ''k'',
      rv_decide = (\<lambda>_. Inr (demo_output\<lparr>do_requires_review := True\<rparr>)), rv_policy = default_safety_config\<rparr>"

definition demo_run_tx :: transaction where
  "demo_run_tx =
     \<lparr>tx_id = ''tx'', tx_customer_id = ''cust'', tx_provider = ''razorpay'', tx_external_id = ''pay_1'',
      tx_amount_minor = 5000, tx_currency = ''INR'', tx_status = Tx_FAILED, tx_failure_code = None,
      tx_failure_message = None, tx_occurred_at = Aware 5, tx_metadata = []\<rparr>"

definition demo_run_session :: session where
  "demo_run_session = empty_session\<lparr>cases := [demo_row]\<rparr>"

lemma demo_run_facts:
  "session_ok demo_run_session" "find_case demo_run_session (rc_id demo_row) = Some demo_row"
  unfolding session_ok_def by code_simp+

lemma demo_run:
  "case run demo_run_env demo_row demo_run_tx None [''r''] ''corr'' demo_run_session of
     Inl e \<Rightarrow> False
   | Inr (res, u) \<Rightarrow> sf_outcome (wr_policy res) = Out_ALLOW \<and> do_requires_review (wr_decision res)"
  by code_simp

lemma demo_run_returns:
  obtains res u where "run demo_run_env demo_row demo_run_tx None [''r''] ''corr'' demo_run_session = Inr (res, u)"
    "sf_outcome (wr_policy res) = Out_ALLOW" "do_requires_review (wr_decision res)"
proof (cases "run demo_run_env demo_row demo_run_tx None [''r''] ''corr'' demo_run_session")
  case (Inl e)
  with demo_run show thesis by simp
next
  case (Inr p)
  with demo_run that show thesis by (cases p) simp
qed

lemma run_refines_lifecycle_witness:
  "\<exists>res u (rows :: case_transition list). run demo_run_env demo_row demo_run_tx None [''r''] ''corr'' demo_run_session = Inr (res, u)
     \<and> run_outcome demo_run_session u demo_row res (map ct_to_state rows)
     \<and> fsm_run Case_DETECTED (map ct_to_state rows) (wr_final_state res)"
proof -
  obtain res u where run: "run demo_run_env demo_row demo_run_tx None [''r''] ''corr'' demo_run_session = Inr (res, u)"
    using demo_run_returns by blast
  from run_refines_lifecycle [OF run demo_run_facts] run show ?thesis by blast
qed

lemma unurgent_review_cannot_escalate_witness:
  "\<exists>res u. run demo_run_env demo_row demo_run_tx None [''r''] ''corr'' demo_run_session = Inr (res, u)
     \<and> do_requires_review (wr_decision res) \<and> rc_priority demo_row \<le> 100"
proof -
  obtain res u where run: "run demo_run_env demo_row demo_run_tx None [''r''] ''corr'' demo_run_session = Inr (res, u)"
    and r: "sf_outcome (wr_policy res) = Out_ALLOW" "do_requires_review (wr_decision res)"
    by (rule demo_run_returns)
  have "rc_priority demo_row \<le> 100"
    by (rule unurgent_review_cannot_escalate [OF run demo_run_facts r, THEN conjunct1])
  with run r(2) show ?thesis by blast
qed

end
