(* ===== verification/Http.thy ===== *)
theory Http
  imports Prelude
begin

text \<open>
  The HTTP boundary: the exception handlers that \<open>register_exception_handlers\<close>
  (\<open>backend/app/core/errors.py\<close>) installs, and the request identifiers of the error body
  (\<open>_get_request_id\<close>) and of the access log and response header
  (\<open>RequestObservabilityMiddleware._request_id\<close>, core/observability.py).

  A route ends with a value or with a \<open>route_error\<close>: an exception of the program, FastAPI's
  \<open>HTTPException\<close> with its status, or a request refused by schema validation before the route runs.
  Messages, details and the timestamp of the error body are left out; header names are compared in
  lower case, as Starlette does.
\<close>

datatype route_error =
    Raised py_error
  | Http_error int
  | Invalid_request

record error_answer =
  ea_status :: int
  ea_code :: string

definition revenue_rescue_handler :: "app_error \<Rightarrow> error_answer" where
  "revenue_rescue_handler e = \<lparr>ea_status = status_code e, ea_code = error_code e\<rparr>"

definition validation_handler :: error_answer where
  "validation_handler = \<lparr>ea_status = 422, ea_code = ''VALIDATION_FAILED''\<rparr>"

definition http_handler :: "int \<Rightarrow> error_answer" where
  "http_handler st =
     \<lparr>ea_status = st,
      ea_code = (if st = 401 then ''UNAUTHORIZED'' else if st = 403 then ''FORBIDDEN''
                 else if st = 404 then ''RESOURCE_NOT_FOUND'' else if st = 400 then ''BAD_REQUEST''
                 else ''HTTP_ERROR'')\<rparr>"

definition unhandled_handler :: error_answer where
  "unhandled_handler = \<lparr>ea_status = 500, ea_code = ''INTERNAL_SERVER_ERROR''\<rparr>"

text \<open>The handler registered for the most specific class of the exception answers.\<close>

fun answer_error :: "route_error \<Rightarrow> error_answer" where
  "answer_error (Raised (AppError e)) = revenue_rescue_handler e"
| "answer_error (Raised _) = unhandled_handler"
| "answer_error (Http_error st) = http_handler st"
| "answer_error Invalid_request = validation_handler"

text \<open>
  \<open>except ValueError as exc: raise HTTPException(400)\<close>, as the workflow routes have it. The
  other exceptions of the model are not \<open>ValueError\<close>s.
\<close>

definition value_error_is_400 :: "py_error + 'a \<Rightarrow> route_error + 'a" where
  "value_error_is_400 r =
     (case r of
        Inr x \<Rightarrow> Inr x
      | Inl (ValueError _) \<Rightarrow> Inl (Http_error 400)
      | Inl e \<Rightarrow> Inl (Raised e))"

definition raised :: "py_error + 'a \<Rightarrow> route_error + 'a" where
  "raised r = (case r of Inl e \<Rightarrow> Inl (Raised e) | Inr x \<Rightarrow> Inr x)"

lemma raised_simps [simp]: "raised (Inl e) = Inl (Raised e)" "raised (Inr x) = Inr x"
  by (simp_all add: raised_def)

lemma raised_Inr [simp]: "raised r = Inr x \<longleftrightarrow> r = Inr x"
  by (simp add: raised_def split: sum.splits)

lemma value_error_is_400_Inr [simp]: "value_error_is_400 r = Inr x \<longleftrightarrow> r = Inr x"
  by (auto simp: value_error_is_400_def split: sum.splits py_error.splits)

text \<open>A failed request is never answered with a success status.\<close>

lemma answer_error_400: "400 \<le> ea_status (answer_error (Raised e))"
  using status_client_error by (cases e) (simp_all add: revenue_rescue_handler_def unhandled_handler_def)

lemma answer_error_500:
  "500 \<le> ea_status (answer_error (Raised e)) \<longleftrightarrow> (\<forall>x. e = AppError x \<longrightarrow> error_code x = ''DATABASE_UNAVAILABLE'')"
proof (cases e)
  case (AppError x)
  then show ?thesis using status_client_error [of x] by (auto simp: revenue_rescue_handler_def)
qed (simp_all add: unhandled_handler_def)

section \<open>Request identifiers\<close>

type_synonym headers = "(string \<times> string) list"

definition header :: "headers \<Rightarrow> string \<Rightarrow> string option" where
  "header hs k = map_option snd (find (\<lambda>(n, _). py_lower n = k) hs)"

text \<open>\<open>request.state.request_id\<close> is never set by the program; it is the last argument.\<close>

definition get_request_id :: "headers \<Rightarrow> string option \<Rightarrow> string option" where
  "get_request_id hs state =
     (if truthy (header hs ''x-request-id'') then header hs ''x-request-id''
      else if truthy (header hs ''x-correlation-id'') then header hs ''x-correlation-id''
      else state)"

definition ascii_only :: "string \<Rightarrow> string" where
  "ascii_only s = filter (\<lambda>c. (of_char c :: nat) < 128) s"

definition observed_request_id :: "headers \<Rightarrow> uuid \<Rightarrow> string" where
  "observed_request_id hs fresh =
     (case find (\<lambda>(n, v). py_lower n = ''x-request-id'' \<and> v \<noteq> []) hs of
        None \<Rightarrow> fresh
      | Some (_, v) \<Rightarrow> (let t = take 128 (ascii_only v) in if t \<noteq> [] then t else fresh))"

text \<open>
  The two agree on a request that brings one non-empty ASCII identifier of at most 128 characters.
  Without one, the error body has the correlation header or no identifier at all, and never the
  generated one that the log and the response header carry.
\<close>

lemma request_ids_agree:
  assumes "header hs ''x-request-id'' = Some v" and "v \<noteq> []" and "length v \<le> 128"
    and "\<forall>c \<in> set v. (of_char c :: nat) < 128"
  shows "get_request_id hs None = Some v \<and> observed_request_id hs fresh = v"
proof -
  have "find (\<lambda>(n, v). py_lower n = ''x-request-id'' \<and> v \<noteq> []) hs = find (\<lambda>(n, _). py_lower n = ''x-request-id'') hs"
    using assms(1,2) by (induction hs) (auto simp: header_def split: if_splits)
  moreover have "ascii_only v = v" using assms(4) by (simp add: ascii_only_def)
  ultimately show ?thesis
    using assms(1-3) by (auto simp: get_request_id_def observed_request_id_def header_def split: prod.splits)
qed

lemma generated_id_not_in_body:
  assumes "\<forall>(n, v) \<in> set hs. py_lower n \<notin> {''x-request-id'', ''x-correlation-id''}"
  shows "get_request_id hs None = None \<and> observed_request_id hs fresh = fresh"
proof -
  have "header hs k = None" if "k \<in> {''x-request-id'', ''x-correlation-id''}" for k
    using assms that by (fastforce simp: header_def find_None_iff)
  moreover have "find (\<lambda>(n, v). py_lower n = ''x-request-id'' \<and> v \<noteq> []) hs = None"
    using assms by (fastforce simp: find_None_iff)
  ultimately show ?thesis by (simp add: get_request_id_def observed_request_id_def)
qed

end
