(* ===== verification/Listings.thy ===== *)
theory Listings
  imports Auth Http
begin

text \<open>
  The paged listings: \<open>PaginatedResponse\<close> and \<open>PaginationMetadata\<close> (\<open>backend/app/schemas/common.py\<close>),
  \<open>list_users\<close> (services/auth_service.py), \<open>list_customers\<close>, \<open>list_transactions_for_customer\<close> and
  \<open>list_cases\<close> of the record services, and \<open>list_events\<close> (services/event_service.py), each with its
  repository query.

  Rows answer for their DTOs, which copy them. \<open>created_at\<close> is no field of the model's rows, so
  a listing ordered by it takes it as the function \<open>created\<close>; rows of one instant keep the order of
  the table. \<open>math.ceil(total / size)\<close> is the ceiling of the exact quotient, which it is below
  \<open>2 ^ 46\<close> rows. The locale \<open>paged_query\<close> is what a listing promises to a client that walks its pages;
  every listing is an interpretation of it.
\<close>

record 'a page_response =
  pg_items :: "'a list"
  pg_total :: int
  pg_page :: int
  pg_size :: int
  pg_pages :: int
  pg_has_more :: bool

definition total_pages :: "int \<Rightarrow> int \<Rightarrow> int" where
  "total_pages found per = (if found > 0 then \<lceil>(of_int found :: rat) / of_int per\<rceil> else 0)"

definition limit_offset :: "int \<Rightarrow> int \<Rightarrow> 'a list \<Rightarrow> 'a list" where
  "limit_offset limit offset rows = take (nat limit) (drop (nat offset) rows)"

definition paginated :: "int \<Rightarrow> int \<Rightarrow> int \<Rightarrow> 'a list \<Rightarrow> 'a page_response" where
  "paginated page per found items =
     (let pages = total_pages found per
      in \<lparr>pg_items = items, pg_total = found, pg_page = page, pg_size = per, pg_pages = pages,
          pg_has_more = (page < pages)\<rparr>)"

section \<open>Walking the pages\<close>

lemma total_pages_div: "0 < found \<Longrightarrow> total_pages found per = - ((- found) div per)"
  by (simp add: total_pages_def ceiling_divide_eq_div)

lemma total_pages_bounds:
  assumes "1 \<le> per" and "0 \<le> found"
  shows "0 \<le> total_pages found per" "found \<le> total_pages found per * per"
    "p < total_pages found per \<longleftrightarrow> p * per < found \<or> (found > 0 \<and> p < 0)"
proof -
  have p: "0 < per" using assms by simp
  let ?q = "- ((- found) div per)"
  have e: "- found = per * ((- found) div per) + (- found) mod per" by simp
  have r: "0 \<le> (- found) mod per" "(- found) mod per < per" using p by simp_all
  have m: "?q * per = - (per * ((- found) div per))" by (simp add: mult.commute)
  have up: "found \<le> ?q * per" unfolding m using e r by linarith
  have "(?q - 1) * per = ?q * per - per" by (simp add: left_diff_distrib)
  then have lo: "(?q - 1) * per < found" unfolding m using e r by linarith
  have iff: "p < ?q \<longleftrightarrow> p * per < found" for p
  proof
    assume "p < ?q"
    then have "p * per \<le> (?q - 1) * per" using p by (intro mult_right_mono) auto
    with lo show "p * per < found" by simp
  next
    assume "p * per < found"
    with up have "p * per < ?q * per" by linarith
    with p show "p < ?q" using mult_less_cancel_right_pos [of per p ?q] by simp
  qed
  show "found \<le> total_pages found per * per"
  proof (cases "0 < found")
    case True
    with up show ?thesis by (simp add: total_pages_div)
  next
    case False
    with assms(2) show ?thesis by (simp add: total_pages_def)
  qed
  show "0 \<le> total_pages found per"
  proof (cases "0 < found")
    case True
    with iff [of 0] show ?thesis by (simp add: total_pages_div)
  qed (simp add: total_pages_def)
  show "p < total_pages found per \<longleftrightarrow> p * per < found \<or> (found > 0 \<and> p < 0)"
  proof (cases "0 < found")
    case True
    have "p < 0 \<Longrightarrow> p * per < found" using p True by (smt (verit) mult_neg_pos)
    with True iff [of p] show ?thesis by (auto simp: total_pages_div)
  next
    case False
    with assms p show ?thesis by (auto simp: total_pages_def mult_less_0_iff)
  qed
qed

lemma concat_windows:
  "concat (map (\<lambda>i. take k (drop (i * k) xs)) [0..<n]) = take (n * k) xs"
proof (induction n)
  case (Suc n)
  have "take (n * k) xs @ take k (drop (n * k) xs) = take (n * k + k) xs"
    by (simp add: take_add)
  with Suc show ?case by (simp add: add.commute)
qed simp

locale paged_query =
  fixes query :: "int \<Rightarrow> int \<Rightarrow> 'r page_response"
    and rows :: "'r list"
  assumes query_page: "1 \<le> page \<Longrightarrow> 1 \<le> per \<Longrightarrow>
      query page per = paginated page per (int (length rows)) (limit_offset per ((page - 1) * per) rows)"
begin

lemma page_length: "1 \<le> page \<Longrightarrow> 1 \<le> per \<Longrightarrow> int (length (pg_items (query page per))) \<le> per"
  by (simp add: query_page paginated_def limit_offset_def Let_def)

lemma page_total: "1 \<le> page \<Longrightarrow> 1 \<le> per \<Longrightarrow> pg_total (query page per) = int (length rows)"
  by (simp add: query_page paginated_def Let_def)

lemma pages_cover:
  assumes "1 \<le> per"
  shows "concat (map (\<lambda>i. pg_items (query (1 + int i) per)) [0..<nat (pg_pages (query 1 per))]) = rows"
proof -
  let ?n = "nat (pg_pages (query 1 per))"
  have pages: "pg_pages (query 1 per) = total_pages (int (length rows)) per"
    using assms by (simp add: query_page paginated_def Let_def)
  have "pg_items (query (1 + int i) per) = take (nat per) (drop (i * nat per) rows)" for i
    using assms by (simp add: query_page paginated_def limit_offset_def Let_def nat_mult_distrib)
  then have "concat (map (\<lambda>i. pg_items (query (1 + int i) per)) [0..<?n]) = take (?n * nat per) rows"
    using concat_windows [of "nat per" rows ?n] by simp
  moreover have "length rows \<le> ?n * nat per"
  proof -
    have "int (length rows) \<le> total_pages (int (length rows)) per * per"
      using total_pages_bounds(2) [OF assms, of "int (length rows)"] by simp
    then show ?thesis
      using total_pages_bounds(1) [OF assms, of "int (length rows)"] assms
      by (simp add: pages le_nat_iff nat_mult_distrib [symmetric] flip: int_nat_eq)
  qed
  ultimately show ?thesis by simp
qed

lemma more_iff_next_page:
  assumes "1 \<le> page" and "1 \<le> per"
  shows "pg_has_more (query page per) \<longleftrightarrow> pg_items (query (page + 1) per) \<noteq> []"
proof -
  have "pg_has_more (query page per) \<longleftrightarrow> page * per < int (length rows)"
    using assms total_pages_bounds(3) [of per "int (length rows)" page]
    by (auto simp: query_page paginated_def Let_def)
  also have "\<dots> \<longleftrightarrow> nat (page * per) < length rows" using assms by (auto simp: nat_less_iff)
  also have "\<dots> \<longleftrightarrow> pg_items (query (page + 1) per) \<noteq> []"
    using assms by (auto simp: query_page paginated_def limit_offset_def Let_def)
  finally show ?thesis .
qed

end

section \<open>The listings\<close>

text \<open>An optional filter of a query: no value, no condition.\<close>

definition matches :: "'v option \<Rightarrow> 'v \<Rightarrow> bool" where
  "matches wanted v = (case wanted of None \<Rightarrow> True | Some w \<Rightarrow> v = w)"

definition newest_first :: "('a \<Rightarrow> int) \<Rightarrow> 'a list \<Rightarrow> 'a list" where
  "newest_first created rows = sort_key (\<lambda>r. - created r) rows"

subsection \<open>Users\<close>

definition user_matches :: "user_role option \<Rightarrow> user_status option \<Rightarrow> user \<Rightarrow> bool" where
  "user_matches role status u = (matches role (us_role u) \<and> matches status (us_status u))"

definition repo_list_users ::
  "(user \<Rightarrow> int) \<Rightarrow> user_role option \<Rightarrow> user_status option \<Rightarrow> int \<Rightarrow> int \<Rightarrow> user_store \<Rightarrow> user list" where
  "repo_list_users created role status limit offset us =
     limit_offset limit offset (newest_first created (filter (user_matches role status) us))"

definition count_users :: "user_role option \<Rightarrow> user_status option \<Rightarrow> user_store \<Rightarrow> int" where
  "count_users role status us = int (length (filter (user_matches role status) us))"

definition list_users ::
  "(user \<Rightarrow> int) \<Rightarrow> user_role option \<Rightarrow> user_status option \<Rightarrow> user_store \<Rightarrow> int \<Rightarrow> int \<Rightarrow> user page_response" where
  "list_users created role status us page per =
     paginated page per (count_users role status us)
       (repo_list_users created role status per ((page - 1) * per) us)"

subsection \<open>Customers, transactions, cases\<close>

definition repo_list_customers ::
  "(customer \<Rightarrow> int) \<Rightarrow> customer_status option \<Rightarrow> int \<Rightarrow> int \<Rightarrow> session \<Rightarrow> customer list" where
  "repo_list_customers created status limit offset s =
     limit_offset limit offset (newest_first created (filter (\<lambda>c. matches status (cu_status c)) (customers s)))"

definition list_customers ::
  "(customer \<Rightarrow> int) \<Rightarrow> customer_status option \<Rightarrow> session \<Rightarrow> int \<Rightarrow> int \<Rightarrow> customer page_response" where
  "list_customers created status s page per =
     paginated page per (int (length (filter (\<lambda>c. matches status (cu_status c)) (customers s))))
       (repo_list_customers created status per ((page - 1) * per) s)"

definition customer_transactions :: "uuid \<Rightarrow> transaction_status option \<Rightarrow> session \<Rightarrow> transaction list" where
  "customer_transactions cid status s =
     filter (\<lambda>t. tx_customer_id t = cid \<and> matches status (tx_status t)) (transactions s)"

definition repo_transactions_by_customer ::
  "uuid \<Rightarrow> transaction_status option \<Rightarrow> int \<Rightarrow> int \<Rightarrow> session \<Rightarrow> transaction list" where
  "repo_transactions_by_customer cid status limit offset s =
     limit_offset limit offset
       (newest_first (\<lambda>t. instant (tx_occurred_at t)) (customer_transactions cid status s))"

definition list_transactions_for_customer ::
  "uuid \<Rightarrow> transaction_status option \<Rightarrow> session \<Rightarrow> int \<Rightarrow> int \<Rightarrow> py_error + transaction page_response" where
  "list_transactions_for_customer cid status s page per =
     (case find_customer s cid of
        None \<Rightarrow> Inl (AppError (EntityNotFound ''Customer'' cid))
      | Some _ \<Rightarrow>
          Inr (paginated page per (int (length (customer_transactions cid status s)))
                 (repo_transactions_by_customer cid status per ((page - 1) * per) s)))"

definition service_case_matches :: "case_state option \<Rightarrow> uuid option \<Rightarrow> recovery_case \<Rightarrow> bool" where
  "service_case_matches state cid c = (matches state (rc_state c) \<and> matches cid (rc_customer_id c))"

definition repo_list_cases ::
  "case_state option \<Rightarrow> uuid option \<Rightarrow> int \<Rightarrow> int \<Rightarrow> session \<Rightarrow> recovery_case list" where
  "repo_list_cases state cid limit offset s =
     limit_offset limit offset
       (newest_first (\<lambda>c. instant (rc_opened_at c)) (filter (service_case_matches state cid) (cases s)))"

definition repo_cases_by_customer :: "uuid \<Rightarrow> int \<Rightarrow> int \<Rightarrow> session \<Rightarrow> recovery_case list" where
  "repo_cases_by_customer cid limit offset s =
     limit_offset limit offset
       (newest_first (\<lambda>c. instant (rc_opened_at c)) (filter (\<lambda>c. rc_customer_id c = cid) (cases s)))"

definition count_by_state :: "case_state \<Rightarrow> session \<Rightarrow> int" where
  "count_by_state st s = int (length (filter (\<lambda>c. rc_state c = st) (cases s)))"

definition service_list_cases ::
  "case_state option \<Rightarrow> uuid option \<Rightarrow> session \<Rightarrow> int \<Rightarrow> int \<Rightarrow> recovery_case page_response" where
  "service_list_cases state cid s page per =
     paginated page per (int (length (filter (service_case_matches state cid) (cases s))))
       (repo_list_cases state cid per ((page - 1) * per) s)"

subsection \<open>Events\<close>

text \<open>
  An empty text filter is no filter. \<open>list_events\<close> clamps its arguments and answers one page for an
  empty listing; it has no \<open>has_more\<close>.
\<close>

definition event_matches ::
  "string option \<Rightarrow> string option \<Rightarrow> string option \<Rightarrow> bool option \<Rightarrow> webhook_event \<Rightarrow> bool" where
  "event_matches provider etype status processed e \<longleftrightarrow>
     (truthy provider \<longrightarrow> provider = Some (we_provider e)) \<and> (truthy etype \<longrightarrow> etype = Some (we_event_type e))
     \<and> (truthy status \<longrightarrow> status = Some (we_ingestion_status e)) \<and> matches processed (we_processed e)"

definition repo_list_events ::
  "(webhook_event \<Rightarrow> int) \<Rightarrow> (webhook_event \<Rightarrow> bool) \<Rightarrow> int \<Rightarrow> int \<Rightarrow> session \<Rightarrow> webhook_event list \<times> int" where
  "repo_list_events created P page limit s =
     (limit_offset limit ((page - 1) * limit) (newest_first created (filter P (webhooks s))),
      int (length (filter P (webhooks s))))"

record events_page =
  ep_items :: "webhook_event list"
  ep_total :: int
  ep_page :: int
  ep_limit :: int
  ep_pages :: int

definition list_events ::
  "(webhook_event \<Rightarrow> int) \<Rightarrow> (webhook_event \<Rightarrow> bool) \<Rightarrow> session \<Rightarrow> int \<Rightarrow> int \<Rightarrow> events_page" where
  "list_events created P s page limit =
     (let limit' = max 1 (min limit 100); page' = max 1 page;
          (items, n) = repo_list_events created P page' limit' s
      in \<lparr>ep_items = items, ep_total = n, ep_page = page', ep_limit = limit',
          ep_pages = (if n > 0 then total_pages n limit' else 1)\<rparr>)"

section \<open>Every listing can be walked\<close>

lemma length_newest_first [simp]: "length (newest_first k xs) = length xs"
  by (simp add: newest_first_def)

interpretation users_query: paged_query
  "list_users created role status us" "newest_first created (filter (user_matches role status) us)"
  for created role status us
  by unfold_locales (simp add: list_users_def count_users_def repo_list_users_def)

interpretation customers_query: paged_query
  "list_customers created status s"
  "newest_first created (filter (\<lambda>c. matches status (cu_status c)) (customers s))"
  for created status s
  by unfold_locales (simp add: list_customers_def repo_list_customers_def)

interpretation service_cases_query: paged_query
  "service_list_cases state cid s"
  "newest_first (\<lambda>c. instant (rc_opened_at c)) (filter (service_case_matches state cid) (cases s))"
  for state cid s
  by unfold_locales (simp add: service_list_cases_def repo_list_cases_def)

text \<open>The transactions of a known customer, and the events up to the limit of one hundred.\<close>

definition known_transactions_page ::
  "uuid \<Rightarrow> transaction_status option \<Rightarrow> session \<Rightarrow> int \<Rightarrow> int \<Rightarrow> transaction page_response" where
  "known_transactions_page cid status s page per =
     paginated page per (int (length (customer_transactions cid status s)))
       (repo_transactions_by_customer cid status per ((page - 1) * per) s)"

interpretation transactions_query: paged_query
  "known_transactions_page cid status s"
  "newest_first (\<lambda>t. instant (tx_occurred_at t)) (customer_transactions cid status s)"
  for cid status s
  by unfold_locales (simp add: known_transactions_page_def repo_transactions_by_customer_def)

lemma list_transactions_known:
  "find_customer s cid = Some c \<Longrightarrow>
     list_transactions_for_customer cid status s page per = Inr (known_transactions_page cid status s page per)"
  by (simp add: list_transactions_for_customer_def known_transactions_page_def)

end
