(* ===== verification/Case_Queries.thy ===== *)
theory Case_Queries
  imports Listings Case_Service "HOL-Library.Multiset"
begin

text \<open>
  The queries of \<open>backend/app/api/routes/cases.py\<close>: \<open>list_cases\<close> with its filters, orders, paging
  and the tier filter applied afterwards, \<open>get_case_detail\<close>, and \<open>get_case_events\<close> of
  services/recovery_case_service.py with the mappers of mappers/recovery_cases.py.

  \<open>ilike\<close> is SQL's case-insensitive LIKE, so \<open>%\<close> and \<open>_\<close> in the search text are wildcards; the
  case-sensitive or insensitive LIKE of the database is the argument \<open>collate\<close> of \<open>get_case_events\<close>.
  DTOs of customers and transactions copy the rows and answer as the rows. Rows that the order does
  not separate keep the order of the table. Event ids in the metadata that are no text match no row.
\<close>

section \<open>Matching text\<close>

function (sequential) sql_like :: "string \<Rightarrow> string \<Rightarrow> bool" where
  "sql_like [] s = (s = [])"
| "sql_like (p # ps) s =
     (if p = CHR ''%'' then sql_like ps s \<or> (case s of [] \<Rightarrow> False | _ # t \<Rightarrow> sql_like (p # ps) t)
      else (case s of [] \<Rightarrow> False | c # t \<Rightarrow> (p = CHR ''_'' \<or> p = c) \<and> sql_like ps t))"
  by pat_completeness auto
termination by (relation "measure (\<lambda>(p, s). length p + length s)") auto

definition sql_ilike :: "string \<Rightarrow> string \<Rightarrow> bool" where
  "sql_ilike pattern s = sql_like (py_lower pattern) (py_lower s)"

definition search_pattern :: "string \<Rightarrow> string" where
  "search_pattern search = ''%'' @ py_strip search @ ''%''"

text \<open>A search text without wildcards finds exactly the texts that contain it.\<close>

lemma sql_like_suffix: "sql_like [CHR ''%''] s"
  by (induction s) auto

lemma sql_like_prefix:
  assumes "CHR ''%'' \<notin> set p" and "CHR ''_'' \<notin> set p"
  shows "sql_like (p @ [CHR ''%'']) s \<longleftrightarrow> starts_with p s"
  using assms
proof (induction p arbitrary: s)
  case Nil
  show ?case using sql_like_suffix by (simp add: starts_with_def del: sql_like.simps)
next
  case (Cons c p)
  then show ?case by (cases s) (auto simp: starts_with_def)
qed

lemma sql_like_contains:
  assumes "CHR ''%'' \<notin> set p" and "CHR ''_'' \<notin> set p"
  shows "sql_like (CHR ''%'' # p @ [CHR ''%'']) s \<longleftrightarrow> contains p s"
proof (induction s)
  case Nil
  show ?case using sql_like_prefix [OF assms, of "[]"] by (auto simp: starts_with_def)
next
  case (Cons c s)
  then show ?case using sql_like_prefix [OF assms, of "c # s"] by simp
qed

section \<open>Listing the cases\<close>

record case_query =
  qy_state :: "string option"
  qy_customer_id :: "uuid option"
  qy_priority_min :: "int option"
  qy_priority_max :: "int option"
  qy_risk_tier :: "string option"
  qy_search :: "string option"
  qy_sort_by :: string
  qy_sort_order :: string

text \<open>An unknown state becomes the condition \<open>state IS NULL\<close>, which no row meets.\<close>

definition state_condition :: "string option \<Rightarrow> recovery_case \<Rightarrow> bool" where
  "state_condition st c =
     (case st of
        None \<Rightarrow> True
      | Some t \<Rightarrow>
          (case parse_enum case_state_members case_state_value (py_lower t) of
             Inl _ \<Rightarrow> False
           | Inr x \<Rightarrow> rc_state c = x))"

definition search_condition :: "session \<Rightarrow> string option \<Rightarrow> recovery_case \<Rightarrow> bool" where
  "search_condition s search c =
     (case search of
        None \<Rightarrow> True
      | Some t \<Rightarrow>
          (let hit = sql_ilike (search_pattern t)
           in hit (rc_case_key c)
              \<or> (case find_customer s (rc_customer_id c) of None \<Rightarrow> False | Some cu \<Rightarrow> hit (cu_external_id cu))
              \<or> (case find_transaction s (rc_trigger_transaction_id c) of
                   None \<Rightarrow> False | Some tx \<Rightarrow> hit (tx_external_id tx))))"

definition case_condition :: "session \<Rightarrow> case_query \<Rightarrow> recovery_case \<Rightarrow> bool" where
  "case_condition s q c \<longleftrightarrow>
     state_condition (qy_state q) c \<and> matches (qy_customer_id q) (rc_customer_id c)
     \<and> (case qy_priority_min q of None \<Rightarrow> True | Some m \<Rightarrow> m \<le> rc_priority c)
     \<and> (case qy_priority_max q of None \<Rightarrow> True | Some m \<Rightarrow> rc_priority c \<le> m)
     \<and> search_condition s (qy_search q) c"

definition sort_value :: "string \<Rightarrow> recovery_case \<Rightarrow> int" where
  "sort_value field c =
     (if field = ''opened_at'' then instant (rc_opened_at c)
      else if field = ''last_state_changed_at'' then instant (rc_last_state_changed_at c)
      else rc_priority c)"

definition order_cases :: "case_query \<Rightarrow> recovery_case list \<Rightarrow> recovery_case list" where
  "order_cases q cs =
     (if py_lower (qy_sort_order q) = ''desc''
      then sort_key (\<lambda>c. - sort_value (qy_sort_by q) c) (sort_key (\<lambda>c. - instant (rc_opened_at c)) cs)
      else sort_key (sort_value (qy_sort_by q)) (sort_key (\<lambda>c. - instant (rc_last_state_changed_at c)) cs))"

text \<open>\<open>(c.metadata_json or {}).get("risk_tier", "").lower() == clean_tier\<close>; a tier that is no text
  has no \<open>lower\<close>.\<close>

definition tier_matches :: "string \<Rightarrow> recovery_case \<Rightarrow> py_error + bool" where
  "tier_matches tier c =
     (case map_of (rc_metadata c) ''risk_tier'' of
        None \<Rightarrow> Inr ([] = tier)
      | Some (JStr t) \<Rightarrow> Inr (py_lower t = tier)
      | Some _ \<Rightarrow> Inl AttributeError)"

fun filter_ok :: "('a \<Rightarrow> 'e + bool) \<Rightarrow> 'a list \<Rightarrow> 'e + 'a list" where
  "filter_ok P [] = Inr []"
| "filter_ok P (x # xs) = ebind (P x) (\<lambda>b. ebind (filter_ok P xs) (\<lambda>ys. Inr (if b then x # ys else ys)))"

definition tier_filter :: "string option \<Rightarrow> recovery_case list \<Rightarrow> py_error + recovery_case list" where
  "tier_filter tier cs =
     (case tier of None \<Rightarrow> Inr cs | Some t \<Rightarrow> filter_ok (tier_matches (py_lower (py_strip t))) cs)"

record case_item =
  ci_case :: recovery_case
  ci_customer :: "customer option"
  ci_transaction :: "transaction option"
  ci_attempts_count :: int

definition to_summary_item :: "session \<Rightarrow> recovery_case \<Rightarrow> case_item" where
  "to_summary_item s c =
     \<lparr>ci_case = c, ci_customer = find_customer s (rc_customer_id c),
      ci_transaction = find_transaction s (rc_trigger_transaction_id c),
      ci_attempts_count = int (length (attempts_of s (rc_id c)))\<rparr>"

definition listed_cases :: "case_query \<Rightarrow> session \<Rightarrow> recovery_case list" where
  "listed_cases q s = order_cases q (filter (case_condition s q) (cases s))"

definition list_cases :: "case_query \<Rightarrow> session \<Rightarrow> int \<Rightarrow> int \<Rightarrow> route_error + case_item page_response" where
  "list_cases q s page per =
     raised (ebind (tier_filter (qy_risk_tier q) (limit_offset per ((page - 1) * per) (listed_cases q s))) (\<lambda>cs.
       Inr (paginated page per (int (length (filter (case_condition s q) (cases s)))) (map (to_summary_item s) cs))))"

section \<open>One case\<close>

definition get_case_detail :: "uuid \<Rightarrow> session \<Rightarrow> route_error + case_item" where
  "get_case_detail cid s =
     (case find_case s cid of
        None \<Rightarrow> Inl (Raised (AppError (EntityNotFound ''RecoveryCase'' cid)))
      | Some c \<Rightarrow> Inr (to_summary_item s c))"

text \<open>The event ids noted in the metadata; putting a list or dict into the set raises TypeError.\<close>

fun hashable :: "json \<Rightarrow> bool" where
  "hashable (JList _) = False"
| "hashable (JObj _) = False"
| "hashable _ = True"

definition noted_events :: "recovery_case \<Rightarrow> json list" where
  "noted_events c =
     concat (map (\<lambda>k. case map_of (rc_metadata c) k of None \<Rightarrow> [] | Some v \<Rightarrow> [v])
               [''source_event_id'', ''latest_failure_event_id''])"

definition events_like :: "(string \<Rightarrow> string) \<Rightarrow> session \<Rightarrow> string \<Rightarrow> webhook_event list" where
  "events_like collate s ref =
     take 20 (filter (\<lambda>e. sql_like (collate (''%'' @ ref @ ''%'')) (collate (we_external_event_id e))) (webhooks s))"

definition get_case_events :: "(string \<Rightarrow> string) \<Rightarrow> uuid \<Rightarrow> session \<Rightarrow> py_error + webhook_event list" where
  "get_case_events collate cid s =
     (case find_case s cid of
        None \<Rightarrow> Inl (AppError (EntityNotFound ''RecoveryCase'' cid))
      | Some c \<Rightarrow>
          if \<not> list_all hashable (noted_events c) then Inl TypeError
          else
            (let found = filter (\<lambda>e. JStr (we_external_event_id e) \<in> set (noted_events c)) (webhooks s)
             in Inr (if found \<noteq> [] then found
                     else (case find_transaction s (rc_trigger_transaction_id c) of
                             None \<Rightarrow> []
                           | Some t \<Rightarrow> events_like collate s (tx_external_id t)))))"

section \<open>The queue can be walked\<close>

lemma length_order_cases [simp]: "length (order_cases q cs) = length cs"
  by (simp add: order_cases_def)

lemma set_order_cases [simp]: "set (order_cases q cs) = set cs"
  by (simp add: order_cases_def)

lemma mset_order_cases [simp]: "mset (order_cases q cs) = mset cs"
  by (simp add: order_cases_def)

definition untiered_page :: "case_query \<Rightarrow> session \<Rightarrow> int \<Rightarrow> int \<Rightarrow> case_item page_response" where
  "untiered_page q s page per =
     paginated page per (int (length (filter (case_condition s q) (cases s))))
       (map (to_summary_item s) (limit_offset per ((page - 1) * per) (listed_cases q s)))"

lemma list_cases_untiered: "qy_risk_tier q = None \<Longrightarrow> list_cases q s page per = Inr (untiered_page q s page per)"
  by (simp add: list_cases_def tier_filter_def untiered_page_def)

interpretation cases_query: paged_query
  "untiered_page q s" "map (to_summary_item s) (listed_cases q s)" for q s
  by unfold_locales
    (simp add: untiered_page_def listed_cases_def limit_offset_def take_map drop_map)

lemma sorted_order:
  "if py_lower (qy_sort_order q) = ''desc''
   then sorted (map (\<lambda>c. - sort_value (qy_sort_by q) c) (order_cases q cs))
   else sorted (map (sort_value (qy_sort_by q)) (order_cases q cs))"
  by (simp add: order_cases_def)

lemma condition_ignores_tier [simp]: "case_condition s (q\<lparr>qy_risk_tier := t\<rparr>) = case_condition s q"
  by (rule ext) (simp add: case_condition_def)

lemma listed_ignores_tier [simp]: "listed_cases (q\<lparr>qy_risk_tier := t\<rparr>) s = listed_cases q s"
  by (simp add: listed_cases_def order_cases_def)

lemma filter_ok_subset: "filter_ok P xs = Inr ys \<Longrightarrow> set ys \<subseteq> set xs"
  by (induction xs arbitrary: ys) (fastforce simp: err_simps split: if_splits)+

lemma map_ok_total: "(\<And>x. f x = Inr (g x)) \<Longrightarrow> map_ok f xs = Inr (map g xs)"
  by (induction xs) simp_all

lemma tier_page:
  assumes "list_cases (q\<lparr>qy_risk_tier := t\<rparr>) s page per = Inr r"
  shows "pg_total r = int (length (filter (case_condition s q) (cases s)))"
    "pg_has_more r = pg_has_more (untiered_page q s page per)"
    "set (pg_items r) \<subseteq> set (pg_items (untiered_page q s page per))"
proof -
  obtain cs where cs: "tier_filter t (limit_offset per ((page - 1) * per) (listed_cases q s)) = Inr cs"
    and r: "r = paginated page per (int (length (filter (case_condition s q) (cases s)))) (map (to_summary_item s) cs)"
    using assms by (auto simp: list_cases_def err_simps)
  have "set cs \<subseteq> set (limit_offset per ((page - 1) * per) (listed_cases q s))"
    using cs filter_ok_subset by (fastforce simp: tier_filter_def split: option.splits)
  then show "pg_total r = int (length (filter (case_condition s q) (cases s)))"
    "pg_has_more r = pg_has_more (untiered_page q s page per)"
    "set (pg_items r) \<subseteq> set (pg_items (untiered_page q s page per))"
    by (auto simp: r paginated_def untiered_page_def Let_def)
qed


definition demo_query :: case_query where
  "demo_query =
     \<lparr>qy_state = None, qy_customer_id = None, qy_priority_min = None, qy_priority_max = None,
      qy_risk_tier = None, qy_search = Some ''KEY'', qy_sort_by = ''priority'', qy_sort_order = ''desc''\<rparr>"

definition demo_urgent :: recovery_case where
  "demo_urgent = demo_case\<lparr>rc_id := ''case2'', rc_case_key := ''key2'', rc_priority := 9\<rparr>"

definition demo_queue :: session where
  "demo_queue = demo_session\<lparr>cases := [demo_case, demo_urgent]\<rparr>"


end
