(* ===== verification/Policy_Api.thy ===== *)
theory Policy_Api
  imports Policy_Engine Workflow_Execution Http
begin

text \<open>
  The consent and history routes of \<open>backend/app/api/routes/policy.py\<close> with
  \<open>CustomerConsentRepository\<close> (repositories/customer_consents.py) and the listing of
  \<open>PolicyDecisionRepository\<close>; evaluating a recommendation is \<open>policy_evaluate\<close>.

  A response copies the row and adds whether the consent is valid now. Registering a consent commits
  with SQLite's and PostgreSQL's foreign keys on, so a consent for an unknown customer raises
  IntegrityError here; the field lengths are pydantic's, checked before the route. The guards are in
  Api.
\<close>

section \<open>The repository\<close>

definition find_consent :: "session \<Rightarrow> uuid \<Rightarrow> consent option" where
  "find_consent s i = find (\<lambda>k. co_id k = i) (consents s)"

definition find_by_customer :: "session \<Rightarrow> uuid \<Rightarrow> consent_type option \<Rightarrow> consent list" where
  "find_by_customer s cid ty =
     filter (\<lambda>k. ty = None \<or> ty = Some (co_type k)) (consents_of s cid)"

text \<open>
  The loop of \<open>find_active_consent\<close>; \<open>now\<close> is reassigned when an expiry is aware and it is not.
\<close>

fun first_unexpired :: "consent list \<Rightarrow> pydatetime \<Rightarrow> py_error + consent option" where
  "first_unexpired [] now = Inr None"
| "first_unexpired (k # ks) now =
     (case co_expires_at k of
        None \<Rightarrow> Inr (Some k)
      | Some t \<Rightarrow>
          (let (t', now') = align_tz t now
           in ebind (dt_ge now' t') (\<lambda>expired.
                if expired then first_unexpired ks now' else Inr (Some k))))"

definition find_active_consent ::
  "session \<Rightarrow> uuid \<Rightarrow> consent_type \<Rightarrow> pydatetime option \<Rightarrow> pydatetime \<Rightarrow> py_error + consent option" where
  "find_active_consent s cid ty at_time clock =
     first_unexpired
       (filter (\<lambda>k. co_type k = ty \<and> co_status k = CStat_GRANTED \<and> co_revoked_at k = None) (consents_of s cid))
       (or_clock at_time clock)"

definition put_consent :: "consent \<Rightarrow> session \<Rightarrow> session" where
  "put_consent k s = s\<lparr>consents := upd_by co_id k (consents s)\<rparr>"

definition revoked :: "consent \<Rightarrow> pydatetime \<Rightarrow> consent" where
  "revoked k since = k\<lparr>co_status := CStat_REVOKED, co_revoked_at := Some since\<rparr>"

definition revoke_consent ::
  "uuid \<Rightarrow> pydatetime option \<Rightarrow> pydatetime \<Rightarrow> session \<Rightarrow> (consent \<times> session) option" where
  "revoke_consent i revoked_at clock s =
     (case find_consent s i of
        None \<Rightarrow> None
      | Some k \<Rightarrow> (let k' = revoked k (or_clock revoked_at clock) in Some (k', put_consent k' s)))"

section \<open>The routes\<close>

record consent_create_dto =
  kc_customer_id :: uuid
  kc_type :: consent_type
  kc_status :: consent_status
  kc_merchant_id :: "string option"
  kc_source :: string
  kc_evidence_reference :: "string option"
  kc_expires_at :: "pydatetime option"

record consent_response =
  kr_consent :: consent
  kr_is_valid :: bool

definition to_consent_response :: "consent \<Rightarrow> pydatetime \<Rightarrow> py_error + consent_response" where
  "to_consent_response k clock =
     ebind (consent_is_valid k None clock) (\<lambda>v. Inr \<lparr>kr_consent = k, kr_is_valid = v\<rparr>)"

definition consent_of_dto :: "consent_create_dto \<Rightarrow> uuid \<Rightarrow> pydatetime \<Rightarrow> consent" where
  "consent_of_dto dto new_id now =
     \<lparr>co_id = new_id, co_customer_id = kc_customer_id dto, co_type = kc_type dto,
      co_status = kc_status dto, co_merchant_id = kc_merchant_id dto, co_granted_at = Some now,
      co_revoked_at = None, co_expires_at = kc_expires_at dto, co_source = kc_source dto,
      co_evidence_reference = kc_evidence_reference dto, co_version = 1\<rparr>"

definition create_customer_consent ::
  "consent_create_dto \<Rightarrow> uuid \<Rightarrow> pydatetime \<Rightarrow> pydatetime \<Rightarrow> session
     \<Rightarrow> route_error + (consent_response \<times> session)" where
  "create_customer_consent dto new_id now later s =
     raised
       (if find_customer s (kc_customer_id dto) = None then Inl (IntegrityError ''fk_consent_customer'')
        else
          (let k = consent_of_dto dto new_id now
           in ebind (commit (s\<lparr>consents := consents s @ [k]\<rparr>)) (\<lambda>t.
              ebind (to_consent_response k later) (\<lambda>r. Inr (r, t)))))"

definition list_customer_consents :: "uuid \<Rightarrow> pydatetime \<Rightarrow> session \<Rightarrow> route_error + consent_response list" where
  "list_customer_consents cid clock s =
     raised (map_ok (\<lambda>k. to_consent_response k clock) (find_by_customer s cid None))"

definition revoke_customer_consent ::
  "uuid \<Rightarrow> pydatetime \<Rightarrow> pydatetime \<Rightarrow> session \<Rightarrow> route_error + (consent_response \<times> session)" where
  "revoke_customer_consent i now later s =
     (case revoke_consent i None now s of
        None \<Rightarrow> Inl (Http_error 404)
      | Some (k, s1) \<Rightarrow>
          raised (ebind (commit s1) (\<lambda>t.
            ebind (to_consent_response k later) (\<lambda>r. Inr (r, t)))))"

text \<open>
  The history of a case, newest first. \<open>validation_status\<close> of a listed decision is the decision
  status itself, where \<open>evaluate\<close> answers the validation status it maps to.
\<close>

record policy_response =
  po_decision_status :: string
  po_case_id :: uuid
  po_recommendation_id :: uuid
  po_proposed_action :: string
  po_policy_version :: string
  po_is_approved :: bool
  po_validation_status :: string
  po_reasons :: "string list"
  po_rule_results :: "rule_json list"
  po_evaluated_at :: pydatetime
  po_metadata :: payload

definition rule_json_of :: "rule_result \<Rightarrow> rule_json" where
  "rule_json_of r =
     \<lparr>rj_rule_name = rr_rule_name r, rj_status = rule_status_value (rr_status r), rj_reason_code = rr_reason_code r\<rparr>"

definition evaluation_response :: "evaluation_result \<Rightarrow> uuid \<Rightarrow> policy_response" where
  "evaluation_response r requested =
     \<lparr>po_decision_status = policy_status_value (er_decision_status r), po_case_id = er_case_id r,
      po_recommendation_id =
        (if truthy (er_recommendation_id r) then or_empty (er_recommendation_id r) else requested),
      po_proposed_action = action_type_value (er_proposed_action r),
      po_policy_version = er_policy_version r, po_is_approved = result_is_approved r,
      po_validation_status = validation_status_value (result_validation_status r),
      po_reasons = er_reasons r, po_rule_results = map rule_json_of (er_rule_results r),
      po_evaluated_at = er_evaluated_at r, po_metadata = er_metadata r\<rparr>"

definition history_response :: "policy_decision \<Rightarrow> policy_response" where
  "history_response d =
     \<lparr>po_decision_status = policy_status_value (pd_decision_status d), po_case_id = pd_case_id d,
      po_recommendation_id = pd_recommendation_id d,
      po_proposed_action = action_type_value (pd_proposed_action d),
      po_policy_version = pd_policy_version d,
      po_is_approved = (policy_status_value (pd_decision_status d) = ''approved''),
      po_validation_status = policy_status_value (pd_decision_status d), po_reasons = pd_reasons d,
      po_rule_results = pd_rule_results d, po_evaluated_at = pd_evaluated_at d, po_metadata = pd_metadata d\<rparr>"

definition decisions_of :: "session \<Rightarrow> uuid \<Rightarrow> policy_decision list" where
  "decisions_of s cid =
     sort_key (\<lambda>d. - instant (pd_evaluated_at d)) (filter (\<lambda>d. pd_case_id d = cid) (policy_decisions s))"

definition get_case_policy_decisions :: "uuid \<Rightarrow> session \<Rightarrow> policy_response list" where
  "get_case_policy_decisions cid s = map history_response (decisions_of s cid)"

record policy_evaluation_dto =
  pe_case_id :: uuid
  pe_recommendation_id :: uuid
  pe_proposed_action :: "action_type option"
  pe_communication_channel :: "string option"
  pe_idempotency_key :: "string option"
  pe_metadata :: payload

definition policy_request_of :: "policy_evaluation_dto \<Rightarrow> uuid \<Rightarrow> policy_request" where
  "policy_request_of dto user_id =
     \<lparr>pq_case_id = pe_case_id dto, pq_recommendation_id = pe_recommendation_id dto,
      pq_proposed_action = pe_proposed_action dto, pq_actor_type = Actor_OPERATOR,
      pq_actor_id = Some user_id, pq_idempotency_key = pe_idempotency_key dto,
      pq_communication_channel = pe_communication_channel dto, pq_metadata = pe_metadata dto\<rparr>"

definition evaluate_policy_recommendation ::
  "policy_evaluation_dto \<Rightarrow> uuid \<Rightarrow> uuid \<Rightarrow> uuid \<Rightarrow> pydatetime \<Rightarrow> session
     \<Rightarrow> route_error + (policy_response \<times> session)" where
  "evaluate_policy_recommendation dto user_id new_id corr_id now s =
     raised (ebind (policy_evaluate default_policy_config (policy_request_of dto user_id) new_id corr_id now s)
       (\<lambda>(r, t). Inr (evaluation_response r (pe_recommendation_id dto), t)))"

section \<open>Withdrawing a consent\<close>

lemma revoked_simps [simp]:
  "co_id (revoked k d) = co_id k" "co_status (revoked k d) = CStat_REVOKED"
  "co_customer_id (revoked k d) = co_customer_id k" "co_type (revoked k d) = co_type k"
  by (simp_all add: revoked_def)

lemma find_consent_id: "find_consent s i = Some k \<Longrightarrow> co_id k = i \<and> k \<in> set (consents s)"
  by (auto simp: find_consent_def dest: find_SomeD)

lemma revoke_customer_consent_Inr:
  assumes "revoke_customer_consent i now later s = Inr (r, t)"
  obtains k where "find_consent s i = Some k" "t = flushed (put_consent (revoked k now) s)"
    "kr_consent r = revoked k now" "\<not> kr_is_valid r"
proof -
  obtain k where k: "find_consent s i = Some k"
    using assms by (cases "find_consent s i") (auto simp: revoke_customer_consent_def revoke_consent_def)
  with assms have "t = flushed (put_consent (revoked k now) s)" "kr_consent r = revoked k now" "\<not> kr_is_valid r"
    by (auto simp: revoke_customer_consent_def revoke_consent_def or_clock_def to_consent_response_def commit_def
        flush_ok consent_is_valid_def err_simps Let_def)
  with k that show thesis by blast
qed

lemma first_unexpired_mem: "first_unexpired ks now = Inr (Some k) \<Longrightarrow> k \<in> set ks"
proof (induction ks arbitrary: now)
  case (Cons x ks)
  show ?case
  proof (cases "co_expires_at x")
    case None
    with Cons.prems show ?thesis by simp
  next
    case (Some t)
    obtain t' now' where "align_tz t now = (t', now')" by fastforce
    with Some Cons show ?thesis by (auto simp: err_simps split: if_splits)
  qed
qed simp

text \<open>After a revocation only the revoked record differs, and it grants nothing.\<close>

lemma revoked_not_granted:
  assumes "k \<in> set (upd_by co_id (revoked k0 d) ks)" and "co_status k = CStat_GRANTED"
  shows "k \<in> set ks \<and> co_id k \<noteq> co_id k0"
  using set_upd_by [OF assms(1)] assms(2) by auto

text \<open>C21: Revoking a consent takes effect at once. A
  revocation that returns answers a record that is not valid, changes no other record and no other
  table, and from then on neither the consent lookup nor the payment gate finds that consent. If it
  was the customer's only granted consent for recurring billing, no workflow step of a case of that
  customer reaches the payment adapter any more, at whatever time it is executed.\<close>

theorem revoked_consent_stops_payments:
  assumes "revoke_customer_consent i now later s = Inr (r, t)" and "session_ok s"
  shows "\<not> kr_is_valid r \<and> co_id (kr_consent r) = i \<and> find_consent t i = Some (kr_consent r)
    \<and> t = s\<lparr>consents := consents t\<rparr> \<and> (\<forall>j. j \<noteq> i \<longrightarrow> find_consent t j = find_consent s j)
    \<and> (\<forall>cid tys k. granted_consent t cid tys = Some k \<longrightarrow> co_id k \<noteq> i)
    \<and> (\<forall>cid ty at_time clock k. find_active_consent t cid ty at_time clock = Inr (Some k) \<longrightarrow> co_id k \<noteq> i)
    \<and> ((\<forall>k \<in> set (consents s). co_customer_id k = co_customer_id (kr_consent r)
           \<and> co_type k = Consent_RECURRING_BILLING \<and> co_status k = CStat_GRANTED \<longrightarrow> co_id k = i) \<longrightarrow>
        (\<forall>w c (env :: 'g step_env) corr override g. find_workflow t wid = Some w \<longrightarrow> find_case t (wf_case_id w) = Some c \<longrightarrow>
           rc_customer_id c = co_customer_id (kr_consent r) \<longrightarrow>
           snd (execute_next_step env wid corr override t g) = g))"
proof -
  obtain k where k: "find_consent s i = Some k" and t: "t = flushed (put_consent (revoked k now) s)"
    and r: "kr_consent r = revoked k now" "\<not> kr_is_valid r"
    by (rule revoke_customer_consent_Inr [OF assms(1)])
  have id: "co_id k = i" using find_consent_id [OF k] by simp
  have "audit_pending s = []" "transition_pending s = []" using assms(2) by (simp_all add: session_ok_def)
  then have t': "t = s\<lparr>consents := upd_by co_id (revoked k now) (consents s)\<rparr>"
    by (simp add: t put_consent_def flushed_def)
  have found: "find_consent t i = Some (revoked k now)"
    using find_upd_by_same [of co_id "revoked k now" "consents s"] k id by (simp add: find_consent_def t')
  have others: "find_consent t j = find_consent s j" if "j \<noteq> i" for j
    using that id by (simp add: find_consent_def t' find_upd_by_other)
  have left: "co_id x \<noteq> i \<and> x \<in> set (consents s)"
    if "x \<in> set (consents t)" "co_status x = CStat_GRANTED" for x
    using revoked_not_granted [of x k now "consents s"] that id by (simp add: t')
  have gate: "co_id x \<noteq> i" if "granted_consent t cid tys = Some x" for cid tys x
    using granted_consent_Some [OF that] left by blast
  have lookup: "co_id x \<noteq> i" if "find_active_consent t cid ty at_time clock = Inr (Some x)" for cid ty at_time clock x
    using first_unexpired_mem [OF that [unfolded find_active_consent_def]] left by (simp add: consents_of_def)
  have stopped: "snd (execute_next_step env wid corr override t g) = g"
    if only: "\<forall>k \<in> set (consents s). co_customer_id k = co_customer_id (kr_consent r)
           \<and> co_type k = Consent_RECURRING_BILLING \<and> co_status k = CStat_GRANTED \<longrightarrow> co_id k = i"
      and wf: "find_workflow t wid = Some w" "find_case t (wf_case_id w) = Some c"
        "rc_customer_id c = co_customer_id (kr_consent r)" for w c and env :: "'g step_env" and corr override g
  proof (rule ccontr)
    assume moved: "snd (execute_next_step env wid corr override t g) \<noteq> g"
    obtain x g' where run: "execute_next_step env wid corr override t g = (x, g')" by fastforce
    with moved have "g' \<noteq> g" by simp
    from step_reaches_adapter [OF run this] wf have "recurring_consent_live t (rc_customer_id c) (se_now env)"
      by auto
    then obtain x where "x \<in> set (consents t)" "co_customer_id x = rc_customer_id c"
      "co_type x = Consent_RECURRING_BILLING" "co_status x = CStat_GRANTED"
      by (auto simp: recurring_consent_live_def)
    with left [of x] only wf(3) show False by auto
  qed
  have keep: "t = s\<lparr>consents := consents t\<rparr>" by (simp add: t')
  show ?thesis
    by (intro conjI keep allI impI) (use r id found others gate lookup stopped in \<open>simp_all\<close>)
qed

lemma revoked_consent_stops_payments_witness:
  "\<exists>r t. revoke_customer_consent ''cons'' demo_now demo_now demo_running = Inr (r, t)
     \<and> snd (execute_next_step demo_step_env ''wf'' None None demo_running []) \<noteq> []
     \<and> snd (execute_next_step demo_step_env ''wf'' None None t []) = []"
proof -
  have "is_ok (revoke_customer_consent ''cons'' demo_now demo_now demo_running)" by code_simp
  then obtain r t where run: "revoke_customer_consent ''cons'' demo_now demo_now demo_running = Inr (r, t)" by auto
  have ok: "session_ok demo_running" unfolding session_ok_def by code_simp
  from run have r: "kr_consent r = revoked demo_consent demo_now"
    by (rule revoke_customer_consent_Inr) (simp add: find_consent_def demo_running_def demo_ready_def demo_defs)
  from revoked_consent_stops_payments [OF run ok] have t: "t = demo_running\<lparr>consents := consents t\<rparr>" by blast
  have "find_workflow t ''wf'' = Some demo_workflow"
    by (subst t) (simp add: find_workflow_def demo_running_def demo_workflow_def new_workflow_def)
  moreover have "find_case t (wf_case_id demo_workflow) = Some demo_pending"
    by (subst t) (simp add: find_case_def demo_running_def demo_ready_def demo_pending_def demo_defs
      demo_workflow_def new_workflow_def)
  moreover have "rc_customer_id demo_pending = co_customer_id (kr_consent r)" by (simp add: r) code_simp
  moreover have "\<forall>k \<in> set (consents demo_running). co_customer_id k = co_customer_id (kr_consent r)
      \<and> co_type k = Consent_RECURRING_BILLING \<and> co_status k = CStat_GRANTED \<longrightarrow> co_id k = ''cons''"
    by (simp add: demo_running_def demo_ready_def demo_defs)
  ultimately have "snd (execute_next_step demo_step_env ''wf'' None None t []) = []"
    using revoked_consent_stops_payments [where 'g = submissions, OF run ok, of "''wf''", THEN conjunct2, THEN conjunct2,
        THEN conjunct2, THEN conjunct2, THEN conjunct2, THEN conjunct2, THEN conjunct2] by auto
  moreover have "snd (execute_next_step demo_step_env ''wf'' None None demo_running []) \<noteq> []" by code_simp
  ultimately show ?thesis using run by blast
qed

end
