(* ===== verification/Recovery_Routes.thy ===== *)
theory Recovery_Routes
  imports Legacy_Intelligence Raw_Webhook Http
begin

text \<open>
  \<open>backend/app/api/routes/recovery_intelligence.py\<close>: the two preview routes over the baseline
  intelligence, and the provider webhook that records a receipt and nothing else.

  The routes ask for no credentials. A preview request carries a floating-point success rate; it
  reaches the logistic formula only, so the formula \<open>predict\<close> takes the whole request. The previews
  answer the analysis itself, without its sentences. SHA-256, HMAC and the JSON parser are
  parameters, \<open>verify_signature\<close> is that of Outcome_Verification, and as in Event_Ingestion a rival
  worker may commit a receipt in between.
\<close>

section \<open>Previews\<close>

record decision_preview_request =
  dp_amount_minor :: int
  dp_currency :: string
  dp_failure_code :: "string option"
  dp_failure_message :: "string option"
  dp_prior_attempts :: int
  dp_success_rate :: rat
  dp_alternate_method :: bool
  dp_unusual_velocity :: bool
  dp_customer_restricted :: bool

definition within_length :: "nat \<Rightarrow> string option \<Rightarrow> bool" where
  "within_length n s = (case s of None \<Rightarrow> True | Some t \<Rightarrow> length t \<le> n)"

definition upper_letter :: "char \<Rightarrow> bool" where
  "upper_letter c = (let n = (of_char c :: nat) in 65 \<le> n \<and> n \<le> 90)"

definition preview_valid :: "decision_preview_request \<Rightarrow> bool" where
  "preview_valid q \<longleftrightarrow>
     0 \<le> dp_amount_minor q \<and> length (dp_currency q) = 3 \<and> list_all upper_letter (dp_currency q)
     \<and> within_length 100 (dp_failure_code q) \<and> within_length 500 (dp_failure_message q)
     \<and> 0 \<le> dp_prior_attempts q \<and> dp_prior_attempts q \<le> 20
     \<and> 0 \<le> dp_success_rate q \<and> dp_success_rate q \<le> 1"

type_synonym preview_model =
  "decision_preview_request \<Rightarrow> legacy_failure \<Rightarrow> int \<Rightarrow> legacy_action \<Rightarrow> int"

definition preview_analysis :: "preview_model \<Rightarrow> decision_preview_request \<Rightarrow> route_error + decision_analysis" where
  "preview_analysis predict q =
     (case analyze_recovery (predict q) (dp_amount_minor q) (dp_failure_code q) (dp_failure_message q)
             (dp_prior_attempts q) (dp_unusual_velocity q) (dp_customer_restricted q) of
        None \<Rightarrow> Inl (Raised (ValueError ''StopIteration''))
      | Some a \<Rightarrow> Inr a)"

record decision_preview_response =
  pr_mode :: string
  pr_currency_label :: string
  pr_model :: string
  pr_authority :: string
  pr_analysis :: decision_analysis

definition decision_preview ::
  "preview_model \<Rightarrow> decision_preview_request \<Rightarrow> route_error + decision_preview_response" where
  "decision_preview predict q =
     (if \<not> preview_valid q then Inl Invalid_request
      else ebind (preview_analysis predict q) (\<lambda>a.
        Inr \<lparr>pr_mode = ''decision_preview'', pr_currency_label = dp_currency q,
             pr_model = ''deterministic-logistic-v1'', pr_authority = ''deterministic'', pr_analysis = a\<rparr>))"

record strategy_comparison_response =
  sc_scenario_count :: int
  sc_strategies :: "(legacy_action \<times> int \<times> int) list"

definition strategy_comparison ::
  "preview_model \<Rightarrow> decision_preview_request list \<Rightarrow> route_error + strategy_comparison_response" where
  "strategy_comparison predict qs =
     (if \<not> list_all preview_valid qs then Inl Invalid_request
      else if length qs > 1000 then Inl (Http_error 413)
      else ebind (map_ok (preview_analysis predict) qs) (\<lambda>analyses.
        Inr \<lparr>sc_scenario_count = int (length analyses), sc_strategies = compare_strategies analyses\<rparr>))"

text \<open>A comparison returns for up to a thousand valid scenarios, and counts each of them under every action.\<close>

lemma preview_returns: "\<exists>a. preview_analysis predict q = Inr a"
  using preview_recommends_best [of "predict q" "dp_amount_minor q" "dp_failure_code q" "dp_failure_message q"
      "dp_prior_attempts q" "dp_unusual_velocity q" "dp_customer_restricted q"]
  by (auto simp: preview_analysis_def)

lemma estimates_once:
  assumes "preview_analysis predict q = Inr a"
  shows "length (filter (\<lambda>r. le_action r = act) (da_estimates a)) = 1"
proof -
  have "da_estimates a = rank_actions (predict q (da_classification a) (lr_score (da_risk a))) (dp_amount_minor q)"
    using assms by (auto simp: preview_analysis_def analyze_recovery_def Let_def split: option.splits)
  moreover have "length (filter (\<lambda>r. le_action r = act) (rank_actions p n)) = 1" for p n
  proof -
    have "filter P (sort_key k xs) = sort_key k (filter P xs)" for P :: "action_estimate \<Rightarrow> bool" and k :: "action_estimate \<Rightarrow> int" and xs
      by (rule filter_sort)
    then show ?thesis by (cases act) (simp_all add: rank_actions_def legacy_actions_def estimate_action_def Let_def)
  qed
  ultimately show ?thesis by simp
qed

lemma analyses_once:
  "map_ok (preview_analysis predict) qs = Inr analyses \<Longrightarrow>
     length (filter (\<lambda>r. le_action r = act) (concat (map da_estimates analyses))) = length qs"
proof (induction qs arbitrary: analyses)
  case (Cons q qs)
  then obtain a rest where "preview_analysis predict q = Inr a" "map_ok (preview_analysis predict) qs = Inr rest"
    "analyses = a # rest"
    by (auto simp: err_simps)
  with Cons.IH [of rest] estimates_once show ?case by simp
qed simp

theorem comparison_counts_scenarios:
  assumes "list_all preview_valid qs" and "length qs \<le> 1000"
  shows "\<exists>r. strategy_comparison predict qs = Inr r \<and> sc_scenario_count r = int (length qs)
    \<and> map fst (sc_strategies r) = legacy_actions
    \<and> (\<forall>a v n. (a, v, n) \<in> set (sc_strategies r) \<longrightarrow> n = int (length qs))"
proof -
  have "\<exists>analyses. map_ok (preview_analysis predict) qs = Inr analyses"
    using preview_returns by (induction qs) (auto, metis ebind.simps(2))
  then obtain analyses where a: "map_ok (preview_analysis predict) qs = Inr analyses" by blast
  show ?thesis
    using assms a map_ok_length [OF a] analyses_once [OF a]
    by (auto simp: strategy_comparison_def compare_strategies_def Let_def comp_def)
qed

section \<open>The provider webhook\<close>

record provider_env =
  pv_receipt_id :: uuid
  pv_rival :: "webhook_event option"
  pv_secret :: string
  pv_hmac_hex :: "string \<Rightarrow> string \<Rightarrow> string"
  pv_sha256_hex :: "string \<Rightarrow> string"
  pv_parse_json :: "string \<Rightarrow> json option"

record provider_request =
  pw_body :: string
  pw_event_ids :: "string option list"
  pw_signatures :: "string option list"

record webhook_result =
  wr_accepted :: bool
  wr_duplicate :: bool
  wr_event_id :: string
  wr_event_type :: string
  wr_reason :: string
  wr_verified :: bool

definition scalar_json :: "json \<Rightarrow> bool" where
  "scalar_json v = (case v of JList _ \<Rightarrow> False | JObj _ \<Rightarrow> False | _ \<Rightarrow> True)"

definition safe_payload :: "payload \<Rightarrow> payload" where
  "safe_payload d =
     concat (map (\<lambda>k. case map_of d k of None \<Rightarrow> [] | Some v \<Rightarrow> if scalar_json v then [(k, v)] else [])
               [''event'', ''id'', ''entity''])"

definition provider_receipt :: "provider_env \<Rightarrow> string \<Rightarrow> string \<Rightarrow> payload \<Rightarrow> webhook_event" where
  "provider_receipt env body event_id d =
     \<lparr>we_id = pv_receipt_id env, we_provider = ''razorpay'', we_external_event_id = event_id,
      we_event_type = py_str (json_get_or d ''event'' (JStr ''unknown'')),
      we_payload_hash = pv_sha256_hex env body, we_signature_verified = True, we_processed = False,
      we_ingestion_status = ''ACCEPTED'', we_payload = safe_payload d\<rparr>"

definition provider_webhook ::
  "provider_env \<Rightarrow> provider_request \<Rightarrow> session \<Rightarrow> route_error + (webhook_result \<times> session)" where
  "provider_webhook env rq s =
     (case first_truthy (pw_event_ids rq) of
        None \<Rightarrow> Inl (Http_error 400)
      | Some event_id \<Rightarrow>
          if \<not> verify_signature (pv_hmac_hex env) (pw_body rq) (or_empty (first_truthy (pw_signatures rq))) (pv_secret env)
          then Inl (Http_error 401)
          else
            (case pv_parse_json env (pw_body rq) of
               Some (JObj d) \<Rightarrow>
                 raised (ebind (record_receipt (provider_receipt env (pw_body rq) event_id d) (pv_rival env) s) (\<lambda>(r, s1).
                   ebind (commit s1) (\<lambda>t.
                     Inr (\<lparr>wr_accepted = er_accepted r, wr_duplicate = er_duplicate r, wr_event_id = event_id,
                           wr_event_type = py_str (json_get_or d ''event'' (JStr ''unknown'')),
                           wr_reason = er_reason r, wr_verified = True\<rparr>, t))))
             | _ \<Rightarrow> Inl (Http_error 400)))"

section \<open>A receipt here blocks the event there\<close>

lemma provider_webhook_Inr:
  assumes "provider_webhook env rq s = Inr (r, t)" and "session_ok s" and "receipt_rival_ok (pv_rival env) s"
  obtains i d rr where "first_truthy (pw_event_ids rq) = Some i" "wr_event_id r = i"
    "verify_signature (pv_hmac_hex env) (pw_body rq) (or_empty (first_truthy (pw_signatures rq))) (pv_secret env)"
    "record_receipt (provider_receipt env (pw_body rq) i d) (pv_rival env) s = Inr (rr, t)"
    "wr_duplicate r = er_duplicate rr" "session_ok t"
proof -
  obtain i where i: "first_truthy (pw_event_ids rq) = Some i"
    using assms by (cases "first_truthy (pw_event_ids rq)") (simp_all add: provider_webhook_def)
  have v: "verify_signature (pv_hmac_hex env) (pw_body rq) (or_empty (first_truthy (pw_signatures rq))) (pv_secret env)"
    using assms i by (auto simp: provider_webhook_def split: if_splits)
  obtain d where d: "pv_parse_json env (pw_body rq) = Some (JObj d)"
    using assms i v by (auto simp: provider_webhook_def split: option.splits json.splits)
  obtain rr s1 where rr: "record_receipt (provider_receipt env (pw_body rq) i d) (pv_rival env) s = Inr (rr, s1)"
    "commit s1 = Inr t" "wr_duplicate r = er_duplicate rr" "wr_event_id r = i"
    using assms i v d by (auto simp: provider_webhook_def err_simps)
  note facts = record_receipt_facts [OF rr(1) assms(2,3)]
  have "s1 = t" using rr(2) flush_idle [OF facts(1)] by (simp add: commit_def)
  with i v rr facts(1) that show thesis by blast
qed

text \<open>The provider webhook answers only a request with an
  event id whose body carries the HMAC under a configured secret, and it opens no case. What it does
  first to an event id is final: the receipt it stores has the hash of the raw body, where the
  ingestion pipeline stores the hash of the event's fingerprint, so as long as the two differ the
  pipeline refuses the same event as a conflict, whatever it carries, and the event never reaches
  the case engine.\<close>

theorem provider_receipt_blocks_event:
  assumes "provider_webhook env rq s = Inr (r, t)" and "session_ok s"
    and "receipt_rival_ok (pv_rival env) s" and "\<not> wr_duplicate r"
    and "py_lower (ev_provider e) = ''razorpay''" and "ev_external_event_id e = wr_event_id r"
    and "validate_event e (eg_now (ig_engine ienv)) = Inr ()"
    and "ig_digest ienv (fingerprint_data e) \<noteq> pv_sha256_hex env (pw_body rq)"
  shows "verify_signature (pv_hmac_hex env) (pw_body rq) (or_empty (first_truthy (pw_signatures rq))) (pv_secret env)
    \<and> session_ok t \<and> cases t = cases s
    \<and> (\<exists>w. find_receipt t ''razorpay'' (wr_event_id r) = Some w \<and> we_signature_verified w \<and> \<not> we_processed w)
    \<and> ingest ienv e sig st corr t =
        Inl (AppError (ConflictingDuplicateEvent (ev_external_event_id e) (ev_provider e)))"
proof -
  obtain i d rr where i: "wr_event_id r = i"
    and v: "verify_signature (pv_hmac_hex env) (pw_body rq) (or_empty (first_truthy (pw_signatures rq))) (pv_secret env)"
    and rr: "record_receipt (provider_receipt env (pw_body rq) i d) (pv_rival env) s = Inr (rr, t)"
    and dup: "wr_duplicate r = er_duplicate rr"
    by (rule provider_webhook_Inr [OF assms(1-3)])
  let ?w = "provider_receipt env (pw_body rq) i d"
  have w: "we_provider ?w = ''razorpay''" "we_external_event_id ?w = i" "we_signature_verified ?w"
    "\<not> we_processed ?w" "we_payload_hash ?w = pv_sha256_hex env (pw_body rq)"
    by (simp_all add: provider_receipt_def)
  note facts = record_receipt_facts [OF rr assms(2,3)]
  have event: "er_event rr = ?w" using record_receipt_new [OF rr] assms(4) dup by simp
  have found: "find_receipt t ''razorpay'' i = Some ?w" using facts(3) event w by simp
  have "record_receipt (new_receipt (ig_digest ienv) (ig_dump ienv) e sig (ig_receipt_id ienv)) (ig_rival ienv) t
      = Inr (seen_before ?w (ig_digest ienv (fingerprint_data e)), t)"
    using found assms(5,6) i by (simp add: record_receipt_def new_receipt_def)
  then have "ingest ienv e sig st corr t = Inl (AppError (ConflictingDuplicateEvent (ev_external_event_id e) (ev_provider e)))"
    using assms(7,8) w(5) by (simp add: ingest_def evaluate_and_record_def)
  with v facts(1,2) found w(3,4) i show ?thesis by auto
qed

definition demo_provider_env :: provider_env where
  "demo_provider_env =
     \<lparr>pv_receipt_id = ''r1'', pv_rival = None, pv_secret = ''s'', pv_hmac_hex = (\<lambda>k b. k @ b),
      pv_sha256_hex = (\<lambda>b. ''sha'' @ b), pv_parse_json = (\<lambda>_. Some (JObj [(''event'', JStr ''payment.failed'')]))\<rparr>"

definition demo_provider_request :: provider_request where
  "demo_provider_request =
     \<lparr>pw_body = ''{}'', pw_event_ids = [None, Some ''evt_1''], pw_signatures = [Some ''v1=s{}'']\<rparr>"

lemma provider_receipt_blocks_event_witness:
  "\<exists>r t. provider_webhook demo_provider_env demo_provider_request empty_session = Inr (r, t) \<and> cases t = []
     \<and> ingest demo_ingest demo_event True final_status ''k'' t =
         Inl (AppError (ConflictingDuplicateEvent ''evt_1'' ''razorpay''))"
proof -
  have "case provider_webhook demo_provider_env demo_provider_request empty_session of
      Inl _ \<Rightarrow> False | Inr (r, _) \<Rightarrow> \<not> wr_duplicate r \<and> wr_event_id r = ''evt_1''"
    by code_simp
  then obtain r t where run: "provider_webhook demo_provider_env demo_provider_request empty_session = Inr (r, t)"
    and r: "\<not> wr_duplicate r" "wr_event_id r = ''evt_1''"
    by (auto split: sum.splits)
  have "receipt_rival_ok (pv_rival demo_provider_env) empty_session" by code_simp
  moreover have "validate_event demo_event (eg_now (ig_engine demo_ingest)) = Inr ()" by code_simp
  moreover have "ig_digest demo_ingest (fingerprint_data demo_event)
      \<noteq> pv_sha256_hex demo_provider_env (pw_body demo_provider_request)"
    by code_simp
  moreover have "py_lower (ev_provider demo_event) = ''razorpay''" "ev_external_event_id demo_event = wr_event_id r"
    unfolding r(2) by code_simp+
  ultimately have "cases t = cases empty_session" "ingest demo_ingest demo_event True final_status ''k'' t =
      Inl (AppError (ConflictingDuplicateEvent (ev_external_event_id demo_event) (ev_provider demo_event)))"
    using provider_receipt_blocks_event [OF run empty_session_ok _ r(1), of demo_event demo_ingest True final_status "''k''"]
    by simp_all
  then show ?thesis using run by (simp add: demo_event_def empty_session_def)
qed

end
