(* ===== verification/Dashboard.thy ===== *)
theory Dashboard
  imports Listings Scenario
begin

text \<open>
  \<open>DashboardService\<close> (\<open>backend/app/services/dashboard_service.py\<close>) and the routes of
  api/routes/dashboard.py, with the evidence table of models/domain.py and its repository
  (repositories/recovery_evidence.py).

  Nothing else reads or writes the evidence table, so it is an argument of its own. The percentages
  are printed from a floating-point quotient; the model answers the numerator and denominator of the
  quotient, or None where the code prints ''0.00%''. Times are the argument \<open>now\<close>.
\<close>

record evidence =
  evd_id :: uuid
  evd_intervention_id :: string
  evd_provider_event_id :: string
  evd_failed_transaction_id :: string
  evd_successful_transaction_id :: string
  evd_amount_minor :: int
  evd_currency :: string
  evd_verified_at :: pydatetime
  evd_attribution_window_hours :: int
  evd_attribution_reason :: string
  evd_attributable :: bool
  evd_payload :: payload

section \<open>The evidence repository\<close>

definition evidence_by_id :: "uuid \<Rightarrow> evidence list \<Rightarrow> evidence option" where
  "evidence_by_id i es = find (\<lambda>e. evd_id e = i) es"

definition evidence_by_event :: "string \<Rightarrow> evidence list \<Rightarrow> evidence option" where
  "evidence_by_event i es = find (\<lambda>e. evd_provider_event_id e = i) es"

definition evidence_by_failed_transaction :: "string \<Rightarrow> evidence list \<Rightarrow> evidence list" where
  "evidence_by_failed_transaction i es =
     newest_first (\<lambda>e. instant (evd_verified_at e)) (filter (\<lambda>e. evd_failed_transaction_id e = i) es)"

definition evidence_by_intervention :: "string \<Rightarrow> evidence list \<Rightarrow> evidence list" where
  "evidence_by_intervention i es =
     newest_first (\<lambda>e. instant (evd_verified_at e)) (filter (\<lambda>e. evd_intervention_id e = i) es)"

section \<open>The metrics\<close>

text \<open>The inner join of the cases with their trigger transactions.\<close>

definition case_amounts :: "session \<Rightarrow> recovery_case list \<Rightarrow> int list" where
  "case_amounts s cs =
     concat (map (\<lambda>c. map tx_amount_minor (filter (\<lambda>t. tx_id t = rc_trigger_transaction_id c) (transactions s))) cs)"

record dashboard_metrics =
  dm_currency :: string
  dm_time_range :: string
  dm_at_risk_minor :: int
  dm_recovered_minor :: int
  dm_recovery_rate :: "(int \<times> int) option"
  dm_case_recovery_rate :: "(int \<times> int) option"
  dm_total_cases :: int
  dm_recovered_cases :: int
  dm_escalated_cases :: int
  dm_verification_cases :: int
  dm_stopped_cases :: int
  dm_safety_rate :: string
  dm_generated_at :: pydatetime

definition rate_of :: "int \<Rightarrow> int \<Rightarrow> (int \<times> int) option" where
  "rate_of part whole = (if whole > 0 then Some (part, whole) else None)"

definition recovered_amount :: "evidence list \<Rightarrow> session \<Rightarrow> int" where
  "recovered_amount es s =
     (let proven = sum_list (map evd_amount_minor (filter evd_attributable es))
      in if proven = 0
         then sum_list (case_amounts s (filter (\<lambda>c. rc_state c = Case_RECOVERED) (cases s)))
         else proven)"

definition get_metrics :: "evidence list \<Rightarrow> string \<Rightarrow> string \<Rightarrow> pydatetime \<Rightarrow> session \<Rightarrow> dashboard_metrics" where
  "get_metrics es currency time_range now s =
     (let at_risk = sum_list (case_amounts s (cases s)); recovered = recovered_amount es s;
          n = int (length (cases s))
      in \<lparr>dm_currency = py_upper currency, dm_time_range = time_range, dm_at_risk_minor = at_risk,
          dm_recovered_minor = recovered, dm_recovery_rate = rate_of recovered at_risk,
          dm_case_recovery_rate = rate_of (count_by_state Case_RECOVERED s) n,
          dm_total_cases = n, dm_recovered_cases = count_by_state Case_RECOVERED s,
          dm_escalated_cases = count_by_state Case_ESCALATED s,
          dm_verification_cases = count_by_state Case_VERIFICATION_PENDING s,
          dm_stopped_cases = count_by_state Case_STOPPED s, dm_safety_rate = ''100.00%'',
          dm_generated_at = now\<rparr>)"

record trend_point =
  tp_timestamp :: pydatetime
  tp_recovered_minor :: int
  tp_at_risk_minor :: int

record revenue_trend =
  rt_currency :: string
  rt_interval :: string
  rt_points :: "trend_point list"

definition get_revenue_trend ::
  "evidence list \<Rightarrow> string \<Rightarrow> string \<Rightarrow> pydatetime \<Rightarrow> pydatetime \<Rightarrow> session \<Rightarrow> revenue_trend" where
  "get_revenue_trend es currency interval now later s =
     (let m = get_metrics es currency ''all_time'' later s
      in \<lparr>rt_currency = py_upper currency, rt_interval = interval,
          rt_points = (if dm_total_cases m > 0
                       then [\<lparr>tp_timestamp = now, tp_recovered_minor = dm_recovered_minor m,
                              tp_at_risk_minor = dm_at_risk_minor m\<rparr>] else [])\<rparr>)"

text \<open>\<open>GROUP BY state\<close>: one row per state that occurs.\<close>

definition state_counts :: "session \<Rightarrow> (case_state \<times> int) list" where
  "state_counts s =
     map (\<lambda>st. (st, count_by_state st s)) (filter (\<lambda>st. st \<in> rc_state ` set (cases s)) case_state_members)"

record status_distribution =
  sd_counts :: "(string \<times> int) list"
  sd_total :: int
  sd_generated_at :: pydatetime

definition get_workflow_status :: "pydatetime \<Rightarrow> session \<Rightarrow> status_distribution" where
  "get_workflow_status now s =
     (let (counts, n) = fold (\<lambda>(st, k) (d, n). (dict_set (case_state_value st) k d, n + k)) (state_counts s) ([], 0)
      in \<lparr>sd_counts = counts, sd_total = n, sd_generated_at = now\<rparr>)"

section \<open>What the numbers mean\<close>

lemma fold_counts:
  "fold (\<lambda>(st, k) (d, n). (dict_set (case_state_value st) k d, n + k)) xs (d0, n0) =
     (fold (\<lambda>(st, k). dict_set (case_state_value st) k) xs d0, n0 + sum_list (map snd xs))"
  by (induction xs arbitrary: d0 n0) (auto simp: algebra_simps)

lemma sum_indicator:
  "distinct sts \<Longrightarrow> sum_list (map (\<lambda>st. if x = st then 1 else 0 :: int) sts) = (if x \<in> set sts then 1 else 0)"
  by (induction sts) auto

lemma count_partition:
  assumes "distinct sts" and "rc_state ` set cs \<subseteq> set sts"
  shows "sum_list (map (\<lambda>st. int (length (filter (\<lambda>c. rc_state c = st) cs))) sts) = int (length cs)"
  using assms(2)
proof (induction cs)
  case (Cons c cs)
  have one: "sum_list (map (\<lambda>st. if rc_state c = st then 1 else 0 :: int) sts) = 1"
    using sum_indicator [OF assms(1), of "rc_state c"] Cons.prems by simp
  have "sum_list (map (\<lambda>st. int (length (filter (\<lambda>x. rc_state x = st) (c # cs)))) sts)
      = sum_list (map (\<lambda>st. (if rc_state c = st then 1 else 0) + int (length (filter (\<lambda>x. rc_state x = st) cs))) sts)"
    by (rule arg_cong [of _ _ sum_list]) simp
  also have "\<dots> = 1 + int (length cs)" using Cons one by (simp add: sum_list_addf)
  finally show ?case by simp
qed simp

lemma states_distinct: "distinct case_state_members" "st \<in> set case_state_members"
  using case_state_enum.distinct_values case_state_enum.all_members by (auto simp: distinct_map)

lemma lookup_counts:
  assumes "distinct (map fst xs)"
  shows "map_of (fold (\<lambda>(st, k). dict_set (case_state_value st) k) xs d) (case_state_value st) =
     (case map_of xs st of None \<Rightarrow> map_of d (case_state_value st) | Some k \<Rightarrow> Some k)"
  using assms
proof (induction xs arbitrary: d)
  case (Cons x xs)
  obtain st' k where x: "x = (st', k)" by fastforce
  have "map_of xs st' = None" using Cons.prems x by (force simp: map_of_eq_None_iff)
  with Cons x show ?case by (auto simp: case_state_enum.value_inject split: option.splits)
qed simp

lemma status_distribution_exact:
  "sd_total (get_workflow_status now s) = int (length (cases s))"
  "map_of (sd_counts (get_workflow_status now s)) (case_state_value st) =
     (if st \<in> rc_state ` set (cases s) then Some (count_by_state st s) else None)"
proof -
  let ?sts = "filter (\<lambda>st. st \<in> rc_state ` set (cases s)) case_state_members"
  have d: "distinct ?sts" "rc_state ` set (cases s) \<subseteq> set ?sts"
    using states_distinct by auto
  have m: "map snd (state_counts s) = map (\<lambda>st. int (length (filter (\<lambda>c. rc_state c = st) (cases s)))) ?sts"
    by (simp add: state_counts_def count_by_state_def)
  show "sd_total (get_workflow_status now s) = int (length (cases s))"
    using count_partition [OF d] by (simp add: get_workflow_status_def fold_counts m)
  have "map fst (state_counts s) = ?sts" by (simp add: state_counts_def comp_def)
  then have f: "distinct (map fst (state_counts s))" using d(1) by simp
  have "map_of (state_counts s) st = (if st \<in> rc_state ` set (cases s) then Some (count_by_state st s) else None)"
    using states_distinct(2) [of st] by (auto simp: state_counts_def map_of_map_restrict restrict_map_def)
  then show "map_of (sd_counts (get_workflow_status now s)) (case_state_value st) =
     (if st \<in> rc_state ` set (cases s) then Some (count_by_state st s) else None)"
    using lookup_counts [OF f, of "[]" st] by (simp add: get_workflow_status_def fold_counts split: option.splits)
qed

lemma case_amounts_nonneg:
  "\<forall>t \<in> set (transactions s). 0 \<le> tx_amount_minor t \<Longrightarrow> x \<in> set (case_amounts s cs) \<Longrightarrow> 0 \<le> x"
  by (auto simp: case_amounts_def)

lemma sum_amounts_filter:
  assumes "\<forall>t \<in> set (transactions s). 0 \<le> tx_amount_minor t"
  shows "0 \<le> sum_list (case_amounts s (filter P cs)) \<and> sum_list (case_amounts s (filter P cs)) \<le> sum_list (case_amounts s cs)"
proof (induction cs)
  case (Cons c cs)
  have split: "sum_list (case_amounts s (x # xs)) = sum_list (case_amounts s [x]) + sum_list (case_amounts s xs)" for x xs
    by (simp add: case_amounts_def)
  have "0 \<le> sum_list (case_amounts s [c])"
    using case_amounts_nonneg [OF assms, of _ "[c]"] by (intro sum_list_nonneg) simp
  then show ?case
    using Cons.IH split [of c cs] split [of c "filter P cs"] by (cases "P c") simp_all
qed (simp add: case_amounts_def)

text \<open>The dashboard counts every case once: the state distribution totals the cases and lists exactly
  the states that occur with their counts, and the metrics' counts are those. With non-negative
  amounts and no attributable evidence the recovered revenue is non-negative and at most the revenue
  at risk. The metrics depend on neither the currency nor the time range they are labelled with:
  amounts of all currencies and times are summed.\<close>

theorem dashboard_counts_cases:
  assumes "\<forall>t \<in> set (transactions s). 0 \<le> tx_amount_minor t" and "\<not> (\<exists>e \<in> set es. evd_attributable e)"
  shows "sd_total (get_workflow_status now s) = int (length (cases s))
    \<and> (\<forall>st. map_of (sd_counts (get_workflow_status now s)) (case_state_value st) =
          (if st \<in> rc_state ` set (cases s) then Some (count_by_state st s) else None))
    \<and> dm_total_cases (get_metrics es cur period now s) = sd_total (get_workflow_status now s)
    \<and> 0 \<le> dm_recovered_minor (get_metrics es cur period now s)
    \<and> dm_recovered_minor (get_metrics es cur period now s) \<le> dm_at_risk_minor (get_metrics es cur period now s)
    \<and> get_metrics es cur period now s =
        (get_metrics es cur' period' now s)\<lparr>dm_currency := py_upper cur, dm_time_range := period\<rparr>"
proof -
  have none: "filter evd_attributable es = []" using assms(2) by (auto simp: filter_empty_conv)
  show ?thesis
    using status_distribution_exact sum_amounts_filter [OF assms(1), of "\<lambda>c. rc_state c = Case_RECOVERED" "cases s"]
    by (simp add: get_metrics_def recovered_amount_def none Let_def)
qed

lemma dashboard_counts_cases_witness:
  "sd_total (get_workflow_status demo_now demo_session) = 1
   \<and> 0 \<le> dm_recovered_minor (get_metrics [] ''USD'' ''all_time'' demo_now demo_session)"
  using dashboard_counts_cases [of demo_session "[]" demo_now "''USD''" "''all_time''"]
  by (simp add: demo_defs)

end
