(* ===== verification/Routes.thy ===== *)
theory Routes
  imports Case_Queries Policy_Api Recommendation_Store Recovery_Routes Dashboard Reconciliation
    Workflow_Creation
begin

text \<open>
  The route functions of \<open>backend/app/api/routes\<close>: auth.py, cases.py, policy.py, workflows.py, events.py
  and dashboard.py, one definition each, over the services they call; the guards in front of them are
  in Api.

  A route takes the environment \<open>api_env\<close>, the authenticated caller where it uses one, its validated
  arguments and the state, which is the business session and the user table; it answers a status with
  a body, or fails, together with the state that stays committed. \<open>api_env\<close> holds what a request
  draws and the collaborators of its services, with one adapter per request, as the services build it.
  get_dashboard_summary and get_revenue_trends_alias are second paths of two dashboard routes.
\<close>

record api_state =
  st_session :: session
  st_users :: user_store

record 'g api_env =
  xv_auth :: auth_env
  xv_now :: pydatetime
  xv_later :: pydatetime
  xv_id :: uuid
  xv_id2 :: uuid
  xv_step_ids :: "int \<Rightarrow> uuid"
  xv_created :: "user \<Rightarrow> int"
  xv_received :: "webhook_event \<Rightarrow> int"
  xv_planned :: "recovery_workflow \<Rightarrow> int"
  xv_collate :: "string \<Rightarrow> string"
  xv_recommend :: rec_env
  xv_adapter :: 'g
  xv_steps :: "nat \<Rightarrow> 'g step_env"
  xv_recon :: recon_env
  xv_ingest :: ingest_env
  xv_event_id :: uuid
  xv_payment_id :: uuid
  xv_correlation_id :: uuid
  xv_webhook :: webhook_env
  xv_provider :: provider_env
  xv_predict :: preview_model
  xv_evidence :: "evidence list"

type_synonym workflow_view = "recovery_workflow \<times> (workflow_step \<times> recovery_execution list) list"

datatype answer_body =
    B_user user
  | B_users "user page_response"
  | B_tokens token_response
  | B_done
  | B_case recovery_case
  | B_case_item case_item
  | B_cases "case_item page_response"
  | B_trail "audit_event list"
  | B_events "webhook_event list"
  | B_event webhook_event
  | B_events_page events_page
  | B_ingested ingest_response
  | B_recommended recommendation
  | B_recommendation recommendation_dto
  | B_recommendations "recommendation_dto list"
  | B_policy policy_response
  | B_policies "policy_response list"
  | B_consent consent_response
  | B_consents "consent_response list"
  | B_workflow workflow_view
  | B_workflows "workflow_view list"
  | B_report reconciliation_report
  | B_reports "reconciliation_report list"
  | B_preview decision_preview_response
  | B_comparison strategy_comparison_response
  | B_receipt webhook_result
  | B_metrics dashboard_metrics
  | B_trend revenue_trend
  | B_distribution status_distribution

type_synonym outcome = "(route_error + int \<times> answer_body) \<times> api_state"

text \<open>A reading route, and the routes that write the session or the user table.\<close>

definition reading :: "('a \<Rightarrow> answer_body) \<Rightarrow> api_state \<Rightarrow> route_error + 'a \<Rightarrow> outcome" where
  "reading body st r = (ebind r (\<lambda>x. Inr (200, body x)), st)"

definition writing_session ::
  "('a \<Rightarrow> int) \<Rightarrow> ('a \<Rightarrow> answer_body) \<Rightarrow> api_state \<Rightarrow> route_error + 'a \<times> session \<Rightarrow> outcome" where
  "writing_session code body st r =
     (case r of Inl e \<Rightarrow> (Inl e, st) | Inr (x, s) \<Rightarrow> (Inr (code x, body x), st\<lparr>st_session := s\<rparr>))"

definition writing_users ::
  "int \<Rightarrow> ('a \<Rightarrow> answer_body) \<Rightarrow> api_state \<Rightarrow> py_error + 'a \<times> user_store \<Rightarrow> outcome" where
  "writing_users code body st r =
     (case r of Inl e \<Rightarrow> (Inl (Raised e), st) | Inr (x, us) \<Rightarrow> (Inr (code, body x), st\<lparr>st_users := us\<rparr>))"

section \<open>Accounts\<close>

definition register_user :: "'g api_env \<Rightarrow> string \<Rightarrow> string \<Rightarrow> string \<Rightarrow> api_state \<Rightarrow> outcome" where
  "register_user env email password name st =
     writing_users 201 B_user st (register (xv_auth env) email password name Role_OPERATOR (st_users st))"

definition login_user :: "'g api_env \<Rightarrow> string \<Rightarrow> string \<Rightarrow> api_state \<Rightarrow> outcome" where
  "login_user env email password st =
     writing_users 200 B_tokens st (login (xv_auth env) email password (st_users st))"

definition refresh_access_token :: "'g api_env \<Rightarrow> string \<Rightarrow> api_state \<Rightarrow> outcome" where
  "refresh_access_token env token st =
     reading B_tokens st (raised (refresh_token (xv_auth env) token (st_users st)))"

definition logout_user :: "api_state \<Rightarrow> outcome" where
  "logout_user st = reading (\<lambda>_. B_done) st (Inr ())"

definition get_my_profile :: "user \<Rightarrow> api_state \<Rightarrow> outcome" where
  "get_my_profile u st = reading B_user st (Inr u)"

definition update_my_profile :: "user \<Rightarrow> string \<Rightarrow> api_state \<Rightarrow> outcome" where
  "update_my_profile u name st = writing_users 200 B_user st (update_profile (us_id u) name (st_users st))"

definition change_password_route :: "'g api_env \<Rightarrow> user \<Rightarrow> string \<Rightarrow> string \<Rightarrow> api_state \<Rightarrow> outcome" where
  "change_password_route env u current new st =
     writing_users 200 (\<lambda>_. B_done) st (change_password (xv_auth env) (us_id u) current new (st_users st))"

definition list_users_route ::
  "'g api_env \<Rightarrow> user_role option \<Rightarrow> user_status option \<Rightarrow> int \<Rightarrow> int \<Rightarrow> api_state \<Rightarrow> outcome" where
  "list_users_route env role status page per st =
     reading B_users st (Inr (list_users (xv_created env) role status (st_users st) page per))"

definition update_user_role_route :: "uuid \<Rightarrow> user_role \<Rightarrow> api_state \<Rightarrow> outcome" where
  "update_user_role_route i role st = writing_users 200 B_user st (update_user_role i role (st_users st))"

definition update_user_status_route :: "uuid \<Rightarrow> user_status \<Rightarrow> api_state \<Rightarrow> outcome" where
  "update_user_status_route i status st = writing_users 200 B_user st (update_user_status i status (st_users st))"

section \<open>Cases\<close>

definition list_cases_route :: "case_query \<Rightarrow> int \<Rightarrow> int \<Rightarrow> api_state \<Rightarrow> outcome" where
  "list_cases_route q page per st = reading B_cases st (list_cases q (st_session st) page per)"

definition get_case_detail_route :: "uuid \<Rightarrow> api_state \<Rightarrow> outcome" where
  "get_case_detail_route cid st = reading B_case_item st (get_case_detail cid (st_session st))"

definition update_case_route :: "'g api_env \<Rightarrow> user \<Rightarrow> uuid \<Rightarrow> case_update_dto \<Rightarrow> api_state \<Rightarrow> outcome" where
  "update_case_route env u cid dto st =
     writing_session (\<lambda>_. 200) B_case st
       (raised (update_case cid dto (Some (us_id u)) (xv_id env) (xv_now env) (st_session st)))"

definition transition_case_state :: "'g api_env \<Rightarrow> uuid \<Rightarrow> case_transition_dto \<Rightarrow> api_state \<Rightarrow> outcome" where
  "transition_case_state env cid dto st =
     writing_session (\<lambda>_. 200) B_case st (raised (service_transition cid dto (xv_now env) (st_session st)))"

definition get_case_history :: "uuid \<Rightarrow> api_state \<Rightarrow> outcome" where
  "get_case_history cid st = reading B_trail st (raised (get_case_timeline cid (st_session st)))"

definition get_case_events_route :: "'g api_env \<Rightarrow> uuid \<Rightarrow> api_state \<Rightarrow> outcome" where
  "get_case_events_route env cid st =
     reading B_events st (raised (get_case_events (xv_collate env) cid (st_session st)))"

definition generate_case_recommendation :: "'g api_env \<Rightarrow> user \<Rightarrow> uuid \<Rightarrow> api_state \<Rightarrow> outcome" where
  "generate_case_recommendation env u cid st =
     writing_session (\<lambda>_. 201) B_recommended st
       (raised (generate_recommendation (xv_recommend env) cid (Some (us_id u)) (st_session st)))"

definition get_latest_case_recommendation :: "'g api_env \<Rightarrow> uuid \<Rightarrow> api_state \<Rightarrow> outcome" where
  "get_latest_case_recommendation env cid st =
     reading B_recommendation st
       (ebind (raised (get_latest_recommendation cid (xv_now env) (st_session st))) (\<lambda>r.
         case r of None \<Rightarrow> Inl (Http_error 404) | Some x \<Rightarrow> Inr x))"

definition get_case_recommendation_history :: "'g api_env \<Rightarrow> uuid \<Rightarrow> api_state \<Rightarrow> outcome" where
  "get_case_recommendation_history env cid st =
     reading B_recommendations st (raised (get_recommendation_history cid (xv_now env) (st_session st)))"

section \<open>Policy and consents\<close>

definition evaluate_policy_route :: "'g api_env \<Rightarrow> user \<Rightarrow> policy_evaluation_dto \<Rightarrow> api_state \<Rightarrow> outcome" where
  "evaluate_policy_route env u dto st =
     writing_session (\<lambda>_. 200) B_policy st
       (evaluate_policy_recommendation dto (us_id u) (xv_id env) (xv_id2 env) (xv_now env) (st_session st))"

definition get_case_policy_decisions_route :: "uuid \<Rightarrow> api_state \<Rightarrow> outcome" where
  "get_case_policy_decisions_route cid st =
     reading B_policies st (Inr (get_case_policy_decisions cid (st_session st)))"

definition create_customer_consent_route :: "'g api_env \<Rightarrow> consent_create_dto \<Rightarrow> api_state \<Rightarrow> outcome" where
  "create_customer_consent_route env dto st =
     writing_session (\<lambda>_. 201) B_consent st
       (create_customer_consent dto (xv_id env) (xv_now env) (xv_later env) (st_session st))"

definition list_customer_consents_route :: "'g api_env \<Rightarrow> uuid \<Rightarrow> api_state \<Rightarrow> outcome" where
  "list_customer_consents_route env cid st =
     reading B_consents st (list_customer_consents cid (xv_now env) (st_session st))"

definition revoke_customer_consent_route :: "'g api_env \<Rightarrow> uuid \<Rightarrow> api_state \<Rightarrow> outcome" where
  "revoke_customer_consent_route env i st =
     writing_session (\<lambda>_. 200) B_consent st
       (revoke_customer_consent i (xv_now env) (xv_later env) (st_session st))"

section \<open>Workflows and reconciliation\<close>

text \<open>\<open>WorkflowDetailDTO\<close>: the workflow with its steps in order and the executions of each.\<close>

definition workflow_detail :: "session \<Rightarrow> recovery_workflow \<Rightarrow> workflow_view" where
  "workflow_detail s w =
     (w, map (\<lambda>st. (st, filter (\<lambda>e. ex_step_id e = ws_id st) (executions s))) (steps_of s (wf_id w)))"

definition create_workflow_route :: "'g api_env \<Rightarrow> uuid \<Rightarrow> int \<Rightarrow> int \<Rightarrow> api_state \<Rightarrow> outcome" where
  "create_workflow_route env decision_id cooldown_hours max_workflow_hours st =
     writing_session (\<lambda>_. 201) B_workflow st
       (value_error_is_400
         (ebind (create_workflow decision_id cooldown_hours max_workflow_hours (xv_id env) (xv_step_ids env)
                   (xv_now env) (st_session st)) (\<lambda>(w, s1).
          ebind (commit s1) (\<lambda>t. Inr (workflow_detail t w, t)))))"

text \<open>\<open>execute_all\<close> runs the bounded loop, otherwise one step; a refresh of a workflow that is gone raises.\<close>

definition execute_steps ::
  "'g api_env \<Rightarrow> uuid \<Rightarrow> bool \<Rightarrow> payload \<Rightarrow> string option \<Rightarrow> session \<Rightarrow> py_error + session" where
  "execute_steps env wid execute_all override corr s =
     (if execute_all
      then fst (execute_all_available_steps (xv_steps env) wid corr (Some override) s (xv_adapter env))
      else ebind (fst (execute_next_step (xv_steps env 0) wid corr (Some override) s (xv_adapter env)))
             (\<lambda>(_, t). Inr t))"

definition execute_workflow ::
  "'g api_env \<Rightarrow> uuid \<Rightarrow> bool \<Rightarrow> payload \<Rightarrow> string option \<Rightarrow> api_state \<Rightarrow> outcome" where
  "execute_workflow env wid execute_all override corr st =
     writing_session (\<lambda>_. 200) B_workflow st
       (value_error_is_400
         (ebind (execute_steps env wid execute_all override corr (st_session st)) (\<lambda>s1.
          ebind (commit s1) (\<lambda>t.
            case find_workflow t wid of None \<Rightarrow> Inl TypeError | Some w \<Rightarrow> Inr (workflow_detail t w, t)))))"

definition get_workflow :: "uuid \<Rightarrow> api_state \<Rightarrow> outcome" where
  "get_workflow wid st =
     reading B_workflow st
       (case find_workflow (st_session st) wid of
          None \<Rightarrow> Inl (Http_error 404) | Some w \<Rightarrow> Inr (workflow_detail (st_session st) w))"

definition workflows_by_case :: "(recovery_workflow \<Rightarrow> int) \<Rightarrow> session \<Rightarrow> uuid \<Rightarrow> recovery_workflow list" where
  "workflows_by_case created s cid = newest_first created (filter (\<lambda>w. wf_case_id w = cid) (workflows s))"

definition list_case_workflows :: "'g api_env \<Rightarrow> uuid \<Rightarrow> api_state \<Rightarrow> outcome" where
  "list_case_workflows env cid st =
     reading B_workflows st
       (Inr (map (workflow_detail (st_session st)) (workflows_by_case (xv_planned env) (st_session st) cid)))"

definition reconcile_case_route ::
  "'g api_env \<Rightarrow> user \<Rightarrow> uuid \<Rightarrow> bool \<Rightarrow> string option \<Rightarrow> api_state \<Rightarrow> outcome" where
  "reconcile_case_route env u cid auto_resolve corr st =
     writing_session (\<lambda>_. 200) B_report st
       (value_error_is_400 (reconcile_case (xv_recon env) cid (Some (us_id u)) corr auto_resolve (st_session st)))"

text \<open>The batch keeps what it committed before a case raised.\<close>

definition reconcile_pending_cases_route :: "'g api_env \<Rightarrow> int \<Rightarrow> api_state \<Rightarrow> outcome" where
  "reconcile_pending_cases_route env limit st =
     (let (r, s) = reconcile_pending_cases (xv_recon env) limit (st_session st)
      in (ebind (raised r) (\<lambda>reps. Inr (200, B_reports reps)), st\<lparr>st_session := s\<rparr>))"

section \<open>Events\<close>

definition ingest_event :: "'g api_env \<Rightarrow> ingest_request \<Rightarrow> string option \<Rightarrow> api_state \<Rightarrow> outcome" where
  "ingest_event env dto corr st =
     writing_session (\<lambda>r. if in_duplicate r then 200 else 201) B_ingested st
       (raised (ingest_canonical_event (xv_ingest env) dto (xv_event_id env) (xv_correlation_id env) True corr
                  (st_session st)))"

definition ingest_provider_webhook_route :: "'g api_env \<Rightarrow> webhook_request \<Rightarrow> api_state \<Rightarrow> outcome" where
  "ingest_provider_webhook_route env rq st =
     writing_session (\<lambda>_. 200) B_ingested st (raised (ingest_provider_webhook (xv_webhook env) rq (st_session st)))"

definition ingest_razorpay_webhook_route :: "'g api_env \<Rightarrow> webhook_request \<Rightarrow> api_state \<Rightarrow> outcome" where
  "ingest_razorpay_webhook_route env rq st =
     writing_session (\<lambda>_. 200) B_ingested st (raised (ingest_razorpay_webhook (xv_webhook env) rq (st_session st)))"

definition simulate_failure :: "'g api_env \<Rightarrow> simulate_request \<Rightarrow> string option \<Rightarrow> api_state \<Rightarrow> outcome" where
  "simulate_failure env dto corr st =
     writing_session (\<lambda>_. 201) B_ingested st
       (raised (simulate_failure_event (xv_ingest env) dto (xv_event_id env) (xv_payment_id env)
                  (xv_correlation_id env) corr (st_session st)))"

definition list_events_route ::
  "'g api_env \<Rightarrow> string option \<Rightarrow> string option \<Rightarrow> string option \<Rightarrow> bool option \<Rightarrow> int \<Rightarrow> int \<Rightarrow> api_state \<Rightarrow> outcome" where
  "list_events_route env provider etype status processed page limit st =
     reading B_events_page st
       (Inr (list_events (xv_received env) (event_matches provider etype status processed) (st_session st) page limit))"

definition get_event_detail :: "'g api_env \<Rightarrow> string \<Rightarrow> api_state \<Rightarrow> outcome" where
  "get_event_detail env raw st =
     reading B_event st (raised (get_event_by_id raw (au_uuid (xv_auth env) raw) (st_session st)))"

section \<open>Previews, the provider receipt and the dashboard\<close>

definition decision_preview_route :: "'g api_env \<Rightarrow> decision_preview_request \<Rightarrow> api_state \<Rightarrow> outcome" where
  "decision_preview_route env q st = reading B_preview st (decision_preview (xv_predict env) q)"

definition strategy_comparison_route :: "'g api_env \<Rightarrow> decision_preview_request list \<Rightarrow> api_state \<Rightarrow> outcome" where
  "strategy_comparison_route env qs st = reading B_comparison st (strategy_comparison (xv_predict env) qs)"

definition provider_webhook_route :: "'g api_env \<Rightarrow> provider_request \<Rightarrow> api_state \<Rightarrow> outcome" where
  "provider_webhook_route env rq st =
     writing_session (\<lambda>_. 200) B_receipt st (provider_webhook (xv_provider env) rq (st_session st))"

definition get_dashboard_metrics :: "'g api_env \<Rightarrow> string \<Rightarrow> string \<Rightarrow> api_state \<Rightarrow> outcome" where
  "get_dashboard_metrics env currency time_range st =
     reading B_metrics st (Inr (get_metrics (xv_evidence env) currency time_range (xv_now env) (st_session st)))"

definition get_revenue_trend_route :: "'g api_env \<Rightarrow> string \<Rightarrow> string \<Rightarrow> api_state \<Rightarrow> outcome" where
  "get_revenue_trend_route env currency interval st =
     reading B_trend st
       (Inr (get_revenue_trend (xv_evidence env) currency interval (xv_now env) (xv_later env) (st_session st)))"

definition get_workflow_status_route :: "'g api_env \<Rightarrow> api_state \<Rightarrow> outcome" where
  "get_workflow_status_route env st = reading B_distribution st (Inr (get_workflow_status (xv_now env) (st_session st)))"

end
