(* ===== verification/Request_Schemas.thy ===== *)
theory Request_Schemas
  imports Case_Queries Policy_Api Recovery_Routes
begin

text \<open>
  What Pydantic and FastAPI refuse before a route runs (answer 422): the field constraints of the request
  bodies (\<open>app/schemas/\<close>) and of the query parameters (\<open>app/api/routes/\<close>), one predicate per body
  or route. Types are those of the model's requests, so only lengths, ranges and patterns are left to check.
  The two regular expressions are matched by functions proved to accept what the expressions describe.
\<close>

section \<open>Constraints\<close>

definition len_between :: "nat \<Rightarrow> nat \<Rightarrow> string \<Rightarrow> bool" where
  "len_between a b s \<longleftrightarrow> a \<le> length s \<and> length s \<le> b"

definition int_between :: "int \<Rightarrow> int \<Rightarrow> int \<Rightarrow> bool" where
  "int_between a b i \<longleftrightarrow> a \<le> i \<and> i \<le> b"

definition if_given :: "('a \<Rightarrow> bool) \<Rightarrow> 'a option \<Rightarrow> bool" where
  "if_given P x = (case x of None \<Rightarrow> True | Some v \<Rightarrow> P v)"

lemma if_given_simps [simp]: "if_given P None" "if_given P (Some v) = P v"
  by (simp_all add: if_given_def)

text \<open>The pattern \<open>^[A-Z]{3}$\<close> of currencies.\<close>

definition currency_pattern :: "string \<Rightarrow> bool" where
  "currency_pattern s \<longleftrightarrow> length s = 3 \<and> list_all upper_letter s"

text \<open>
  The pattern \<open>^[^@\s]+@[^@\s]+\.[^@\s]+$\<close> of e-mail addresses: one at sign with something before it, and
  behind it a dot that is neither the first nor the last character.
\<close>

definition regex_space :: "char \<Rightarrow> bool" where
  "regex_space c = (let n = (of_char c :: nat) in (9 \<le> n \<and> n \<le> 13) \<or> n = 32)"

definition email_char :: "char \<Rightarrow> bool" where
  "email_char c \<longleftrightarrow> c \<noteq> CHR ''@'' \<and> \<not> regex_space c"

definition dot_inside :: "string \<Rightarrow> bool" where
  "dot_inside d = list_ex (\<lambda>i. d ! i = CHR ''.'') [1 ..< length d - 1]"

definition email_pattern :: "string \<Rightarrow> bool" where
  "email_pattern s =
     (let a = takeWhile email_char s; r = drop (length a) s
      in a \<noteq> [] \<and> r \<noteq> [] \<and> hd r = CHR ''@'' \<and> list_all email_char (tl r) \<and> dot_inside (tl r))"

lemma dot_inside_iff: "dot_inside d \<longleftrightarrow> (\<exists>b c. d = b @ ''.'' @ c \<and> b \<noteq> [] \<and> c \<noteq> [])"
proof
  assume "dot_inside d"
  then obtain i where i: "1 \<le> i" "i < length d - 1" "d ! i = CHR ''.''"
    by (auto simp: dot_inside_def list_ex_iff)
  then have "d = take i d @ ''.'' @ drop (Suc i) d" using id_take_nth_drop [of i d] by simp
  moreover have "take i d \<noteq> []" "drop (Suc i) d \<noteq> []" using i by auto
  ultimately show "\<exists>b c. d = b @ ''.'' @ c \<and> b \<noteq> [] \<and> c \<noteq> []" by blast
next
  assume "\<exists>b c. d = b @ ''.'' @ c \<and> b \<noteq> [] \<and> c \<noteq> []"
  then obtain b c where d: "d = b @ ''.'' @ c" "b \<noteq> []" "c \<noteq> []" by blast
  from d(2,3) have "Suc 0 \<le> length b" "0 < length c" by (simp_all add: Suc_le_eq)
  with d(1) have "length b \<in> set [1 ..< length d - 1]" "d ! length b = CHR ''.''" by simp_all
  then show "dot_inside d" unfolding dot_inside_def list_ex_iff by blast
qed

text \<open>The matcher accepts exactly the words of the regular expression.\<close>

lemma email_pattern_iff:
  "email_pattern s \<longleftrightarrow>
     (\<exists>a b c. s = a @ ''@'' @ b @ ''.'' @ c \<and> a \<noteq> [] \<and> b \<noteq> [] \<and> c \<noteq> []
        \<and> list_all email_char a \<and> list_all email_char b \<and> list_all email_char c)"
proof
  let ?a = "takeWhile email_char s"
  let ?r = "drop (length ?a) s"
  assume p: "email_pattern s"
  then obtain b c where bc: "tl ?r = b @ ''.'' @ c" "b \<noteq> []" "c \<noteq> []"
    by (auto simp: email_pattern_def Let_def dot_inside_iff)
  from p have r: "?r = CHR ''@'' # tl ?r" by (cases ?r) (auto simp: email_pattern_def Let_def)
  have "s = ?a @ ?r" by (metis append_take_drop_id takeWhile_eq_take)
  then have "s = ?a @ ''@'' @ b @ ''.'' @ c" using r bc(1) by simp
  moreover have "list_all email_char ?a" by (auto simp: list_all_iff dest: set_takeWhileD)
  moreover have "?a \<noteq> []" "list_all email_char (tl ?r)"
    using p by (auto simp: email_pattern_def Let_def)
  ultimately show "\<exists>a b c. s = a @ ''@'' @ b @ ''.'' @ c \<and> a \<noteq> [] \<and> b \<noteq> [] \<and> c \<noteq> []
        \<and> list_all email_char a \<and> list_all email_char b \<and> list_all email_char c"
    using bc by (intro exI [of _ ?a] exI [of _ b] exI [of _ c]) simp
next
  assume "\<exists>a b c. s = a @ ''@'' @ b @ ''.'' @ c \<and> a \<noteq> [] \<and> b \<noteq> [] \<and> c \<noteq> []
        \<and> list_all email_char a \<and> list_all email_char b \<and> list_all email_char c"
  then obtain a b c where s: "s = a @ ''@'' @ b @ ''.'' @ c" "a \<noteq> []" "b \<noteq> []" "c \<noteq> []"
    "list_all email_char a" "list_all email_char b" "list_all email_char c" by blast
  have "\<not> email_char CHR ''@''" "email_char CHR ''.''" by (simp_all add: email_char_def regex_space_def)
  then have "takeWhile email_char s = a" using s(1,5) by (simp add: list_all_iff takeWhile_append)
  moreover have "dot_inside (b @ ''.'' @ c)" using s(3,4) by (auto simp: dot_inside_iff)
  ultimately show "email_pattern s"
    using s \<open>email_char CHR ''.''\<close> by (simp add: email_pattern_def)
qed

section \<open>Request bodies\<close>

text \<open>\<open>schemas/auth.py\<close>\<close>

definition register_valid :: "string \<Rightarrow> string \<Rightarrow> string \<Rightarrow> bool" where
  "register_valid email password name \<longleftrightarrow>
     length email \<le> 320 \<and> email_pattern email \<and> len_between 8 128 password \<and> len_between 1 200 name"

definition login_valid :: "string \<Rightarrow> string \<Rightarrow> bool" where
  "login_valid email password \<longleftrightarrow> length email \<le> 320 \<and> len_between 1 128 password"

definition refresh_valid :: "string \<Rightarrow> bool" where
  "refresh_valid token \<longleftrightarrow> 1 \<le> length token"

definition change_password_valid :: "string \<Rightarrow> string \<Rightarrow> bool" where
  "change_password_valid current new \<longleftrightarrow> len_between 1 128 current \<and> len_between 8 128 new"

definition update_profile_valid :: "string \<Rightarrow> bool" where
  "update_profile_valid name \<longleftrightarrow> len_between 1 200 name"

text \<open>\<open>schemas/recovery_cases.py\<close>\<close>

definition case_create_valid :: "case_create_dto \<Rightarrow> bool" where
  "case_create_valid dto \<longleftrightarrow>
     if_given (len_between 1 200) (cc_case_key dto) \<and> int_between 1 1000 (cc_priority dto)"

definition case_update_valid :: "case_update_dto \<Rightarrow> bool" where
  "case_update_valid dto \<longleftrightarrow> if_given (int_between 1 1000) (cp_priority dto)"

definition case_transition_valid :: "case_transition_dto \<Rightarrow> bool" where
  "case_transition_valid dto \<longleftrightarrow>
     len_between 3 120 (cd_reason_code dto) \<and> len_between 1 200 (cd_correlation_id dto)"

text \<open>\<open>schemas/policy.py\<close>\<close>

definition policy_evaluation_valid :: "policy_evaluation_dto \<Rightarrow> bool" where
  "policy_evaluation_valid dto \<longleftrightarrow>
     within_length 50 (pe_communication_channel dto) \<and> within_length 250 (pe_idempotency_key dto)"

definition consent_create_valid :: "consent_create_dto \<Rightarrow> bool" where
  "consent_create_valid dto \<longleftrightarrow>
     within_length 128 (kc_merchant_id dto) \<and> length (kc_source dto) \<le> 120
     \<and> within_length 255 (kc_evidence_reference dto)"

text \<open>\<open>schemas/workflow.py\<close>\<close>

definition workflow_create_valid :: "int \<Rightarrow> int \<Rightarrow> bool" where
  "workflow_create_valid cooldown_hours max_hours \<longleftrightarrow>
     int_between 0 168 cooldown_hours \<and> int_between 1 720 max_hours"

text \<open>\<open>schemas/events.py\<close>\<close>

definition event_ingest_valid :: "ingest_request \<Rightarrow> bool" where
  "event_ingest_valid q \<longleftrightarrow>
     within_length 200 (iq_event_id q) \<and> length (iq_provider q) \<le> 64
     \<and> len_between 1 128 (iq_customer_reference q)
     \<and> within_length 128 (iq_payment_reference q) \<and> within_length 128 (iq_subscription_reference q)
     \<and> within_length 128 (iq_invoice_reference q) \<and> within_length 128 (iq_checkout_session_id q)
     \<and> 0 \<le> iq_amount_minor q \<and> currency_pattern (iq_currency q)
     \<and> within_length 100 (iq_failure_code q) \<and> within_length 500 (iq_failure_message q)"

definition simulate_failure_valid :: "simulate_request \<Rightarrow> bool" where
  "simulate_failure_valid q \<longleftrightarrow>
     len_between 1 128 (sq_customer_id q) \<and> 0 \<le> sq_amount_minor q \<and> currency_pattern (sq_currency q)
     \<and> length (sq_failure_code q) \<le> 100 \<and> length (sq_failure_message q) \<le> 500"

section \<open>Query parameters\<close>

definition page_valid :: "int \<Rightarrow> int \<Rightarrow> bool" where
  "page_valid page per \<longleftrightarrow> 1 \<le> page \<and> int_between 1 100 per"

definition case_query_valid :: "case_query \<Rightarrow> bool" where
  "case_query_valid q \<longleftrightarrow>
     if_given (int_between 1 1000) (qy_priority_min q) \<and> if_given (int_between 1 1000) (qy_priority_max q)
     \<and> if_given (len_between 1 100) (qy_search q)"

definition interval_pattern :: "string \<Rightarrow> bool" where
  "interval_pattern s \<longleftrightarrow> s \<in> {''hour'', ''day'', ''week''}"

definition pending_limit_valid :: "int \<Rightarrow> bool" where
  "pending_limit_valid n \<longleftrightarrow> int_between 1 100 n"

end
