(* ===== verification/Api.thy ===== *)
theory Api
  imports Routes Request_Schemas
begin

text \<open>
  The assembled service: every request of the routers that \<open>create_app\<close> (\<open>backend/app/main.py\<close>)
  includes, the guard its route declares (\<open>Depends\<close> on the functions of api/deps.py), and the answer
  of the registered exception handlers.

  FastAPI resolves a route's dependencies before the route runs, so a request that the guard refuses
  reaches no service. \<open>get_db\<close> rolls a failing request back; what it had committed is the state the
  route hands on. \<open>reachable\<close> are the states any sequence of requests leads to, each with an environment
  of its own. The liveness routes and the demo event stream touch no state and are left out.
\<close>

datatype request =
    Register string string string
  | Login string string
  | Refresh string
  | Logout
  | My_profile
  | Update_profile string
  | Change_password string string
  | List_users "user_role option" "user_status option" int int
  | Update_role uuid user_role
  | Update_status uuid user_status
  | List_cases case_query int int
  | Case_detail uuid
  | Update_case uuid case_update_dto
  | Transition_case uuid case_transition_dto
  | Case_history uuid
  | Case_events uuid
  | Generate_recommendation uuid
  | Latest_recommendation uuid
  | Recommendation_history uuid
  | Evaluate_policy policy_evaluation_dto
  | Policy_decisions uuid
  | Create_consent consent_create_dto
  | List_consents uuid
  | Revoke_consent uuid
  | Create_workflow uuid int int
  | Execute_workflow uuid bool payload "string option"
  | Get_workflow uuid
  | Case_workflows uuid
  | Reconcile_case uuid bool "string option"
  | Reconcile_pending int
  | Ingest_event ingest_request "string option"
  | Provider_event webhook_request
  | Razorpay_event webhook_request
  | Simulate_failure simulate_request "string option"
  | List_events "string option" "string option" "string option" "bool option" int int
  | Event_detail string
  | Decision_preview decision_preview_request
  | Strategy_comparison "decision_preview_request list"
  | Provider_receipt provider_request
  | Dashboard_metrics string string
  | Revenue_trend string string
  | Workflow_status

section \<open>The guards\<close>

datatype guard = Open_to_all | Signed_in | One_of "user_role list"

definition case_viewers :: guard where
  "case_viewers = One_of [Role_ADMIN, Role_OPERATOR, Role_AUDITOR]"

definition operators :: guard where
  "operators = One_of [Role_ADMIN, Role_OPERATOR]"

definition workflow_operators :: guard where
  "workflow_operators = One_of [Role_OPERATOR, Role_ADMIN]"

fun guard_of :: "request \<Rightarrow> guard" where
  "guard_of (Register _ _ _) = Open_to_all"
| "guard_of (Login _ _) = Open_to_all"
| "guard_of (Refresh _) = Open_to_all"
| "guard_of Logout = Signed_in"
| "guard_of My_profile = Signed_in"
| "guard_of (Update_profile _) = Signed_in"
| "guard_of (Change_password _ _) = Signed_in"
| "guard_of (List_users _ _ _ _) = One_of [Role_ADMIN]"
| "guard_of (Update_role _ _) = One_of [Role_ADMIN]"
| "guard_of (Update_status _ _) = One_of [Role_ADMIN]"
| "guard_of (List_cases _ _ _) = case_viewers"
| "guard_of (Case_detail _) = case_viewers"
| "guard_of (Update_case _ _) = operators"
| "guard_of (Transition_case _ _) = operators"
| "guard_of (Case_history _) = case_viewers"
| "guard_of (Case_events _) = case_viewers"
| "guard_of (Generate_recommendation _) = operators"
| "guard_of (Latest_recommendation _) = case_viewers"
| "guard_of (Recommendation_history _) = case_viewers"
| "guard_of (Evaluate_policy _) = operators"
| "guard_of (Policy_decisions _) = operators"
| "guard_of (Create_consent _) = operators"
| "guard_of (List_consents _) = operators"
| "guard_of (Revoke_consent _) = operators"
| "guard_of (Create_workflow _ _ _) = workflow_operators"
| "guard_of (Execute_workflow _ _ _ _) = workflow_operators"
| "guard_of (Get_workflow _) = Signed_in"
| "guard_of (Case_workflows _) = Signed_in"
| "guard_of (Reconcile_case _ _ _) = workflow_operators"
| "guard_of (Reconcile_pending _) = workflow_operators"
| "guard_of (Ingest_event _ _) = One_of [Role_OPERATOR, Role_ADMIN, Role_INGESTOR]"
| "guard_of (Provider_event _) = Open_to_all"
| "guard_of (Razorpay_event _) = Open_to_all"
| "guard_of (Simulate_failure _ _) = workflow_operators"
| "guard_of (List_events _ _ _ _ _ _) = Signed_in"
| "guard_of (Event_detail _) = Signed_in"
| "guard_of (Decision_preview _) = Open_to_all"
| "guard_of (Strategy_comparison _) = Open_to_all"
| "guard_of (Provider_receipt _) = Open_to_all"
| "guard_of (Dashboard_metrics _ _) = Signed_in"
| "guard_of (Revenue_trend _ _) = Signed_in"
| "guard_of Workflow_status = Signed_in"

definition check_guard :: "'g api_env \<Rightarrow> guard \<Rightarrow> string option \<Rightarrow> user_store \<Rightarrow> py_error + user option" where
  "check_guard env g token us =
     (case g of
        Open_to_all \<Rightarrow> Inr None
      | Signed_in \<Rightarrow> ebind (get_current_user (xv_auth env) token us) (\<lambda>u. Inr (Some u))
      | One_of roles \<Rightarrow> ebind (require_roles roles (xv_auth env) token us) (\<lambda>u. Inr (Some u)))"

section \<open>Serving a request\<close>

text \<open>\<open>the u\<close> stands where the guard has provided the caller.\<close>

fun handle :: "'g api_env \<Rightarrow> user option \<Rightarrow> request \<Rightarrow> api_state \<Rightarrow> outcome" where
  "handle env u (Register email pw name) st = register_user env email pw name st"
| "handle env u (Login email pw) st = login_user env email pw st"
| "handle env u (Refresh token) st = refresh_access_token env token st"
| "handle env u Logout st = logout_user st"
| "handle env u My_profile st = get_my_profile (the u) st"
| "handle env u (Update_profile name) st = update_my_profile (the u) name st"
| "handle env u (Change_password cur new) st = change_password_route env (the u) cur new st"
| "handle env u (List_users r s page per) st = list_users_route env r s page per st"
| "handle env u (Update_role i r) st = update_user_role_route i r st"
| "handle env u (Update_status i s) st = update_user_status_route i s st"
| "handle env u (List_cases q page per) st = list_cases_route q page per st"
| "handle env u (Case_detail cid) st = get_case_detail_route cid st"
| "handle env u (Update_case cid dto) st = update_case_route env (the u) cid dto st"
| "handle env u (Transition_case cid dto) st = transition_case_state env cid dto st"
| "handle env u (Case_history cid) st = get_case_history cid st"
| "handle env u (Case_events cid) st = get_case_events_route env cid st"
| "handle env u (Generate_recommendation cid) st = generate_case_recommendation env (the u) cid st"
| "handle env u (Latest_recommendation cid) st = get_latest_case_recommendation env cid st"
| "handle env u (Recommendation_history cid) st = get_case_recommendation_history env cid st"
| "handle env u (Evaluate_policy dto) st = evaluate_policy_route env (the u) dto st"
| "handle env u (Policy_decisions cid) st = get_case_policy_decisions_route cid st"
| "handle env u (Create_consent dto) st = create_customer_consent_route env dto st"
| "handle env u (List_consents cid) st = list_customer_consents_route env cid st"
| "handle env u (Revoke_consent i) st = revoke_customer_consent_route env i st"
| "handle env u (Create_workflow d cool hours) st = create_workflow_route env d cool hours st"
| "handle env u (Execute_workflow w everything ov corr) st = execute_workflow env w everything ov corr st"
| "handle env u (Get_workflow w) st = get_workflow w st"
| "handle env u (Case_workflows cid) st = list_case_workflows env cid st"
| "handle env u (Reconcile_case cid auto corr) st = reconcile_case_route env (the u) cid auto corr st"
| "handle env u (Reconcile_pending n) st = reconcile_pending_cases_route env n st"
| "handle env u (Ingest_event dto corr) st = ingest_event env dto corr st"
| "handle env u (Provider_event rq) st = ingest_provider_webhook_route env rq st"
| "handle env u (Razorpay_event rq) st = ingest_razorpay_webhook_route env rq st"
| "handle env u (Simulate_failure dto corr) st = simulate_failure env dto corr st"
| "handle env u (List_events p t s d page n) st = list_events_route env p t s d page n st"
| "handle env u (Event_detail i) st = get_event_detail env i st"
| "handle env u (Decision_preview q) st = decision_preview_route env q st"
| "handle env u (Strategy_comparison qs) st = strategy_comparison_route env qs st"
| "handle env u (Provider_receipt rq) st = provider_webhook_route env rq st"
| "handle env u (Dashboard_metrics c t) st = get_dashboard_metrics env c t st"
| "handle env u (Revenue_trend c i) st = get_revenue_trend_route env c i st"
| "handle env u Workflow_status st = get_workflow_status_route env st"

text \<open>
  The schema of each route. FastAPI resolves the dependencies first, so that the guard answers before the
  schema does; the two preview routes check their bodies themselves in the model.
\<close>

fun valid_request :: "request \<Rightarrow> bool" where
  "valid_request (Register email pw name) = register_valid email pw name"
| "valid_request (Login email pw) = login_valid email pw"
| "valid_request (Refresh token) = refresh_valid token"
| "valid_request (Update_profile name) = update_profile_valid name"
| "valid_request (Change_password cur new) = change_password_valid cur new"
| "valid_request (List_users _ _ page per) = page_valid page per"
| "valid_request (List_cases q page per) = (case_query_valid q \<and> page_valid page per)"
| "valid_request (Update_case _ dto) = case_update_valid dto"
| "valid_request (Transition_case _ dto) = case_transition_valid dto"
| "valid_request (Evaluate_policy dto) = policy_evaluation_valid dto"
| "valid_request (Create_consent dto) = consent_create_valid dto"
| "valid_request (Create_workflow _ cool hours) = workflow_create_valid cool hours"
| "valid_request (Reconcile_pending n) = pending_limit_valid n"
| "valid_request (Ingest_event dto _) = event_ingest_valid dto"
| "valid_request (Simulate_failure dto _) = simulate_failure_valid dto"
| "valid_request (List_events _ _ _ _ page per) = page_valid page per"
| "valid_request (Dashboard_metrics currency _) = currency_pattern currency"
| "valid_request (Revenue_trend currency interval) = (currency_pattern currency \<and> interval_pattern interval)"
| "valid_request _ = True"

definition serve :: "'g api_env \<Rightarrow> string option \<Rightarrow> request \<Rightarrow> api_state \<Rightarrow> outcome" where
  "serve env token rq st =
     (case check_guard env (guard_of rq) token (st_users st) of
        Inl e \<Rightarrow> (Inl (Raised e), st)
      | Inr u \<Rightarrow> if valid_request rq then handle env u rq st else (Inl Invalid_request, st))"

definition answer_status :: "route_error + int \<times> answer_body \<Rightarrow> int" where
  "answer_status r = (case r of Inl e \<Rightarrow> ea_status (answer_error e) | Inr (code, _) \<Rightarrow> code)"

end
