(* ===== verification/Api_Access.thy ===== *)
theory Api_Access
  imports Api
begin

text \<open>
  What holds of the assembled service whatever is asked of it: which requests may write and on whose
  authority, that no request gives a role to an account but an administrator's, and that every state a
  sequence of requests leads to keeps the constraints of both tables. A sequence is the relation
  \<open>serves\<close>, labelled with the requests, each with its own environment and token.
\<close>

section \<open>Requests and their traces\<close>

text \<open>The commits of other workers that one request may meet kept the constraints.\<close>

definition call_ok :: "'g api_env \<Rightarrow> api_state \<Rightarrow> bool" where
  "call_ok env st \<longleftrightarrow>
     list_all (\<lambda>ig. receipt_rival_ok (ig_rival ig) (st_session st) \<and> rival_ok (ig_engine ig) (st_session st))
       [xv_ingest env, wn_ingest (xv_webhook env)]
     \<and> receipt_rival_ok (pv_rival (xv_provider env)) (st_session st)"

type_synonym 'g api_call = "'g api_env \<times> string option \<times> request"

inductive serves :: "api_state \<Rightarrow> 'g api_call list \<Rightarrow> api_state \<Rightarrow> bool" where
  serves_none: "serves st [] st"
| serves_more: "\<lbrakk>call_ok env st; serve env token rq st = (answer, st1); serves st1 calls st2\<rbrakk>
    \<Longrightarrow> serves st ((env, token, rq) # calls) st2"

section \<open>Routes either write or leave the state\<close>

lemma reading_state [simp]: "reading body st r = (a, st') \<Longrightarrow> st' = st"
  by (simp add: reading_def)

lemma writing_session_cases:
  assumes "writing_session code body st r = (a, st')"
  obtains e where "r = Inl e" "a = Inl e" "st' = st"
  | x s where "r = Inr (x, s)" "a = Inr (code x, body x)" "st' = st\<lparr>st_session := s\<rparr>"
  using assms by (cases r) (auto simp: writing_session_def)

lemma writing_users_cases:
  assumes "writing_users code body st r = (a, st')"
  obtains e where "r = Inl e" "a = Inl (Raised e)" "st' = st"
  | x us where "r = Inr (x, us)" "a = Inr (code, body x)" "st' = st\<lparr>st_users := us\<rparr>"
  using assms by (cases r) (auto simp: writing_users_def)

section \<open>Every service keeps the session consistent\<close>


lemma service_transition_ok: "service_transition cid dto now s = Inr (c, t) \<Longrightarrow> session_ok t"
  by (auto simp: service_transition_def Let_def err_simps split: option.splits if_splits intro: session_ok_flushed)

lemma update_case_ok: "update_case cid dto a i now s = Inr (c, t) \<Longrightarrow> session_ok s \<Longrightarrow> session_ok t"
  using update_preserves_identity by blast

lemma generate_recommendation_ok: "generate_recommendation env cid u s = Inr (r, t) \<Longrightarrow> session_ok t"
  by (auto simp: generate_recommendation_def store_recommendation_def Let_def err_simps
      split: option.splits intro: session_ok_flushed)

lemma evaluate_loaded_ok: "evaluate_loaded cfg req c r i corr now s = Inr (res, t) \<Longrightarrow> session_ok t"
  by (auto simp: evaluate_loaded_def Let_def case_prod_beta err_simps intro: session_ok_flushed)

lemma policy_evaluate_ok:
  "policy_evaluate cfg req i corr now s = Inr (res, t) \<Longrightarrow> session_ok s \<Longrightarrow> session_ok t"
  by (auto simp: policy_evaluate_def Let_def err_simps split: option.splits if_splits intro: evaluate_loaded_ok)

lemma evaluate_policy_recommendation_ok:
  "evaluate_policy_recommendation dto u i corr now s = Inr (res, t) \<Longrightarrow> session_ok s \<Longrightarrow> session_ok t"
  by (auto simp: evaluate_policy_recommendation_def err_simps intro: policy_evaluate_ok)

lemma create_customer_consent_ok: "create_customer_consent dto i now l s = Inr (r, t) \<Longrightarrow> session_ok t"
  by (auto simp: create_customer_consent_def Let_def err_simps split: if_splits intro: session_ok_flushed)

lemma revoke_customer_consent_ok: "revoke_customer_consent i now l s = Inr (r, t) \<Longrightarrow> session_ok t"
  by (auto simp: revoke_customer_consent_def err_simps split: option.splits intro: session_ok_flushed)

lemma reconcile_case_ok: "reconcile_case env cid a corr auto s = Inr (rep, t) \<Longrightarrow> session_ok t"
  by (auto simp: reconcile_case_def reconcile_loaded_def Let_def case_prod_beta err_simps
      split: option.splits intro: session_ok_flushed)

lemma reconcile_each_ok: "reconcile_each env is s = (r, t) \<Longrightarrow> session_ok s \<Longrightarrow> session_ok t"
proof (induction env "is" s arbitrary: r t rule: reconcile_each.induct)
  case (2 env i "is" s)
  then show ?case
    by (auto split: sum.splits prod.splits dest: reconcile_case_ok)
qed simp

lemma ingest_ok:
  assumes "ingest env e sig status corr s = Inr (r, t)" and "session_ok s"
    and "receipt_rival_ok (ig_rival env) s \<and> rival_ok (ig_engine env) s"
  shows "session_ok t"
proof -
  from assms(3) have "receipt_rival_ok (ig_rival env) s" "rival_ok (ig_engine env) s" by simp_all
  from ingest_receipt [OF assms(1,2) this] show ?thesis by blast
qed

lemma ingest_canonical_event_ok:
  "ingest_canonical_event env req i corr v g s = Inr (r, t) \<Longrightarrow> session_ok s \<Longrightarrow>
     receipt_rival_ok (ig_rival env) s \<and> rival_ok (ig_engine env) s \<Longrightarrow> session_ok t"
  by (auto simp: ingest_canonical_event_def err_simps intro: ingest_ok)

lemma simulate_failure_event_ok:
  "simulate_failure_event env req i p corr g s = Inr (r, t) \<Longrightarrow> session_ok s \<Longrightarrow>
     receipt_rival_ok (ig_rival env) s \<and> rival_ok (ig_engine env) s \<Longrightarrow> session_ok t"
  by (auto simp: simulate_failure_event_def err_simps intro: ingest_ok)

lemma webhook_ok:
  "ingest_provider_webhook env rq s = Inr (r, t) \<or> ingest_razorpay_webhook env rq s = Inr (r, t) \<Longrightarrow> session_ok s \<Longrightarrow>
     receipt_rival_ok (ig_rival (wn_ingest env)) s \<and> rival_ok (ig_engine (wn_ingest env)) s \<Longrightarrow> session_ok t"
  by (auto simp: ingest_provider_webhook_def ingest_razorpay_webhook_def ingest_raw_webhook_def Let_def err_simps
      split: if_splits intro: ingest_ok)

lemma provider_webhook_ok:
  "provider_webhook env rq s = Inr (r, t) \<Longrightarrow> session_ok s \<Longrightarrow> receipt_rival_ok (pv_rival env) s \<Longrightarrow> session_ok t"
  by (auto elim: provider_webhook_Inr)

section \<open>The user table\<close>

lemma commit_users_Inr: "commit_users us = Inr us' \<longleftrightarrow> us' = us \<and> users_ok us"
  by (auto simp: commit_users_def)

lemma modify_user_ok: "modify_user i f us = Inr (v, us') \<Longrightarrow> users_ok us'"
  by (auto simp: modify_user_def err_simps commit_users_Inr split: option.splits)

lemma register_Inr:
  assumes "register env email pw name role us = Inr (u, us')"
  shows "us' = us @ [u]" "us_role u = role" "us_status u = User_ACTIVE" "users_ok us'"
  using assms by (auto simp: register_def Let_def err_simps commit_users_Inr split: option.splits if_splits)

lemma login_Inr:
  assumes "login env email pw us = Inr (resp, us')"
  obtains u where "u \<in> set us" "us_status u = User_ACTIVE" "us' = put_user (u\<lparr>us_last_login_at := Some (au_now env)\<rparr>) us"
    "users_ok us'"
  using assms by (auto simp: login_def Let_def err_simps commit_users_Inr find_user_by_email_def
      split: option.splits if_splits dest!: find_SomeD)

lemmas route_defs =
  register_user_def login_user_def refresh_access_token_def logout_user_def get_my_profile_def
  update_my_profile_def change_password_route_def list_users_route_def update_user_role_route_def
  update_user_status_route_def list_cases_route_def get_case_detail_route_def update_case_route_def
  transition_case_state_def get_case_history_def get_case_events_route_def generate_case_recommendation_def
  get_latest_case_recommendation_def get_case_recommendation_history_def evaluate_policy_route_def
  get_case_policy_decisions_route_def create_customer_consent_route_def list_customer_consents_route_def
  revoke_customer_consent_route_def create_workflow_route_def execute_workflow_def get_workflow_def
  list_case_workflows_def reconcile_case_route_def reconcile_pending_cases_route_def ingest_event_def
  ingest_provider_webhook_route_def ingest_razorpay_webhook_route_def simulate_failure_def list_events_route_def
  get_event_detail_def decision_preview_route_def strategy_comparison_route_def provider_webhook_route_def
  get_dashboard_metrics_def get_revenue_trend_route_def get_workflow_status_route_def

section \<open>The writes of a request\<close>

text \<open>Which service a writing request ran, and what it returned; every other request leaves the state.\<close>

inductive session_step :: "'g api_env \<Rightarrow> user option \<Rightarrow> request \<Rightarrow> session \<Rightarrow> session \<Rightarrow> bool" for env u where
  "update_case cid dto (Some (us_id (the u))) (xv_id env) (xv_now env) s = Inr (c, t) \<Longrightarrow>
     session_step env u (Update_case cid dto) s t"
| "service_transition cid ct (xv_now env) s = Inr (c, t) \<Longrightarrow> session_step env u (Transition_case cid ct) s t"
| "generate_recommendation (xv_recommend env) cid (Some (us_id (the u))) s = Inr (rec, t) \<Longrightarrow>
     session_step env u (Generate_recommendation cid) s t"
| "evaluate_policy_recommendation pe (us_id (the u)) (xv_id env) (xv_id2 env) (xv_now env) s = Inr (po, t) \<Longrightarrow>
     session_step env u (Evaluate_policy pe) s t"
| "create_customer_consent kc (xv_id env) (xv_now env) (xv_later env) s = Inr (kr, t) \<Longrightarrow>
     session_step env u (Create_consent kc) s t"
| "revoke_customer_consent i (xv_now env) (xv_later env) s = Inr (kr, t) \<Longrightarrow>
     session_step env u (Revoke_consent i) s t"
| "create_workflow d cool hours (xv_id env) (xv_step_ids env) (xv_now env) s = Inr (w, s1) \<Longrightarrow> commit s1 = Inr t \<Longrightarrow>
     session_step env u (Create_workflow d cool hours) s t"
| "execute_steps env wid everything override corr s = Inr s1 \<Longrightarrow> commit s1 = Inr t \<Longrightarrow>
     session_step env u (Execute_workflow wid everything override corr) s t"
| "reconcile_case (xv_recon env) cid (Some (us_id (the u))) corr auto s = Inr (rep, t) \<Longrightarrow>
     session_step env u (Reconcile_case cid auto corr) s t"
| "reconcile_pending_cases (xv_recon env) n s = (r, t) \<Longrightarrow> session_step env u (Reconcile_pending n) s t"
| "ingest_canonical_event (xv_ingest env) ir (xv_event_id env) (xv_correlation_id env) True corr s = Inr (resp, t) \<Longrightarrow>
     session_step env u (Ingest_event ir corr) s t"
| "ingest_provider_webhook (xv_webhook env) wq s = Inr (resp, t) \<Longrightarrow> session_step env u (Provider_event wq) s t"
| "ingest_razorpay_webhook (xv_webhook env) wq s = Inr (resp, t) \<Longrightarrow> session_step env u (Razorpay_event wq) s t"
| "simulate_failure_event (xv_ingest env) sr (xv_event_id env) (xv_payment_id env) (xv_correlation_id env) corr s
     = Inr (resp, t) \<Longrightarrow> session_step env u (Simulate_failure sr corr) s t"
| "provider_webhook (xv_provider env) pw s = Inr (receipt, t) \<Longrightarrow> session_step env u (Provider_receipt pw) s t"

inductive users_step :: "'g api_env \<Rightarrow> user option \<Rightarrow> request \<Rightarrow> user_store \<Rightarrow> user_store \<Rightarrow> bool" for env u where
  "register (xv_auth env) e pw name Role_OPERATOR us = Inr (v, us') \<Longrightarrow> users_step env u (Register e pw name) us us'"
| "login (xv_auth env) e pw us = Inr (tokens, us') \<Longrightarrow> users_step env u (Login e pw) us us'"
| "update_profile (us_id (the u)) name us = Inr (v, us') \<Longrightarrow> users_step env u (Update_profile name) us us'"
| "change_password (xv_auth env) (us_id (the u)) cur new us = Inr (v, us') \<Longrightarrow>
     users_step env u (Change_password cur new) us us'"
| "update_user_role i r us = Inr (v, us') \<Longrightarrow> users_step env u (Update_role i r) us us'"
| "update_user_status i x us = Inr (v, us') \<Longrightarrow> users_step env u (Update_status i x) us us'"

lemma workflow_step_Inr:
  "ebind (execute_steps env w b ov corr s) (\<lambda>s1. ebind (commit s1) (\<lambda>t.
     case find_workflow t w of None \<Rightarrow> Inl x | Some y \<Rightarrow> Inr (f t y, t))) = Inr (r, t) \<Longrightarrow>
     \<exists>s1. execute_steps env w b ov corr s = Inr s1 \<and> commit s1 = Inr t"
  by (auto simp: ebind_eq_Inr split: option.splits)

lemma handle_writes:
  assumes "handle env u rq st = (a, st')"
  shows "st' = st
    \<or> (\<exists>s. st' = st\<lparr>st_session := s\<rparr> \<and> session_step env u rq (st_session st) s \<and> (isl a \<longrightarrow> (\<exists>n. rq = Reconcile_pending n)))
    \<or> (\<exists>us. st' = st\<lparr>st_users := us\<rparr> \<and> users_step env u rq (st_users st) us \<and> \<not> isl a)"
proof (cases rq)
  case (Reconcile_pending n)
  obtain r s where "reconcile_pending_cases (xv_recon env) n (st_session st) = (r, s)" by fastforce
  with assms Reconcile_pending have "st' = st\<lparr>st_session := s\<rparr> \<and> session_step env u rq (st_session st) s"
    by (auto simp: route_defs session_step.simps)
  with Reconcile_pending show ?thesis by blast
next
  case (Execute_workflow w b ov corr)
  with assms show ?thesis
    by (auto simp: route_defs session_step.simps elim!: writing_session_cases dest!: workflow_step_Inr)
next
  case (Create_workflow d cool hours)
  with assms show ?thesis
    by (fastforce simp: route_defs session_step.simps ebind_eq_Inr elim!: writing_session_cases)
qed (use assms in \<open>auto simp: route_defs session_step.simps users_step.simps
       elim!: writing_session_cases writing_users_cases dest!: reading_state\<close>)

lemma handle_writesE:
  assumes "handle env u rq st = (a, st')"
  obtains "st' = st"
  | s where "st' = st\<lparr>st_session := s\<rparr>" "session_step env u rq (st_session st) s" "isl a \<longrightarrow> (\<exists>n. rq = Reconcile_pending n)"
  | us where "st' = st\<lparr>st_users := us\<rparr>" "users_step env u rq (st_users st) us" "\<not> isl a"
  using handle_writes [OF assms] by blast

section \<open>Every state keeps the constraints\<close>

lemmas service_ok =
  service_transition_ok update_case_ok generate_recommendation_ok evaluate_policy_recommendation_ok
  create_customer_consent_ok revoke_customer_consent_ok reconcile_case_ok ingest_canonical_event_ok
  simulate_failure_event_ok webhook_ok [OF disjI1] webhook_ok [OF disjI2] provider_webhook_ok

lemma session_step_ok:
  assumes "session_step env u rq s t" and "call_ok env st" and "session_ok s" and "st_session st = s"
  shows "session_ok t"
  using assms
  by (induction rule: session_step.induct)
    (auto simp: call_ok_def reconcile_pending_cases_def commit_eq_Inr intro: session_ok_flushed
      dest: service_ok reconcile_each_ok)

lemma users_step_ok: "users_step env u rq us us' \<Longrightarrow> users_ok us'"
  by (induction rule: users_step.induct)
    (auto simp: update_profile_def change_password_def update_user_role_def update_user_status_def
      dest: modify_user_ok register_Inr(4) elim: login_Inr)

lemma handle_session:
  "handle env u rq st = (a, st') \<Longrightarrow> call_ok env st \<Longrightarrow> session_ok (st_session st) \<Longrightarrow> session_ok (st_session st')"
  by (erule handle_writesE) (auto dest: session_step_ok)

lemma handle_users: "handle env u rq st = (a, st') \<Longrightarrow> users_ok (st_users st) \<Longrightarrow> users_ok (st_users st')"
  by (erule handle_writesE) (auto dest: users_step_ok)

lemma serve_cases:
  assumes "serve env token rq st = (a, st')"
  obtains e where "check_guard env (guard_of rq) token (st_users st) = Inl e" "a = Inl (Raised e)" "st' = st"
  | u where "check_guard env (guard_of rq) token (st_users st) = Inr u" "\<not> valid_request rq"
      "a = Inl Invalid_request" "st' = st"
  | u where "check_guard env (guard_of rq) token (st_users st) = Inr u" "valid_request rq" "handle env u rq st = (a, st')"
  using assms by (cases "check_guard env (guard_of rq) token (st_users st)") (auto simp: serve_def split: if_splits)


section \<open>Roles\<close>

text \<open>What a guard decides on, and the accounts that can manage others.\<close>

definition access_of :: "user \<Rightarrow> uuid \<times> string \<times> user_role \<times> user_status" where
  "access_of u = (us_id u, us_email u, us_role u, us_status u)"

definition active_admin :: "user \<Rightarrow> bool" where
  "active_admin u \<longleftrightarrow> us_role u = Role_ADMIN \<and> us_status u = User_ACTIVE"

lemma check_guard_Inr:
  assumes "check_guard env g token us = Inr u"
  shows "g = Open_to_all \<and> u = None
    \<or> (\<exists>v. u = Some v \<and> get_current_user (xv_auth env) token us = Inr v
         \<and> v \<in> set us \<and> us_status v = User_ACTIVE \<and> find_user us (us_id v) = Some v
         \<and> (\<forall>roles. g = One_of roles \<longrightarrow> us_role v \<in> set roles))"
proof (cases g)
  case Open_to_all
  with assms show ?thesis by (simp add: check_guard_def)
next
  case Signed_in
  then obtain v where "u = Some v" and v: "get_current_user (xv_auth env) token us = Inr v"
    using assms by (auto simp: check_guard_def err_simps)
  with Signed_in show ?thesis by (auto elim!: get_current_user_Inr dest: find_user_id)
next
  case (One_of roles)
  then obtain v where "u = Some v" and v: "get_current_user (xv_auth env) token us = Inr v" "us_role v \<in> set roles"
    using assms by (auto simp: check_guard_def require_roles_def err_simps split: if_splits)
  with One_of show ?thesis by (auto elim!: get_current_user_Inr dest: find_user_id)
qed

lemma map_put_user:
  assumes "distinct (map us_id us)" and "find_user us (us_id v) = Some u" and "f v = f u"
  shows "map f (put_user v us) = map f us"
proof -
  have "f (if us_id w = us_id v then v else w) = f w" if "w \<in> set us" for w
    using assms that find_user_id [OF assms(2)] by (auto simp: distinct_map inj_on_def)
  then show ?thesis by (simp add: put_user_def upd_by_def o_def)
qed

lemma modify_user_access:
  assumes "modify_user i f us = Inr (v, us')" and "users_ok us"
    and "\<And>u v. f u = Inr v \<Longrightarrow> access_of v = access_of u"
  shows "map access_of us' = map access_of us"
proof -
  from assms(1) obtain u where u: "find_user us i = Some u" "f u = Inr v" "us' = put_user v us"
    by (rule modify_user_Inr)
  from assms(3) [OF u(2)] have v: "access_of v = access_of u" .
  with find_user_id [OF u(1)] have "us_id v = i" by (simp add: access_of_def)
  with u assms(2) v show ?thesis by (simp add: map_put_user users_ok_def)
qed

lemma find_user_member: "distinct (map us_id us) \<Longrightarrow> u \<in> set us \<Longrightarrow> find_user us (us_id u) = Some u"
  by (induction us) (auto simp: find_user_def)

lemma login_access:
  assumes "login env email pw us = Inr (resp, us')" and "users_ok us"
  shows "map access_of us' = map access_of us"
proof -
  from assms(1) obtain u where u: "u \<in> set us" "us' = put_user (u\<lparr>us_last_login_at := Some (au_now env)\<rparr>) us"
    by (rule login_Inr)
  have "find_user us (us_id u) = Some u"
    using u(1) assms(2) by (simp add: find_user_member users_ok_def)
  with u(2) assms(2) show ?thesis
    by (simp add: users_ok_def map_put_user [where u = u] access_of_def)
qed

lemma update_profile_access:
  "update_profile i name us = Inr (v, us') \<Longrightarrow> users_ok us \<Longrightarrow> map access_of us' = map access_of us"
  unfolding update_profile_def by (rule modify_user_access) (auto simp: access_of_def)

lemma change_password_access:
  "change_password env i cur new us = Inr (v, us') \<Longrightarrow> users_ok us \<Longrightarrow> map access_of us' = map access_of us"
  unfolding change_password_def
  by (rule modify_user_access) (auto simp: access_of_def err_simps split: if_splits)

lemma users_step_access:
  assumes "users_step env u rq us us'" and "users_ok us"
  shows "map access_of us' = map access_of us
    \<or> (\<exists>e p n v. rq = Register e p n \<and> us' = us @ [v] \<and> us_role v = Role_OPERATOR \<and> us_status v = User_ACTIVE)
    \<or> guard_of rq = One_of [Role_ADMIN]"
  using assms
proof (induction rule: users_step.induct)
  case (1 e pw name us v us')
  from register_Inr [OF 1(1)] show ?case by auto
qed (auto dest: login_access update_profile_access change_password_access)

text \<open>Accounts kept what guards decide on, and those that joined are active operators.\<close>

definition only_operators_join :: "user_store \<Rightarrow> user_store \<Rightarrow> bool" where
  "only_operators_join us us' \<longleftrightarrow>
     map access_of (take (length us) us') = map access_of us
     \<and> list_all (\<lambda>v. us_role v = Role_OPERATOR \<and> us_status v = User_ACTIVE) (drop (length us) us')"

lemma only_operators_join_iff:
  "only_operators_join us us' \<longleftrightarrow>
     (\<exists>old new. us' = old @ new \<and> map access_of old = map access_of us
        \<and> list_all (\<lambda>v. us_role v = Role_OPERATOR \<and> us_status v = User_ACTIVE) new)"
proof
  assume "only_operators_join us us'"
  then show "\<exists>old new. us' = old @ new \<and> map access_of old = map access_of us
        \<and> list_all (\<lambda>v. us_role v = Role_OPERATOR \<and> us_status v = User_ACTIVE) new"
    by (intro exI [of _ "take (length us) us'"] exI [of _ "drop (length us) us'"])
      (simp add: only_operators_join_def)
next
  assume "\<exists>old new. us' = old @ new \<and> map access_of old = map access_of us
        \<and> list_all (\<lambda>v. us_role v = Role_OPERATOR \<and> us_status v = User_ACTIVE) new"
  then obtain old new where v: "us' = old @ new" "map access_of old = map access_of us"
    "list_all (\<lambda>v. us_role v = Role_OPERATOR \<and> us_status v = User_ACTIVE) new" by blast
  have "length old = length us" by (rule map_eq_imp_length_eq [OF v(2)])
  with v show "only_operators_join us us'" by (simp add: only_operators_join_def)
qed

lemma only_operators_join_same: "map access_of us' = map access_of us \<Longrightarrow> only_operators_join us us'"
  by (auto simp: only_operators_join_iff intro: exI [of _ us'])

lemma only_operators_join_new:
  "us_role v = Role_OPERATOR \<Longrightarrow> us_status v = User_ACTIVE \<Longrightarrow> only_operators_join us (us @ [v])"
  by (simp add: only_operators_join_def)

lemma only_operators_join_trans:
  assumes "only_operators_join us vs" and "only_operators_join vs ws"
  shows "only_operators_join us ws"
proof -
  from assms(1) obtain old new where v: "vs = old @ new" "map access_of old = map access_of us"
    "list_all (\<lambda>v. us_role v = Role_OPERATOR \<and> us_status v = User_ACTIVE) new"
    by (auto simp: only_operators_join_iff)
  from assms(2) obtain old2 new2 where w: "ws = old2 @ new2" "map access_of old2 = map access_of vs"
    "list_all (\<lambda>v. us_role v = Role_OPERATOR \<and> us_status v = User_ACTIVE) new2"
    by (auto simp: only_operators_join_iff)
  from v(1) w(2) obtain a b where ab: "old2 = a @ b" "map access_of a = map access_of old"
    "map access_of b = map access_of new" by (auto simp: map_eq_append_conv)
  have "list_all (\<lambda>v. us_role v = Role_OPERATOR \<and> us_status v = User_ACTIVE) xs
      = list_all (\<lambda>(_, _, r, s). r = Role_OPERATOR \<and> s = User_ACTIVE) (map access_of xs)" for xs
    by (induction xs) (simp_all add: access_of_def)
  with ab(3) v(3) have "list_all (\<lambda>v. us_role v = Role_OPERATOR \<and> us_status v = User_ACTIVE) b" by simp
  with ab v w show ?thesis
    unfolding only_operators_join_iff by (intro exI [of _ a] exI [of _ "b @ new2"]) simp
qed

lemma no_admin_joins:
  assumes "only_operators_join us us'" and "list_all (\<lambda>u. \<not> active_admin u) us"
  shows "list_all (\<lambda>u. \<not> active_admin u) us'"
proof -
  have eq: "list_all (\<lambda>u. \<not> active_admin u) xs
      = list_all (\<lambda>(_, _, r, s). \<not> (r = Role_ADMIN \<and> s = User_ACTIVE)) (map access_of xs)" for xs
    by (induction xs) (simp_all add: active_admin_def access_of_def)
  from assms(1) obtain old new where v: "us' = old @ new" "map access_of old = map access_of us"
    "list_all (\<lambda>v. us_role v = Role_OPERATOR \<and> us_status v = User_ACTIVE) new"
    by (auto simp: only_operators_join_iff)
  have "list_all (\<lambda>u. \<not> active_admin u) new"
    using v(3) by (auto simp: list_all_iff active_admin_def)
  with v(1,2) assms(2) show ?thesis by (simp add: eq)
qed

lemma serve_without_admin:
  assumes "serve env token rq st = (a, st')" and "users_ok (st_users st)"
    and "list_all (\<lambda>u. \<not> active_admin u) (st_users st)"
  shows "only_operators_join (st_users st) (st_users st')" "users_ok (st_users st')"
proof -
  from assms(1) have "only_operators_join (st_users st) (st_users st') \<and> users_ok (st_users st')"
  proof (cases rule: serve_cases)
    case 1
    with assms(2) show ?thesis by (simp add: only_operators_join_same)
  next
    case (2 u)
    with assms(2) show ?thesis by (simp add: only_operators_join_same)
  next
    case (3 u)
    from 3(1) assms(3) have "guard_of rq \<noteq> One_of [Role_ADMIN]"
      by (auto dest!: check_guard_Inr simp: active_admin_def list_all_iff)
    then have "only_operators_join (st_users st) (st_users st')"
      using 3(3) assms(2)
      by (auto elim!: handle_writesE dest!: users_step_access intro: only_operators_join_same only_operators_join_new)
    with handle_users [OF 3(3) assms(2)] show ?thesis by simp
  qed
  then show "only_operators_join (st_users st) (st_users st')" "users_ok (st_users st')" by simp_all
qed

text \<open>C20: While no active account is an administrator, none becomes
  one, whatever sequence of requests is served: every account keeps its id, its e-mail address, its
  role and its status, and the only new accounts are the active operators that registration makes.\<close>

theorem no_admin_without_an_admin:
  assumes "serves st calls st'" and "users_ok (st_users st)"
    and "list_all (\<lambda>u. \<not> active_admin u) (st_users st)"
  shows "only_operators_join (st_users st) (st_users st')
    \<and> list_all (\<lambda>u. \<not> active_admin u) (st_users st')"
  using assms
proof (induction rule: serves.induct)
  case (serves_more env st token rq answer st1 calls st2)
  note one = serve_without_admin [OF serves_more.hyps(2) serves_more.prems]
  from serves_more.IH [OF one(2) no_admin_joins [OF one(1) serves_more.prems(2)]] one(1)
  show ?case by (blast intro: only_operators_join_trans)
qed (simp add: only_operators_join_same)

section \<open>Who may write\<close>

text \<open>The webhook requests that their route accepts, with the signature checks of the three routes.\<close>

definition signed_webhook :: "'g api_env \<Rightarrow> request \<Rightarrow> bool" where
  "signed_webhook env rq =
     (case rq of
        Provider_event w \<Rightarrow>
          wq_body w \<noteq> [] \<and> verify_webhook_hmac (xv_webhook env) (wq_body w) (first_truthy (wq_signatures w))
            (or_empty (first_truthy (wn_secrets (xv_webhook env))))
      | Razorpay_event w \<Rightarrow>
          or_empty (first_truthy (wn_payment_secrets (xv_webhook env))) = []
          \<or> verify_signature (wn_hmac_hex (xv_webhook env)) (wq_body w) (or_empty (first_truthy (wq_signatures w)))
              (or_empty (first_truthy (wn_payment_secrets (xv_webhook env))))
      | Provider_receipt w \<Rightarrow>
          verify_signature (pv_hmac_hex (xv_provider env)) (pw_body w) (or_empty (first_truthy (pw_signatures w)))
            (pv_secret (xv_provider env))
      | _ \<Rightarrow> False)"

lemma provider_webhook_signed:
  "provider_webhook env rq s = Inr x \<Longrightarrow>
     verify_signature (pv_hmac_hex env) (pw_body rq) (or_empty (first_truthy (pw_signatures rq))) (pv_secret env)"
  by (auto simp: provider_webhook_def split: option.splits if_splits)

lemma ingest_provider_signed:
  "ingest_provider_webhook env rq s = Inr x \<Longrightarrow> wq_body rq \<noteq> [] \<and>
     verify_webhook_hmac env (wq_body rq) (first_truthy (wq_signatures rq)) (or_empty (first_truthy (wn_secrets env)))"
  by (auto simp: ingest_provider_webhook_def split: if_splits)

lemma ingest_razorpay_signed:
  "ingest_razorpay_webhook env rq s = Inr x \<Longrightarrow> or_empty (first_truthy (wn_payment_secrets env)) \<noteq> [] \<Longrightarrow>
     verify_signature (wn_hmac_hex env) (wq_body rq) (or_empty (first_truthy (wq_signatures rq)))
       (or_empty (first_truthy (wn_payment_secrets env)))"
  by (auto simp: ingest_razorpay_webhook_def Let_def split: if_splits)

lemma session_step_writer:
  "session_step env u rq s t \<Longrightarrow>
     signed_webhook env rq \<or> guard_of rq \<in> {operators, workflow_operators} \<or> (\<exists>d c. rq = Ingest_event d c)"
  by (induction rule: session_step.induct)
    (auto simp: signed_webhook_def dest: provider_webhook_signed ingest_provider_signed ingest_razorpay_signed)

lemma handle_error_keeps:
  "handle env u rq st = (Inl e, st') \<Longrightarrow> \<forall>n. rq \<noteq> Reconcile_pending n \<Longrightarrow> st' = st"
  by (erule handle_writesE) auto

text \<open>A profile change writes the row of the caller only.\<close>

lemma modify_user_others:
  assumes "modify_user i f us = Inr (v, us')" and "\<And>u v. f u = Inr v \<Longrightarrow> us_id v = us_id u"
    and "w \<in> set us" and "us_id w \<noteq> i"
  shows "w \<in> set us'"
proof -
  from assms(1) obtain u where u: "find_user us i = Some u" "f u = Inr v" "us' = put_user v us"
    by (rule modify_user_Inr)
  with assms(2) find_user_id [OF u(1)] have "us_id v = i" by simp
  with u(3) assms(3,4) show ?thesis by (auto simp: put_user_def upd_by_def intro!: image_eqI [where x = w])
qed

lemma update_profile_others:
  "update_profile i name us = Inr (v, us') \<Longrightarrow> w \<in> set us \<Longrightarrow> us_id w \<noteq> i \<Longrightarrow> w \<in> set us'"
  unfolding update_profile_def by (erule modify_user_others) auto

lemma change_password_others:
  "change_password env i cur new us = Inr (v, us') \<Longrightarrow> w \<in> set us \<Longrightarrow> us_id w \<noteq> i \<Longrightarrow> w \<in> set us'"
  unfolding change_password_def by (erule modify_user_others) (auto simp: err_simps split: if_splits)

definition account_request :: "request \<Rightarrow> bool" where
  "account_request rq = (case rq of Register _ _ _ \<Rightarrow> True | Login _ _ \<Rightarrow> True | _ \<Rightarrow> False)"

lemma users_step_writer:
  "users_step env u rq us us' \<Longrightarrow> account_request rq \<or> guard_of rq = One_of [Role_ADMIN]
    \<or> guard_of rq = Signed_in \<and> (\<forall>w \<in> set us. us_id w \<noteq> us_id (the u) \<longrightarrow> w \<in> set us')"
  by (induction rule: users_step.induct)
    (auto simp: account_request_def dest: update_profile_others change_password_others)

text \<open>A stored active user holds the token that passed the guard.\<close>

definition caller :: "'g api_env \<Rightarrow> string option \<Rightarrow> user_store \<Rightarrow> user \<Rightarrow> bool" where
  "caller env token us u \<longleftrightarrow>
     u \<in> set us \<and> get_current_user (xv_auth env) token us = Inr u \<and> us_status u = User_ACTIVE"

lemma guarded_caller:
  assumes "check_guard env g token us = Inr u" and "g \<noteq> Open_to_all"
  obtains v where "u = Some v" "caller env token us v" "\<forall>roles. g = One_of roles \<longrightarrow> us_role v \<in> set roles"
  using check_guard_Inr [OF assms(1)] assms(2) by (auto simp: caller_def)

lemma session_writer:
  assumes "check_guard env (guard_of rq) token us = Inr u" and "session_step env u rq s t"
  shows "signed_webhook env rq
    \<or> (\<exists>v. caller env token us v \<and> (us_role v \<in> {Role_ADMIN, Role_OPERATOR}
          \<or> us_role v = Role_INGESTOR \<and> (\<exists>d c. rq = Ingest_event d c)))"
proof -
  from session_step_writer [OF assms(2)]
  have "signed_webhook env rq \<or> (\<exists>roles. guard_of rq = One_of roles
      \<and> (set roles \<subseteq> {Role_ADMIN, Role_OPERATOR}
          \<or> set roles \<subseteq> {Role_ADMIN, Role_OPERATOR, Role_INGESTOR} \<and> (\<exists>d c. rq = Ingest_event d c)))"
    by (auto simp: operators_def workflow_operators_def)
  then show ?thesis
  proof
    assume "\<exists>roles. guard_of rq = One_of roles
      \<and> (set roles \<subseteq> {Role_ADMIN, Role_OPERATOR}
          \<or> set roles \<subseteq> {Role_ADMIN, Role_OPERATOR, Role_INGESTOR} \<and> (\<exists>d c. rq = Ingest_event d c))"
    then obtain roles where roles: "guard_of rq = One_of roles" "set roles \<subseteq> {Role_ADMIN, Role_OPERATOR}
        \<or> set roles \<subseteq> {Role_ADMIN, Role_OPERATOR, Role_INGESTOR} \<and> (\<exists>d c. rq = Ingest_event d c)" by blast
    from roles(1) obtain v where "caller env token us v" "us_role v \<in> set roles"
      using guarded_caller [OF assms(1)] by auto
    with roles(2) show ?thesis by blast
  qed simp
qed

lemma users_writer:
  assumes "check_guard env (guard_of rq) token us = Inr u" and "users_step env u rq us us'"
  shows "account_request rq
    \<or> (\<exists>v. caller env token us v \<and> (us_role v = Role_ADMIN \<or> (\<forall>w \<in> set us. us_id w \<noteq> us_id v \<longrightarrow> w \<in> set us')))"
proof -
  have "account_request rq \<or> (\<exists>v. u = Some v \<and> caller env token us v \<and> (guard_of rq = One_of [Role_ADMIN] \<longrightarrow> us_role v = Role_ADMIN))"
    using users_step_writer [OF assms(2)] guarded_caller [OF assms(1)] by (metis guard.distinct(1,3) list.set_intros(1) set_ConsD empty_iff list.set(1))
  with users_step_writer [OF assms(2)] show ?thesis by auto
qed

lemma guarded_known:
  assumes "check_guard env (guard_of rq) token us = Inr u"
  shows "guard_of rq = Open_to_all \<or> (\<forall>e. get_current_user (xv_auth env) token us \<noteq> Inl e)"
  using guarded_caller [OF assms] by (metis caller_def sum.distinct(1))


section \<open>The claims on concrete requests\<close>

definition demo_api_env :: "submissions api_env" where
  "demo_api_env =
     \<lparr>xv_auth = demo_auth, xv_now = demo_now, xv_later = demo_now, xv_id = ''n1'', xv_id2 = ''n2'',
      xv_step_ids = str_of_int, xv_created = (\<lambda>_. 0), xv_received = (\<lambda>_. 0), xv_planned = (\<lambda>_. 0),
      xv_collate = id, xv_recommend = demo_rec_env, xv_adapter = [], xv_steps = (\<lambda>_. demo_step_env),
      xv_recon = demo_gateway Exec_SUCCEEDED, xv_ingest = demo_ingest, xv_event_id = ''n3'',
      xv_payment_id = ''n4'', xv_correlation_id = ''n5'', xv_webhook = demo_webhook_env (Some ''s''),
      xv_provider = demo_provider_env, xv_predict = (\<lambda>_ _ _ _. 0), xv_evidence = []\<rparr>"

definition demo_api_state :: api_state where
  "demo_api_state = \<lparr>st_session = empty_session, st_users = [demo_user]\<rparr>"

definition demo_promote :: "submissions api_call" where
  "demo_promote = (demo_api_env, Some ''tok-A'', Update_role ''u1'' Role_ADMIN)"

definition demo_join :: "submissions api_call" where
  "demo_join = (demo_api_env, None, Register ''new@shop.io'' ''pass-word'' ''New'')"

definition demo_notify :: "submissions api_call" where
  "demo_notify = (demo_api_env, None, Provider_receipt demo_provider_request)"

definition demo_served :: api_state where
  "demo_served =
     \<lparr>st_session = empty_session\<lparr>webhooks := [provider_receipt demo_provider_env ''{}'' ''evt_1'' [(''event'', JStr ''payment.failed'')]]\<rparr>,
      st_users = [demo_user,
       \<lparr>us_id = ''u2'', us_email = ''new@shop.io'', us_name = ''New'', us_password_hash = ''h:pass-word'',
        us_role = Role_OPERATOR, us_status = User_ACTIVE, us_last_login_at = None\<rparr>]\<rparr>"

lemma serves_call:
  "call_ok env st \<Longrightarrow> serves (snd (serve env token rq st)) calls st2 \<Longrightarrow> serves st ((env, token, rq) # calls) st2"
  by (rule serves_more [where answer = "fst (serve env token rq st)"]) simp_all

lemma demo_join_valid: "register_valid ''new@shop.io'' ''pass-word'' ''New''"
  by code_simp

lemma demo_calls_served: "serves demo_api_state [demo_promote, demo_join, demo_notify] demo_served"
proof -
  let ?promote = "Update_role ''u1'' Role_ADMIN" and ?join = "Register ''new@shop.io'' ''pass-word'' ''New''"
  let ?joined = "demo_served\<lparr>st_session := empty_session\<rparr>"
  have ok: "call_ok demo_api_env demo_api_state" "call_ok demo_api_env ?joined"
    by (simp_all add: call_ok_def demo_api_env_def demo_ingest_def demo_webhook_env_def demo_engine_def
        demo_provider_env_def demo_api_state_def demo_served_def receipt_rival_ok_def rival_ok_def with_rival_def
        case_unique_def empty_session_def)
  have "\<not> is_ok (require_roles [Role_ADMIN] demo_auth (Some ''tok-A'') [demo_user])"
    by code_simp
  then obtain e where refused: "require_roles [Role_ADMIN] demo_auth (Some ''tok-A'') [demo_user] = Inl e"
    by (cases "require_roles [Role_ADMIN] demo_auth (Some ''tok-A'') [demo_user]") auto
  have joined: "register demo_auth ''new@shop.io'' ''pass-word'' ''New'' Role_OPERATOR [demo_user]
      = Inr (hd (tl (st_users demo_served)), st_users demo_served)"
    by code_simp
  have noted: "\<exists>r. provider_webhook demo_provider_env demo_provider_request empty_session = Inr (r, st_session demo_served)"
    by (rule exI [where x = "\<lparr>wr_accepted = True, wr_duplicate = False, wr_event_id = ''evt_1'',
        wr_event_type = ''payment.failed'', wr_reason = ''accepted'', wr_verified = True\<rparr>"]) code_simp
  have steps: "snd (serve demo_api_env (Some ''tok-A'') ?promote demo_api_state) = demo_api_state"
    "snd (serve demo_api_env None ?join demo_api_state) = ?joined"
    "snd (serve demo_api_env None (Provider_receipt demo_provider_request) ?joined) = demo_served"
    using refused joined noted
    by (auto simp: serve_def check_guard_def route_defs demo_api_env_def demo_api_state_def writing_users_def
        writing_session_def demo_served_def demo_join_valid split: sum.splits)
  show ?thesis
    unfolding demo_promote_def demo_join_def demo_notify_def
    by (intro serves_call, simp_all only: steps ok) (rule serves_none)
qed

lemma demo_api_state_ok:
  "session_ok (st_session demo_api_state)" "users_ok (st_users demo_api_state)"
  "list_all (\<lambda>u. \<not> active_admin u) (st_users demo_api_state)"
  unfolding session_ok_def by code_simp+


lemma no_admin_without_an_admin_witness:
  "only_operators_join (st_users demo_api_state) (st_users demo_served)
   \<and> list_all (\<lambda>u. \<not> active_admin u) (st_users demo_served)"
  by (rule no_admin_without_an_admin [OF demo_calls_served demo_api_state_ok(2,3)])


end
