(* ===== verification/Session_Order.thy ===== *)
theory Session_Order
  imports Routes
begin

text \<open>
  Relations between the session before and after, carried along what runs many small steps: the loop
  over the steps of a workflow and the batch of reconciliations. The locale says what a relation has to
  allow; that the single steps keep it is a premise of its lemmas.
\<close>

locale session_order =
  fixes R :: "session \<Rightarrow> session \<Rightarrow> bool"
  assumes reflexive: "R s s"
    and transitive: "R s t \<Longrightarrow> R t u \<Longrightarrow> R s u"
    and flushing: "R s (flushed s)"
    and workflow_write: "R s (put_workflow w s)"
    and step_write: "R s (put_step x s)"
begin

lemma along_flush: "flush s = Inr t \<Longrightarrow> R s t"
  using flushing by (auto simp: flush_ok)

lemma along_step:
  assumes "execute_next_step env wid corr override s g = (Inr (x, t), g')"
    and step: "\<And>w st c k s t. find_case s (rc_id c) = Some c \<Longrightarrow>
      fst (run_step env w st c override k s g) = Inr t \<Longrightarrow> R s t"
  shows "R s t"
proof -
  from assms(1) consider w where "flush (put_workflow w s) = Inr t"
    | i w st c s1 k s2 where "find_case s i = Some c" "flush (put_step st (put_workflow w s)) = Inr s1"
      "fst (run_step env w st c override k s1 g) = Inr s2" "flush s2 = Inr t"
    by (auto simp: execute_next_step_def Let_def case_prod_beta err_simps prod_eq_iff
        split: option.splits if_splits list.splits sum.splits)
  then show ?thesis
  proof cases
    case (1 w)
    with workflow_write [of s w] along_flush show ?thesis by (blast intro: transitive)
  next
    case (2 i w st c s1 k s2)
    have found: "find_case s1 (rc_id c) = Some c"
      using 2(1,2) find_case_id [OF 2(1)] by (auto simp: flush_ok)
    have "R s (put_step st (put_workflow w s))" by (blast intro: transitive workflow_write step_write)
    with along_flush [OF 2(2)] step [OF found 2(3)] along_flush [OF 2(4)]
    show ?thesis by (blast intro: transitive)
  qed
qed

lemma along_loop:
  assumes "step_loop k i envs wid corr override s g = (Inr t, g')"
    and step: "\<And>i s g x t g'. execute_next_step (envs i) wid corr override s g = (Inr (x, t), g') \<Longrightarrow> R s t"
  shows "R s t"
  using assms
proof (induction k i envs wid corr override s g arbitrary: t g' rule: step_loop.induct)
  case (2 k i envs wid corr override s g)
  from "2.prems"(1) consider "t = s" | w where "t = put_workflow w s"
    | x u g2 where "execute_next_step (envs i) wid corr override s g = (Inr (Some x, u), g2)"
      "ws_status x \<in> {Step_WAITING, Step_FAILED}" "t = u"
    | w x u g2 where "find_workflow s wid = Some w" "wf_status w \<notin> set stop_statuses" "pending_steps s wid \<noteq> []"
      "execute_next_step (envs i) wid corr override s g = (Inr (Some x, u), g2)"
      "ws_status x \<notin> {Step_WAITING, Step_FAILED}" "step_loop k (Suc i) envs wid corr override u g2 = (Inr t, g')"
    by (auto split: option.splits if_splits sum.splits prod.splits)
  then show ?case
  proof cases
    case 1
    then show ?thesis by (simp add: reflexive)
  next
    case 2
    then show ?thesis by (simp add: workflow_write)
  next
    case (3 x u g2)
    with "2.prems"(2) show ?thesis by blast
  next
    case (4 w x u g2)
    have "R u t" by (rule "2.IH" [OF 4(1-3) 4(4) [symmetric] refl refl refl 4(5,6) "2.prems"(2)])
    with "2.prems"(2) [OF 4(4)] show ?thesis by (rule transitive)
  qed
qed (simp add: reflexive)

lemma along_execution:
  assumes "execute_steps env wid everything override corr s = Inr t"
    and step: "\<And>i w st c k s t g. find_case s (rc_id c) = Some c \<Longrightarrow>
      fst (run_step (xv_steps env i) w st c (Some override) k s g) = Inr t \<Longrightarrow> R s t"
  shows "R s t"
proof (cases everything)
  case True
  with assms(1) obtain u g' where loop: "step_loop (length (steps_of s wid) + 2) 0 (xv_steps env) wid corr (Some override) s
      (xv_adapter env) = (Inr u, g')" and done_with: "flush u = Inr t"
    by (auto simp: execute_steps_def execute_all_available_steps_def Let_def case_prod_beta err_simps prod_eq_iff
        split: option.splits simp del: step_loop.simps)
  have "R s u" by (rule along_loop [OF loop along_step]) (auto intro: step)
  with along_flush [OF done_with] show ?thesis by (rule transitive [rotated])
next
  case False
  with assms(1) obtain x g' where "execute_next_step (xv_steps env 0) wid corr (Some override) s (xv_adapter env)
      = (Inr (x, t), g')"
    by (auto simp: execute_steps_def err_simps prod_eq_iff)
  then show ?thesis by (rule along_step) (auto intro: step)
qed

lemma along_batch:
  assumes "reconcile_each env is s = (r, t)"
    and one: "\<And>i rep s t. reconcile_case env i None None True s = Inr (rep, t) \<Longrightarrow> R s t"
  shows "R s t"
  using assms
proof (induction env "is" s arbitrary: r t rule: reconcile_each.induct)
  case (2 env i "is" s)
  show ?case
  proof (cases "reconcile_case env i None None True s")
    case (Inl e)
    with 2 show ?thesis by (simp add: reflexive)
  next
    case (Inr p)
    obtain rep u where p: "p = (rep, u)" by fastforce
    obtain reps v where rest: "reconcile_each env is u = (reps, v)" by fastforce
    have "R u v" by (rule "2.IH" [OF Inr p [symmetric] rest "2.prems"(2)])
    moreover have "R s u" using "2.prems"(2) Inr p by blast
    ultimately have "R s v" by (blast intro: transitive)
    with "2.prems"(1) Inr p rest show ?thesis by simp
  qed
qed (simp add: reflexive)

end

end
