(* ===== verification/History.thy ===== *)
theory History
  imports Session_Order "HOL-Library.Sublist"
begin

text \<open>
  What no operation of the service takes back: the logs only grow (\<open>grows\<close>). The logs of a session are
  the rows stored with those pending.
\<close>

section \<open>Logs that only grow\<close>

definition audit_log :: "session \<Rightarrow> audit_event list" where
  "audit_log s = audit_rows s @ audit_pending s"

definition history_log :: "session \<Rightarrow> case_transition list" where
  "history_log s = transition_rows s @ transition_pending s"

definition grows :: "session \<Rightarrow> session \<Rightarrow> bool" where
  "grows s t \<longleftrightarrow>
     prefix (audit_log s) (audit_log t) \<and> prefix (history_log s) (history_log t)
     \<and> prefix (policy_decisions s) (policy_decisions t)
     \<and> prefix (map at_id (attempts s)) (map at_id (attempts t)) \<and> prefix (executions s) (executions t)"

lemma grows_refl [simp]: "grows s s"
  by (simp add: grows_def)

lemma grows_trans: "grows s t \<Longrightarrow> grows t u \<Longrightarrow> grows s u"
  unfolding grows_def by (blast intro: prefix_order.trans)

lemma grows_writes [simp]:
  "grows s (put_case c t) = grows s t" "grows s (put_transaction x t) = grows s t"
  "grows s (put_decision d t) = grows s t" "grows s (put_workflow w t) = grows s t"
  "grows s (put_step st t) = grows s t" "grows s (put_attempt a t) = grows s t"
  "grows s (flushed t) = grows s t"
  "grows s (t\<lparr>customers := cus\<rparr>) = grows s t" "grows s (t\<lparr>consents := kos\<rparr>) = grows s t"
  "grows s (t\<lparr>transactions := txs\<rparr>) = grows s t" "grows s (t\<lparr>cases := cs\<rparr>) = grows s t"
  "grows s (t\<lparr>agent_decisions := ds\<rparr>) = grows s t" "grows s (t\<lparr>workflows := ws\<rparr>) = grows s t"
  "grows s (t\<lparr>steps := sts\<rparr>) = grows s t" "grows s (t\<lparr>webhooks := whs\<rparr>) = grows s t"
  by (simp_all add: grows_def audit_log_def history_log_def put_case_def put_transaction_def put_decision_def
      put_workflow_def put_step_def put_attempt_def)

lemma grows_written [simp]:
  "grows (put_case c s) t = grows s t" "grows (put_transaction x s) t = grows s t"
  "grows (put_workflow w s) t = grows s t" "grows (put_step st s) t = grows s t"
  "grows (put_attempt a s) t = grows s t" "grows (s\<lparr>cases := cs\<rparr>) t = grows s t"
  "grows (s\<lparr>webhooks := whs\<rparr>) t = grows s t"
  by (simp_all add: grows_def audit_log_def history_log_def put_case_def put_transaction_def
      put_workflow_def put_step_def put_attempt_def)

lemma grows_adds [simp]:
  "grows s t \<Longrightarrow> grows s (add_audit a t)" "grows s t \<Longrightarrow> grows s (add_transition x t)"
  "grows s t \<Longrightarrow> grows s (audit_record cid e ac corr pl fs ts aid now t)"
  "grows s t \<Longrightarrow> grows s (t\<lparr>policy_decisions := policy_decisions t @ pds\<rparr>)"
  "grows s t \<Longrightarrow> grows s (t\<lparr>attempts := attempts t @ ats\<rparr>)"
  "grows s t \<Longrightarrow> grows s (t\<lparr>executions := executions t @ exs\<rparr>)"
  by (simp_all add: grows_def audit_log_def history_log_def add_audit_def add_transition_def audit_record_def
      flip: append_assoc)

interpretation logs: session_order grows
  by unfold_locales (auto intro: grows_trans)

lemma flush_grows: "flush s = Inr t \<Longrightarrow> grows s t"
  by (auto simp: flush_ok)

lemma service_transition_grows: "service_transition cid dto now s = Inr (c, t) \<Longrightarrow> grows s t"
  by (auto simp: service_transition_def Let_def err_simps split: option.splits if_splits)

lemma update_case_grows: "update_case cid dto a i now s = Inr (c, t) \<Longrightarrow> grows s t"
  by (auto simp: update_case_def Let_def case_prod_beta err_simps split: option.splits if_splits)

lemma generate_recommendation_grows: "generate_recommendation env cid u s = Inr (r, t) \<Longrightarrow> grows s t"
  by (auto simp: generate_recommendation_def store_recommendation_def recommendation_writes_def
      advance_detected_def Let_def case_prod_beta err_simps split: option.splits if_splits)

lemma policy_evaluate_grows: "policy_evaluate cfg req i corr now s = Inr (res, t) \<Longrightarrow> grows s t"
  by (auto simp: policy_evaluate_def evaluate_loaded_def persist_decision_def sync_case_state_def Let_def
      case_prod_beta err_simps split: option.splits if_splits)

lemma consent_grows:
  "create_customer_consent dto i now l s = Inr (r, t) \<Longrightarrow> grows s t"
  "revoke_customer_consent i now l s = Inr (r, t) \<Longrightarrow> grows s t"
  by (auto simp: create_customer_consent_def revoke_customer_consent_def revoke_consent_def put_consent_def Let_def
      err_simps split: option.splits if_splits)

lemma create_workflow_grows: "create_workflow d c m i ids now s = Inr (w, t) \<Longrightarrow> grows s t"
  by (auto simp: create_workflow_def Let_def err_simps flush_ok split: option.splits if_splits)

lemma move_case_grows: "move_case c st reason actor aid corr k now s = Inr (c', t) \<Longrightarrow> grows s t"
  by (auto simp: move_case_def transition_case_def Let_def err_simps flush_ok split: if_splits)

lemma flush_after: "flush s = Inr t \<Longrightarrow> grows r t = grows r s"
  by (auto simp: flush_ok)

lemma move_ebind_grows:
  "ebind (move_case c st reason actor aid corr k now s) (\<lambda>(_, u). Inr u) = Inr t \<Longrightarrow> grows r s \<Longrightarrow> grows r t"
  by (auto simp: err_simps dest!: move_case_grows intro: grows_trans)

lemma apply_outcome_grows: "apply_outcome w st c a res n corr now s = Inr t \<Longrightarrow> grows s t"
  by (auto simp: apply_outcome_def Let_def split: execution_status.splits if_splits elim!: move_ebind_grows)

lemma submit_and_record_grows:
  assumes "fst (submit_and_record env w st c tx cust override n corr s g) = Inr t"
  shows "grows s t"
proof -
  obtain s1 s2 a x res where s1: "flush (s\<lparr>attempts := attempts s @ [a]\<rparr>) = Inr s1"
    and s2: "flush (s1\<lparr>executions := executions s1 @ [x]\<rparr>) = Inr s2"
    and t: "apply_outcome w (executed_step st res) c a res n corr (se_now env) s2 = Inr t"
    using assms by (auto simp: submit_and_record_def Let_def case_prod_beta err_simps split: sum.splits)
  have "grows s s2" by (simp add: flush_after [OF s2] flush_after [OF s1])
  with apply_outcome_grows [OF t] show ?thesis by (blast intro: grows_trans)
qed

lemma run_step_grows: "fst (run_step env w st c override corr s g) = Inr t \<Longrightarrow> grows s t"
  by (auto simp: run_step_def execute_validate_def execute_wait_cooldown_def execute_await_verification_def
      execute_generic_def execute_dispatch_def fail_step_def Let_def err_simps
      split: step_type.splits option.splits sum.splits if_splits
      dest!: submit_and_record_grows move_case_grows)

lemma execute_steps_grows: "execute_steps env wid everything override corr s = Inr t \<Longrightarrow> grows s t"
  by (rule logs.along_execution) (auto intro: run_step_grows)

lemma resolve_discrepancy_grows:
  "resolve_discrepancy now aid corr auto c t p s = Inr r \<Longrightarrow> grows s (rs_session r)"
  by (auto simp: resolve_discrepancy_def settle_success_def settle_failure_def escalate_unknown_def
      unresolved_def resolved_def Let_def err_simps split: if_splits dest!: move_case_grows)


lemma reconcile_case_grows: "reconcile_case env cid aid corr auto s = Inr (rep, t) \<Longrightarrow> grows s t"
  by (auto simp: reconcile_case_def reconcile_loaded_def Let_def case_prod_beta err_simps
      split: option.splits dest!: resolve_discrepancy_grows)

lemma reconcile_each_grows: "reconcile_each env is s = (r, t) \<Longrightarrow> grows s t"
  by (rule logs.along_batch) (auto intro: reconcile_case_grows)

section \<open>Ingestion\<close>

lemma record_receipt_grows: "record_receipt w rival s = Inr (r, t) \<Longrightarrow> grows s t"
  by (auto simp: record_receipt_def Let_def flush_after split: option.splits sum.splits dest!: flush_grows)

lemma payment_succeeded_grows: "handle_payment_succeeded e x tx corr now s = Inr (out, t) \<Longrightarrow> grows s t"
  by (auto simp: handle_payment_succeeded_def Let_def err_simps flush_after split: option.splits if_splits)

lemma case_update_grows: "handle_existing_case_update e c corr now s = Inr (out, t) \<Longrightarrow> grows s t"
  by (auto simp: handle_existing_case_update_def Let_def err_simps flush_after split: if_splits)

lemma with_rival_grows [simp]: "grows (with_rival env s) t = grows s t" "grows s (with_rival env t) = grows s t"
  by (simp_all add: with_rival_def split: option.split)

lemma create_new_case_grows:
  assumes "create_new_case env e cust tx key corr s = Inr (out, t)"
  shows "grows s t"
proof -
  let ?p = "calculate_priority (ev_amount_minor e) (ev_currency e) (ev_failure_code e)
              (ev_event_type e) (Some (eg_now env)) (eg_now env)"
  obtain r where r: "classify_risk (ev_amount_minor e) (ev_currency e) (ev_failure_code e)
      (ev_event_type e) (json_get (ev_metadata e) ''customer_tier'') = Inr r"
    using assms by (auto simp: create_new_case_def Let_def err_simps)
  let ?s = "with_rival env s"
  let ?c = "event_case e cust tx key ?p r (eg_case_id env) (eg_now env)"
  have start: "grows s ?s" by simp
  show ?thesis
  proof (cases "flush (?s\<lparr>cases := cases ?s @ [?c]\<rparr>)")
    case (Inl err)
    then have "grows ?s t"
      using assms r by (auto simp: create_new_case_def Let_def split: option.splits dest: case_update_grows)
    with start show ?thesis by (rule grows_trans)
  next
    case (Inr s2)
    then have f: "flush (open_rows e ?c r corr (eg_now env) s2) = Inr t"
      using assms r by (auto simp: create_new_case_def Let_def err_simps)
    have "grows ?s t" using f Inr by (auto simp: flush_after open_rows_def)
    with start show ?thesis by (rule grows_trans)
  qed
qed

lemma customer_grows: "get_or_create_customer e i s = Inr (c, t) \<Longrightarrow> grows s t"
  by (auto simp: get_or_create_customer_def Let_def err_simps flush_after split: option.splits)

lemma transaction_grows: "get_or_create_transaction e c i s = Inr (x, t) \<Longrightarrow> grows s t"
  by (auto simp: get_or_create_transaction_def Let_def err_simps flush_after split: option.splits)

lemma process_event_grows: "process_event env e corr s = Inr (out, t) \<Longrightarrow> grows s t"
  by (auto simp: process_event_def Let_def err_simps split: if_splits option.splits
      dest!: customer_grows transaction_grows payment_succeeded_grows case_update_grows create_new_case_grows
      intro: grows_trans)

lemma ingest_grows: "ingest env e sig status corr s = Inr (resp, t) \<Longrightarrow> grows s t"
  by (auto simp: ingest_def evaluate_and_record_def mark_processed_def err_simps flush_after split: if_splits
      dest!: record_receipt_grows process_event_grows intro: grows_trans)

end
