(* ===== verification/Case_Fates.thy ===== *)
theory Case_Fates
  imports Session_Order
begin

text \<open>
  What every operation of the service leaves of the cases stored before it: who and what a case is about,
  and that a recovered or closed case does not go back to work (\<open>cases_keep\<close>).
\<close>

section \<open>One case\<close>

definition identity_of :: "recovery_case \<Rightarrow> uuid \<times> uuid \<times> uuid \<times> string \<times> pydatetime" where
  "identity_of c =
     (rc_id c, rc_customer_id c, rc_trigger_transaction_id c, rc_case_key c, rc_opened_at c)"

definition case_kept :: "recovery_case \<Rightarrow> recovery_case \<Rightarrow> bool" where
  "case_kept c c' \<longleftrightarrow>
     identity_of c' = identity_of c \<and> rc_version c \<le> rc_version c'
     \<and> (rc_state c \<in> {Case_RECOVERED, Case_CLOSED} \<longrightarrow> rc_state c' \<in> {Case_RECOVERED, Case_CLOSED})
     \<and> (rc_state c = Case_CLOSED \<longrightarrow> rc_state c' = Case_CLOSED)"

lemma case_kept_refl [simp]: "case_kept c c"
  by (simp add: case_kept_def)

lemma case_kept_trans: "case_kept c d \<Longrightarrow> case_kept d e \<Longrightarrow> case_kept c e"
  by (auto simp: case_kept_def)

lemma case_kept_id: "case_kept c c' \<Longrightarrow> rc_id c' = rc_id c"
  by (simp add: case_kept_def identity_of_def)

text \<open>The writes of the services to one case.\<close>

lemma case_kept_moved:
  "st \<in> set (allowed_transitions (rc_state c)) \<Longrightarrow> case_kept c (moved_case c st now)"
  by (cases "rc_state c") (auto simp: case_kept_def identity_of_def moved_case_def)

lemma case_kept_recovered: "rc_state c \<notin> set engine_terminal_states \<Longrightarrow> case_kept c (recovered_case c now)"
  by (auto simp: case_kept_def identity_of_def recovered_case_def engine_terminal_states_def)

lemma case_kept_updated: "case_kept c (updated_case e c n now)"
  by (simp add: case_kept_def identity_of_def updated_case_def Let_def)

lemma case_kept_settled:
  "rc_state c \<notin> {Case_RECOVERED, Case_CLOSED} \<Longrightarrow>
     case_kept c (c\<lparr>rc_state := Case_RECOVERED, rc_closed_at := x\<rparr>)"
  by (auto simp: case_kept_def identity_of_def)

lemma case_kept_policy:
  "determine_fsm_transition status (rc_state c) reasons = Some st \<Longrightarrow>
     case_kept c (c\<lparr>rc_state := st, rc_last_state_changed_at := now, rc_version := rc_version c + 1\<rparr>)"
  by (auto simp: case_kept_def identity_of_def determine_fsm_transition_def split: if_splits)

section \<open>All cases\<close>

definition cases_keep :: "session \<Rightarrow> session \<Rightarrow> bool" where
  "cases_keep s t \<longleftrightarrow>
     (\<forall>i c. find_case s i = Some c \<longrightarrow> (\<exists>c'. find_case t i = Some c' \<and> case_kept c c'))"

lemma cases_keep_refl [simp]: "cases_keep s s"
  by (auto simp: cases_keep_def)

lemma cases_keep_trans: "cases_keep s t \<Longrightarrow> cases_keep t u \<Longrightarrow> cases_keep s u"
  unfolding cases_keep_def by (meson case_kept_trans)

lemma cases_keep_same: "cases t = cases t' \<Longrightarrow> cases_keep s t = cases_keep s t'"
  by (simp add: cases_keep_def find_case_def)

lemma cases_keep_writes [simp]:
  "cases_keep s (put_transaction x t) = cases_keep s t" "cases_keep s (put_decision d t) = cases_keep s t"
  "cases_keep s (put_workflow w t) = cases_keep s t" "cases_keep s (put_step st t) = cases_keep s t"
  "cases_keep s (put_attempt a t) = cases_keep s t" "cases_keep s (flushed t) = cases_keep s t"
  "cases_keep s (add_audit ae t) = cases_keep s t" "cases_keep s (add_transition ct t) = cases_keep s t"
  "cases_keep s (audit_record cid e ac corr pl fs ts aid now t) = cases_keep s t"
  "cases_keep s (t\<lparr>customers := cus\<rparr>) = cases_keep s t" "cases_keep s (t\<lparr>consents := kos\<rparr>) = cases_keep s t"
  "cases_keep s (t\<lparr>transactions := txs\<rparr>) = cases_keep s t" "cases_keep s (t\<lparr>agent_decisions := ds\<rparr>) = cases_keep s t"
  "cases_keep s (t\<lparr>policy_decisions := pds\<rparr>) = cases_keep s t" "cases_keep s (t\<lparr>attempts := ats\<rparr>) = cases_keep s t"
  "cases_keep s (t\<lparr>executions := exs\<rparr>) = cases_keep s t" "cases_keep s (t\<lparr>workflows := ws\<rparr>) = cases_keep s t"
  "cases_keep s (t\<lparr>steps := sts\<rparr>) = cases_keep s t" "cases_keep s (t\<lparr>webhooks := whs\<rparr>) = cases_keep s t"
  by (rule cases_keep_same, simp add: put_transaction_def put_decision_def put_workflow_def put_step_def
      put_attempt_def add_audit_def add_transition_def audit_record_def)+

lemma cases_keep_put:
  assumes "find_case t (rc_id c) = Some c" and "case_kept c c'" and "cases_keep s t"
  shows "cases_keep s (put_case c' t)"
proof -
  have "cases_keep t (put_case c' t)"
    unfolding cases_keep_def
  proof (intro allI impI)
    fix i d
    assume d: "find_case t i = Some d"
    have id: "rc_id c' = rc_id c" by (rule case_kept_id [OF assms(2)])
    show "\<exists>d'. find_case (put_case c' t) i = Some d' \<and> case_kept d d'"
    proof (cases "i = rc_id c")
      case True
      then have "find_case (put_case c' t) i = Some c'"
        using find_case_put_same [of t c'] assms(1) id by simp
      with True d assms(1,2) show ?thesis by simp
    next
      case False
      with d id show ?thesis by (simp add: find_case_put_other)
    qed
  qed
  with assms(3) show ?thesis by (rule cases_keep_trans)
qed

lemma cases_keep_append: "cases u = cases t @ xs \<Longrightarrow> cases_keep s t \<Longrightarrow> cases_keep s u"
  by (fastforce simp: cases_keep_def find_case_def intro: find_append_Some)

interpretation fates: session_order cases_keep
  by unfold_locales (auto intro: cases_keep_trans)

lemma keep_after_flush: "flush s = Inr t \<Longrightarrow> cases_keep r t = cases_keep r s"
  by (auto simp: flush_ok)

section \<open>The services\<close>

lemma found_again: "find_case s i = Some c \<Longrightarrow> find_case s (rc_id c) = Some c"
  using find_case_id by blast

lemma service_transition_keeps: "service_transition cid dto now s = Inr (c, t) \<Longrightarrow> cases_keep s t"
  by (auto simp: service_transition_def Let_def case_kept_def identity_of_def service_terminal_states_def err_simps
      split: option.splits if_splits intro!: cases_keep_put found_again)

lemma update_case_keeps: "update_case cid dto a i now s = Inr (c, t) \<Longrightarrow> cases_keep s t"
  by (auto simp: update_case_def update_fields_def Let_def case_kept_def identity_of_def err_simps
      split: option.splits if_splits intro!: cases_keep_put found_again)

lemma find_case_kept_rows [simp]:
  "find_case (audit_record cid e ac corr pl fs ts aid now s) i = find_case s i"
  "find_case (s\<lparr>agent_decisions := ds\<rparr>) i = find_case s i"
  "find_case (s\<lparr>policy_decisions := pds\<rparr>) i = find_case s i"
  "find_case (put_decision d s) i = find_case s i"
  by (simp_all add: find_case_def audit_record_def add_audit_def put_decision_def)

lemma advance_detected_id [simp]: "rc_id (fst (advance_detected c r s)) = rc_id c"
  by (simp add: advance_detected_def awaiting_case_def Let_def)

lemma advance_detected_found:
  assumes "find_case s (rc_id c) = Some c"
  shows "find_case (snd (advance_detected c r s)) (rc_id c) = Some (fst (advance_detected c r s))"
  using assms find_case_put_same [of s "awaiting_case c (rm_generated_at r)"]
  by (auto simp: advance_detected_def awaiting_case_def Let_def)

lemma advance_detected_keeps:
  assumes "find_case s (rc_id c) = Some c" and "cases_keep q s"
  shows "cases_keep q (snd (advance_detected c r s))"
  using assms
  by (auto simp: advance_detected_def awaiting_case_def Let_def case_kept_def identity_of_def intro!: cases_keep_put)

lemma recommendation_keeps:
  assumes "find_case s i = Some c"
  shows "cases_keep s (recommendation_writes c r u s)"
  using found_again [OF assms]
  by (auto simp: recommendation_writes_def Let_def case_prod_beta case_kept_def identity_of_def
      advance_detected_keeps advance_detected_found intro!: cases_keep_put [where c = "fst (advance_detected c r t)" for t])

lemma generate_recommendation_keeps: "generate_recommendation env cid u s = Inr (r, t) \<Longrightarrow> cases_keep s t"
  by (auto simp: generate_recommendation_def store_recommendation_def Let_def err_simps
      split: option.splits intro: recommendation_keeps)

lemma sync_case_state_keeps_fates:
  assumes "find_case s (rc_id c) = Some c" and "cases_keep q s"
  shows "cases_keep q (snd (sync_case_state req c status reasons i corr now s))"
  using assms
  by (auto simp: sync_case_state_def Let_def split: option.splits intro!: cases_keep_put case_kept_policy)

lemma persist_decision_keeps:
  "find_case s (rc_id c) = Some c \<Longrightarrow>
     cases_keep s (snd (persist_decision cfg req c r action status rules reasons i corr now s))"
  by (simp add: persist_decision_def Let_def case_prod_beta sync_case_state_keeps_fates)

lemma policy_evaluate_keeps: "policy_evaluate cfg req i corr now s = Inr (res, t) \<Longrightarrow> cases_keep s t"
  by (auto simp: policy_evaluate_def evaluate_loaded_def Let_def case_prod_beta err_simps
      split: option.splits if_splits intro!: persist_decision_keeps found_again)

lemma consent_keeps:
  "create_customer_consent dto i now l s = Inr (r, t) \<Longrightarrow> cases_keep s t"
  "revoke_customer_consent i now l s = Inr (r, t) \<Longrightarrow> cases_keep s t"
  by (auto simp: create_customer_consent_def revoke_customer_consent_def revoke_consent_def put_consent_def Let_def
      err_simps split: option.splits if_splits)

lemma create_workflow_keeps: "create_workflow d c m i ids now s = Inr (w, t) \<Longrightarrow> cases_keep s t"
  by (auto simp: create_workflow_def Let_def err_simps flush_ok split: option.splits if_splits)

section \<open>Execution and reconciliation\<close>

lemma move_case_keeps:
  assumes "move_case c st reason actor aid corr k now s = Inr (c', t)" and "find_case s (rc_id c) = Some c"
    and "cases_keep r s"
  shows "cases_keep r t"
  using assms
  by (auto simp: move_case_def transition_case_def Let_def err_simps flush_ok split: if_splits
      intro!: cases_keep_put case_kept_moved)

lemma move_ebind_keeps:
  "ebind (move_case c st reason actor aid corr k now s) (\<lambda>(_, u). Inr u) = Inr t \<Longrightarrow>
     find_case s (rc_id c) = Some c \<Longrightarrow> cases_keep r s \<Longrightarrow> cases_keep r t"
  by (auto simp: err_simps dest: move_case_keeps)

lemma apply_outcome_keeps:
  "apply_outcome w st c a res n corr now s = Inr t \<Longrightarrow> find_case s (rc_id c) = Some c \<Longrightarrow> cases_keep s t"
  by (auto simp: apply_outcome_def Let_def split: execution_status.splits if_splits elim!: move_ebind_keeps)

lemma submit_and_record_keeps:
  assumes "fst (submit_and_record env w st c tx cust override n corr s g) = Inr t" and "find_case s (rc_id c) = Some c"
  shows "cases_keep s t"
proof -
  obtain s1 s2 a x res where s1: "flush (s\<lparr>attempts := attempts s @ [a]\<rparr>) = Inr s1"
    and s2: "flush (s1\<lparr>executions := executions s1 @ [x]\<rparr>) = Inr s2"
    and t: "apply_outcome w (executed_step st res) c a res n corr (se_now env) s2 = Inr t"
    using assms(1) by (auto simp: submit_and_record_def Let_def case_prod_beta err_simps split: sum.splits)
  have "cases_keep s s2" by (simp add: keep_after_flush [OF s2] keep_after_flush [OF s1])
  moreover have "find_case s2 (rc_id c) = Some c"
    using s1 s2 assms(2) by (auto simp: flush_ok find_case_def)
  ultimately show ?thesis using apply_outcome_keeps [OF t] by (blast intro: cases_keep_trans)
qed

lemma run_step_keeps:
  assumes "fst (run_step env w st c override corr s g) = Inr t" and "find_case s (rc_id c) = Some c"
  shows "cases_keep s t"
  using assms
  by (auto simp: run_step_def execute_validate_def execute_wait_cooldown_def execute_await_verification_def
      execute_generic_def execute_dispatch_def fail_step_def Let_def err_simps
      split: step_type.splits option.splits sum.splits if_splits
      dest!: submit_and_record_keeps elim!: move_case_keeps)

lemma execute_steps_keeps:
  "execute_steps env wid everything override corr s = Inr t \<Longrightarrow> cases_keep s t"
  by (rule fates.along_execution) (auto intro: run_step_keeps)

lemma resolve_discrepancy_keeps:
  "resolve_discrepancy now aid corr auto c t p s = Inr r \<Longrightarrow> find_case s (rc_id c) = Some c \<Longrightarrow>
     cases_keep s (rs_session r)"
  by (auto simp: resolve_discrepancy_def settle_success_def settle_failure_def escalate_unknown_def
      unresolved_def resolved_def Let_def err_simps split: if_splits
      elim!: move_case_keeps intro!: cases_keep_put case_kept_settled)

lemma reconcile_case_keeps: "reconcile_case env cid aid corr auto s = Inr (rep, t) \<Longrightarrow> cases_keep s t"
  by (auto simp: reconcile_case_def reconcile_loaded_def Let_def case_prod_beta err_simps
      split: option.splits dest!: resolve_discrepancy_keeps intro: found_again)

lemma reconcile_each_keeps: "reconcile_each env is s = (r, t) \<Longrightarrow> cases_keep s t"
  by (rule fates.along_batch) (auto intro: reconcile_case_keeps)

section \<open>Events\<close>

lemma event_writes_keep:
  assumes "session_ok s" and "c \<in> set (cases s)"
  shows "rc_state c \<notin> set engine_terminal_states \<Longrightarrow> cases_keep s (put_case (recovered_case c now) s)"
    and "cases_keep s (put_case (updated_case e c n now) s)"
  by (rule cases_keep_put [OF find_case_mem [OF assms]]; simp add: case_kept_recovered case_kept_updated)+

lemma payment_succeeded_keeps:
  assumes "handle_payment_succeeded e x tx corr now s = Inr (out, t)" and "session_ok s"
    and "\<And>c. x = Some c \<Longrightarrow> c \<in> set (cases s)"
  shows "cases_keep s t"
  using assms
  by (auto simp: handle_payment_succeeded_def Let_def err_simps keep_after_flush event_writes_keep
      split: option.splits if_splits)

lemma case_update_keeps:
  assumes "handle_existing_case_update e c corr now s = Inr (out, t)" and "session_ok s" and "c \<in> set (cases s)"
  shows "cases_keep s t"
  using assms
  by (auto simp: handle_existing_case_update_def Let_def err_simps keep_after_flush event_writes_keep
      split: if_splits)

lemma with_rival_keeps: "cases_keep s (with_rival env s)"
  by (rule cases_keep_append [where xs = "case eg_rival env of None \<Rightarrow> [] | Some x \<Rightarrow> [x]" and t = s])
    (simp_all add: with_rival_def split: option.split)

lemma create_new_case_keeps:
  assumes "create_new_case env e cust tx key corr s = Inr (out, t)" and "session_ok s" and "rival_ok env s"
  shows "cases_keep s t"
  using create_facts [OF assms(1,2)]
proof (elim disjE exE conjE)
  fix c
  assume "cases t = cases (with_rival env s) @ [c]"
  then show ?thesis by (rule cases_keep_append [OF _ with_rival_keeps])
next
  fix c
  assume c: "find_case_by_key (with_rival env s) key = Some c"
    "handle_existing_case_update e c corr (eg_now env) (with_rival env s) = Inr (out, t)"
  then have "c \<in> set (cases (with_rival env s))" by (auto simp: find_case_by_key_def dest: find_SomeD)
  from case_update_keeps [OF c(2) session_ok_with_rival [OF assms(2,3)] this] with_rival_keeps
  show ?thesis by (blast intro: cases_keep_trans)
qed

lemma process_event_keeps:
  assumes "process_event env e corr s = Inr (out, t)" and "session_ok s" and "rival_ok env s"
  shows "cases_keep s t"
  using assms
proof (cases rule: process_event_cases)
  case skipped
  then show ?thesis by simp
next
  case (acted cust s1 x s2)
  have "cases_keep s s2"
    using acted(2) cases_keep_same [of s2 s s] by (simp add: same_cases_def)
  moreover have "cases_keep s2 t"
    using acted(7)
  proof
    assume "norm_event_type e \<in> set resolution_events
         \<and> handle_payment_succeeded e (match_case s2 (derive_case_key e) (tx_id x)) x corr (eg_now env) s2 = Inr (out, t)"
    then show ?thesis using payment_succeeded_keeps acted(1) match_case_in by blast
  next
    assume "norm_event_type e \<in> set creation_events
         \<and> (case match_case s2 (derive_case_key e) (tx_id x) of
              Some c \<Rightarrow> handle_existing_case_update e c corr (eg_now env) s2
            | None \<Rightarrow> create_new_case env e cust x (derive_case_key e) corr s2) = Inr (out, t)"
    then show ?thesis
      using acted(1,3) match_case_in case_update_keeps create_new_case_keeps by (auto split: option.splits)
  qed
  ultimately show ?thesis by (rule cases_keep_trans)
qed

lemma ingest_keeps:
  assumes "ingest env e sig status corr s = Inr (resp, t)" and "session_ok s"
    and "receipt_rival_ok (ig_rival env) s" and "rival_ok (ig_engine env) s"
  shows "cases_keep s t"
proof -
  let ?w = "new_receipt (ig_digest env) (ig_dump env) e sig (ig_receipt_id env)"
  obtain r s1 where r: "record_receipt ?w (ig_rival env) s = Inr (r, s1)"
    and rest: "er_duplicate r \<and> commit s1 = Inr t
      \<or> (\<exists>out s2 s3. process_event (ig_engine env) e corr s1 = Inr (out, s2) \<and> mark_processed (er_event r) s2 = Inr s3
            \<and> commit s3 = Inr t)"
    using assms(1) by (auto simp: ingest_def evaluate_and_record_def err_simps split: if_splits)
  note f = record_receipt_facts(1,2) [OF r assms(2,3)]
  have "cases_keep s s1" using f(2) cases_keep_same [of s1 s s] by simp
  moreover have "rival_ok (ig_engine env) s1"
    using assms(4) f(2) by (simp add: rival_ok_def with_rival_def split: option.splits)
  ultimately show ?thesis
    using rest f(1) process_event_keeps
    by (fastforce simp: mark_processed_def err_simps flush_ok intro: cases_keep_trans)
qed

end
