(* ===== verification/Case_Ranges.thy ===== *)
theory Case_Ranges
  imports Session_Order Request_Schemas
begin

text \<open>
  Every operation keeps the priorities of the stored cases in the range that the schemas promise, 1 to
  1000, provided what it is given from outside is in it: the checked body of an update, and the case a
  rival worker commits.
\<close>

definition in_range :: "recovery_case \<Rightarrow> bool" where
  "in_range c \<longleftrightarrow> 1 \<le> rc_priority c \<and> rc_priority c \<le> 1000"

definition ranges_ok :: "session \<Rightarrow> bool" where
  "ranges_ok s = list_all in_range (cases s)"

lemma ranges_ok_same: "cases t = cases s \<Longrightarrow> ranges_ok t = ranges_ok s"
  by (simp add: ranges_ok_def)

lemma ranges_ok_writes [simp]:
  "ranges_ok (put_transaction x t) = ranges_ok t" "ranges_ok (put_decision d t) = ranges_ok t"
  "ranges_ok (put_workflow w t) = ranges_ok t" "ranges_ok (put_step st t) = ranges_ok t"
  "ranges_ok (put_attempt a t) = ranges_ok t" "ranges_ok (flushed t) = ranges_ok t"
  "ranges_ok (add_audit ae t) = ranges_ok t" "ranges_ok (add_transition ct t) = ranges_ok t"
  "ranges_ok (audit_record cid e ac corr pl fs ts aid now t) = ranges_ok t"
  "ranges_ok (t\<lparr>customers := cus\<rparr>) = ranges_ok t" "ranges_ok (t\<lparr>consents := kos\<rparr>) = ranges_ok t"
  "ranges_ok (t\<lparr>transactions := txs\<rparr>) = ranges_ok t" "ranges_ok (t\<lparr>agent_decisions := ds\<rparr>) = ranges_ok t"
  "ranges_ok (t\<lparr>policy_decisions := pds\<rparr>) = ranges_ok t" "ranges_ok (t\<lparr>attempts := ats\<rparr>) = ranges_ok t"
  "ranges_ok (t\<lparr>executions := exs\<rparr>) = ranges_ok t" "ranges_ok (t\<lparr>workflows := ws\<rparr>) = ranges_ok t"
  "ranges_ok (t\<lparr>steps := sts\<rparr>) = ranges_ok t" "ranges_ok (t\<lparr>webhooks := whs\<rparr>) = ranges_ok t"
  by (rule ranges_ok_same, simp add: put_transaction_def put_decision_def put_workflow_def put_step_def
      put_attempt_def add_audit_def add_transition_def audit_record_def)+

lemma ranges_ok_put: "in_range c \<Longrightarrow> ranges_ok s \<Longrightarrow> ranges_ok (put_case c s)"
  by (auto simp: ranges_ok_def put_case_def upd_by_def list_all_iff)

lemma ranges_ok_append: "ranges_ok (s\<lparr>cases := cases s @ xs\<rparr>) \<longleftrightarrow> ranges_ok s \<and> list_all in_range xs"
  by (simp add: ranges_ok_def)

lemma stored_in_range: "c \<in> set (cases s) \<Longrightarrow> ranges_ok s \<Longrightarrow> in_range c"
  by (simp add: ranges_ok_def list_all_iff)

lemma found_in_range: "find_case s i = Some c \<Longrightarrow> ranges_ok s \<Longrightarrow> in_range c"
  using find_case_in stored_in_range by blast

lemma in_range_writes [simp]:
  "in_range (c\<lparr>rc_state := st\<rparr>) = in_range c" "in_range (c\<lparr>rc_closed_at := x\<rparr>) = in_range c"
  "in_range (c\<lparr>rc_version := v\<rparr>) = in_range c" "in_range (c\<lparr>rc_last_state_changed_at := d\<rparr>) = in_range c"
  "in_range (c\<lparr>rc_metadata := m\<rparr>) = in_range c" "in_range (moved_case c st now) = in_range c"
  "in_range (recovered_case c now) = in_range c" "in_range (awaiting_case c now) = in_range c"
  by (simp_all add: in_range_def moved_case_def recovered_case_def awaiting_case_def)

lemma scored_in_range:
  "in_range (updated_case e c n now)" "in_range (event_case e cust tx key (calculate_priority a cur f ty opened now') r i now)"
  by (simp_all add: in_range_def updated_case_def event_case_def calculate_priority_def Let_def)

interpretation ranges: session_order "\<lambda>s t. ranges_ok s \<longrightarrow> ranges_ok t"
  by unfold_locales auto

lemma ranges_after_flush: "flush s = Inr t \<Longrightarrow> ranges_ok t = ranges_ok s"
  by (auto simp: flush_ok)

section \<open>The services\<close>

lemma service_transition_ranges: "service_transition cid dto now s = Inr (c, t) \<Longrightarrow> ranges_ok s \<Longrightarrow> ranges_ok t"
  by (auto simp: service_transition_def Let_def err_simps split: option.splits if_splits
      intro!: ranges_ok_put dest!: found_in_range)

lemma update_case_ranges:
  "update_case cid dto a i now s = Inr (c, t) \<Longrightarrow> if_given (int_between 1 1000) (cp_priority dto) \<Longrightarrow>
     ranges_ok s \<Longrightarrow> ranges_ok t"
  by (auto simp: update_case_def update_fields_def Let_def in_range_def int_between_def err_simps
      split: option.splits if_splits intro!: ranges_ok_put dest!: found_in_range)

lemma generate_recommendation_ranges:
  "generate_recommendation env cid u s = Inr (r, t) \<Longrightarrow> ranges_ok s \<Longrightarrow> ranges_ok t"
  by (auto simp: generate_recommendation_def store_recommendation_def recommendation_writes_def
      advance_detected_def Let_def case_prod_beta err_simps split: option.splits if_splits
      intro!: ranges_ok_put dest!: found_in_range)

lemma persist_decision_ranges:
  "in_range c \<Longrightarrow> ranges_ok s \<Longrightarrow>
     ranges_ok (snd (persist_decision cfg req c r action status rules reasons i corr now s))"
  by (auto simp: persist_decision_def sync_case_state_def Let_def case_prod_beta split: option.splits
      intro!: ranges_ok_put)

lemma policy_evaluate_ranges: "policy_evaluate cfg req i corr now s = Inr (res, t) \<Longrightarrow> ranges_ok s \<Longrightarrow> ranges_ok t"
  by (auto simp: policy_evaluate_def evaluate_loaded_def Let_def case_prod_beta err_simps
      split: option.splits if_splits intro!: persist_decision_ranges dest!: found_in_range)

lemma consent_ranges:
  "create_customer_consent dto i now l s = Inr (r, t) \<Longrightarrow> ranges_ok s \<Longrightarrow> ranges_ok t"
  "revoke_customer_consent i now l s = Inr (r, t) \<Longrightarrow> ranges_ok s \<Longrightarrow> ranges_ok t"
  by (auto simp: create_customer_consent_def revoke_customer_consent_def revoke_consent_def put_consent_def Let_def
      err_simps split: option.splits if_splits)

lemma create_workflow_ranges: "create_workflow d c m i ids now s = Inr (w, t) \<Longrightarrow> ranges_ok s \<Longrightarrow> ranges_ok t"
  by (auto simp: create_workflow_def Let_def err_simps flush_ok split: option.splits if_splits)

section \<open>Execution and reconciliation\<close>

lemma move_case_ranges:
  "move_case c st reason actor aid corr k now s = Inr (c', t) \<Longrightarrow> in_range c \<Longrightarrow> ranges_ok s \<Longrightarrow> ranges_ok t"
  by (auto simp: move_case_def transition_case_def Let_def err_simps flush_ok split: if_splits intro!: ranges_ok_put)

lemma move_ebind_ranges:
  "ebind (move_case c st reason actor aid corr k now s) (\<lambda>(_, u). Inr u) = Inr t \<Longrightarrow> in_range c \<Longrightarrow> ranges_ok s \<Longrightarrow>
     ranges_ok t"
  by (auto simp: err_simps dest: move_case_ranges)

lemma apply_outcome_ranges:
  "apply_outcome w st c a res n corr now s = Inr t \<Longrightarrow> in_range c \<Longrightarrow> ranges_ok s \<Longrightarrow> ranges_ok t"
  by (auto simp: apply_outcome_def Let_def split: execution_status.splits if_splits elim!: move_ebind_ranges)

lemma submit_and_record_ranges:
  assumes "fst (submit_and_record env w st c tx cust override n corr s g) = Inr t" and "in_range c" and "ranges_ok s"
  shows "ranges_ok t"
proof -
  obtain s1 s2 a x res where s1: "flush (s\<lparr>attempts := attempts s @ [a]\<rparr>) = Inr s1"
    and s2: "flush (s1\<lparr>executions := executions s1 @ [x]\<rparr>) = Inr s2"
    and t: "apply_outcome w (executed_step st res) c a res n corr (se_now env) s2 = Inr t"
    using assms(1) by (auto simp: submit_and_record_def Let_def case_prod_beta err_simps split: sum.splits)
  have "ranges_ok s2" using assms(3) by (simp add: ranges_after_flush [OF s2] ranges_after_flush [OF s1])
  with apply_outcome_ranges [OF t assms(2)] show ?thesis .
qed

lemma run_step_ranges:
  assumes "fst (run_step env w st c override corr s g) = Inr t" and "in_range c" and "ranges_ok s"
  shows "ranges_ok t"
  using assms
  by (auto simp: run_step_def execute_validate_def execute_wait_cooldown_def execute_await_verification_def
      execute_generic_def execute_dispatch_def fail_step_def Let_def err_simps
      split: step_type.splits option.splits sum.splits if_splits
      dest!: submit_and_record_ranges elim!: move_case_ranges)

lemma execute_steps_ranges:
  assumes "execute_steps env wid everything override corr s = Inr t" and "ranges_ok s"
  shows "ranges_ok t"
proof -
  have "ranges_ok s \<longrightarrow> ranges_ok t"
    using assms(1) by (rule ranges.along_execution) (blast intro: run_step_ranges found_in_range)
  with assms(2) show ?thesis by blast
qed

lemma resolve_discrepancy_ranges:
  "resolve_discrepancy now aid corr auto c t p s = Inr r \<Longrightarrow> in_range c \<Longrightarrow> ranges_ok s \<Longrightarrow> ranges_ok (rs_session r)"
  by (auto simp: resolve_discrepancy_def settle_success_def settle_failure_def escalate_unknown_def
      unresolved_def resolved_def Let_def err_simps split: if_splits
      elim!: move_case_ranges intro!: ranges_ok_put)

lemma reconcile_case_ranges:
  "reconcile_case env cid aid corr auto s = Inr (rep, t) \<Longrightarrow> ranges_ok s \<Longrightarrow> ranges_ok t"
  by (auto simp: reconcile_case_def reconcile_loaded_def Let_def case_prod_beta err_simps
      split: option.splits dest!: resolve_discrepancy_ranges intro: found_in_range)

lemma reconcile_each_ranges:
  assumes "reconcile_each env is s = (r, t)" and "ranges_ok s"
  shows "ranges_ok t"
proof -
  have "ranges_ok s \<longrightarrow> ranges_ok t"
    using assms(1) by (rule ranges.along_batch) (blast intro: reconcile_case_ranges)
  with assms(2) show ?thesis by blast
qed

section \<open>Events\<close>

lemma payment_succeeded_ranges:
  "handle_payment_succeeded e x tx corr now s = Inr (out, t) \<Longrightarrow> (\<And>c. x = Some c \<Longrightarrow> c \<in> set (cases s)) \<Longrightarrow>
     ranges_ok s \<Longrightarrow> ranges_ok t"
  by (auto simp: handle_payment_succeeded_def Let_def err_simps ranges_after_flush
      split: option.splits if_splits intro!: ranges_ok_put dest!: stored_in_range)

lemma event_update_ranges:
  "handle_existing_case_update e c corr now s = Inr (out, t) \<Longrightarrow> ranges_ok s \<Longrightarrow> ranges_ok t"
  by (auto simp: handle_existing_case_update_def Let_def err_simps ranges_after_flush
      split: if_splits intro!: ranges_ok_put scored_in_range)

definition rival_in_range :: "engine_env \<Rightarrow> bool" where
  "rival_in_range env = if_given in_range (eg_rival env)"

lemma with_rival_ranges: "rival_in_range env \<Longrightarrow> ranges_ok s \<Longrightarrow> ranges_ok (with_rival env s)"
  by (auto simp: with_rival_def rival_in_range_def ranges_ok_append split: option.splits)

lemma create_new_case_ranges:
  assumes "create_new_case env e cust tx key corr s = Inr (out, t)" and "rival_in_range env" and "ranges_ok s"
  shows "ranges_ok t"
proof -
  let ?p = "calculate_priority (ev_amount_minor e) (ev_currency e) (ev_failure_code e)
              (ev_event_type e) (Some (eg_now env)) (eg_now env)"
  obtain r where r: "classify_risk (ev_amount_minor e) (ev_currency e) (ev_failure_code e)
      (ev_event_type e) (json_get (ev_metadata e) ''customer_tier'') = Inr r"
    using assms(1) by (auto simp: create_new_case_def Let_def err_simps)
  let ?s = "with_rival env s"
  let ?c = "event_case e cust tx key ?p r (eg_case_id env) (eg_now env)"
  have start: "ranges_ok ?s" using assms(2,3) by (rule with_rival_ranges)
  show ?thesis
  proof (cases "flush (?s\<lparr>cases := cases ?s @ [?c]\<rparr>)")
    case (Inl err)
    then show ?thesis
      using assms(1) r start
      by (auto simp: create_new_case_def Let_def split: option.splits dest: event_update_ranges)
  next
    case (Inr s2)
    then have f: "flush (open_rows e ?c r corr (eg_now env) s2) = Inr t"
      using assms(1) r by (auto simp: create_new_case_def Let_def err_simps)
    have "ranges_ok s2" using start by (simp add: ranges_after_flush [OF Inr] ranges_ok_append scored_in_range)
    then show ?thesis by (simp add: ranges_after_flush [OF f] open_rows_def)
  qed
qed

lemma customer_ranges: "get_or_create_customer e i s = Inr (c, t) \<Longrightarrow> ranges_ok t = ranges_ok s"
  by (auto simp: get_or_create_customer_def Let_def err_simps ranges_after_flush split: option.splits)

lemma transaction_ranges: "get_or_create_transaction e c i s = Inr (x, t) \<Longrightarrow> ranges_ok t = ranges_ok s"
  by (auto simp: get_or_create_transaction_def Let_def err_simps ranges_after_flush split: option.splits)

lemma process_event_ranges:
  "process_event env e corr s = Inr (out, t) \<Longrightarrow> rival_in_range env \<Longrightarrow> ranges_ok s \<Longrightarrow> ranges_ok t"
  by (auto simp: process_event_def Let_def err_simps split: if_splits option.splits
      dest!: customer_ranges transaction_ranges
      dest: event_update_ranges create_new_case_ranges match_case_in payment_succeeded_ranges)

lemma ingest_ranges:
  assumes "ingest env e sig status corr s = Inr (resp, t)" and "rival_in_range (ig_engine env)" and "ranges_ok s"
  shows "ranges_ok t"
proof -
  let ?w = "new_receipt (ig_digest env) (ig_dump env) e sig (ig_receipt_id env)"
  obtain r s1 where r: "record_receipt ?w (ig_rival env) s = Inr (r, s1)"
    and rest: "er_duplicate r \<and> commit s1 = Inr t
      \<or> (\<exists>out s2 s3. process_event (ig_engine env) e corr s1 = Inr (out, s2) \<and> mark_processed (er_event r) s2 = Inr s3
            \<and> commit s3 = Inr t)"
    using assms(1) by (auto simp: ingest_def evaluate_and_record_def err_simps split: if_splits)
  have "ranges_ok s1"
    using r assms(3)
    by (auto simp: record_receipt_def Let_def ranges_after_flush split: option.splits sum.splits)
  with rest assms(2) show ?thesis
    by (fastforce simp: mark_processed_def err_simps flush_ok dest: process_event_ranges)
qed

end
