(* ===== verification/Api_History.thy ===== *)
theory Api_History
  imports Api_Access History Case_Fates Case_Ranges
begin

text \<open>
  What a request may take back: nothing that was logged. The audit log, the history of moves, the policy
  decisions, the recovery attempts and the payment executions only grow along every sequence of
  requests, and a case that ended stays ended.
\<close>

section \<open>The services behind the routes\<close>

lemma evaluate_policy_recommendation_grows:
  "evaluate_policy_recommendation dto u i corr now s = Inr (res, t) \<Longrightarrow> grows s t"
  by (auto simp: evaluate_policy_recommendation_def err_simps dest!: policy_evaluate_grows)

lemma ingest_routes_grow:
  "ingest_canonical_event env req i corr v g s = Inr (r, t) \<Longrightarrow> grows s t"
  "simulate_failure_event env req' i p corr g s = Inr (r, t) \<Longrightarrow> grows s t"
  by (auto simp: ingest_canonical_event_def simulate_failure_event_def err_simps dest!: ingest_grows)

lemma webhook_grows:
  "ingest_provider_webhook env rq s = Inr (r, t) \<Longrightarrow> grows s t"
  "ingest_razorpay_webhook env rq s = Inr (r, t) \<Longrightarrow> grows s t"
  by (auto simp: ingest_provider_webhook_def ingest_razorpay_webhook_def ingest_raw_webhook_def Let_def err_simps
      split: if_splits dest!: ingest_grows)

lemma commit_grows: "commit s = Inr t \<Longrightarrow> grows r t = grows r s"
  by (auto simp: commit_eq_Inr)

lemma provider_webhook_grows: "provider_webhook env rq s = Inr (r, t) \<Longrightarrow> grows s t"
  by (auto simp: provider_webhook_def Let_def err_simps commit_grows
      split: option.splits if_splits json.splits dest!: record_receipt_grows)

lemma session_step_grows:
  assumes "session_step env u rq s t"
  shows "grows s t"
  using assms
proof (induction rule: session_step.induct)
  case (8 wid everything override corr s s1 t)
  then show ?case by (simp add: commit_grows execute_steps_grows)
qed (auto simp: reconcile_pending_cases_def commit_grows
    dest: service_transition_grows update_case_grows generate_recommendation_grows
      evaluate_policy_recommendation_grows consent_grows create_workflow_grows reconcile_case_grows
      reconcile_each_grows ingest_routes_grow webhook_grows provider_webhook_grows)

lemma handle_grows: "handle env u rq st = (a, st') \<Longrightarrow> grows (st_session st) (st_session st')"
  by (erule handle_writesE) (auto dest: session_step_grows)

text \<open>C8: Whatever sequence of requests is served, the audit log, the
  recorded moves, the policy decisions and the payment executions of the start are a prefix of those at the
  end, row by row unchanged, and no recovery attempt disappears: no route deletes or rewrites one.\<close>

theorem history_is_append_only:
  assumes "serves st calls st'" and "session_ok (st_session st)" and "users_ok (st_users st)"
  shows "prefix (audit_rows (st_session st)) (audit_rows (st_session st'))
    \<and> prefix (transition_rows (st_session st)) (transition_rows (st_session st'))
    \<and> prefix (policy_decisions (st_session st)) (policy_decisions (st_session st'))
    \<and> prefix (executions (st_session st)) (executions (st_session st'))
    \<and> prefix (map at_id (attempts (st_session st))) (map at_id (attempts (st_session st')))"
proof -
  have "grows (st_session st) (st_session st') \<and> session_ok (st_session st')"
    using assms
  proof (induction rule: serves.induct)
    case (serves_more env st token rq answer st1 calls st2)
    have "grows (st_session st) (st_session st1) \<and> session_ok (st_session st1) \<and> users_ok (st_users st1)"
      using serves_more.hyps(2)
      by (cases rule: serve_cases)
        (use serves_more in \<open>auto dest: handle_grows handle_session handle_users\<close>)
    with serves_more.IH show ?case by (blast intro: grows_trans)
  qed simp
  moreover from this assms(2) have "audit_pending (st_session x) = []" "transition_pending (st_session x) = []"
    if "x \<in> {st, st'}" for x
    using that by (auto simp: session_ok_def)
  ultimately show ?thesis by (simp add: grows_def audit_log_def history_log_def)
qed

text \<open>A case opened by an event, and an operator who raises its urgency.\<close>

definition demo_live_state :: api_state where
  "demo_live_state = \<lparr>st_session = demo_opened_session, st_users = [demo_user]\<rparr>"

definition demo_reprioritise :: "submissions api_call" where
  "demo_reprioritise =
     (demo_api_env, Some ''tok-A'', Update_case ''case1'' \<lparr>cp_priority = Some 5, cp_metadata = None\<rparr>)"

lemma demo_reprioritised:
  obtains st' where "serves demo_live_state [demo_reprioritise] st'"
    "length (audit_rows (st_session st')) = Suc (length (audit_rows (st_session demo_live_state)))"
    "map_option rc_priority (find_case (st_session st') ''case1'') = Some 5"
proof -
  let ?u = "update_case ''case1'' \<lparr>cp_priority = Some 5, cp_metadata = None\<rparr> (Some ''u1'') ''n1'' demo_now
      demo_opened_session"
  have "(case ?u of Inl _ \<Rightarrow> False
      | Inr (c, t) \<Rightarrow> length (audit_rows t) = Suc (length (audit_rows demo_opened_session))
          \<and> map_option rc_priority (find_case t ''case1'') = Some 5)"
    by code_simp
  then obtain c t where t: "?u = Inr (c, t)" "length (audit_rows t) = Suc (length (audit_rows demo_opened_session))"
    "map_option rc_priority (find_case t ''case1'') = Some 5"
    by (auto split: sum.splits)
  have op: "require_roles [Role_ADMIN, Role_OPERATOR] demo_auth (Some ''tok-A'') [demo_user] = Inr demo_user"
    by code_simp
  have ok: "call_ok demo_api_env demo_live_state"
    using demo_rival_ok
    by (simp add: call_ok_def demo_api_env_def demo_ingest_def demo_webhook_env_def demo_engine_def
        demo_provider_env_def demo_live_state_def receipt_rival_ok_def)
  have "snd (serve demo_api_env (Some ''tok-A'') (Update_case ''case1'' \<lparr>cp_priority = Some 5, cp_metadata = None\<rparr>)
      demo_live_state) = demo_live_state\<lparr>st_session := t\<rparr>"
    using op t(1)
    by (simp add: serve_def check_guard_def operators_def route_defs demo_api_env_def demo_live_state_def
        writing_session_def case_update_valid_def int_between_def demo_user_def)
  then have "serves demo_live_state [demo_reprioritise] (demo_live_state\<lparr>st_session := t\<rparr>)"
    unfolding demo_reprioritise_def by (intro serves_call ok) (simp add: serves_none)
  moreover have "st_session (demo_live_state\<lparr>st_session := t\<rparr>) = t" "st_session demo_live_state = demo_opened_session"
    by (simp_all add: demo_live_state_def)
  ultimately show thesis using t(2,3) that by metis
qed

lemma demo_live_state_ok: "session_ok (st_session demo_live_state)" "users_ok (st_users demo_live_state)"
  using demo_opened_ok demo_api_state_ok(2) by (simp_all add: demo_live_state_def demo_api_state_def)

lemma history_is_append_only_witness:
  "\<exists>st'. serves demo_live_state [demo_reprioritise] st'
     \<and> audit_rows (st_session st') \<noteq> audit_rows (st_session demo_live_state)
     \<and> prefix (audit_rows (st_session demo_live_state)) (audit_rows (st_session st'))"
proof -
  obtain st' where run: "serves demo_live_state [demo_reprioritise] st'"
    "length (audit_rows (st_session st')) = Suc (length (audit_rows (st_session demo_live_state)))"
    by (rule demo_reprioritised)
  from history_is_append_only [OF run(1) demo_live_state_ok] run show ?thesis by fastforce
qed

section \<open>The fate of a case\<close>

lemma ingest_routes_keep:
  assumes "session_ok s" and "receipt_rival_ok (ig_rival env) s \<and> rival_ok (ig_engine env) s"
  shows "ingest_canonical_event env req i corr v g s = Inr (r, t) \<Longrightarrow> cases_keep s t"
    "simulate_failure_event env req' i p corr g s = Inr (r, t) \<Longrightarrow> cases_keep s t"
  using assms
  by (auto simp: ingest_canonical_event_def simulate_failure_event_def err_simps dest: ingest_keeps)

lemma webhook_keeps:
  assumes "session_ok s" and "receipt_rival_ok (ig_rival (wn_ingest env)) s \<and> rival_ok (ig_engine (wn_ingest env)) s"
  shows "ingest_provider_webhook env rq s = Inr (r, t) \<Longrightarrow> cases_keep s t"
    "ingest_razorpay_webhook env rq s = Inr (r, t) \<Longrightarrow> cases_keep s t"
  using assms
  by (auto simp: ingest_provider_webhook_def ingest_razorpay_webhook_def ingest_raw_webhook_def Let_def err_simps
      split: if_splits dest: ingest_keeps)

lemma provider_webhook_keeps:
  assumes "provider_webhook env rq s = Inr (r, t)" and "session_ok s" and "receipt_rival_ok (pv_rival env) s"
  shows "cases_keep s t"
  using assms
proof (rule provider_webhook_Inr)
  fix i d rr
  assume "record_receipt (provider_receipt env (pw_body rq) i d) (pv_rival env) s = Inr (rr, t)"
  from record_receipt_facts(2) [OF this assms(2,3)] show ?thesis
    using cases_keep_same [of t s s] by simp
qed

lemma session_step_keeps:
  assumes "session_step env u rq s t" and "call_ok env st" and "session_ok s" and "st_session st = s"
  shows "cases_keep s t"
  using assms
proof (induction rule: session_step.induct)
  case (8 wid everything override corr s s1 t)
  then show ?case by (simp add: execute_steps_keeps commit_eq_Inr)
next
  case (4 pe po s t)
  then show ?case by (auto simp: evaluate_policy_recommendation_def err_simps dest: policy_evaluate_keeps)
qed (auto simp: call_ok_def reconcile_pending_cases_def commit_eq_Inr
    dest: service_transition_keeps update_case_keeps generate_recommendation_keeps consent_keeps
      create_workflow_keeps reconcile_case_keeps reconcile_each_keeps ingest_routes_keep webhook_keeps
      provider_webhook_keeps)

lemma handle_keeps:
  "handle env u rq st = (a, st') \<Longrightarrow> call_ok env st \<Longrightarrow> session_ok (st_session st) \<Longrightarrow>
     cases_keep (st_session st) (st_session st')"
  by (erule handle_writesE) (auto dest: session_step_keeps)

text \<open>C7: Whatever sequence of requests is served, every stored case is still
  there afterwards, about the same customer, transaction and key, with a version no lower than before;
  a recovered case is still recovered or closed, and a closed one closed: neither events, retries,
  reconciliation, policy evaluation nor an operator bring it back.\<close>

theorem cases_keep_their_fate:
  assumes "serves st calls st'" and "session_ok (st_session st)" and "find_case (st_session st) i = Some c"
  shows "\<exists>c'. find_case (st_session st') i = Some c' \<and> identity_of c' = identity_of c
    \<and> rc_version c \<le> rc_version c'
    \<and> (rc_state c \<in> {Case_RECOVERED, Case_CLOSED} \<longrightarrow> rc_state c' \<in> {Case_RECOVERED, Case_CLOSED})
    \<and> (rc_state c = Case_CLOSED \<longrightarrow> rc_state c' = Case_CLOSED)"
proof -
  have "cases_keep (st_session st) (st_session st')"
    using assms(1,2)
  proof (induction rule: serves.induct)
    case (serves_more env st token rq answer st1 calls st2)
    have "cases_keep (st_session st) (st_session st1) \<and> session_ok (st_session st1)"
      using serves_more.hyps(2)
      by (cases rule: serve_cases) (use serves_more in \<open>auto dest: handle_keeps handle_session\<close>)
    with serves_more.IH show ?case by (blast intro: cases_keep_trans)
  qed simp
  with assms(3) show ?thesis by (auto simp: cases_keep_def case_kept_def)
qed

section \<open>The priority of a case\<close>

lemma service_ranges:
  "evaluate_policy_recommendation dto u i corr now s = Inr (res, t) \<Longrightarrow> ranges_ok s \<Longrightarrow> ranges_ok t"
  "ingest_canonical_event en req i corr v g s = Inr (r, t) \<Longrightarrow> rival_in_range (ig_engine en) \<Longrightarrow>
     ranges_ok s \<Longrightarrow> ranges_ok t"
  "simulate_failure_event en req' i p corr g s = Inr (r, t) \<Longrightarrow> rival_in_range (ig_engine en) \<Longrightarrow>
     ranges_ok s \<Longrightarrow> ranges_ok t"
  "ingest_provider_webhook ew wq s = Inr (r, t) \<Longrightarrow> rival_in_range (ig_engine (wn_ingest ew)) \<Longrightarrow>
     ranges_ok s \<Longrightarrow> ranges_ok t"
  "ingest_razorpay_webhook ew wq s = Inr (r, t) \<Longrightarrow> rival_in_range (ig_engine (wn_ingest ew)) \<Longrightarrow>
     ranges_ok s \<Longrightarrow> ranges_ok t"
  by (auto simp: evaluate_policy_recommendation_def ingest_canonical_event_def simulate_failure_event_def
      ingest_provider_webhook_def ingest_razorpay_webhook_def ingest_raw_webhook_def Let_def err_simps
      split: if_splits dest: policy_evaluate_ranges ingest_ranges)

lemma provider_webhook_ranges: "provider_webhook env rq s = Inr (r, t) \<Longrightarrow> ranges_ok s \<Longrightarrow> ranges_ok t"
  by (auto simp: provider_webhook_def Let_def err_simps record_receipt_def ranges_after_flush
      split: option.splits if_splits json.splits sum.splits)

definition rivals_in_range :: "'g api_env \<Rightarrow> bool" where
  "rivals_in_range env \<longleftrightarrow>
     rival_in_range (ig_engine (xv_ingest env)) \<and> rival_in_range (ig_engine (wn_ingest (xv_webhook env)))"

lemma session_step_ranges:
  assumes "session_step env u rq s t" and "valid_request rq" and "rivals_in_range env" and "ranges_ok s"
  shows "ranges_ok t"
  using assms
proof (induction rule: session_step.induct)
  case (1 cid dto s c t)
  then show ?case by (auto simp: case_update_valid_def dest: update_case_ranges)
next
  case (8 wid everything override corr s s1 t)
  then show ?case by (simp add: execute_steps_ranges commit_eq_Inr)
qed (auto simp: rivals_in_range_def reconcile_pending_cases_def commit_eq_Inr
    dest: service_transition_ranges generate_recommendation_ranges consent_ranges
      create_workflow_ranges reconcile_case_ranges reconcile_each_ranges service_ranges provider_webhook_ranges)

lemma handle_ranges:
  "handle env u rq st = (a, st') \<Longrightarrow> valid_request rq \<Longrightarrow> rivals_in_range env \<Longrightarrow> ranges_ok (st_session st) \<Longrightarrow>
     ranges_ok (st_session st')"
  by (erule handle_writesE) (auto dest: session_step_ranges)

text \<open>C35: Whatever sequence of requests is served, every stored case keeps a
  priority between 1 and 1000 if it was so at the start and rival workers commit such cases: the schemas
  refuse an update outside the range before the route runs, and the scores of opened and updated cases
  lie in it.\<close>

theorem priorities_stay_in_range:
  assumes "serves st calls st'" and "ranges_ok (st_session st)"
    and "list_all (\<lambda>(env, _, _). rivals_in_range env) calls" and "c \<in> set (cases (st_session st'))"
  shows "1 \<le> rc_priority c \<and> rc_priority c \<le> 1000"
proof -
  have "ranges_ok (st_session st')"
    using assms(1-3)
  proof (induction rule: serves.induct)
    case (serves_more env st token rq answer st1 calls st2)
    have "ranges_ok (st_session st1)"
      using serves_more.hyps(2)
      by (cases rule: serve_cases) (use serves_more.prems in \<open>auto dest: handle_ranges\<close>)
    with serves_more show ?case by simp
  qed simp
  from stored_in_range [OF assms(4) this] show ?thesis by (simp add: in_range_def)
qed

text \<open>A recovered case, and an operator who asks for the agent's decision again.\<close>

definition demo_recovered_state :: api_state where
  "demo_recovered_state = \<lparr>st_session = run_event demo_success demo_opened_session, st_users = [demo_user]\<rparr>"

definition demo_reopening :: case_transition_dto where
  "demo_reopening =
     \<lparr>cd_to_state = Case_AWAITING_DECISION, cd_reason_code = ''again'', cd_actor_type = Actor_OPERATOR,
      cd_correlation_id = ''k'', cd_metadata = []\<rparr>"

definition demo_reopen :: "submissions api_call" where
  "demo_reopen = (demo_api_env, Some ''tok-A'', Transition_case ''case1'' demo_reopening)"

lemma demo_recovered_facts:
  "session_ok (st_session demo_recovered_state)" "call_ok demo_api_env demo_recovered_state"
  "map_option rc_state (find_case (st_session demo_recovered_state) ''case1'') = Some Case_RECOVERED"
  unfolding session_ok_def by code_simp+

lemma demo_reopen_served: "serves demo_recovered_state [demo_reopen] demo_recovered_state"
proof -
  have "\<not> is_ok (service_transition ''case1'' demo_reopening demo_now (st_session demo_recovered_state))"
    by code_simp
  then obtain e where e: "service_transition ''case1'' demo_reopening demo_now (st_session demo_recovered_state) = Inl e"
    by (cases "service_transition ''case1'' demo_reopening demo_now (st_session demo_recovered_state)") auto
  have op: "require_roles [Role_ADMIN, Role_OPERATOR] demo_auth (Some ''tok-A'') (st_users demo_recovered_state) = Inr demo_user"
    and valid: "case_transition_valid demo_reopening"
    by code_simp+
  have "snd (serve demo_api_env (Some ''tok-A'') (Transition_case ''case1'' demo_reopening) demo_recovered_state)
      = demo_recovered_state"
    using op valid e by (simp add: serve_def check_guard_def operators_def route_defs demo_api_env_def writing_session_def)
  then show ?thesis
    unfolding demo_reopen_def by (intro serves_call demo_recovered_facts) (simp add: serves_none)
qed

lemma cases_keep_their_fate_witness:
  "\<exists>c. find_case (st_session demo_recovered_state) ''case1'' = Some c \<and> rc_state c \<in> {Case_RECOVERED, Case_CLOSED}"
proof -
  obtain c where c: "find_case (st_session demo_recovered_state) ''case1'' = Some c" "rc_state c = Case_RECOVERED"
    using demo_recovered_facts(3) by auto
  from cases_keep_their_fate [OF demo_reopen_served demo_recovered_facts(1) c(1)] c(2)
  show ?thesis by auto
qed

lemma priorities_stay_in_range_witness:
  "\<exists>st' c. serves demo_live_state [demo_reprioritise] st' \<and> c \<in> set (cases (st_session st'))
     \<and> rc_priority c = 5 \<and> 1 \<le> rc_priority c \<and> rc_priority c \<le> 1000"
proof -
  obtain st' where run: "serves demo_live_state [demo_reprioritise] st'"
    "map_option rc_priority (find_case (st_session st') ''case1'') = Some 5" by (rule demo_reprioritised)
  have start: "ranges_ok (st_session demo_live_state)" and rivals: "list_all (\<lambda>(env, _, _). rivals_in_range env) [demo_reprioritise]"
    unfolding ranges_ok_def rivals_in_range_def by code_simp+
  from run(2) obtain c where "find_case (st_session st') ''case1'' = Some c" and five: "rc_priority c = 5" by auto
  then have "c \<in> set (cases (st_session st'))" using find_case_in by blast
  with priorities_stay_in_range [OF run(1) start rivals this] run(1) five show ?thesis by blast
qed

end
