(* ===== verification/Seed.thy ===== *)
theory Seed
  imports Case_Transitions
begin

text \<open>
  The synthetic data of \<open>app/services/seed_service.py\<close>: the records of one seed and their insertion
  group by group. \<open>uuid5\<close> under the module's fixed namespace is the parameter \<open>u5\<close> of the definitions,
  a function of the name; what is used of it is that different names get different ids.
\<close>

section \<open>The records of a seed\<close>

definition synthetic_uuid :: "(string \<Rightarrow> uuid) \<Rightarrow> string \<Rightarrow> string \<Rightarrow> uuid" where
  "synthetic_uuid u5 seed value = u5 (seed @ '':'' @ value)"

text \<open>\<open>_FIXED_NOW\<close>, 2026-01-15 12:00 UTC.\<close>

definition fixed_now :: pydatetime where
  "fixed_now = Aware (1768478400 * us_per_second)"

record synthetic_dataset =
  sd_customers :: "customer list"
  sd_transactions :: "transaction list"
  sd_cases :: "recovery_case list"
  sd_attempts :: "recovery_attempt list"
  sd_decisions :: "agent_decision list"
  sd_audit_events :: "audit_event list"

definition seed_prefix :: "int \<Rightarrow> string" where
  "seed_prefix seed = ''seed-'' @ str_of_int seed"

definition scenario_metadata :: "string \<Rightarrow> payload" where
  "scenario_metadata x = [(''synthetic'', JBool True), (''scenario'', JStr x)]"

definition synthetic_customers :: "(string \<Rightarrow> uuid) \<Rightarrow> int \<Rightarrow> customer list" where
  "synthetic_customers u5 seed =
     (let i = synthetic_uuid u5 (seed_prefix seed)
      in [\<lparr>cu_id = i ''customer-001'', cu_provider = ''synthetic'', cu_external_id = ''synthetic_customer_001'',
           cu_email = Some ''customer001@example.test'', cu_display_name = Some ''Synthetic Customer 001'',
           cu_status = Cust_ACTIVE, cu_metadata = scenario_metadata ''complete_context''\<rparr>,
          \<lparr>cu_id = i ''customer-002'', cu_provider = ''synthetic'', cu_external_id = ''synthetic_customer_002'',
           cu_email = None, cu_display_name = None,
           cu_status = Cust_ACTIVE, cu_metadata = scenario_metadata ''missing_context''\<rparr>,
          \<lparr>cu_id = i ''customer-003'', cu_provider = ''synthetic'', cu_external_id = ''synthetic_customer_003'',
           cu_email = Some ''customer003@example.test'', cu_display_name = Some ''Synthetic Customer 003'',
           cu_status = Cust_ACTIVE, cu_metadata = scenario_metadata ''uncertain_outcome''\<rparr>])"

definition synthetic_transactions :: "(string \<Rightarrow> uuid) \<Rightarrow> int \<Rightarrow> transaction list" where
  "synthetic_transactions u5 seed =
     (let i = synthetic_uuid u5 (seed_prefix seed)
      in [\<lparr>tx_id = i ''transaction-001'', tx_customer_id = i ''customer-001'', tx_provider = ''synthetic'',
           tx_external_id = ''synthetic_txn_001'', tx_amount_minor = 4999, tx_currency = ''INR'',
           tx_status = Tx_FAILED, tx_failure_code = Some ''insufficient_funds'',
           tx_failure_message = Some ''The synthetic payment was declined.'', tx_occurred_at = fixed_now,
           tx_metadata = scenario_metadata ''complete_context''\<rparr>,
          \<lparr>tx_id = i ''transaction-002'', tx_customer_id = i ''customer-002'', tx_provider = ''synthetic'',
           tx_external_id = ''synthetic_txn_002'', tx_amount_minor = 1299, tx_currency = ''INR'',
           tx_status = Tx_FAILED, tx_failure_code = Some ''provider_declined'',
           tx_failure_message = Some ''The synthetic payment was declined.'', tx_occurred_at = fixed_now,
           tx_metadata = scenario_metadata ''missing_context''\<rparr>,
          \<lparr>tx_id = i ''transaction-003'', tx_customer_id = i ''customer-003'', tx_provider = ''synthetic'',
           tx_external_id = ''synthetic_txn_003'', tx_amount_minor = 7999, tx_currency = ''INR'',
           tx_status = Tx_PENDING, tx_failure_code = None, tx_failure_message = None,
           tx_occurred_at = fixed_now, tx_metadata = scenario_metadata ''uncertain_outcome''\<rparr>])"

definition synthetic_cases :: "(string \<Rightarrow> uuid) \<Rightarrow> int \<Rightarrow> recovery_case list" where
  "synthetic_cases u5 seed =
     (let i = synthetic_uuid u5 (seed_prefix seed); n = str_of_int seed
      in [\<lparr>rc_id = i ''case-001'', rc_customer_id = i ''customer-001'',
           rc_trigger_transaction_id = i ''transaction-001'',
           rc_case_key = ''synthetic:'' @ n @ '':failed:001'', rc_state = Case_DETECTED, rc_priority = 100,
           rc_opened_at = fixed_now, rc_last_state_changed_at = fixed_now, rc_closed_at = None, rc_version = 1,
           rc_metadata = scenario_metadata ''complete_context''\<rparr>,
          \<lparr>rc_id = i ''case-002'', rc_customer_id = i ''customer-002'',
           rc_trigger_transaction_id = i ''transaction-002'',
           rc_case_key = ''synthetic:'' @ n @ '':failed:002'', rc_state = Case_ESCALATED, rc_priority = 80,
           rc_opened_at = fixed_now, rc_last_state_changed_at = fixed_now, rc_closed_at = None, rc_version = 1,
           rc_metadata = scenario_metadata ''missing_context''\<rparr>,
          \<lparr>rc_id = i ''case-003'', rc_customer_id = i ''customer-003'',
           rc_trigger_transaction_id = i ''transaction-003'',
           rc_case_key = ''synthetic:'' @ n @ '':pending:003'', rc_state = Case_VERIFICATION_PENDING,
           rc_priority = 90, rc_opened_at = fixed_now, rc_last_state_changed_at = fixed_now,
           rc_closed_at = None, rc_version = 1, rc_metadata = scenario_metadata ''uncertain_outcome''\<rparr>])"

definition synthetic_attempts :: "(string \<Rightarrow> uuid) \<Rightarrow> int \<Rightarrow> recovery_attempt list" where
  "synthetic_attempts u5 seed =
     (let i = synthetic_uuid u5 (seed_prefix seed)
      in [\<lparr>at_id = i ''attempt-003'', at_case_id = i ''case-003'', at_sequence_number = 1,
           at_status = Att_UNCERTAIN, at_action_type = Act_RETRY_PAYMENT, at_started_at = Some fixed_now,
           at_finished_at = None, at_outcome = Some ''provider_timeout'', at_provider_reference = None,
           at_idempotency_key = ''synthetic:'' @ str_of_int seed @ '':attempt:003:1'',
           at_metadata = [(''synthetic'', JBool True)]\<rparr>])"

definition synthetic_decisions :: "(string \<Rightarrow> uuid) \<Rightarrow> int \<Rightarrow> agent_decision list" where
  "synthetic_decisions u5 seed =
     (let i = synthetic_uuid u5 (seed_prefix seed)
      in [\<lparr>ad_id = i ''decision-003'', ad_case_id = i ''case-003'', ad_attempt_id = Some (i ''attempt-003''),
           ad_decision_version = 1, ad_action_type = Act_RETRY_PAYMENT,
           ad_reason_code = ''synthetic_uncertain_retry'', ad_confidence = Some (3 / 4),
           ad_validation_status = Val_VALID\<rparr>])"

definition synthetic_audit_events :: "(string \<Rightarrow> uuid) \<Rightarrow> int \<Rightarrow> audit_event list" where
  "synthetic_audit_events u5 seed =
     (let i = synthetic_uuid u5 (seed_prefix seed); n = str_of_int seed
      in [\<lparr>ae_case_id = i ''case-002'', ae_event_type = ''case_escalated'', ae_from_state = Some Case_DETECTED,
           ae_to_state = Some Case_ESCALATED, ae_actor_type = Actor_TEST, ae_actor_id = Some ''synthetic-fixture'',
           ae_correlation_id = ''synthetic:'' @ n @ '':correlation:002'', ae_event_time = fixed_now,
           ae_payload = [(''reason'', JStr ''missing_context''), (''synthetic'', JBool True)],
           ae_sequence_number = 1\<rparr>,
          \<lparr>ae_case_id = i ''case-003'', ae_event_type = ''verification_pending'',
           ae_from_state = Some Case_ACTION_PENDING, ae_to_state = Some Case_VERIFICATION_PENDING,
           ae_actor_type = Actor_TEST, ae_actor_id = Some ''synthetic-fixture'',
           ae_correlation_id = ''synthetic:'' @ n @ '':correlation:003'', ae_event_time = fixed_now,
           ae_payload = [(''outcome'', JStr ''uncertain''), (''synthetic'', JBool True)],
           ae_sequence_number = 1\<rparr>])"

definition build_synthetic_dataset :: "(string \<Rightarrow> uuid) \<Rightarrow> int \<Rightarrow> synthetic_dataset" where
  "build_synthetic_dataset u5 seed =
     \<lparr>sd_customers = synthetic_customers u5 seed, sd_transactions = synthetic_transactions u5 seed,
      sd_cases = synthetic_cases u5 seed, sd_attempts = synthetic_attempts u5 seed,
      sd_decisions = synthetic_decisions u5 seed, sd_audit_events = synthetic_audit_events u5 seed\<rparr>"

section \<open>Seeding\<close>

text \<open>\<open>session.add_all\<close> and \<open>flush\<close>, group by group.\<close>

definition seed_synthetic_data ::
  "(string \<Rightarrow> uuid) \<Rightarrow> int \<Rightarrow> session \<Rightarrow> py_error + (synthetic_dataset \<times> session)" where
  "seed_synthetic_data u5 seed s =
     (let d = build_synthetic_dataset u5 seed
      in ebind (flush (s\<lparr>customers := customers s @ sd_customers d\<rparr>)) (\<lambda>s1.
         ebind (flush (s1\<lparr>transactions := transactions s1 @ sd_transactions d\<rparr>)) (\<lambda>s2.
         ebind (flush (s2\<lparr>cases := cases s2 @ sd_cases d\<rparr>)) (\<lambda>s3.
         ebind (flush (s3\<lparr>attempts := attempts s3 @ sd_attempts d\<rparr>)) (\<lambda>s4.
         ebind (flush (s4\<lparr>agent_decisions := agent_decisions s4 @ sd_decisions d\<rparr>)) (\<lambda>s5.
         ebind (flush (s5\<lparr>audit_pending := audit_pending s5 @ sd_audit_events d\<rparr>)) (\<lambda>s6.
         Inr (d, s6))))))))"

definition seeded :: "(string \<Rightarrow> uuid) \<Rightarrow> int \<Rightarrow> session \<Rightarrow> session" where
  "seeded u5 seed s =
     s\<lparr>customers := customers s @ synthetic_customers u5 seed,
       transactions := transactions s @ synthetic_transactions u5 seed,
       cases := cases s @ synthetic_cases u5 seed, attempts := attempts s @ synthetic_attempts u5 seed,
       agent_decisions := agent_decisions s @ synthetic_decisions u5 seed,
       audit_rows := audit_rows s @ synthetic_audit_events u5 seed\<rparr>"

lemmas dataset_defs =
  build_synthetic_dataset_def synthetic_customers_def synthetic_transactions_def synthetic_cases_def
  synthetic_attempts_def synthetic_decisions_def synthetic_audit_events_def synthetic_uuid_def Let_def

text \<open>A seeding that returns inserted exactly the dataset, with every constraint kept.\<close>

lemma seed_Inr:
  assumes "seed_synthetic_data u5 seed s = Inr (d, t)" and "session_ok s"
  shows "d = build_synthetic_dataset u5 seed" "t = seeded u5 seed s" "session_ok t"
proof -
  show "session_ok t"
    using assms(1) by (auto simp: seed_synthetic_data_def Let_def err_simps dest: flush_session_ok)
  show "d = build_synthetic_dataset u5 seed"
    using assms(1) by (auto simp: seed_synthetic_data_def Let_def err_simps)
  show "t = seeded u5 seed s"
    using assms
    by (auto simp: seed_synthetic_data_def Let_def err_simps flush_ok flushed_def seeded_def
        build_synthetic_dataset_def session_ok_def)
qed

text \<open>The ids and keys of a dataset are apart, for every injective \<open>uuid5\<close>.\<close>

lemma dataset_apart:
  assumes "inj u5"
  shows "customer_unique (synthetic_customers u5 seed)" "transaction_unique (synthetic_transactions u5 seed)"
    "case_unique (synthetic_cases u5 seed)" "attempt_unique (synthetic_attempts u5 seed)"
    "audit_unique (synthetic_audit_events u5 seed)"
  using assms
  by (simp_all add: dataset_defs customer_unique_def transaction_unique_def case_unique_def attempt_unique_def
      audit_unique_def inj_eq)

text \<open>What must be free: ids and keys of the five groups with constraints.\<close>

definition room_for :: "(string \<Rightarrow> uuid) \<Rightarrow> int \<Rightarrow> session \<Rightarrow> bool" where
  "room_for u5 seed s \<longleftrightarrow>
     customer_unique (customers s @ synthetic_customers u5 seed)
     \<and> transaction_unique (transactions s @ synthetic_transactions u5 seed)
     \<and> case_unique (cases s @ synthetic_cases u5 seed)
     \<and> attempt_unique (attempts s @ synthetic_attempts u5 seed)
     \<and> audit_unique (audit_rows s @ synthetic_audit_events u5 seed)"

lemma seed_returns_iff:
  assumes ok: "session_ok s"
  shows "is_ok (seed_synthetic_data u5 seed s) \<longleftrightarrow> room_for u5 seed s"
proof
  assume "is_ok (seed_synthetic_data u5 seed s)"
  then obtain d t where "seed_synthetic_data u5 seed s = Inr (d, t)" by auto
  from seed_Inr(2,3) [OF this ok] show "room_for u5 seed s"
    by (simp add: session_ok_iff seeded_def room_for_def)
next
  assume room: "room_for u5 seed s"
  let ?d = "build_synthetic_dataset u5 seed"
  let ?s1 = "s\<lparr>customers := customers s @ sd_customers ?d\<rparr>"
  let ?s2 = "?s1\<lparr>transactions := transactions s @ sd_transactions ?d\<rparr>"
  let ?s3 = "?s2\<lparr>cases := cases s @ sd_cases ?d\<rparr>"
  let ?s4 = "?s3\<lparr>attempts := attempts s @ sd_attempts ?d\<rparr>"
  let ?s5 = "?s4\<lparr>agent_decisions := agent_decisions s @ sd_decisions ?d\<rparr>"
  let ?s6 = "?s5\<lparr>audit_pending := sd_audit_events ?d\<rparr>"
  have idle: "audit_pending s = []" "transition_pending s = []" using ok by (simp_all add: session_ok_def)
  have same: "flushed x = x" if "audit_pending x = []" "transition_pending x = []" for x
    using that by (simp add: flushed_def)
  have free: "violated ?s1 = None" "violated ?s2 = None" "violated ?s3 = None" "violated ?s4 = None"
    "violated ?s5 = None" "violated ?s6 = None"
    using room ok by (simp_all add: violated_None_iff session_ok_iff room_for_def build_synthetic_dataset_def)
  have "seed_synthetic_data u5 seed s = Inr (?d, flushed ?s6)"
    using free idle by (simp add: seed_synthetic_data_def Let_def flush_def same)
  then show "is_ok (seed_synthetic_data u5 seed s)" by simp
qed

lemma unseeded_ok: "session_ok empty_session"
  unfolding session_ok_def by code_simp

lemma seeding_an_empty_database:
  assumes "inj u5"
  shows "seed_synthetic_data u5 seed empty_session = Inr (build_synthetic_dataset u5 seed, seeded u5 seed empty_session)"
proof -
  have "room_for u5 seed empty_session"
    using dataset_apart [OF assms, of seed] by (simp add: room_for_def empty_session_def)
  then have "is_ok (seed_synthetic_data u5 seed empty_session)"
    using seed_returns_iff [OF unseeded_ok] by blast
  then obtain d t where run: "seed_synthetic_data u5 seed empty_session = Inr (d, t)" by auto
  with seed_Inr(1,2) [OF run unseeded_ok] show ?thesis by simp
qed

text \<open>
  The external references carry no seed: a database that was seeded once cannot be seeded again, with
  whatever seed and whatever was done to it in between, as long as one synthetic customer is left.
\<close>

lemma seeding_happens_once:
  assumes "session_ok s" and "c \<in> set (customers s)" and "cu_provider c = ''synthetic''"
    and "cu_external_id c = ''synthetic_customer_001''"
  shows "seed_synthetic_data u5 seed s = Inl (IntegrityError ''uq_customer_provider_external'')"
proof -
  let ?k = "(''synthetic'', ''synthetic_customer_001'')"
  have "?k \<in> customer_key ` set (customers s)"
    using assms(2-4) by (intro image_eqI [of _ _ c]) simp_all
  moreover have "?k \<in> customer_key ` set (synthetic_customers u5 seed)"
    by (simp add: synthetic_customers_def Let_def)
  ultimately have "\<not> customer_unique (customers s @ synthetic_customers u5 seed)"
    unfolding customer_unique_def map_append distinct_append set_map by blast
  then have "violated (s\<lparr>customers := customers s @ synthetic_customers u5 seed\<rparr>)
      = Some ''uq_customer_provider_external''"
    using assms(1) by (simp add: violated_def session_ok_iff)
  then show ?thesis
    by (simp add: seed_synthetic_data_def Let_def build_synthetic_dataset_def flush_def)
qed

text \<open>
  The seeded cases 002 and 003 have an audit row of number 1 and no recorded move, so the transition
  service, which numbers both by the recorded moves, can move neither; case 001 has no rows and can move.
\<close>

lemma seeded_case_cannot_transition:
  assumes "inj u5" and "c \<in> set (tl (synthetic_cases u5 seed))" and "st \<in> set (allowed_transitions (rc_state c))"
  shows "transition_case c st reason actor aid corr corr_id now (seeded u5 seed empty_session)
           = Inl (IntegrityError ''uq_audit_case_sequence'')"
proof -
  let ?t = "seeded u5 seed empty_session"
  have ok: "session_ok ?t"
    by (rule seed_Inr(3) [OF seeding_an_empty_database [OF assms(1)] unseeded_ok])
  have f: "find_case ?t (rc_id c) = Some c"
    using assms(1,2) by (auto simp: find_case_def seeded_def empty_session_def dataset_defs inj_eq)
  have n: "next_transition_seq ?t (rc_id c) = 1"
    by (simp add: next_transition_seq_def transition_seqs_def seeded_def empty_session_def)
  have "1 \<in> set (audit_seqs ?t (rc_id c))"
    using assms(1,2) by (auto simp: audit_seqs_def seeded_def empty_session_def dataset_defs inj_eq)
  with transition_succeeds_iff [OF ok f, of st reason actor aid corr corr_id now] n assms(3)
  show ?thesis by simp
qed

end
