(* ===== verification/System_Routes.thy ===== *)
theory System_Routes
  imports Http
begin

text \<open>
  What surrounds the domain: the settings (\<open>core/config.py\<close>), the health probes
  (\<open>api/routes/health.py\<close>), the websocket feed (\<open>api/routes/realtime.py\<close>) and the access log of
  \<open>RequestObservabilityMiddleware\<close> (\<open>core/observability.py\<close>). Whether the database answers
  \<open>SELECT 1\<close> is an argument. Clock values and message texts of the feed are left out.
\<close>

section \<open>Settings\<close>

datatype environment_name = Development | Test_env | Production

fun environment_value :: "environment_name \<Rightarrow> string" where
  "environment_value Development = ''development''"
| "environment_value Test_env = ''test''"
| "environment_value Production = ''production''"

record settings =
  se_app_name :: string
  se_app_phase :: string
  se_environment :: environment_name
  se_log_level :: string
  se_server_host :: string
  se_server_port :: int
  se_frontend_origin :: string
  se_cors_origins :: "string list"
  se_database_url :: string
  se_db_pool_size :: int
  se_db_max_overflow :: int
  se_db_echo :: bool
  se_jwt_secret_key :: string
  se_jwt_algorithm :: string
  se_jwt_access_minutes :: int
  se_jwt_refresh_days :: int
  se_password_min_length :: int
  se_payment_provider :: string
  se_payment_provider_mode :: string
  se_payment_key_id :: string
  se_payment_key_secret :: string
  se_payment_webhook_secret :: string
  se_payment_base_url :: string
  se_payment_timeout :: rat
  se_payment_simulate :: bool
  se_llm_provider :: "string option"
  se_llm_api_key :: "string option"
  se_payment_api_key :: "string option"
  se_razorpay_webhook_secret :: string

definition default_settings :: settings where
  "default_settings =
     \<lparr>se_app_name = ''RevenueRescue AI'', se_app_phase = ''foundation'', se_environment = Development,
      se_log_level = ''INFO'', se_server_host = ''0.0.0.0'', se_server_port = 8000,
      se_frontend_origin = ''http://localhost:5173'',
      se_cors_origins = [''http://localhost:5173'', ''http://localhost:3000''],
      se_database_url = ''sqlite:///./revenuerescue.db'', se_db_pool_size = 5, se_db_max_overflow = 10,
      se_db_echo = False,
      se_jwt_secret_key = ''dev-secret-key-change-in-production-only-super-safe-key'',
      se_jwt_algorithm = ''HS256'', se_jwt_access_minutes = 60, se_jwt_refresh_days = 7,
      se_password_min_length = 8, se_payment_provider = ''razorpay'', se_payment_provider_mode = ''sandbox'',
      se_payment_key_id = ''rzp_test_placeholder_key_id'', se_payment_key_secret = ''rzp_test_placeholder_secret'',
      se_payment_webhook_secret = ''rzp_test_webhook_secret'',
      se_payment_base_url = ''https://api.razorpay.com/v1'', se_payment_timeout = 10, se_payment_simulate = True,
      se_llm_provider = None, se_llm_api_key = None, se_payment_api_key = None,
      se_razorpay_webhook_secret = []\<rparr>"

definition is_development :: "settings \<Rightarrow> bool" where
  "is_development s = (se_environment s = Development)"

definition is_production :: "settings \<Rightarrow> bool" where
  "is_production s = (se_environment s = Production)"

definition is_test :: "settings \<Rightarrow> bool" where
  "is_test s = (se_environment s = Test_env)"

text \<open>\<open>url.split("://")[0] if "://" in url else "unknown"\<close>.\<close>

fun before_scheme_mark :: "string \<Rightarrow> string option" where
  "before_scheme_mark [] = None"
| "before_scheme_mark (c # cs) =
     (if take 3 (c # cs) = ''://'' then Some []
      else map_option (\<lambda>r. c # r) (before_scheme_mark cs))"

definition database_dialect :: "string \<Rightarrow> string" where
  "database_dialect url = (case before_scheme_mark url of Some d \<Rightarrow> d | None \<Rightarrow> ''unknown'')"

definition safe_dict :: "settings \<Rightarrow> payload" where
  "safe_dict s =
     [(''app_name'', JStr (se_app_name s)), (''app_phase'', JStr (se_app_phase s)),
      (''environment'', JStr (environment_value (se_environment s))), (''log_level'', JStr (se_log_level s)),
      (''server_host'', JStr (se_server_host s)), (''server_port'', JInt (se_server_port s)),
      (''frontend_origin'', JStr (se_frontend_origin s)),
      (''database_dialect'', JStr (database_dialect (se_database_url s))),
      (''db_pool_size'', JInt (se_db_pool_size s))]"

lemma database_dialect_scheme:
  assumes "CHR '':'' \<notin> set d"
  shows "database_dialect (d @ ''://'' @ rest) = d"
proof -
  have "before_scheme_mark (d @ ''://'' @ rest) = Some d" using assms
    by (induction d) auto
  then show ?thesis by (simp add: database_dialect_def)
qed

text \<open>
  The printable settings do not depend on any credential: two settings that agree on the printed plain
  fields and on the scheme of the database address print the same, whatever their keys, secrets and the
  rest of the address (user, password, host) are.
\<close>

lemma safe_dict_hides_credentials:
  assumes "CHR '':'' \<notin> set d" and "se_database_url s = d @ ''://'' @ r"
  shows "safe_dict s = safe_dict (s\<lparr>se_database_url := d @ ''://'' @ r', se_jwt_secret_key := a,
           se_payment_key_id := b, se_payment_key_secret := c, se_payment_webhook_secret := e,
           se_llm_api_key := f, se_payment_api_key := g, se_razorpay_webhook_secret := h\<rparr>)"
  using assms(2) database_dialect_scheme [OF assms(1), of r] database_dialect_scheme [OF assms(1), of r']
  by (simp add: safe_dict_def)

section \<open>Health probes\<close>

record health_answer =
  ha_status_code :: int
  ha_status :: string
  ha_service :: string
  ha_phase :: string

record readiness_answer = health_answer +
  ra_environment :: string
  ra_dependencies :: "(string \<times> string) list"

record database_answer =
  da_status_code :: int
  da_status :: string
  da_database :: string
  da_dialect :: string

definition health_check :: "settings \<Rightarrow> health_answer" where
  "health_check s =
     \<lparr>ha_status_code = 200, ha_status = ''healthy'', ha_service = se_app_name s, ha_phase = se_app_phase s\<rparr>"

definition readiness_check :: "settings \<Rightarrow> readiness_answer" where
  "readiness_check s =
     \<lparr>ha_status_code = 200, ha_status = ''ready'', ha_service = se_app_name s, ha_phase = se_app_phase s,
      ra_environment = environment_value (se_environment s),
      ra_dependencies =
        [(''configuration'', ''ready''), (''database'', ''deferred''), (''providers'', ''not_configured'')]\<rparr>"

definition check_database_connection :: "bool \<Rightarrow> bool \<times> string" where
  "check_database_connection probe = (if probe then (True, ''connected'') else (False, ''unavailable''))"

definition database_health_check :: "bool \<Rightarrow> settings \<Rightarrow> database_answer" where
  "database_health_check probe s =
     (let (healthy, msg) = check_database_connection probe; d = database_dialect (se_database_url s)
      in if \<not> healthy then \<lparr>da_status_code = 503, da_status = ''unhealthy'', da_database = msg, da_dialect = d\<rparr>
         else \<lparr>da_status_code = 200, da_status = ''healthy'', da_database = ''connected'', da_dialect = d\<rparr>)"

text \<open>Readiness is answered without a look at the database; only the database probe tells.\<close>

lemma database_health_status:
  "da_status_code (database_health_check probe s) = (if probe then 200 else 503)
   \<and> da_database (database_health_check probe s) = snd (check_database_connection probe)"
  by (simp add: database_health_check_def check_database_connection_def)

section \<open>The websocket feed\<close>

definition demo_events :: "payload list" where
  "demo_events =
     [[(''type'', JStr ''recovery.payment_recovered''), (''title'', JStr ''Payment recovered''),
       (''message'', JStr ''Northstar Labs paid $12,480''), (''account'', JStr ''Northstar Labs''),
       (''amount'', JInt 12480), (''severity'', JStr ''success''), (''icon'', JStr ''check'')],
      [(''type'', JStr ''recovery.risk_signal''), (''title'', JStr ''New risk signal detected''),
       (''message'', JStr ''Asteria Living needs review before the next retry''),
       (''account'', JStr ''Asteria Living''), (''amount'', JInt 8920), (''severity'', JStr ''warning''),
       (''icon'', JStr ''activity'')],
      [(''type'', JStr ''recovery.playbook_completed''), (''title'', JStr ''Playbook completed''),
       (''message'', JStr ''Card expiry recovery completed for 42 accounts''),
       (''account'', JStr ''Card expiry recovery''), (''amount'', JInt 18640), (''severity'', JStr ''info''),
       (''icon'', JStr ''spark'')]]"

definition ready_event :: payload where
  "ready_event =
     [(''type'', JStr ''connection.ready''), (''title'', JStr ''Live recovery feed connected''),
      (''message'', JStr ''You are receiving workspace events in real time.''), (''severity'', JStr ''system''),
      (''icon'', JStr ''activity'')]"

definition pong_event :: payload where
  "pong_event =
     [(''type'', JStr ''connection.pong''), (''title'', JStr ''Live feed healthy''),
      (''message'', JStr ''Heartbeat acknowledged.''), (''severity'', JStr ''system''),
      (''icon'', JStr ''shield'')]"

text \<open>The envelope; \<open>stamp\<close> and \<open>clock\<close> are the printed clock values.\<close>

definition event_payload :: "string \<Rightarrow> string \<Rightarrow> payload \<Rightarrow> payload" where
  "event_payload stamp clock e =
     [(''version'', JInt 1), (''id'', JStr (''demo-'' @ stamp)), (''occurred_at'', JStr clock), (''event'', JObj e)]"

text \<open>What \<open>wait_for(receive_text(), timeout=10)\<close> ends with.\<close>

datatype client_step = Receives string | Times_out | Disconnects

fun feed :: "nat \<Rightarrow> client_step list \<Rightarrow> payload list" where
  "feed n [] = []"
| "feed n (Disconnects # xs) = []"
| "feed n (Receives m # xs) = (if m = ''ping'' then [pong_event] else []) @ feed n xs"
| "feed n (Times_out # xs) = (demo_events ! (n mod 3)) # feed (Suc n) xs"

definition recovery_events :: "client_step list \<Rightarrow> payload list" where
  "recovery_events xs = ready_event # feed 0 xs"

definition connected_steps :: "client_step list \<Rightarrow> client_step list" where
  "connected_steps xs = takeWhile (\<lambda>x. x \<noteq> Disconnects) xs"

text \<open>Heartbeats do not move the cycle of demo events, whatever they are interleaved with.\<close>

lemma demo_event_not_pong: "demo_events ! (n mod 3) \<noteq> pong_event"
proof -
  have "n mod 3 < 3" by simp
  then have "n mod 3 \<in> {0, 1, 2}" by auto
  then show ?thesis by (auto simp: demo_events_def pong_event_def)
qed

lemma feed_cycles:
  "filter (\<lambda>e. e \<noteq> pong_event) (feed n xs)
     = map (\<lambda>k. demo_events ! (k mod 3)) [n ..< n + length (filter ((=) Times_out) (connected_steps xs))]"
proof (induction n xs rule: feed.induct)
  case (4 n xs)
  then show ?case
    by (simp add: connected_steps_def demo_event_not_pong upt_conv_Cons del: upt_Suc)
qed (auto simp: connected_steps_def)

lemma feed_answers_pings:
  "length (filter ((=) pong_event) (feed n xs)) = length (filter ((=) (Receives ''ping'')) (connected_steps xs))"
proof (induction n xs rule: feed.induct)
  case (4 n xs)
  then show ?case using demo_event_not_pong [of n] by (simp add: connected_steps_def)
qed (auto simp: connected_steps_def)

section \<open>The access log\<close>

text \<open>ASGI messages: the start of a response with its status and headers, and any other.\<close>

datatype asgi_message = Response_start int headers | Other_message

record access_event =
  ac_request_id :: string
  ac_status_code :: int

fun send_with_status :: "string \<Rightarrow> int \<times> asgi_message list \<Rightarrow> asgi_message \<Rightarrow> int \<times> asgi_message list" where
  "send_with_status rid (st, sent) (Response_start x hs) =
     (x, sent @ [Response_start x (hs @ [(''x-request-id'', rid)])])"
| "send_with_status rid (st, sent) Other_message = (st, sent @ [Other_message])"

text \<open>
  \<open>ms\<close> is what the application sent until it returned or raised; the log line is written in both
  cases. Only HTTP requests are observed.
\<close>

definition observe ::
  "bool \<Rightarrow> headers \<Rightarrow> uuid \<Rightarrow> asgi_message list \<Rightarrow> asgi_message list \<times> access_event option" where
  "observe http hs fresh ms =
     (if \<not> http then (ms, None)
      else (let rid = observed_request_id hs fresh; (st, sent) = foldl (send_with_status rid) (500, []) ms
            in (sent, Some \<lparr>ac_request_id = rid, ac_status_code = st\<rparr>)))"

fun started_with :: "asgi_message \<Rightarrow> int option" where
  "started_with (Response_start x hs) = Some x"
| "started_with Other_message = None"

fun stamped :: "string \<Rightarrow> asgi_message \<Rightarrow> asgi_message" where
  "stamped rid (Response_start x hs) = Response_start x (hs @ [(''x-request-id'', rid)])"
| "stamped rid Other_message = Other_message"

lemma send_fold:
  "foldl (send_with_status rid) (st, sent) ms
     = (last (st # map the (filter (\<lambda>x. x \<noteq> None) (map started_with ms))), sent @ map (stamped rid) ms)"
proof (induction ms arbitrary: st sent)
  case (Cons m ms)
  then show ?case by (cases m) auto
qed simp

text \<open>
  Every request is logged with the status of the response it started, 500 when it raised before one, and
  under the identifier that each started response carries.
\<close>

lemma access_log_tells_the_response:
  "observe True hs fresh ms
     = (map (stamped (observed_request_id hs fresh)) ms,
        Some \<lparr>ac_request_id = observed_request_id hs fresh,
              ac_status_code = last (500 # map the (filter (\<lambda>x. x \<noteq> None) (map started_with ms)))\<rparr>)"
  by (simp add: observe_def send_fold Let_def)

end
