(* ===== verification/Responses.thy ===== *)
theory Responses
  imports Api_Access
begin

text \<open>
  What a client is shown: the response DTOs of \<open>backend/app/schemas\<close> and the mappers of
  \<open>backend/app/mappers\<close> that fill them from rows, with the mappers that build rows from DTOs
  for attempts, decisions and evidence. \<open>rendered\<close> is the body of an answer as it leaves the API.

  \<open>created_at\<close> and \<open>updated_at\<close> are no fields of the rows and left out, as are the free-text columns
  the rows omit. The theorem says that stored password hashes do not show: two states that differ only
  in hashes of the same passwords answer every sequence of requests alike.
\<close>

section \<open>Users\<close>

record user_response =
  ur_id :: uuid
  ur_email :: string
  ur_name :: string
  ur_role :: user_role
  ur_status :: user_status
  ur_last_login_at :: "pydatetime option"

definition user_to_response :: "user \<Rightarrow> user_response" where
  "user_to_response u =
     \<lparr>ur_id = us_id u, ur_email = us_email u, ur_name = us_name u, ur_role = us_role u,
      ur_status = us_status u, ur_last_login_at = us_last_login_at u\<rparr>"

definition user_to_entity :: "uuid \<Rightarrow> string \<Rightarrow> string \<Rightarrow> string \<Rightarrow> user_role \<Rightarrow> user_status \<Rightarrow> user" where
  "user_to_entity i email name password_hash role status =
     \<lparr>us_id = i, us_email = normalize_email email, us_name = py_strip name, us_password_hash = password_hash,
      us_role = role, us_status = status, us_last_login_at = None\<rparr>"

record token_answer =
  ta_access_token :: string
  ta_refresh_token :: string
  ta_token_type :: string
  ta_expires_in :: int
  ta_user :: user_response

definition token_answer_of :: "token_response \<Rightarrow> token_answer" where
  "token_answer_of t =
     \<lparr>ta_access_token = tr_access_token t, ta_refresh_token = tr_refresh_token t, ta_token_type = ''Bearer'',
      ta_expires_in = tr_expires_in t, ta_user = user_to_response (tr_user t)\<rparr>"

section \<open>Customers and transactions\<close>

text \<open>\<open>dict(m) if m else {}\<close>\<close>

definition dict_or_empty :: "payload \<Rightarrow> payload" where
  "dict_or_empty m = (if m = [] then [] else m)"

lemma dict_or_empty_same [simp]: "dict_or_empty m = m"
  by (simp add: dict_or_empty_def)

record customer_response =
  cur_id :: uuid
  cur_provider :: string
  cur_external_id :: string
  cur_email :: "string option"
  cur_display_name :: "string option"
  cur_status :: customer_status
  cur_metadata :: payload

definition customer_to_response :: "customer \<Rightarrow> customer_response" where
  "customer_to_response c =
     \<lparr>cur_id = cu_id c, cur_provider = cu_provider c, cur_external_id = cu_external_id c,
      cur_email = cu_email c, cur_display_name = cu_display_name c, cur_status = cu_status c,
      cur_metadata = dict_or_empty (cu_metadata c)\<rparr>"

record customer_summary =
  cus_id :: uuid
  cus_external_id :: string
  cus_display_name :: "string option"
  cus_status :: customer_status

definition customer_to_summary :: "customer \<Rightarrow> customer_summary" where
  "customer_to_summary c =
     \<lparr>cus_id = cu_id c, cus_external_id = cu_external_id c, cus_display_name = cu_display_name c,
      cus_status = cu_status c\<rparr>"

record transaction_response =
  txr_id :: uuid
  txr_customer_id :: uuid
  txr_provider :: string
  txr_external_id :: string
  txr_amount_minor :: int
  txr_currency :: string
  txr_status :: transaction_status
  txr_failure_code :: "string option"
  txr_failure_message :: "string option"
  txr_occurred_at :: pydatetime
  txr_metadata :: payload

definition transaction_to_response :: "transaction \<Rightarrow> transaction_response" where
  "transaction_to_response t =
     \<lparr>txr_id = tx_id t, txr_customer_id = tx_customer_id t, txr_provider = tx_provider t,
      txr_external_id = tx_external_id t, txr_amount_minor = tx_amount_minor t, txr_currency = tx_currency t,
      txr_status = tx_status t, txr_failure_code = tx_failure_code t,
      txr_failure_message = tx_failure_message t, txr_occurred_at = tx_occurred_at t,
      txr_metadata = dict_or_empty (tx_metadata t)\<rparr>"

record transaction_summary =
  txs_id :: uuid
  txs_external_id :: string
  txs_amount_minor :: int
  txs_currency :: string
  txs_status :: transaction_status
  txs_failure_code :: "string option"
  txs_occurred_at :: pydatetime

definition transaction_to_summary :: "transaction \<Rightarrow> transaction_summary" where
  "transaction_to_summary t =
     \<lparr>txs_id = tx_id t, txs_external_id = tx_external_id t, txs_amount_minor = tx_amount_minor t,
      txs_currency = tx_currency t, txs_status = tx_status t, txs_failure_code = tx_failure_code t,
      txs_occurred_at = tx_occurred_at t\<rparr>"

section \<open>Cases\<close>

record case_response =
  cr_id :: uuid
  cr_case_key :: string
  cr_customer_id :: uuid
  cr_trigger_transaction_id :: uuid
  cr_state :: case_state
  cr_priority :: int
  cr_version :: int
  cr_opened_at :: pydatetime
  cr_last_state_changed_at :: pydatetime
  cr_closed_at :: "pydatetime option"
  cr_metadata :: payload

definition case_to_response :: "recovery_case \<Rightarrow> case_response" where
  "case_to_response c =
     \<lparr>cr_id = rc_id c, cr_case_key = rc_case_key c, cr_customer_id = rc_customer_id c,
      cr_trigger_transaction_id = rc_trigger_transaction_id c, cr_state = rc_state c,
      cr_priority = rc_priority c, cr_version = rc_version c, cr_opened_at = rc_opened_at c,
      cr_last_state_changed_at = rc_last_state_changed_at c, cr_closed_at = rc_closed_at c,
      cr_metadata = dict_or_empty (rc_metadata c)\<rparr>"

record case_summary =
  csm_id :: uuid
  csm_case_key :: string
  csm_customer_id :: uuid
  csm_trigger_transaction_id :: uuid
  csm_state :: case_state
  csm_priority :: int
  csm_opened_at :: pydatetime
  csm_last_state_changed_at :: pydatetime
  csm_closed_at :: "pydatetime option"

definition case_to_summary :: "recovery_case \<Rightarrow> case_summary" where
  "case_to_summary c =
     \<lparr>csm_id = rc_id c, csm_case_key = rc_case_key c, csm_customer_id = rc_customer_id c,
      csm_trigger_transaction_id = rc_trigger_transaction_id c, csm_state = rc_state c,
      csm_priority = rc_priority c, csm_opened_at = rc_opened_at c,
      csm_last_state_changed_at = rc_last_state_changed_at c, csm_closed_at = rc_closed_at c\<rparr>"

text \<open>
  The items of the case queue. Their transaction summary is built without a failure code, which
  therefore takes its default None.
\<close>

record summary_item =
  si_id :: uuid
  si_case_key :: string
  si_customer :: "customer_summary option"
  si_transaction :: "transaction_summary option"
  si_state :: case_state
  si_priority :: int
  si_attempts_count :: int
  si_opened_at :: pydatetime
  si_last_state_changed_at :: pydatetime

definition summary_item_of :: "case_item \<Rightarrow> summary_item" where
  "summary_item_of i =
     (let c = ci_case i in
      \<lparr>si_id = rc_id c, si_case_key = rc_case_key c,
       si_customer = map_option customer_to_summary (ci_customer i),
       si_transaction = map_option (\<lambda>t. (transaction_to_summary t)\<lparr>txs_failure_code := None\<rparr>) (ci_transaction i),
       si_state = rc_state c, si_priority = rc_priority c, si_attempts_count = ci_attempts_count i,
       si_opened_at = rc_opened_at c, si_last_state_changed_at = rc_last_state_changed_at c\<rparr>)"

record case_detail =
  cd_id :: uuid
  cd_case_key :: string
  cd_customer :: "customer_response option"
  cd_transaction :: "transaction_response option"
  cd_state :: case_state
  cd_priority :: int
  cd_version :: int
  cd_opened_at :: pydatetime
  cd_last_state_changed_at :: pydatetime
  cd_closed_at :: "pydatetime option"
  cd_metadata :: payload
  cd_attempts_count :: int

definition to_detail_response :: "case_item \<Rightarrow> case_detail" where
  "to_detail_response i =
     (let c = ci_case i in
      \<lparr>cd_id = rc_id c, cd_case_key = rc_case_key c,
       cd_customer = map_option customer_to_response (ci_customer i),
       cd_transaction = map_option transaction_to_response (ci_transaction i),
       cd_state = rc_state c, cd_priority = rc_priority c, cd_version = rc_version c,
       cd_opened_at = rc_opened_at c, cd_last_state_changed_at = rc_last_state_changed_at c,
       cd_closed_at = rc_closed_at c, cd_metadata = dict_or_empty (rc_metadata c),
       cd_attempts_count = ci_attempts_count i\<rparr>)"

section \<open>Attempts, decisions and evidence\<close>

record attempt_create =
  atc_case_id :: uuid
  atc_action_type :: action_type
  atc_idempotency_key :: string
  atc_status :: attempt_status
  atc_metadata :: payload

definition attempt_to_entity :: "uuid \<Rightarrow> attempt_create \<Rightarrow> int \<Rightarrow> recovery_attempt" where
  "attempt_to_entity i dto n =
     \<lparr>at_id = i, at_case_id = atc_case_id dto, at_sequence_number = n, at_status = atc_status dto,
      at_action_type = atc_action_type dto, at_started_at = None, at_finished_at = None, at_outcome = None,
      at_provider_reference = None, at_idempotency_key = atc_idempotency_key dto,
      at_metadata = atc_metadata dto\<rparr>"

record attempt_response =
  atr_id :: uuid
  atr_case_id :: uuid
  atr_sequence_number :: int
  atr_status :: attempt_status
  atr_action_type :: action_type
  atr_started_at :: "pydatetime option"
  atr_finished_at :: "pydatetime option"
  atr_outcome :: "string option"
  atr_provider_reference :: "string option"
  atr_idempotency_key :: string
  atr_metadata :: payload

definition attempt_to_response :: "recovery_attempt \<Rightarrow> attempt_response" where
  "attempt_to_response a =
     \<lparr>atr_id = at_id a, atr_case_id = at_case_id a, atr_sequence_number = at_sequence_number a,
      atr_status = at_status a, atr_action_type = at_action_type a, atr_started_at = at_started_at a,
      atr_finished_at = at_finished_at a, atr_outcome = at_outcome a,
      atr_provider_reference = at_provider_reference a, atr_idempotency_key = at_idempotency_key a,
      atr_metadata = dict_or_empty (at_metadata a)\<rparr>"

record attempt_summary =
  ats_id :: uuid
  ats_sequence_number :: int
  ats_action_type :: action_type
  ats_status :: attempt_status
  ats_provider_reference :: "string option"
  ats_started_at :: "pydatetime option"
  ats_finished_at :: "pydatetime option"

definition attempt_to_summary :: "recovery_attempt \<Rightarrow> attempt_summary" where
  "attempt_to_summary a =
     \<lparr>ats_id = at_id a, ats_sequence_number = at_sequence_number a, ats_action_type = at_action_type a,
      ats_status = at_status a, ats_provider_reference = at_provider_reference a,
      ats_started_at = at_started_at a, ats_finished_at = at_finished_at a\<rparr>"

record decision_create =
  dc_case_id :: uuid
  dc_attempt_id :: "uuid option"
  dc_action_type :: action_type
  dc_reason_code :: string
  dc_confidence :: "rat option"
  dc_validation_status :: validation_status

definition decision_to_entity :: "uuid \<Rightarrow> decision_create \<Rightarrow> int \<Rightarrow> agent_decision" where
  "decision_to_entity i dto version =
     \<lparr>ad_id = i, ad_case_id = dc_case_id dto, ad_attempt_id = dc_attempt_id dto, ad_decision_version = version,
      ad_action_type = dc_action_type dto, ad_reason_code = dc_reason_code dto,
      ad_confidence = dc_confidence dto, ad_validation_status = dc_validation_status dto\<rparr>"

record decision_response =
  dr_id :: uuid
  dr_case_id :: uuid
  dr_attempt_id :: "uuid option"
  dr_decision_version :: int
  dr_action_type :: action_type
  dr_reason_code :: string
  dr_confidence :: "rat option"
  dr_validation_status :: validation_status

definition decision_to_response :: "agent_decision \<Rightarrow> decision_response" where
  "decision_to_response d =
     \<lparr>dr_id = ad_id d, dr_case_id = ad_case_id d, dr_attempt_id = ad_attempt_id d,
      dr_decision_version = ad_decision_version d, dr_action_type = ad_action_type d,
      dr_reason_code = ad_reason_code d, dr_confidence = ad_confidence d,
      dr_validation_status = ad_validation_status d\<rparr>"

record evidence_create =
  evc_intervention_id :: string
  evc_provider_event_id :: string
  evc_failed_transaction_id :: string
  evc_successful_transaction_id :: string
  evc_amount_minor :: int
  evc_currency :: string
  evc_verified_at :: "pydatetime option"
  evc_attribution_window_hours :: int
  evc_attribution_reason :: string
  evc_attributable :: bool
  evc_evidence :: payload

definition evidence_to_entity :: "uuid \<Rightarrow> pydatetime \<Rightarrow> evidence_create \<Rightarrow> evidence" where
  "evidence_to_entity i now dto =
     \<lparr>evd_id = i, evd_intervention_id = evc_intervention_id dto,
      evd_provider_event_id = evc_provider_event_id dto,
      evd_failed_transaction_id = evc_failed_transaction_id dto,
      evd_successful_transaction_id = evc_successful_transaction_id dto,
      evd_amount_minor = evc_amount_minor dto, evd_currency = evc_currency dto,
      evd_verified_at = (case evc_verified_at dto of None \<Rightarrow> now | Some d \<Rightarrow> d),
      evd_attribution_window_hours = evc_attribution_window_hours dto,
      evd_attribution_reason = evc_attribution_reason dto, evd_attributable = evc_attributable dto,
      evd_payload = evc_evidence dto\<rparr>"

record evidence_response =
  evr_id :: uuid
  evr_intervention_id :: string
  evr_provider_event_id :: string
  evr_failed_transaction_id :: string
  evr_successful_transaction_id :: string
  evr_amount_minor :: int
  evr_currency :: string
  evr_verified_at :: pydatetime
  evr_attribution_window_hours :: int
  evr_attribution_reason :: string
  evr_attributable :: bool
  evr_evidence :: payload

definition evidence_to_response :: "evidence \<Rightarrow> evidence_response" where
  "evidence_to_response e =
     \<lparr>evr_id = evd_id e, evr_intervention_id = evd_intervention_id e,
      evr_provider_event_id = evd_provider_event_id e, evr_failed_transaction_id = evd_failed_transaction_id e,
      evr_successful_transaction_id = evd_successful_transaction_id e, evr_amount_minor = evd_amount_minor e,
      evr_currency = evd_currency e, evr_verified_at = evd_verified_at e,
      evr_attribution_window_hours = evd_attribution_window_hours e,
      evr_attribution_reason = evd_attribution_reason e, evr_attributable = evd_attributable e,
      evr_evidence = dict_or_empty (evd_payload e)\<rparr>"

section \<open>The body of an answer\<close>

datatype response_body =
    R_user user_response
  | R_users "user_response page_response"
  | R_tokens token_answer
  | R_case case_response
  | R_detail case_detail
  | R_cases "summary_item page_response"
  | R_copied answer_body

definition page_of :: "('a \<Rightarrow> 'b) \<Rightarrow> 'a page_response \<Rightarrow> 'b page_response" where
  "page_of f p =
     \<lparr>pg_items = map f (pg_items p), pg_total = pg_total p, pg_page = pg_page p, pg_size = pg_size p,
      pg_pages = pg_pages p, pg_has_more = pg_has_more p\<rparr>"

fun rendered :: "answer_body \<Rightarrow> response_body" where
  "rendered (B_user u) = R_user (user_to_response u)"
| "rendered (B_users p) = R_users (page_of user_to_response p)"
| "rendered (B_tokens t) = R_tokens (token_answer_of t)"
| "rendered (B_case c) = R_case (case_to_response c)"
| "rendered (B_case_item i) = R_detail (to_detail_response i)"
| "rendered (B_cases p) = R_cases (page_of summary_item_of p)"
| "rendered b = R_copied b"

definition shown :: "route_error + int \<times> answer_body \<Rightarrow> route_error + int \<times> response_body" where
  "shown r = (case r of Inl e \<Rightarrow> Inl e | Inr (code, b) \<Rightarrow> Inr (code, rendered b))"

section \<open>Stored hashes do not show\<close>

definition unhashed :: "user \<Rightarrow> user" where
  "unhashed u = u\<lparr>us_password_hash := []\<rparr>"

text \<open>What \<open>verify_password\<close> answers under the password library \<open>chk\<close>.\<close>

definition accepts :: "(string \<Rightarrow> string \<Rightarrow> bool) \<Rightarrow> string \<Rightarrow> string \<Rightarrow> bool" where
  "accepts chk hashed pw = (pw \<noteq> [] \<and> hashed \<noteq> [] \<and> chk pw hashed)"

lemma verify_password_accepts: "verify_password env pw hashed = accepts (au_check env) hashed pw"
  by (auto simp: verify_password_def accepts_def)

text \<open>Two accounts that are the same but for hashes that accept the same passwords.\<close>

definition alike :: "(string \<Rightarrow> string \<Rightarrow> bool) \<Rightarrow> user \<Rightarrow> user \<Rightarrow> bool" where
  "alike chk u v \<longleftrightarrow>
     unhashed u = unhashed v \<and> accepts chk (us_password_hash u) = accepts chk (us_password_hash v)"

definition alike_states :: "(string \<Rightarrow> string \<Rightarrow> bool) \<Rightarrow> api_state \<Rightarrow> api_state \<Rightarrow> bool" where
  "alike_states chk a b \<longleftrightarrow>
     st_session a = st_session b \<and> list_all2 (alike chk) (st_users a) (st_users b)"

text \<open>A request's environment: the password library, and creation times that are not read off the hash.\<close>

definition fair_env :: "(string \<Rightarrow> string \<Rightarrow> bool) \<Rightarrow> 'g api_env \<Rightarrow> bool" where
  "fair_env chk env \<longleftrightarrow> au_check (xv_auth env) = chk \<and> (\<forall>u. xv_created env (unhashed u) = xv_created env u)"

lemma alike_refl [simp]: "alike chk u u"
  by (simp add: alike_def)

lemma alike_fields:
  assumes "alike chk u v"
  shows "us_id u = us_id v" "us_email u = us_email v" "us_name u = us_name v" "us_role u = us_role v"
    "us_status u = us_status v" "us_last_login_at u = us_last_login_at v"
    "accepts chk (us_password_hash u) = accepts chk (us_password_hash v)" "unhashed u = unhashed v"
  using assms by (cases u; cases v; simp add: alike_def unhashed_def)+

lemma alike_update:
  assumes "alike chk u v"
  shows "alike chk (u\<lparr>us_name := n\<rparr>) (v\<lparr>us_name := n\<rparr>)" "alike chk (u\<lparr>us_role := r\<rparr>) (v\<lparr>us_role := r\<rparr>)"
    "alike chk (u\<lparr>us_status := s\<rparr>) (v\<lparr>us_status := s\<rparr>)"
    "alike chk (u\<lparr>us_last_login_at := l\<rparr>) (v\<lparr>us_last_login_at := l\<rparr>)"
    "alike chk (u\<lparr>us_password_hash := h\<rparr>) (v\<lparr>us_password_hash := h\<rparr>)"
  using assms by (cases u; cases v; simp add: alike_def unhashed_def)+

lemma alike_response: "alike chk u v \<Longrightarrow> user_to_response u = user_to_response v"
  by (simp add: user_to_response_def alike_fields)

lemma alike_find:
  "list_all2 (alike chk) us vs \<Longrightarrow> rel_option (alike chk) (find_user us i) (find_user vs i)"
  unfolding find_user_def by (induction rule: list_all2_induct) (auto simp: alike_fields)

lemma alike_find_email:
  "list_all2 (alike chk) us vs \<Longrightarrow> rel_option (alike chk) (find_user_by_email us e) (find_user_by_email vs e)"
  unfolding find_user_by_email_def by (induction rule: list_all2_induct) (auto simp: alike_fields)

lemma alike_maps:
  assumes "list_all2 (alike chk) us vs"
  shows "map us_id us = map us_id vs" "map us_email us = map us_email vs" "map unhashed us = map unhashed vs"
  using assms by (induction rule: list_all2_induct) (auto simp: alike_fields)

lemma alike_put:
  "list_all2 (alike chk) us vs \<Longrightarrow> alike chk u v \<Longrightarrow> list_all2 (alike chk) (put_user u us) (put_user v vs)"
  unfolding put_user_def upd_by_def
  by (auto simp: list_all2_map1 list_all2_map2 alike_fields elim!: list_all2_mono)

lemma alike_commit:
  "list_all2 (alike chk) us vs \<Longrightarrow> rel_sum (=) (list_all2 (alike chk)) (commit_users us) (commit_users vs)"
  using alike_maps [of chk us vs] by (simp add: commit_users_def users_ok_def)

text \<open>Two runs of a fallible step agree: they raise the same error or answer related values.\<close>

abbreviation agree :: "('a \<Rightarrow> 'b \<Rightarrow> bool) \<Rightarrow> 'e + 'a \<Rightarrow> 'e + 'b \<Rightarrow> bool" where
  "agree R \<equiv> rel_sum (=) R"

lemma agree_ebind:
  "agree R m n \<Longrightarrow> (\<And>x y. R x y \<Longrightarrow> agree S (f x) (g y)) \<Longrightarrow> agree S (ebind m f) (ebind n g)"
  by (cases m; cases n) auto

lemma agree_same: "(\<And>x. R x x) \<Longrightarrow> agree R m m"
  by (cases m) auto

text \<open>The account services, on tables that are alike.\<close>

definition alike_tables :: "(string \<Rightarrow> string \<Rightarrow> bool) \<Rightarrow> ('a \<Rightarrow> 'a \<Rightarrow> bool) \<Rightarrow> 'a \<times> user_store \<Rightarrow> 'a \<times> user_store \<Rightarrow> bool" where
  "alike_tables chk A = rel_prod A (list_all2 (alike chk))"

lemma alike_tables_iff [simp]:
  "alike_tables chk A (x, us) (y, vs) \<longleftrightarrow> A x y \<and> list_all2 (alike chk) us vs"
  by (simp add: alike_tables_def)

lemma agree_modify:
  assumes us: "list_all2 (alike chk) us vs"
    and f: "\<And>u v. alike chk u v \<Longrightarrow> agree (alike chk) (f u) (g v)"
  shows "agree (alike_tables chk (alike chk)) (modify_user i f us) (modify_user i g vs)"
proof -
  have "rel_option (alike chk) (find_user us i) (find_user vs i)" using us by (rule alike_find)
  then show ?thesis
  proof cases
    case None
    then show ?thesis by (simp add: modify_user_def)
  next
    case (Some u v)
    have "agree (alike_tables chk (alike chk)) (ebind (f u) (\<lambda>u'. ebind (commit_users (put_user u' us)) (\<lambda>us'. Inr (u', us'))))
        (ebind (g v) (\<lambda>v'. ebind (commit_users (put_user v' vs)) (\<lambda>vs'. Inr (v', vs'))))"
      by (intro agree_ebind [OF f [OF Some(3)]] agree_ebind [OF alike_commit [OF alike_put [OF us]]]) simp_all
    then show ?thesis using Some(1,2) by (simp add: modify_user_def)
  qed
qed

lemma agree_register:
  assumes "list_all2 (alike chk) us vs"
  shows "agree (alike_tables chk (alike chk)) (register env email pw name r us) (register env email pw name r vs)"
proof -
  have "agree (list_all2 (alike chk)) (commit_users (us @ [u])) (commit_users (vs @ [u]))" for u
    using assms by (intro alike_commit) (simp add: list_all2_appendI)
  then have step: "agree (alike_tables chk (alike chk))
      (ebind (hash_password env pw) (\<lambda>h. ebind (commit_users (us @ [F h])) (\<lambda>us'. Inr (F h, us'))))
      (ebind (hash_password env pw) (\<lambda>h. ebind (commit_users (vs @ [F h])) (\<lambda>us'. Inr (F h, us'))))" for F
    by (intro agree_ebind [OF agree_same [of "(=)"]] agree_ebind [of "list_all2 (alike chk)"]) auto
  show ?thesis using alike_find_email [OF assms, of "normalize_email email"]
    by cases (simp_all add: register_def Let_def step)
qed

definition alike_tokens :: "(string \<Rightarrow> string \<Rightarrow> bool) \<Rightarrow> token_response \<Rightarrow> token_response \<Rightarrow> bool" where
  "alike_tokens chk s t \<longleftrightarrow> token_answer_of s = token_answer_of t"

lemma token_response_alike: "alike chk u v \<Longrightarrow> alike_tokens chk (token_response_of env u) (token_response_of env v)"
  by (simp add: alike_tokens_def token_answer_of_def token_response_of_def alike_response alike_fields
      create_access_token_def access_claims_def)

lemma agree_login:
  assumes us: "list_all2 (alike chk) us vs" and chk: "au_check env = chk"
  shows "agree (alike_tables chk (alike_tokens chk)) (login env email pw us) (login env email pw vs)"
  using alike_find_email [OF us, of "normalize_email email"]
proof cases
  case None
  then show ?thesis by (simp add: login_def)
next
  case (Some u v)
  let ?l = "Some (au_now env)"
  have l: "alike chk (u\<lparr>us_last_login_at := ?l\<rparr>) (v\<lparr>us_last_login_at := ?l\<rparr>)"
    using Some(3) by (rule alike_update)
  have "agree (alike_tables chk (alike_tokens chk))
     (ebind (commit_users (put_user (u\<lparr>us_last_login_at := ?l\<rparr>) us)) (\<lambda>us'. Inr (token_response_of env (u\<lparr>us_last_login_at := ?l\<rparr>), us')))
     (ebind (commit_users (put_user (v\<lparr>us_last_login_at := ?l\<rparr>) vs)) (\<lambda>us'. Inr (token_response_of env (v\<lparr>us_last_login_at := ?l\<rparr>), us')))"
    by (intro agree_ebind [OF alike_commit [OF alike_put [OF us l]]]) (simp add: token_response_alike [OF l])
  then show ?thesis using Some alike_fields [OF Some(3)]
    by (simp add: login_def verify_password_accepts chk Let_def)
qed

lemma agree_refresh:
  assumes us: "list_all2 (alike chk) us vs"
  shows "agree (alike_tokens chk) (refresh_token env token us) (refresh_token env token vs)"
proof -
  have "agree (alike_tokens chk)
      (case find_user us i of None \<Rightarrow> Inl e | Some u \<Rightarrow> if us_status u \<noteq> User_ACTIVE then Inl e else Inr (token_response_of env u))
      (case find_user vs i of None \<Rightarrow> Inl e | Some u \<Rightarrow> if us_status u \<noteq> User_ACTIVE then Inl e else Inr (token_response_of env u))" for i e
    using alike_find [OF us, of i] by cases (auto simp: alike_fields token_response_alike)
  then show ?thesis unfolding refresh_token_def
    by (auto intro!: agree_ebind [OF agree_same [of "(=)"]])
qed

lemma agree_guard:
  assumes us: "list_all2 (alike chk) us vs"
  shows "agree (rel_option (alike chk)) (check_guard env g token us) (check_guard env g token vs)"
proof -
  have active: "agree (alike chk) (active_account us i) (active_account vs i)" for i
    using alike_find [OF us, of i] unfolding active_account_def by cases (auto simp: alike_fields)
  have current: "agree (alike chk) (get_current_user e token us) (get_current_user e token vs)" for e
    unfolding get_current_user_def by (auto intro!: agree_ebind [OF agree_same [of "(=)"]] active)
  have roles: "agree (alike chk) (require_roles rs e token us) (require_roles rs e token vs)" for rs e
    unfolding require_roles_def by (rule agree_ebind [OF current]) (simp add: alike_fields)
  show ?thesis unfolding check_guard_def
    by (cases g) (auto intro!: agree_ebind [OF current] agree_ebind [OF roles])
qed

text \<open>The listing of users.\<close>

lemma response_unhashed: "user_to_response (unhashed u) = user_to_response u"
  by (simp add: user_to_response_def unhashed_def)

lemma listed_users_unhashed:
  assumes "\<forall>u. created (unhashed u) = created u"
  shows "page_of user_to_response (list_users created r s us page per)
       = page_of user_to_response (list_users created r s (map unhashed us) page per)"
proof -
  have m: "user_matches r s (unhashed u) = user_matches r s u" for u
    by (simp add: user_matches_def unhashed_def)
  have f: "filter (user_matches r s) (map unhashed us) = map unhashed (filter (user_matches r s) us)"
    by (simp add: filter_map o_def m)
  have "newest_first created (map unhashed xs) = map unhashed (newest_first created xs)" for xs
    unfolding newest_first_def using assms by (intro sort_key_map) simp
  then show ?thesis
    by (simp add: page_of_def list_users_def paginated_def Let_def count_users_def repo_list_users_def f
        limit_offset_def take_map drop_map o_def response_unhashed)
qed

lemma listed_users_alike:
  assumes "list_all2 (alike chk) us vs" and "\<forall>u. created (unhashed u) = created u"
  shows "page_of user_to_response (list_users created r s us page per)
       = page_of user_to_response (list_users created r s vs page per)"
  using listed_users_unhashed [OF assms(2)] alike_maps(3) [OF assms(1)] by metis

text \<open>Outcomes of a request that show the same and leave states that are alike.\<close>

definition alike_outcomes :: "(string \<Rightarrow> string \<Rightarrow> bool) \<Rightarrow> outcome \<Rightarrow> outcome \<Rightarrow> bool" where
  "alike_outcomes chk a b \<longleftrightarrow> shown (fst a) = shown (fst b) \<and> alike_states chk (snd a) (snd b)"

lemma reading_alike:
  assumes "alike_states chk st st'" and "agree R r r'" and "\<And>x y. R x y \<Longrightarrow> rendered (body x) = rendered (body y)"
  shows "alike_outcomes chk (reading body st r) (reading body st' r')"
  using assms by (cases r; cases r') (auto simp: alike_outcomes_def reading_def shown_def)

lemma reading_same:
  "alike_states chk st st' \<Longrightarrow> alike_outcomes chk (reading body st r) (reading body st' r)"
  by (rule reading_alike [where R = "(=)"]) (auto intro: agree_same)

lemma writing_session_same:
  assumes "alike_states chk st st'"
  shows "alike_outcomes chk (writing_session code body st r) (writing_session code body st' r)"
  using assms by (cases r) (auto simp: alike_outcomes_def writing_session_def shown_def alike_states_def)

lemma writing_users_alike:
  assumes "alike_states chk st st'" and "agree (alike_tables chk A) r r'"
    and "\<And>x y. A x y \<Longrightarrow> rendered (body x) = rendered (body y)"
  shows "alike_outcomes chk (writing_users code body st r) (writing_users code body st' r')"
  using assms(2)
proof cases
  case (1 e e')
  then show ?thesis using assms(1) by (simp add: alike_outcomes_def writing_users_def)
next
  case (2 x y)
  then show ?thesis using assms(1,3)
    by (cases x; cases y) (auto simp: alike_outcomes_def writing_users_def shown_def alike_states_def)
qed

lemma agree_raised: "agree R r r' \<Longrightarrow> agree R (raised r) (raised r')"
  by (cases r; cases r') (auto simp: raised_def)

lemma handle_alike:
  assumes env: "fair_env chk env" and st: "alike_states chk st st'" and u: "rel_option (alike chk) u v"
  shows "alike_outcomes chk (handle env u rq st) (handle env v rq st')"
proof -
  have s: "st_session st' = st_session st" and us: "list_all2 (alike chk) (st_users st) (st_users st')"
    using st by (auto simp: alike_states_def)
  have chk: "au_check (xv_auth env) = chk" and created: "\<forall>u. xv_created env (unhashed u) = xv_created env u"
    using env by (auto simp: fair_env_def)
  have caller: "alike chk (the u) (the v)" using u by cases auto
  have i: "us_id (the v) = us_id (the u)" using alike_fields(1) [OF caller] by simp
  have user: "rendered (B_user x) = rendered (B_user y)" if "alike chk x y" for x y
    using alike_response [OF that] by simp
  have tokens: "rendered (B_tokens x) = rendered (B_tokens y)" if "alike_tokens chk x y" for x y
    using that by (simp add: alike_tokens_def)
  note modify = writing_users_alike [OF st agree_modify [OF us] user]
  show ?thesis
  proof (cases rq)
    case (Register email pw name)
    then show ?thesis
      by (simp add: register_user_def) (rule writing_users_alike [OF st agree_register [OF us] user])
  next
    case (Login email pw)
    then show ?thesis
      by (simp add: login_user_def) (rule writing_users_alike [OF st agree_login [OF us chk] tokens])
  next
    case (Refresh token)
    then show ?thesis
      by (simp add: refresh_access_token_def) (rule reading_alike [OF st agree_raised [OF agree_refresh [OF us]] tokens])
  next
    case My_profile
    then show ?thesis
      by (simp add: get_my_profile_def) (rule reading_alike [OF st, where R = "alike chk"], simp add: caller, rule user)
  next
    case (Update_profile name)
    then show ?thesis
      by (simp add: update_my_profile_def i update_profile_def) (rule modify, simp_all add: alike_update)
  next
    case (Change_password cur new)
    have "agree (alike_tables chk (alike chk)) (change_password (xv_auth env) (us_id (the u)) cur new (st_users st))
        (change_password (xv_auth env) (us_id (the u)) cur new (st_users st'))"
      unfolding change_password_def
      by (rule agree_modify [OF us])
        (auto simp: verify_password_accepts chk alike_fields intro!: agree_ebind [OF agree_same [of "(=)"]] alike_update)
    then show ?thesis using Change_password
      by (simp add: change_password_route_def i) (rule writing_users_alike [OF st], assumption, simp)
  next
    case (List_users r s page per)
    then show ?thesis using listed_users_alike [OF us created]
      by (simp add: list_users_route_def reading_def alike_outcomes_def shown_def st)
  next
    case (Update_role i r)
    then show ?thesis
      by (simp add: update_user_role_route_def update_user_role_def) (rule modify, simp_all add: alike_update)
  next
    case (Update_status i s)
    then show ?thesis
      by (simp add: update_user_status_route_def update_user_status_def) (rule modify, simp_all add: alike_update)
  next
    case (Reconcile_pending n)
    then show ?thesis using st
      by (simp add: reconcile_pending_cases_route_def s alike_outcomes_def alike_states_def split_beta)
  next
    case (Get_workflow w)
    then show ?thesis by (simp add: get_workflow_def s reading_same [OF st] cong: option.case_cong)
  qed (simp_all add: route_defs s i reading_same [OF st] writing_session_same [OF st])
qed

lemma serve_alike:
  assumes env: "fair_env chk env" and st: "alike_states chk st st'"
  shows "alike_outcomes chk (serve env token rq st) (serve env token rq st')"
proof -
  have us: "list_all2 (alike chk) (st_users st) (st_users st')" using st by (simp add: alike_states_def)
  show ?thesis
    using agree_guard [OF us, of env "guard_of rq" token] handle_alike [OF env st]
    unfolding serve_def by cases (auto simp: alike_outcomes_def shown_def st)
qed

section \<open>What a client sees of a sequence of requests\<close>

fun transcript ::
  "'g api_call list \<Rightarrow> api_state \<Rightarrow> (route_error + int \<times> response_body) list" where
  "transcript [] st = []"
| "transcript ((env, token, rq) # rs) st =
     (let (r, st') = serve env token rq st in shown r # transcript rs st')"

text \<open>C9: two states that are the same but for stored hashes that accept the
  same passwords answer every sequence of requests, account requests included, with the same
  statuses and bodies: of a stored hash a client learns only which passwords it accepts.
\<close>

theorem password_hashes_do_not_show:
  assumes "\<forall>(env, token, rq) \<in> set rs. fair_env chk env" and "alike_states chk st st'"
  shows "transcript rs st = transcript rs st'"
  using assms
proof (induction rs arbitrary: st st')
  case (Cons q rs)
  obtain env token rq where q: "q = (env, token, rq)" by (cases q) auto
  have "alike_outcomes chk (serve env token rq st) (serve env token rq st')"
    using Cons.prems by (intro serve_alike) (auto simp: q)
  then show ?case using Cons.IH [of "snd (serve env token rq st)" "snd (serve env token rq st')"] Cons.prems(1)
    by (simp add: q split_beta alike_outcomes_def)
qed simp

text \<open>Two accounts with salted hashes of one password.\<close>

definition demo_salted :: "string \<Rightarrow> api_state" where
  "demo_salted salt =
     \<lparr>st_session = empty_session, st_users = [demo_user\<lparr>us_password_hash := salt @ ''pass-word''\<rparr>]\<rparr>"

definition demo_salt_check :: "string \<Rightarrow> string \<Rightarrow> bool" where
  "demo_salt_check pw hashed = (drop 1 hashed = pw)"

definition demo_salted_env :: "submissions api_env" where
  "demo_salted_env = demo_api_env\<lparr>xv_auth := demo_auth\<lparr>au_check := demo_salt_check\<rparr>\<rparr>"

lemma demo_salted_alike: "alike_states demo_salt_check (demo_salted ''1'') (demo_salted ''2'')"
  by (simp add: alike_states_def demo_salted_def alike_def unhashed_def accepts_def demo_salt_check_def fun_eq_iff)

theorem password_hashes_do_not_show_witness:
  "demo_salted ''1'' \<noteq> demo_salted ''2''
    \<and> (let calls = [(demo_salted_env, None, Login (us_email demo_user) ''pass-word''),
                   (demo_salted_env, Some ''tok-A'', My_profile)]
       in transcript calls (demo_salted ''1'') = transcript calls (demo_salted ''2''))"
proof -
  have "fair_env demo_salt_check demo_salted_env"
    by (simp add: fair_env_def demo_salted_env_def demo_api_env_def)
  moreover have "demo_salted ''1'' \<noteq> demo_salted ''2''" by (simp add: demo_salted_def demo_user_def)
  ultimately show ?thesis
    unfolding Let_def by (intro conjI password_hashes_do_not_show [OF _ demo_salted_alike]) simp_all
qed

end
