(* ===== verification/Explanations.thy ===== *)
theory Explanations
  imports Intelligence Strategy_Catalog
begin

text \<open>
  \<open>ExplanationService\<close> (services/intelligence/explanation_service.py): the sentences that come with a
  recommendation, and the texts of the risk signals (services/intelligence/risk_assessor.py).

  An amount is printed as \<open>{amount_minor / 100:,.2f}\<close>: the quotient is a float, which prints the exact
  cents for amounts below \<open>2 ^ 53\<close> in absolute value; \<open>money\<close> is that text. The lemmas read a printed
  amount back.
\<close>

section \<open>Amounts\<close>

definition digits3 :: "nat \<Rightarrow> string" where
  "digits3 n = [digit_char (n div 100 mod 10), digit_char (n div 10 mod 10), digit_char (n mod 10)]"

text \<open>Thousands separators.\<close>

fun grouped :: "nat \<Rightarrow> string" where
  "grouped n = (if n < 1000 then str_of_nat n else grouped (n div 1000) @ [CHR '',''] @ digits3 (n mod 1000))"

declare grouped.simps [simp del]

definition money :: "int \<Rightarrow> string" where
  "money a =
     (let n = nat \<bar>a\<bar> in
      (if a < 0 then ''-'' else []) @ grouped (n div 100) @ ''.''
        @ [digit_char (n div 10 mod 10), digit_char (n mod 10)])"

section \<open>Risk signals\<close>

fun signal_text :: "risk_signal \<Rightarrow> string" where
  "signal_text Fraud_signal = ''provider_security_or_fraud_signal''"
| "signal_text (Repeated_attempts n) = ''repeated_failed_attempts ('' @ str_of_int n @ '' prior)''"
| "signal_text (Elevated_attempts n) = ''elevated_attempt_count ('' @ str_of_int n @ '' prior)''"
| "signal_text Unusual_velocity = ''unusual_retry_velocity_detected''"
| "signal_text Customer_restricted = ''customer_account_restricted_or_suspended''"
| "signal_text (Major_exposure a) = ''major_financial_exposure ('' @ money a @ '')''"
| "signal_text (High_value a) = ''high_value_transaction ('' @ money a @ '')''"
| "signal_text Subscriber_churn = ''recurring_subscriber_churn_risk''"
| "signal_text No_signal = ''no_elevated_risk_signals''"

section \<open>Explanations\<close>

record explanation =
  xp_summary :: string
  xp_supporting_evidence :: "string list"
  xp_limitations :: "string list"

text \<open>The optional entries of \<open>case_context\<close> that the service reads.\<close>

record case_context =
  cx_amount_minor :: "int option"
  cx_currency :: "string option"
  cx_prior_attempts :: "int option"

definition first_given :: "'a option \<Rightarrow> 'a option \<Rightarrow> 'a option" where
  "first_given a b = (case a of None \<Rightarrow> b | Some x \<Rightarrow> Some x)"

definition get_default :: "'a option \<Rightarrow> 'a \<Rightarrow> 'a" where
  "get_default a x = (case a of None \<Rightarrow> x | Some y \<Rightarrow> y)"

definition evidence_lines :: "failure_analysis \<Rightarrow> risk_assessment \<Rightarrow> int \<Rightarrow> string \<Rightarrow> int \<Rightarrow> string list" where
  "evidence_lines failure risk amount currency prior =
     [''Recorded failure category: '' @ py_upper (fa_category failure)]
     @ (if truthy (fa_raw_code failure) then [''Gateway decline code: '' @ or_empty (fa_raw_code failure)] else [])
     @ [''Financial exposure: '' @ currency @ '' '' @ money amount,
        ''Assessed risk band: '' @ py_upper (risk_band_value (ra_band risk)) @ '' (score: ''
          @ str_of_int (ra_score risk) @ ''/100)'',
        ''Prior recovery attempts: '' @ str_of_int prior]
     @ map (\<lambda>r. ''Risk signal: '' @ signal_text r) (ra_reasons risk)"

fun summary_line :: "recovery_strategy \<Rightarrow> failure_analysis \<Rightarrow> risk_assessment \<Rightarrow> int \<Rightarrow> string \<Rightarrow> string" where
  "summary_line RETRY_LATER failure risk amount currency =
     ''Recommended automated retry because the failure category ('' @ fa_category failure
       @ '') represents a transient issue with elevated recovery probability upon scheduled re-attempt.''"
| "summary_line UPDATE_PAYMENT_METHOD failure risk amount currency =
     ''Recommended customer payment method update because the recorded failure ('' @ fa_category failure
       @ '') indicates that the payment instrument cannot be charged in its current state.''"
| "summary_line CUSTOMER_REMINDER failure risk amount currency =
     ''Recommended gentle customer reminder to prompt checkout completion or invoice settlement for outstanding ''
       @ currency @ '' '' @ money amount @ ''.''"
| "summary_line SUPPORT_ESCALATION failure risk amount currency =
     ''Recommended high-touch concierge support escalation due to elevated exposure ('' @ currency @ '' ''
       @ money amount @ '') and repeated transaction friction.''"
| "summary_line MANUAL_REVIEW failure risk amount currency =
     ''Flagged for manual operator review due to high risk band ('' @ py_upper (risk_band_value (ra_band risk))
       @ '') or diagnostic uncertainty ('' @ fa_category failure @ '').''"
| "summary_line NO_ACTION failure risk amount currency =
     ''Halted automated recovery workflow as case is terminal, restricted, or ineligible.''"

definition limitation_lines :: "string \<Rightarrow> string list" where
  "limitation_lines model_version =
     [''Strategy ranked using expected-value estimation model ('' @ model_version @ '').'',
      ''This recommendation does NOT authorize or execute payments; policy validation is required.'']"

definition generate_explanation ::
  "recovery_strategy \<Rightarrow> failure_analysis option \<Rightarrow> risk_assessment option \<Rightarrow> int \<Rightarrow> string \<Rightarrow> int \<Rightarrow> string
    \<Rightarrow> failure_analysis option \<Rightarrow> risk_assessment option \<Rightarrow> case_context option \<Rightarrow> py_error + explanation" where
  "generate_explanation strategy failure risk amount currency prior model_version failure_result risk_result context =
     (case first_given failure failure_result of
        None \<Rightarrow> Inl (ValueError ''FailureAnalysisResult is required'')
      | Some f \<Rightarrow>
          (case first_given risk risk_result of
             None \<Rightarrow> Inl (ValueError ''RiskAssessmentResult is required'')
           | Some r \<Rightarrow>
               (let a = (case context of None \<Rightarrow> amount | Some c \<Rightarrow> get_default (cx_amount_minor c) amount);
                    cur = (case context of None \<Rightarrow> currency | Some c \<Rightarrow> get_default (cx_currency c) currency);
                    n = (case context of None \<Rightarrow> prior | Some c \<Rightarrow> get_default (cx_prior_attempts c) prior)
                in Inr \<lparr>xp_summary = summary_line strategy f r a cur,
                        xp_supporting_evidence = evidence_lines f r a cur n,
                        xp_limitations = limitation_lines model_version\<rparr>)))"

text \<open>The call of the orchestrator, for a case and for a preview.\<close>

definition explain_recommendation ::
  "recovery_strategy \<Rightarrow> failure_analysis \<Rightarrow> risk_assessment \<Rightarrow> int \<Rightarrow> string \<Rightarrow> int \<Rightarrow> py_error + explanation" where
  "explain_recommendation strategy failure risk amount currency prior =
     generate_explanation strategy None None 0 ''USD'' 0 ''deterministic-logistic-v1'' (Some failure) (Some risk)
       (Some \<lparr>cx_amount_minor = Some amount, cx_currency = Some currency, cx_prior_attempts = Some prior\<rparr>)"

section \<open>Reading a printed amount\<close>

fun digit_step :: "nat \<Rightarrow> char \<Rightarrow> nat" where
  "digit_step n c = (let k = (of_char c :: nat) in if 48 \<le> k \<and> k < 58 then n * 10 + (k - 48) else n)"

declare digit_step.simps [simp del]

definition money_digits :: "string \<Rightarrow> nat" where
  "money_digits s = foldl digit_step 0 s"

definition read_money :: "string \<Rightarrow> int" where
  "read_money s =
     (case s of c # cs \<Rightarrow> (if c = CHR ''-'' then - int (money_digits cs) else int (money_digits s)) | [] \<Rightarrow> 0)"

lemma digit_step_digit [simp]: "d < 10 \<Longrightarrow> digit_step n (digit_char d) = n * 10 + d"
  using of_char_digit [of d] by (simp add: digit_step.simps Let_def)

lemma money_digits_snoc [simp]: "money_digits (s @ [c]) = digit_step (money_digits s) c"
  by (simp add: money_digits_def)

lemma money_digits_str: "money_digits (str_of_nat n) = n"
proof (induction n rule: str_of_nat.induct)
  case (1 n)
  show ?case
  proof (cases "n < 10")
    case True
    then show ?thesis by (simp add: str_of_nat.simps [of n] money_digits_def)
  next
    case False
    then show ?thesis using 1 by (simp add: str_of_nat.simps [of n])
  qed
qed

lemma decimal_places:
  fixes m a b q x y z :: nat
  assumes "b = 10 * a + y" and "m = 10 * b + z" and "x = a"
  shows "((q * 10 + x) * 10 + y) * 10 + z = q * 1000 + m"
  using assms by simp

lemma three_digits:
  assumes "m < (1000::nat)"
  shows "((q * 10 + m div 100 mod 10) * 10 + m div 10 mod 10) * 10 + m mod 10 = q * 1000 + m"
proof -
  have "m div 10 div 10 = m div 100" by (simp add: div_mult2_eq [symmetric])
  then have "m div 10 = 10 * (m div 100) + m div 10 mod 10" using mult_div_mod_eq [of 10 "m div 10"] by simp
  moreover have "m = 10 * (m div 10) + m mod 10" by simp
  moreover have "m div 100 mod 10 = m div 100" using assms by (intro mod_less) (simp add: less_mult_imp_div_less)
  ultimately show ?thesis by (rule decimal_places)
qed

lemma money_digits_grouped: "money_digits (grouped n) = n"
proof (induction n rule: grouped.induct)
  case (1 n)
  show ?case
  proof (cases "n < 1000")
    case True
    then show ?thesis by (simp add: grouped.simps [of n] money_digits_str)
  next
    case False
    have comma: "digit_step m (CHR '','') = m" for m by (simp add: digit_step.simps)
    have "money_digits (grouped n) = ((n div 1000 * 10 + n mod 1000 div 100 mod 10) * 10 + n mod 1000 div 10 mod 10) * 10 + n mod 1000 mod 10"
      using 1 [OF False] False unfolding grouped.simps [of n] digits3_def money_digits_def
      by (simp add: comma)
    also have "\<dots> = n div 1000 * 1000 + n mod 1000" by (rule three_digits) simp
    also have "\<dots> = n" by (rule div_mult_mod_eq)
    finally show ?thesis .
  qed
qed

lemma money_digits_cents:
  "money_digits (grouped (n div 100) @ ''.'' @ [digit_char (n div 10 mod 10), digit_char (n mod 10)]) = n"
proof -
  have dot: "digit_step m (CHR ''.'') = m" for m by (simp add: digit_step.simps)
  have "money_digits (grouped (n div 100) @ ''.'' @ [digit_char (n div 10 mod 10), digit_char (n mod 10)])
      = (n div 100 * 10 + n div 10 mod 10) * 10 + n mod 10"
    using money_digits_grouped [of "n div 100"] by (simp add: money_digits_def dot)
  moreover have "n div 100 * 10 + n div 10 mod 10 = n div 10"
    using div_mult_mod_eq [of "n div 10" 10] by (simp add: div_mult2_eq [symmetric])
  ultimately show ?thesis using div_mult_mod_eq [of n 10] by simp
qed

lemma grouped_starts_digit: "\<exists>c cs. grouped n = c # cs \<and> c \<noteq> CHR ''-''"
proof (induction n rule: grouped.induct)
  case (1 n)
  show ?case
  proof (cases "n < 1000")
    case True
    obtain c cs where c: "str_of_nat n = c # cs" using str_of_nat_not_Nil [of n] by (cases "str_of_nat n") auto
    have "c \<noteq> CHR ''-''" using minus_not_in_str_of_nat [of n] c by auto
    then show ?thesis using True c by (simp add: grouped.simps [of n])
  next
    case False
    then show ?thesis using 1 by (auto simp: grouped.simps [of n])
  qed
qed

lemma read_money: "read_money (money a) = a"
proof -
  let ?n = "nat \<bar>a\<bar>"
  let ?s = "grouped (?n div 100) @ ''.'' @ [digit_char (?n div 10 mod 10), digit_char (?n mod 10)]"
  have v: "money_digits ?s = ?n" by (rule money_digits_cents)
  obtain c cs where c: "?s = c # cs" "c \<noteq> CHR ''-''" using grouped_starts_digit [of "?n div 100"] by auto
  show ?thesis
  proof (cases "a < 0")
    case True
    then have "money a = CHR ''-'' # ?s" by (simp add: money_def Let_def)
    then have "read_money (money a) = - int (money_digits ?s)" by (simp only: read_money_def list.case if_True refl)
    then show ?thesis using v True by simp
  next
    case False
    then have "money a = c # cs" using c(1) by (simp add: money_def Let_def)
    then have "read_money (money a) = int (money_digits ?s)" using c by (simp add: read_money_def)
    then show ?thesis using v False by simp
  qed
qed

text \<open>The text of the evidence up to a prefix.\<close>

definition after :: "string \<Rightarrow> string list \<Rightarrow> string list" where
  "after prefix lines = map (drop (length prefix)) (filter (\<lambda>l. take (length prefix) l = prefix) lines)"

lemma after_append: "after p (xs @ ys) = after p xs @ after p ys"
  by (simp add: after_def)

text \<open>
  The explanation of a recommendation is always produced; it
  cites the failure category and the decline code if there is one, the exposure in a text from
  which the exact amount can be read back, the risk band, the attempts, and every risk signal in
  order; and it always says that it authorizes no payment. Without a failure analysis or a risk
  assessment there is no explanation but a ValueError.
\<close>

theorem explanations_cite_the_case:
  "\<exists>e. explain_recommendation strategy failure risk amount currency prior = Inr e
     \<and> ''Recorded failure category: '' @ py_upper (fa_category failure) \<in> set (xp_supporting_evidence e)
     \<and> (\<exists>text. ''Financial exposure: '' @ currency @ '' '' @ text \<in> set (xp_supporting_evidence e) \<and> read_money text = amount)
     \<and> ''Prior recovery attempts: '' @ str_of_int prior \<in> set (xp_supporting_evidence e)
     \<and> after ''Gateway decline code: '' (xp_supporting_evidence e)
         = (case fa_raw_code failure of None \<Rightarrow> [] | Some c \<Rightarrow> if c = [] then [] else [c])
     \<and> after ''Risk signal: '' (xp_supporting_evidence e) = map signal_text (ra_reasons risk)
     \<and> last (xp_limitations e)
         = ''This recommendation does NOT authorize or execute payments; policy validation is required.''
     \<and> (generate_explanation s f r a cur n m f' r' context \<in> range Inl \<longleftrightarrow> first_given f f' = None \<or> first_given r r' = None)"
proof -
  let ?c = "Some \<lparr>cx_amount_minor = Some amount, cx_currency = Some currency, cx_prior_attempts = Some prior\<rparr>"
  let ?ev = "evidence_lines failure risk amount currency prior"
  have e: "explain_recommendation strategy failure risk amount currency prior
      = Inr \<lparr>xp_summary = summary_line strategy failure risk amount currency, xp_supporting_evidence = ?ev,
             xp_limitations = limitation_lines ''deterministic-logistic-v1''\<rparr>"
    by (simp add: explain_recommendation_def generate_explanation_def first_given_def get_default_def)
  have signals: "after ''Risk signal: '' (map (\<lambda>r. ''Risk signal: '' @ signal_text r) rs) = map signal_text rs" for rs
    by (simp add: after_def o_def)
  have other: "after ''Gateway decline code: '' (map (\<lambda>r. ''Risk signal: '' @ signal_text r) rs) = []" for rs
    by (simp add: after_def)
  have "after ''Gateway decline code: '' ?ev = (case fa_raw_code failure of None \<Rightarrow> [] | Some c \<Rightarrow> if c = [] then [] else [c])"
    by (simp add: evidence_lines_def after_append other) (simp add: after_def or_empty_def split: option.splits)
  moreover have "after ''Risk signal: '' ?ev = map signal_text (ra_reasons risk)"
    by (simp add: evidence_lines_def after_append signals) (simp add: after_def)
  moreover have "\<exists>text. ''Financial exposure: '' @ currency @ '' '' @ text \<in> set ?ev \<and> read_money text = amount"
    by (rule exI [where x = "money amount"]) (simp add: evidence_lines_def read_money)
  moreover have "generate_explanation s f r a cur n m f' r' context \<in> range Inl
      \<longleftrightarrow> first_given f f' = None \<or> first_given r r' = None"
    by (auto simp: generate_explanation_def Let_def split: option.splits)
  ultimately show ?thesis unfolding e by (simp add: evidence_lines_def limitation_lines_def)
qed

end
