(* ===== verification/Sql_Schema.thy ===== *)
theory Sql_Schema
  imports Prelude "HOL-Library.List_Lexorder" "HOL-Library.Product_Lexorder" "HOL-Library.Char_ord"
begin

text \<open>
  The relational database the migrations work on: tables with their columns, keys, constraints,
  indexes and rows, and the schema operations of \<open>alembic.op\<close> that \<open>migrations/versions/\<close> issues.

  The operations are SQL's, with its errors as values. Where SQLite and PostgreSQL differ the
  stricter one is modelled: a referenced table has to exist (PostgreSQL), a referenced table cannot
  be dropped (PostgreSQL), a \<open>NOT NULL\<close> column cannot be added without a constant default (SQLite).

  The lemmas: every operation keeps a database well formed (\<open>run_wf\<close>), and a sequence of
  operations that succeeded is undone by the inverse operations in reverse order (\<open>run_undo\<close>).
\<close>

section \<open>Cells, columns and tables\<close>

datatype cell = Null | Num int | Txt string

text \<open>The order \<open>ORDER BY\<close> sorts by: NULL, then numbers, then text.\<close>

primrec cell_key :: "cell \<Rightarrow> nat \<times> int \<times> string" where
  "cell_key Null = (0, 0, [])"
| "cell_key (Num n) = (1, n, [])"
| "cell_key (Txt s) = (2, 0, s)"

lemma cell_key_inject [simp]: "cell_key a = cell_key b \<longleftrightarrow> a = b"
  by (cases a; cases b) auto

instantiation cell :: linorder
begin

definition less_eq_cell :: "cell \<Rightarrow> cell \<Rightarrow> bool" where
  "a \<le> b \<longleftrightarrow> cell_key a \<le> cell_key b"

definition less_cell :: "cell \<Rightarrow> cell \<Rightarrow> bool" where
  "a < b \<longleftrightarrow> cell_key a < cell_key b"

instance
proof
  fix a b c :: cell
  show "a < b \<longleftrightarrow> a \<le> b \<and> \<not> b \<le> a" unfolding less_eq_cell_def less_cell_def by (rule less_le_not_le)
  show "a \<le> a" unfolding less_eq_cell_def by simp
  show "a \<le> c" if "a \<le> b" "b \<le> c" using that order_trans unfolding less_eq_cell_def by blast
  show "a = b" if "a \<le> b" "b \<le> a"
    using that antisym [of "cell_key a" "cell_key b"] unfolding less_eq_cell_def by simp
  show "a \<le> b \<or> b \<le> a" unfolding less_eq_cell_def by auto
qed

end

type_synonym row = "(string \<times> cell) list"

text \<open>The value of a column in a row.\<close>

definition cell_of :: "row \<Rightarrow> string \<Rightarrow> cell" where
  "cell_of r c = (case map_of r c of None \<Rightarrow> Null | Some v \<Rightarrow> v)"

definition set_cell :: "string \<Rightarrow> cell \<Rightarrow> row \<Rightarrow> row" where
  "set_cell c v r = map (\<lambda>(c', v'). (c', if c' = c then v else v')) r"

definition drop_cell :: "string \<Rightarrow> row \<Rightarrow> row" where
  "drop_cell c r = filter (\<lambda>p. fst p \<noteq> c) r"

datatype col_type =
    Uuid_T
  | String_T nat
  | Json_T
  | DateTime_T bool
  | Integer_T
  | Boolean_T
  | Numeric_T "(nat \<times> nat) option"
  | Enum_T string "string list"

datatype server_default = Constant string | Expression string

record column =
  cl_name :: string
  cl_type :: col_type
  cl_nullable :: bool
  cl_default :: "server_default option"

datatype on_delete = Restrict | Cascade | Set_Null

record foreign_key =
  fk_columns :: "string list"
  fk_table :: string
  fk_ref_columns :: "string list"
  fk_ondelete :: on_delete

record table_def =
  tb_name :: string
  tb_columns :: "column list"
  tb_pk :: "string option \<times> string list"
  tb_uniques :: "(string \<times> string list) list"
  tb_fks :: "foreign_key list"
  tb_checks :: "(string \<times> string) list"
  tb_indexes :: "(string \<times> string list) list"
  tb_rows :: "row list"

type_synonym database = "table_def list"

section \<open>The operations\<close>

text \<open>The arguments of \<open>op.create_table\<close>: \<open>sa.Column\<close> and the \<open>sa.*Constraint\<close> objects.\<close>

datatype table_item =
    Column column
  | Primary_Key "string option" "string list"
  | Unique string "string list"
  | Foreign_Key foreign_key
  | Check string string

datatype operation =
    Create_Table string "table_item list"
  | Drop_Table string
  | Create_Index string string "string list"
  | Drop_Index string string
  | Add_Column string column
  | Drop_Column string string
  | Set_Not_Null string string
  | Create_Unique string string "string list"
  | Drop_Unique string string

datatype schema_error =
    Table_Exists string | No_Table string
  | Column_Exists string | No_Column string | Column_In_Use string
  | Name_Exists string | No_Name string
  | Not_Null_Violated string | Unique_Violated string
  | No_Reference string | Still_Referenced string

fun add_item :: "table_item \<Rightarrow> table_def \<Rightarrow> table_def" where
  "add_item (Column c) t = t\<lparr>tb_columns := tb_columns t @ [c]\<rparr>"
| "add_item (Primary_Key n cs) t = t\<lparr>tb_pk := (n, cs)\<rparr>"
| "add_item (Unique n cs) t = t\<lparr>tb_uniques := tb_uniques t @ [(n, cs)]\<rparr>"
| "add_item (Foreign_Key f) t = t\<lparr>tb_fks := tb_fks t @ [f]\<rparr>"
| "add_item (Check n e) t = t\<lparr>tb_checks := tb_checks t @ [(n, e)]\<rparr>"

definition new_table :: "string \<Rightarrow> table_item list \<Rightarrow> table_def" where
  "new_table n items =
     fold add_item items
       \<lparr>tb_name = n, tb_columns = [], tb_pk = (None, []), tb_uniques = [], tb_fks = [],
        tb_checks = [], tb_indexes = [], tb_rows = []\<rparr>"

definition find_table :: "string \<Rightarrow> database \<Rightarrow> table_def option" where
  "find_table n d = find (\<lambda>t. tb_name t = n) d"

definition table_names :: "database \<Rightarrow> string list" where
  "table_names d = map tb_name d"

definition column_names :: "table_def \<Rightarrow> string list" where
  "column_names t = map cl_name (tb_columns t)"

definition index_names :: "database \<Rightarrow> string list" where
  "index_names d = concat (map (\<lambda>t. map fst (tb_indexes t)) d)"

text \<open>The columns that keys, constraints and indexes of a table mention.\<close>

definition used_columns :: "table_def \<Rightarrow> string list" where
  "used_columns t =
     snd (tb_pk t) @ concat (map snd (tb_uniques t)) @ concat (map fk_columns (tb_fks t))
       @ concat (map snd (tb_indexes t))"

definition update_table :: "string \<Rightarrow> (table_def \<Rightarrow> table_def) \<Rightarrow> database \<Rightarrow> database" where
  "update_table n f d = map (\<lambda>t. if tb_name t = n then f t else t) d"

definition default_cell :: "column \<Rightarrow> cell" where
  "default_cell c = (case cl_default c of Some (Constant s) \<Rightarrow> Txt s | _ \<Rightarrow> Null)"

definition addable :: "column \<Rightarrow> bool" where
  "addable c =
     (case cl_default c of
        None \<Rightarrow> cl_nullable c
      | Some (Constant _) \<Rightarrow> True
      | Some (Expression _) \<Rightarrow> False)"

text \<open>A unique constraint: no two rows agree on the columns, rows with a NULL there exempt.\<close>

definition unique_on :: "string list \<Rightarrow> row list \<Rightarrow> bool" where
  "unique_on cs rows =
     distinct (map (\<lambda>r. map (cell_of r) cs) (filter (\<lambda>r. Null \<notin> cell_of r ` set cs) rows))"

definition with_table :: "string \<Rightarrow> database \<Rightarrow> (table_def \<Rightarrow> schema_error + database) \<Rightarrow> schema_error + database" where
  "with_table n d k = (case find_table n d of None \<Rightarrow> Inl (No_Table n) | Some t \<Rightarrow> k t)"

fun apply_op :: "operation \<Rightarrow> database \<Rightarrow> schema_error + database" where
  "apply_op (Create_Table n items) d =
     (let t = new_table n items in
      if n \<in> set (table_names d) then Inl (Table_Exists n)
      else if \<not> distinct (column_names t) then Inl (Column_Exists n)
      else if \<not> set (used_columns t) \<subseteq> set (column_names t) then Inl (No_Column n)
      else if \<not> fk_table ` set (tb_fks t) \<subseteq> set (table_names d) then Inl (No_Reference n)
      else Inr (d @ [t]))"
| "apply_op (Drop_Table n) d =
     with_table n d (\<lambda>_.
       if \<exists>t \<in> set d. tb_name t \<noteq> n \<and> n \<in> fk_table ` set (tb_fks t) then Inl (Still_Referenced n)
       else Inr (filter (\<lambda>t. tb_name t \<noteq> n) d))"
| "apply_op (Create_Index i n cs) d =
     with_table n d (\<lambda>t.
       if i \<in> set (index_names d) then Inl (Name_Exists i)
       else if \<not> set cs \<subseteq> set (column_names t) then Inl (No_Column n)
       else Inr (update_table n (\<lambda>t. t\<lparr>tb_indexes := tb_indexes t @ [(i, cs)]\<rparr>) d))"
| "apply_op (Drop_Index i n) d =
     with_table n d (\<lambda>t.
       if i \<notin> fst ` set (tb_indexes t) then Inl (No_Name i)
       else Inr (update_table n (\<lambda>t. t\<lparr>tb_indexes := filter (\<lambda>p. fst p \<noteq> i) (tb_indexes t)\<rparr>) d))"
| "apply_op (Add_Column n c) d =
     with_table n d (\<lambda>t.
       if cl_name c \<in> set (column_names t) then Inl (Column_Exists (cl_name c))
       else if \<not> addable c then Inl (Not_Null_Violated (cl_name c))
       else Inr (update_table n (\<lambda>t. t\<lparr>tb_columns := tb_columns t @ [c],
              tb_rows := map (\<lambda>r. r @ [(cl_name c, default_cell c)]) (tb_rows t)\<rparr>) d))"
| "apply_op (Drop_Column n c) d =
     with_table n d (\<lambda>t.
       if c \<notin> set (column_names t) then Inl (No_Column c)
       else if c \<in> set (used_columns t) then Inl (Column_In_Use c)
       else Inr (update_table n (\<lambda>t. t\<lparr>tb_columns := filter (\<lambda>k. cl_name k \<noteq> c) (tb_columns t),
              tb_rows := map (drop_cell c) (tb_rows t)\<rparr>) d))"
| "apply_op (Set_Not_Null n c) d =
     with_table n d (\<lambda>t.
       if c \<notin> set (column_names t) then Inl (No_Column c)
       else if \<exists>r \<in> set (tb_rows t). cell_of r c = Null then Inl (Not_Null_Violated c)
       else Inr (update_table n (\<lambda>t. t\<lparr>tb_columns :=
              map (\<lambda>k. if cl_name k = c then k\<lparr>cl_nullable := False\<rparr> else k) (tb_columns t)\<rparr>) d))"
| "apply_op (Create_Unique n u cs) d =
     with_table n d (\<lambda>t.
       if u \<in> fst ` set (tb_uniques t) then Inl (Name_Exists u)
       else if \<not> set cs \<subseteq> set (column_names t) then Inl (No_Column n)
       else if \<not> unique_on cs (tb_rows t) then Inl (Unique_Violated u)
       else Inr (update_table n (\<lambda>t. t\<lparr>tb_uniques := tb_uniques t @ [(u, cs)]\<rparr>) d))"
| "apply_op (Drop_Unique n u) d =
     with_table n d (\<lambda>t.
       if u \<notin> fst ` set (tb_uniques t) then Inl (No_Name u)
       else Inr (update_table n (\<lambda>t. t\<lparr>tb_uniques := filter (\<lambda>p. fst p \<noteq> u) (tb_uniques t)\<rparr>) d))"

fun run_ops :: "operation list \<Rightarrow> database \<Rightarrow> schema_error + database" where
  "run_ops [] d = Inr d"
| "run_ops (p # ps) d = ebind (apply_op p d) (run_ops ps)"

lemma run_append: "run_ops (ps @ qs) d = ebind (run_ops ps d) (run_ops qs)"
  proof (induction ps arbitrary: d)
  case (Cons p ps)
  then have "run_ops (ps @ qs) = (\<lambda>e. ebind (run_ops ps e) (run_ops qs))" by (intro ext)
  then show ?case by (simp add: ebind_assoc)
qed simp


section \<open>Well-formed databases\<close>

text \<open>
  Table and index names are unique; in each table the columns are distinct, keys, constraints and
  indexes mention existing columns and have distinct names, every row has exactly the columns of
  the table; foreign keys refer to existing tables.
\<close>

definition wf_table :: "table_def \<Rightarrow> bool" where
  "wf_table t \<longleftrightarrow>
     distinct (column_names t) \<and> set (used_columns t) \<subseteq> set (column_names t)
       \<and> (\<forall>r \<in> set (tb_rows t). map fst r = column_names t)"

definition wf_db :: "database \<Rightarrow> bool" where
  "wf_db d \<longleftrightarrow>
     distinct (table_names d) \<and> (\<forall>t \<in> set d. wf_table t)
       \<and> (\<forall>t \<in> set d. fk_table ` set (tb_fks t) \<subseteq> set (table_names d))"

lemma wf_db_Nil [simp]: "wf_db []"
  by (simp add: wf_db_def table_names_def)

lemma find_table_Some:
  assumes "find_table n d = Some t"
  shows "t \<in> set d" "tb_name t = n"
  using assms unfolding find_table_def by (auto simp: find_Some_iff)

lemma find_table_None: "find_table n d = None \<longleftrightarrow> n \<notin> set (table_names d)"
  unfolding find_table_def table_names_def by (auto simp: find_None_iff)

lemma find_table_unique:
  assumes "distinct (table_names d)" and "t \<in> set d"
  shows "find_table (tb_name t) d = Some t"
proof -
  obtain t' where t': "find_table (tb_name t) d = Some t'"
    using assms(2) find_table_None [of "tb_name t" d] unfolding table_names_def
    by (cases "find_table (tb_name t) d") auto
  have "t' = t" using find_table_Some [OF t'] assms
    unfolding table_names_def by (metis distinct_map inj_onD)
  then show ?thesis using t' by simp
qed

lemma with_table_Inr:
  "with_table n d k = Inr d' \<longleftrightarrow> (\<exists>t. find_table n d = Some t \<and> k t = Inr d')"
  unfolding with_table_def by (auto split: option.splits)

lemma update_table_names [simp]: "(\<And>t. tb_name (f t) = tb_name t) \<Longrightarrow> table_names (update_table n f d) = table_names d"
  unfolding update_table_def table_names_def by (induction d) auto

lemma find_update_table:
  assumes "\<And>t. tb_name (f t) = tb_name t" and "find_table n d = Some t"
  shows "find_table n (update_table n f d) = Some (f t)"
  using assms(2) unfolding find_table_def update_table_def
  by (induction d) (auto simp: assms(1) split: if_splits)

lemma find_update_other:
  assumes "\<And>t. tb_name (f t) = tb_name t" and "m \<noteq> n"
  shows "find_table m (update_table n f d) = find_table m d"
  unfolding find_table_def update_table_def using assms by (induction d) auto

text \<open>An update of the one table of a name undone by an update of the same table.\<close>

lemma update_table_undo:
  assumes "distinct (table_names d)" and "find_table n d = Some t" and "g (f t) = t"
    and "\<And>t. tb_name (f t) = tb_name t"
  shows "update_table n g (update_table n f d) = d"
proof -
  have "(if tb_name s = n then g (f s) else s) = s" if s: "s \<in> set d" for s
    using find_table_unique [OF assms(1) s] assms(2,3) by auto
  then have "map (\<lambda>s. if tb_name s = n then g (f s) else s) d = d" by (rule map_idI)
  moreover have "(\<lambda>t. if tb_name t = n then g t else t) \<circ> (\<lambda>t. if tb_name t = n then f t else t)
      = (\<lambda>s. if tb_name s = n then g (f s) else s)"
    by (auto simp: assms(4))
  ultimately show ?thesis unfolding update_table_def by simp
qed

lemma update_table_wf:
  assumes "wf_db d" and "find_table n d = Some t" and "wf_table (f t)"
    and "\<And>t. tb_name (f t) = tb_name t" and "\<And>t. tb_fks (f t) = tb_fks t"
  shows "wf_db (update_table n f d)"
proof -
  have "f s = f t" if "s \<in> set d" "tb_name s = n" for s
    using that assms(1,2) find_table_unique [of d s] unfolding wf_db_def by auto
  then have "\<forall>s \<in> set (update_table n f d). wf_table s"
    using assms(1,3) unfolding update_table_def wf_db_def by auto
  moreover have "\<forall>s \<in> set (update_table n f d). fk_table ` set (tb_fks s) \<subseteq> set (table_names d)"
  proof
    fix s assume "s \<in> set (update_table n f d)"
    then obtain s' where "s' \<in> set d" "tb_fks s = tb_fks s'"
      using assms(5) unfolding update_table_def by auto
    then show "fk_table ` set (tb_fks s) \<subseteq> set (table_names d)"
      using assms(1) unfolding wf_db_def by simp
  qed
  ultimately show ?thesis using assms(1,4) unfolding wf_db_def by simp
qed

lemma new_table_name [simp]: "tb_name (new_table n items) = n"
proof -
  have "tb_name (fold add_item items t) = tb_name t" for t
  proof (induction items arbitrary: t)
    case (Cons i items)
    then show ?case by (cases i) auto
  qed simp
  then show ?thesis unfolding new_table_def by simp
qed

lemma new_table_rows [simp]: "tb_rows (new_table n items) = []"
proof -
  have "tb_rows (fold add_item items t) = tb_rows t" for t
  proof (induction items arbitrary: t)
    case (Cons i items)
    then show ?case by (cases i) auto
  qed simp
  then show ?thesis unfolding new_table_def by simp
qed

lemma map_fst_drop_cell: "map fst (drop_cell c r) = filter (\<lambda>x. x \<noteq> c) (map fst r)"
  unfolding drop_cell_def by (induction r) auto

text \<open>Every operation keeps a database well formed.\<close>

lemma apply_op_wf:
  assumes wf: "wf_db d" and ok: "apply_op p d = Inr d'"
  shows "wf_db d'"
proof -
  have wft: "wf_table t" if "find_table n d = Some t" for n t
    using wf find_table_Some [OF that] unfolding wf_db_def by blast
  show ?thesis
  proof (cases p)
    case (Create_Table n items)
    let ?t = "new_table n items"
    have d': "d' = d @ [?t]" and n: "n \<notin> set (table_names d)" and t: "wf_table ?t"
      and f: "fk_table ` set (tb_fks ?t) \<subseteq> set (table_names d)"
      using ok Create_Table by (simp_all add: Let_def wf_table_def split: if_splits)
    have names: "table_names d' = table_names d @ [n]" unfolding d' table_names_def by simp
    have "fk_table ` set (tb_fks s) \<subseteq> set (table_names d)" if "s \<in> set d'" for s
    proof (cases "s \<in> set d")
      case True
      then show ?thesis using wf unfolding wf_db_def by blast
    next
      case False
      then have "s = ?t" using that unfolding d' by simp
      then show ?thesis using f by simp
    qed
    then have "\<forall>s \<in> set d'. fk_table ` set (tb_fks s) \<subseteq> set (table_names d')"
      unfolding names by (simp add: subset_insertI2)
    moreover have "\<forall>s \<in> set d'. wf_table s" using wf t unfolding d' wf_db_def by simp
    ultimately show ?thesis using wf n unfolding wf_db_def names by simp
  next
    case (Drop_Table n)
    then have d': "d' = filter (\<lambda>t. tb_name t \<noteq> n) d"
      and nr: "\<forall>t \<in> set d. tb_name t \<noteq> n \<longrightarrow> n \<notin> fk_table ` set (tb_fks t)"
      using ok by (auto simp: with_table_Inr split: if_splits)
    have "distinct (table_names d')" using wf unfolding d' wf_db_def table_names_def
      by (simp add: distinct_map_filter)
    moreover have "set (table_names d') = set (table_names d) - {n}"
      unfolding d' table_names_def by auto
    then have "fk_table ` set (tb_fks t) \<subseteq> set (table_names d')" if "t \<in> set d'" for t
      using that wf nr unfolding wf_db_def by (simp add: d' subset_Diff_insert)
    ultimately show ?thesis using wf unfolding d' wf_db_def by auto
  next
    case (Create_Index i n cs)
    then obtain t where t: "find_table n d = Some t" and cs: "set cs \<subseteq> set (column_names t)"
      and d': "d' = update_table n (\<lambda>t. t\<lparr>tb_indexes := tb_indexes t @ [(i, cs)]\<rparr>) d"
      using ok by (auto simp: with_table_Inr split: if_splits)
    show ?thesis unfolding d' by (rule update_table_wf [OF wf t])
        (use wft [OF t] cs in \<open>auto simp: wf_table_def column_names_def used_columns_def\<close>)
  next
    case (Drop_Index i n)
    then obtain t where t: "find_table n d = Some t"
      and d': "d' = update_table n (\<lambda>t. t\<lparr>tb_indexes := filter (\<lambda>p. fst p \<noteq> i) (tb_indexes t)\<rparr>) d"
      using ok by (auto simp: with_table_Inr split: if_splits)
    show ?thesis unfolding d' by (rule update_table_wf [OF wf t])
        (use wft [OF t] in \<open>auto simp: wf_table_def column_names_def used_columns_def\<close>)
  next
    case (Add_Column n c)
    then obtain t where t: "find_table n d = Some t" and c: "cl_name c \<notin> set (column_names t)"
      and d': "d' = update_table n (\<lambda>t. t\<lparr>tb_columns := tb_columns t @ [c],
              tb_rows := map (\<lambda>r. r @ [(cl_name c, default_cell c)]) (tb_rows t)\<rparr>) d"
      using ok by (auto simp: with_table_Inr split: if_splits)
    show ?thesis unfolding d' by (rule update_table_wf [OF wf t])
        (use wft [OF t] c in \<open>auto simp: wf_table_def column_names_def used_columns_def\<close>)
  next
    case (Drop_Column n c)
    then obtain t where t: "find_table n d = Some t" and c: "c \<notin> set (used_columns t)"
      and d': "d' = update_table n (\<lambda>t. t\<lparr>tb_columns := filter (\<lambda>k. cl_name k \<noteq> c) (tb_columns t),
              tb_rows := map (drop_cell c) (tb_rows t)\<rparr>) d"
      using ok by (auto simp: with_table_Inr split: if_splits)
    have "column_names (t\<lparr>tb_columns := filter (\<lambda>k. cl_name k \<noteq> c) (tb_columns t), tb_rows := rs\<rparr>)
        = filter (\<lambda>x. x \<noteq> c) (column_names t)" for rs
      unfolding column_names_def by (simp add: filter_map o_def)
    then show ?thesis unfolding d' by (intro update_table_wf [OF wf t])
        (use wft [OF t] c in \<open>auto simp: wf_table_def used_columns_def map_fst_drop_cell\<close>)
  next
    case (Set_Not_Null n c)
    then obtain t where t: "find_table n d = Some t"
      and d': "d' = update_table n (\<lambda>t. t\<lparr>tb_columns :=
              map (\<lambda>k. if cl_name k = c then k\<lparr>cl_nullable := False\<rparr> else k) (tb_columns t)\<rparr>) d"
      using ok by (auto simp: with_table_Inr split: if_splits)
    have "column_names (t\<lparr>tb_columns :=
        map (\<lambda>k. if cl_name k = c then k\<lparr>cl_nullable := False\<rparr> else k) (tb_columns t)\<rparr>) = column_names t"
      unfolding column_names_def by simp
    then show ?thesis unfolding d' by (intro update_table_wf [OF wf t])
        (use wft [OF t] in \<open>auto simp: wf_table_def used_columns_def\<close>)
  next
    case (Create_Unique n u cs)
    then obtain t where t: "find_table n d = Some t" and cs: "set cs \<subseteq> set (column_names t)"
      and d': "d' = update_table n (\<lambda>t. t\<lparr>tb_uniques := tb_uniques t @ [(u, cs)]\<rparr>) d"
      using ok by (auto simp: with_table_Inr split: if_splits)
    show ?thesis unfolding d' by (rule update_table_wf [OF wf t])
        (use wft [OF t] cs in \<open>auto simp: wf_table_def column_names_def used_columns_def\<close>)
  next
    case (Drop_Unique n u)
    then obtain t where t: "find_table n d = Some t"
      and d': "d' = update_table n (\<lambda>t. t\<lparr>tb_uniques := filter (\<lambda>p. fst p \<noteq> u) (tb_uniques t)\<rparr>) d"
      using ok by (auto simp: with_table_Inr split: if_splits)
    show ?thesis unfolding d' by (rule update_table_wf [OF wf t])
        (use wft [OF t] in \<open>auto simp: wf_table_def column_names_def used_columns_def\<close>)
  qed
qed

lemma run_wf: "wf_db d \<Longrightarrow> run_ops ps d = Inr d' \<Longrightarrow> wf_db d'"
  by (induction ps arbitrary: d) (auto simp: err_simps dest: apply_op_wf)

section \<open>Undoing operations\<close>

text \<open>The inverse of an operation that only adds: what the downgrades issue.\<close>

fun undo :: "operation \<Rightarrow> operation option" where
  "undo (Create_Table n _) = Some (Drop_Table n)"
| "undo (Create_Index i n _) = Some (Drop_Index i n)"
| "undo (Add_Column n c) = Some (Drop_Column n (cl_name c))"
| "undo (Create_Unique n u _) = Some (Drop_Unique n u)"
| "undo _ = None"

lemma filter_fresh: "x \<notin> fst ` set ps \<Longrightarrow> filter (\<lambda>p. fst p \<noteq> x) ps = ps"
  by (induction ps) auto

lemma drop_new_cell: "c \<notin> fst ` set r \<Longrightarrow> drop_cell c (r @ [(c, v)]) = r"
  unfolding drop_cell_def by (simp add: filter_fresh)

lemma undo_op:
  assumes wf: "wf_db d" and ok: "apply_op p d = Inr d'" and q: "undo p = Some q"
  shows "apply_op q d' = Inr d"
proof -
  have dist: "distinct (table_names d)" using wf unfolding wf_db_def by simp
  have wft: "wf_table t" if "find_table n d = Some t" for n t
    using wf find_table_Some [OF that] unfolding wf_db_def by blast
  show ?thesis
  proof (cases p)
    case (Create_Table n items)
    then have n: "n \<notin> set (table_names d)" and d': "d' = d @ [new_table n items]"
      using ok by (auto simp: Let_def split: if_splits)
    have "tb_name t \<noteq> n" if "t \<in> set d" for t using n that unfolding table_names_def by auto
    moreover have "n \<notin> fk_table ` set (tb_fks t)" if "t \<in> set d" for t
      using n that wf unfolding wf_db_def by blast
    moreover have "find_table n d' = Some (new_table n items)"
      using n unfolding d' find_table_def table_names_def by (induction d) auto
    ultimately show ?thesis using Create_Table q unfolding d'
      by (auto simp: with_table_def)
  next
    case (Create_Index i n cs)
    let ?f = "\<lambda>t. t\<lparr>tb_indexes := tb_indexes t @ [(i, cs)]\<rparr>"
    obtain t where t: "find_table n d = Some t" and i: "i \<notin> set (index_names d)"
      and d': "d' = update_table n ?f d"
      using ok Create_Index by (auto simp: with_table_Inr split: if_splits)
    have fresh: "i \<notin> fst ` set (tb_indexes t)"
      using i find_table_Some(1) [OF t] unfolding index_names_def by auto
    have "update_table n (\<lambda>t. t\<lparr>tb_indexes := filter (\<lambda>p. fst p \<noteq> i) (tb_indexes t)\<rparr>) d' = d"
      unfolding d' by (rule update_table_undo [OF dist t]) (simp_all add: filter_fresh [OF fresh])
    moreover have "find_table n d' = Some (?f t)" unfolding d' by (rule find_update_table [OF _ t]) simp
    ultimately show ?thesis using Create_Index q by (auto simp: with_table_def)
  next
    case (Add_Column n c)
    let ?f = "\<lambda>t. t\<lparr>tb_columns := tb_columns t @ [c],
              tb_rows := map (\<lambda>r. r @ [(cl_name c, default_cell c)]) (tb_rows t)\<rparr>"
    obtain t where t: "find_table n d = Some t" and c: "cl_name c \<notin> set (column_names t)"
      and d': "d' = update_table n ?f d"
      using ok Add_Column by (auto simp: with_table_Inr split: if_splits)
    have rows: "cl_name c \<notin> fst ` set r" if "r \<in> set (tb_rows t)" for r
      using wft [OF t] that c unfolding wf_table_def by (metis list.set_map)
    have cols: "filter (\<lambda>k. cl_name k \<noteq> cl_name c) (tb_columns t) = tb_columns t"
      using c unfolding column_names_def filter_id_conv by (metis image_eqI list.set_map)
    have "update_table n (\<lambda>t. t\<lparr>tb_columns := filter (\<lambda>k. cl_name k \<noteq> cl_name c) (tb_columns t),
              tb_rows := map (drop_cell (cl_name c)) (tb_rows t)\<rparr>) d' = d"
      unfolding d' by (rule update_table_undo [OF dist t])
        (simp_all add: cols rows drop_new_cell map_idI)
    moreover have "find_table n d' = Some (?f t)" unfolding d' by (rule find_update_table [OF _ t]) simp
    moreover have "cl_name c \<notin> set (used_columns (?f t))"
      using wft [OF t] c unfolding wf_table_def used_columns_def by auto
    ultimately show ?thesis using Add_Column q by (auto simp: with_table_def column_names_def)
  next
    case (Create_Unique n u cs)
    let ?f = "\<lambda>t. t\<lparr>tb_uniques := tb_uniques t @ [(u, cs)]\<rparr>"
    obtain t where t: "find_table n d = Some t" and u: "u \<notin> fst ` set (tb_uniques t)"
      and d': "d' = update_table n ?f d"
      using ok Create_Unique by (auto simp: with_table_Inr split: if_splits)
    have "update_table n (\<lambda>t. t\<lparr>tb_uniques := filter (\<lambda>p. fst p \<noteq> u) (tb_uniques t)\<rparr>) d' = d"
      unfolding d' by (rule update_table_undo [OF dist t]) (simp_all add: filter_fresh [OF u])
    moreover have "find_table n d' = Some (?f t)" unfolding d' by (rule find_update_table [OF _ t]) simp
    ultimately show ?thesis using Create_Unique q by (auto simp: with_table_def)
  qed (use q in auto)
qed

text \<open>A sequence that succeeded is undone by the inverses in reverse order.\<close>

lemma run_undo:
  assumes "wf_db d" and "run_ops ps d = Inr d'" and "map undo ps = map Some qs"
  shows "run_ops (rev qs) d' = Inr d"
  using assms
proof (induction ps arbitrary: d qs)
  case (Cons p ps)
  obtain q qs' where qs: "qs = q # qs'" and q: "undo p = Some q" and rest: "map undo ps = map Some qs'"
    using Cons.prems(3) by (cases qs) auto
  obtain e where e: "apply_op p d = Inr e" and run: "run_ops ps e = Inr d'"
    using Cons.prems(2) by (auto simp: err_simps)
  have "run_ops (rev qs') d' = Inr e" using Cons.IH [OF apply_op_wf [OF Cons.prems(1) e] run rest] .
  then show ?case using undo_op [OF Cons.prems(1) e q] by (simp add: qs run_append)
qed simp

end
