(* ===== verification/Migrations.thy ===== *)
theory Migrations
  imports Sql_Schema
begin

text \<open>
  The database migrations \<open>migrations/versions/0001\<close> to \<open>0009\<close>: each module's \<open>upgrade()\<close> and
  \<open>downgrade()\<close> as the operations it issues, one definition per created table, and the chain
  of revisions Alembic walks.

  The lemmas: each downgrade restores the database its upgrade started from, rows included
  (\<open>migration_chain\<close>, interpreted on the nine revisions); revision 0003 never fails on stored data
  and gives each case's transitions the numbers 1, 2, ... in the order they occurred.
\<close>

section \<open>Writing the arguments\<close>

definition col :: "string \<Rightarrow> col_type \<Rightarrow> bool \<Rightarrow> column" where
  "col n ty nullable = \<lparr>cl_name = n, cl_type = ty, cl_nullable = nullable, cl_default = None\<rparr>"

definition col_default :: "string \<Rightarrow> col_type \<Rightarrow> bool \<Rightarrow> server_default \<Rightarrow> column" where
  "col_default n ty nullable dv = \<lparr>cl_name = n, cl_type = ty, cl_nullable = nullable, cl_default = Some dv\<rparr>"

definition references :: "string list \<Rightarrow> string \<Rightarrow> string list \<Rightarrow> on_delete \<Rightarrow> foreign_key" where
  "references cs t rs od = \<lparr>fk_columns = cs, fk_table = t, fk_ref_columns = rs, fk_ondelete = od\<rparr>"

section \<open>The revisions\<close>

definition create_customers :: operation where
  "create_customers =
     Create_Table ''customers''
      [Column (col ''id'' Uuid_T False),
       Column (col ''provider'' (String_T 64) False),
       Column (col ''external_customer_id'' (String_T 128) False),
       Column (col ''email'' (String_T 320) True),
       Column (col ''display_name'' (String_T 200) True),
       Column (col ''status'' (Enum_T ''customer_status'' [''active'', ''inactive'', ''restricted'']) False),
       Column (col ''metadata'' Json_T False),
       Column (col ''created_at'' (DateTime_T True) False),
       Column (col ''updated_at'' (DateTime_T True) False),
       Primary_Key None [''id''],
       Unique ''uq_customer_provider_external'' [''provider'', ''external_customer_id'']]"

definition create_transactions :: operation where
  "create_transactions =
     Create_Table ''transactions''
      [Column (col ''id'' Uuid_T False),
       Column (col ''customer_id'' Uuid_T False),
       Column (col ''provider'' (String_T 64) False),
       Column (col ''external_transaction_id'' (String_T 128) False),
       Column (col ''amount_minor'' Integer_T False),
       Column (col ''currency'' (String_T 3) False),
       Column (col ''status'' (Enum_T ''transaction_status'' [''created'', ''authorized'', ''succeeded'', ''failed'', ''pending'', ''cancelled'', ''refunded'', ''unknown'']) False),
       Column (col ''failure_code'' (String_T 100) True),
       Column (col ''failure_message_safe'' (String_T 500) True),
       Column (col ''occurred_at'' (DateTime_T True) False),
       Column (col ''metadata'' Json_T False),
       Column (col ''created_at'' (DateTime_T True) False),
       Column (col ''updated_at'' (DateTime_T True) False),
       Check ''ck_transaction_amount_nonnegative'' ''amount_minor >= 0'',
       Check ''ck_transaction_currency'' ''length(currency) = 3 AND currency = upper(currency)'',
       Foreign_Key (references [''customer_id''] ''customers'' [''id''] Restrict),
       Primary_Key None [''id''],
       Unique ''uq_transaction_provider_external'' [''provider'', ''external_transaction_id'']]"

definition create_recovery_cases :: operation where
  "create_recovery_cases =
     Create_Table ''recovery_cases''
      [Column (col ''id'' Uuid_T False),
       Column (col ''customer_id'' Uuid_T False),
       Column (col ''trigger_transaction_id'' Uuid_T False),
       Column (col ''case_key'' (String_T 200) False),
       Column (col ''state'' (Enum_T ''recovery_case_state'' [''detected'', ''context_ready'', ''awaiting_decision'', ''action_pending'', ''verification_pending'', ''recovered'', ''retry_eligible'', ''escalated'', ''stopped'', ''closed'']) False),
       Column (col ''priority'' Integer_T False),
       Column (col ''opened_at'' (DateTime_T True) False),
       Column (col ''last_state_changed_at'' (DateTime_T True) False),
       Column (col ''closed_at'' (DateTime_T True) True),
       Column (col ''version'' Integer_T False),
       Column (col ''metadata'' Json_T False),
       Foreign_Key (references [''customer_id''] ''customers'' [''id''] Restrict),
       Foreign_Key (references [''trigger_transaction_id''] ''transactions'' [''id''] Restrict),
       Primary_Key None [''id''],
       Unique ''uq_recovery_case_key'' [''case_key'']]"

definition create_recovery_attempts :: operation where
  "create_recovery_attempts =
     Create_Table ''recovery_attempts''
      [Column (col ''id'' Uuid_T False),
       Column (col ''case_id'' Uuid_T False),
       Column (col ''sequence_number'' Integer_T False),
       Column (col ''status'' (Enum_T ''recovery_attempt_status'' [''planned'', ''started'', ''succeeded'', ''failed'', ''uncertain'', ''cancelled'']) False),
       Column (col ''action_type'' (Enum_T ''action_type'' [''none'', ''retry_payment'', ''send_reminder'', ''request_operator_review'', ''stop'']) False),
       Column (col ''started_at'' (DateTime_T True) True),
       Column (col ''finished_at'' (DateTime_T True) True),
       Column (col ''outcome'' (String_T 100) True),
       Column (col ''provider_reference'' (String_T 200) True),
       Column (col ''idempotency_key'' (String_T 250) False),
       Column (col ''error_class'' (String_T 120) True),
       Column (col ''error_safe_message'' (String_T 500) True),
       Column (col ''metadata'' Json_T False),
       Foreign_Key (references [''case_id''] ''recovery_cases'' [''id''] Cascade),
       Primary_Key None [''id''],
       Unique ''uq_attempt_case_sequence'' [''case_id'', ''sequence_number''],
       Unique ''uq_attempt_idempotency_key'' [''idempotency_key'']]"

definition create_agent_decisions :: operation where
  "create_agent_decisions =
     Create_Table ''agent_decisions''
      [Column (col ''id'' Uuid_T False),
       Column (col ''case_id'' Uuid_T False),
       Column (col ''attempt_id'' Uuid_T True),
       Column (col ''decision_version'' Integer_T False),
       Column (col ''action_type'' (Enum_T ''decision_action_type'' [''none'', ''retry_payment'', ''send_reminder'', ''request_operator_review'', ''stop'']) False),
       Column (col ''reason_code'' (String_T 120) False),
       Column (col ''rationale_safe'' (String_T 2000) True),
       Column (col ''confidence'' (Numeric_T (Some (5, 4))) True),
       Column (col ''raw_response_hash'' (String_T 128) True),
       Column (col ''validation_status'' (Enum_T ''decision_validation_status'' [''not_validated'', ''valid'', ''invalid'', ''rejected_by_policy'']) False),
       Check ''ck_decision_confidence'' ''confidence IS NULL OR (confidence >= 0 AND confidence <= 1)'',
       Foreign_Key (references [''attempt_id''] ''recovery_attempts'' [''id''] Set_Null),
       Foreign_Key (references [''case_id''] ''recovery_cases'' [''id''] Cascade),
       Primary_Key None [''id'']]"

definition create_audit_events :: operation where
  "create_audit_events =
     Create_Table ''audit_events''
      [Column (col ''id'' Uuid_T False),
       Column (col ''case_id'' Uuid_T False),
       Column (col ''event_type'' (String_T 120) False),
       Column (col ''from_state'' (Enum_T ''audit_from_state'' [''detected'', ''context_ready'', ''awaiting_decision'', ''action_pending'', ''verification_pending'', ''recovered'', ''retry_eligible'', ''escalated'', ''stopped'', ''closed'']) True),
       Column (col ''to_state'' (Enum_T ''audit_to_state'' [''detected'', ''context_ready'', ''awaiting_decision'', ''action_pending'', ''verification_pending'', ''recovered'', ''retry_eligible'', ''escalated'', ''stopped'', ''closed'']) True),
       Column (col ''actor_type'' (Enum_T ''actor_type'' [''system'', ''operator'', ''agent'', ''provider'', ''test'']) False),
       Column (col ''actor_id'' (String_T 200) True),
       Column (col ''correlation_id'' (String_T 200) False),
       Column (col ''event_time'' (DateTime_T True) False),
       Column (col ''payload_safe'' Json_T False),
       Column (col ''sequence_number'' Integer_T False),
       Foreign_Key (references [''case_id''] ''recovery_cases'' [''id''] Cascade),
       Primary_Key None [''id''],
       Unique ''uq_audit_case_sequence'' [''case_id'', ''sequence_number'']]"

definition create_case_state_transitions :: operation where
  "create_case_state_transitions =
     Create_Table ''case_state_transitions''
      [Column (col ''id'' Uuid_T False),
       Column (col ''case_id'' Uuid_T False),
       Column (col ''from_state'' (Enum_T ''transition_from_state'' [''detected'', ''context_ready'', ''awaiting_decision'', ''action_pending'', ''verification_pending'', ''recovered'', ''retry_eligible'', ''escalated'', ''stopped'', ''closed'']) True),
       Column (col ''to_state'' (Enum_T ''transition_to_state'' [''detected'', ''context_ready'', ''awaiting_decision'', ''action_pending'', ''verification_pending'', ''recovered'', ''retry_eligible'', ''escalated'', ''stopped'', ''closed'']) False),
       Column (col ''reason_code'' (String_T 120) False),
       Column (col ''actor_type'' (Enum_T ''transition_actor_type'' [''system'', ''operator'', ''agent'', ''provider'', ''test'']) False),
       Column (col ''correlation_id'' (String_T 200) False),
       Column (col ''occurred_at'' (DateTime_T True) False),
       Column (col ''metadata'' Json_T False),
       Foreign_Key (references [''case_id''] ''recovery_cases'' [''id''] Cascade),
       Primary_Key None [''id'']]"

definition upgrade_0001 :: "operation list" where
  "upgrade_0001 =
     [create_customers,
      create_transactions,
      Create_Index ''ix_transaction_status_occurred'' ''transactions'' [''status'', ''occurred_at''],
      create_recovery_cases,
      Create_Index ''ix_recovery_case_state_changed'' ''recovery_cases'' [''state'', ''last_state_changed_at''],
      Create_Index ''ix_recovery_case_customer'' ''recovery_cases'' [''customer_id''],
      create_recovery_attempts,
      Create_Index ''ix_attempt_case_sequence'' ''recovery_attempts'' [''case_id'', ''sequence_number''],
      create_agent_decisions,
      create_audit_events,
      Create_Index ''ix_audit_case_sequence'' ''audit_events'' [''case_id'', ''sequence_number''],
      create_case_state_transitions,
      Create_Index ''ix_transition_case_occurred'' ''case_state_transitions'' [''case_id'', ''occurred_at'']]"

definition downgrade_0001 :: "operation list" where
  "downgrade_0001 =
     [Drop_Index ''ix_transition_case_occurred'' ''case_state_transitions'',
      Drop_Table ''case_state_transitions'',
      Drop_Index ''ix_audit_case_sequence'' ''audit_events'',
      Drop_Table ''audit_events'',
      Drop_Table ''agent_decisions'',
      Drop_Index ''ix_attempt_case_sequence'' ''recovery_attempts'',
      Drop_Table ''recovery_attempts'',
      Drop_Index ''ix_recovery_case_customer'' ''recovery_cases'',
      Drop_Index ''ix_recovery_case_state_changed'' ''recovery_cases'',
      Drop_Table ''recovery_cases'',
      Drop_Index ''ix_transaction_status_occurred'' ''transactions'',
      Drop_Table ''transactions'',
      Drop_Table ''customers'']"

definition create_provider_webhook_events :: operation where
  "create_provider_webhook_events =
     Create_Table ''provider_webhook_events''
      [Column (col ''id'' Uuid_T False),
       Column (col ''provider'' (String_T 64) False),
       Column (col ''external_event_id'' (String_T 200) False),
       Column (col ''event_type'' (String_T 160) False),
       Column (col ''payload_hash'' (String_T 128) False),
       Column (col ''signature_verified'' Boolean_T False),
       Column (col ''processed'' Boolean_T False),
       Column (col ''payload_safe'' Json_T False),
       Column (col ''created_at'' (DateTime_T True) False),
       Column (col ''updated_at'' (DateTime_T True) False),
       Primary_Key None [''id''],
       Unique ''uq_provider_event'' [''provider'', ''external_event_id'']]"

definition create_recovery_evidence :: operation where
  "create_recovery_evidence =
     Create_Table ''recovery_evidence''
      [Column (col ''id'' Uuid_T False),
       Column (col ''intervention_id'' (String_T 200) False),
       Column (col ''provider_event_id'' (String_T 200) False),
       Column (col ''failed_transaction_id'' (String_T 200) False),
       Column (col ''successful_transaction_id'' (String_T 200) False),
       Column (col ''amount_minor'' Integer_T False),
       Column (col ''currency'' (String_T 3) False),
       Column (col ''verified_at'' (DateTime_T True) False),
       Column (col ''attribution_window_hours'' Integer_T False),
       Column (col ''attribution_reason'' (String_T 200) False),
       Column (col ''attributable'' Boolean_T False),
       Column (col ''evidence_json'' Json_T False),
       Column (col ''created_at'' (DateTime_T True) False),
       Column (col ''updated_at'' (DateTime_T True) False),
       Primary_Key None [''id''],
       Unique ''uq_recovery_evidence_provider_event'' [''provider_event_id''],
       Check ''ck_recovery_evidence_amount_nonnegative'' ''amount_minor >= 0'',
       Check ''ck_recovery_evidence_currency'' ''length(currency) = 3 AND currency = upper(currency)'']"

definition upgrade_0002 :: "operation list" where
  "upgrade_0002 =
     [create_provider_webhook_events,
      create_recovery_evidence,
      Create_Index ''ix_recovery_evidence_failed_transaction'' ''recovery_evidence'' [''failed_transaction_id'']]"

definition downgrade_0002 :: "operation list" where
  "downgrade_0002 =
     [Drop_Index ''ix_recovery_evidence_failed_transaction'' ''recovery_evidence'',
      Drop_Table ''recovery_evidence'',
      Drop_Table ''provider_webhook_events'']"


text \<open>
  Revision 0003 numbers the stored transitions: the rows are read in the order
  \<open>case_id, occurred_at, id\<close>, and each is updated by its id with the next number of its case.
\<close>

definition transition_query :: "row list \<Rightarrow> row list" where
  "transition_query rows =
     sort_key (\<lambda>r. (cell_of r ''case_id'', cell_of r ''occurred_at'', cell_of r ''id'')) rows"

fun number_rows :: "row list \<Rightarrow> (cell \<Rightarrow> int option) \<Rightarrow> row list \<Rightarrow> row list" where
  "number_rows [] counters rows = rows"
| "number_rows (r # rs) counters rows =
     (let k = cell_of r ''case_id'';
          n = (case counters k of None \<Rightarrow> 0 | Some m \<Rightarrow> m) + 1
      in number_rows rs (counters(k \<mapsto> n))
           (map (\<lambda>x. if cell_of x ''id'' = cell_of r ''id'' then set_cell ''sequence_number'' (Num n) x else x) rows))"

definition number_transitions :: "database \<Rightarrow> schema_error + database" where
  "number_transitions d =
     with_table ''case_state_transitions'' d (\<lambda>_.
       Inr (update_table ''case_state_transitions''
              (\<lambda>t. t\<lparr>tb_rows := number_rows (transition_query (tb_rows t)) (\<lambda>_. None) (tb_rows t)\<rparr>) d))"

definition upgrade_0003 :: "database \<Rightarrow> schema_error + database" where
  "upgrade_0003 d =
     ebind (run_ops [Add_Column ''case_state_transitions'' (col ''sequence_number'' Integer_T True)] d) (\<lambda>d.
     ebind (number_transitions d)
       (run_ops
         [Set_Not_Null ''case_state_transitions'' ''sequence_number'',
          Create_Unique ''case_state_transitions'' ''uq_transition_case_sequence'' [''case_id'', ''sequence_number'']]))"

definition downgrade_0003 :: "operation list" where
  "downgrade_0003 =
     [Drop_Unique ''case_state_transitions'' ''uq_transition_case_sequence'',
      Drop_Column ''case_state_transitions'' ''sequence_number'']"


definition create_users :: operation where
  "create_users =
     Create_Table ''users''
      [Column (col ''id'' Uuid_T False),
       Column (col ''email'' (String_T 320) False),
       Column (col ''name'' (String_T 200) False),
       Column (col ''password_hash'' (String_T 255) False),
       Column (col_default ''role'' (String_T 32) False (Constant ''ROLE_OPERATOR'')),
       Column (col_default ''status'' (String_T 32) False (Constant ''active'')),
       Column (col_default ''created_at'' (DateTime_T True) False (Expression ''CURRENT_TIMESTAMP'')),
       Column (col_default ''updated_at'' (DateTime_T True) False (Expression ''CURRENT_TIMESTAMP'')),
       Column (col ''last_login_at'' (DateTime_T True) True),
       Primary_Key (Some ''pk_users'') [''id''],
       Unique ''uq_user_email'' [''email'']]"

definition upgrade_0004 :: "operation list" where
  "upgrade_0004 =
     [create_users,
      Create_Index ''ix_user_email'' ''users'' [''email''],
      Create_Index ''ix_user_role'' ''users'' [''role'']]"

definition downgrade_0004 :: "operation list" where
  "downgrade_0004 =
     [Drop_Index ''ix_user_role'' ''users'',
      Drop_Index ''ix_user_email'' ''users'',
      Drop_Table ''users'']"

definition upgrade_0005 :: "operation list" where
  "upgrade_0005 =
     [Add_Column ''provider_webhook_events'' (col_default ''ingestion_status'' (String_T 32) False (Constant ''ACCEPTED'')),
      Create_Index ''ix_webhook_event_type_created'' ''provider_webhook_events'' [''event_type'', ''created_at'']]"

definition downgrade_0005 :: "operation list" where
  "downgrade_0005 =
     [Drop_Index ''ix_webhook_event_type_created'' ''provider_webhook_events'',
      Drop_Column ''provider_webhook_events'' ''ingestion_status'']"

definition upgrade_0006 :: "operation list" where
  "upgrade_0006 =
     [Create_Index ''ix_recovery_case_priority_state'' ''recovery_cases'' [''priority'', ''state''],
      Create_Index ''ix_recovery_case_priority_opened'' ''recovery_cases'' [''priority'', ''opened_at'']]"

definition downgrade_0006 :: "operation list" where
  "downgrade_0006 =
     [Drop_Index ''ix_recovery_case_priority_opened'' ''recovery_cases'',
      Drop_Index ''ix_recovery_case_priority_state'' ''recovery_cases'']"

definition create_customer_consents :: operation where
  "create_customer_consents =
     Create_Table ''customer_consents''
      [Column (col ''id'' Uuid_T False),
       Column (col ''created_at'' (DateTime_T True) False),
       Column (col ''updated_at'' (DateTime_T True) False),
       Column (col ''customer_id'' Uuid_T False),
       Column (col ''consent_type'' (String_T 50) False),
       Column (col ''status'' (String_T 50) False),
       Column (col ''merchant_id'' (String_T 128) True),
       Column (col ''granted_at'' (DateTime_T True) False),
       Column (col ''revoked_at'' (DateTime_T True) True),
       Column (col ''expires_at'' (DateTime_T True) True),
       Column (col ''source'' (String_T 120) False),
       Column (col ''evidence_reference'' (String_T 255) True),
       Column (col_default ''version'' Integer_T False (Constant ''1'')),
       Foreign_Key (references [''customer_id''] ''customers'' [''id''] Cascade),
       Primary_Key None [''id'']]"

definition upgrade_0007 :: "operation list" where
  "upgrade_0007 =
     [create_customer_consents,
      Create_Index ''ix_consent_customer_type'' ''customer_consents'' [''customer_id'', ''consent_type''],
      Create_Index ''ix_consent_customer_status'' ''customer_consents'' [''customer_id'', ''status'']]"

definition downgrade_0007 :: "operation list" where
  "downgrade_0007 =
     [Drop_Index ''ix_consent_customer_status'' ''customer_consents'',
      Drop_Index ''ix_consent_customer_type'' ''customer_consents'',
      Drop_Table ''customer_consents'']"

definition create_policy_decisions :: operation where
  "create_policy_decisions =
     Create_Table ''policy_decisions''
      [Column (col ''id'' Uuid_T False),
       Column (col ''created_at'' (DateTime_T True) False),
       Column (col ''updated_at'' (DateTime_T True) False),
       Column (col ''case_id'' Uuid_T False),
       Column (col ''recommendation_id'' Uuid_T False),
       Column (col ''proposed_action'' (String_T 50) False),
       Column (col ''decision_status'' (String_T 50) False),
       Column (col ''policy_version'' (String_T 50) False),
       Column (col ''rule_results_json'' Json_T False),
       Column (col ''reasons_json'' Json_T False),
       Column (col ''actor_type'' (String_T 50) False),
       Column (col ''actor_id'' (String_T 200) True),
       Column (col ''idempotency_key'' (String_T 250) True),
       Column (col_default ''case_version'' Integer_T False (Constant ''1'')),
       Column (col ''evaluated_at'' (DateTime_T True) False),
       Column (col ''metadata'' Json_T False),
       Foreign_Key (references [''case_id''] ''recovery_cases'' [''id''] Cascade),
       Foreign_Key (references [''recommendation_id''] ''agent_decisions'' [''id''] Cascade),
       Primary_Key None [''id'']]"

definition upgrade_0008 :: "operation list" where
  "upgrade_0008 =
     [create_policy_decisions,
      Create_Index ''ix_policy_decision_case_id'' ''policy_decisions'' [''case_id''],
      Create_Index ''ix_policy_decision_status'' ''policy_decisions'' [''decision_status''],
      Create_Index ''ix_policy_decision_idempotency'' ''policy_decisions'' [''case_id'', ''idempotency_key'']]"

definition downgrade_0008 :: "operation list" where
  "downgrade_0008 =
     [Drop_Index ''ix_policy_decision_idempotency'' ''policy_decisions'',
      Drop_Index ''ix_policy_decision_status'' ''policy_decisions'',
      Drop_Index ''ix_policy_decision_case_id'' ''policy_decisions'',
      Drop_Table ''policy_decisions'']"

definition create_recovery_workflows :: operation where
  "create_recovery_workflows =
     Create_Table ''recovery_workflows''
      [Column (col ''id'' Uuid_T False),
       Column (col ''created_at'' (DateTime_T True) False),
       Column (col ''updated_at'' (DateTime_T True) False),
       Column (col ''case_id'' Uuid_T False),
       Column (col ''policy_decision_id'' Uuid_T False),
       Column (col ''status'' (String_T 50) False),
       Column (col ''strategy'' (String_T 100) False),
       Column (col_default ''current_step_index'' Integer_T False (Constant ''0'')),
       Column (col_default ''max_steps'' Integer_T False (Constant ''10'')),
       Column (col ''scheduled_for'' (DateTime_T True) True),
       Column (col ''expires_at'' (DateTime_T True) True),
       Column (col ''metadata'' Json_T False),
       Foreign_Key (references [''case_id''] ''recovery_cases'' [''id''] Cascade),
       Foreign_Key (references [''policy_decision_id''] ''policy_decisions'' [''id''] Restrict),
       Primary_Key None [''id'']]"

definition create_workflow_steps :: operation where
  "create_workflow_steps =
     Create_Table ''workflow_steps''
      [Column (col ''id'' Uuid_T False),
       Column (col ''created_at'' (DateTime_T True) False),
       Column (col ''updated_at'' (DateTime_T True) False),
       Column (col ''workflow_id'' Uuid_T False),
       Column (col ''step_index'' Integer_T False),
       Column (col ''step_type'' (String_T 64) False),
       Column (col ''status'' (String_T 50) False),
       Column (col ''idempotency_key'' (String_T 250) False),
       Column (col ''action_type'' (String_T 50) False),
       Column (col ''payload_json'' Json_T False),
       Column (col ''execution_result_json'' Json_T False),
       Column (col ''error_message'' (String_T 500) True),
       Column (col ''executed_at'' (DateTime_T True) True),
       Foreign_Key (references [''workflow_id''] ''recovery_workflows'' [''id''] Cascade),
       Primary_Key None [''id''],
       Unique ''uq_step_workflow_index'' [''workflow_id'', ''step_index''],
       Unique ''uq_step_idempotency_key'' [''idempotency_key'']]"

definition create_recovery_executions :: operation where
  "create_recovery_executions =
     Create_Table ''recovery_executions''
      [Column (col ''id'' Uuid_T False),
       Column (col ''created_at'' (DateTime_T True) False),
       Column (col ''updated_at'' (DateTime_T True) False),
       Column (col ''step_id'' Uuid_T False),
       Column (col ''case_id'' Uuid_T False),
       Column (col ''provider'' (String_T 64) False),
       Column (col ''external_reference'' (String_T 200) True),
       Column (col ''status'' (String_T 50) False),
       Column (col ''amount_minor'' Integer_T False),
       Column (col ''currency'' (String_T 3) False),
       Column (col ''idempotency_key'' (String_T 250) False),
       Column (col ''request_payload_safe'' Json_T False),
       Column (col ''response_payload_safe'' Json_T False),
       Column (col ''error_code'' (String_T 100) True),
       Column (col ''error_message_safe'' (String_T 500) True),
       Column (col ''latency_ms'' Integer_T True),
       Column (col ''executed_at'' (DateTime_T True) False),
       Foreign_Key (references [''step_id''] ''workflow_steps'' [''id''] Cascade),
       Foreign_Key (references [''case_id''] ''recovery_cases'' [''id''] Cascade),
       Primary_Key None [''id''],
       Unique ''uq_recovery_execution_idempotency'' [''idempotency_key'']]"

definition upgrade_0009 :: "operation list" where
  "upgrade_0009 =
     [create_recovery_workflows,
      Create_Index ''ix_workflow_case_status'' ''recovery_workflows'' [''case_id'', ''status''],
      Create_Index ''ix_workflow_policy_decision'' ''recovery_workflows'' [''policy_decision_id''],
      create_workflow_steps,
      Create_Index ''ix_step_workflow_status'' ''workflow_steps'' [''workflow_id'', ''status''],
      create_recovery_executions,
      Create_Index ''ix_recovery_execution_case'' ''recovery_executions'' [''case_id''],
      Create_Index ''ix_recovery_execution_external_ref'' ''recovery_executions'' [''external_reference''],
      Create_Index ''ix_recovery_execution_status'' ''recovery_executions'' [''status'']]"

definition downgrade_0009 :: "operation list" where
  "downgrade_0009 =
     [Drop_Index ''ix_recovery_execution_status'' ''recovery_executions'',
      Drop_Index ''ix_recovery_execution_external_ref'' ''recovery_executions'',
      Drop_Index ''ix_recovery_execution_case'' ''recovery_executions'',
      Drop_Table ''recovery_executions'',
      Drop_Index ''ix_step_workflow_status'' ''workflow_steps'',
      Drop_Table ''workflow_steps'',
      Drop_Index ''ix_workflow_policy_decision'' ''recovery_workflows'',
      Drop_Index ''ix_workflow_case_status'' ''recovery_workflows'',
      Drop_Table ''recovery_workflows'']"

section \<open>The chain of revisions\<close>

record migration =
  mg_revision :: string
  mg_down_revision :: "string option"
  mg_upgrade :: "database \<Rightarrow> schema_error + database"
  mg_downgrade :: "database \<Rightarrow> schema_error + database"

definition migration_0001 :: migration where
  "migration_0001 =
     \<lparr>mg_revision = ''0001_phase2_core_data'', mg_down_revision = None,
      mg_upgrade = run_ops upgrade_0001, mg_downgrade = run_ops downgrade_0001\<rparr>"

definition migration_0002 :: migration where
  "migration_0002 =
     \<lparr>mg_revision = ''0002_verified_recovery_intelligence'', mg_down_revision = Some ''0001_phase2_core_data'',
      mg_upgrade = run_ops upgrade_0002, mg_downgrade = run_ops downgrade_0002\<rparr>"

definition migration_0003 :: migration where
  "migration_0003 =
     \<lparr>mg_revision = ''0003_transition_sequence'', mg_down_revision = Some ''0002_verified_recovery_intelligence'',
      mg_upgrade = upgrade_0003, mg_downgrade = run_ops downgrade_0003\<rparr>"

definition migration_0004 :: migration where
  "migration_0004 =
     \<lparr>mg_revision = ''0004_user_authentication'', mg_down_revision = Some ''0003_transition_sequence'',
      mg_upgrade = run_ops upgrade_0004, mg_downgrade = run_ops downgrade_0004\<rparr>"

definition migration_0005 :: migration where
  "migration_0005 =
     \<lparr>mg_revision = ''0005_event_ingestion_enhancements'', mg_down_revision = Some ''0004_user_authentication'',
      mg_upgrade = run_ops upgrade_0005, mg_downgrade = run_ops downgrade_0005\<rparr>"

definition migration_0006 :: migration where
  "migration_0006 =
     \<lparr>mg_revision = ''0006_case_management_indexes'', mg_down_revision = Some ''0005_event_ingestion_enhancements'',
      mg_upgrade = run_ops upgrade_0006, mg_downgrade = run_ops downgrade_0006\<rparr>"

definition migration_0007 :: migration where
  "migration_0007 =
     \<lparr>mg_revision = ''0007_customer_consents'', mg_down_revision = Some ''0006_case_management_indexes'',
      mg_upgrade = run_ops upgrade_0007, mg_downgrade = run_ops downgrade_0007\<rparr>"

definition migration_0008 :: migration where
  "migration_0008 =
     \<lparr>mg_revision = ''0008_policy_decisions'', mg_down_revision = Some ''0007_customer_consents'',
      mg_upgrade = run_ops upgrade_0008, mg_downgrade = run_ops downgrade_0008\<rparr>"

definition migration_0009 :: migration where
  "migration_0009 =
     \<lparr>mg_revision = ''0009_recovery_workflows_and_executions'', mg_down_revision = Some ''0008_policy_decisions'',
      mg_upgrade = run_ops upgrade_0009, mg_downgrade = run_ops downgrade_0009\<rparr>"

definition migrations :: "migration list" where
  "migrations =
     [migration_0001,
      migration_0002,
      migration_0003,
      migration_0004,
      migration_0005,
      migration_0006,
      migration_0007,
      migration_0008,
      migration_0009]"

text \<open>\<open>alembic upgrade\<close> and \<open>alembic downgrade\<close> along a part of the chain.\<close>

fun upgrade_along :: "migration list \<Rightarrow> database \<Rightarrow> schema_error + database" where
  "upgrade_along [] d = Inr d"
| "upgrade_along (m # ms) d = ebind (mg_upgrade m d) (upgrade_along ms)"

fun downgrade_along :: "migration list \<Rightarrow> database \<Rightarrow> schema_error + database" where
  "downgrade_along [] d = Inr d"
| "downgrade_along (m # ms) d = ebind (downgrade_along ms d) (mg_downgrade m)"

section \<open>Each downgrade undoes its upgrade\<close>

text \<open>
  The contract of a chain: every revision keeps the database well formed and its downgrade
  restores the database its upgrade started from.
\<close>

locale migration_chain =
  fixes chain :: "migration list"
  assumes keeps_wf: "m \<in> set chain \<Longrightarrow> wf_db d \<Longrightarrow> mg_upgrade m d = Inr d' \<Longrightarrow> wf_db d'"
    and restores: "m \<in> set chain \<Longrightarrow> wf_db d \<Longrightarrow> mg_upgrade m d = Inr d' \<Longrightarrow> mg_downgrade m d' = Inr d"
begin

lemma upgrade_wf: "set ms \<subseteq> set chain \<Longrightarrow> wf_db d \<Longrightarrow> upgrade_along ms d = Inr d' \<Longrightarrow> wf_db d'"
  by (induction ms arbitrary: d) (auto simp: err_simps dest: keeps_wf)

lemma round_trip:
  assumes "set ms \<subseteq> set chain" and "wf_db d" and "upgrade_along ms d = Inr d'"
  shows "downgrade_along ms d' = Inr d"
  using assms
proof (induction ms arbitrary: d)
  case (Cons m ms)
  obtain e where e: "mg_upgrade m d = Inr e" and run: "upgrade_along ms e = Inr d'"
    using Cons.prems(3) by (auto simp: err_simps)
  have "downgrade_along ms d' = Inr e"
    using Cons.IH [OF _ keeps_wf [OF _ Cons.prems(2) e] run] Cons.prems(1) by simp
  then show ?case using restores [OF _ Cons.prems(2) e] Cons.prems(1) by simp
qed simp

end

text \<open>Eight revisions only issue schema operations and list the inverses in reverse order.\<close>

lemma ddl_restores:
  assumes "wf_db d" and "run_ops up d = Inr d'" and "map undo up = map Some (rev down)"
  shows "run_ops down d' = Inr d"
  using run_undo [OF assms] by simp

lemmas upgrade_defs =
  upgrade_0001_def upgrade_0002_def upgrade_0004_def upgrade_0005_def upgrade_0006_def
  upgrade_0007_def upgrade_0008_def upgrade_0009_def

lemmas create_defs =
  create_customers_def create_transactions_def create_recovery_cases_def create_recovery_attempts_def
  create_agent_decisions_def create_audit_events_def create_case_state_transitions_def
  create_provider_webhook_events_def create_recovery_evidence_def create_users_def
  create_customer_consents_def create_policy_decisions_def create_recovery_workflows_def
  create_workflow_steps_def create_recovery_executions_def

lemma downgrades_list_inverses:
  "map undo upgrade_0001 = map Some (rev downgrade_0001)"
  "map undo upgrade_0002 = map Some (rev downgrade_0002)"
  "map undo upgrade_0004 = map Some (rev downgrade_0004)"
  "map undo upgrade_0005 = map Some (rev downgrade_0005)"
  "map undo upgrade_0006 = map Some (rev downgrade_0006)"
  "map undo upgrade_0007 = map Some (rev downgrade_0007)"
  "map undo upgrade_0008 = map Some (rev downgrade_0008)"
  "map undo upgrade_0009 = map Some (rev downgrade_0009)"
  by (simp_all add: upgrade_defs create_defs downgrade_0001_def downgrade_0002_def downgrade_0004_def
      downgrade_0005_def downgrade_0006_def downgrade_0007_def downgrade_0008_def downgrade_0009_def
      col_default_def)

section \<open>Revision 0003\<close>

lemma cell_of_snoc [simp]: "c \<noteq> k \<Longrightarrow> cell_of (r @ [(k, v)]) c = cell_of r c"
  unfolding cell_of_def by (simp add: map_of_append map_add_def split: option.splits)

lemma fst_set_cell [simp]: "map fst (set_cell c v r) = map fst r"
  unfolding set_cell_def by (induction r) auto

lemma cell_of_set_cell_other [simp]: "c \<noteq> k \<Longrightarrow> cell_of (set_cell k v r) c = cell_of r c"
  unfolding cell_of_def set_cell_def by (induction r) (auto split: option.splits)

lemma cell_of_set_cell [simp]: "c \<in> fst ` set r \<Longrightarrow> cell_of (set_cell c v r) c = v"
  unfolding cell_of_def set_cell_def by (induction r) auto

lemma drop_set_cell [simp]: "drop_cell c (set_cell c v r) = drop_cell c r"
  unfolding drop_cell_def set_cell_def by (induction r) auto

text \<open>The numbers the loop hands out, as a list of ids and numbers.\<close>

fun numbering :: "row list \<Rightarrow> (cell \<Rightarrow> int option) \<Rightarrow> (cell \<times> int) list" where
  "numbering [] counters = []"
| "numbering (r # rs) counters =
     (let k = cell_of r ''case_id''; n = (case counters k of None \<Rightarrow> 0 | Some m \<Rightarrow> m) + 1
      in (cell_of r ''id'', n) # numbering rs (counters(k \<mapsto> n)))"

lemma fst_numbering [simp]: "map fst (numbering rs counters) = map (\<lambda>r. cell_of r ''id'') rs"
  by (induction rs arbitrary: counters) (simp_all add: Let_def del: fun_upd_apply)

lemma numbering_ids: "fst ` set (numbering rs counters) = (\<lambda>r. cell_of r ''id'') ` set rs"
  using arg_cong [OF fst_numbering [of rs counters], of set] by (simp del: fst_numbering)

text \<open>The loop changes nothing but the numbers.\<close>

lemma number_rows_keeps:
  assumes "\<And>n x. f (set_cell ''sequence_number'' (Num n) x) = f x"
  shows "map f (number_rows sel counters rows) = map f rows"
proof (induction sel arbitrary: counters rows)
  case (Cons r sel)
  have "map f (map (\<lambda>x. if P x then set_cell ''sequence_number'' (Num n) x else x) rows) = map f rows" for P n
    by (simp add: assms)
  then show ?case using Cons by (simp add: Let_def del: fun_upd_apply map_map)
qed simp

definition renumber :: "(cell \<times> int) list \<Rightarrow> row \<Rightarrow> row" where
  "renumber ns x =
     (case map_of ns (cell_of x ''id'') of None \<Rightarrow> x | Some n \<Rightarrow> set_cell ''sequence_number'' (Num n) x)"

definition counted :: "(cell \<Rightarrow> int option) \<Rightarrow> cell \<Rightarrow> int" where
  "counted counters k = (case counters k of None \<Rightarrow> 0 | Some m \<Rightarrow> m)"

lemma number_rows_numbering:
  assumes "distinct (map (\<lambda>r. cell_of r ''id'') sel)"
  shows "number_rows sel counters rows = map (renumber (numbering sel counters)) rows"
  using assms
proof (induction sel arbitrary: counters rows)
  case Nil
  then show ?case by (simp add: renumber_def map_idI)
next
  case (Cons r rs)
  let ?k = "cell_of r ''case_id''"
  let ?n = "counted counters ?k + 1"
  let ?upd = "\<lambda>x. if cell_of x ''id'' = cell_of r ''id'' then set_cell ''sequence_number'' (Num ?n) x else x"
  have num: "numbering (r # rs) counters = (cell_of r ''id'', ?n) # numbering rs (counters(?k \<mapsto> ?n))"
    by (simp add: Let_def counted_def)
  have none: "map_of (numbering rs c) (cell_of r ''id'') = None" for c
    using Cons.prems by (simp add: map_of_eq_None_iff numbering_ids)
  have "number_rows (r # rs) counters rows = number_rows rs (counters(?k \<mapsto> ?n)) (map ?upd rows)"
    by (simp only: number_rows.simps Let_def counted_def)
  also have "\<dots> = map (renumber (numbering rs (counters(?k \<mapsto> ?n)))) (map ?upd rows)"
    using Cons by (intro Cons.IH) simp
  also have "\<dots> = map (renumber (numbering (r # rs) counters)) rows"
    unfolding num using none by (auto simp: renumber_def)
  finally show ?case .
qed

lemma numbering_of_case:
  assumes "distinct (map (\<lambda>r. cell_of r ''id'') sel)"
  shows "map (\<lambda>r. the (map_of (numbering sel counters) (cell_of r ''id''))) (filter (\<lambda>r. cell_of r ''case_id'' = c) sel)
       = map (\<lambda>i. counted counters c + 1 + int i) [0..<length (filter (\<lambda>r. cell_of r ''case_id'' = c) sel)]"
  using assms
proof (induction sel arbitrary: counters)
  case (Cons r rs)
  let ?k = "cell_of r ''case_id''" and ?P = "\<lambda>r. cell_of r ''case_id'' = c"
  let ?cs = "counters(?k \<mapsto> counted counters ?k + 1)"
  have num: "numbering (r # rs) counters = (cell_of r ''id'', counted counters ?k + 1) # numbering rs ?cs"
    by (simp add: Let_def counted_def)
  have rest: "map (\<lambda>x. the (map_of (numbering (r # rs) counters) (cell_of x ''id''))) (filter ?P rs)
      = map (\<lambda>i. counted ?cs c + 1 + int i) [0..<length (filter ?P rs)]"
  proof -
    have "map (\<lambda>x. the (map_of (numbering (r # rs) counters) (cell_of x ''id''))) (filter ?P rs)
        = map (\<lambda>x. the (map_of (numbering rs ?cs) (cell_of x ''id''))) (filter ?P rs)"
      using Cons.prems unfolding num by (intro map_cong) (auto simp: rev_image_eqI)
    also have "\<dots> = map (\<lambda>i. counted ?cs c + 1 + int i) [0..<length (filter ?P rs)]"
      using Cons.prems by (intro Cons.IH) simp
    finally show ?thesis .
  qed
  show ?case
  proof (cases "?P r")
    case True
    then have "counted ?cs c = counted counters c + 1" by (simp add: counted_def)
    then show ?thesis using rest True
      by (simp add: num upt_conv_Cons map_Suc_upt [symmetric] o_def algebra_simps
          del: upt_Suc numbering.simps)
  next
    case False
    then have "counted ?cs c = counted counters c" by (simp add: counted_def)
    then show ?thesis using rest False by (simp add: num del: numbering.simps)
  qed
qed simp

lemma sort_key_constant_prefix:
  assumes "\<forall>x \<in> set xs. f x = a"
  shows "sort_key (\<lambda>x. (f x, g x)) xs = sort_key g xs"
  using assms
proof (induction xs)
  case (Cons x xs)
  have "insort_key (\<lambda>x. (f x, g x)) x ys = insort_key g x ys" if "\<forall>y \<in> set ys. f y = f x" for ys
    using that by (induction ys) auto
  then show ?case using Cons by simp
qed simp

text \<open>What the table of transitions becomes.\<close>

definition sequenced_rows :: "row list \<Rightarrow> row list" where
  "sequenced_rows rows =
     (let rows1 = map (\<lambda>r. r @ [(''sequence_number'', Null)]) rows
      in number_rows (transition_query rows1) (\<lambda>_. None) rows1)"

definition sequenced :: "table_def \<Rightarrow> table_def" where
  "sequenced t =
     t\<lparr>tb_columns := tb_columns t @ [col ''sequence_number'' Integer_T False],
       tb_rows := sequenced_rows (tb_rows t),
       tb_uniques := tb_uniques t @ [(''uq_transition_case_sequence'', [''case_id'', ''sequence_number''])]\<rparr>"

text \<open>The cases in which revision 0003 applies: all that its operations check.\<close>

definition sequenceable :: "table_def \<Rightarrow> bool" where
  "sequenceable t \<longleftrightarrow>
     ''sequence_number'' \<notin> set (column_names t) \<and> ''case_id'' \<in> set (column_names t)
       \<and> ''uq_transition_case_sequence'' \<notin> fst ` set (tb_uniques t)
       \<and> (\<forall>r \<in> set (sequenced_rows (tb_rows t)). cell_of r ''sequence_number'' \<noteq> Null)
       \<and> unique_on [''case_id'', ''sequence_number''] (sequenced_rows (tb_rows t))"

lemma update_table_comp:
  assumes "\<And>t. tb_name (f t) = tb_name t"
  shows "update_table n g (update_table n f d) = update_table n (\<lambda>t. g (f t)) d"
  unfolding update_table_def using assms by simp

lemma update_table_cong:
  assumes "distinct (table_names d)" and "find_table n d = Some t" and "f t = g t"
  shows "update_table n f d = update_table n g d"
proof -
  have "s = t" if "s \<in> set d" "tb_name s = n" for s
    using that assms(2) find_table_unique [OF assms(1) that(1)] by simp
  then show ?thesis unfolding update_table_def using assms(3) by auto
qed

lemma upgrade_0003_eq:
  assumes "wf_db d" and t: "find_table ''case_state_transitions'' d = Some t"
  shows "upgrade_0003 d = Inr d' \<longleftrightarrow>
     sequenceable t \<and> d' = update_table ''case_state_transitions'' sequenced d"
proof -
  let ?n = "''case_state_transitions''" and ?s = "''sequence_number''"
  let ?f1 = "\<lambda>t. t\<lparr>tb_columns := tb_columns t @ [col ?s Integer_T True],
              tb_rows := map (\<lambda>r. r @ [(?s, Null)]) (tb_rows t)\<rparr>"
  let ?f2 = "\<lambda>t. t\<lparr>tb_rows := number_rows (transition_query (tb_rows t)) (\<lambda>_. None) (tb_rows t)\<rparr>"
  let ?f3 = "\<lambda>t. t\<lparr>tb_columns := map (\<lambda>k. if cl_name k = ?s then k\<lparr>cl_nullable := False\<rparr> else k) (tb_columns t)\<rparr>"
  let ?f4 = "\<lambda>t. t\<lparr>tb_uniques := tb_uniques t @ [(''uq_transition_case_sequence'', [''case_id'', ?s])]\<rparr>"
  have dist: "distinct (table_names d)" using assms(1) unfolding wf_db_def by simp
  have find1: "find_table ?n (update_table ?n f d) = Some (f t)" if "\<And>t. tb_name (f t) = tb_name t" for f
    using find_update_table [OF that t] .
  have rows: "tb_rows (?f2 (?f1 t)) = sequenced_rows (tb_rows t)"
    by (simp add: sequenced_rows_def Let_def)
  have comp: "?f4 (?f3 (?f2 (?f1 t))) = sequenced t" if "?s \<notin> set (column_names t)"
  proof -
    have "map (\<lambda>k. if cl_name k = ?s then k\<lparr>cl_nullable := False\<rparr> else k) (tb_columns t) = tb_columns t"
      using that unfolding column_names_def by (intro map_idI) (metis image_eqI list.set_map)
    then show ?thesis by (simp add: sequenced_def sequenced_rows_def Let_def col_def)
  qed
  then have "update_table ?n (\<lambda>t. ?f4 (?f3 (?f2 (?f1 t)))) d = update_table ?n sequenced d"
    if "?s \<notin> set (column_names t)" using update_table_cong [OF dist t, of "\<lambda>t. ?f4 (?f3 (?f2 (?f1 t)))" sequenced] that by simp
  then show ?thesis
    using rows unfolding upgrade_0003_def number_transitions_def sequenceable_def
    by (auto simp: err_simps with_table_Inr t find1 update_table_comp addable_def default_cell_def col_def
        column_names_def split: if_splits)
qed

lemma upgrade_0003_table: "upgrade_0003 d = Inr d' \<Longrightarrow> \<exists>t. find_table ''case_state_transitions'' d = Some t"
  by (auto simp: upgrade_0003_def err_simps with_table_Inr)

lemma sequenced_rows_fst:
  assumes "\<forall>r \<in> set rows. map fst r = cs"
  shows "\<forall>r \<in> set (sequenced_rows rows). map fst r = cs @ [''sequence_number'']"
proof
  fix r assume r: "r \<in> set (sequenced_rows rows)"
  have "map (map fst) (sequenced_rows rows) = map (map fst) (map (\<lambda>r. r @ [(''sequence_number'', Null)]) rows)"
    unfolding sequenced_rows_def Let_def by (rule number_rows_keeps) simp
  also have "\<dots> = map (\<lambda>_. cs @ [''sequence_number'']) rows" using assms by simp
  finally have "map fst ` set (sequenced_rows rows) = (\<lambda>_. cs @ [''sequence_number'']) ` set rows"
    by (metis list.set_map)
  then show "map fst r = cs @ [''sequence_number'']" using r by auto
qed

lemma sequenced_rows_drop:
  assumes "\<forall>r \<in> set rows. ''sequence_number'' \<notin> fst ` set r"
  shows "map (drop_cell ''sequence_number'') (sequenced_rows rows) = rows"
proof -
  have "map (drop_cell ''sequence_number'') (sequenced_rows rows)
      = map (drop_cell ''sequence_number'') (map (\<lambda>r. r @ [(''sequence_number'', Null)]) rows)"
    unfolding sequenced_rows_def Let_def by (rule number_rows_keeps) simp
  also have "\<dots> = rows" using assms by (simp add: drop_new_cell map_idI)
  finally show ?thesis .
qed

lemma upgrade_0003_wf:
  assumes "wf_db d" and "upgrade_0003 d = Inr d'"
  shows "wf_db d'"
proof -
  obtain t where t: "find_table ''case_state_transitions'' d = Some t" using upgrade_0003_table [OF assms(2)] ..
  have s: "sequenceable t" and d': "d' = update_table ''case_state_transitions'' sequenced d"
    using assms upgrade_0003_eq [OF assms(1) t] by auto
  have wft: "wf_table t" using assms(1) find_table_Some [OF t] unfolding wf_db_def by blast
  have names: "column_names (sequenced t) = column_names t @ [''sequence_number'']"
    by (simp add: sequenced_def column_names_def col_def)
  have "set (used_columns (sequenced t)) = set (used_columns t) \<union> {''case_id'', ''sequence_number''}"
    by (auto simp: sequenced_def used_columns_def)
  then have "set (used_columns (sequenced t)) \<subseteq> set (column_names (sequenced t))"
    using wft s unfolding wf_table_def sequenceable_def names by (simp add: subset_insertI2)
  moreover have "\<forall>r \<in> set (tb_rows (sequenced t)). map fst r = column_names (sequenced t)"
    using sequenced_rows_fst [of "tb_rows t" "column_names t"] wft
    unfolding wf_table_def names by (simp add: sequenced_def)
  ultimately have "wf_table (sequenced t)"
    using wft s unfolding wf_table_def sequenceable_def names by simp
  then show ?thesis unfolding d' by (rule update_table_wf [OF assms(1) t]) (simp_all add: sequenced_def)
qed

lemma downgrade_0003_restores:
  assumes "wf_db d" and "upgrade_0003 d = Inr d'"
  shows "run_ops downgrade_0003 d' = Inr d"
proof -
  let ?n = "''case_state_transitions''" and ?s = "''sequence_number''" and ?u = "''uq_transition_case_sequence''"
  let ?g = "\<lambda>t. t\<lparr>tb_uniques := filter (\<lambda>p. fst p \<noteq> ?u) (tb_uniques t)\<rparr>"
  let ?h = "\<lambda>t. t\<lparr>tb_columns := filter (\<lambda>k. cl_name k \<noteq> ?s) (tb_columns t), tb_rows := map (drop_cell ?s) (tb_rows t)\<rparr>"
  obtain t where t: "find_table ?n d = Some t" using upgrade_0003_table [OF assms(2)] ..
  have s: "sequenceable t" and d': "d' = update_table ?n sequenced d"
    using assms upgrade_0003_eq [OF assms(1) t] by auto
  have dist: "distinct (table_names d)" using assms(1) unfolding wf_db_def by simp
  have wft: "wf_table t" using assms(1) find_table_Some [OF t] unfolding wf_db_def by blast
  have name: "tb_name (sequenced x) = tb_name x" for x by (simp add: sequenced_def)
  have fresh: "?s \<notin> set (column_names t)" "?u \<notin> fst ` set (tb_uniques t)" using s unfolding sequenceable_def by auto
  have "\<forall>r \<in> set (tb_rows t). ?s \<notin> fst ` set r" using wft fresh(1) unfolding wf_table_def by (metis list.set_map)
  note drop = sequenced_rows_drop [OF this]
  have cols: "filter (\<lambda>k. cl_name k \<noteq> ?s) (tb_columns t) = tb_columns t"
    using fresh(1) unfolding column_names_def filter_id_conv by (metis image_eqI list.set_map)
  have uq: "filter (\<lambda>p. fst p \<noteq> ?u) (tb_uniques t) = tb_uniques t" using filter_fresh [OF fresh(2)] .
  have restored: "?h (?g (sequenced t)) = t" unfolding sequenced_def
    by (simp add: drop cols uq col_def)
  have unused: "?s \<notin> set (used_columns (?g (sequenced t)))"
    using wft fresh(1) uq unfolding wf_table_def by (auto simp: used_columns_def sequenced_def)
  have f1: "find_table ?n d' = Some (sequenced t)" unfolding d' by (rule find_update_table [OF name t])
  have f2: "find_table ?n (update_table ?n ?g d') = Some (?g (sequenced t))"
    by (rule find_update_table [OF _ f1]) simp
  have u_in: "?u \<in> fst ` set (tb_uniques (sequenced t))" by (simp add: sequenced_def)
  have s_in: "?s \<in> set (column_names (?g (sequenced t)))" by (simp add: sequenced_def column_names_def col_def)
  have "update_table ?n ?h (update_table ?n ?g d') = update_table ?n (\<lambda>x. ?h (?g x)) d'"
    by (rule update_table_comp) simp
  also have "\<dots> = d" unfolding d'
    by (rule update_table_undo [OF dist t, where g = "\<lambda>x. ?h (?g x)" and f = sequenced, OF restored name])
  finally have "update_table ?n ?h (update_table ?n ?g d') = d" .
  then show ?thesis using u_in s_in unused
    by (simp add: downgrade_0003_def with_table_def f1 f2)
qed

lemma sequenced_rows_numbered:
  assumes ids: "distinct (map (\<lambda>r. cell_of r ''id'') rows)"
  defines "rows1 \<equiv> map (\<lambda>r. r @ [(''sequence_number'', Null)]) rows"
  shows "sequenced_rows rows =
    map (\<lambda>r. set_cell ''sequence_number''
               (Num (the (map_of (numbering (transition_query rows1) (\<lambda>_. None)) (cell_of r ''id'')))) r) rows1"
proof -
  let ?ns = "numbering (transition_query rows1) (\<lambda>_. None)"
  have "distinct (map (\<lambda>r. cell_of r ''id'') rows1)"
    using ids unfolding rows1_def by (simp add: o_def)
  then have d: "distinct (map (\<lambda>r. cell_of r ''id'') (transition_query rows1))"
    unfolding transition_query_def by (simp add: distinct_map)
  have "renumber ?ns r = set_cell ''sequence_number'' (Num (the (map_of ?ns (cell_of r ''id'')))) r"
    if "r \<in> set rows1" for r
  proof -
    have "cell_of r ''id'' \<in> fst ` set ?ns"
      using that unfolding numbering_ids transition_query_def by simp
    then obtain n where "map_of ?ns (cell_of r ''id'') = Some n"
      by (metis map_of_eq_None_iff option.exhaust)
    then show ?thesis by (simp add: renumber_def)
  qed
  then show ?thesis
    unfolding sequenced_rows_def Let_def rows1_def [symmetric] number_rows_numbering [OF d] by simp
qed

text \<open>The transitions of one case, in the order they occurred.\<close>

definition transitions_in_order :: "cell \<Rightarrow> row list \<Rightarrow> row list" where
  "transitions_in_order c rows =
     sort_key (\<lambda>r. (cell_of r ''occurred_at'', cell_of r ''id'')) (filter (\<lambda>r. cell_of r ''case_id'' = c) rows)"

lemma transitions_in_order_query:
  "transitions_in_order c rows = filter (\<lambda>r. cell_of r ''case_id'' = c) (transition_query rows)"
proof -
  have "filter (\<lambda>r. cell_of r ''case_id'' = c) (transition_query rows)
      = sort_key (\<lambda>r. (cell_of r ''case_id'', cell_of r ''occurred_at'', cell_of r ''id''))
          (filter (\<lambda>r. cell_of r ''case_id'' = c) rows)"
    unfolding transition_query_def by (rule filter_sort)
  also have "\<dots> = transitions_in_order c rows"
    unfolding transitions_in_order_def by (rule sort_key_constant_prefix [where a = c]) simp
  finally show ?thesis ..
qed

lemma transition_query_ids:
  "distinct (map (\<lambda>r. cell_of r ''id'') rows) \<Longrightarrow> distinct (map (\<lambda>r. cell_of r ''id'') (transition_query rows))"
  unfolding transition_query_def by (simp add: distinct_map)

lemma sequence_numbers_per_case:
  assumes ids: "distinct (map (\<lambda>r. cell_of r ''id'') rows)"
  shows "map (\<lambda>r. cell_of r ''sequence_number'') (transitions_in_order c (sequenced_rows rows))
       = map (\<lambda>i. Num (int i + 1)) [0..<length (filter (\<lambda>r. cell_of r ''case_id'' = c) rows)]"
proof -
  let ?s = "''sequence_number''" and ?P = "\<lambda>r. cell_of r ''case_id'' = c"
  define rows1 where "rows1 = map (\<lambda>r. r @ [(?s, Null)]) rows"
  let ?ns = "numbering (transition_query rows1) (\<lambda>_. None)"
  let ?f = "\<lambda>r. set_cell ?s (Num (the (map_of ?ns (cell_of r ''id'')))) r"
  have rows: "sequenced_rows rows = map ?f rows1"
    using sequenced_rows_numbered [OF ids] unfolding rows1_def .
  have ids1: "distinct (map (\<lambda>r. cell_of r ''id'') rows1)" using ids unfolding rows1_def by (simp add: o_def)
  have "transitions_in_order c (sequenced_rows rows) = map ?f (transitions_in_order c rows1)"
    unfolding rows transitions_in_order_def filter_map by (simp add: o_def sort_key_map)
  then have "map (\<lambda>r. cell_of r ?s) (transitions_in_order c (sequenced_rows rows))
      = map (\<lambda>r. cell_of (?f r) ?s) (transitions_in_order c rows1)" by (simp add: o_def)
  also have "\<dots> = map (\<lambda>r. Num (the (map_of ?ns (cell_of r ''id'')))) (transitions_in_order c rows1)"
  proof (rule map_cong [OF refl])
    fix r assume "r \<in> set (transitions_in_order c rows1)"
    then have "?s \<in> fst ` set r" unfolding transitions_in_order_def rows1_def by auto
    then show "cell_of (?f r) ?s = Num (the (map_of ?ns (cell_of r ''id'')))" by simp
  qed
  also have "\<dots> = map Num (map (\<lambda>r. the (map_of ?ns (cell_of r ''id''))) (filter ?P (transition_query rows1)))"
    by (simp add: transitions_in_order_query)
  also have "\<dots> = map Num (map (\<lambda>i. 1 + int i) [0..<length (filter ?P (transition_query rows1))])"
    using numbering_of_case [OF transition_query_ids [OF ids1], of "\<lambda>_. None" c] by (simp add: counted_def)
  also have "length (filter ?P (transition_query rows1)) = length (filter ?P rows)"
    unfolding transitions_in_order_query [symmetric] transitions_in_order_def rows1_def
    by (simp add: filter_map o_def)
  finally show ?thesis by (simp add: o_def add.commute)
qed

lemma distinct_nth_map: "distinct (map f xs) \<Longrightarrow> x \<in> set xs \<Longrightarrow> y \<in> set xs \<Longrightarrow> f x = f y \<Longrightarrow> x = y"
  by (auto simp: distinct_map dest: inj_onD)

lemma sequence_numbers_unique:
  assumes ids: "distinct (map (\<lambda>r. cell_of r ''id'') rows)"
  shows "unique_on [''case_id'', ''sequence_number''] (sequenced_rows rows)"
proof -
  let ?xs = "sequenced_rows rows"
  have "map (\<lambda>r. cell_of r ''id'') ?xs = map (\<lambda>r. cell_of r ''id'') rows"
    unfolding sequenced_rows_numbered [OF ids] by (simp add: o_def)
  then have "distinct (map (\<lambda>r. cell_of r ''id'') ?xs)" using ids by simp
  then have xs: "distinct ?xs" by (simp add: distinct_map)
  have "x = y" if "x \<in> set ?xs" "y \<in> set ?xs"
    and "map (cell_of x) [''case_id'', ''sequence_number''] = map (cell_of y) [''case_id'', ''sequence_number'']" for x y
  proof -
    let ?c = "cell_of x ''case_id''"
    have "distinct (map (\<lambda>r. cell_of r ''sequence_number'') (transitions_in_order ?c ?xs))"
      unfolding sequence_numbers_per_case [OF ids] by (simp add: distinct_map inj_on_def)
    moreover have "x \<in> set (transitions_in_order ?c ?xs)" "y \<in> set (transitions_in_order ?c ?xs)"
      using that unfolding transitions_in_order_def by auto
    ultimately show ?thesis using distinct_nth_map that(3) by fastforce
  qed
  then have "inj_on (\<lambda>r. map (cell_of r) [''case_id'', ''sequence_number'']) (set ?xs)"
    by (intro inj_onI) blast
  then have "distinct (map (\<lambda>r. map (cell_of r) [''case_id'', ''sequence_number'']) ?xs)"
    using xs by (simp add: distinct_map)
  then show ?thesis unfolding unique_on_def by (rule distinct_map_filter)
qed

lemma sequenceableI:
  assumes "''sequence_number'' \<notin> set (column_names t)" and "''case_id'' \<in> set (column_names t)"
    and "''uq_transition_case_sequence'' \<notin> fst ` set (tb_uniques t)"
    and ids: "distinct (map (\<lambda>r. cell_of r ''id'') (tb_rows t))"
  shows "sequenceable t"
proof -
  have "cell_of r ''sequence_number'' \<noteq> Null" if "r \<in> set (sequenced_rows (tb_rows t))" for r
    using that unfolding sequenced_rows_numbered [OF ids] by auto
  then show ?thesis using assms sequence_numbers_unique [OF ids] unfolding sequenceable_def by simp
qed

section \<open>The chain as a whole\<close>

lemmas migration_defs =
  migration_0001_def migration_0002_def migration_0003_def migration_0004_def migration_0005_def
  migration_0006_def migration_0007_def migration_0008_def migration_0009_def

text \<open>Every revision names the one before it, and no two revisions share a name.\<close>

lemma migrations_linked:
  "map mg_down_revision migrations = None # map (\<lambda>m. Some (mg_revision m)) (butlast migrations)"
  "distinct (map mg_revision migrations)"
  by (simp_all add: migrations_def migration_defs)

interpretation chain: migration_chain migrations
proof
  fix m d d' assume m: "m \<in> set migrations" and wf: "wf_db d" and up: "mg_upgrade m d = Inr d'"
  then consider (ddl) ups downs where "mg_upgrade m = run_ops ups" "mg_downgrade m = run_ops downs"
      "map undo ups = map Some (rev downs)"
    | (data) "m = migration_0003"
    using downgrades_list_inverses by (auto simp: migrations_def migration_defs)
  then show "wf_db d'"
    using up run_wf [OF wf] upgrade_0003_wf [OF wf] by cases (auto simp: migration_0003_def)
next
  fix m d d' assume m: "m \<in> set migrations" and wf: "wf_db d" and up: "mg_upgrade m d = Inr d'"
  then consider (ddl) ups downs where "mg_upgrade m = run_ops ups" "mg_downgrade m = run_ops downs"
      "map undo ups = map Some (rev downs)"
    | (data) "m = migration_0003"
    using downgrades_list_inverses by (auto simp: migrations_def migration_defs)
  then show "mg_downgrade m d' = Inr d"
    using up ddl_restores [OF wf] downgrade_0003_restores [OF wf] by cases (auto simp: migration_0003_def)
qed

text \<open>C12: on a database with any rows, upgrading along any part of the chain
  of revisions and downgrading along it again gives the same database, every table, constraint,
  index and row as it was.
\<close>

theorem migrations_round_trip:
  assumes "wf_db d" and "upgrade_along (take k (drop j migrations)) d = Inr d'"
  shows "downgrade_along (take k (drop j migrations)) d' = Inr d"
proof (rule chain.round_trip [OF _ assms])
  show "set (take k (drop j migrations)) \<subseteq> set migrations"
    using set_take_subset set_drop_subset by fast
qed

text \<open>A database at revision 0002 with the transitions of two cases, stored out of order.\<close>

definition demo_transition :: "string \<Rightarrow> string \<Rightarrow> int \<Rightarrow> row" where
  "demo_transition i c ts =
     [(''id'', Txt i), (''case_id'', Txt c), (''from_state'', Null), (''to_state'', Txt ''closed''),
      (''reason_code'', Txt ''r''), (''actor_type'', Txt ''system''), (''correlation_id'', Txt ''x''),
      (''occurred_at'', Num ts), (''metadata'', Txt ''{}'')]"

definition demo_stored :: database where
  "demo_stored =
     (case upgrade_along (take 2 migrations) [] of
        Inl _ \<Rightarrow> []
      | Inr d \<Rightarrow> update_table ''case_state_transitions''
                 (\<lambda>t. t\<lparr>tb_rows := [demo_transition ''t1'' ''a'' 30, demo_transition ''t2'' ''b'' 20,
                                  demo_transition ''t3'' ''a'' 10]\<rparr>) d)"

definition demo_upgraded :: database where
  "demo_upgraded = (case upgrade_0003 demo_stored of Inl _ \<Rightarrow> [] | Inr d \<Rightarrow> d)"

definition demo_table :: table_def where
  "demo_table =
     (case find_table ''case_state_transitions'' demo_stored of None \<Rightarrow> new_table [] [] | Some t \<Rightarrow> t)"

lemma demo_stored_wf: "wf_db demo_stored"
  by code_simp

lemma demo_stored_upgrades: "upgrade_0003 demo_stored = Inr demo_upgraded"
  by code_simp

lemma demo_stored_table: "find_table ''case_state_transitions'' demo_stored = Some demo_table"
  by code_simp

theorem migrations_round_trip_witness:
  "upgrade_along (take 1 (drop 2 migrations)) demo_stored = Inr demo_upgraded
    \<and> downgrade_along (take 1 (drop 2 migrations)) demo_upgraded = Inr demo_stored"
proof -
  have "upgrade_along (take 1 (drop 2 migrations)) demo_stored = Inr demo_upgraded"
    using demo_stored_upgrades by (simp add: migrations_def migration_0003_def)
  then show ?thesis using migrations_round_trip [OF demo_stored_wf] by blast
qed

text \<open>C11: revision 0003 never fails on stored transitions with distinct
  ids: the column is added, filled, made NOT NULL and unique with its case. Of the stored rows
  only the number is new, and the transitions of each case carry the numbers 1, 2, ... in the order
  of their time (and id), as the transition service goes on counting.
\<close>

theorem stored_transitions_are_numbered:
  assumes "wf_db d" and t: "find_table ''case_state_transitions'' d = Some t"
    and "''sequence_number'' \<notin> set (column_names t)" and "''case_id'' \<in> set (column_names t)"
    and "''uq_transition_case_sequence'' \<notin> fst ` set (tb_uniques t)"
    and ids: "distinct (map (\<lambda>r. cell_of r ''id'') (tb_rows t))"
  shows "\<exists>d' t'. upgrade_0003 d = Inr d' \<and> find_table ''case_state_transitions'' d' = Some t'
    \<and> map (drop_cell ''sequence_number'') (tb_rows t') = tb_rows t
    \<and> unique_on [''case_id'', ''sequence_number''] (tb_rows t')
    \<and> (\<forall>c. map (\<lambda>r. cell_of r ''sequence_number'') (transitions_in_order c (tb_rows t'))
           = map (\<lambda>i. Num (int i + 1)) [0..<length (filter (\<lambda>r. cell_of r ''case_id'' = c) (tb_rows t))])"
proof -
  let ?d' = "update_table ''case_state_transitions'' sequenced d"
  have rows: "tb_rows (sequenced t) = sequenced_rows (tb_rows t)" by (simp add: sequenced_def)
  have "wf_table t" using assms(1) find_table_Some [OF t] unfolding wf_db_def by blast
  then have "\<forall>r \<in> set (tb_rows t). ''sequence_number'' \<notin> fst ` set r"
    using assms(3) unfolding wf_table_def by (metis list.set_map)
  note drop = sequenced_rows_drop [OF this]
  have "upgrade_0003 d = Inr ?d'" using upgrade_0003_eq [OF assms(1) t] sequenceableI assms(3-6) by blast
  moreover have "find_table ''case_state_transitions'' ?d' = Some (sequenced t)"
    by (rule find_update_table [OF _ t]) (simp add: sequenced_def)
  ultimately show ?thesis
    using drop sequence_numbers_unique [OF ids] sequence_numbers_per_case [OF ids]
    by (intro exI [of _ ?d'] exI [of _ "sequenced t"]) (simp only: rows simp_thms)
qed

theorem stored_transitions_are_numbered_witness:
  "\<exists>d' t'. upgrade_0003 demo_stored = Inr d' \<and> find_table ''case_state_transitions'' d' = Some t'
    \<and> length (tb_rows t') = 3
    \<and> map (\<lambda>r. cell_of r ''sequence_number'') (transitions_in_order (Txt ''a'') (tb_rows t')) = [Num 1, Num 2]"
proof -
  have rows: "tb_rows demo_table
      = [demo_transition ''t1'' ''a'' 30, demo_transition ''t2'' ''b'' 20, demo_transition ''t3'' ''a'' 10]"
    by code_simp
  have pre: "''sequence_number'' \<notin> set (column_names demo_table)" "''case_id'' \<in> set (column_names demo_table)"
    "''uq_transition_case_sequence'' \<notin> fst ` set (tb_uniques demo_table)"
    by code_simp+
  have ids: "distinct (map (\<lambda>r. cell_of r ''id'') (tb_rows demo_table))"
    unfolding rows by (simp add: demo_transition_def cell_of_def)
  obtain d' t' where *: "upgrade_0003 demo_stored = Inr d'" "find_table ''case_state_transitions'' d' = Some t'"
    "map (drop_cell ''sequence_number'') (tb_rows t') = tb_rows demo_table"
    "map (\<lambda>r. cell_of r ''sequence_number'') (transitions_in_order (Txt ''a'') (tb_rows t'))
       = map (\<lambda>i. Num (int i + 1)) [0..<length (filter (\<lambda>r. cell_of r ''case_id'' = Txt ''a'') (tb_rows demo_table))]"
    using stored_transitions_are_numbered [OF demo_stored_wf demo_stored_table pre ids] by blast
  have "length (tb_rows t') = 3" using arg_cong [OF *(3), of length] by (simp add: rows)
  moreover have "length (filter (\<lambda>r. cell_of r ''case_id'' = Txt ''a'') (tb_rows demo_table)) = 2"
    unfolding rows by (simp add: demo_transition_def cell_of_def)
  ultimately show ?thesis using * by (auto simp: upt_rec)
qed

end
