(* ===== verification/Model_Schema.thy ===== *)
theory Model_Schema
  imports Migrations
begin

text \<open>
  The tables the ORM declares (\<open>models/domain.py\<close> with the mixins of \<open>core/database.py\<close>), one
  definition per class, and how they compare with the schema the migrations build.

  A \<open>Mapped\<close> enum is stored by its member names, a \<open>Mapped[datetime]\<close> without an explicit type is
  declared without a time zone, \<open>Mapped[Decimal]\<close> without a precision. An \<open>enum\<close> column of the
  migrations is not native: a VARCHAR as wide as its longest value.
\<close>

section \<open>The declared tables\<close>

definition declared :: "string \<Rightarrow> table_item list \<Rightarrow> (string \<times> string list) list \<Rightarrow> table_def" where
  "declared n items indexes = (new_table n items)\<lparr>tb_indexes := indexes\<rparr>"

definition model_customers :: table_def where
  "model_customers =
     declared ''customers''
      [Column (col ''id'' Uuid_T False),
       Column (col ''created_at'' (DateTime_T True) False),
       Column (col ''updated_at'' (DateTime_T True) False),
       Column (col ''provider'' (String_T 64) False),
       Column (col ''external_customer_id'' (String_T 128) False),
       Column (col ''email'' (String_T 320) True),
       Column (col ''display_name'' (String_T 200) True),
       Column (col ''status'' (Enum_T ''customerstatus'' [''ACTIVE'', ''INACTIVE'', ''RESTRICTED'']) False),
       Column (col ''metadata'' Json_T False),
       Primary_Key None [''id''],
       Unique ''uq_customer_provider_external'' [''provider'', ''external_customer_id'']]
      []"

definition model_customer_consents :: table_def where
  "model_customer_consents =
     declared ''customer_consents''
      [Column (col ''id'' Uuid_T False),
       Column (col ''created_at'' (DateTime_T True) False),
       Column (col ''updated_at'' (DateTime_T True) False),
       Column (col ''customer_id'' Uuid_T False),
       Column (col ''consent_type'' (Enum_T ''consenttype'' [''RECURRING_BILLING'', ''COMMUNICATION_EMAIL'', ''COMMUNICATION_SMS'']) False),
       Column (col ''status'' (Enum_T ''consentstatus'' [''GRANTED'', ''REVOKED'', ''EXPIRED'']) False),
       Column (col ''merchant_id'' (String_T 128) True),
       Column (col ''granted_at'' (DateTime_T False) False),
       Column (col ''revoked_at'' (DateTime_T False) True),
       Column (col ''expires_at'' (DateTime_T False) True),
       Column (col ''source'' (String_T 120) False),
       Column (col ''evidence_reference'' (String_T 255) True),
       Column (col ''version'' Integer_T False),
       Primary_Key None [''id''],
       Foreign_Key (references [''customer_id''] ''customers'' [''id''] Cascade)]
      [(''ix_consent_customer_type'', [''customer_id'', ''consent_type'']),
       (''ix_consent_customer_status'', [''customer_id'', ''status''])]"

definition model_transactions :: table_def where
  "model_transactions =
     declared ''transactions''
      [Column (col ''id'' Uuid_T False),
       Column (col ''created_at'' (DateTime_T True) False),
       Column (col ''updated_at'' (DateTime_T True) False),
       Column (col ''customer_id'' Uuid_T False),
       Column (col ''provider'' (String_T 64) False),
       Column (col ''external_transaction_id'' (String_T 128) False),
       Column (col ''amount_minor'' Integer_T False),
       Column (col ''currency'' (String_T 3) False),
       Column (col ''status'' (Enum_T ''transactionstatus'' [''CREATED'', ''AUTHORIZED'', ''SUCCEEDED'', ''FAILED'', ''PENDING'', ''CANCELLED'', ''REFUNDED'', ''UNKNOWN'']) False),
       Column (col ''failure_code'' (String_T 100) True),
       Column (col ''failure_message_safe'' (String_T 500) True),
       Column (col ''occurred_at'' (DateTime_T False) False),
       Column (col ''metadata'' Json_T False),
       Primary_Key None [''id''],
       Foreign_Key (references [''customer_id''] ''customers'' [''id''] Restrict),
       Unique ''uq_transaction_provider_external'' [''provider'', ''external_transaction_id''],
       Check ''ck_transaction_amount_nonnegative'' ''amount_minor >= 0'',
       Check ''ck_transaction_currency'' ''length(currency) = 3 AND currency = upper(currency)'']
      [(''ix_transaction_status_occurred'', [''status'', ''occurred_at''])]"

definition model_recovery_cases :: table_def where
  "model_recovery_cases =
     declared ''recovery_cases''
      [Column (col ''id'' Uuid_T False),
       Column (col ''customer_id'' Uuid_T False),
       Column (col ''trigger_transaction_id'' Uuid_T False),
       Column (col ''case_key'' (String_T 200) False),
       Column (col ''state'' (Enum_T ''recoverycasestate'' [''DETECTED'', ''CONTEXT_READY'', ''AWAITING_DECISION'', ''ACTION_PENDING'', ''VERIFICATION_PENDING'', ''RECOVERED'', ''RETRY_ELIGIBLE'', ''ESCALATED'', ''STOPPED'', ''CLOSED'']) False),
       Column (col ''priority'' Integer_T False),
       Column (col ''opened_at'' (DateTime_T False) False),
       Column (col ''last_state_changed_at'' (DateTime_T False) False),
       Column (col ''closed_at'' (DateTime_T False) True),
       Column (col ''version'' Integer_T False),
       Column (col ''metadata'' Json_T False),
       Primary_Key None [''id''],
       Foreign_Key (references [''customer_id''] ''customers'' [''id''] Restrict),
       Foreign_Key (references [''trigger_transaction_id''] ''transactions'' [''id''] Restrict),
       Unique ''uq_recovery_case_key'' [''case_key'']]
      [(''ix_recovery_case_state_changed'', [''state'', ''last_state_changed_at'']),
       (''ix_recovery_case_customer'', [''customer_id''])]"

definition model_recovery_attempts :: table_def where
  "model_recovery_attempts =
     declared ''recovery_attempts''
      [Column (col ''id'' Uuid_T False),
       Column (col ''case_id'' Uuid_T False),
       Column (col ''sequence_number'' Integer_T False),
       Column (col ''status'' (Enum_T ''recoveryattemptstatus'' [''PLANNED'', ''STARTED'', ''SUCCEEDED'', ''FAILED'', ''UNCERTAIN'', ''CANCELLED'']) False),
       Column (col ''action_type'' (Enum_T ''actiontype'' [''NONE'', ''RETRY_PAYMENT'', ''SEND_REMINDER'', ''REQUEST_OPERATOR_REVIEW'', ''STOP'']) False),
       Column (col ''started_at'' (DateTime_T False) True),
       Column (col ''finished_at'' (DateTime_T False) True),
       Column (col ''outcome'' (String_T 100) True),
       Column (col ''provider_reference'' (String_T 200) True),
       Column (col ''idempotency_key'' (String_T 250) False),
       Column (col ''error_class'' (String_T 120) True),
       Column (col ''error_safe_message'' (String_T 500) True),
       Column (col ''metadata'' Json_T False),
       Primary_Key None [''id''],
       Foreign_Key (references [''case_id''] ''recovery_cases'' [''id''] Cascade),
       Unique ''uq_attempt_case_sequence'' [''case_id'', ''sequence_number''],
       Unique ''uq_attempt_idempotency_key'' [''idempotency_key'']]
      [(''ix_attempt_case_sequence'', [''case_id'', ''sequence_number''])]"

definition model_agent_decisions :: table_def where
  "model_agent_decisions =
     declared ''agent_decisions''
      [Column (col ''id'' Uuid_T False),
       Column (col ''case_id'' Uuid_T False),
       Column (col ''attempt_id'' Uuid_T True),
       Column (col ''decision_version'' Integer_T False),
       Column (col ''action_type'' (Enum_T ''actiontype'' [''NONE'', ''RETRY_PAYMENT'', ''SEND_REMINDER'', ''REQUEST_OPERATOR_REVIEW'', ''STOP'']) False),
       Column (col ''reason_code'' (String_T 120) False),
       Column (col ''rationale_safe'' (String_T 2000) True),
       Column (col ''confidence'' (Numeric_T None) True),
       Column (col ''raw_response_hash'' (String_T 128) True),
       Column (col ''validation_status'' (Enum_T ''decisionvalidationstatus'' [''NOT_VALIDATED'', ''VALID'', ''INVALID'', ''REJECTED_BY_POLICY'']) False),
       Primary_Key None [''id''],
       Foreign_Key (references [''case_id''] ''recovery_cases'' [''id''] Cascade),
       Foreign_Key (references [''attempt_id''] ''recovery_attempts'' [''id''] Set_Null),
       Check ''ck_decision_confidence'' ''confidence IS NULL OR (confidence >= 0 AND confidence <= 1)'']
      []"

definition model_policy_decisions :: table_def where
  "model_policy_decisions =
     declared ''policy_decisions''
      [Column (col ''id'' Uuid_T False),
       Column (col ''created_at'' (DateTime_T True) False),
       Column (col ''updated_at'' (DateTime_T True) False),
       Column (col ''case_id'' Uuid_T False),
       Column (col ''recommendation_id'' Uuid_T False),
       Column (col ''proposed_action'' (Enum_T ''actiontype'' [''NONE'', ''RETRY_PAYMENT'', ''SEND_REMINDER'', ''REQUEST_OPERATOR_REVIEW'', ''STOP'']) False),
       Column (col ''decision_status'' (Enum_T ''policydecisionstatus'' [''APPROVED'', ''REJECTED'', ''REQUIRES_REVIEW'', ''INSUFFICIENT_INFORMATION'']) False),
       Column (col ''policy_version'' (String_T 50) False),
       Column (col ''rule_results_json'' Json_T False),
       Column (col ''reasons_json'' Json_T False),
       Column (col ''actor_type'' (Enum_T ''actortype'' [''SYSTEM'', ''OPERATOR'', ''AGENT'', ''PROVIDER'', ''USER'', ''TEST'']) False),
       Column (col ''actor_id'' (String_T 200) True),
       Column (col ''idempotency_key'' (String_T 250) True),
       Column (col ''case_version'' Integer_T False),
       Column (col ''evaluated_at'' (DateTime_T False) False),
       Column (col ''metadata'' Json_T False),
       Primary_Key None [''id''],
       Foreign_Key (references [''case_id''] ''recovery_cases'' [''id''] Cascade),
       Foreign_Key (references [''recommendation_id''] ''agent_decisions'' [''id''] Cascade)]
      [(''ix_policy_decision_case_id'', [''case_id'']),
       (''ix_policy_decision_status'', [''decision_status'']),
       (''ix_policy_decision_idempotency'', [''case_id'', ''idempotency_key''])]"

definition model_audit_events :: table_def where
  "model_audit_events =
     declared ''audit_events''
      [Column (col ''id'' Uuid_T False),
       Column (col ''case_id'' Uuid_T False),
       Column (col ''event_type'' (String_T 120) False),
       Column (col ''from_state'' (Enum_T ''recoverycasestate'' [''DETECTED'', ''CONTEXT_READY'', ''AWAITING_DECISION'', ''ACTION_PENDING'', ''VERIFICATION_PENDING'', ''RECOVERED'', ''RETRY_ELIGIBLE'', ''ESCALATED'', ''STOPPED'', ''CLOSED'']) True),
       Column (col ''to_state'' (Enum_T ''recoverycasestate'' [''DETECTED'', ''CONTEXT_READY'', ''AWAITING_DECISION'', ''ACTION_PENDING'', ''VERIFICATION_PENDING'', ''RECOVERED'', ''RETRY_ELIGIBLE'', ''ESCALATED'', ''STOPPED'', ''CLOSED'']) True),
       Column (col ''actor_type'' (Enum_T ''actortype'' [''SYSTEM'', ''OPERATOR'', ''AGENT'', ''PROVIDER'', ''USER'', ''TEST'']) False),
       Column (col ''actor_id'' (String_T 200) True),
       Column (col ''correlation_id'' (String_T 200) False),
       Column (col ''event_time'' (DateTime_T False) False),
       Column (col ''payload_safe'' Json_T False),
       Column (col ''sequence_number'' Integer_T False),
       Primary_Key None [''id''],
       Foreign_Key (references [''case_id''] ''recovery_cases'' [''id''] Cascade),
       Unique ''uq_audit_case_sequence'' [''case_id'', ''sequence_number'']]
      [(''ix_audit_case_sequence'', [''case_id'', ''sequence_number''])]"

definition model_case_state_transitions :: table_def where
  "model_case_state_transitions =
     declared ''case_state_transitions''
      [Column (col ''id'' Uuid_T False),
       Column (col ''case_id'' Uuid_T False),
       Column (col ''from_state'' (Enum_T ''recoverycasestate'' [''DETECTED'', ''CONTEXT_READY'', ''AWAITING_DECISION'', ''ACTION_PENDING'', ''VERIFICATION_PENDING'', ''RECOVERED'', ''RETRY_ELIGIBLE'', ''ESCALATED'', ''STOPPED'', ''CLOSED'']) True),
       Column (col ''to_state'' (Enum_T ''recoverycasestate'' [''DETECTED'', ''CONTEXT_READY'', ''AWAITING_DECISION'', ''ACTION_PENDING'', ''VERIFICATION_PENDING'', ''RECOVERED'', ''RETRY_ELIGIBLE'', ''ESCALATED'', ''STOPPED'', ''CLOSED'']) False),
       Column (col ''reason_code'' (String_T 120) False),
       Column (col ''actor_type'' (Enum_T ''actortype'' [''SYSTEM'', ''OPERATOR'', ''AGENT'', ''PROVIDER'', ''USER'', ''TEST'']) False),
       Column (col ''correlation_id'' (String_T 200) False),
       Column (col ''occurred_at'' (DateTime_T False) False),
       Column (col ''sequence_number'' Integer_T False),
       Column (col ''metadata'' Json_T False),
       Primary_Key None [''id''],
       Foreign_Key (references [''case_id''] ''recovery_cases'' [''id''] Cascade),
       Unique ''uq_transition_case_sequence'' [''case_id'', ''sequence_number'']]
      [(''ix_transition_case_occurred'', [''case_id'', ''occurred_at''])]"

definition model_provider_webhook_events :: table_def where
  "model_provider_webhook_events =
     declared ''provider_webhook_events''
      [Column (col ''id'' Uuid_T False),
       Column (col ''created_at'' (DateTime_T True) False),
       Column (col ''updated_at'' (DateTime_T True) False),
       Column (col ''provider'' (String_T 64) False),
       Column (col ''external_event_id'' (String_T 200) False),
       Column (col ''event_type'' (String_T 160) False),
       Column (col ''payload_hash'' (String_T 128) False),
       Column (col ''signature_verified'' Boolean_T False),
       Column (col ''processed'' Boolean_T False),
       Column (col ''ingestion_status'' (String_T 32) False),
       Column (col ''payload_safe'' Json_T False),
       Primary_Key None [''id''],
       Unique ''uq_provider_event'' [''provider'', ''external_event_id'']]
      []"

definition model_recovery_evidence :: table_def where
  "model_recovery_evidence =
     declared ''recovery_evidence''
      [Column (col ''id'' Uuid_T False),
       Column (col ''created_at'' (DateTime_T True) False),
       Column (col ''updated_at'' (DateTime_T True) False),
       Column (col ''intervention_id'' (String_T 200) False),
       Column (col ''provider_event_id'' (String_T 200) False),
       Column (col ''failed_transaction_id'' (String_T 200) False),
       Column (col ''successful_transaction_id'' (String_T 200) False),
       Column (col ''amount_minor'' Integer_T False),
       Column (col ''currency'' (String_T 3) False),
       Column (col ''verified_at'' (DateTime_T False) False),
       Column (col ''attribution_window_hours'' Integer_T False),
       Column (col ''attribution_reason'' (String_T 200) False),
       Column (col ''attributable'' Boolean_T False),
       Column (col ''evidence_json'' Json_T False),
       Primary_Key None [''id''],
       Unique ''uq_recovery_evidence_provider_event'' [''provider_event_id''],
       Check ''ck_recovery_evidence_amount_nonnegative'' ''amount_minor >= 0'',
       Check ''ck_recovery_evidence_currency'' ''length(currency) = 3 AND currency = upper(currency)'']
      [(''ix_recovery_evidence_failed_transaction'', [''failed_transaction_id''])]"

definition model_users :: table_def where
  "model_users =
     declared ''users''
      [Column (col ''id'' Uuid_T False),
       Column (col ''created_at'' (DateTime_T True) False),
       Column (col ''updated_at'' (DateTime_T True) False),
       Column (col ''email'' (String_T 320) False),
       Column (col ''name'' (String_T 200) False),
       Column (col ''password_hash'' (String_T 255) False),
       Column (col ''role'' (Enum_T ''userrole'' [''ADMIN'', ''OPERATOR'', ''AUDITOR'', ''INGESTOR'']) False),
       Column (col ''status'' (Enum_T ''userstatus'' [''ACTIVE'', ''SUSPENDED'', ''INACTIVE'']) False),
       Column (col ''last_login_at'' (DateTime_T False) True),
       Primary_Key None [''id''],
       Unique ''uq_user_email'' [''email'']]
      [(''ix_user_email'', [''email'']),
       (''ix_user_role'', [''role''])]"

definition model_recovery_workflows :: table_def where
  "model_recovery_workflows =
     declared ''recovery_workflows''
      [Column (col ''id'' Uuid_T False),
       Column (col ''created_at'' (DateTime_T True) False),
       Column (col ''updated_at'' (DateTime_T True) False),
       Column (col ''case_id'' Uuid_T False),
       Column (col ''policy_decision_id'' Uuid_T False),
       Column (col ''status'' (Enum_T ''workflowstatus'' [''CREATED'', ''PENDING'', ''SCHEDULED'', ''RUNNING'', ''WAITING'', ''COMPLETED'', ''FAILED'', ''CANCELLED'', ''EXPIRED'', ''REQUIRES_REVIEW'']) False),
       Column (col ''strategy'' (String_T 100) False),
       Column (col ''current_step_index'' Integer_T False),
       Column (col ''max_steps'' Integer_T False),
       Column (col ''scheduled_for'' (DateTime_T False) True),
       Column (col ''expires_at'' (DateTime_T False) True),
       Column (col ''metadata'' Json_T False),
       Primary_Key None [''id''],
       Foreign_Key (references [''case_id''] ''recovery_cases'' [''id''] Cascade),
       Foreign_Key (references [''policy_decision_id''] ''policy_decisions'' [''id''] Restrict)]
      [(''ix_workflow_case_status'', [''case_id'', ''status'']),
       (''ix_workflow_policy_decision'', [''policy_decision_id''])]"

definition model_workflow_steps :: table_def where
  "model_workflow_steps =
     declared ''workflow_steps''
      [Column (col ''id'' Uuid_T False),
       Column (col ''created_at'' (DateTime_T True) False),
       Column (col ''updated_at'' (DateTime_T True) False),
       Column (col ''workflow_id'' Uuid_T False),
       Column (col ''step_index'' Integer_T False),
       Column (col ''step_type'' (Enum_T ''workflowsteptype'' [''VALIDATE_AUTHORIZATION'', ''WAIT_COOLDOWN'', ''DISPATCH_PAYMENT_RETRY'', ''DISPATCH_COMMUNICATION'', ''CREATE_SUPPORT_TASK'', ''AWAIT_VERIFICATION'']) False),
       Column (col ''status'' (Enum_T ''workflowstepstatus'' [''PENDING'', ''SCHEDULED'', ''RUNNING'', ''WAITING'', ''COMPLETED'', ''FAILED'', ''CANCELLED'', ''SKIPPED'']) False),
       Column (col ''idempotency_key'' (String_T 250) False),
       Column (col ''action_type'' (Enum_T ''actiontype'' [''NONE'', ''RETRY_PAYMENT'', ''SEND_REMINDER'', ''REQUEST_OPERATOR_REVIEW'', ''STOP'']) False),
       Column (col ''payload_json'' Json_T False),
       Column (col ''execution_result_json'' Json_T False),
       Column (col ''error_message'' (String_T 500) True),
       Column (col ''executed_at'' (DateTime_T False) True),
       Primary_Key None [''id''],
       Foreign_Key (references [''workflow_id''] ''recovery_workflows'' [''id''] Cascade),
       Unique ''uq_step_workflow_index'' [''workflow_id'', ''step_index''],
       Unique ''uq_step_idempotency_key'' [''idempotency_key'']]
      [(''ix_step_workflow_status'', [''workflow_id'', ''status''])]"

definition model_recovery_executions :: table_def where
  "model_recovery_executions =
     declared ''recovery_executions''
      [Column (col ''id'' Uuid_T False),
       Column (col ''created_at'' (DateTime_T True) False),
       Column (col ''updated_at'' (DateTime_T True) False),
       Column (col ''step_id'' Uuid_T False),
       Column (col ''case_id'' Uuid_T False),
       Column (col ''provider'' (String_T 64) False),
       Column (col ''external_reference'' (String_T 200) True),
       Column (col ''status'' (Enum_T ''executionstatus'' [''SUBMITTED'', ''SUCCEEDED'', ''FAILED'', ''PENDING'', ''UNKNOWN'', ''CANCELLED'']) False),
       Column (col ''amount_minor'' Integer_T False),
       Column (col ''currency'' (String_T 3) False),
       Column (col ''idempotency_key'' (String_T 250) False),
       Column (col ''request_payload_safe'' Json_T False),
       Column (col ''response_payload_safe'' Json_T False),
       Column (col ''error_code'' (String_T 100) True),
       Column (col ''error_message_safe'' (String_T 500) True),
       Column (col ''latency_ms'' Integer_T True),
       Column (col ''executed_at'' (DateTime_T False) False),
       Primary_Key None [''id''],
       Foreign_Key (references [''step_id''] ''workflow_steps'' [''id''] Cascade),
       Foreign_Key (references [''case_id''] ''recovery_cases'' [''id''] Cascade),
       Unique ''uq_recovery_execution_idempotency'' [''idempotency_key'']]
      [(''ix_recovery_execution_case'', [''case_id'']),
       (''ix_recovery_execution_external_ref'', [''external_reference'']),
       (''ix_recovery_execution_status'', [''status''])]"

definition model_tables :: "table_def list" where
  "model_tables =
     [model_customers,
      model_customer_consents,
      model_transactions,
      model_recovery_cases,
      model_recovery_attempts,
      model_agent_decisions,
      model_policy_decisions,
      model_audit_events,
      model_case_state_transitions,
      model_provider_webhook_events,
      model_recovery_evidence,
      model_users,
      model_recovery_workflows,
      model_workflow_steps,
      model_recovery_executions]"

section \<open>Comparison with the migrated schema\<close>

fun type_fits :: "col_type \<Rightarrow> col_type \<Rightarrow> bool" where
  "type_fits (String_T n) ty =
     (case ty of String_T m \<Rightarrow> n = m | Enum_T _ names \<Rightarrow> list_all (\<lambda>m. length m \<le> n) names | _ \<Rightarrow> False)"
| "type_fits (Enum_T _ vals) ty =
     (case ty of Enum_T _ names \<Rightarrow> list_all (\<lambda>m. list_ex (\<lambda>v. length m \<le> length v) vals) names | _ \<Rightarrow> False)"
| "type_fits (DateTime_T tz) ty = (case ty of DateTime_T _ \<Rightarrow> tz | _ \<Rightarrow> False)"
| "type_fits (Numeric_T _) ty = (case ty of Numeric_T _ \<Rightarrow> True | _ \<Rightarrow> False)"
| "type_fits Uuid_T ty = (ty = Uuid_T)"
| "type_fits Json_T ty = (ty = Json_T)"
| "type_fits Integer_T ty = (ty = Integer_T)"
| "type_fits Boolean_T ty = (ty = Boolean_T)"

definition same_elements :: "'a list \<Rightarrow> 'a list \<Rightarrow> bool" where
  "same_elements xs ys = (list_all (\<lambda>x. x \<in> set ys) xs \<and> list_all (\<lambda>y. y \<in> set xs) ys)"

definition column_serves :: "table_def \<Rightarrow> column \<Rightarrow> bool" where
  "column_serves t k =
     (case find (\<lambda>c. cl_name c = cl_name k) (tb_columns t) of
        None \<Rightarrow> False
      | Some c \<Rightarrow> cl_nullable c = cl_nullable k \<and> type_fits (cl_type c) (cl_type k))"

text \<open>A table of the database serves a declared one.\<close>

definition table_serves :: "table_def \<Rightarrow> table_def \<Rightarrow> bool" where
  "table_serves t m =
     (same_elements (column_names t) (column_names m)
        \<and> list_all (column_serves t) (tb_columns m)
        \<and> snd (tb_pk t) = snd (tb_pk m)
        \<and> same_elements (tb_uniques t) (tb_uniques m)
        \<and> same_elements (tb_fks t) (tb_fks m)
        \<and> same_elements (tb_checks t) (tb_checks m)
        \<and> list_all (\<lambda>i. i \<in> set (tb_indexes t)) (tb_indexes m))"

definition schema_serves :: "database \<Rightarrow> table_def list \<Rightarrow> bool" where
  "schema_serves d ms =
     (same_elements (table_names d) (map tb_name ms)
        \<and> list_all (\<lambda>m. case find_table (tb_name m) d of None \<Rightarrow> False | Some t \<Rightarrow> table_serves t m) ms)"

text \<open>Indexes of the database that no model declares.\<close>

definition undeclared_indexes :: "database \<Rightarrow> table_def list \<Rightarrow> string list" where
  "undeclared_indexes d ms = filter (\<lambda>i. i \<notin> set (index_names ms)) (index_names d)"


text \<open>
  The default the migrations give a user's status is the enum's value; the declared column
  stores member names, and has no member of that name.
\<close>

lemma user_status_default_unreadable:
  "case find (\<lambda>k. cl_name k = ''status'') (tb_columns model_users) of
     Some k \<Rightarrow> cl_type k = Enum_T ''userstatus'' [''ACTIVE'', ''SUSPENDED'', ''INACTIVE'']
   | None \<Rightarrow> False"
  by code_simp

end
