(* ===== verification/Evaluation_Report.thy ===== *)
theory Evaluation_Report
  imports Evaluation
begin

text \<open>
  The report of an evaluation run (\<open>backend/app/evaluation/report.py\<close>): the dictionary of a batch as
  JSON, the \<open>default\<close> hook included (a Decimal is written as its text, an enum as its value). Writing
  the text to a path is not modelled. The lemma: a reader of the file can recount the case figures of
  the metrics from the listed results.
\<close>

section \<open>Values\<close>

primrec simulated_result_value :: "simulated_result \<Rightarrow> string" where
  "simulated_result_value Sim_SUCCEEDED = ''succeeded''"
| "simulated_result_value Sim_FAILED = ''failed''"
| "simulated_result_value Sim_TIMEOUT = ''timeout''"
| "simulated_result_value Sim_UNKNOWN = ''unknown''"

primrec failure_kind_value :: "failure_kind \<Rightarrow> string" where
  "failure_kind_value Kind_TIMEOUT = ''timeout''"
| "failure_kind_value Kind_TRANSIENT_API = ''transient_api''"
| "failure_kind_value Kind_PERMANENT_API = ''permanent_api''"
| "failure_kind_value Kind_INVALID_AGENT_OUTPUT = ''invalid_agent_output''"
| "failure_kind_value Kind_UNCERTAIN_OUTCOME = ''uncertain_outcome''"
| "failure_kind_value Kind_DUPLICATE_REQUEST = ''duplicate_request''"
| "failure_kind_value Kind_UNKNOWN = ''unknown''"

primrec disposition_value :: "disposition \<Rightarrow> string" where
  "disposition_value Disp_RETRY = ''retry''"
| "disposition_value Disp_VERIFY = ''verify''"
| "disposition_value Disp_ESCALATE = ''escalate''"
| "disposition_value Disp_STOP = ''stop''"

text \<open>A Decimal of four places, from its ten-thousandths.\<close>

definition decimal_text :: "int \<Rightarrow> string" where
  "decimal_text n =
     (let m = nat \<bar>n\<bar> in
      (if n < 0 then ''-'' else []) @ str_of_nat (m div 10000) @ ''.'' @ pad_left 4 (str_of_nat (m mod 10000)))"

section \<open>The report\<close>

definition metrics_to_dict :: "evaluation_metrics \<Rightarrow> payload" where
  "metrics_to_dict m =
     [(''scenario_count'', JInt (em_scenario_count m)), (''at_risk_count'', JInt (em_at_risk_count m)),
      (''recovered_count'', JInt (em_recovered_count m)),
      (''total_at_risk_revenue_minor'', JInt (em_total_at_risk_revenue_minor m)),
      (''recovered_revenue_minor'', JInt (em_recovered_revenue_minor m)),
      (''revenue_recovery_rate'', JStr (decimal_text (em_revenue_recovery_rate m))),
      (''case_recovery_rate'', JStr (decimal_text (em_case_recovery_rate m))),
      (''action_accuracy'', JStr (decimal_text (em_action_accuracy m))),
      (''safety_rate'', JStr (decimal_text (em_safety_rate m))), (''failure_count'', JInt (em_failure_count m)),
      (''escalation_count'', JInt (em_escalation_count m)),
      (''verification_count'', JInt (em_verification_count m)), (''stopped_count'', JInt (em_stopped_count m)),
      (''rejected_count'', JInt (em_rejected_count m)),
      (''outcome_counts'', JObj (map (\<lambda>(k, n). (k, JInt n)) (em_outcome_counts m)))]"

definition result_entry :: "simulation_result \<Rightarrow> payload" where
  "result_entry r =
     [(''scenario_id'', JStr (sr_id r)), (''amount_minor'', JInt (sr_amount_minor r)),
      (''currency'', JStr (sr_currency r)), (''outcome'', JStr (scenario_outcome_value (sr_outcome r))),
      (''proposed_action'', JStr (action_type_value (sr_proposed_action r))),
      (''expected_action'', JStr (action_type_value (sr_expected_action r))),
      (''policy_outcome'', JStr (policy_outcome_value (sf_outcome (sr_policy_decision r)))),
      (''policy_reason'', JStr (policy_reason_value (sf_reason (sr_policy_decision r)))),
      (''provider_result'', jopt (map_option simulated_result_value (sr_provider_result r))),
      (''recovered'', JBool (sr_recovered r)),
      (''failure_kind'', jopt (map_option failure_kind_value (sr_failure_kind r))),
      (''disposition'', jopt (map_option disposition_value (sr_disposition r))),
      (''was_action_correct'', JBool (sr_was_action_correct r)), (''was_safe'', JBool (sr_was_safe r))]"

definition run_report :: "pydatetime \<Rightarrow> int \<Rightarrow> int \<Rightarrow> py_error + payload" where
  "run_report now seed count =
     ebind (build_scenarios seed count) (\<lambda>scs.
       (let results = run_batch default_safety_config default_resilience_policy now scs
        in Inr [(''seed'', JInt seed), (''rule_version'', JStr ''phase8.v1''),
                (''metrics'', JObj (metrics_to_dict (calculate_metrics results))),
                (''results'', JList (map (\<lambda>r. JObj (result_entry r)) results))]))"

section \<open>Recounting\<close>

fun entries_of :: "json \<Rightarrow> payload list" where
  "entries_of (JList xs) = map (\<lambda>x. case x of JObj d \<Rightarrow> d | _ \<Rightarrow> []) xs"
| "entries_of _ = []"

fun dict_of_json :: "json \<Rightarrow> payload" where
  "dict_of_json (JObj d) = d"
| "dict_of_json _ = []"

definition listed_at_risk :: "payload \<Rightarrow> bool" where
  "listed_at_risk e = (json_get e ''outcome'' \<noteq> JStr ''already_succeeded'')"

definition listed_recovered :: "payload \<Rightarrow> bool" where
  "listed_recovered e = (json_get e ''recovered'' = JBool True)"

lemma report_can_be_recounted:
  assumes "run_report now seed count = Inr rep"
  shows "let es = entries_of (json_get rep ''results''); m = dict_of_json (json_get rep ''metrics'') in
    int (length es) = count
    \<and> json_get m ''scenario_count'' = JInt count
    \<and> json_get m ''at_risk_count'' = JInt (count_if listed_at_risk es)
    \<and> json_get m ''recovered_count'' = JInt (count_if (\<lambda>e. listed_at_risk e \<and> listed_recovered e) es)
    \<and> json_get m ''action_accuracy''
        = JStr (decimal_text (rate (count_if (\<lambda>e. json_get e ''was_action_correct'' = JBool True) es) count))"
proof -
  obtain scs where scs: "build_scenarios seed count = Inr scs" using assms
    by (auto simp: run_report_def err_simps)
  define rs where "rs = run_batch default_safety_config default_resilience_policy now scs"
  have len: "int (length rs) = count" using scs
    by (auto simp: rs_def run_batch_def build_scenarios_def split: if_splits)
  have rep: "rep = [(''seed'', JInt seed), (''rule_version'', JStr ''phase8.v1''),
      (''metrics'', JObj (metrics_to_dict (calculate_metrics rs))),
      (''results'', JList (map (\<lambda>r. JObj (result_entry r)) rs))]"
    using assms scs by (simp add: run_report_def rs_def Let_def)
  have es: "entries_of (json_get rep ''results'') = map result_entry rs"
    by (simp add: rep json_get_def o_def)
  have m: "dict_of_json (json_get rep ''metrics'') = metrics_to_dict (calculate_metrics rs)"
    by (simp add: rep json_get_def)
  have risk: "listed_at_risk (result_entry r) \<longleftrightarrow> sr_outcome r \<noteq> Sc_ALREADY_SUCCEEDED" for r
    by (cases "sr_outcome r") (simp_all add: listed_at_risk_def result_entry_def json_get_def)
  have recovered: "listed_recovered (result_entry r) \<longleftrightarrow> sr_recovered r" for r
    by (simp add: listed_recovered_def result_entry_def json_get_def)
  have correct: "json_get (result_entry r) ''was_action_correct'' = JBool True \<longleftrightarrow> sr_was_action_correct r" for r
    by (simp add: result_entry_def json_get_def)
  show ?thesis unfolding Let_def es m
    by (simp add: len metrics_to_dict_def calculate_metrics_def Let_def json_get_def [of "_ # _"] count_if_def
        filter_map o_def risk recovered correct conj_commute)
qed

end
