(* ===== verification/Reasoning_Provider.thy ===== *)
theory Reasoning_Provider
  imports Agent_Tools
begin

text \<open>
  The structured-output adapter of \<open>backend/app/agents/providers.py\<close> in front of the OpenAI client.

  The client is the parameter \<open>complete\<close>: the content of the first choice, or what the SDK raises; the
  request carries fixed instructions and the dump of the observation. \<open>loads\<close> is \<open>json.loads\<close>, None
  for text that is no JSON, and \<open>fields\<close> reads the members of the decision off a payload with the types
  the schema asks for; the bounds are \<open>mk_decision\<close>.
\<close>

record reasoning_config =
  rg_model :: string
  rg_reasoning_effort :: string
  rg_max_completion_tokens :: int

definition default_reasoning_config :: reasoning_config where
  "default_reasoning_config =
     \<lparr>rg_model = ''gpt-5-mini'', rg_reasoning_effort = ''low'', rg_max_completion_tokens = 1200\<rparr>"

definition system_message :: string where
  "system_message =
     ''You are a bounded revenue-recovery reasoning component. ''
     @ ''Return exactly one JSON decision. Choose only from allowed_actions. ''
     @ ''Never invent tools, amounts, credentials, or actions.''"

record completion_request =
  cq_model :: string
  cq_messages :: "(string \<times> string) list"
  cq_schema_name :: string
  cq_strict :: bool
  cq_max_tokens :: int
  cq_effort :: string

definition completion_of :: "reasoning_config \<Rightarrow> string \<Rightarrow> completion_request" where
  "completion_of cfg dump =
     \<lparr>cq_model = rg_model cfg, cq_messages = [(''system'', system_message), (''user'', dump)],
      cq_schema_name = ''revenue_recovery_decision'', cq_strict = True,
      cq_max_tokens = rg_max_completion_tokens cfg, cq_effort = rg_reasoning_effort cfg\<rparr>"

record provider_client =
  pc_complete :: "completion_request \<Rightarrow> py_error + string option"
  pc_dump :: "observation \<Rightarrow> string"
  pc_loads :: "string \<Rightarrow> json option"
  pc_fields :: "json \<Rightarrow> py_error + decision_output"

definition provider_decide :: "reasoning_config \<Rightarrow> provider_client \<Rightarrow> observation \<Rightarrow> py_error + decision_output" where
  "provider_decide cfg pc obs =
     ebind (pc_complete pc (completion_of cfg (pc_dump pc obs))) (\<lambda>content.
       if \<not> truthy content then Inl (ValueError ''reasoning provider returned empty structured output'')
       else case pc_loads pc (or_empty content) of
              None \<Rightarrow> Inl (ValueError ''reasoning provider returned invalid JSON'')
            | Some j \<Rightarrow> ebind (pc_fields pc j) mk_decision)"

text \<open>Malformed output fails closed: what the brain hands on was one JSON value with an allowed action.\<close>

lemma provider_fails_closed:
  assumes "reason (provider_decide cfg pc) obs = Inr d"
  shows "\<exists>body j raw. pc_complete pc (completion_of cfg (pc_dump pc obs)) = Inr (Some body) \<and> body \<noteq> []
    \<and> pc_loads pc body = Some j \<and> pc_fields pc j = Inr raw
    \<and> do_case_id raw = ob_case_id obs \<and> do_action raw \<in> set (ob_allowed_actions obs)
    \<and> do_case_id d = do_case_id raw \<and> do_action d = do_action raw"
proof -
  obtain raw1 raw2 where 1: "provider_decide cfg pc obs = Inr raw1" and 2: "mk_decision raw1 = Inr raw2"
    and 3: "validate_decision raw2 obs = Inr d"
    using assms by (auto simp: reason_def err_simps)
  obtain body j raw where *: "pc_complete pc (completion_of cfg (pc_dump pc obs)) = Inr (Some body)" "body \<noteq> []"
    "pc_loads pc body = Some j" "pc_fields pc j = Inr raw" and m: "mk_decision raw = Inr raw1"
  proof -
    obtain content where c: "pc_complete pc (completion_of cfg (pc_dump pc obs)) = Inr content" "truthy content"
      "(case pc_loads pc (or_empty content) of
          None \<Rightarrow> Inl (ValueError ''reasoning provider returned invalid JSON'')
        | Some j \<Rightarrow> ebind (pc_fields pc j) mk_decision) = Inr raw1"
      using 1 by (auto simp: provider_decide_def err_simps split: if_splits)
    obtain body where t: "content = Some body" "body \<noteq> []" using c(2) by (cases content) auto
    show thesis using c t that by (auto simp: or_empty_def err_simps split: option.splits)
  qed
  have same: "do_case_id y = do_case_id x \<and> do_action y = do_action x" if "mk_decision x = Inr y" for x y
    using that by (auto simp: mk_decision_def split: if_splits)
  have d: "do_case_id raw2 = ob_case_id obs" "do_action raw2 \<in> set (ob_allowed_actions obs)" "mk_decision raw2 = Inr d"
    using 3 by (auto simp: validate_decision_def split: if_splits)
  show ?thesis using * d same [OF m] same [OF 2] same [OF d(3)] by (intro exI [of _ body] exI [of _ j] exI [of _ raw]) simp
qed

end
